(* ===== verification/Prelude.thy ===== *)
theory Prelude
  imports Main "HOL-Library.AList" "HOL-Library.Word"
begin

text \<open>
  What every component of the model shares: the Go integer types at their width, the values
  the server writes as JSON (\<open>internal.A\<close>, a \<open>[]any\<close>), Go's built-in maps as association
  lists, 64-bit \<open>int\<close> arithmetic with its wrap-around, slices with their bounds checks, and
  the outcome of code that may panic.

  A Go map is an association list with distinct keys.  Go leaves the iteration order of a map
  unspecified: the order of the list stands for the order one iteration happens to take, and the
  lemmas of the development hold for every such list.
\<close>

section \<open>Machine integers\<close>

type_synonym int8 = "8 word"
type_synonym uint8 = "8 word"
type_synonym uint16 = "16 word"
type_synonym int32 = "32 word"
type_synonym uint32 = "32 word"
type_synonym int64 = "64 word"
type_synonym uint64 = "64 word"

text \<open>Go's \<open>int\<close> has 64 bits: sums wrap around.\<close>

definition wrap64 :: "int \<Rightarrow> int" where
  "wrap64 x = (x + 2 ^ 63) mod 2 ^ 64 - 2 ^ 63"

definition is_int64 :: "int \<Rightarrow> bool" where
  "is_int64 x \<longleftrightarrow> - (2 ^ 63) \<le> x \<and> x < 2 ^ 63"

lemma wrap64_id [simp]: "is_int64 x \<Longrightarrow> wrap64 x = x"
  by (simp add: wrap64_def is_int64_def)

lemma is_int64_wrap64 [simp]: "is_int64 (wrap64 x)"
proof -
  have "0 \<le> (x + 2 ^ 63) mod 2 ^ 64" and "(x + 2 ^ 63) mod 2 ^ 64 < (2 :: int) ^ 64"
    by (rule pos_mod_sign, simp) (rule pos_mod_bound, simp)
  then show ?thesis by (simp add: wrap64_def is_int64_def)
qed

section \<open>JSON values\<close>

text \<open>
  What \<open>internal.JSON\<close> serialises.  Every Go integer is a JSON number, a nil slice, pointer or
  interface is \<open>null\<close>, and \<open>internal.BoolMappedNumber\<close> serialises to its number.  \<open>JText v\<close> is a
  JSON string whose characters are the JSON text of \<open>v\<close>.
\<close>

datatype jv =
    JNull
  | JInt int
  | JStr string
  | JBool bool
  | JArr "jv list"
  | JObj "(string \<times> jv) list"
  | JText jv

type_synonym goA = "jv list"

abbreviation j32 :: "int32 \<Rightarrow> jv" where "j32 x \<equiv> JInt (sint x)"
abbreviation ju32 :: "uint32 \<Rightarrow> jv" where "ju32 x \<equiv> JInt (uint x)"

text \<open>A slice that may be nil: \<open>None\<close> is the nil slice.\<close>

definition jslice :: "goA option \<Rightarrow> jv" where
  "jslice s = (case s of None \<Rightarrow> JNull | Some xs \<Rightarrow> JArr xs)"

definition jstrptr :: "string option \<Rightarrow> jv" where
  "jstrptr s = (case s of None \<Rightarrow> JNull | Some x \<Rightarrow> JStr x)"

text \<open>\<open>append\<close> on a slice that may be nil.\<close>

definition slice_append :: "'a list option \<Rightarrow> 'a \<Rightarrow> 'a list option" where
  "slice_append s x = (case s of None \<Rightarrow> Some [x] | Some xs \<Rightarrow> Some (xs @ [x]))"

section \<open>Numbers that stand for booleans\<close>

text \<open>\<open>NumberToBool\<close> and \<open>NewBoolMappedNumberFromBool\<close> (serialised) of \<open>boolInt.go\<close>.\<close>

definition NumberToBool :: "int \<Rightarrow> bool" where
  "NumberToBool v \<longleftrightarrow> v \<noteq> 0"

definition NewBoolMappedNumberFromBool :: "bool \<Rightarrow> int" where
  "NewBoolMappedNumberFromBool v = (if \<not> v then 0 else 1)"

abbreviation jbool :: "bool \<Rightarrow> jv" where "jbool b \<equiv> JInt (NewBoolMappedNumberFromBool b)"

lemma NumberToBool_FromBool [simp]: "NumberToBool (NewBoolMappedNumberFromBool b) = b"
  by (simp add: NumberToBool_def NewBoolMappedNumberFromBool_def)

section \<open>Game titles\<close>

definition AoE1 :: string where "AoE1 = ''age1''"
definition AoE2 :: string where "AoE2 = ''age2''"
definition AoE3 :: string where "AoE3 = ''age3''"
definition AoE4 :: string where "AoE4 = ''age4''"
definition AoM :: string where "AoM = ''athens''"

lemmas titles = AoE1_def AoE2_def AoE3_def AoE4_def AoM_def

lemma titles_distinct: "distinct [AoE1, AoE2, AoE3, AoE4, AoM]"
  by (simp add: titles)

section \<open>Decimal printing\<close>

definition digit_char :: "nat \<Rightarrow> char" where
  "digit_char d = char_of (48 + d)"

fun nat_digits :: "nat \<Rightarrow> string" where
  "nat_digits n = (if n < 10 then [digit_char n] else nat_digits (n div 10) @ [digit_char (n mod 10)])"

declare nat_digits.simps [simp del]

text \<open>\<open>strconv.Itoa\<close> and \<open>strconv.FormatInt(_, 10)\<close>; \<open>strconv.FormatUint(_, 10)\<close>.\<close>

definition itoa :: "int \<Rightarrow> string" where
  "itoa i = (if i < 0 then CHR ''-'' # nat_digits (nat (- i)) else nat_digits (nat i))"

definition utoa :: "uint64 \<Rightarrow> string" where
  "utoa w = nat_digits (unat w)"

section \<open>Slices\<close>

text \<open>
  \<open>xs[a:b]\<close> panics unless \<open>0 \<le> a \<le> b \<le> len(xs)\<close> (the capacity of the slices the server cuts is
  not relied on): \<open>None\<close> is the panic.
\<close>

definition go_slice :: "int \<Rightarrow> int \<Rightarrow> 'a list \<Rightarrow> 'a list option" where
  "go_slice a b xs =
     (if 0 \<le> a \<and> a \<le> b \<and> b \<le> int (length xs)
      then Some (take (nat (b - a)) (drop (nat a) xs)) else None)"

text \<open>Adding at the end what is not in a list yet.\<close>

definition add_end :: "'a \<Rightarrow> 'a list \<Rightarrow> 'a list" where
  "add_end x xs = (if x \<in> set xs then xs else xs @ [x])"

text \<open>\<open>slices.Delete(s, i, j)\<close> on indices that are in range.\<close>

definition slices_Delete :: "nat \<Rightarrow> nat \<Rightarrow> 'a list \<Rightarrow> 'a list" where
  "slices_Delete i j xs = take i xs @ drop j xs"

section \<open>Outcomes\<close>

text \<open>
  Code that may panic returns \<open>Panic\<close> or its value; what it had changed by then stays changed
  (\<open>net/http\<close> recovers a handler's panic and goes on serving), so the handlers below return the
  state beside the outcome.
\<close>

datatype 'a outcome = Panic | Ret 'a

section \<open>Named collections\<close>

named_theorems model_defs \<open>equations of the model unfolded by case analysis on a handler\<close>
named_theorems inv_intros \<open>preservation of the components' invariants\<close>

section \<open>Association lists\<close>

abbreviation keys_distinct :: "('k \<times> 'v) list \<Rightarrow> bool" where
  "keys_distinct al \<equiv> distinct (map fst al)"

text \<open>Lookups stay lookups: no rewriting to membership of a pair.\<close>

declare map_of_eq_Some_iff [simp del] Some_eq_map_of_iff [simp del]

lemma map_of_update [simp]: "map_of (AList.update k v al) = (map_of al)(k \<mapsto> v)"
  by (rule AList.update_conv')

lemma map_of_delete_fun [simp]: "map_of (AList.delete k al) = (map_of al)(k := None)"
  by (rule AList.delete_conv')

lemma keys_distinct_update [simp]: "keys_distinct al \<Longrightarrow> keys_distinct (AList.update k v al)"
  by (rule AList.distinct_update)

lemma keys_distinct_delete [simp]: "keys_distinct al \<Longrightarrow> keys_distinct (AList.delete k al)"
  by (rule AList.distinct_delete)

lemma update_new: "k \<notin> fst ` set al \<Longrightarrow> AList.update k v al = al @ [(k, v)]"
  by (induction al) auto

lemma length_update_new: "k \<notin> fst ` set al \<Longrightarrow> length (AList.update k v al) = Suc (length al)"
  by (simp add: update_new)

lemma length_delete_mem:
  "keys_distinct al \<Longrightarrow> k \<in> fst ` set al \<Longrightarrow> length (AList.delete k al) = length al - 1"
proof -
  assume "keys_distinct al" and "k \<in> fst ` set al"
  then have "length (removeAll k (map fst al)) = length (map fst al) - 1"
    by (simp add: distinct_remove1_removeAll [symmetric] length_remove1)
  then have "length (map fst (AList.delete k al)) = length al - 1"
    by (simp add: AList.delete_keys)
  then show ?thesis by simp
qed

lemma map_of_map_snd: "map_of (map (\<lambda>(k, v). (k, f v)) al) k = map_option f (map_of al k)"
  by (induction al) auto

lemma map_fst_map_snd [simp]: "map fst (map (\<lambda>(k, v). (k, f v)) al) = map fst al"
  by (induction al) auto

lemma dom_map_of: "dom (map_of al) = fst ` set al"
  by (rule dom_map_of_conv_image_fst)

text \<open>Values of an association list changed in place at one key, as writes through a pointer are.\<close>

definition al_modify :: "'k \<Rightarrow> ('v \<Rightarrow> 'v) \<Rightarrow> ('k \<times> 'v) list \<Rightarrow> ('k \<times> 'v) list" where
  "al_modify k f al = map (\<lambda>(k', v). (k', if k' = k then f v else v)) al"

lemma map_fst_al_modify [simp]: "map fst (al_modify k f al) = map fst al"
  by (induction al) (auto simp: al_modify_def)

lemma keys_al_modify [simp]: "fst ` set (al_modify k f al) = fst ` set al"
  by (metis list.set_map map_fst_al_modify)

lemma map_of_al_modify:
  "map_of (al_modify k f al) k' = (if k' = k then map_option f (map_of al k') else map_of al k')"
  by (induction al) (auto simp: al_modify_def)

lemma length_al_modify [simp]: "length (al_modify k f al) = length al"
  by (simp add: al_modify_def)

section \<open>Lists\<close>

text \<open>The first element that satisfies a test: the shape of every \<open>for range\<close> search.\<close>

lemma find_Some_mem: "List.find P xs = Some x \<Longrightarrow> x \<in> set xs \<and> P x"
  by (induction xs) (auto split: if_splits)

lemma find_None: "List.find P xs = None \<longleftrightarrow> (\<forall>x\<in>set xs. \<not> P x)"
  by (induction xs) auto

lemma find_unique:
  assumes "x \<in> set xs" and "P x" and u: "\<And>y. y \<in> set xs \<Longrightarrow> P y \<Longrightarrow> y = x"
  shows "List.find P xs = Some x"
proof (cases "List.find P xs")
  case None
  then show ?thesis using assms(1,2) by (simp add: find_None)
next
  case (Some y)
  then have "y \<in> set xs \<and> P y" by (rule find_Some_mem)
  with u have "y = x" by blast
  with Some show ?thesis by simp
qed

lemma distinct_take_drop: "distinct xs \<Longrightarrow> distinct (take i xs @ drop (Suc i) xs)"
proof -
  assume d: "distinct xs"
  have "set (take i xs) \<inter> set (drop (Suc i) xs) = {}"
    using d by (rule set_take_disj_set_drop_if_distinct) simp
  with d show ?thesis by simp
qed

lemma set_take_drop_nth:
  assumes "distinct xs" and "i < length xs"
  shows "set (take i xs @ drop (Suc i) xs) = set xs - {xs ! i}"
proof -
  have "xs = take i xs @ xs ! i # drop (Suc i) xs" using assms(2) by (rule id_take_nth_drop)
  moreover from calculation assms(1) have "distinct (take i xs @ xs ! i # drop (Suc i) xs)" by simp
  ultimately show ?thesis by (metis Diff_insert_absorb Un_insert_right distinct.simps(2)
    distinct_append list.simps(15) set_append Un_iff disjoint_insert(1))
qed

end
