(* ===== verification/SafeMaps.thy ===== *)
theory SafeMaps
  imports Prelude
begin

text \<open>
  \<open>SafeMap\<close> and \<open>SafeSet\<close> of \<open>server/internal/Map.go\<close>: a map written under a lock (\<open>wo\<close>) and a
  clone of it (\<open>ro\<close>) that readers load without the lock, swapped in after every write.  The
  locale \<open>keyed_store\<close> is the interface the components rely on; the section on \<open>SafeMap\<close>
  interprets it.
\<close>

section \<open>The interface of a keyed store\<close>

text \<open>
  \<open>put\<close> is a store that replaces, \<open>ins\<close> a store that keeps what is there (the two callbacks the
  callers pass), \<open>remove\<close> a delete.
\<close>

locale keyed_store =
  fixes wf :: "'s \<Rightarrow> bool"
    and look :: "'s \<Rightarrow> 'k \<Rightarrow> 'v option"
    and put :: "'k \<Rightarrow> 'v \<Rightarrow> 's \<Rightarrow> 's"
    and ins :: "'k \<Rightarrow> 'v \<Rightarrow> 's \<Rightarrow> 's"
    and remove :: "'k \<Rightarrow> 's \<Rightarrow> 's"
  assumes wf_put: "wf s \<Longrightarrow> wf (put k v s)"
    and wf_ins: "wf s \<Longrightarrow> wf (ins k v s)"
    and wf_remove: "wf s \<Longrightarrow> wf (remove k s)"
    and look_put: "wf s \<Longrightarrow> look (put k v s) = (look s)(k \<mapsto> v)"
    and look_ins: "wf s \<Longrightarrow> look (ins k v s) = (if look s k = None then (look s)(k \<mapsto> v) else look s)"
    and look_remove: "wf s \<Longrightarrow> look (remove k s) = (look s)(k := None)"
begin

lemma ins_keeps: "wf s \<Longrightarrow> look s k' = Some v' \<Longrightarrow> look (ins k v s) k' = Some v'"
  by (auto simp: look_ins)

lemma ins_present: "wf s \<Longrightarrow> look (ins k v s) k \<noteq> None"
  by (auto simp: look_ins)

lemma put_put_other: "wf s \<Longrightarrow> k \<noteq> k' \<Longrightarrow> look (put k v (put k' v' s)) = look (put k' v' (put k v s))"
  by (simp add: look_put wf_put fun_upd_twist)

lemma remove_put_same: "wf s \<Longrightarrow> look (remove k (put k v s)) = look (remove k s)"
  by (simp add: look_put look_remove wf_put)

lemma look_remove_other: "wf s \<Longrightarrow> k' \<noteq> k \<Longrightarrow> look (remove k s) k' = look s k'"
  by (simp add: look_remove)

lemma dom_remove: "wf s \<Longrightarrow> dom (look (remove k s)) = dom (look s) - {k}"
  by (auto simp: look_remove)

lemma wf_fold_put: "wf s \<Longrightarrow> wf (fold (\<lambda>(k, v). put k v) kvs s)"
  by (induction kvs arbitrary: s) (auto simp: wf_put)

lemma wf_fold_remove: "wf s \<Longrightarrow> wf (fold remove ks s)"
  by (induction ks arbitrary: s) (auto simp: wf_remove)

lemma look_fold_remove:
  "wf s \<Longrightarrow> look (fold remove ks s) k = (if k \<in> set ks then None else look s k)"
  by (induction ks arbitrary: s) (auto simp: wf_remove look_remove)

end

section \<open>SafeMap\<close>

record ('k, 'v) SafeMap =
  wo :: "('k \<times> 'v) list"
  ro :: "('k \<times> 'v) list"

definition SafeMap_updateReadOnly :: "('k, 'v) SafeMap \<Rightarrow> ('k, 'v) SafeMap" where
  "SafeMap_updateReadOnly m = m\<lparr>ro := wo m\<rparr>"

definition NewSafeMap :: "('k, 'v) SafeMap" where
  "NewSafeMap = SafeMap_updateReadOnly \<lparr>wo = [], ro = []\<rparr>"

definition SafeMap_Load :: "('k, 'v) SafeMap \<Rightarrow> 'k \<Rightarrow> 'v option" where
  "SafeMap_Load m key = map_of (ro m) key"

definition SafeMap_StoreAndDelete :: "'k \<Rightarrow> 'v \<Rightarrow> 'k \<Rightarrow> ('k, 'v) SafeMap \<Rightarrow> ('k, 'v) SafeMap" where
  "SafeMap_StoreAndDelete storeKey storeValue deleteKey m =
     (let m1 = m\<lparr>wo := AList.update storeKey storeValue (wo m)\<rparr>;
          m2 = m1\<lparr>wo := AList.delete deleteKey (wo m1)\<rparr>
      in SafeMap_updateReadOnly m2)"

text \<open>\<open>replace\<close> is the callback; \<open>None\<close> is a nil callback.  The results are \<open>(stored, exists)\<close>.\<close>

definition SafeMap_Store ::
    "'k \<Rightarrow> 'v \<Rightarrow> ('v \<Rightarrow> bool) option \<Rightarrow> ('k, 'v) SafeMap \<Rightarrow> ('v \<times> bool) \<times> ('k, 'v) SafeMap" where
  "SafeMap_Store key value replace m =
     (let rep = (case replace of None \<Rightarrow> (\<lambda>_. True) | Some f \<Rightarrow> f)
      in case map_of (wo m) key of
           None \<Rightarrow>
             ((value, False), SafeMap_updateReadOnly (m\<lparr>wo := AList.update key value (wo m)\<rparr>))
         | Some stored \<Rightarrow>
             if rep stored
             then ((value, True), SafeMap_updateReadOnly (m\<lparr>wo := AList.update key value (wo m)\<rparr>))
             else ((stored, True), m))"

definition SafeMap_Delete :: "'k \<Rightarrow> ('k, 'v) SafeMap \<Rightarrow> ('k, 'v) SafeMap" where
  "SafeMap_Delete key m = SafeMap_updateReadOnly (m\<lparr>wo := AList.delete key (wo m)\<rparr>)"

definition SafeMap_CompareAndDelete ::
    "'k \<Rightarrow> ('v \<Rightarrow> bool) option \<Rightarrow> ('k, 'v) SafeMap \<Rightarrow> bool \<times> ('k, 'v) SafeMap" where
  "SafeMap_CompareAndDelete key compareFunc m =
     (let cmp = (case compareFunc of None \<Rightarrow> (\<lambda>_. False) | Some f \<Rightarrow> f)
      in case map_of (wo m) key of
           None \<Rightarrow> (False, m)
         | Some current \<Rightarrow>
             if cmp current
             then (True, SafeMap_updateReadOnly (m\<lparr>wo := AList.delete key (wo m)\<rparr>))
             else (False, m))"

text \<open>\<open>valueFn\<close> is called only when the key is absent.  The results are \<open>(actual, loaded)\<close>.\<close>

definition SafeMap_LoadOrStoreFn ::
    "'k \<Rightarrow> (unit \<Rightarrow> 'v) \<Rightarrow> ('k, 'v) SafeMap \<Rightarrow> ('v \<times> bool) \<times> ('k, 'v) SafeMap" where
  "SafeMap_LoadOrStoreFn key valueFn m =
     (case map_of (wo m) key of
        Some actual \<Rightarrow> ((actual, True), m)
      | None \<Rightarrow>
          let value = valueFn ()
          in ((value, False), SafeMap_updateReadOnly (m\<lparr>wo := AList.update key value (wo m)\<rparr>)))"

definition SafeMap_Values :: "('k, 'v) SafeMap \<Rightarrow> 'v list" where
  "SafeMap_Values m = map snd (ro m)"

definition SafeMap_Iter :: "('k, 'v) SafeMap \<Rightarrow> ('k \<times> 'v) list" where
  "SafeMap_Iter m = ro m"

definition SafeMap_Len :: "('k, 'v) SafeMap \<Rightarrow> nat" where
  "SafeMap_Len m = length (ro m)"

text \<open>
  The values the server keeps in its maps are often pointers.  A write through such a pointer is
  visible in the written map and in its clone alike.
\<close>

definition SafeMap_modify :: "'k \<Rightarrow> ('v \<Rightarrow> 'v) \<Rightarrow> ('k, 'v) SafeMap \<Rightarrow> ('k, 'v) SafeMap" where
  "SafeMap_modify k f m = m\<lparr>wo := al_modify k f (wo m), ro := al_modify k f (ro m)\<rparr>"

subsection \<open>Invariant and laws\<close>

definition SafeMap_wf :: "('k, 'v) SafeMap \<Rightarrow> bool" where
  "SafeMap_wf m \<longleftrightarrow> ro m = wo m \<and> keys_distinct (wo m)"

lemmas SafeMap_defs =
  SafeMap_wf_def SafeMap_updateReadOnly_def SafeMap_Load_def SafeMap_Delete_def
  SafeMap_StoreAndDelete_def SafeMap_modify_def Let_def

abbreviation SafeMap_put :: "'k \<Rightarrow> 'v \<Rightarrow> ('k, 'v) SafeMap \<Rightarrow> ('k, 'v) SafeMap" where
  "SafeMap_put k v m \<equiv> snd (SafeMap_Store k v (Some (\<lambda>_. True)) m)"

abbreviation SafeMap_ins :: "'k \<Rightarrow> 'v \<Rightarrow> ('k, 'v) SafeMap \<Rightarrow> ('k, 'v) SafeMap" where
  "SafeMap_ins k v m \<equiv> snd (SafeMap_Store k v (Some (\<lambda>_. False)) m)"

lemma SafeMap_wf_new [simp]: "SafeMap_wf NewSafeMap"
  by (simp add: NewSafeMap_def SafeMap_defs)

lemma SafeMap_Load_new [simp]: "SafeMap_Load NewSafeMap k = None"
  by (simp add: NewSafeMap_def SafeMap_defs)

lemma SafeMap_wf_Store [simp, inv_intros]: "SafeMap_wf m \<Longrightarrow> SafeMap_wf (snd (SafeMap_Store k v r m))"
  by (auto simp: SafeMap_Store_def SafeMap_defs split: option.splits)

lemma SafeMap_wf_Delete [simp, inv_intros]: "SafeMap_wf m \<Longrightarrow> SafeMap_wf (SafeMap_Delete k m)"
  by (simp add: SafeMap_defs)

lemma SafeMap_wf_StoreAndDelete [simp, inv_intros]:
  "SafeMap_wf m \<Longrightarrow> SafeMap_wf (SafeMap_StoreAndDelete k v d m)"
  by (simp add: SafeMap_defs)

lemma SafeMap_wf_CompareAndDelete [simp, inv_intros]:
  "SafeMap_wf m \<Longrightarrow> SafeMap_wf (snd (SafeMap_CompareAndDelete k c m))"
  by (auto simp: SafeMap_CompareAndDelete_def SafeMap_defs split: option.splits)

lemma SafeMap_wf_LoadOrStoreFn [simp, inv_intros]:
  "SafeMap_wf m \<Longrightarrow> SafeMap_wf (snd (SafeMap_LoadOrStoreFn k f m))"
  by (auto simp: SafeMap_LoadOrStoreFn_def SafeMap_defs split: option.splits)

lemma SafeMap_wf_modify [simp, inv_intros]: "SafeMap_wf m \<Longrightarrow> SafeMap_wf (SafeMap_modify k f m)"
  by (simp add: SafeMap_defs)

lemma SafeMap_Load_Store:
  "SafeMap_wf m \<Longrightarrow> SafeMap_Load (snd (SafeMap_Store k v r m)) =
     (case SafeMap_Load m k of
        None \<Rightarrow> (SafeMap_Load m)(k \<mapsto> v)
      | Some old \<Rightarrow> if (case r of None \<Rightarrow> True | Some f \<Rightarrow> f old)
                   then (SafeMap_Load m)(k \<mapsto> v) else SafeMap_Load m)"
  by (rule ext) (auto simp: SafeMap_Store_def SafeMap_defs split: option.splits)

lemma SafeMap_Load_Delete:
  "SafeMap_wf m \<Longrightarrow> SafeMap_Load (SafeMap_Delete k m) = (SafeMap_Load m)(k := None)"
  by (rule ext) (simp add: SafeMap_defs)

lemma SafeMap_Load_modify:
  "SafeMap_Load (SafeMap_modify k f m) k' =
     (if k' = k then map_option f (SafeMap_Load m k') else SafeMap_Load m k')"
  by (simp add: SafeMap_defs map_of_al_modify)

lemma SafeMap_CompareAndDelete_spec:
  assumes "SafeMap_wf m"
  shows "SafeMap_CompareAndDelete k (Some c) m =
     (if \<exists>v. SafeMap_Load m k = Some v \<and> c v then (True, SafeMap_Delete k m) else (False, m))"
  using assms by (auto simp: SafeMap_CompareAndDelete_def SafeMap_defs split: option.splits)

lemma SafeMap_LoadOrStoreFn_spec:
  assumes "SafeMap_wf m"
  shows "SafeMap_LoadOrStoreFn k f m =
     (case SafeMap_Load m k of Some v \<Rightarrow> ((v, True), m) | None \<Rightarrow> ((f (), False), SafeMap_put k (f ()) m))"
  using assms by (auto simp: SafeMap_LoadOrStoreFn_def SafeMap_Store_def SafeMap_defs split: option.splits)

lemma SafeMap_Values_mem:
  assumes "SafeMap_wf m"
  shows "v \<in> set (SafeMap_Values m) \<longleftrightarrow> (\<exists>k. SafeMap_Load m k = Some v)"
proof -
  have "v \<in> set (SafeMap_Values m) \<longleftrightarrow> (\<exists>k. (k, v) \<in> set (wo m))"
    using assms by (force simp: SafeMap_Values_def SafeMap_wf_def)
  with assms show ?thesis by (simp add: SafeMap_Load_def SafeMap_wf_def map_of_eq_Some_iff)
qed

lemma SafeMap_Iter_mem:
  "SafeMap_wf m \<Longrightarrow> (k, v) \<in> set (SafeMap_Iter m) \<longleftrightarrow> SafeMap_Load m k = Some v"
  by (simp add: SafeMap_Iter_def SafeMap_Load_def SafeMap_wf_def map_of_eq_Some_iff)

interpretation sm: keyed_store SafeMap_wf SafeMap_Load SafeMap_put SafeMap_ins SafeMap_Delete
  by unfold_locales
    (simp_all add: SafeMap_Load_Store SafeMap_Load_Delete fun_eq_iff split: option.splits)

text \<open>
  \<open>StoreAndDelete\<close> is the two writes in one critical section.  Its delete comes last, so with one
  key for both the stored value is lost: the caller (\<open>wss.Handle\<close>) tests that they differ.
\<close>

lemma SafeMap_Load_StoreAndDelete:
  "SafeMap_wf m \<Longrightarrow>
     SafeMap_Load (SafeMap_StoreAndDelete k v d m) = (SafeMap_Load m)(k \<mapsto> v, d := None)"
  by (rule ext) (simp add: SafeMap_defs)

section \<open>SafeSet\<close>

type_synonym 'v SafeSet = "('v, unit) SafeMap"

definition NewSafeSet :: "'v SafeSet" where
  "NewSafeSet = NewSafeMap"

definition SafeSet_Delete :: "'v \<Rightarrow> 'v SafeSet \<Rightarrow> bool \<times> 'v SafeSet" where
  "SafeSet_Delete value s = SafeMap_CompareAndDelete value (Some (\<lambda>_. True)) s"

definition SafeSet_Store :: "'v \<Rightarrow> 'v SafeSet \<Rightarrow> bool \<times> 'v SafeSet" where
  "SafeSet_Store value s =
     (let ((_, ex), s') = SafeMap_Store value () (Some (\<lambda>_. False)) s in (\<not> ex, s'))"

text \<open>\<open>Len\<close> accepts a nil pointer.\<close>

definition SafeSet_Len :: "'v SafeSet option \<Rightarrow> nat" where
  "SafeSet_Len s = (case s of None \<Rightarrow> 0 | Some m \<Rightarrow> SafeMap_Len m)"

text \<open>The set a \<open>SafeSet\<close> stands for.\<close>

definition SafeSet_elems :: "'v SafeSet \<Rightarrow> 'v set" where
  "SafeSet_elems s = dom (SafeMap_Load s)"

lemma SafeSet_elems_new [simp]: "SafeSet_elems NewSafeSet = {}"
  by (auto simp: SafeSet_elems_def NewSafeSet_def)

lemma SafeSet_Store_spec:
  assumes "SafeMap_wf s"
  shows "fst (SafeSet_Store v s) \<longleftrightarrow> v \<notin> SafeSet_elems s"
    and "SafeSet_elems (snd (SafeSet_Store v s)) = insert v (SafeSet_elems s)"
    and "SafeMap_wf (snd (SafeSet_Store v s))"
  using assms
  by (auto simp: SafeSet_Store_def SafeSet_elems_def SafeMap_Store_def SafeMap_defs
      split: option.splits if_splits)

lemma SafeSet_Delete_spec:
  assumes "SafeMap_wf s"
  shows "fst (SafeSet_Delete v s) \<longleftrightarrow> v \<in> SafeSet_elems s"
    and "SafeSet_elems (snd (SafeSet_Delete v s)) = SafeSet_elems s - {v}"
    and "SafeMap_wf (snd (SafeSet_Delete v s))"
  using assms
  by (auto simp: SafeSet_Delete_def SafeSet_elems_def SafeMap_CompareAndDelete_spec SafeMap_Load_Delete
      dom_def)

lemma SafeSet_Len_card:
  assumes "SafeMap_wf s"
  shows "SafeSet_Len (Some s) = card (SafeSet_elems s)"
proof -
  have "card (fst ` set (wo s)) = length (map fst (wo s))"
    using assms distinct_card [of "map fst (wo s)"] by (simp add: SafeMap_wf_def)
  with assms show ?thesis
    by (simp add: SafeSet_Len_def SafeMap_Len_def SafeSet_elems_def SafeMap_wf_def dom_map_of
        SafeMap_Load_def [abs_def])
qed

section \<open>Properties\<close>

text \<open>
  Readers always see the last write.  Every operation that writes a \<open>SafeMap\<close> leaves the
  lock-free snapshot equal to the map under the lock, so a \<open>Load\<close> after a \<open>Store\<close> returns the value
  \<open>Store\<close> reports as stored, and after a \<open>Delete\<close> finds nothing; other keys are not disturbed.
\<close>

lemma SafeMap_read_your_writes:
  assumes "SafeMap_wf m"
  shows "SafeMap_Load (snd (SafeMap_Store k v r m)) k = Some (fst (fst (SafeMap_Store k v r m)))
    \<and> snd (fst (SafeMap_Store k v r m)) = (SafeMap_Load m k \<noteq> None)
    \<and> (k' \<noteq> k \<longrightarrow> SafeMap_Load (snd (SafeMap_Store k v r m)) k' = SafeMap_Load m k')
    \<and> SafeMap_Load (SafeMap_Delete k m) = (SafeMap_Load m)(k := None)
    \<and> SafeMap_wf (snd (SafeMap_Store k v r m)) \<and> SafeMap_wf (SafeMap_Delete k m)"
  using assms by (auto simp: SafeMap_Store_def SafeMap_defs fun_eq_iff split: option.splits)

end
