(* ===== verification/OrderedMaps.thy ===== *)
theory OrderedMaps
  imports SafeMaps
begin

text \<open>
  \<open>ReadOnlyOrderedMap\<close> and \<open>SafeOrderedMap\<close> of \<open>server/internal/Map.go\<close>.  A \<open>SafeOrderedMap\<close> keeps
  the bindings (\<open>internal\<close>), the keys in the order they were first stored (\<open>keys\<close>), the position of
  every key in that list (\<open>keyMap\<close>) and a clone of the first two for readers.  Its abstraction is the
  list of pairs in insertion order; \<open>ordered_store\<close> is the interface the advertisements, the peers
  and the chat channels rely on.
\<close>

section \<open>ReadOnlyOrderedMap\<close>

record ('k, 'v) ReadOnlyOrderedMap =
  rom_internal :: "('k \<times> 'v) list"
  rom_keys :: "'k list"

definition NewReadOnlyOrderedMap :: "'k list \<Rightarrow> ('k \<times> 'v) list \<Rightarrow> ('k, 'v) ReadOnlyOrderedMap" where
  "NewReadOnlyOrderedMap keyOrder mapping = \<lparr>rom_internal = mapping, rom_keys = keyOrder\<rparr>"

definition ReadOnlyOrderedMap_Load :: "('k, 'v) ReadOnlyOrderedMap \<Rightarrow> 'k \<Rightarrow> 'v option" where
  "ReadOnlyOrderedMap_Load m key = map_of (rom_internal m) key"

definition ReadOnlyOrderedMap_Len :: "('k, 'v) ReadOnlyOrderedMap \<Rightarrow> nat" where
  "ReadOnlyOrderedMap_Len m = length (rom_keys m)"

text \<open>A key that is not bound would yield the zero value; the constructors bind every key.\<close>

definition ReadOnlyOrderedMap_Iter :: "('k, 'v) ReadOnlyOrderedMap \<Rightarrow> ('k \<times> 'v) list" where
  "ReadOnlyOrderedMap_Iter m = map (\<lambda>k. (k, the (map_of (rom_internal m) k))) (rom_keys m)"

definition ReadOnlyOrderedMap_Values :: "('k, 'v) ReadOnlyOrderedMap \<Rightarrow> 'v list" where
  "ReadOnlyOrderedMap_Values m = map (\<lambda>k. the (map_of (rom_internal m) k)) (rom_keys m)"

section \<open>SafeOrderedMap\<close>

record ('k, 'v) SafeOrderedMap =
  internal :: "('k \<times> 'v) list"
  keys :: "'k list"
  keyMap :: "('k \<times> nat) list"
  ro_internal :: "('k \<times> 'v) list"
  ro_keys :: "'k list"

definition SafeOrderedMap_updateReadOnly :: "('k, 'v) SafeOrderedMap \<Rightarrow> ('k, 'v) SafeOrderedMap" where
  "SafeOrderedMap_updateReadOnly m = m\<lparr>ro_internal := internal m, ro_keys := keys m\<rparr>"

definition NewSafeOrderedMap :: "('k, 'v) SafeOrderedMap" where
  "NewSafeOrderedMap = SafeOrderedMap_updateReadOnly
     \<lparr>internal = [], keys = [], keyMap = [], ro_internal = [], ro_keys = []\<rparr>"

text \<open>The results are \<open>(stored, storedValue)\<close>: \<open>stored\<close> says that the key was there before.\<close>

definition SafeOrderedMap_store ::
    "'k \<Rightarrow> 'v \<Rightarrow> ('v \<Rightarrow> bool) option \<Rightarrow> ('k, 'v) SafeOrderedMap \<Rightarrow> (bool \<times> 'v) \<times> ('k, 'v) SafeOrderedMap" where
  "SafeOrderedMap_store key value replace m =
     (let rep = (case replace of None \<Rightarrow> (\<lambda>_. True) | Some f \<Rightarrow> f)
      in case map_of (internal m) key of
           None \<Rightarrow>
             ((False, value), SafeOrderedMap_updateReadOnly
                (m\<lparr>keyMap := AList.update key (length (keys m)) (keyMap m),
                   keys := keys m @ [key],
                   internal := AList.update key value (internal m)\<rparr>))
         | Some storedValue \<Rightarrow>
             if rep storedValue
             then ((True, value), SafeOrderedMap_updateReadOnly
                     (m\<lparr>internal := AList.update key value (internal m)\<rparr>))
             else ((True, storedValue), m))"

definition SafeOrderedMap_Load :: "('k, 'v) SafeOrderedMap \<Rightarrow> 'k \<Rightarrow> 'v option" where
  "SafeOrderedMap_Load m key = map_of (ro_internal m) key"

definition SafeOrderedMap_Len :: "('k, 'v) SafeOrderedMap \<Rightarrow> nat" where
  "SafeOrderedMap_Len m = length (ro_keys m)"

definition SafeOrderedMap_Store ::
    "'k \<Rightarrow> 'v \<Rightarrow> ('v \<Rightarrow> bool) option \<Rightarrow> ('k, 'v) SafeOrderedMap \<Rightarrow> (bool \<times> 'v) \<times> ('k, 'v) SafeOrderedMap" where
  "SafeOrderedMap_Store key value replace m = SafeOrderedMap_store key value replace m"

text \<open>
  \<open>slices.Delete\<close> panics when \<open>index + 1\<close> is past the end of \<open>keys\<close>; a key missing from \<open>keyMap\<close>
  reads as index 0.  The loop over \<open>keyMap\<close> moves every later index down by one.
\<close>

definition Delete_index :: "'k \<Rightarrow> ('k, 'v) SafeOrderedMap \<Rightarrow> nat" where
  "Delete_index key m = (case map_of (keyMap m) key of None \<Rightarrow> 0 | Some i \<Rightarrow> i)"

definition SafeOrderedMap_Delete_panics :: "'k \<Rightarrow> ('k, 'v) SafeOrderedMap \<Rightarrow> bool" where
  "SafeOrderedMap_Delete_panics key m \<longleftrightarrow>
     map_of (internal m) key \<noteq> None \<and> length (keys m) < Delete_index key m + 1"

definition SafeOrderedMap_Delete ::
    "'k \<Rightarrow> ('k, 'v) SafeOrderedMap \<Rightarrow> bool \<times> ('k, 'v) SafeOrderedMap" where
  "SafeOrderedMap_Delete key m =
     (case map_of (internal m) key of
        None \<Rightarrow> (False, m)
      | Some _ \<Rightarrow>
          let index = Delete_index key m;
              km = AList.delete key (keyMap m)
          in (True, SafeOrderedMap_updateReadOnly
                (m\<lparr>keyMap := map (\<lambda>(k, idx). (k, if idx > index then idx - 1 else idx)) km,
                   keys := slices_Delete index (index + 1) (keys m),
                   internal := AList.delete key (internal m)\<rparr>)))"

definition baseSafeOrderedMapData_iter :: "('k \<times> 'v) list \<Rightarrow> 'k list \<Rightarrow> nat \<times> ('k \<times> 'v) list" where
  "baseSafeOrderedMapData_iter internl ks = (length ks, map (\<lambda>k. (k, the (map_of internl k))) ks)"

text \<open>\<open>fn\<close> sees the map as it is under the lock, before the store.\<close>

definition SafeOrderedMap_IterAndStore ::
    "'k \<Rightarrow> 'v \<Rightarrow> ('v \<Rightarrow> bool) option \<Rightarrow> (nat \<times> ('k \<times> 'v) list \<Rightarrow> 'r) \<Rightarrow> ('k, 'v) SafeOrderedMap
       \<Rightarrow> 'r \<times> (bool \<times> 'v) \<times> ('k, 'v) SafeOrderedMap" where
  "SafeOrderedMap_IterAndStore key value replace fn m =
     (fn (baseSafeOrderedMapData_iter (internal m) (keys m)), SafeOrderedMap_store key value replace m)"

definition SafeOrderedMap_Keys :: "('k, 'v) SafeOrderedMap \<Rightarrow> nat \<times> 'k list" where
  "SafeOrderedMap_Keys m = (length (ro_keys m), ro_keys m)"

definition SafeOrderedMap_Values :: "('k, 'v) SafeOrderedMap \<Rightarrow> nat \<times> 'v list" where
  "SafeOrderedMap_Values m = (length (ro_keys m), map (\<lambda>k. the (map_of (ro_internal m) k)) (ro_keys m))"

definition SafeOrderedMap_Iter :: "('k, 'v) SafeOrderedMap \<Rightarrow> nat \<times> ('k \<times> 'v) list" where
  "SafeOrderedMap_Iter m = baseSafeOrderedMapData_iter (ro_internal m) (ro_keys m)"

definition SafeOrderedMap_First :: "('k, 'v) SafeOrderedMap \<Rightarrow> ('k \<times> 'v) option" where
  "SafeOrderedMap_First m =
     (case ro_keys m of [] \<Rightarrow> None | key # _ \<Rightarrow> Some (key, the (map_of (ro_internal m) key)))"

text \<open>A write through a stored pointer, seen by the working map and by the clone.\<close>

definition SafeOrderedMap_modify ::
    "'k \<Rightarrow> ('v \<Rightarrow> 'v) \<Rightarrow> ('k, 'v) SafeOrderedMap \<Rightarrow> ('k, 'v) SafeOrderedMap" where
  "SafeOrderedMap_modify k f m =
     m\<lparr>internal := al_modify k f (internal m), ro_internal := al_modify k f (ro_internal m)\<rparr>"

section \<open>Invariant\<close>

text \<open>
  The clone is current; \<open>keys\<close> lists each bound key once; \<open>keyMap\<close> maps each key to its position.
\<close>

definition SafeOrderedMap_wf :: "('k, 'v) SafeOrderedMap \<Rightarrow> bool" where
  "SafeOrderedMap_wf m \<longleftrightarrow>
     ro_internal m = internal m \<and> ro_keys m = keys m
     \<and> keys_distinct (internal m) \<and> distinct (keys m) \<and> set (keys m) = dom (map_of (internal m))
     \<and> keys_distinct (keyMap m)
     \<and> (\<forall>k i. map_of (keyMap m) k = Some i \<longleftrightarrow> i < length (keys m) \<and> keys m ! i = k)"

text \<open>The abstraction: the pairs in insertion order.\<close>

definition om_pairs :: "('k, 'v) SafeOrderedMap \<Rightarrow> ('k \<times> 'v) list" where
  "om_pairs m = map (\<lambda>k. (k, the (map_of (internal m) k))) (keys m)"

lemmas SafeOrderedMap_defs =
  SafeOrderedMap_wf_def SafeOrderedMap_updateReadOnly_def SafeOrderedMap_store_def
  SafeOrderedMap_Store_def SafeOrderedMap_Load_def Let_def

lemma SafeOrderedMap_wf_new [simp]: "SafeOrderedMap_wf NewSafeOrderedMap"
  by (simp add: NewSafeOrderedMap_def SafeOrderedMap_defs)

lemma SafeOrderedMap_Load_new [simp]: "SafeOrderedMap_Load NewSafeOrderedMap k = None"
  by (simp add: NewSafeOrderedMap_def SafeOrderedMap_defs)

lemma SafeOrderedMap_keys_new [simp]: "ro_keys NewSafeOrderedMap = []"
  by (simp add: NewSafeOrderedMap_def SafeOrderedMap_defs)

lemma wf_key_bound: "SafeOrderedMap_wf m \<Longrightarrow> k \<in> set (keys m) \<longleftrightarrow> map_of (internal m) k \<noteq> None"
  by (auto simp: SafeOrderedMap_wf_def)

lemma wf_index:
  assumes "SafeOrderedMap_wf m" and "map_of (internal m) k \<noteq> None"
  shows "\<exists>i. map_of (keyMap m) k = Some i \<and> i < length (keys m) \<and> keys m ! i = k"
proof -
  from assms have "k \<in> set (keys m)" by (simp add: wf_key_bound)
  then obtain i where "i < length (keys m)" and "keys m ! i = k" by (auto simp: in_set_conv_nth)
  with assms(1) show ?thesis by (auto simp: SafeOrderedMap_wf_def)
qed

lemma SafeOrderedMap_wf_replace:
  assumes "SafeOrderedMap_wf m" and "map_of (internal m) k \<noteq> None"
  shows "SafeOrderedMap_wf (SafeOrderedMap_updateReadOnly (m\<lparr>internal := AList.update k v (internal m)\<rparr>))"
  using assms by (auto simp: SafeOrderedMap_defs)

lemma SafeOrderedMap_wf_append:
  assumes wf: "SafeOrderedMap_wf m" and new: "map_of (internal m) k = None"
  shows "SafeOrderedMap_wf (SafeOrderedMap_updateReadOnly
     (m\<lparr>keyMap := AList.update k (length (keys m)) (keyMap m), keys := keys m @ [k],
        internal := AList.update k v (internal m)\<rparr>))"
proof -
  have k: "k \<notin> set (keys m)" using wf new by (simp add: wf_key_bound)
  have "map_of (AList.update k (length (keys m)) (keyMap m)) k' = Some i
      \<longleftrightarrow> i < length (keys m @ [k]) \<and> (keys m @ [k]) ! i = k'" for k' i
    using wf k by (auto simp: SafeOrderedMap_wf_def nth_append less_Suc_eq split: if_splits)
  with wf k show ?thesis by (auto simp: SafeOrderedMap_wf_def SafeOrderedMap_updateReadOnly_def)
qed

lemma SafeOrderedMap_wf_Store [simp, inv_intros]:
  "SafeOrderedMap_wf m \<Longrightarrow> SafeOrderedMap_wf (snd (SafeOrderedMap_Store k v r m))"
  by (auto simp: SafeOrderedMap_Store_def SafeOrderedMap_store_def Let_def SafeOrderedMap_wf_append
      SafeOrderedMap_wf_replace split: option.splits)

subsection \<open>Deletion repairs the index\<close>

lemma map_of_shift:
  "map_of (map (\<lambda>(k, idx). (k, if idx > (i :: nat) then idx - 1 else idx)) km) k =
     map_option (\<lambda>idx. if idx > i then idx - 1 else idx) (map_of km k)"
  by (rule map_of_map_snd)

lemma nth_cut:
  assumes "i < length xs"
  shows "(take i xs @ drop (Suc i) xs) ! j = (if j < i then xs ! j else xs ! Suc j) \<or> length xs - 1 \<le> j"
  using assms by (auto simp: nth_append min_def)

lemma cut_index:
  assumes d: "distinct xs" and i: "i < length xs" and km: "\<And>k j. km k = Some j \<longleftrightarrow> j < length xs \<and> xs ! j = k"
  shows "map_option (\<lambda>j. if j > i then j - 1 else j) ((km(xs ! i := None)) k) = Some j
     \<longleftrightarrow> j < length (take i xs @ drop (Suc i) xs) \<and> (take i xs @ drop (Suc i) xs) ! j = k"
    (is "?lhs \<longleftrightarrow> ?rhs")
proof
  assume ?lhs
  then obtain j' where j': "km k = Some j'" "k \<noteq> xs ! i" "j = (if j' > i then j' - 1 else j')"
    by (cases "k = xs ! i") auto
  then have "j' < length xs" "xs ! j' = k" using km by auto
  moreover from this j'(2) have "j' \<noteq> i" by auto
  ultimately show ?rhs using i j'(3) by (auto simp: nth_append min_def)
next
  assume r: ?rhs
  define j' where "j' = (if j < i then j else Suc j)"
  from r i have l: "j' < length xs" by (auto simp: j'_def)
  from r i have k: "xs ! j' = k" by (auto simp: j'_def nth_append min_def split: if_splits)
  have "j' \<noteq> i" by (simp add: j'_def)
  with d l i k have "k \<noteq> xs ! i" by (auto simp: nth_eq_iff_index_eq)
  moreover from l k km have "km k = Some j'" by blast
  moreover have "(if j' > i then j' - 1 else j') = j" by (auto simp: j'_def)
  ultimately show ?lhs by simp
qed

lemma SafeOrderedMap_Delete_cases:
  assumes wf: "SafeOrderedMap_wf m"
  obtains (absent) "map_of (internal m) k = None" "SafeOrderedMap_Delete k m = (False, m)"
  | (present) i where "map_of (internal m) k \<noteq> None" "i < length (keys m)" "keys m ! i = k"
      "map_of (keyMap m) k = Some i" "Delete_index k m = i"
      "SafeOrderedMap_Delete k m = (True, SafeOrderedMap_updateReadOnly
         (m\<lparr>keyMap := map (\<lambda>(k, idx). (k, if idx > i then idx - 1 else idx)) (AList.delete k (keyMap m)),
            keys := slices_Delete i (i + 1) (keys m), internal := AList.delete k (internal m)\<rparr>))"
proof (cases "map_of (internal m) k")
  case None
  then show ?thesis using absent by (simp add: SafeOrderedMap_Delete_def)
next
  case (Some v)
  with wf wf_index obtain i where "map_of (keyMap m) k = Some i" "i < length (keys m)" "keys m ! i = k"
    by (metis option.distinct(1))
  with Some show ?thesis using present by (simp add: SafeOrderedMap_Delete_def Delete_index_def Let_def)
qed

lemma SafeOrderedMap_wf_Delete [simp, inv_intros]:
  assumes wf: "SafeOrderedMap_wf m"
  shows "SafeOrderedMap_wf (snd (SafeOrderedMap_Delete k m))"
  using wf
proof (cases rule: SafeOrderedMap_Delete_cases [of m k])
  case absent
  with wf show ?thesis by simp
next
  case (present i)
  let ?ks = "slices_Delete i (i + 1) (keys m)"
  have d: "distinct (keys m)" using wf by (simp add: SafeOrderedMap_wf_def)
  have idx: "map_of (map (\<lambda>(k, idx). (k, if idx > i then idx - 1 else idx)) (AList.delete k (keyMap m))) k' = Some j
      \<longleftrightarrow> j < length ?ks \<and> ?ks ! j = k'" for k' j
    using cut_index [OF d present(2), of "map_of (keyMap m)" k' j] wf present(3)
    by (simp add: map_of_shift slices_Delete_def SafeOrderedMap_wf_def)
  have km: "keys_distinct (map (\<lambda>(k, idx). (k, if idx > i then idx - 1 else idx)) (AList.delete k (keyMap m)))"
    using wf by (simp only: map_fst_map_snd) (simp add: SafeOrderedMap_wf_def)
  have "distinct ?ks" and "set ?ks = set (keys m) - {k}"
    using distinct_take_drop [OF d] set_take_drop_nth [OF d present(2)] present(3)
    by (simp_all add: slices_Delete_def)
  with wf idx km show ?thesis
    by (auto simp: present(6) SafeOrderedMap_wf_def SafeOrderedMap_updateReadOnly_def)
qed

lemma SafeOrderedMap_wf_modify [simp, inv_intros]:
  "SafeOrderedMap_wf m \<Longrightarrow> SafeOrderedMap_wf (SafeOrderedMap_modify k f m)"
  by (auto simp: SafeOrderedMap_wf_def SafeOrderedMap_modify_def map_of_al_modify dom_map_of)

section \<open>Abstraction to the list of pairs\<close>

lemma om_pairs_keys: "map fst (om_pairs m) = keys m"
  by (simp add: om_pairs_def comp_def)

lemma om_pairs_distinct: "SafeOrderedMap_wf m \<Longrightarrow> keys_distinct (om_pairs m)"
  by (simp add: om_pairs_keys SafeOrderedMap_wf_def)

lemma map_of_pairs: "map_of (map (\<lambda>k. (k, f k)) ks) k = (if k \<in> set ks then Some (f k) else None)"
  by (induction ks) auto

lemma map_of_om_pairs: "SafeOrderedMap_wf m \<Longrightarrow> map_of (om_pairs m) = SafeOrderedMap_Load m"
  by (rule ext) (auto simp: om_pairs_def map_of_pairs SafeOrderedMap_Load_def SafeOrderedMap_wf_def)

lemma SafeOrderedMap_Iter_pairs: "SafeOrderedMap_wf m \<Longrightarrow> SafeOrderedMap_Iter m = (length (keys m), om_pairs m)"
  by (simp add: SafeOrderedMap_Iter_def baseSafeOrderedMapData_iter_def om_pairs_def SafeOrderedMap_wf_def)

lemma SafeOrderedMap_Values_pairs:
  "SafeOrderedMap_wf m \<Longrightarrow> SafeOrderedMap_Values m = (length (keys m), map snd (om_pairs m))"
  by (simp add: SafeOrderedMap_Values_def om_pairs_def SafeOrderedMap_wf_def)

lemma SafeOrderedMap_Keys_pairs:
  "SafeOrderedMap_wf m \<Longrightarrow> SafeOrderedMap_Keys m = (length (keys m), map fst (om_pairs m))"
  by (simp add: SafeOrderedMap_Keys_def om_pairs_keys SafeOrderedMap_wf_def)

lemma SafeOrderedMap_Len_pairs: "SafeOrderedMap_wf m \<Longrightarrow> SafeOrderedMap_Len m = length (om_pairs m)"
  by (simp add: SafeOrderedMap_Len_def om_pairs_def SafeOrderedMap_wf_def)

lemma SafeOrderedMap_First_pairs:
  "SafeOrderedMap_wf m \<Longrightarrow>
     SafeOrderedMap_First m = (case om_pairs m of [] \<Rightarrow> None | p # _ \<Rightarrow> Some p)"
  by (auto simp: SafeOrderedMap_First_def om_pairs_def SafeOrderedMap_wf_def split: list.splits)

lemma SafeOrderedMap_Load_dom: "SafeOrderedMap_wf m \<Longrightarrow> dom (SafeOrderedMap_Load m) = set (keys m)"
  by (auto simp: SafeOrderedMap_Load_def SafeOrderedMap_wf_def)

lemma SafeOrderedMap_Load_internal: "SafeOrderedMap_wf m \<Longrightarrow> SafeOrderedMap_Load m k = map_of (internal m) k"
  by (simp add: SafeOrderedMap_Load_def SafeOrderedMap_wf_def)

lemma SafeOrderedMap_Load_Store:
  "SafeOrderedMap_wf m \<Longrightarrow> SafeOrderedMap_Load (snd (SafeOrderedMap_Store k v r m)) =
     (case SafeOrderedMap_Load m k of
        None \<Rightarrow> (SafeOrderedMap_Load m)(k \<mapsto> v)
      | Some old \<Rightarrow> if (case r of None \<Rightarrow> True | Some f \<Rightarrow> f old)
                   then (SafeOrderedMap_Load m)(k \<mapsto> v) else SafeOrderedMap_Load m)"
  by (rule ext) (auto simp: SafeOrderedMap_defs split: option.splits)

lemma SafeOrderedMap_Store_result:
  "SafeOrderedMap_wf m \<Longrightarrow> fst (SafeOrderedMap_Store k v r m) =
     (case SafeOrderedMap_Load m k of
        None \<Rightarrow> (False, v)
      | Some old \<Rightarrow> (True, if (case r of None \<Rightarrow> True | Some f \<Rightarrow> f old) then v else old))"
  by (auto simp: SafeOrderedMap_defs split: option.splits)

lemma SafeOrderedMap_keys_Store:
  "SafeOrderedMap_wf m \<Longrightarrow> keys (snd (SafeOrderedMap_Store k v r m)) =
     (if SafeOrderedMap_Load m k = None then keys m @ [k] else keys m)"
  by (auto simp: SafeOrderedMap_defs split: option.splits)

lemma SafeOrderedMap_Load_Delete:
  assumes wf: "SafeOrderedMap_wf m"
  shows "SafeOrderedMap_Load (snd (SafeOrderedMap_Delete k m)) = (SafeOrderedMap_Load m)(k := None)"
  using wf
proof (cases rule: SafeOrderedMap_Delete_cases [of m k])
  case absent
  with wf show ?thesis by (auto simp: SafeOrderedMap_Load_internal)
next
  case (present i)
  with wf show ?thesis
    by (simp add: fun_eq_iff SafeOrderedMap_Load_def SafeOrderedMap_updateReadOnly_def SafeOrderedMap_wf_def)
qed

lemma take_drop_removeAll:
  assumes "distinct xs" and "i < length xs"
  shows "take i xs @ drop (Suc i) xs = removeAll (xs ! i) xs"
proof -
  have eq: "xs = take i xs @ xs ! i # drop (Suc i) xs" using assms(2) by (rule id_take_nth_drop)
  then have "xs ! i \<notin> set (take i xs)" "xs ! i \<notin> set (drop (Suc i) xs)"
    using assms(1) by (metis distinct.simps(2) distinct_append not_distinct_conv_prefix)+
  then show ?thesis by (subst eq) simp
qed

lemma SafeOrderedMap_keys_Delete:
  assumes wf: "SafeOrderedMap_wf m"
  shows "keys (snd (SafeOrderedMap_Delete k m)) = removeAll k (keys m)"
  using wf
proof (cases rule: SafeOrderedMap_Delete_cases [of m k])
  case absent
  with wf show ?thesis by (simp add: wf_key_bound)
next
  case (present i)
  with wf show ?thesis
    by (auto simp: SafeOrderedMap_updateReadOnly_def slices_Delete_def SafeOrderedMap_wf_def
        take_drop_removeAll)
qed

lemma SafeOrderedMap_Delete_result:
  "fst (SafeOrderedMap_Delete k m) \<longleftrightarrow> map_of (internal m) k \<noteq> None"
  by (auto simp: SafeOrderedMap_Delete_def Let_def split: option.splits)

lemma SafeOrderedMap_Delete_no_panic: "SafeOrderedMap_wf m \<Longrightarrow> \<not> SafeOrderedMap_Delete_panics k m"
  by (metis SafeOrderedMap_Delete_panics_def Delete_index_def wf_index option.simps(5) Suc_eq_plus1
      Suc_leI not_less)

lemma SafeOrderedMap_Load_modify:
  "SafeOrderedMap_Load (SafeOrderedMap_modify k f m) k' =
     (if k' = k then map_option f (SafeOrderedMap_Load m k') else SafeOrderedMap_Load m k')"
  by (simp add: SafeOrderedMap_Load_def SafeOrderedMap_modify_def map_of_al_modify)

lemma keys_modify [simp]: "keys (SafeOrderedMap_modify k f m) = keys m"
  by (simp add: SafeOrderedMap_modify_def)

section \<open>The interface of an ordered store\<close>

text \<open>
  A keyed store that lists its keys: a new key goes to the end, storing again keeps the place, a
  removal keeps the order of the rest.
\<close>

locale ordered_store = keyed_store wf look put ins remove
  for wf :: "'s \<Rightarrow> bool"
    and look :: "'s \<Rightarrow> 'k \<Rightarrow> 'v option"
    and put :: "'k \<Rightarrow> 'v \<Rightarrow> 's \<Rightarrow> 's"
    and ins :: "'k \<Rightarrow> 'v \<Rightarrow> 's \<Rightarrow> 's"
    and remove :: "'k \<Rightarrow> 's \<Rightarrow> 's" +
  fixes seq :: "'s \<Rightarrow> 'k list"
  assumes seq_distinct: "wf s \<Longrightarrow> distinct (seq s)"
    and seq_dom: "wf s \<Longrightarrow> set (seq s) = dom (look s)"
    and seq_put: "wf s \<Longrightarrow> seq (put k v s) = (if look s k = None then seq s @ [k] else seq s)"
    and seq_ins: "wf s \<Longrightarrow> seq (ins k v s) = (if look s k = None then seq s @ [k] else seq s)"
    and seq_remove: "wf s \<Longrightarrow> seq (remove k s) = removeAll k (seq s)"
begin

lemma seq_bound: "wf s \<Longrightarrow> k \<in> set (seq s) \<longleftrightarrow> look s k \<noteq> None"
  by (auto simp: seq_dom)

lemma length_remove:
  assumes "wf s"
  shows "length (seq (remove k s)) = length (seq s) - (if look s k = None then 0 else 1)"
proof -
  have "removeAll k (seq s) = remove1 k (seq s)"
    using assms by (simp add: seq_distinct distinct_remove1_removeAll)
  with assms show ?thesis by (auto simp: seq_remove length_remove1 seq_bound)
qed

lemma remove_empties:
  "wf s \<Longrightarrow> look s k \<noteq> None \<Longrightarrow> seq (remove k s) = [] \<longleftrightarrow> seq s = [k]"
proof -
  assume wf: "wf s" and b: "look s k \<noteq> None"
  then have k: "k \<in> set (seq s)" by (simp add: seq_bound)
  show ?thesis
  proof
    assume "seq (remove k s) = []"
    then have "removeAll k (seq s) = []" using wf by (simp add: seq_remove)
    then have all: "\<forall>x\<in>set (seq s). x = k" by (simp add: filter_empty_conv removeAll_filter_not_eq)
    obtain x xs where c: "seq s = x # xs" using k by (cases "seq s") auto
    with all have "x = k" by simp
    moreover have "xs = []" using all c seq_distinct [OF wf] by (cases xs) auto
    ultimately show "seq s = [k]" using c by simp
  qed (simp add: wf seq_remove)
qed

lemma empty_iff: "wf s \<Longrightarrow> seq s = [] \<longleftrightarrow> look s = Map.empty"
  using seq_dom [of s] by (metis dom_eq_empty_conv set_empty)

lemma ins_keeps_prefix: "wf s \<Longrightarrow> \<exists>ys. seq (ins k v s) = seq s @ ys"
  by (simp add: seq_ins)

lemma hd_ins: "wf s \<Longrightarrow> seq s \<noteq> [] \<Longrightarrow> hd (seq (ins k v s)) = hd (seq s)"
  by (simp add: seq_ins)

end

abbreviation SafeOrderedMap_put :: "'k \<Rightarrow> 'v \<Rightarrow> ('k, 'v) SafeOrderedMap \<Rightarrow> ('k, 'v) SafeOrderedMap" where
  "SafeOrderedMap_put k v m \<equiv> snd (SafeOrderedMap_Store k v None m)"

abbreviation SafeOrderedMap_ins :: "'k \<Rightarrow> 'v \<Rightarrow> ('k, 'v) SafeOrderedMap \<Rightarrow> ('k, 'v) SafeOrderedMap" where
  "SafeOrderedMap_ins k v m \<equiv> snd (SafeOrderedMap_Store k v (Some (\<lambda>_. False)) m)"

abbreviation SafeOrderedMap_remove :: "'k \<Rightarrow> ('k, 'v) SafeOrderedMap \<Rightarrow> ('k, 'v) SafeOrderedMap" where
  "SafeOrderedMap_remove k m \<equiv> snd (SafeOrderedMap_Delete k m)"

interpretation om: ordered_store SafeOrderedMap_wf SafeOrderedMap_Load SafeOrderedMap_put
  SafeOrderedMap_ins SafeOrderedMap_remove keys
proof unfold_locales
  fix m :: "('a, 'b) SafeOrderedMap" assume "SafeOrderedMap_wf m"
  then show "distinct (keys m)" by (simp add: SafeOrderedMap_wf_def)
qed (auto simp: SafeOrderedMap_Load_Store SafeOrderedMap_Load_Delete SafeOrderedMap_Load_dom
    SafeOrderedMap_keys_Store SafeOrderedMap_keys_Delete split: option.splits)

section \<open>Properties\<close>

text \<open>The operations on the list of pairs that the ordered map is meant to be.\<close>

definition pairs_store :: "'k \<Rightarrow> 'v \<Rightarrow> ('v \<Rightarrow> bool) option \<Rightarrow> ('k \<times> 'v) list \<Rightarrow> ('k \<times> 'v) list" where
  "pairs_store k v r ps =
     (case map_of ps k of
        None \<Rightarrow> ps @ [(k, v)]
      | Some old \<Rightarrow> if (case r of None \<Rightarrow> True | Some f \<Rightarrow> f old)
                   then map (\<lambda>(k', v'). (k', if k' = k then v else v')) ps else ps)"

lemma om_pairs_eqI:
  assumes "SafeOrderedMap_wf m" and "map fst ps = keys m" and "map_of ps = SafeOrderedMap_Load m"
  shows "om_pairs m = ps"
proof -
  have "keys_distinct ps" using assms(1,2) by (simp add: SafeOrderedMap_wf_def)
  then have "\<forall>x\<in>set ps. (fst x, the (map_of ps (fst x))) = x"
    by (auto simp: map_of_is_SomeI)
  then have "ps = map (\<lambda>k. (k, the (map_of ps k))) (map fst ps)"
    by (simp add: comp_def map_idI)
  with assms show ?thesis
    by (simp add: om_pairs_def fun_eq_iff SafeOrderedMap_Load_internal)
qed

lemma om_pairs_Store:
  assumes wf: "SafeOrderedMap_wf m"
  shows "om_pairs (snd (SafeOrderedMap_Store k v r m)) = pairs_store k v r (om_pairs m)"
proof (rule om_pairs_eqI)
  show "SafeOrderedMap_wf (snd (SafeOrderedMap_Store k v r m))" using wf by simp
  show "map fst (pairs_store k v r (om_pairs m)) = keys (snd (SafeOrderedMap_Store k v r m))"
    using wf by (auto simp: pairs_store_def map_of_om_pairs SafeOrderedMap_keys_Store om_pairs_keys
        comp_def split_def split: option.splits)
  have "map_of (map (\<lambda>(k', v'). (k', if k' = k then v else v')) ps) k' =
      (if k' = k then map_option (\<lambda>_. v) (map_of ps k') else map_of ps k')" for ps :: "('a \<times> 'b) list" and k'
    by (induction ps) auto
  then show "map_of (pairs_store k v r (om_pairs m)) =
      SafeOrderedMap_Load (snd (SafeOrderedMap_Store k v r m))"
    using wf by (auto simp: fun_eq_iff pairs_store_def map_of_om_pairs SafeOrderedMap_Load_Store
        map_add_def split: option.splits)
qed

lemma map_fst_delete: "map fst (AList.delete k ps) = removeAll k (map fst ps)"
  by (rule AList.delete_keys)

lemma om_pairs_Delete:
  assumes wf: "SafeOrderedMap_wf m"
  shows "om_pairs (snd (SafeOrderedMap_Delete k m)) = AList.delete k (om_pairs m)"
  by (rule om_pairs_eqI)
    (use wf in \<open>simp_all add: map_fst_delete om_pairs_keys SafeOrderedMap_keys_Delete map_of_om_pairs
      SafeOrderedMap_Load_Delete\<close>)

text \<open>
  C12: \<open>SafeOrderedMap\<close> implements a list of pairs in insertion order.  From a well-formed map,
  \<open>Store\<close> appends a new pair or, when its callback allows it, replaces the value in place;
  \<open>Delete\<close> removes the pair and keeps the order of the others; \<open>Load\<close>, \<open>Iter\<close> and \<open>First\<close> read that
  list; and the invariant (current clone, exact \<open>keyMap\<close>) is kept, so \<open>slices.Delete\<close> never panics.
\<close>

theorem SafeOrderedMap_refines_pairs:
  assumes "SafeOrderedMap_wf m"
  shows "om_pairs (snd (SafeOrderedMap_Store k v r m)) = pairs_store k v r (om_pairs m)
    \<and> fst (fst (SafeOrderedMap_Store k v r m)) = (k \<in> set (map fst (om_pairs m)))
    \<and> om_pairs (snd (SafeOrderedMap_Delete k m)) = AList.delete k (om_pairs m)
    \<and> fst (SafeOrderedMap_Delete k m) = (k \<in> set (map fst (om_pairs m)))
    \<and> \<not> SafeOrderedMap_Delete_panics k m
    \<and> SafeOrderedMap_Load m = map_of (om_pairs m)
    \<and> SafeOrderedMap_Iter m = (length (om_pairs m), om_pairs m)
    \<and> SafeOrderedMap_First m = (case om_pairs m of [] \<Rightarrow> None | p # _ \<Rightarrow> Some p)
    \<and> SafeOrderedMap_wf (snd (SafeOrderedMap_Store k v r m))
    \<and> SafeOrderedMap_wf (snd (SafeOrderedMap_Delete k m))"
proof -
  have k: "k \<in> set (map fst (om_pairs m)) \<longleftrightarrow> map_of (internal m) k \<noteq> None"
    using assms by (simp add: om_pairs_keys wf_key_bound)
  have r: "fst (fst (SafeOrderedMap_Store k v r m)) \<longleftrightarrow> map_of (internal m) k \<noteq> None"
    using assms by (auto simp: SafeOrderedMap_Store_result SafeOrderedMap_Load_internal split: option.splits)
  show ?thesis
    using assms r k
    by (simp add: om_pairs_Store om_pairs_Delete map_of_om_pairs SafeOrderedMap_Delete_result
        SafeOrderedMap_Delete_no_panic SafeOrderedMap_First_pairs SafeOrderedMap_Iter_pairs)
      (simp add: om_pairs_def)
qed

definition om_example :: "(nat, string) SafeOrderedMap" where
  "om_example = SafeOrderedMap_put 7 ''c'' (SafeOrderedMap_put 4 ''b'' (SafeOrderedMap_put 9 ''a'' NewSafeOrderedMap))"

theorem SafeOrderedMap_refines_pairs_witness:
  "om_pairs (snd (SafeOrderedMap_Delete 4 om_example)) = [(9, ''a''), (7, ''c'')]
   \<and> keyMap (snd (SafeOrderedMap_Delete 4 om_example)) = [(9, 0), (7, 1)]"
proof -
  have wf: "SafeOrderedMap_wf om_example" by (simp add: om_example_def)
  have ps: "om_pairs om_example = [(9, ''a''), (4, ''b''), (7, ''c'')]" by code_simp
  have "keyMap (snd (SafeOrderedMap_Delete 4 om_example)) = [(9, 0), (7, 1)]" by code_simp
  with SafeOrderedMap_refines_pairs [OF wf, of 4 "''z''" None] ps show ?thesis by simp
qed

end
