(* ===== verification/KeyMutex.thy ===== *)
theory KeyMutex
  imports Prelude
begin

text \<open>
  \<open>KeyRWMutex\<close> of \<open>server/internal/keyRWMutex.go\<close>: one \<open>sync.RWMutex\<close> per key, created on first
  use.  The steps below are the atomic pieces between which goroutines interleave: the look-up in
  \<open>mutexes\<close> under \<open>mu.RLock\<close>, the insertion of a new lock under \<open>mu.Lock\<close>, the acquisition of the
  key's lock, and its release.  \<open>sync.RWMutex\<close> is modelled by the number of readers that hold it and
  whether a writer does; that a waiting writer delays new readers only removes interleavings.
\<close>

section \<open>State and steps\<close>

datatype lock_mode = RdMode | WrMode

text \<open>
  Where a goroutine is: outside; in \<open>getOrCreateLock\<close> before the look-up, or after it missed; with
  a lock object in hand that it has not locked yet; inside; or in a runtime that has stopped with
  \<open>fatal error: sync: Unlock of unlocked RWMutex\<close>.
\<close>

datatype 'k kl_pc =
    Outside
  | Seeking lock_mode 'k
  | Missed lock_mode 'k
  | Waiting lock_mode 'k nat
  | Inside lock_mode 'k nat
  | Crashed

record 'k KeyRWMutex =
  mutexes :: "('k \<times> nat) list"
  next_lock :: nat
  writing :: "nat \<Rightarrow> bool"
  readers :: "nat \<Rightarrow> nat"
  pc :: "nat \<Rightarrow> 'k kl_pc"

definition NewKeyRWMutex :: "'k KeyRWMutex" where
  "NewKeyRWMutex =
     \<lparr>mutexes = [], next_lock = 0, writing = (\<lambda>_. False), readers = (\<lambda>_. 0), pc = (\<lambda>_. Outside)\<rparr>"

definition goto :: "nat \<Rightarrow> 'k kl_pc \<Rightarrow> 'k KeyRWMutex \<Rightarrow> 'k KeyRWMutex" where
  "goto t p s = s\<lparr>pc := (pc s)(t := p)\<rparr>"

text \<open>The two halves of \<open>getOrCreateLock\<close>, and the releases.\<close>

definition getOrCreateLock_lookup :: "nat \<Rightarrow> lock_mode \<Rightarrow> 'k \<Rightarrow> 'k KeyRWMutex \<Rightarrow> 'k KeyRWMutex" where
  "getOrCreateLock_lookup t md key s =
     (case map_of (mutexes s) key of
        Some lock \<Rightarrow> goto t (Waiting md key lock) s
      | None \<Rightarrow> goto t (Missed md key) s)"

definition getOrCreateLock_create :: "nat \<Rightarrow> lock_mode \<Rightarrow> 'k \<Rightarrow> 'k KeyRWMutex \<Rightarrow> 'k KeyRWMutex" where
  "getOrCreateLock_create t md key s =
     goto t (Waiting md key (next_lock s))
       (s\<lparr>mutexes := AList.update key (next_lock s) (mutexes s), next_lock := Suc (next_lock s)\<rparr>)"

definition KeyRWMutex_acquire :: "nat \<Rightarrow> lock_mode \<Rightarrow> 'k \<Rightarrow> nat \<Rightarrow> 'k KeyRWMutex \<Rightarrow> 'k KeyRWMutex" where
  "KeyRWMutex_acquire t md key l s =
     (case md of
        WrMode \<Rightarrow> goto t (Inside md key l) (s\<lparr>writing := (writing s)(l := True)\<rparr>)
      | RdMode \<Rightarrow> goto t (Inside md key l) (s\<lparr>readers := (readers s)(l := Suc (readers s l))\<rparr>))"

definition can_acquire :: "lock_mode \<Rightarrow> nat \<Rightarrow> 'k KeyRWMutex \<Rightarrow> bool" where
  "can_acquire md l s \<longleftrightarrow> \<not> writing s l \<and> (md = WrMode \<longrightarrow> readers s l = 0)"

text \<open>The release looks the lock up again and unlocks what it finds.\<close>

definition KeyRWMutex_Unlock :: "nat \<Rightarrow> 'k \<Rightarrow> 'k KeyRWMutex \<Rightarrow> 'k KeyRWMutex" where
  "KeyRWMutex_Unlock t key s =
     (case map_of (mutexes s) key of
        None \<Rightarrow> goto t Outside s
      | Some l \<Rightarrow>
          if writing s l then goto t Outside (s\<lparr>writing := (writing s)(l := False)\<rparr>)
          else goto t Crashed s)"

definition KeyRWMutex_RUnlock :: "nat \<Rightarrow> 'k \<Rightarrow> 'k KeyRWMutex \<Rightarrow> 'k KeyRWMutex" where
  "KeyRWMutex_RUnlock t key s =
     (case map_of (mutexes s) key of
        None \<Rightarrow> goto t Outside s
      | Some l \<Rightarrow>
          if readers s l > 0 then goto t Outside (s\<lparr>readers := (readers s)(l := readers s l - 1)\<rparr>)
          else goto t Crashed s)"

inductive kl_step :: "'k KeyRWMutex \<Rightarrow> 'k KeyRWMutex \<Rightarrow> bool" where
  call: "pc s t = Outside \<Longrightarrow> kl_step s (goto t (Seeking md key) s)"
| lookup: "pc s t = Seeking md key \<Longrightarrow> kl_step s (getOrCreateLock_lookup t md key s)"
| create: "pc s t = Missed md key \<Longrightarrow> kl_step s (getOrCreateLock_create t md key s)"
| acquire: "pc s t = Waiting md key l \<Longrightarrow> can_acquire md l s \<Longrightarrow> kl_step s (KeyRWMutex_acquire t md key l s)"
| unlock: "pc s t = Inside WrMode key l \<Longrightarrow> kl_step s (KeyRWMutex_Unlock t key s)"
| runlock: "pc s t = Inside RdMode key l \<Longrightarrow> kl_step s (KeyRWMutex_RUnlock t key s)"

inductive kl_reach :: "'k KeyRWMutex \<Rightarrow> 'k KeyRWMutex \<Rightarrow> bool" for s0 where
  start: "kl_reach s0 s0"
| more: "kl_reach s0 s \<Longrightarrow> kl_step s s' \<Longrightarrow> kl_reach s0 s'"

lemmas kl_defs =
  goto_def getOrCreateLock_lookup_def getOrCreateLock_create_def KeyRWMutex_acquire_def
  KeyRWMutex_Unlock_def KeyRWMutex_RUnlock_def can_acquire_def

section \<open>Exclusion once the key has its lock\<close>

text \<open>
  The states with every goroutine outside and the key already bound to a lock of its own, as after
  a first uncontended \<open>Lock\<close> and \<open>Unlock\<close>.
\<close>

definition kl_settled :: "'k \<Rightarrow> nat \<Rightarrow> 'k KeyRWMutex \<Rightarrow> bool" where
  "kl_settled key l s \<longleftrightarrow>
     pc s = (\<lambda>_. Outside) \<and> map_of (mutexes s) key = Some l \<and> l < next_lock s
     \<and> (\<forall>k. map_of (mutexes s) k = Some l \<longrightarrow> k = key) \<and> \<not> writing s l \<and> readers s l = 0"

definition here :: "lock_mode \<Rightarrow> nat \<Rightarrow> 'k KeyRWMutex \<Rightarrow> nat set" where
  "here md l s = {t. \<exists>k. pc s t = Inside md k l}"

text \<open>
  The invariant: the key stays bound to \<open>l\<close> and no other key is, every goroutine that has \<open>l\<close> has it
  for this key and none will rebind the key, and the lock's state counts exactly who is inside.
\<close>

definition kl_bound :: "'k \<Rightarrow> nat \<Rightarrow> 'k KeyRWMutex \<Rightarrow> bool" where
  "kl_bound key l s \<longleftrightarrow>
     map_of (mutexes s) key = Some l \<and> l < next_lock s \<and> (\<forall>k. map_of (mutexes s) k = Some l \<longrightarrow> k = key)"

definition pc_ok :: "'k \<Rightarrow> nat \<Rightarrow> 'k kl_pc \<Rightarrow> bool" where
  "pc_ok key l p \<longleftrightarrow>
     (case p of Missed md k \<Rightarrow> k \<noteq> key | Waiting md k l' \<Rightarrow> (k = key \<longleftrightarrow> l' = l)
      | Inside md k l' \<Rightarrow> (k = key \<longleftrightarrow> l' = l) | _ \<Rightarrow> True)"

definition lock_ok :: "nat \<Rightarrow> 'k KeyRWMutex \<Rightarrow> bool" where
  "lock_ok l s \<longleftrightarrow>
     finite (here RdMode l s) \<and> readers s l = card (here RdMode l s)
     \<and> (if writing s l then (\<exists>t. here WrMode l s = {t}) \<and> here RdMode l s = {} else here WrMode l s = {})"

definition kl_inv :: "'k \<Rightarrow> nat \<Rightarrow> 'k KeyRWMutex \<Rightarrow> bool" where
  "kl_inv key l s \<longleftrightarrow> kl_bound key l s \<and> (\<forall>t. pc_ok key l (pc s t)) \<and> lock_ok l s"

lemma kl_inv_settled: "kl_settled key l s \<Longrightarrow> kl_inv key l s"
  by (auto simp: kl_settled_def kl_inv_def kl_bound_def pc_ok_def lock_ok_def here_def)

lemma here_goto:
  "here md l (goto t p s) =
     (if \<exists>k. p = Inside md k l then insert t (here md l s) else here md l s - {t})"
  by (auto simp: here_def goto_def)

lemma here_fields [simp]:
  "here md l (s\<lparr>mutexes := ms\<rparr>) = here md l s"
  "here md l (s\<lparr>next_lock := n\<rparr>) = here md l s"
  "here md l (s\<lparr>writing := w\<rparr>) = here md l s"
  "here md l (s\<lparr>readers := r\<rparr>) = here md l s"
  by (auto simp: here_def)

lemma goto_fields [simp]:
  "mutexes (goto t p s) = mutexes s" "next_lock (goto t p s) = next_lock s"
  "writing (goto t p s) = writing s" "readers (goto t p s) = readers s"
  "pc (goto t p s) = (pc s)(t := p)"
  by (simp_all add: goto_def)

lemma here_not: "(\<And>k. pc s t \<noteq> Inside md k l) \<Longrightarrow> here md l s - {t} = here md l s"
  by (auto simp: here_def)

lemma here_mem: "t \<in> here md l s \<longleftrightarrow> (\<exists>k. pc s t = Inside md k l)"
  by (simp add: here_def)

lemma kl_bound_unique: "kl_bound key l s \<Longrightarrow> map_of (mutexes s) k = Some l \<Longrightarrow> k = key"
  unfolding kl_bound_def by blast

lemma kl_bound_key: "kl_bound key l s \<Longrightarrow> map_of (mutexes s) key = Some l"
  by (simp add: kl_bound_def)

lemma kl_bound_fields [simp]:
  "kl_bound key l (goto t p s) = kl_bound key l s"
  "kl_bound key l (s\<lparr>writing := w\<rparr>) = kl_bound key l s"
  "kl_bound key l (s\<lparr>readers := r\<rparr>) = kl_bound key l s"
  by (simp_all add: kl_bound_def)

lemma kl_bound_create:
  assumes b: "kl_bound key l s" and k: "k \<noteq> key"
  shows "kl_bound key l (s\<lparr>mutexes := AList.update k (next_lock s) (mutexes s), next_lock := Suc (next_lock s)\<rparr>)"
proof -
  have "l < next_lock s" using b by (simp add: kl_bound_def)
  moreover have "map_of (AList.update k (next_lock s) (mutexes s)) k' = Some l \<Longrightarrow> k' = key" for k'
    using b calculation by (cases "k' = k") (auto dest: kl_bound_unique)
  ultimately show ?thesis using b k by (auto simp: kl_bound_def)
qed

text \<open>Moving between program points outside the lock.\<close>

lemma lock_ok_goto:
  assumes "lock_ok l s" and "\<And>md k. pc s t \<noteq> Inside md k l" and "\<And>md k. p \<noteq> Inside md k l"
  shows "lock_ok l (goto t p s)"
  using assms by (simp add: lock_ok_def here_goto here_not)

lemma kl_inv_goto:
  assumes "kl_inv key l s" and "\<And>md k. pc s t \<noteq> Inside md k l" and "\<And>md k. p \<noteq> Inside md k l"
    and "pc_ok key l p"
  shows "kl_inv key l (goto t p s)"
  using assms lock_ok_goto [of l s t p] by (simp add: kl_inv_def)

lemma kl_inv_lookup:
  assumes inv: "kl_inv key l s" and pc: "pc s t = Seeking md k"
  shows "kl_inv key l (getOrCreateLock_lookup t md k s)"
proof -
  have b: "kl_bound key l s" using inv by (simp add: kl_inv_def)
  show ?thesis
  proof (cases "map_of (mutexes s) k")
    case None
    with b have "k \<noteq> key" by (auto dest: kl_bound_key)
    with None inv pc show ?thesis
      by (simp add: getOrCreateLock_lookup_def kl_inv_goto pc_ok_def)
  next
    case (Some l')
    with b have "k = key \<longleftrightarrow> l' = l" by (auto dest: kl_bound_key kl_bound_unique)
    with Some inv pc show ?thesis
      by (simp add: getOrCreateLock_lookup_def kl_inv_goto pc_ok_def)
  qed
qed

lemma kl_inv_create:
  assumes inv: "kl_inv key l s" and pc: "pc s t = Missed md k"
  shows "kl_inv key l (getOrCreateLock_create t md k s)"
proof -
  have "pc_ok key l (Missed md k)" using inv pc by (metis kl_inv_def)
  then have k: "k \<noteq> key" by (simp add: pc_ok_def)
  let ?s = "s\<lparr>mutexes := AList.update k (next_lock s) (mutexes s), next_lock := Suc (next_lock s)\<rparr>"
  have b: "kl_bound key l s" using inv by (simp add: kl_inv_def)
  have "kl_inv key l ?s"
    using inv kl_bound_create [OF b k] by (simp add: kl_inv_def lock_ok_def)
  moreover have "pc_ok key l (Waiting md k (next_lock s))"
    using b k by (simp add: pc_ok_def kl_bound_def)
  ultimately show ?thesis
    using pc by (simp add: getOrCreateLock_create_def kl_inv_goto)
qed

lemma kl_inv_other_lock:
  assumes "kl_inv key l s" and "l' \<noteq> l"
  shows "kl_inv key l (s\<lparr>writing := (writing s)(l' := w)\<rparr>)"
    and "kl_inv key l (s\<lparr>readers := (readers s)(l' := n)\<rparr>)"
  using assms by (simp_all add: kl_inv_def lock_ok_def)

lemma lock_ok_acquire:
  assumes ok: "lock_ok l s" and pc: "\<And>md k. pc s t \<noteq> Inside md k l" and free: "can_acquire md l s"
  shows "lock_ok l (KeyRWMutex_acquire t md k l s)"
proof (cases md)
  case WrMode
  with free ok have "here WrMode l s = {}" "here RdMode l s = {}"
    by (auto simp: can_acquire_def lock_ok_def)
  with WrMode ok pc show ?thesis
    by (simp add: KeyRWMutex_acquire_def lock_ok_def here_goto)
next
  case RdMode
  have "t \<notin> here RdMode l s" using pc by (simp add: here_mem)
  moreover have "here WrMode l s - {t} = here WrMode l s" using pc by (rule here_not)
  ultimately show ?thesis
    using RdMode ok free by (simp add: KeyRWMutex_acquire_def lock_ok_def here_goto can_acquire_def)
qed

lemma kl_inv_acquire:
  assumes inv: "kl_inv key l s" and pc: "pc s t = Waiting md k l'" and free: "can_acquire md l' s"
  shows "kl_inv key l (KeyRWMutex_acquire t md k l' s)"
proof -
  have "pc_ok key l (Waiting md k l')" using inv pc by (metis kl_inv_def)
  then have k: "k = key \<longleftrightarrow> l' = l" by (simp add: pc_ok_def)
  show ?thesis
  proof (cases "l' = l")
    case True
    with k inv pc free lock_ok_acquire [of l s t md k] show ?thesis
      by (auto simp: kl_inv_def KeyRWMutex_acquire_def pc_ok_def split: lock_mode.split)
  next
    case False
    with k inv pc show ?thesis
      by (auto simp: KeyRWMutex_acquire_def kl_inv_other_lock pc_ok_def intro!: kl_inv_goto
          split: lock_mode.split)
  qed
qed

lemma lock_ok_unlock:
  assumes ok: "lock_ok l s" and pc: "pc s t = Inside WrMode k l"
  shows "writing s l" and "lock_ok l (goto t Outside (s\<lparr>writing := (writing s)(l := False)\<rparr>))"
proof -
  have t: "t \<in> here WrMode l s" using pc by (simp add: here_mem)
  with ok show w: "writing s l" by (auto simp: lock_ok_def split: if_splits)
  with ok t have "here WrMode l s = {t}" by (auto simp: lock_ok_def)
  moreover have "here RdMode l s - {t} = here RdMode l s" using pc by (simp add: here_not)
  ultimately show "lock_ok l (goto t Outside (s\<lparr>writing := (writing s)(l := False)\<rparr>))"
    using ok by (simp add: lock_ok_def here_goto)
qed

lemma lock_ok_runlock:
  assumes ok: "lock_ok l s" and pc: "pc s t = Inside RdMode k l"
  shows "0 < readers s l" and "lock_ok l (goto t Outside (s\<lparr>readers := (readers s)(l := readers s l - 1)\<rparr>))"
proof -
  have t: "t \<in> here RdMode l s" using pc by (simp add: here_mem)
  with ok show r: "0 < readers s l" by (auto simp: lock_ok_def card_gt_0_iff)
  have "here WrMode l s - {t} = here WrMode l s" using pc by (simp add: here_not)
  with ok t r show "lock_ok l (goto t Outside (s\<lparr>readers := (readers s)(l := readers s l - 1)\<rparr>))"
    by (auto simp: lock_ok_def here_goto split: if_splits)
qed

lemma kl_inv_unlock:
  assumes inv: "kl_inv key l s" and pc: "pc s t = Inside WrMode k l0"
  shows "kl_inv key l (KeyRWMutex_Unlock t k s)"
proof -
  have "pc_ok key l (Inside WrMode k l0)" using inv pc by (metis kl_inv_def)
  then have k: "k = key \<longleftrightarrow> l0 = l" by (simp add: pc_ok_def)
  show ?thesis
  proof (cases "l0 = l")
    case True
    with k inv pc lock_ok_unlock [of l s t key] show ?thesis
      by (auto simp: KeyRWMutex_Unlock_def kl_inv_def kl_bound_key pc_ok_def)
  next
    case False
    with k have "k \<noteq> key" by simp
    then have "map_of (mutexes s) k \<noteq> Some l" using inv by (auto simp: kl_inv_def dest: kl_bound_unique)
    then show ?thesis
      using False pc inv
      by (auto simp: KeyRWMutex_Unlock_def kl_inv_other_lock pc_ok_def intro!: kl_inv_goto split: option.split)
  qed
qed

lemma kl_inv_runlock:
  assumes inv: "kl_inv key l s" and pc: "pc s t = Inside RdMode k l0"
  shows "kl_inv key l (KeyRWMutex_RUnlock t k s)"
proof -
  have "pc_ok key l (Inside RdMode k l0)" using inv pc by (metis kl_inv_def)
  then have k: "k = key \<longleftrightarrow> l0 = l" by (simp add: pc_ok_def)
  show ?thesis
  proof (cases "l0 = l")
    case True
    with k inv pc lock_ok_runlock [of l s t key] show ?thesis
      by (auto simp: KeyRWMutex_RUnlock_def kl_inv_def kl_bound_key pc_ok_def)
  next
    case False
    with k have "k \<noteq> key" by simp
    then have "map_of (mutexes s) k \<noteq> Some l" using inv by (auto simp: kl_inv_def dest: kl_bound_unique)
    then show ?thesis
      using False pc inv
      by (auto simp: KeyRWMutex_RUnlock_def kl_inv_other_lock pc_ok_def intro!: kl_inv_goto split: option.split)
  qed
qed

lemma kl_inv_step: "kl_step s s' \<Longrightarrow> kl_inv key l s \<Longrightarrow> kl_inv key l s'"
proof (induction rule: kl_step.induct)
  case (call s t md k)
  then show ?case by (simp add: kl_inv_goto pc_ok_def)
qed (simp_all add: kl_inv_lookup kl_inv_create kl_inv_acquire kl_inv_unlock kl_inv_runlock)

lemma kl_inv_reach: "kl_reach s0 s \<Longrightarrow> kl_inv key l s0 \<Longrightarrow> kl_inv key l s"
  by (induction rule: kl_reach.induct) (auto intro: kl_inv_step)

lemma kl_inv_runlock_leaves:
  assumes "kl_inv key l s" and "pc s t = Inside RdMode key l"
  shows "pc (KeyRWMutex_RUnlock t key s) t = Outside"
proof -
  have "map_of (mutexes s) key = Some l" using assms(1) by (simp add: kl_inv_def kl_bound_key)
  moreover have "0 < readers s l" using assms lock_ok_runlock(1) by (auto simp: kl_inv_def)
  ultimately show ?thesis by (simp add: KeyRWMutex_RUnlock_def)
qed

section \<open>Properties\<close>

text \<open>
  C13: once a key has its lock, the lock excludes.  From any state in which the key is bound to a
  lock that is free and everyone is outside, however the goroutines interleave, two goroutines are
  inside for that key together only if both are readers, they hold the same lock, and the release of
  either finds it locked.
\<close>

theorem KeyRWMutex_excludes:
  assumes "kl_settled key l s0" and "kl_reach s0 s"
    and "pc s t = Inside md key lt" and "pc s u = Inside md' key lu" and "t \<noteq> u"
  shows "md = RdMode \<and> md' = RdMode \<and> lt = lu \<and> pc (KeyRWMutex_RUnlock t key s) t = Outside"
proof -
  have inv: "kl_inv key l s" using assms(2) kl_inv_settled [OF assms(1)] by (rule kl_inv_reach)
  then have "pc_ok key l (Inside md key lt)" "pc_ok key l (Inside md' key lu)"
    using assms(3,4) by (metis kl_inv_def)+
  then have l: "lt = l" "lu = l" by (simp_all add: pc_ok_def)
  then have m: "t \<in> here md l s" "u \<in> here md' l s" using assms(3,4) by (auto simp: here_mem)
  have ok: "lock_ok l s" using inv by (simp add: kl_inv_def)
  have "md = RdMode"
    by (rule ccontr, cases md; cases md') (use ok m assms(5) in \<open>auto simp: lock_ok_def split: if_splits\<close>)
  moreover have "md' = RdMode"
    by (rule ccontr, cases md; cases md') (use ok m assms(5) in \<open>auto simp: lock_ok_def split: if_splits\<close>)
  ultimately show ?thesis using l inv assms(3) kl_inv_runlock_leaves [of key l s t] by simp
qed

definition kl_settled_example :: "nat KeyRWMutex" where
  "kl_settled_example = NewKeyRWMutex\<lparr>mutexes := [(5, 0)], next_lock := 1\<rparr>"

text \<open>Two readers do get in together, so the hypotheses can hold.\<close>

theorem KeyRWMutex_excludes_witness:
  "\<exists>s. kl_reach kl_settled_example s \<and> pc s 0 = Inside RdMode 5 0 \<and> pc s 1 = Inside RdMode 5 0
     \<and> pc (KeyRWMutex_RUnlock 0 5 s) 0 = Outside"
proof -
  let ?s0 = "kl_settled_example"
  let ?s1 = "goto 0 (Seeking RdMode 5) ?s0"
  let ?s2 = "getOrCreateLock_lookup 0 RdMode 5 ?s1"
  let ?s3 = "KeyRWMutex_acquire 0 RdMode 5 0 ?s2"
  let ?s4 = "goto 1 (Seeking RdMode 5) ?s3"
  let ?s5 = "getOrCreateLock_lookup 1 RdMode 5 ?s4"
  let ?s6 = "KeyRWMutex_acquire 1 RdMode 5 0 ?s5"
  note d = kl_settled_example_def NewKeyRWMutex_def kl_defs
  have settled: "kl_settled 5 0 ?s0" by (simp add: kl_settled_def d)
  have "kl_reach ?s0 ?s1" by (rule kl_reach.more [OF kl_reach.start], rule kl_step.call) (simp add: d)
  then have "kl_reach ?s0 ?s2" by (rule kl_reach.more, intro kl_step.lookup) (simp add: d)
  then have "kl_reach ?s0 ?s3" by (rule kl_reach.more, intro kl_step.acquire) (simp_all add: d)
  then have "kl_reach ?s0 ?s4" by (rule kl_reach.more, intro kl_step.call) (simp add: d)
  then have "kl_reach ?s0 ?s5" by (rule kl_reach.more, intro kl_step.lookup) (simp add: d)
  then have r: "kl_reach ?s0 ?s6" by (rule kl_reach.more, intro kl_step.acquire) (simp_all add: d)
  have p: "pc ?s6 0 = Inside RdMode 5 0" "pc ?s6 1 = Inside RdMode 5 0" by (simp_all add: d)
  have "(0 :: nat) \<noteq> 1" by simp
  note e = KeyRWMutex_excludes [OF settled r p this, THEN conjunct2, THEN conjunct2, THEN conjunct2]
  show ?thesis by (rule exI [of _ ?s6]) (intro conjI r p e)
qed

text \<open>
  The first use of a key races.  \<open>getOrCreateLock\<close> looks the key up under the read lock and
  inserts under the write lock without looking again, so two goroutines that meet on a new key each
  create a lock, both enter as writers, and when both leave the second release finds an unlocked
  mutex and stops the process.
\<close>

lemma KeyRWMutex_first_use_race:
  "\<exists>s s'. kl_reach NewKeyRWMutex s \<and> pc s 0 = Inside WrMode (5 :: nat) 0 \<and> pc s 1 = Inside WrMode 5 1
     \<and> kl_reach s s' \<and> pc s' 1 = Crashed"
proof -
  let ?s0 = "NewKeyRWMutex :: nat KeyRWMutex"
  let ?s1 = "goto 0 (Seeking WrMode 5) ?s0"
  let ?s2 = "goto 1 (Seeking WrMode 5) ?s1"
  let ?s3 = "getOrCreateLock_lookup 0 WrMode 5 ?s2"
  let ?s4 = "getOrCreateLock_lookup 1 WrMode 5 ?s3"
  let ?s5 = "getOrCreateLock_create 0 WrMode 5 ?s4"
  let ?s6 = "getOrCreateLock_create 1 WrMode 5 ?s5"
  let ?s7 = "KeyRWMutex_acquire 0 WrMode 5 0 ?s6"
  let ?s8 = "KeyRWMutex_acquire 1 WrMode 5 1 ?s7"
  let ?s9 = "KeyRWMutex_Unlock 0 5 ?s8"
  let ?s10 = "KeyRWMutex_Unlock 1 5 ?s9"
  note d = NewKeyRWMutex_def kl_defs
  have "kl_reach ?s0 ?s1" by (rule kl_reach.more [OF kl_reach.start], rule kl_step.call) (simp add: d)
  then have "kl_reach ?s0 ?s2" by (rule kl_reach.more, intro kl_step.call) (simp add: d)
  then have "kl_reach ?s0 ?s3" by (rule kl_reach.more, intro kl_step.lookup) (simp add: d)
  then have "kl_reach ?s0 ?s4" by (rule kl_reach.more, intro kl_step.lookup) (simp add: d)
  then have "kl_reach ?s0 ?s5" by (rule kl_reach.more, intro kl_step.create) (simp add: d)
  then have "kl_reach ?s0 ?s6" by (rule kl_reach.more, intro kl_step.create) (simp add: d)
  then have "kl_reach ?s0 ?s7" by (rule kl_reach.more, intro kl_step.acquire) (simp_all add: d)
  then have r: "kl_reach ?s0 ?s8" by (rule kl_reach.more, intro kl_step.acquire) (simp_all add: d)
  have "kl_reach ?s8 ?s9"
    by (rule kl_reach.more [OF kl_reach.start], rule kl_step.unlock [where l = 0]) (simp add: d)
  then have "kl_reach ?s8 ?s10" by (rule kl_reach.more, intro kl_step.unlock [where l = 1]) (simp add: d)
  moreover have "pc ?s8 0 = Inside WrMode 5 0" "pc ?s8 1 = Inside WrMode 5 1" "pc ?s10 1 = Crashed"
    by (simp_all add: d)
  ultimately show ?thesis using r by blast
qed

end
