(* ===== verification/Sessions.thy ===== *)
theory Sessions
  imports SafeMaps
begin

text \<open>
  Sessions: \<open>BaseSessions\<close> (\<open>models/baseSession.go\<close>), the store of expiring sessions with its sweeper,
  and the game sessions on top of it (\<open>models/session.go\<close>).  Instants and durations are nanoseconds;
  the clock is an argument.  The generator of identifiers is a stream \<open>gen\<close>: call number \<open>i\<close>
  returns \<open>gen i\<close>.
\<close>

section \<open>BaseSessions\<close>

record ('t, 'd) BaseSession =
  bs_id :: 't
  bs_expiry :: int
  bs_data :: 'd

record ('t, 'd) BaseSessions =
  bss_expiry :: int
  bss_store :: "('t, ('t, 'd) BaseSession) SafeMap"
  sweeperTaskStarted :: bool

definition newExpiry :: "int \<Rightarrow> int \<Rightarrow> int" where
  "newExpiry now duration = now + duration"

definition NewBaseSessions :: "int \<Rightarrow> ('t, 'd) BaseSessions" where
  "NewBaseSessions expiry = \<lparr>bss_expiry = expiry, bss_store = NewSafeMap, sweeperTaskStarted = False\<rparr>"

text \<open>The loop of \<open>CreateSession\<close>: \<open>None\<close> is a loop that never ends.\<close>

partial_function (option) CreateSession_loop ::
    "(nat \<Rightarrow> 't) \<Rightarrow> nat \<Rightarrow> int \<Rightarrow> 'd \<Rightarrow> ('t, ('t, 'd) BaseSession) SafeMap
       \<Rightarrow> (('t, 'd) BaseSession \<times> nat \<times> ('t, ('t, 'd) BaseSession) SafeMap) option" where
  "CreateSession_loop gen n ex data st =
     (let info = \<lparr>bs_id = gen n, bs_expiry = ex, bs_data = data\<rparr>;
          r = SafeMap_Store (bs_id info) info (Some (\<lambda>_. False)) st
      in if snd (fst r) then CreateSession_loop gen (Suc n) ex data (snd r)
         else Some (fst (fst r), Suc n, snd r))"

definition CreateSession ::
    "int \<Rightarrow> (nat \<Rightarrow> 't) \<Rightarrow> 'd \<Rightarrow> ('t, 'd) BaseSessions \<Rightarrow> (('t, 'd) BaseSession \<times> ('t, 'd) BaseSessions) option" where
  "CreateSession now idGenFun data sessions =
     (case CreateSession_loop idGenFun 0 (newExpiry now (bss_expiry sessions)) data (bss_store sessions) of
        None \<Rightarrow> None
      | Some (stored, _, st) \<Rightarrow>
          Some (stored, sessions\<lparr>bss_store := st, sweeperTaskStarted := True\<rparr>))"

definition BaseSessions_Get :: "('t, 'd) BaseSessions \<Rightarrow> 't \<Rightarrow> ('t, 'd) BaseSession option" where
  "BaseSessions_Get sessions i = SafeMap_Load (bss_store sessions) i"

definition BaseSessions_Values :: "('t, 'd) BaseSessions \<Rightarrow> ('t, 'd) BaseSession list" where
  "BaseSessions_Values sessions = SafeMap_Values (bss_store sessions)"

definition BaseSessions_Delete :: "'t \<Rightarrow> ('t, 'd) BaseSessions \<Rightarrow> ('t, 'd) BaseSessions" where
  "BaseSessions_Delete i sessions = sessions\<lparr>bss_store := SafeMap_Delete i (bss_store sessions)\<rparr>"

text \<open>\<open>alreadyExpired\<close> and the time until the next session expires.\<close>

definition nextExpiration :: "int \<Rightarrow> ('t, 'd) BaseSessions \<Rightarrow> 't list \<times> int" where
  "nextExpiration now sessions =
     (let vs = BaseSessions_Values sessions;
          alreadyExpired = map bs_id (filter (\<lambda>s. bs_expiry s < now) vs);
          expirationTimes = map bs_expiry (filter (\<lambda>s. \<not> bs_expiry s < now) vs)
      in (alreadyExpired,
          if expirationTimes \<noteq> [] then hd (sort expirationTimes) - now else bss_expiry sessions))"

text \<open>
  One turn of the sweeper's loop.  \<open>Ticker.Reset\<close> (like \<open>NewTicker\<close>) panics on an interval that is
  not positive, before anything is deleted.
\<close>

definition startSweeper_tick :: "int \<Rightarrow> ('t, 'd) BaseSessions \<Rightarrow> unit outcome \<times> ('t, 'd) BaseSessions" where
  "startSweeper_tick now sessions =
     (let (alreadyExpired, nxt) = nextExpiration now sessions
      in if nxt \<le> 0 then (Panic, sessions)
         else (Ret (), sessions\<lparr>bss_store := fold SafeMap_Delete alreadyExpired (bss_store sessions)\<rparr>))"

definition ResetExpiryTimer :: "int \<Rightarrow> 't \<Rightarrow> ('t, 'd) BaseSessions \<Rightarrow> ('t, 'd) BaseSessions" where
  "ResetExpiryTimer now i sessions =
     (case BaseSessions_Get sessions i of
        None \<Rightarrow> sessions
      | Some _ \<Rightarrow>
          sessions\<lparr>bss_store := SafeMap_modify i (\<lambda>s. s\<lparr>bs_expiry := newExpiry now (bss_expiry sessions)\<rparr>)
                                  (bss_store sessions)\<rparr>)"

subsection \<open>Invariant\<close>

text \<open>The map is well-formed and every session is stored under its own identifier.\<close>

definition BaseSessions_wf :: "('t, 'd) BaseSessions \<Rightarrow> bool" where
  "BaseSessions_wf ss \<longleftrightarrow>
     SafeMap_wf (bss_store ss) \<and> (\<forall>i s. SafeMap_Load (bss_store ss) i = Some s \<longrightarrow> bs_id s = i)"

lemma BaseSessions_wf_new [simp]: "BaseSessions_wf (NewBaseSessions d)"
  by (simp add: BaseSessions_wf_def NewBaseSessions_def)

lemma BaseSessions_wf_Delete [simp, inv_intros]: "BaseSessions_wf ss \<Longrightarrow> BaseSessions_wf (BaseSessions_Delete i ss)"
  by (auto simp: BaseSessions_wf_def BaseSessions_Delete_def SafeMap_Load_Delete)

lemma BaseSessions_wf_Reset [simp, inv_intros]:
  "BaseSessions_wf ss \<Longrightarrow> BaseSessions_wf (ResetExpiryTimer now i ss)"
  by (auto simp: BaseSessions_wf_def ResetExpiryTimer_def SafeMap_Load_modify split: option.splits)

lemma BaseSessions_Values_mem:
  "BaseSessions_wf ss \<Longrightarrow> s \<in> set (BaseSessions_Values ss) \<longleftrightarrow> BaseSessions_Get ss (bs_id s) = Some s"
  by (auto simp: BaseSessions_wf_def BaseSessions_Values_def BaseSessions_Get_def SafeMap_Values_mem)

lemma BaseSessions_Get_id: "BaseSessions_wf ss \<Longrightarrow> BaseSessions_Get ss i = Some s \<Longrightarrow> bs_id s = i"
  by (simp add: BaseSessions_wf_def BaseSessions_Get_def)

subsection \<open>Creation\<close>

lemma CreateSession_loop_fresh:
  assumes "SafeMap_wf st" and "SafeMap_Load st (gen n) = None"
  shows "CreateSession_loop gen n ex data st =
    Some (\<lparr>bs_id = gen n, bs_expiry = ex, bs_data = data\<rparr>, Suc n,
      SafeMap_ins (gen n) \<lparr>bs_id = gen n, bs_expiry = ex, bs_data = data\<rparr> st)"
  using assms by (subst CreateSession_loop.simps) (simp add: SafeMap_Store_def SafeMap_defs)

lemma CreateSession_loop_taken:
  assumes "SafeMap_wf st" and "SafeMap_Load st (gen n) \<noteq> None"
  shows "CreateSession_loop gen n ex data st = CreateSession_loop gen (Suc n) ex data st"
  using assms
  by (subst CreateSession_loop.simps) (auto simp: SafeMap_Store_def SafeMap_defs)

lemma CreateSession_loop_first_fresh:
  assumes "SafeMap_wf st" and "SafeMap_Load st (gen (n + k)) = None"
    and "\<forall>j<k. SafeMap_Load st (gen (n + j)) \<noteq> None"
  shows "CreateSession_loop gen n ex data st =
    Some (\<lparr>bs_id = gen (n + k), bs_expiry = ex, bs_data = data\<rparr>, Suc (n + k),
      SafeMap_ins (gen (n + k)) \<lparr>bs_id = gen (n + k), bs_expiry = ex, bs_data = data\<rparr> st)"
  using assms(2,3)
proof (induction k arbitrary: n)
  case 0
  with assms(1) show ?case using CreateSession_loop_fresh [of st gen n] by simp
next
  case (Suc k)
  have "SafeMap_Load st (gen n) \<noteq> None" using Suc.prems(2) [rule_format, of 0] by simp
  then have "CreateSession_loop gen n ex data st = CreateSession_loop gen (Suc n) ex data st"
    using assms(1) by (rule CreateSession_loop_taken [rotated])
  moreover have "\<forall>j<k. SafeMap_Load st (gen (Suc n + j)) \<noteq> None"
    using Suc.prems(2) by (auto simp del: not_None_eq dest: spec [of _ "Suc _"])
  ultimately show ?case using Suc.IH [of "Suc n"] Suc.prems(1) by simp
qed

lemma CreateSession_loop_returns:
  assumes "CreateSession_loop gen n ex data st = Some r" and "SafeMap_wf st"
  shows "\<exists>k. SafeMap_Load st (gen (n + k)) = None"
proof -
  have "SafeMap_wf st \<longrightarrow> (\<exists>k. SafeMap_Load st (gen (n + k)) = None)"
  proof (rule CreateSession_loop.raw_induct [OF _ assms(1),
        where P = "\<lambda>gen n ex data st r. SafeMap_wf st \<longrightarrow> (\<exists>k. SafeMap_Load st (gen (n + k)) = None)"])
    fix f and gen :: "nat \<Rightarrow> 'a" and n ex and data :: 'b and st r
    assume IH: "\<And>gen n ex data st r. f gen n ex data st = Some r \<Longrightarrow>
        SafeMap_wf st \<longrightarrow> (\<exists>k. SafeMap_Load st (gen (n + k)) = None)"
      and eq: "(let info = \<lparr>bs_id = gen n, bs_expiry = ex, bs_data = data\<rparr>;
          r = SafeMap_Store (bs_id info) info (Some (\<lambda>_. False)) st
        in if snd (fst r) then f gen (Suc n) ex data (snd r)
           else Some (fst (fst r), Suc n, snd r)) = Some r"
    show "SafeMap_wf st \<longrightarrow> (\<exists>k. SafeMap_Load st (gen (n + k)) = None)"
    proof
      assume wf: "SafeMap_wf st"
      show "\<exists>k. SafeMap_Load st (gen (n + k)) = None"
      proof (cases "SafeMap_Load st (gen n)")
      case None
      then show ?thesis by (intro exI [of _ 0]) simp
    next
      case (Some s)
      with wf eq have "f gen (Suc n) ex data st = Some r"
        by (simp add: SafeMap_Store_def SafeMap_Load_def SafeMap_wf_def Let_def)
      with IH wf obtain k where "SafeMap_Load st (gen (Suc n + k)) = None" by blast
      then show ?thesis by (intro exI [of _ "Suc k"]) simp
      qed
    qed
  qed
  with assms(2) show ?thesis by blast
qed

lemma BaseSessions_wf_Create:
  assumes "BaseSessions_wf ss" and "CreateSession now gen d ss = Some (s, ss')"
  shows "BaseSessions_wf ss'"
proof -
  have wf: "SafeMap_wf (bss_store ss)" using assms(1) by (simp add: BaseSessions_wf_def)
  obtain n st where l: "CreateSession_loop gen 0 (newExpiry now (bss_expiry ss)) d (bss_store ss) = Some (s, n, st)"
    and ss': "ss' = ss\<lparr>bss_store := st, sweeperTaskStarted := True\<rparr>"
    using assms(2) by (auto simp: CreateSession_def split: option.splits)
  from CreateSession_loop_returns [OF l wf] obtain k where "SafeMap_Load (bss_store ss) (gen (0 + k)) = None" by blast
  define k0 where "k0 = (LEAST k. SafeMap_Load (bss_store ss) (gen (0 + k)) = None)"
  have "SafeMap_Load (bss_store ss) (gen (0 + k0)) = None"
    unfolding k0_def by (rule LeastI) fact
  moreover have "\<forall>j<k0. SafeMap_Load (bss_store ss) (gen (0 + j)) \<noteq> None"
    unfolding k0_def using not_less_Least by blast
  ultimately have "st = SafeMap_ins (gen k0) s (bss_store ss) \<and> bs_id s = gen k0"
    using CreateSession_loop_first_fresh [OF wf, of gen 0 k0] l by auto
  with assms(1) ss' show ?thesis
    by (auto simp: BaseSessions_wf_def sm.look_ins)
qed

lemma CreateSession_first_fresh:
  assumes "BaseSessions_wf ss" and "BaseSessions_Get ss (gen k) = None"
    and "\<forall>j<k. BaseSessions_Get ss (gen j) \<noteq> None"
  shows "CreateSession now gen d ss =
    (let s = \<lparr>bs_id = gen k, bs_expiry = newExpiry now (bss_expiry ss), bs_data = d\<rparr>
     in Some (s, ss\<lparr>bss_store := SafeMap_ins (gen k) s (bss_store ss), sweeperTaskStarted := True\<rparr>))"
  using assms CreateSession_loop_first_fresh [of "bss_store ss" gen 0 k "newExpiry now (bss_expiry ss)" d]
  by (simp add: CreateSession_def BaseSessions_wf_def BaseSessions_Get_def Let_def)

lemma CreateSession_never:
  assumes "BaseSessions_wf ss" and "\<forall>k. BaseSessions_Get ss (gen k) \<noteq> None"
  shows "CreateSession now gen d ss = None"
proof (cases "CreateSession_loop gen 0 (newExpiry now (bss_expiry ss)) d (bss_store ss)")
  case None
  then show ?thesis by (simp add: CreateSession_def)
next
  case (Some r)
  have wf: "SafeMap_wf (bss_store ss)" using assms(1) by (simp add: BaseSessions_wf_def)
  from CreateSession_loop_returns [OF Some wf] obtain k where "BaseSessions_Get ss (gen k) = None"
    by (auto simp: BaseSessions_Get_def)
  with assms(2) show ?thesis by blast
qed

lemma CreateSession_returns_iff:
  assumes "BaseSessions_wf ss"
  shows "CreateSession now gen d ss \<noteq> None \<longleftrightarrow> (\<exists>k. BaseSessions_Get ss (gen k) = None)"
proof (cases "\<exists>k. BaseSessions_Get ss (gen k) = None")
  case False
  then show ?thesis using CreateSession_never [OF assms] by simp
next
  case True
  define k where "k = (LEAST k. BaseSessions_Get ss (gen k) = None)"
  have k: "BaseSessions_Get ss (gen k) = None" unfolding k_def by (rule LeastI_ex [OF True])
  have min: "\<forall>j<k. BaseSessions_Get ss (gen j) \<noteq> None"
    unfolding k_def using not_less_Least by blast
  from True show ?thesis by (simp add: CreateSession_first_fresh [OF assms k min] Let_def)
qed

lemma CreateSession_Some:
  assumes "BaseSessions_wf ss" and "CreateSession now gen d ss = Some (s, ss')"
  shows "BaseSessions_Get ss (bs_id s) = None \<and> s = \<lparr>bs_id = bs_id s, bs_expiry = now + bss_expiry ss, bs_data = d\<rparr>
    \<and> BaseSessions_Get ss' = (BaseSessions_Get ss)(bs_id s \<mapsto> s) \<and> sweeperTaskStarted ss' \<and> BaseSessions_wf ss'"
proof -
  have ex: "\<exists>k. BaseSessions_Get ss (gen k) = None"
    using CreateSession_returns_iff [OF assms(1), of now gen d] assms(2) by simp
  define k where "k = (LEAST k. BaseSessions_Get ss (gen k) = None)"
  have k: "BaseSessions_Get ss (gen k) = None" unfolding k_def by (rule LeastI_ex [OF ex])
  have min: "\<forall>j<k. BaseSessions_Get ss (gen j) \<noteq> None"
    unfolding k_def using not_less_Least by blast
  have wf: "SafeMap_wf (bss_store ss)" using assms(1) by (simp add: BaseSessions_wf_def)
  from assms(2) k show ?thesis
    using BaseSessions_wf_Create [OF assms] sm.look_ins [OF wf]
    by (auto simp: CreateSession_first_fresh [OF assms(1) k min] Let_def BaseSessions_Get_def newExpiry_def fun_eq_iff)
qed

subsection \<open>The sweeper\<close>

lemma BaseSessions_Get_tick_delete:
  assumes "SafeMap_wf (bss_store ss)"
  shows "BaseSessions_Get (ss\<lparr>bss_store := fold SafeMap_Delete ids (bss_store ss)\<rparr>) i =
    (if i \<in> set ids then None else BaseSessions_Get ss i)"
  using sm.look_fold_remove [OF assms, of ids i] by (simp add: BaseSessions_Get_def)

lemma expired_ids:
  assumes "BaseSessions_wf ss"
  shows "i \<in> set (fst (nextExpiration now ss)) \<longleftrightarrow>
    (\<exists>s. BaseSessions_Get ss i = Some s \<and> bs_expiry s < now)"
proof -
  have "i \<in> set (fst (nextExpiration now ss)) \<longleftrightarrow>
      (\<exists>s \<in> set (BaseSessions_Values ss). bs_expiry s < now \<and> bs_id s = i)"
    by (auto simp: nextExpiration_def Let_def)
  also have "\<dots> \<longleftrightarrow> (\<exists>s. BaseSessions_Get ss i = Some s \<and> bs_expiry s < now)"
    using BaseSessions_Values_mem [OF assms] BaseSessions_Get_id [OF assms] by metis
  finally show ?thesis .
qed

lemma hd_sort_Min: "xs \<noteq> [] \<Longrightarrow> hd (sort xs) = Min (set (xs :: int list))"
proof -
  assume "xs \<noteq> []"
  then obtain y ys where s: "sort xs = y # ys" by (metis length_0_conv length_sort neq_Nil_conv)
  have "sorted (y # ys)" unfolding s [symmetric] by simp
  moreover have "set xs = set (y # ys)" unfolding s [symmetric] by simp
  ultimately have "Min (set xs) = y" by (auto intro: Min_eqI)
  with s show ?thesis by simp
qed

lemma next_pos_iff:
  assumes "BaseSessions_wf ss" and "0 < bss_expiry ss"
  shows "0 < snd (nextExpiration now ss) \<longleftrightarrow>
    (\<forall>i s. BaseSessions_Get ss i = Some s \<longrightarrow> bs_expiry s \<noteq> now)"
proof -
  let ?live = "filter (\<lambda>s. \<not> bs_expiry s < now) (BaseSessions_Values ss)"
  let ?ts = "map bs_expiry ?live"
  have all: "(\<forall>i s. BaseSessions_Get ss i = Some s \<longrightarrow> bs_expiry s \<noteq> now)
      \<longleftrightarrow> (\<forall>s \<in> set (BaseSessions_Values ss). bs_expiry s \<noteq> now)"
    using BaseSessions_Values_mem [OF assms(1)] BaseSessions_Get_id [OF assms(1)] by metis
  show ?thesis
  proof (cases "?ts = []")
    case True
    then have "snd (nextExpiration now ss) = bss_expiry ss" by (simp add: nextExpiration_def Let_def)
    with True assms(2) show ?thesis
      unfolding all by (auto simp: filter_empty_conv)
  next
    case False
    then have "snd (nextExpiration now ss) = Min (set ?ts) - now"
      using hd_sort_Min [OF False] by (simp add: nextExpiration_def Let_def)
    moreover have "now < Min (set ?ts) \<longleftrightarrow> (\<forall>t \<in> set ?ts. now < t)"
      using False by (simp only: Min_gr_iff finite_set set_empty simp_thms)
    ultimately show ?thesis unfolding all by fastforce
  qed
qed

section \<open>Game sessions\<close>

text \<open>
  \<open>messageChan\<close> is a channel with room for \<open>message_cap\<close> messages; the list holds what is buffered.
\<close>

record SessionData =
  sd_id :: string
  sd_clientLibVersion :: uint16
  sd_userId :: int32
  sd_messageChan :: "goA list"

definition message_cap :: nat where
  "message_cap = 100"

definition sessionDuration :: int where
  "sessionDuration = 5 * 60 * 10 ^ 9"

definition sessionLetters :: string where
  "sessionLetters = ''abcdefghijklmnopqrstuvwxyz0123456789''"

text \<open>\<open>draws\<close> are the numbers \<open>rand.IntN(36)\<close> returns, one for each of the 30 letters.\<close>

definition generateSessionId :: "nat list \<Rightarrow> string" where
  "generateSessionId draws = map (\<lambda>d. sessionLetters ! (d mod length sessionLetters)) (take 30 draws)"

type_synonym MainSessions = "(string, SessionData) BaseSessions"

definition MainSessions_Initialize :: "MainSessions" where
  "MainSessions_Initialize = NewBaseSessions sessionDuration"

text \<open>\<open>Create\<close>: \<open>None\<close> is a call that never returns.\<close>

definition MainSessions_Create ::
    "int \<Rightarrow> nat list \<Rightarrow> int32 \<Rightarrow> uint16 \<Rightarrow> MainSessions \<Rightarrow> (string \<times> MainSessions) option" where
  "MainSessions_Create now draws userId clientLibVersion s =
     (let newId = generateSessionId draws;
          sess = \<lparr>sd_id = newId, sd_clientLibVersion = clientLibVersion, sd_userId = userId, sd_messageChan = []\<rparr>
      in case CreateSession now (\<lambda>_. newId) sess s of
           None \<Rightarrow> None
         | Some (_, s') \<Rightarrow> Some (newId, s'))"

definition MainSessions_GetById :: "MainSessions \<Rightarrow> string \<Rightarrow> SessionData option" where
  "MainSessions_GetById s i = map_option bs_data (BaseSessions_Get s i)"

definition MainSessions_GetByUserId :: "MainSessions \<Rightarrow> int32 \<Rightarrow> SessionData option" where
  "MainSessions_GetByUserId s userId =
     List.find (\<lambda>d. sd_userId d = userId) (map bs_data (BaseSessions_Values s))"

definition MainSessions_Delete :: "string \<Rightarrow> MainSessions \<Rightarrow> MainSessions" where
  "MainSessions_Delete i s = BaseSessions_Delete i s"

definition MainSessions_ResetExpiry :: "int \<Rightarrow> string \<Rightarrow> MainSessions \<Rightarrow> MainSessions" where
  "MainSessions_ResetExpiry now i s = ResetExpiryTimer now i s"

text \<open>
  \<open>AddMessage\<close> sends on the channel: it blocks (here \<open>None\<close>) while the buffer is full.
\<close>

definition AddMessage :: "goA \<Rightarrow> SessionData \<Rightarrow> SessionData option" where
  "AddMessage message s =
     (if length (sd_messageChan s) < message_cap
      then Some (s\<lparr>sd_messageChan := sd_messageChan s @ [message]\<rparr>) else None)"

text \<open>
  \<open>WaitForMessages\<close>.  A run is the list of what happens while it waits: \<open>Put m\<close> is an
  \<open>AddMessage\<close> of another goroutine (which stays blocked, and changes nothing, when the channel
  is full), \<open>Recv\<close> the outer \<open>select\<close> taking a message from the channel
  (it stays blocked when there is none), \<open>Timeout\<close> the timer of 19 seconds winning that
  \<open>select\<close>.  After a \<open>Recv\<close> the inner loop takes what is buffered until the buffer is empty (it
  returns, the acknowledgement number one higher) or as many messages have been collected as the
  channel has room for: then the outer \<open>select\<close> waits again.
\<close>

datatype wait_event = Put goA | Recv | Timeout

fun drain :: "nat \<Rightarrow> goA list \<Rightarrow> goA list \<Rightarrow> goA list \<times> goA list" where
  "drain c results [] = (results, [])"
| "drain c results (m # buf) =
     (if length results < c then drain c (results @ [m]) buf else (results, m # buf))"

text \<open>
  The results are the acknowledgement number, the messages and what is left in the buffer;
  \<open>None\<close> is a call that is still waiting.
\<close>

fun WaitForMessages_loop ::
    "nat \<Rightarrow> goA list \<Rightarrow> goA list \<Rightarrow> wait_event list \<Rightarrow> (nat \<times> goA list \<times> goA list) option" where
  "WaitForMessages_loop ackNum results buf [] = None"
| "WaitForMessages_loop ackNum results buf (Timeout # evs) = Some (ackNum, results, buf)"
| "WaitForMessages_loop ackNum results buf (Put m # evs) =
     WaitForMessages_loop ackNum results (if length buf < message_cap then buf @ [m] else buf) evs"
| "WaitForMessages_loop ackNum results buf (Recv # evs) =
     (case buf of
        [] \<Rightarrow> WaitForMessages_loop ackNum results [] evs
      | m # buf1 \<Rightarrow>
          (let (results', rest) = drain message_cap (results @ [m]) buf1
           in if length results' < message_cap then Some (Suc ackNum, results', rest)
              else WaitForMessages_loop ackNum results' rest evs))"

definition WaitForMessages :: "nat \<Rightarrow> SessionData \<Rightarrow> wait_event list \<Rightarrow> (nat \<times> goA list \<times> SessionData) option" where
  "WaitForMessages ackNum s evs =
     map_option (\<lambda>(a, ms, buf). (a, ms, s\<lparr>sd_messageChan := buf\<rparr>))
       (WaitForMessages_loop ackNum [] (sd_messageChan s) evs)"

lemma drain_eq:
  "length r \<le> c \<Longrightarrow> drain c r buf = (r @ take (c - length r) buf, drop (c - length r) buf)"
proof (induction buf arbitrary: r)
  case (Cons m buf)
  show ?case
  proof (cases "length r < c")
    case True
    then have e: "c - length r = Suc (c - length (r @ [m]))" by simp
    from True have "length (r @ [m]) \<le> c" by simp
    from Cons.IH [OF this] True show ?thesis by (simp add: e)
  qed (use Cons.prems in simp)
qed simp

lemma drain_full: "c \<le> length r \<Longrightarrow> drain c r buf = (r, buf)"
  by (cases buf) simp_all

text \<open>Nothing is lost or reordered, whatever the timing: the messages returned and the ones left
  in the buffer are the ones buffered at the call and the ones put since, in order.\<close>

fun puts :: "wait_event list \<Rightarrow> goA list" where
  "puts [] = []"
| "puts (Put m # evs) = m # puts evs"
| "puts (_ # evs) = puts evs"

lemma drain_append: "fst (drain c r buf) @ snd (drain c r buf) = r @ buf"
  by (induction c r buf rule: drain.induct) (auto split: if_splits)

lemma drain_length: "length (snd (drain c r buf)) \<le> length buf"
  by (induction c r buf rule: drain.induct) (auto split: if_splits)

lemma WaitForMessages_loop_order:
  assumes "WaitForMessages_loop ack r buf evs = Some (a, ms, left)"
    and "length buf + length (puts evs) \<le> message_cap"
  shows "\<exists>done. evs = done @ drop (length done) evs \<and> ms @ left = r @ buf @ puts done"
  using assms
proof (induction ack r buf evs rule: WaitForMessages_loop.induct)
  case (2 ack r buf evs)
  then show ?case by (intro exI [of _ "[Timeout]"]) auto
next
  case (3 ack r buf m evs)
  then have *: "WaitForMessages_loop ack r (buf @ [m]) evs = Some (a, ms, left)"
    and l: "length buf < message_cap" and l2: "length (buf @ [m]) + length (puts evs) \<le> message_cap" by auto
  from "3.IH" * l l2 obtain dn where "evs = dn @ drop (length dn) evs" "ms @ left = r @ (buf @ [m]) @ puts dn"
    by auto
  then show ?case by (intro exI [of _ "Put m # dn"]) simp
next
  case (4 ack r buf evs)
  show ?case
  proof (cases buf)
    case Nil
    with "4.prems" "4.IH"(1) obtain dn where "evs = dn @ drop (length dn) evs" "ms @ left = r @ [] @ puts dn"
      by auto
    with Nil show ?thesis by (intro exI [of _ "Recv # dn"]) simp
  next
    case (Cons m buf1)
    obtain r' rest where d: "drain message_cap (r @ [m]) buf1 = (r', rest)" by fastforce
    have app: "r' @ rest = r @ buf" using drain_append [of message_cap "r @ [m]" buf1] d Cons by simp
    show ?thesis
    proof (cases "length r' < message_cap")
      case True
      with "4.prems" Cons d app show ?thesis by (intro exI [of _ "[Recv]"]) (auto simp: Let_def)
    next
      case False
      have "length rest \<le> length buf1" using drain_length [of message_cap "r @ [m]" buf1] d by simp
      with "4.prems" Cons have "length rest + length (puts evs) \<le> message_cap" by simp
      with "4.IH"(2) [OF Cons refl d [symmetric]] False "4.prems"(1) Cons d
      obtain dn where "evs = dn @ drop (length dn) evs" "ms @ left = r' @ rest @ puts dn"
        by (auto simp: Let_def)
      with app show ?thesis by (intro exI [of _ "Recv # dn"]) simp
    qed
  qed
qed simp

section \<open>Properties\<close>

text \<open>
  C9: creating a session returns exactly when the generator ever draws an identifier that is
  not in use, and then stores the new session, with its full lifetime, under that identifier and
  leaves every other session alone.
\<close>

theorem CreateSession_fresh:
  assumes "BaseSessions_wf ss"
  shows "(CreateSession now gen d ss \<noteq> None) = (\<exists>k. BaseSessions_Get ss (gen k) = None)
    \<and> (case CreateSession now gen d ss of None \<Rightarrow> True | Some (s, ss') \<Rightarrow>
          BaseSessions_Get ss (bs_id s) = None
        \<and> s = \<lparr>bs_id = bs_id s, bs_expiry = now + bss_expiry ss, bs_data = d\<rparr>
        \<and> BaseSessions_Get ss' = (BaseSessions_Get ss)(bs_id s \<mapsto> s)
        \<and> sweeperTaskStarted ss' \<and> BaseSessions_wf ss')"
  using CreateSession_returns_iff [OF assms] CreateSession_Some [OF assms] by (auto split: option.split)

theorem CreateSession_fresh_witness:
  "CreateSession 7 (\<lambda>n. n + 3) ''data'' (NewBaseSessions 10 :: (nat, string) BaseSessions) \<noteq> None"
proof -
  have "BaseSessions_Get (NewBaseSessions 10 :: (nat, string) BaseSessions) (0 + 3) = None"
    by (simp add: BaseSessions_Get_def NewBaseSessions_def)
  then show ?thesis
    using CreateSession_fresh [OF BaseSessions_wf_new, of 7 "\<lambda>n. n + 3" "''data''" 10] by blast
qed

text \<open>
  C10: a turn of the sweeper deletes exactly the sessions whose expiry has passed and keeps every
  other session; it panics, with nothing deleted, exactly when some session expires at this very
  instant (the interval it hands to \<open>Ticker.Reset\<close> is then zero).
\<close>

theorem startSweeper_tick_exact:
  assumes "BaseSessions_wf ss" and "0 < bss_expiry ss"
  shows "(fst (startSweeper_tick now ss) = Panic) = (\<exists>i s. BaseSessions_Get ss i = Some s \<and> bs_expiry s = now)
    \<and> (fst (startSweeper_tick now ss) = Panic \<longrightarrow> snd (startSweeper_tick now ss) = ss)
    \<and> (fst (startSweeper_tick now ss) = Ret () \<longrightarrow>
        (\<forall>i. BaseSessions_Get (snd (startSweeper_tick now ss)) i =
               (case BaseSessions_Get ss i of None \<Rightarrow> None
                | Some s \<Rightarrow> if bs_expiry s < now then None else Some s)))"
proof -
  have wf: "SafeMap_wf (bss_store ss)" using assms(1) by (simp add: BaseSessions_wf_def)
  have p: "(snd (nextExpiration now ss) \<le> 0) = (\<exists>i s. BaseSessions_Get ss i = Some s \<and> bs_expiry s = now)"
    using next_pos_iff [OF assms, of now] by force
  have "BaseSessions_Get (ss\<lparr>bss_store := fold SafeMap_Delete (fst (nextExpiration now ss)) (bss_store ss)\<rparr>) i =
      (case BaseSessions_Get ss i of None \<Rightarrow> None | Some s \<Rightarrow> if bs_expiry s < now then None else Some s)" for i
    unfolding BaseSessions_Get_tick_delete [OF wf] expired_ids [OF assms(1)] by (auto split: option.split)
  with p show ?thesis
    by (auto simp: startSweeper_tick_def split_def Let_def simp del: BaseSessions.update_convs)
qed

definition two_sessions :: "(nat, string) BaseSessions" where
  "two_sessions = (NewBaseSessions 10)\<lparr>bss_store :=
     SafeMap_put 2 \<lparr>bs_id = 2, bs_expiry = 20, bs_data = ''b''\<rparr>
       (SafeMap_put 1 \<lparr>bs_id = 1, bs_expiry = 5, bs_data = ''a''\<rparr> NewSafeMap)\<rparr>"

lemma two_sessions_wf: "BaseSessions_wf two_sessions"
  by (auto simp: BaseSessions_wf_def two_sessions_def sm.look_put split: if_splits)

theorem startSweeper_tick_exact_witness:
  "BaseSessions_Get (snd (startSweeper_tick 8 two_sessions)) 1 = None
   \<and> BaseSessions_Get (snd (startSweeper_tick 8 two_sessions)) 2 \<noteq> None
   \<and> fst (startSweeper_tick 20 two_sessions) = Panic"
proof -
  have e: "0 < bss_expiry two_sessions" by (simp add: two_sessions_def NewBaseSessions_def)
  have g: "BaseSessions_Get two_sessions = [1 \<mapsto> \<lparr>bs_id = 1, bs_expiry = 5, bs_data = ''a''\<rparr>,
      2 \<mapsto> \<lparr>bs_id = 2, bs_expiry = 20, bs_data = ''b''\<rparr>]"
    by (auto simp: two_sessions_def BaseSessions_Get_def sm.look_put fun_eq_iff)
  have "fst (startSweeper_tick 8 two_sessions) \<noteq> Panic"
    using startSweeper_tick_exact [OF two_sessions_wf e, of 8] unfolding g by (auto split: if_splits)
  then have "fst (startSweeper_tick 8 two_sessions) = Ret ()"
    by (cases "fst (startSweeper_tick 8 two_sessions)") simp_all
  then show ?thesis
    using startSweeper_tick_exact [OF two_sessions_wf e, of 8]
      startSweeper_tick_exact [OF two_sessions_wf e, of 20] unfolding g by auto
qed

text \<open>
  Logging a user in hands out the session only if the identifier drawn is fresh.  The
  generator passed to \<open>CreateSession\<close> always returns the same identifier, so on a collision the
  loop that should draw another one never ends.
\<close>

lemma MainSessions_Create_collision_loops:
  assumes "BaseSessions_wf s"
  shows "(MainSessions_Create now draws u v s = None) = (MainSessions_GetById s (generateSessionId draws) \<noteq> None)
    \<and> (case MainSessions_Create now draws u v s of None \<Rightarrow> True | Some (i, s') \<Rightarrow>
          i = generateSessionId draws
        \<and> map_option sd_userId (MainSessions_GetById s' i) = Some u
        \<and> (\<forall>i'. i' \<noteq> i \<longrightarrow> MainSessions_GetById s' i' = MainSessions_GetById s i'))"
proof -
  let ?d = "\<lparr>sd_id = generateSessionId draws, sd_clientLibVersion = v, sd_userId = u, sd_messageChan = []\<rparr>"
  show ?thesis
  proof (cases "BaseSessions_Get s (generateSessionId draws)")
    case (Some x)
    then show ?thesis
      using CreateSession_never [OF assms, of "\<lambda>_. generateSessionId draws" now ?d]
      by (simp add: MainSessions_Create_def MainSessions_GetById_def Let_def)
  next
    case None
    have wf: "SafeMap_wf (bss_store s)" using assms by (simp add: BaseSessions_wf_def)
    from None show ?thesis
      using CreateSession_first_fresh [OF assms, of "\<lambda>_. generateSessionId draws" 0 now ?d] sm.look_ins [OF wf]
      by (simp add: MainSessions_Create_def MainSessions_GetById_def BaseSessions_Get_def Let_def)
  qed
qed

text \<open>
  C11: the messages a client polls for come in the order they were added, none lost and none twice,
  as long as the channel is never full: what \<open>WaitForMessages\<close> returns followed by what it leaves
  in the channel is what was buffered followed by what was added while it waited.
\<close>

theorem WaitForMessages_order:
  assumes "WaitForMessages ack s evs = Some (a, ms, s')"
    and "length (sd_messageChan s) + length (puts evs) \<le> message_cap"
  shows "\<exists>done. evs = done @ drop (length done) evs \<and> ms @ sd_messageChan s' = sd_messageChan s @ puts done"
proof -
  from assms(1) have "WaitForMessages_loop ack [] (sd_messageChan s) evs = Some (a, ms, sd_messageChan s')"
    by (auto simp: WaitForMessages_def)
  from WaitForMessages_loop_order [OF this assms(2)] show ?thesis by simp
qed

theorem WaitForMessages_order_witness:
  "\<exists>done. [Put [JInt 1], Recv] = done @ drop (length done) [Put [JInt 1], Recv]
    \<and> [[JInt 5], [JInt 1]] @ [] = [[JInt 5]] @ puts done"
  using WaitForMessages_order [of 0 "\<lparr>sd_id = [], sd_clientLibVersion = 0, sd_userId = 1, sd_messageChan = [[JInt 5]]\<rparr>"
      "[Put [JInt 1], Recv]" 1 "[[JInt 5], [JInt 1]]"
      "\<lparr>sd_id = [], sd_clientLibVersion = 0, sd_userId = 1, sd_messageChan = []\<rparr>"]
  by (simp add: WaitForMessages_def message_cap_def)

lemma Recv_empty: "WaitForMessages_loop ack r [] (replicate n Recv @ evs) = WaitForMessages_loop ack r [] evs"
  by (induction n) simp_all

text \<open>
  A batch smaller than the channel's room is handed over at once and acknowledged, but a
  full channel of 100 messages is not: the call keeps waiting (unless more arrives) until its timer
  fires and then returns the batch under the old acknowledgement number.
\<close>

lemma WaitForMessages_full_batch:
  assumes "sd_messageChan s \<noteq> []" and "length (sd_messageChan s) \<le> message_cap"
  shows "WaitForMessages ack s (Recv # replicate n Recv @ [Timeout]) =
      Some (if length (sd_messageChan s) < message_cap then Suc ack else ack, sd_messageChan s, s\<lparr>sd_messageChan := []\<rparr>)
    \<and> (WaitForMessages ack s (Recv # replicate n Recv) = None) = (length (sd_messageChan s) = message_cap)"
proof -
  from assms(1) obtain m buf where b: "sd_messageChan s = m # buf" by (cases "sd_messageChan s") auto
  have "drain message_cap [m] buf = (m # buf, [])"
    using drain_eq [of "[m]" message_cap buf] assms(2) b by (simp add: message_cap_def)
  with b assms(2) Recv_empty [of ack _ n "[]"] show ?thesis
    by (auto simp: WaitForMessages_def Recv_empty)
qed

end
