(* ===== verification/Persist.thy ===== *)
theory Persist
  imports SafeMaps
begin

text \<open>
  \<open>models/persistentJsonData.go\<close>: the JSON file each user's data is kept in.  A
  \<open>PersistentStringJsonMap\<close> holds the entries as raw JSON (\<open>cachedRawData\<close>, what the file says) and
  decoded (\<open>currentData\<close>, what the server works on).  \<open>marshal\<close> and \<open>unmarshal\<close> are \<open>json.Marshal\<close>
  and \<open>json.Unmarshal\<close> at the entry's type; \<open>io\<close> says whether the write of the file succeeds.
  Decoded values are pointers, so a transaction changes them in place, also when it fails later.
\<close>

section \<open>Data\<close>

datatype psmj_err =
    NewerVersion | UpgradeErr | UnmarshalErr | KeyExists | MarshalErr | WriteErr | KeyMissing | FnErr

record 'd jsonDataWithMetadata =
  md_version :: uint32
  md_data :: 'd

text \<open>What the file holds: nothing was ever written, a complete document, or a torn write.\<close>

datatype 'r file_content =
    NoFile | FileOk uint32 "(string \<times> 'r jsonDataWithMetadata) list" | FileTorn

record ('r, 'd) PersistentStringJsonMap =
  psmj_file :: "'r file_content"
  cachedRawData :: "(string, 'r jsonDataWithMetadata) SafeMap"
  currentData :: "(string, 'd jsonDataWithMetadata) SafeMap"
  psmj_version :: uint32

text \<open>The interface \<open>DefaultUpgradableData\<close>.  \<open>ObjectOfVersion\<close> is folded into the reader of the file.\<close>

record 'd Upgrader =
  CurrentVersion :: uint32
  UpgradeToNextVersion :: "uint32 \<Rightarrow> 'd \<Rightarrow> 'd outcome"
  Default :: "'d"

definition InitialUpgradableDefaultData :: "'d \<Rightarrow> 'd Upgrader" where
  "InitialUpgradableDefaultData d =
     \<lparr>CurrentVersion = 0, UpgradeToNextVersion = (\<lambda>_ _. Panic), Default = d\<rparr>"

section \<open>Upgrades\<close>

fun upgrade_loop :: "('d \<Rightarrow> uint32 \<Rightarrow> 'd outcome) \<Rightarrow> nat \<Rightarrow> uint32 \<Rightarrow> 'd \<Rightarrow> 'd outcome" where
  "upgrade_loop step 0 version d = Ret d"
| "upgrade_loop step (Suc n) version d =
     (case step d version of Panic \<Rightarrow> Panic | Ret d' \<Rightarrow> upgrade_loop step n (version + 1) d')"

text \<open>
  \<open>fileData version\<close> is \<open>ObjectOfVersion(version)\<close> filled by decoding the file: the whole file, not
  the entry.  The result is the error or, when there was something to upgrade, the new value.
\<close>

definition upgrade :: "(uint32 \<Rightarrow> 'd option) \<Rightarrow> uint32 \<Rightarrow> 'd Upgrader \<Rightarrow> (psmj_err + 'd option) outcome" where
  "upgrade fileData version upgrader =
     (let versionsToUpgrade = CurrentVersion upgrader - version
      in if versionsToUpgrade = 0 then Ret (Inr None)
         else (case fileData version of
                 None \<Rightarrow> Ret (Inl UpgradeErr)
               | Some d \<Rightarrow>
                   (case upgrade_loop (\<lambda>d v. UpgradeToNextVersion upgrader v d) (unat versionsToUpgrade) version d of
                      Panic \<Rightarrow> Panic
                    | Ret d' \<Rightarrow> Ret (Inr (Some d')))))"

section \<open>Opening the file\<close>

definition PersistentFile_WithWriter ::
    "bool \<Rightarrow> ('r, 'd) PersistentStringJsonMap \<Rightarrow> psmj_err option \<times> ('r, 'd) PersistentStringJsonMap" where
  "PersistentFile_WithWriter io p =
     (if io then (None, p\<lparr>psmj_file := FileOk (psmj_version p) (SafeMap_Iter (cachedRawData p))\<rparr>)
      else (Some WriteErr, p\<lparr>psmj_file := FileTorn\<rparr>))"

definition SafeMap_of_list :: "('k \<times> 'v) list \<Rightarrow> ('k, 'v) SafeMap" where
  "SafeMap_of_list al = SafeMap_updateReadOnly \<lparr>wo = AList.clearjunk al, ro = []\<rparr>"

text \<open>
  \<open>NewPersistentStringMap\<close> with the initial upgrader its caller passes (version 0): an existing file
  of a newer version is refused.
\<close>

definition NewPersistentStringMap ::
    "bool \<Rightarrow> 'r file_content \<Rightarrow> psmj_err + ('r, 'd) PersistentStringJsonMap" where
  "NewPersistentStringMap io f =
     (let mk = (\<lambda>raw. \<lparr>psmj_file = f, cachedRawData = raw, currentData = NewSafeMap, psmj_version = 0\<rparr>)
      in case f of
           FileTorn \<Rightarrow> Inl UnmarshalErr
         | FileOk version al \<Rightarrow> if 0 < version then Inl NewerVersion else Inr (mk (SafeMap_of_list al))
         | NoFile \<Rightarrow>
             (case PersistentFile_WithWriter io (mk NewSafeMap) of
                (Some e, _) \<Rightarrow> Inl e
              | (None, p) \<Rightarrow> Inr p))"

section \<open>Entries\<close>

definition psmjSet_save ::
    "('d \<Rightarrow> 'r option) \<Rightarrow> bool \<Rightarrow> string \<Rightarrow> uint32 \<Rightarrow> 'd \<Rightarrow> ('r, 'd) PersistentStringJsonMap
       \<Rightarrow> psmj_err option \<times> ('r, 'd) PersistentStringJsonMap" where
  "psmjSet_save marshal io key version d p =
     (case marshal d of
        None \<Rightarrow> (Some MarshalErr, p)
      | Some raw \<Rightarrow>
          PersistentFile_WithWriter io
            (p\<lparr>cachedRawData := SafeMap_put key \<lparr>md_version = version, md_data = raw\<rparr> (cachedRawData p)\<rparr>))"

text \<open>The last part of \<open>psmjSet\<close>: the decoded value is entered, and saved unless it came from the file.\<close>

definition psmjSet_enter ::
    "('d \<Rightarrow> 'r option) \<Rightarrow> bool \<Rightarrow> string \<Rightarrow> uint32 \<Rightarrow> 'd \<Rightarrow> bool \<Rightarrow> ('r, 'd) PersistentStringJsonMap
       \<Rightarrow> psmj_err option \<times> ('r, 'd) PersistentStringJsonMap" where
  "psmjSet_enter marshal io key version d saveToCache p =
     (let ((_, exists), cur) = SafeMap_Store key \<lparr>md_version = version, md_data = d\<rparr> (Some (\<lambda>_. False)) (currentData p)
      in if exists then (Some KeyExists, p)
         else if saveToCache then psmjSet_save marshal io key version d (p\<lparr>currentData := cur\<rparr>)
         else (None, p\<lparr>currentData := cur\<rparr>))"

definition psmjSet ::
    "('d \<Rightarrow> 'r option) \<Rightarrow> ('r \<Rightarrow> 'd option) \<Rightarrow> (uint32 \<Rightarrow> 'd option) \<Rightarrow> bool \<Rightarrow> string \<Rightarrow> 'd Upgrader
       \<Rightarrow> ('r, 'd) PersistentStringJsonMap \<Rightarrow> psmj_err option outcome \<times> ('r, 'd) PersistentStringJsonMap" where
  "psmjSet marshal unmarshal fileData io key value p =
     (let enter = (\<lambda>d save. let (e, p') = psmjSet_enter marshal io key (CurrentVersion value) d save p in (Ret e, p'))
      in case SafeMap_Load (cachedRawData p) key of
           None \<Rightarrow> enter (Default value) True
         | Some currentVal \<Rightarrow>
             if md_version currentVal > CurrentVersion value then (Ret (Some NewerVersion), p)
             else (case upgrade fileData (md_version currentVal) value of
                     Panic \<Rightarrow> (Panic, p)
                   | Ret (Inl e) \<Rightarrow> (Ret (Some e), p)
                   | Ret (Inr (Some d)) \<Rightarrow> enter d True
                   | Ret (Inr None) \<Rightarrow>
                       (case unmarshal (md_data currentVal) of
                          None \<Rightarrow> (Ret (Some UnmarshalErr), p)
                        | Some d \<Rightarrow> enter d False)))"

text \<open>\<open>fn\<close> returns the value as it leaves it and whether it returned an error.\<close>

definition psmjWithReadOnly ::
    "string \<Rightarrow> ('d \<Rightarrow> bool) \<Rightarrow> ('r, 'd) PersistentStringJsonMap \<Rightarrow> psmj_err option" where
  "psmjWithReadOnly key fn p =
     (case SafeMap_Load (currentData p) key of
        None \<Rightarrow> Some KeyMissing
      | Some full \<Rightarrow> if fn (md_data full) then Some FnErr else None)"

definition psmjWithReadWrite ::
    "('d \<Rightarrow> 'r option) \<Rightarrow> bool \<Rightarrow> string \<Rightarrow> ('d \<Rightarrow> 'd \<times> bool) \<Rightarrow> ('r, 'd) PersistentStringJsonMap
       \<Rightarrow> psmj_err option \<times> ('r, 'd) PersistentStringJsonMap" where
  "psmjWithReadWrite marshal io key fn p =
     (case SafeMap_Load (currentData p) key of
        None \<Rightarrow> (Some KeyMissing, p)
      | Some full \<Rightarrow>
          let (d, err) = fn (md_data full);
              p1 = p\<lparr>currentData := SafeMap_modify key (\<lambda>e. e\<lparr>md_data := d\<rparr>) (currentData p)\<rparr>
          in if err then (Some FnErr, p1)
             else psmjSet_save marshal io key (md_version full) d p1)"

section \<open>One entry of the file\<close>

text \<open>
  \<open>PersistentJsonData\<close> as its users see it: the decoded value and the value the file's cache decodes
  to.  \<open>fn\<close> returns the value as it leaves it and \<open>Panic\<close> or whether it returned an error;
  \<open>WithReadWrite\<close> returns whether it failed itself.
\<close>

record 'd PersistentJsonData =
  pjd_data :: 'd
  pjd_saved :: 'd

definition WithReadWrite ::
    "bool \<Rightarrow> ('d \<Rightarrow> 'd \<times> bool outcome) \<Rightarrow> 'd PersistentJsonData \<Rightarrow> bool outcome \<times> 'd PersistentJsonData" where
  "WithReadWrite io fn p =
     (case fn (pjd_data p) of
        (d, Panic) \<Rightarrow> (Panic, p\<lparr>pjd_data := d\<rparr>)
      | (d, Ret err) \<Rightarrow>
          if err then (Ret True, p\<lparr>pjd_data := d\<rparr>)
          else (Ret (\<not> io), p\<lparr>pjd_data := d, pjd_saved := d\<rparr>))"

text \<open>What \<open>NewPersistentJsonData\<close> finds under its key: nothing (the default is entered), a value, or
  something it cannot use (an error, and its callers go on with a nil pointer).\<close>

datatype 'd stored = NotThere | Stored 'd | Failed

definition NewPersistentJsonData :: "'d stored \<Rightarrow> 'd \<Rightarrow> 'd PersistentJsonData option" where
  "NewPersistentJsonData s dflt =
     (case s of
        NotThere \<Rightarrow> Some \<lparr>pjd_data = dflt, pjd_saved = dflt\<rparr>
      | Stored d \<Rightarrow> Some \<lparr>pjd_data = d, pjd_saved = d\<rparr>
      | Failed \<Rightarrow> None)"

section \<open>Coherence\<close>

text \<open>Both maps are well-formed and every decoded entry is the one the file's cache holds.\<close>

definition psmj_wf :: "('r, 'd) PersistentStringJsonMap \<Rightarrow> bool" where
  "psmj_wf p \<longleftrightarrow> SafeMap_wf (cachedRawData p) \<and> SafeMap_wf (currentData p)"

definition psmj_synced :: "('r \<Rightarrow> 'd option) \<Rightarrow> string \<Rightarrow> ('r, 'd) PersistentStringJsonMap \<Rightarrow> bool" where
  "psmj_synced unmarshal key p \<longleftrightarrow>
     (\<exists>full raw al. SafeMap_Load (currentData p) key = Some full
        \<and> SafeMap_Load (cachedRawData p) key = Some raw
        \<and> md_version raw = md_version full \<and> unmarshal (md_data raw) = Some (md_data full)
        \<and> psmj_file p = FileOk (psmj_version p) al \<and> map_of al = SafeMap_Load (cachedRawData p))"

lemma SafeMap_of_list_load: "SafeMap_Load (SafeMap_of_list al) = map_of al"
  by (simp add: SafeMap_of_list_def SafeMap_Load_def [abs_def] SafeMap_updateReadOnly_def map_of_clearjunk)

lemma SafeMap_of_list_wf [simp]: "SafeMap_wf (SafeMap_of_list al)"
  by (simp add: SafeMap_of_list_def SafeMap_wf_def SafeMap_updateReadOnly_def)

lemma SafeMap_Iter_map_of: "SafeMap_wf m \<Longrightarrow> map_of (SafeMap_Iter m) = SafeMap_Load m"
  by (rule ext) (simp add: SafeMap_Iter_def SafeMap_Load_def)

lemma WithWriter_fields [simp]:
  "cachedRawData (snd (PersistentFile_WithWriter io p)) = cachedRawData p"
  "currentData (snd (PersistentFile_WithWriter io p)) = currentData p"
  "psmj_version (snd (PersistentFile_WithWriter io p)) = psmj_version p"
  by (simp_all add: PersistentFile_WithWriter_def)

lemma psmjSet_save_fields [simp]:
  "currentData (snd (psmjSet_save marshal io key v d p)) = currentData p"
  "psmj_version (snd (psmjSet_save marshal io key v d p)) = psmj_version p"
  by (simp_all add: psmjSet_save_def split: option.split)

lemma psmjSet_save_wf: "psmj_wf p \<Longrightarrow> psmj_wf (snd (psmjSet_save marshal io key v d p))"
  by (auto simp: psmj_wf_def psmjSet_save_def split: option.split)

lemma psmjWithReadWrite_wf:
  assumes "psmj_wf p"
  shows "psmj_wf (snd (psmjWithReadWrite marshal io key fn p))"
proof (cases "SafeMap_Load (currentData p) key")
  case None
  with assms show ?thesis by (simp add: psmjWithReadWrite_def)
next
  case (Some full)
  have "psmj_wf (p\<lparr>currentData := SafeMap_modify key f (currentData p)\<rparr>)" for f
    using assms by (simp add: psmj_wf_def)
  with Some show ?thesis
    by (simp add: psmjWithReadWrite_def split_def Let_def psmjSet_save_wf)
qed

lemma psmjSet_save_synced:
  assumes "psmj_wf p" and "SafeMap_Load (currentData p) key = Some \<lparr>md_version = v, md_data = d\<rparr>"
    and "\<And>raw. marshal d = Some raw \<Longrightarrow> unmarshal raw = Some d"
    and "fst (psmjSet_save marshal io key v d p) = None"
  shows "psmj_synced unmarshal key (snd (psmjSet_save marshal io key v d p))"
proof -
  from assms(4) obtain raw where r: "marshal d = Some raw" and io
    by (auto simp: psmjSet_save_def PersistentFile_WithWriter_def split: option.splits if_splits)
  have wf: "SafeMap_wf (cachedRawData p)" using assms(1) by (simp add: psmj_wf_def)
  from r \<open>io\<close> assms(2,3) show ?thesis
    by (simp add: psmj_synced_def psmjSet_save_def PersistentFile_WithWriter_def sm.look_put [OF wf]
        SafeMap_Iter_map_of [OF SafeMap_wf_Store [OF wf]])
qed

lemma upgrade_current [simp]: "upgrade f (CurrentVersion u) u = Ret (Inr None)"
  by (simp add: upgrade_def)

lemma upgrade_initial [simp]:
  "upgrade f 0 (InitialUpgradableDefaultData d) = Ret (Inr None)"
  by (simp add: upgrade_def InitialUpgradableDefaultData_def)

lemma psmjSet_wf: "psmj_wf p \<Longrightarrow> psmj_wf (snd (psmjSet marshal unmarshal fileData io key value p))"
  by (auto simp: psmjSet_def psmjSet_enter_def Let_def split_def psmj_wf_def psmjSet_save_def
      split: option.splits outcome.splits sum.splits)

text \<open>What an entry of the maps looks like through a \<open>PersistentJsonData\<close>.\<close>

definition entry_abs :: "('r \<Rightarrow> 'd option) \<Rightarrow> string \<Rightarrow> ('r, 'd) PersistentStringJsonMap \<Rightarrow> 'd PersistentJsonData option" where
  "entry_abs unmarshal key p =
     (case (SafeMap_Load (currentData p) key, SafeMap_Load (cachedRawData p) key) of
        (Some c, Some r) \<Rightarrow> map_option (\<lambda>d. \<lparr>pjd_data = md_data c, pjd_saved = d\<rparr>) (unmarshal (md_data r))
      | _ \<Rightarrow> None)"

section \<open>Properties\<close>

text \<open>
  C6: a transaction that reports no error survives a restart.  Whatever \<open>WithReadWrite\<close> made of
  an entry is what the server finds when it opens the file again and asks for that entry, provided
  the value's JSON decodes to it and the entry's format has not changed version.
\<close>

theorem psmjWithReadWrite_survives_restart:
  assumes "psmj_wf p" and "psmj_version p = 0"
    and "SafeMap_Load (currentData p) key = Some \<lparr>md_version = CurrentVersion up, md_data = d\<rparr>"
    and "unmarshal (the (marshal (fst (fn d)))) = Some (fst (fn d))"
    and "psmjWithReadWrite marshal io key fn p = (None, p')"
  shows "\<exists>q :: ('r, 'd) PersistentStringJsonMap. NewPersistentStringMap io' (psmj_file p') = Inr q
    \<and> fst (psmjSet marshal unmarshal fileData io'' key up q) = Ret None
    \<and> SafeMap_Load (currentData (snd (psmjSet marshal unmarshal fileData io'' key up q))) key
        = Some \<lparr>md_version = CurrentVersion up, md_data = fst (fn d)\<rparr>
    \<and> SafeMap_Load (currentData p') key = Some \<lparr>md_version = CurrentVersion up, md_data = fst (fn d)\<rparr>"
proof -
  define p1 where "p1 = p\<lparr>currentData := SafeMap_modify key (\<lambda>e. e\<lparr>md_data := fst (fn d)\<rparr>) (currentData p)\<rparr>"
  have wf1: "psmj_wf p1" using assms(1) by (simp add: psmj_wf_def p1_def)
  have c1: "SafeMap_Load (currentData p1) key = Some \<lparr>md_version = CurrentVersion up, md_data = fst (fn d)\<rparr>"
    using assms(3) by (simp add: p1_def SafeMap_Load_modify)
  have save: "psmjSet_save marshal io key (CurrentVersion up) (fst (fn d)) p1 = (None, p')"
    using assms(3,5) by (auto simp: psmjWithReadWrite_def p1_def split_def Let_def split: if_splits)
  have "unmarshal raw = Some (fst (fn d))" if "marshal (fst (fn d)) = Some raw" for raw
    using assms(4) that by simp
  with psmjSet_save_synced [OF wf1 c1, of marshal unmarshal io] save have "psmj_synced unmarshal key p'"
    by (metis fst_conv snd_conv)
  moreover have cur: "currentData p' = currentData p1" and ver: "psmj_version p' = 0"
    using psmjSet_save_fields [of marshal io key "CurrentVersion up" "fst (fn d)" p1, unfolded save] assms(2)
    by (simp_all add: p1_def)
  ultimately obtain raw al where raw: "map_of al key = Some raw" "md_version raw = CurrentVersion up"
      "unmarshal (md_data raw) = Some (fst (fn d))" and f: "psmj_file p' = FileOk 0 al"
    unfolding psmj_synced_def cur c1 ver by (metis jsonDataWithMetadata.select_convs option.inject)
  let ?q = "\<lparr>psmj_file = FileOk 0 al, cachedRawData = SafeMap_of_list al, currentData = NewSafeMap, psmj_version = 0\<rparr>
      :: ('r, 'd) PersistentStringJsonMap"
  have "NewPersistentStringMap io' (psmj_file p') = Inr ?q" by (simp add: f NewPersistentStringMap_def)
  moreover have "psmjSet marshal unmarshal fileData io'' key up ?q =
      (Ret None, ?q\<lparr>currentData := SafeMap_ins key \<lparr>md_version = CurrentVersion up, md_data = fst (fn d)\<rparr> NewSafeMap\<rparr>)"
    using raw upgrade_current [of fileData up]
    by (simp add: psmjSet_def psmjSet_enter_def SafeMap_of_list_load Let_def SafeMap_Store_def NewSafeMap_def
        SafeMap_updateReadOnly_def)
  ultimately show ?thesis using c1 cur by (simp add: sm.look_ins)
qed

definition psmj_example :: "(string, string) PersistentStringJsonMap" where
  "psmj_example = snd (psmjSet Some Some (\<lambda>_. None) True ''alias'' (InitialUpgradableDefaultData ''x'')
     \<lparr>psmj_file = NoFile, cachedRawData = NewSafeMap, currentData = NewSafeMap, psmj_version = 0\<rparr>)"

theorem psmjWithReadWrite_survives_restart_witness:
  "\<exists>q :: (string, string) PersistentStringJsonMap.
     NewPersistentStringMap True
       (psmj_file (snd (psmjWithReadWrite Some True ''alias'' (\<lambda>_. (''y'', False)) psmj_example))) = Inr q
     \<and> SafeMap_Load (currentData (snd (psmjSet Some Some (\<lambda>_. None) True ''alias''
           (InitialUpgradableDefaultData ''x'') q))) ''alias'' = Some \<lparr>md_version = 0, md_data = ''y''\<rparr>"
proof -
  let ?up = "InitialUpgradableDefaultData ''x''"
  have v: "CurrentVersion ?up = 0" by (simp add: InitialUpgradableDefaultData_def)
  have wf: "psmj_wf psmj_example" unfolding psmj_example_def by (rule psmjSet_wf) (simp add: psmj_wf_def)
  have ex: "SafeMap_Load (currentData psmj_example) ''alias'' = Some \<lparr>md_version = CurrentVersion ?up, md_data = ''x''\<rparr>"
    "psmj_version psmj_example = 0"
    by (simp_all add: psmj_example_def psmjSet_def psmjSet_enter_def SafeMap_Store_def NewSafeMap_def Let_def
        SafeMap_updateReadOnly_def SafeMap_Load_def InitialUpgradableDefaultData_def psmjSet_save_def
        PersistentFile_WithWriter_def)
  obtain p' where "psmjWithReadWrite Some True ''alias'' (\<lambda>_. (''y'', False)) psmj_example = (None, p')"
    using ex by (simp add: psmjWithReadWrite_def psmjSet_save_def PersistentFile_WithWriter_def)
  from psmjWithReadWrite_survives_restart [OF wf ex(2) ex(1) _ this, where unmarshal = Some and io' = True
      and io'' = True and fileData = "\<lambda>_. None"] this
  show ?thesis by (auto simp: v)
qed





end
