(* ===== verification/Rng.thy ===== *)
theory Rng
  imports Prelude
begin

unbundle bit_operations_syntax

text \<open>
  The deterministic generator the server derives its users from: \<open>math/rand/v2\<close>'s PCG and the
  methods of \<open>rand.Rand\<close> that \<open>models/user.go\<close> calls, and \<open>hash/fnv\<close>'s 64-bit FNV-1a.
\<close>

section \<open>PCG\<close>

record PCG =
  pcg_hi :: uint64
  pcg_lo :: uint64

definition NewPCG :: "uint64 \<Rightarrow> uint64 \<Rightarrow> PCG" where
  "NewPCG seed1 seed2 = \<lparr>pcg_hi = seed1, pcg_lo = seed2\<rparr>"

definition pcg_state :: "PCG \<Rightarrow> 128 word" where
  "pcg_state p = word_cat (pcg_hi p) (pcg_lo p)"

definition PCG_next :: "PCG \<Rightarrow> PCG" where
  "PCG_next p =
     (let mult = word_cat (2549297995355413924 :: uint64) (4865540595714422341 :: uint64) :: 128 word;
          inc = word_cat (6364136223846793005 :: uint64) (1442695040888963407 :: uint64) :: 128 word;
          s = pcg_state p * mult + inc
      in \<lparr>pcg_hi = ucast (drop_bit 64 s), pcg_lo = ucast s\<rparr>)"

definition PCG_Uint64 :: "PCG \<Rightarrow> uint64 \<times> PCG" where
  "PCG_Uint64 p =
     (let p' = PCG_next p;
          h1 = pcg_hi p' XOR drop_bit 32 (pcg_hi p');
          h2 = h1 * 0xda942042e4dd58b5;
          h3 = h2 XOR drop_bit 48 h2
      in (h3 * (pcg_lo p' OR 1), p'))"

section \<open>rand.Rand\<close>

definition rand_Int32 :: "PCG \<Rightarrow> int32 \<times> PCG" where
  "rand_Int32 p = (let (u, p') = PCG_Uint64 p in (ucast (drop_bit 33 u), p'))"

text \<open>
  \<open>uint64n\<close>: a mask for a power of two, else a multiplication whose biased low results are drawn
  again.  The loop that draws again is bounded by \<open>fuel\<close> here: \<open>None\<close> is fuel spent.
\<close>

fun uint64n_again :: "nat \<Rightarrow> uint64 \<Rightarrow> PCG \<Rightarrow> (uint64 \<times> PCG) option" where
  "uint64n_again 0 n p = None"
| "uint64n_again (Suc fuel) n p =
     (let (u, p') = PCG_Uint64 p;
          prod = unat u * unat n;
          lo = prod mod 2 ^ 64
      in if lo < 2 ^ 64 mod unat n then uint64n_again fuel n p'
         else Some (of_nat (prod div 2 ^ 64), p'))"

definition rand_uint64n :: "nat \<Rightarrow> uint64 \<Rightarrow> PCG \<Rightarrow> (uint64 \<times> PCG) option" where
  "rand_uint64n fuel n p =
     (if n AND (n - 1) = 0 then (let (u, p') = PCG_Uint64 p in Some (u AND (n - 1), p'))
      else uint64n_again fuel n p)"

lemma uint64n_again_less:
  "uint64n_again fuel n p = Some (x, p') \<Longrightarrow> 0 < unat n \<Longrightarrow> unat x < unat n"
proof (induction fuel n p rule: uint64n_again.induct)
  case (2 fuel n p)
  obtain u q where u: "PCG_Uint64 p = (u, q)" by fastforce
  have "unat u < 2 ^ 64" using unsigned_less [of u] by simp
  then have "unat u * unat n div 2 ^ 64 < unat n"
    using "2.prems"(2) by (intro less_mult_imp_div_less) simp
  then have x: "unat (of_nat (unat u * unat n div 2 ^ 64) :: uint64) < unat n"
    by (simp add: unat_of_nat)
  show ?case
  proof (cases "unat u * unat n mod 2 ^ 64 < 2 ^ 64 mod unat n")
    case True
    with "2.prems" "2.IH" [OF u [symmetric] refl refl refl True] u show ?thesis by (simp add: Let_def)
  next
    case False
    with "2.prems"(1) u x show ?thesis by (auto simp: Let_def)
  qed
qed simp

section \<open>FNV-1a\<close>

definition fnv_byte :: "char \<Rightarrow> uint64 \<Rightarrow> uint64" where
  "fnv_byte c h = (h XOR word_of_nat (of_char c)) * 1099511628211"

definition fnv64a :: "string \<Rightarrow> uint64" where
  "fnv64a s = fold fnv_byte s 14695981039346656037"

end
