(* ===== verification/Stats.thy ===== *)
theory Stats
  imports SafeMaps
begin

text \<open>
  Statistics of a player: the definitions read from \<open>leaderboards.json\<close> (\<open>models/leaderboard.go\<close>) and
  the values each user has (\<open>models/avatarStats.go\<close>).  Times are seconds.
\<close>

section \<open>Definitions of statistics\<close>

record MainAvatarStatDefinitions =
  nameToId :: "(string \<times> int32) list"
  idToName :: "(int32 \<times> string) list"

text \<open>
  \<open>newAvatarStatDefinitions\<close>: entry 8 of the file, of which only the identifier and the name of each
  element are used.  \<open>None\<close> is a failed type assertion or an index out of range.
\<close>

fun avatarStat_entry :: "jv \<Rightarrow> (int32 \<times> string) option" where
  "avatarStat_entry (JArr (JInt i # JStr n # _)) = Some (word_of_int i, n)"
| "avatarStat_entry _ = None"

fun newAvatarStatDefinitions_loop :: "jv list \<Rightarrow> MainAvatarStatDefinitions \<Rightarrow> MainAvatarStatDefinitions option" where
  "newAvatarStatDefinitions_loop [] l = Some l"
| "newAvatarStatDefinitions_loop (x # xs) l =
     (case avatarStat_entry x of
        None \<Rightarrow> None
      | Some (i, n) \<Rightarrow> newAvatarStatDefinitions_loop xs
          (l\<lparr>nameToId := AList.update n i (nameToId l), idToName := AList.update i n (idToName l)\<rparr>))"

definition newAvatarStatDefinitions :: "goA \<Rightarrow> MainAvatarStatDefinitions option" where
  "newAvatarStatDefinitions leaderboards =
     (if length leaderboards \<le> 8 then None
      else (case leaderboards ! 8 of
              JArr avatarStats \<Rightarrow> newAvatarStatDefinitions_loop avatarStats \<lparr>nameToId = [], idToName = []\<rparr>
            | _ \<Rightarrow> None))"

definition GetIdByName :: "MainAvatarStatDefinitions \<Rightarrow> string \<Rightarrow> int32 option" where
  "GetIdByName as name = map_of (nameToId as) name"

definition GetNameById :: "MainAvatarStatDefinitions \<Rightarrow> int32 \<Rightarrow> string option" where
  "GetNameById as i = map_of (idToName as) i"

section \<open>Values\<close>

record AvatarStat =
  as_Id :: int32
  as_Value :: int64
  as_Metadata :: jv
  as_LastUpdated :: int

definition NewAvatarStat :: "int \<Rightarrow> int32 \<Rightarrow> int64 \<Rightarrow> AvatarStat" where
  "NewAvatarStat now i v = \<lparr>as_Id = i, as_Value = v, as_Metadata = JNull, as_LastUpdated = now\<rparr>"

definition AvatarStat_SetValue :: "int \<Rightarrow> int64 \<Rightarrow> AvatarStat \<Rightarrow> AvatarStat" where
  "AvatarStat_SetValue now v as = as\<lparr>as_Value := v, as_LastUpdated := now\<rparr>"

definition AvatarStat_Encode :: "int32 \<Rightarrow> AvatarStat \<Rightarrow> goA" where
  "AvatarStat_Encode profileId as =
     [j32 (as_Id as), j32 profileId, JInt (sint (as_Value as)), as_Metadata as, JInt (as_LastUpdated as)]"

text \<open>The locks by identifier that go with the values are the subject of theory \<open>KeyMutex\<close>.\<close>

type_synonym AvatarStats = "(int32, AvatarStat) SafeMap"

definition AvatarStats_GetStat :: "AvatarStats \<Rightarrow> int32 \<Rightarrow> AvatarStat option" where
  "AvatarStats_GetStat as i = SafeMap_Load as i"

definition AvatarStats_AddStat :: "AvatarStat \<Rightarrow> AvatarStats \<Rightarrow> AvatarStats" where
  "AvatarStats_AddStat s as = snd (SafeMap_Store (as_Id s) s (Some (\<lambda>_. False)) as)"

definition AvatarStats_Encode :: "int32 \<Rightarrow> AvatarStats \<Rightarrow> goA" where
  "AvatarStats_Encode profileId as = map (\<lambda>s. JArr (AvatarStat_Encode profileId s)) (SafeMap_Values as)"

text \<open>The JSON form: an object from identifiers to statistics without their identifier (\<open>json:"-"\<close>).\<close>

definition AvatarStats_MarshalJSON :: "AvatarStats \<Rightarrow> (int32 \<times> AvatarStat) list" where
  "AvatarStats_MarshalJSON as =
     map (\<lambda>(i, s). (i, s\<lparr>as_Id := 0\<rparr>)) (fold (\<lambda>s. AList.update (as_Id s) s) (SafeMap_Values as) [])"

definition AvatarStats_UnmarshalJSON :: "(int32 \<times> AvatarStat) list \<Rightarrow> AvatarStats" where
  "AvatarStats_UnmarshalJSON d =
     fold (\<lambda>(i, s) m. let s' = s\<lparr>as_Id := i\<rparr> in snd (SafeMap_Store (as_Id s') s' (Some (\<lambda>_. True)) m)) d NewSafeMap"

definition newAvatarStats :: "int \<Rightarrow> (int32 \<times> int64) list \<Rightarrow> AvatarStats" where
  "newAvatarStats now vals =
     fold (\<lambda>(i, v) m. snd (SafeMap_Store i \<lparr>as_Id = i, as_Value = v, as_Metadata = JNull, as_LastUpdated = now\<rparr>
                             (Some (\<lambda>_. True)) m)) vals NewSafeMap"

text \<open>The values a new user of each game starts with.\<close>

definition AvatarStats_default_values :: "string \<Rightarrow> (string \<times> int64) list" where
  "AvatarStats_default_values gameId =
     (if gameId = AoE2 then
        [(''STAT_NUM_MVP_AWARDS'', 0), (''STAT_HIGHEST_SCORE_TOTAL'', 0), (''STAT_HIGHEST_SCORE_ECONOMIC'', 0),
         (''STAT_HIGHEST_SCORE_TECHNOLOGY'', 0), (''STAT_CAREER_UNITS_KILLED'', 0), (''STAT_CAREER_UNITS_LOST'', 0),
         (''STAT_CAREER_UNITS_CONVERTED'', 0), (''STAT_CAREER_BUILDINGS_RAZED'', 0),
         (''STAT_CAREER_BUILDINGS_LOST'', 0), (''STAT_CAREER_NUM_CASTLES'', 0), (''STAT_GAMES_PLAYED_ONLINE'', 0),
         (''STAT_ELO_XRM_WINS'', 0), (''STAT_POP_CAP_200_MP'', 0), (''STAT_POP_PEAK_200_MP'', 0), (''STAT_TOTAL_GAMES'', 0)]
      else if gameId = AoE3 then [(''STAT_EVENT_EXPLORER_SKIN_CHALLENGE_14c'', 16)]
      else if gameId = AoM then [(''STAT_GAUNTLET_REWARD_XP'', 2147483647), (''STAT_GAUNTLET_REWARD_FAVOUR'', 19500)]
      else [])"

definition AvatarStats_Default :: "int \<Rightarrow> string \<Rightarrow> MainAvatarStatDefinitions \<Rightarrow> AvatarStats" where
  "AvatarStats_Default now gameId defs =
     newAvatarStats now
       (fold (\<lambda>(k, v) m. case GetIdByName defs k of None \<Rightarrow> m | Some i \<Rightarrow> AList.update i v m)
          (AvatarStats_default_values gameId) [])"

subsection \<open>Invariant\<close>

text \<open>Every statistic is stored under its own identifier.\<close>

definition AvatarStats_wf :: "AvatarStats \<Rightarrow> bool" where
  "AvatarStats_wf as \<longleftrightarrow> SafeMap_wf as \<and> (\<forall>i s. SafeMap_Load as i = Some s \<longrightarrow> as_Id s = i)"

lemma AvatarStats_wf_new [simp]: "AvatarStats_wf NewSafeMap"
  by (simp add: AvatarStats_wf_def)

lemma AvatarStats_wf_put: "AvatarStats_wf as \<Longrightarrow> as_Id s = i \<Longrightarrow> AvatarStats_wf (SafeMap_put i s as)"
  by (auto simp: AvatarStats_wf_def sm.look_put split: if_splits)

lemma AvatarStats_wf_AddStat [simp]: "AvatarStats_wf as \<Longrightarrow> AvatarStats_wf (AvatarStats_AddStat s as)"
  by (auto simp: AvatarStats_wf_def AvatarStats_AddStat_def sm.look_ins split: if_splits)

lemma AvatarStats_wf_fold_put:
  "AvatarStats_wf as \<Longrightarrow> \<forall>x \<in> set xs. as_Id (snd (f x)) = fst (f x) \<Longrightarrow>
     AvatarStats_wf (fold (\<lambda>x. SafeMap_put (fst (f x)) (snd (f x))) xs as)"
  by (induction xs arbitrary: as) (auto intro: AvatarStats_wf_put)

lemma AvatarStats_wf_newAvatarStats: "AvatarStats_wf (newAvatarStats now vals)"
  using AvatarStats_wf_fold_put [OF AvatarStats_wf_new, of vals
      "\<lambda>(i, v). (i, \<lparr>as_Id = i, as_Value = v, as_Metadata = JNull, as_LastUpdated = now\<rparr>)"]
  by (simp add: newAvatarStats_def split_def)

lemma AvatarStats_wf_Default: "AvatarStats_wf (AvatarStats_Default now g defs)"
  by (simp add: AvatarStats_Default_def AvatarStats_wf_newAvatarStats)

section \<open>Properties\<close>

lemma fold_update_load:
  "map_of (fold (\<lambda>s. AList.update (f s) s) xs al) i =
     (case List.find (\<lambda>s. f s = i) (rev xs) of None \<Rightarrow> map_of al i | Some s \<Rightarrow> Some s)"
  by (induction xs rule: rev_induct) auto

lemma load_fold_put:
  "SafeMap_wf m \<Longrightarrow> keys_distinct d \<Longrightarrow>
   SafeMap_Load (fold (\<lambda>(i, s). SafeMap_put i (g i s)) d m) i =
     (case map_of d i of None \<Rightarrow> SafeMap_Load m i | Some s \<Rightarrow> Some (g i s))"
proof (induction d arbitrary: m)
  case (Cons p d)
  obtain j s where p: "p = (j, s)" by fastforce
  with Cons.prems have "map_of d j = None" by (simp add: map_of_eq_None_iff)
  with Cons.prems Cons.IH [of "SafeMap_put j (g j s) m"] show ?case
    by (auto simp: p sm.look_put sm.wf_put split: option.split)
qed simp

lemma keys_distinct_fold_update:
  "keys_distinct al \<Longrightarrow> keys_distinct (fold (\<lambda>s. AList.update (f s) s) xs al)"
  by (induction xs arbitrary: al) auto

text \<open>
  Saving a user's statistics and reading them back loses none of them: after
  \<open>MarshalJSON\<close> and \<open>UnmarshalJSON\<close> every identifier has the statistic it had, identifier included,
  and every statistic is again stored under its own identifier.
\<close>

lemma AvatarStats_json_roundtrip:
  assumes "AvatarStats_wf as"
  shows "SafeMap_Load (AvatarStats_UnmarshalJSON (AvatarStats_MarshalJSON as)) = SafeMap_Load as
    \<and> AvatarStats_wf (AvatarStats_UnmarshalJSON (AvatarStats_MarshalJSON as))"
proof -
  define d where "d = fold (\<lambda>s. AList.update (as_Id s) s) (SafeMap_Values as) []"
  have wf: "SafeMap_wf as" and own: "\<And>i s. SafeMap_Load as i = Some s \<Longrightarrow> as_Id s = i"
    using assms by (auto simp: AvatarStats_wf_def)
  have kd: "keys_distinct d" unfolding d_def by (rule keys_distinct_fold_update) simp
  have load: "map_of d i = SafeMap_Load as i" for i
  proof (cases "SafeMap_Load as i")
    case None
    have "List.find (\<lambda>s. as_Id s = i) (rev (SafeMap_Values as)) = None"
      using None own by (auto simp: find_None SafeMap_Values_mem [OF wf])
    with None show ?thesis by (simp add: d_def fold_update_load)
  next
    case (Some s)
    have "List.find (\<lambda>s. as_Id s = i) (rev (SafeMap_Values as)) = Some s"
    proof (rule find_unique)
      fix y
      assume "y \<in> set (rev (SafeMap_Values as))" and "as_Id y = i"
      then obtain k where "SafeMap_Load as k = Some y" by (auto simp: SafeMap_Values_mem [OF wf])
      with own \<open>as_Id y = i\<close> Some show "y = s" by auto
    qed (use Some own in \<open>auto simp: SafeMap_Values_mem [OF wf]\<close>)
    with Some show ?thesis by (simp add: d_def fold_update_load)
  qed
  have un: "AvatarStats_UnmarshalJSON (AvatarStats_MarshalJSON as) =
      fold (\<lambda>(i, s). SafeMap_put i (s\<lparr>as_Id := i\<rparr>)) (map (\<lambda>(i, s). (i, s\<lparr>as_Id := 0\<rparr>)) d) NewSafeMap"
    by (simp add: AvatarStats_UnmarshalJSON_def AvatarStats_MarshalJSON_def d_def Let_def)
  have "SafeMap_Load (AvatarStats_UnmarshalJSON (AvatarStats_MarshalJSON as)) i = SafeMap_Load as i" for i
  proof -
    have kd': "keys_distinct (map (\<lambda>(i, s). (i, s\<lparr>as_Id := 0\<rparr>)) d)" using kd by (simp only: map_fst_map_snd)
    have "SafeMap_Load (AvatarStats_UnmarshalJSON (AvatarStats_MarshalJSON as)) i =
        (case map_option (\<lambda>s. s\<lparr>as_Id := 0\<rparr>) (SafeMap_Load as i) of None \<Rightarrow> None | Some s \<Rightarrow> Some (s\<lparr>as_Id := i\<rparr>))"
      unfolding un load_fold_put [OF SafeMap_wf_new kd', of "\<lambda>i s. s\<lparr>as_Id := i\<rparr>"]
      by (simp add: map_of_map_snd load split: option.split)
    then show ?thesis using own [of i] by (cases "SafeMap_Load as i") auto
  qed
  moreover have "SafeMap_wf (AvatarStats_UnmarshalJSON (AvatarStats_MarshalJSON as))"
    unfolding AvatarStats_UnmarshalJSON_def
    using sm.wf_fold_put [OF SafeMap_wf_new, of "map (\<lambda>(i, s). (i, s\<lparr>as_Id := i\<rparr>)) (AvatarStats_MarshalJSON as)"]
    by (simp add: fold_map comp_def split_def Let_def)
  ultimately show ?thesis using own by (auto simp: AvatarStats_wf_def)
qed

end
