(* ===== verification/Items.thy ===== *)
theory Items
  imports Prelude
begin

text \<open>
  Items a player owns, their definitions and locations (\<open>models/item.go\<close>) and the loadouts made of
  them (\<open>models/itemLoadout.go\<close>).  Times are seconds.  A nil Go map is \<open>None\<close>.
\<close>

section \<open>Metadata\<close>

record Attribute =
  att_Value :: string
  att_Source :: int
  att_Mtype :: int

record ReadOnlyItemMetadata =
  ro_attributes :: "(string \<times> Attribute) list"
  ro_other :: "(string \<times> jv) list"

record ItemMetadata =
  im_attributes :: "(string \<times> string) list option"
  im_other :: "(string \<times> jv) list option"

definition nil_map :: "'a list option \<Rightarrow> 'a list" where
  "nil_map m = (case m of None \<Rightarrow> [] | Some al \<Rightarrow> al)"

text \<open>\<open>NewItemMetadataRaw\<close> on metadata that decodes to \<open>ro\<close> (\<open>None\<close>: it does not decode).\<close>

definition NewItemMetadataRaw :: "ReadOnlyItemMetadata option \<Rightarrow> ItemMetadata" where
  "NewItemMetadataRaw r =
     (case r of
        None \<Rightarrow> \<lparr>im_attributes = None, im_other = None\<rparr>
      | Some ro \<Rightarrow>
          \<lparr>im_attributes = (if ro_attributes ro \<noteq> [] then Some (map (\<lambda>(k, v). (k, att_Value v)) (ro_attributes ro)) else None),
           im_other = (if ro_other ro \<noteq> [] then Some (ro_other ro) else None)\<rparr>)"

definition ItemMetadata_MarshalJSON :: "ItemMetadata \<Rightarrow> (string \<times> jv) list" where
  "ItemMetadata_MarshalJSON i =
     (if nil_map (im_attributes i) \<noteq> []
      then [(''attributes'', JObj (map (\<lambda>(k, v). (k, JStr v)) (nil_map (im_attributes i))))] else [])
     @ (if nil_map (im_other i) \<noteq> [] then [(''other'', JObj (nil_map (im_other i)))] else [])"

fun jstr_entries :: "(string \<times> jv) list \<Rightarrow> (string \<times> string) list option" where
  "jstr_entries [] = Some []"
| "jstr_entries ((k, JStr v) # xs) = map_option (\<lambda>r. (k, v) # r) (jstr_entries xs)"
| "jstr_entries (_ # xs) = None"

text \<open>\<open>None\<close> is a decoding error.\<close>

definition ItemMetadata_UnmarshalJSON :: "(string \<times> jv) list \<Rightarrow> ItemMetadata option" where
  "ItemMetadata_UnmarshalJSON all =
     (case (case map_of all ''attributes'' of
              None \<Rightarrow> Some None
            | Some (JObj o1) \<Rightarrow> map_option Some (jstr_entries o1)
            | Some JNull \<Rightarrow> Some None
            | Some _ \<Rightarrow> None) of
        None \<Rightarrow> None
      | Some attributes \<Rightarrow>
          (case map_of all ''other'' of
             None \<Rightarrow> Some \<lparr>im_attributes = attributes, im_other = None\<rparr>
           | Some (JObj o2) \<Rightarrow> Some \<lparr>im_attributes = attributes, im_other = Some o2\<rparr>
           | Some JNull \<Rightarrow> Some \<lparr>im_attributes = attributes, im_other = None\<rparr>
           | Some _ \<Rightarrow> None))"

text \<open>\<open>Encode\<close> returns a string of JSON: \<open>att\<close> first, then the other entries, which may replace it.\<close>

definition ItemMetadata_Encode :: "ItemMetadata \<Rightarrow> jv" where
  "ItemMetadata_Encode i =
     JText (JObj (fold (\<lambda>(k, v). AList.update k v) (nil_map (im_other i))
       (if nil_map (im_attributes i) \<noteq> []
        then [(''att'', JObj (map (\<lambda>(k, v). (k, JStr v)) (nil_map (im_attributes i))))] else [])))"

definition ItemMetadata_GetAttribute :: "ItemMetadata \<Rightarrow> string \<Rightarrow> string option" where
  "ItemMetadata_GetAttribute i key = map_of (nil_map (im_attributes i)) key"

text \<open>An assignment to an entry of a nil map panics.\<close>

definition ItemMetadata_UpdateAttribute :: "string \<Rightarrow> string \<Rightarrow> ItemMetadata \<Rightarrow> ItemMetadata outcome" where
  "ItemMetadata_UpdateAttribute key v i =
     (case im_attributes i of
        None \<Rightarrow> Panic
      | Some al \<Rightarrow> Ret (i\<lparr>im_attributes := Some (AList.update key v al)\<rparr>))"

definition ItemMetadata_UpdateOther :: "string \<Rightarrow> jv \<Rightarrow> ItemMetadata \<Rightarrow> ItemMetadata outcome" where
  "ItemMetadata_UpdateOther key v i =
     (case im_other i of
        None \<Rightarrow> Panic
      | Some al \<Rightarrow> Ret (i\<lparr>im_other := Some (AList.update key v al)\<rparr>))"

section \<open>Items\<close>

record MainItem =
  it_id :: int32
  it_metadata :: ItemMetadata
  it_entityVersion :: int32
  it_definitionId :: int32
  it_durabilityId :: int32
  it_durabilityCount :: int32
  it_creationDate :: int
  it_locationId :: int32
  it_tradeId :: int32
  it_permissionFlags :: uint32
  it_maxCharges :: int32

record itemStorage =
  st_Id :: int32
  st_Metadata :: "(string \<times> jv) list"
  st_DefinitionId :: int32
  st_DurabilityId :: int32
  st_DurabilityCount :: int32
  st_CreationDate :: int
  st_LocationId :: int32
  st_TradeId :: int32
  st_PermissionFlags :: uint32
  st_MaxCharges :: int32

definition newMainItemFromStorage :: "itemStorage \<Rightarrow> MainItem option" where
  "newMainItemFromStorage s =
     (case ItemMetadata_UnmarshalJSON (st_Metadata s) of
        None \<Rightarrow> None
      | Some md \<Rightarrow> Some
          \<lparr>it_id = st_Id s, it_metadata = md, it_entityVersion = 0, it_definitionId = st_DefinitionId s,
           it_durabilityId = st_DurabilityId s, it_durabilityCount = st_DurabilityCount s,
           it_creationDate = st_CreationDate s, it_locationId = st_LocationId s, it_tradeId = st_TradeId s,
           it_permissionFlags = st_PermissionFlags s, it_maxCharges = st_MaxCharges s\<rparr>)"

definition MainItem_MarshalJSON :: "MainItem \<Rightarrow> itemStorage" where
  "MainItem_MarshalJSON item =
     \<lparr>st_Id = it_id item, st_Metadata = ItemMetadata_MarshalJSON (it_metadata item),
      st_DefinitionId = it_definitionId item, st_DurabilityId = it_durabilityId item,
      st_DurabilityCount = it_durabilityCount item, st_CreationDate = it_creationDate item,
      st_LocationId = it_locationId item, st_TradeId = it_tradeId item,
      st_PermissionFlags = it_permissionFlags item, st_MaxCharges = it_maxCharges item\<rparr>"

definition MainItem_UnmarshalJSON :: "itemStorage \<Rightarrow> MainItem option" where
  "MainItem_UnmarshalJSON storage = newMainItemFromStorage storage"

definition SetLocationId :: "int32 \<Rightarrow> MainItem \<Rightarrow> MainItem" where
  "SetLocationId locationId item = item\<lparr>it_locationId := locationId\<rparr>"

definition SetDurabilityCount :: "int32 \<Rightarrow> MainItem \<Rightarrow> MainItem" where
  "SetDurabilityCount durabilityCount item = item\<lparr>it_durabilityCount := durabilityCount\<rparr>"

definition IncrementVersion :: "MainItem \<Rightarrow> MainItem" where
  "IncrementVersion item = item\<lparr>it_entityVersion := it_entityVersion item + 1\<rparr>"

definition MainItem_Encode :: "int32 \<Rightarrow> MainItem \<Rightarrow> goA" where
  "MainItem_Encode userId item =
     [j32 (it_id item), j32 (it_entityVersion item), j32 (it_definitionId item), j32 userId,
      j32 (it_durabilityCount item), j32 (it_durabilityId item), ItemMetadata_Encode (it_metadata item),
      JInt (it_creationDate item), j32 (it_locationId item), j32 (it_tradeId item),
      ju32 (it_permissionFlags item), j32 (it_maxCharges item)]"

section \<open>Definitions, categories and locations\<close>

record MainItemCategory =
  cat_id :: int32
  cat_name :: string
  cat_group :: string
  cat_metadata :: "ReadOnlyItemMetadata option"
  cat_localizedName :: string

text \<open>Categories are pointers: a definition's set of categories is modelled by their identifiers.\<close>

record MainItemDefinition =
  def_id :: int32
  def_name :: string
  def_metadata :: "ReadOnlyItemMetadata option"
  def_available :: int32
  def_version :: int32
  def_level :: int32
  def_categoryIDs :: "int32 list"
  def_localizedName :: string
  def_localizedDescription :: string

record MainItemLocation =
  loc_unknown1IdxAutoNumeric :: int32
  loc_id :: int32
  loc_category :: "MainItemCategory option"
  loc_max :: int32
  loc_unknown1 :: int32
  loc_unknown2 :: int32
  loc_unknown3 :: int32
  loc_unknown4 :: int32

text \<open>A location whose category is not defined has a nil category: encoding it panics.\<close>

definition MainItemLocation_Encode :: "MainItemLocation \<Rightarrow> goA outcome" where
  "MainItemLocation_Encode loc =
     (case loc_category loc of
        None \<Rightarrow> Panic
      | Some c \<Rightarrow> Ret
          [j32 (loc_unknown1IdxAutoNumeric loc), JInt 0, j32 (loc_id loc), j32 (cat_id c), j32 (loc_max loc),
           j32 (loc_unknown1 loc), j32 (loc_unknown2 loc), j32 (loc_unknown3 loc), j32 (loc_unknown4 loc)])"

record MainItems =
  mi_categories :: "(int32 \<times> MainItemCategory) list"
  mi_definitions :: "(int32 \<times> MainItemDefinition) list"
  mi_locations :: "(int32 \<times> MainItemLocation) list"

definition GetLocation :: "MainItems \<Rightarrow> int32 \<Rightarrow> MainItemLocation option" where
  "GetLocation m i = map_of (mi_locations m) i"

definition GetCategory :: "MainItems \<Rightarrow> int32 \<Rightarrow> MainItemCategory option" where
  "GetCategory m i = map_of (mi_categories m) i"

definition GetDefinition :: "MainItems \<Rightarrow> int32 \<Rightarrow> MainItemDefinition option" where
  "GetDefinition m i = map_of (mi_definitions m) i"

text \<open>
  \<open>EncodeLocations\<close>: the loop over the map uses its key, the location's identifier, as the index
  into the result.
\<close>

fun EncodeLocations_loop :: "(int32 \<times> MainItemLocation) list \<Rightarrow> goA \<Rightarrow> goA outcome" where
  "EncodeLocations_loop [] result = Ret result"
| "EncodeLocations_loop ((j, location) # rest) result =
     (case MainItemLocation_Encode location of
        Panic \<Rightarrow> Panic
      | Ret e \<Rightarrow>
          if 0 \<le> sint j \<and> sint j < int (length result)
          then EncodeLocations_loop rest (result[nat (sint j) := JArr e])
          else Panic)"

definition EncodeLocations :: "MainItems \<Rightarrow> goA outcome" where
  "EncodeLocations m = EncodeLocations_loop (mi_locations m) (replicate (length (mi_locations m)) JNull)"

text \<open>
  \<open>Initialize\<close> on the decoded file of definitions (\<open>None\<close>: it does not decode and the fields stay
  nil) and the decoded rows of locations, of which columns 0 and 2 to 8 are read.
\<close>

record ItemsRaw =
  raw_Categories :: "MainItemCategory list"
  raw_Definitions :: "MainItemDefinition list"

definition raw_metadata :: "ReadOnlyItemMetadata option \<Rightarrow> ReadOnlyItemMetadata option" where
  "raw_metadata m =
     (case m of None \<Rightarrow> None
      | Some r \<Rightarrow> if ro_attributes r = [] \<and> ro_other r = [] then None else Some r)"

fun jnum :: "jv \<Rightarrow> int option" where
  "jnum (JInt i) = Some i"
| "jnum _ = None"

definition location_row :: "(int32 \<times> MainItemCategory) list \<Rightarrow> jv \<Rightarrow> MainItemLocation option" where
  "location_row cats r =
     (case r of
        JArr xs \<Rightarrow>
          if length xs < 9 then None
          else map_option (\<lambda>c.
            \<lparr>loc_unknown1IdxAutoNumeric = word_of_int (c ! 0), loc_id = word_of_int (c ! 1),
             loc_category = map_of cats (word_of_int (c ! 2)), loc_max = word_of_int (c ! 3),
             loc_unknown1 = word_of_int (c ! 4), loc_unknown2 = word_of_int (c ! 5),
             loc_unknown3 = word_of_int (c ! 6), loc_unknown4 = word_of_int (c ! 7)\<rparr>)
            (those (map (\<lambda>k. jnum (xs ! k)) [0, 2, 3, 4, 5, 6, 7, 8]))
      | _ \<Rightarrow> None)"

fun location_rows ::
    "(int32 \<times> MainItemCategory) list \<Rightarrow> jv list \<Rightarrow> (int32 \<times> MainItemLocation) list
       \<Rightarrow> (int32 \<times> MainItemLocation) list option" where
  "location_rows cats [] acc = Some acc"
| "location_rows cats (r # rs) acc =
     (case location_row cats r of
        None \<Rightarrow> None
      | Some l \<Rightarrow> location_rows cats rs (AList.update (loc_id l) l acc))"

definition MainItems_Initialize :: "ItemsRaw option \<Rightarrow> goA \<Rightarrow> MainItems outcome" where
  "MainItems_Initialize itemDefinitions itemLocations =
     (case itemDefinitions of
        None \<Rightarrow> Ret \<lparr>mi_categories = [], mi_definitions = [], mi_locations = []\<rparr>
      | Some definitions \<Rightarrow>
          let cats = fold (\<lambda>c. AList.update (cat_id c) (c\<lparr>cat_metadata := raw_metadata (cat_metadata c)\<rparr>))
                       (raw_Categories definitions) [];
              defs = fold (\<lambda>d. AList.update (def_id d)
                          (d\<lparr>def_metadata := raw_metadata (def_metadata d),
                             def_categoryIDs := filter (\<lambda>c. map_of cats c \<noteq> None) (def_categoryIDs d)\<rparr>))
                       (raw_Definitions definitions) []
          in case location_rows cats itemLocations [] of
               None \<Rightarrow> Panic
             | Some locs \<Rightarrow> Ret \<lparr>mi_categories = cats, mi_definitions = defs, mi_locations = locs\<rparr>)"

section \<open>The items of a new user\<close>

text \<open>
  One identifier is drawn for every definition that is not a pack.  The \<open>for\<close> loop that should draw
  again while the identifier is below 100 or taken has an empty post statement: it does not draw
  again, so it ends at once or never.  \<open>None\<close> is the loop that never ends.
\<close>

definition default_metadata :: "ReadOnlyItemMetadata option \<Rightarrow> ItemMetadata" where
  "default_metadata md =
     \<lparr>im_attributes =
        (case md of None \<Rightarrow> None
         | Some r \<Rightarrow> if ro_attributes r \<noteq> [] then Some (map (\<lambda>(k, v). (k, att_Value v)) (ro_attributes r)) else None),
      im_other = None\<rparr>"

fun Items_Default_loop ::
    "int \<Rightarrow> int32 option \<Rightarrow> (nat \<Rightarrow> int32) \<Rightarrow> MainItemDefinition list \<Rightarrow> nat \<Rightarrow> MainItem list \<Rightarrow> MainItem list option" where
  "Items_Default_loop now pack gen [] n items = Some items"
| "Items_Default_loop now pack gen (d # ds) n items =
     (if pack \<noteq> None \<and> the pack \<in> set (def_categoryIDs d)
      then Items_Default_loop now pack gen ds n items
      else let itemId = gen n
           in if itemId <s 100 \<or> itemId \<in> it_id ` set items then None
              else Items_Default_loop now pack gen ds (Suc n) (items @
                [\<lparr>it_id = itemId, it_metadata = default_metadata (def_metadata d), it_entityVersion = 0,
                  it_definitionId = def_id d, it_durabilityId = 0, it_durabilityCount = 1, it_creationDate = now,
                  it_locationId = 0, it_tradeId = - 1, it_permissionFlags = 63, it_maxCharges = - 1\<rparr>]))"

definition ItemPack_category :: "MainItems \<Rightarrow> int32 option" where
  "ItemPack_category m = map_option cat_id (List.find (\<lambda>c. cat_name c = ''ItemPack'') (map snd (mi_categories m)))"

definition Items_Default :: "int \<Rightarrow> MainItems \<Rightarrow> (nat \<Rightarrow> int32) \<Rightarrow> (int32 \<times> MainItem) list option" where
  "Items_Default now m gen =
     map_option (\<lambda>items. fold (\<lambda>i. AList.update (it_id i) i) items [])
       (Items_Default_loop now (ItemPack_category m) gen (map snd (mi_definitions m)) 0 [])"

section \<open>Loadouts\<close>

record MainItemLoadout =
  lo_Id :: int32
  lo_Name :: string
  lo_ItemOrLocIds :: "int32 list"
  lo_Type :: int32

type_synonym MainItemLoadouts = "(int32 \<times> MainItemLoadout) list"

definition MainItemLoadout_Encode :: "int32 \<Rightarrow> MainItemLoadout \<Rightarrow> goA" where
  "MainItemLoadout_Encode userId l = [j32 (lo_Id l), j32 userId, JStr (lo_Name l), j32 (lo_Type l), JStr ''[]'']"

definition MainItemLoadout_Update :: "string \<Rightarrow> int32 \<Rightarrow> int32 list \<Rightarrow> MainItemLoadout \<Rightarrow> MainItemLoadout" where
  "MainItemLoadout_Update name typ itemOrLocIds l =
     l\<lparr>lo_Name := name, lo_Type := typ, lo_ItemOrLocIds := itemOrLocIds\<rparr>"

definition MainItemLoadouts_Get :: "MainItemLoadouts \<Rightarrow> int32 \<Rightarrow> MainItemLoadout option" where
  "MainItemLoadouts_Get l i = map_of l i"

text \<open>As above: the identifier is drawn once, and the loop never ends if it is taken.\<close>

definition NewItemLoadout ::
    "int32 \<Rightarrow> string \<Rightarrow> int32 \<Rightarrow> int32 list \<Rightarrow> int32 \<Rightarrow> MainItemLoadouts \<Rightarrow> (goA \<times> MainItemLoadouts) option" where
  "NewItemLoadout draw name typ itemOrLocIds userId l =
     (if map_of l draw \<noteq> None then None
      else let lo = \<lparr>lo_Id = draw, lo_Name = name, lo_ItemOrLocIds = itemOrLocIds, lo_Type = typ\<rparr>
           in Some (MainItemLoadout_Encode userId lo, AList.update draw lo l))"

definition ItemLoadouts_Default :: "MainItemLoadouts" where
  "ItemLoadouts_Default = []"

section \<open>Lemmas\<close>

lemma jstr_entries_map: "jstr_entries (map (\<lambda>(k, v). (k, JStr v)) al) = Some al"
  by (induction al) auto

definition nil_if_empty :: "'a list option \<Rightarrow> 'a list option" where
  "nil_if_empty m = (if nil_map m = [] then None else m)"

lemma ItemMetadata_json:
  "ItemMetadata_UnmarshalJSON (ItemMetadata_MarshalJSON i) =
     Some \<lparr>im_attributes = nil_if_empty (im_attributes i), im_other = nil_if_empty (im_other i)\<rparr>"
  by (auto simp: ItemMetadata_UnmarshalJSON_def ItemMetadata_MarshalJSON_def jstr_entries_map nil_if_empty_def
      nil_map_def split: option.splits if_splits)

lemma MainItemLocation_Encode_Panic: "MainItemLocation_Encode l = Panic \<longleftrightarrow> loc_category l = None"
  by (simp add: MainItemLocation_Encode_def split: option.split)

lemma EncodeLocations_loop_ret:
  "EncodeLocations_loop ls result \<noteq> Panic \<longleftrightarrow>
     (\<forall>(j, l) \<in> set ls. loc_category l \<noteq> None \<and> 0 \<le> sint j \<and> sint j < int (length result))"
proof (induction ls arbitrary: result)
  case (Cons p ls)
  obtain j l where p: "p = (j, l)" by fastforce
  show ?case
  proof (cases "MainItemLocation_Encode l")
    case Panic
    then have "loc_category l = None" by (simp add: MainItemLocation_Encode_Panic)
    with Panic show ?thesis by (simp only: p EncodeLocations_loop.simps outcome.case) simp
  next
    case (Ret e)
    then have "loc_category l \<noteq> None" by (metis MainItemLocation_Encode_Panic outcome.distinct(1))
    with Ret Cons.IH [of "result[nat (sint j) := JArr e]"] show ?thesis
      by (cases "0 \<le> sint j \<and> sint j < int (length result)") (auto simp: p)
  qed
qed simp

lemma EncodeLocations_loop_length:
  "EncodeLocations_loop ls result = Ret r \<Longrightarrow> length r = length result"
  by (induction ls arbitrary: result) (auto split: outcome.splits if_splits)

lemma nat_sint_eq: "0 \<le> sint (i :: int32) \<Longrightarrow> 0 \<le> sint j \<Longrightarrow> nat (sint i) = nat (sint j) \<longleftrightarrow> i = j"
  by (metis nat_eq_iff2 signed_word_eqI)

lemma EncodeLocations_loop_other:
  "EncodeLocations_loop ls result = Ret r \<Longrightarrow> 0 \<le> sint j \<Longrightarrow> j \<notin> fst ` set ls \<Longrightarrow>
     r ! nat (sint j) = result ! nat (sint j)"
proof (induction ls arbitrary: result)
  case (Cons p ls)
  obtain k l where p: "p = (k, l)" by fastforce
  with Cons.prems obtain e where "0 \<le> sint k" "EncodeLocations_loop ls (result[nat (sint k) := JArr e]) = Ret r"
    by (auto split: outcome.splits if_splits)
  moreover from this Cons.prems p have "nat (sint k) \<noteq> nat (sint j)" by (subst nat_sint_eq) auto
  ultimately show ?case using Cons.IH [of "result[nat (sint k) := JArr e]"] Cons.prems by simp
qed simp

lemma EncodeLocations_loop_at:
  "EncodeLocations_loop ls result = Ret r \<Longrightarrow> keys_distinct ls \<Longrightarrow> (j, l) \<in> set ls \<Longrightarrow>
     \<exists>e. MainItemLocation_Encode l = Ret e \<and> r ! nat (sint j) = JArr e"
proof (induction ls arbitrary: result)
  case (Cons p ls)
  obtain k l' where p: "p = (k, l')" by fastforce
  with Cons.prems obtain e where e: "MainItemLocation_Encode l' = Ret e" "0 \<le> sint k" "sint k < int (length result)"
      "EncodeLocations_loop ls (result[nat (sint k) := JArr e]) = Ret r"
    by (auto split: outcome.splits if_splits)
  show ?case
  proof (cases "(j, l) = p")
    case True
    with p Cons.prems(2) have "j = k" "l = l'" "k \<notin> fst ` set ls" by auto
    with e EncodeLocations_loop_other [OF e(4) e(2)] show ?thesis by simp
  next
    case False
    with Cons.prems(2,3) Cons.IH [OF e(4)] show ?thesis by simp
  qed
qed simp

subsection \<open>New users' items\<close>

definition wanted :: "int32 option \<Rightarrow> MainItemDefinition list \<Rightarrow> MainItemDefinition list" where
  "wanted pack ds = filter (\<lambda>d. \<not> (pack \<noteq> None \<and> the pack \<in> set (def_categoryIDs d))) ds"

lemma Items_Default_loop_spec:
  "Items_Default_loop now pack gen ds n items =
     (if (\<forall>k < length (wanted pack ds). \<not> gen (n + k) <s 100 \<and> gen (n + k) \<notin> it_id ` set items)
         \<and> distinct (map gen [n ..< n + length (wanted pack ds)])
      then Some (items @ map (\<lambda>(k, d).
        \<lparr>it_id = gen k, it_metadata = default_metadata (def_metadata d), it_entityVersion = 0,
         it_definitionId = def_id d, it_durabilityId = 0, it_durabilityCount = 1, it_creationDate = now,
         it_locationId = 0, it_tradeId = - 1, it_permissionFlags = 63, it_maxCharges = - 1\<rparr>)
        (zip [n ..< n + length (wanted pack ds)] (wanted pack ds)))
      else None)"
proof (induction ds arbitrary: n items)
  case (Cons d ds)
  show ?case
  proof (cases "pack \<noteq> None \<and> the pack \<in> set (def_categoryIDs d)")
    case True
    then have "wanted pack (d # ds) = wanted pack ds" by (simp add: wanted_def)
    with True Cons.IH show ?thesis by simp
  next
    case False
    then have w: "wanted pack (d # ds) = d # wanted pack ds" by (auto simp: wanted_def)
    let ?ok = "\<lambda>i. \<not> gen i <s 100 \<and> gen i \<notin> it_id ` set items"
    let ?item = "\<lparr>it_id = gen n, it_metadata = default_metadata (def_metadata d), it_entityVersion = 0,
         it_definitionId = def_id d, it_durabilityId = 0, it_durabilityCount = 1, it_creationDate = now,
         it_locationId = 0, it_tradeId = - 1, it_permissionFlags = 63, it_maxCharges = - 1\<rparr>"
    let ?m = "length (wanted pack ds)"
    have range: "[n ..< n + Suc ?m] = n # [Suc n ..< Suc n + ?m]"
    proof -
      have "n < n + Suc ?m" by simp
      from upt_conv_Cons [OF this] show ?thesis by (simp only: add_Suc_shift)
    qed
    have all: "(\<forall>k < Suc ?m. P (n + k)) \<longleftrightarrow> P n \<and> (\<forall>k < ?m. P (Suc n + k))" for P
      by (auto simp: less_Suc_eq_0_disj)
    have step: "Items_Default_loop now pack gen (d # ds) n items =
        (if ?ok n then Items_Default_loop now pack gen ds (Suc n) (items @ [?item]) else None)"
      unfolding Items_Default_loop.simps Let_def if_not_P [OF False] by auto
    have cond: "(\<forall>k < Suc ?m. ?ok (n + k)) \<and> distinct (map gen (n # [Suc n ..< Suc n + ?m])) \<longleftrightarrow>
        ?ok n \<and> (\<forall>k < ?m. \<not> gen (Suc n + k) <s 100 \<and> gen (Suc n + k) \<notin> it_id ` set (items @ [?item]))
          \<and> distinct (map gen [Suc n ..< Suc n + ?m])"
    proof -
      have "gen n \<in> set (map gen [Suc n ..< Suc n + ?m]) \<longleftrightarrow> (\<exists>k < ?m. gen (Suc n + k) = gen n)"
      proof
        assume "gen n \<in> set (map gen [Suc n ..< Suc n + ?m])"
        then have "gen n \<in> gen ` {Suc n ..< Suc n + ?m}" by (simp only: set_map set_upt)
        then obtain j where "j \<in> {Suc n ..< Suc n + ?m}" "gen n = gen j" by (rule imageE)
        then show "\<exists>k < ?m. gen (Suc n + k) = gen n" by (intro exI [of _ "j - Suc n"]) auto
      next
        assume "\<exists>k < ?m. gen (Suc n + k) = gen n"
        then obtain k where k: "k < ?m" "gen (Suc n + k) = gen n" by blast
        then have "Suc n + k \<in> {Suc n ..< Suc n + ?m}" by simp
        from imageI [OF this, of gen] show "gen n \<in> set (map gen [Suc n ..< Suc n + ?m])"
          unfolding k(2) by (simp only: set_map set_upt)
      qed
      then have d: "distinct (map gen (n # [Suc n ..< Suc n + ?m])) \<longleftrightarrow>
          (\<forall>k < ?m. gen (Suc n + k) \<noteq> gen n) \<and> distinct (map gen [Suc n ..< Suc n + ?m])"
        by (simp only: list.map distinct.simps) blast
      have i: "x \<notin> it_id ` set (items @ [?item]) \<longleftrightarrow> x \<notin> it_id ` set items \<and> x \<noteq> gen n" for x by auto
      have shuffle: "(A \<and> (\<forall>k < ?m. B k \<and> C k)) \<and> (\<forall>k < ?m. N k) \<and> D \<longleftrightarrow>
          A \<and> (\<forall>k < ?m. B k \<and> C k \<and> N k) \<and> D" for A B C N D by blast
      show ?thesis unfolding all [of ?ok] d i by (rule shuffle)
    qed
    show ?thesis unfolding w list.size One_nat_def add_Suc_right add_0_right
      using step Cons.IH [of "Suc n" "items @ [?item]"] range cond by simp
  qed
qed (simp add: wanted_def)

lemma fold_update_map:
  "distinct (map f xs @ map fst al) \<Longrightarrow> fold (\<lambda>x. AList.update (f x) x) xs al = al @ map (\<lambda>x. (f x, x)) xs"
proof (induction xs arbitrary: al)
  case (Cons x xs)
  then have "f x \<notin> fst ` set al" by auto
  with Cons show ?case by (simp add: update_new)
qed simp

section \<open>Properties\<close>

text \<open>
  Saving an item and loading it again loses exactly two things: the version number, which
  restarts at 0, and the difference between an empty and a nil map of metadata.  All other fields
  come back as they were.
\<close>

lemma MainItem_json_roundtrip:
  "MainItem_UnmarshalJSON (MainItem_MarshalJSON item) =
     Some (item\<lparr>it_entityVersion := 0,
       it_metadata := \<lparr>im_attributes = nil_if_empty (im_attributes (it_metadata item)),
                       im_other = nil_if_empty (im_other (it_metadata item))\<rparr>\<rparr>)"
  by (simp add: MainItem_UnmarshalJSON_def newMainItemFromStorage_def MainItem_MarshalJSON_def ItemMetadata_json)

text \<open>
  Encoding the item locations of a game returns exactly when every location has a category
  and the identifiers are indices of the result, that is 0 to the number of locations less one;
  then location \<open>j\<close> is encoded at position \<open>j\<close>.  Any other numbering makes the server panic.
\<close>

lemma EncodeLocations_panics_iff:
  assumes "keys_distinct (mi_locations m)"
  shows "(EncodeLocations m \<noteq> Panic) = (\<forall>(j, l) \<in> set (mi_locations m).
      loc_category l \<noteq> None \<and> 0 \<le> sint j \<and> sint j < int (length (mi_locations m)))
    \<and> (\<forall>r j l. EncodeLocations m = Ret r \<and> (j, l) \<in> set (mi_locations m) \<longrightarrow>
          length r = length (mi_locations m)
        \<and> (\<exists>e. MainItemLocation_Encode l = Ret e \<and> r ! nat (sint j) = JArr e))"
  using EncodeLocations_loop_ret [of "mi_locations m" "replicate (length (mi_locations m)) JNull"]
    EncodeLocations_loop_length [of "mi_locations m" "replicate (length (mi_locations m)) JNull"]
    EncodeLocations_loop_at [OF _ assms, of "replicate (length (mi_locations m)) JNull"]
  unfolding EncodeLocations_def by simp

definition items_example :: MainItems where
  "items_example =
     (let cat = \<lparr>cat_id = 1, cat_name = ''Hero'', cat_group = [], cat_metadata = None, cat_localizedName = []\<rparr>;
          loc = (\<lambda>i. \<lparr>loc_unknown1IdxAutoNumeric = 0, loc_id = i, loc_category = Some cat, loc_max = 1,
                      loc_unknown1 = 0, loc_unknown2 = 0, loc_unknown3 = 0, loc_unknown4 = 0\<rparr>);
          it = (\<lambda>i. \<lparr>def_id = i, def_name = ''x'', def_metadata = None, def_available = 1, def_version = 1,
                     def_level = 0, def_categoryIDs = [1], def_localizedName = [], def_localizedDescription = []\<rparr>)
      in \<lparr>mi_categories = [(1, cat)], mi_definitions = [(10, it 10), (11, it 11)],
          mi_locations = [(0, loc 0), (3, loc 3)]\<rparr>)"

text \<open>
  A new user gets one item of every definition that is not in the pack category, in the
  order of the definitions, with distinct identifiers of at least 100 as drawn; this holds only if
  the drawn identifiers already are distinct and at least 100, for otherwise the server loops
  forever holding the generator's lock.
\<close>

lemma Items_Default_spec:
  "(Items_Default now m gen \<noteq> None) =
      (let n = length (wanted (ItemPack_category m) (map snd (mi_definitions m)))
       in distinct (map gen [0 ..< n]) \<and> (\<forall>k < n. \<not> gen k <s 100))
   \<and> (case Items_Default now m gen of None \<Rightarrow> True | Some al \<Rightarrow>
        keys_distinct al
      \<and> map (\<lambda>p. it_definitionId (snd p)) al = map def_id (wanted (ItemPack_category m) (map snd (mi_definitions m)))
      \<and> list_all (\<lambda>(i, it). it_id it = i \<and> \<not> i <s 100 \<and> it_entityVersion it = 0) al)"
proof -
  define ds where "ds = wanted (ItemPack_category m) (map snd (mi_definitions m))"
  note spec = Items_Default_loop_spec [of now "ItemPack_category m" gen "map snd (mi_definitions m)" 0 "[]",
      folded ds_def]
  show ?thesis
  proof (cases "(\<forall>k < length ds. \<not> gen k <s 100) \<and> distinct (map gen [0 ..< length ds])")
    case False
    then have "Items_Default now m gen = None" using spec by (auto simp: Items_Default_def)
    with False show ?thesis by (auto simp: Let_def ds_def [symmetric])
  next
    case True
    define items where "items = map (\<lambda>(k, d).
        \<lparr>it_id = gen k, it_metadata = default_metadata (def_metadata d), it_entityVersion = 0,
         it_definitionId = def_id d, it_durabilityId = 0, it_durabilityCount = 1, it_creationDate = now,
         it_locationId = 0, it_tradeId = - 1, it_permissionFlags = 63, it_maxCharges = - 1\<rparr>)
        (zip [0 ..< length ds] ds)"
    have ids: "map it_id items = map gen [0 ..< length ds]"
      by (auto simp: items_def comp_def split_def intro: nth_equalityI)
    have "fold (\<lambda>i. AList.update (it_id i) i) items [] = map (\<lambda>i. (it_id i, i)) items"
      using fold_update_map [of it_id items "[]"] ids True by simp
    then have al: "Items_Default now m gen = Some (map (\<lambda>i. (it_id i, i)) items)"
      using spec True by (simp add: Items_Default_def items_def)
    have "map it_definitionId items = map def_id ds"
      by (auto simp: items_def comp_def split_def intro: nth_equalityI)
    moreover have "list_all (\<lambda>(i, it). it_id it = i \<and> \<not> i <s 100 \<and> it_entityVersion it = 0) (map (\<lambda>i. (it_id i, i)) items)"
      using True by (auto simp: list_all_iff items_def set_zip)
    ultimately show ?thesis using True ids
      by (simp add: al comp_def Let_def ds_def [symmetric] del: distinct_map)
  qed
qed

end
