(* ===== verification/Users.thy ===== *)
theory Users
  imports Rng Stats Items Persist
begin

text \<open>
  Users of a game (\<open>models/user.go\<close>), presence (\<open>models/presence.go\<close>) and the default of the avatar
  metadata (\<open>models/profileMetadata.go\<close>).  Users are stored by platform path; a pointer to a user is
  that path, and a write through the pointer is \<open>SafeMap_modify\<close> at it.
\<close>

section \<open>Presence\<close>

record MainPresenceDefinition =
  pd_id :: int32
  pd_label :: "string option"

type_synonym MainPresenceDefinitions = "(int32 \<times> MainPresenceDefinition) list"

text \<open>A row of \<open>presenceData.json\<close>, of which columns 0 and 2 are read; \<open>None\<close> is a failed assertion.\<close>

definition presence_row :: "jv \<Rightarrow> MainPresenceDefinition option" where
  "presence_row raw =
     (case raw of
        JArr xs \<Rightarrow>
          if length xs < 3 then None
          else (case (jnum (xs ! 0), xs ! 2) of
                  (Some i, JNull) \<Rightarrow> Some \<lparr>pd_id = word_of_int i, pd_label = None\<rparr>
                | (Some i, JStr s) \<Rightarrow> Some \<lparr>pd_id = word_of_int i, pd_label = Some s\<rparr>
                | _ \<Rightarrow> None)
      | _ \<Rightarrow> None)"

fun presence_rows :: "jv list \<Rightarrow> MainPresenceDefinitions \<Rightarrow> MainPresenceDefinitions option" where
  "presence_rows [] acc = Some acc"
| "presence_rows (r # rs) acc =
     (case presence_row r of None \<Rightarrow> None | Some d \<Rightarrow> presence_rows rs (AList.update (pd_id d) d acc))"

definition MainPresenceDefinitions_Initialize :: "goA \<Rightarrow> MainPresenceDefinitions option" where
  "MainPresenceDefinitions_Initialize presence =
     (if presence \<noteq> []
      then if length presence < 2 then None
           else (case presence ! 1 of JArr rawData \<Rightarrow> presence_rows rawData [] | _ \<Rightarrow> None)
      else Some [(0, \<lparr>pd_id = 0, pd_label = None\<rparr>), (1, \<lparr>pd_id = 1, pd_label = None\<rparr>)])"

definition MainPresenceDefinitions_Get :: "MainPresenceDefinitions \<Rightarrow> int32 \<Rightarrow> MainPresenceDefinition option" where
  "MainPresenceDefinitions_Get pd i = map_of pd i"

section \<open>A user\<close>

record MainUser =
  u_id :: int32
  u_statId :: int32
  u_alias :: string
  u_platformUserId :: uint64
  u_profileId :: int32
  u_reliclink :: int32
  u_isXbox :: bool
  u_profileProperties :: "(string \<times> string) list PersistentJsonData option"
  u_avatarMetadata :: "string PersistentJsonData option"
  u_presence :: int32
  u_presenceProperties :: "(int32, string) SafeMap option"
  u_avatarStats :: "AvatarStats PersistentJsonData option"
  u_items :: "(int32 \<times> MainItem) list PersistentJsonData option"
  u_itemLoadouts :: "MainItemLoadouts PersistentJsonData option"
  u_auth :: "int PersistentJsonData option"

text \<open>\<open>generateFullPlatformUserIdXbox\<close>: 40 draws of a hexadecimal digit; \<open>IntN(16)\<close> is a mask.\<close>

fun hex_draws :: "nat \<Rightarrow> PCG \<Rightarrow> string" where
  "hex_draws 0 p = []"
| "hex_draws (Suc n) p =
     (let (u, p') = PCG_Uint64 p in (''0123456789ABCDEF'' ! unat (u AND 15)) # hex_draws n p')"

definition generateFullPlatformUserIdXbox :: "uint64 \<Rightarrow> string" where
  "generateFullPlatformUserIdXbox platformUserId = hex_draws 40 (NewPCG platformUserId platformUserId)"

definition getPlatformPath :: "bool \<Rightarrow> uint64 \<Rightarrow> string" where
  "getPlatformPath isXbox platformUserId =
     (if isXbox then ''/xboxlive/'' @ generateFullPlatformUserIdXbox platformUserId
      else ''/steam/'' @ utoa platformUserId)"

definition GetPlatformPath :: "MainUser \<Rightarrow> string" where
  "GetPlatformPath u = getPlatformPath (u_isXbox u) (u_platformUserId u)"

definition GetPlatformId :: "MainUser \<Rightarrow> int" where
  "GetPlatformId u = (if u_isXbox u then 9 else 3)"

definition GetPlatformRelated :: "MainUser \<Rightarrow> int" where
  "GetPlatformRelated u = (if u_isXbox u then 3 else 0)"

definition GetProfileLevel :: "MainUser \<Rightarrow> int" where
  "GetProfileLevel u = 9999"

definition GetProfileExperience :: "MainUser \<Rightarrow> int" where
  "GetProfileExperience u = 0"

definition EncodeExtraProfileInfo :: "uint16 \<Rightarrow> MainUser \<Rightarrow> goA" where
  "EncodeExtraProfileInfo clientLibVersion u =
     [j32 (u_statId u), JInt 0, JInt 0, JInt 1, JInt (-1), JInt 0, JInt 0, JInt (-1), JInt (-1), JInt (-1), JInt (-1),
      JInt (-1), JInt 1000, JInt 1713372625, JInt 0, JInt 0, JInt 0]
     @ (if 190 \<le> clientLibVersion then [JInt 0, JInt 0] else [])"

text \<open>The avatar metadata is serialised through its \<open>PersistentJsonData\<close>; a nil pointer is \<open>null\<close>.\<close>

definition EncodeProfileInfo :: "uint16 \<Rightarrow> MainUser \<Rightarrow> goA" where
  "EncodeProfileInfo clientLibVersion u =
     [JInt 1714620840, j32 (u_id u), JStr (GetPlatformPath u),
      (case u_avatarMetadata u of None \<Rightarrow> JNull | Some p \<Rightarrow> JStr (pjd_data p)), JStr (u_alias u)]
     @ (if 190 \<le> clientLibVersion then [JStr (u_alias u)] else [])
     @ [JStr [], j32 (u_statId u), JInt (GetProfileExperience u), JInt (GetProfileLevel u),
        JInt (GetPlatformRelated u), JNull, JStr (utoa (u_platformUserId u)), JInt (GetPlatformId u), JArr []]"

definition EncodePresence :: "MainPresenceDefinitions \<Rightarrow> MainUser \<Rightarrow> goA" where
  "EncodePresence definitions u =
     (case u_presenceProperties u of
        None \<Rightarrow> []
      | Some props \<Rightarrow>
          (case MainPresenceDefinitions_Get definitions (u_presence u) of
             None \<Rightarrow> []
           | Some d \<Rightarrow>
               [j32 (u_presence u), jstrptr (pd_label d),
                (let rows = map (\<lambda>(i, v). JArr [j32 i, JStr v]) (SafeMap_Iter props)
                 in if rows = [] then JNull else JArr rows)]))"

definition SetPresence :: "int32 \<Rightarrow> MainUser \<Rightarrow> MainUser" where
  "SetPresence presence u = u\<lparr>u_presence := presence\<rparr>"

text \<open>A nil map of properties (Age of Empires I) makes the call panic.\<close>

definition SetPresenceProperty :: "int32 \<Rightarrow> string \<Rightarrow> MainUser \<Rightarrow> MainUser outcome" where
  "SetPresenceProperty i v u =
     (case u_presenceProperties u of
        None \<Rightarrow> Panic
      | Some props \<Rightarrow>
          Ret (u\<lparr>u_presenceProperties := Some
                 (if v = [] then SafeMap_Delete i props
                  else snd (SafeMap_Store i v (Some (\<lambda>_. True)) props))\<rparr>))"

definition EncodeAvatarStats :: "MainUser \<Rightarrow> goA outcome" where
  "EncodeAvatarStats u =
     (case u_avatarStats u of None \<Rightarrow> Panic | Some p \<Rightarrow> Ret (AvatarStats_Encode (u_profileId u) (pjd_data p)))"

definition AvatarMetadata_Default :: "string \<Rightarrow> string" where
  "AvatarMetadata_Default gameId =
     (if gameId = AoE3 \<or> gameId = AoM then ''{\"v\":1,\"twr\":0,\"wlr\":0,\"ai\":1,\"ac\":0}''
      else if gameId = AoE4 then ''{\"sharedHistory\":1,\"hardwareType\":0,\"inputDeviceType\":0}''
      else [])"

section \<open>Creating users\<close>

text \<open>What the user's file holds under each key.\<close>

record UserFile =
  f_profileProperties :: "(string \<times> string) list stored"
  f_avatarMetadata :: "string stored"
  f_avatarStats :: "AvatarStats stored"
  f_items :: "(int32 \<times> MainItem) list stored"
  f_itemLoadouts :: "MainItemLoadouts stored"
  f_auth :: "int stored"

text \<open>
  The parts of a game that \<open>Generate\<close> uses: nil item and statistics definitions are \<open>None\<close>; \<open>itemGen\<close>
  is the generator of item identifiers.  \<open>None\<close> is the loop of \<open>Items_Default\<close> that never ends.  The
  identifiers are drawn in the order in which the composite literal is evaluated.
\<close>

definition Generate ::
    "int \<Rightarrow> (nat \<Rightarrow> int32) \<Rightarrow> string \<Rightarrow> UserFile \<Rightarrow> MainItems option \<Rightarrow> MainAvatarStatDefinitions option
       \<Rightarrow> string \<Rightarrow> bool \<Rightarrow> uint64 \<Rightarrow> string \<Rightarrow> MainUser option" where
  "Generate now itemGen gameId f itemDefinitions statDefinitions identifier isXbox platformUserId alias =
     (let seed = fnv64a identifier;
          (i1, p1) = rand_Int32 (NewPCG seed seed);
          (i2, p2) = rand_Int32 p1;
          (i3, p3) = rand_Int32 p2;
          (i4, p4) = rand_Int32 p3;
          items = (case itemDefinitions of
                     None \<Rightarrow> Some None
                   | Some defs \<Rightarrow>
                       (case f_items f of
                          NotThere \<Rightarrow> map_option (NewPersistentJsonData NotThere) (Items_Default now defs itemGen)
                        | s \<Rightarrow> Some (NewPersistentJsonData s [])))
      in case items of
           None \<Rightarrow> None
         | Some items' \<Rightarrow> Some
             \<lparr>u_id = i1, u_statId = i2, u_alias = alias, u_platformUserId = platformUserId, u_profileId = i3,
              u_reliclink = i4, u_isXbox = isXbox,
              u_profileProperties =
                (if gameId = AoE3 \<or> gameId = AoE4 \<or> gameId = AoM
                 then NewPersistentJsonData (f_profileProperties f) [] else None),
              u_avatarMetadata = NewPersistentJsonData (f_avatarMetadata f) (AvatarMetadata_Default gameId),
              u_presence = 0,
              u_presenceProperties = (if gameId \<noteq> AoE1 then Some NewSafeMap else None),
              u_avatarStats =
                (case statDefinitions of None \<Rightarrow> None
                 | Some sd \<Rightarrow> NewPersistentJsonData (f_avatarStats f) (AvatarStats_Default now gameId sd)),
              u_items = items',
              u_itemLoadouts = (if gameId \<noteq> AoE1 then NewPersistentJsonData (f_itemLoadouts f) ItemLoadouts_Default else None),
              u_auth = NewPersistentJsonData (f_auth f) 0\<rparr>)"

text \<open>Generated platform identifiers.  \<open>Int64N\<close> of a power of two is a mask; for the other bound
  \<open>fuel\<close> limits the redraws.\<close>

definition generatePlatformUserIdSteam :: "PCG \<Rightarrow> uint64" where
  "generatePlatformUserIdSteam rng =
     (let Z = fst (PCG_Uint64 rng) AND (2 ^ 31 - 1);
          Y = Z mod 2
      in Z * 2 + Y + 76561197960265728)"

definition generatePlatformUserIdXbox :: "nat \<Rightarrow> PCG \<Rightarrow> uint64 option" where
  "generatePlatformUserIdXbox fuel rng =
     map_option (\<lambda>(u, _). u + 10 ^ 15) (rand_uint64n fuel (9 * 10 ^ 15) rng)"

text \<open>
  The entropy: 6 bytes of the MAC address, 4 of the IPv4 address, 6 of the alias, zero where an
  address does not parse (\<open>None\<close>); read as two big-endian numbers.
\<close>

definition copy_bytes :: "nat \<Rightarrow> string \<Rightarrow> string" where
  "copy_bytes n xs = take n (xs @ replicate n (CHR 0x00))"

definition big_endian :: "string \<Rightarrow> uint64" where
  "big_endian bs = word_of_nat (fold (\<lambda>c n. 256 * n + of_char c) bs 0)"

definition entropy :: "string option \<Rightarrow> string option \<Rightarrow> string \<Rightarrow> string" where
  "entropy mac ipv4 alias =
     copy_bytes 6 (case mac of None \<Rightarrow> [] | Some m \<Rightarrow> take 6 m)
     @ copy_bytes 4 (case ipv4 of None \<Rightarrow> [] | Some a \<Rightarrow> a)
     @ copy_bytes 6 (take 6 alias)"

definition generatedPlatformUserId :: "nat \<Rightarrow> string option \<Rightarrow> string option \<Rightarrow> bool \<Rightarrow> string \<Rightarrow> uint64 option" where
  "generatedPlatformUserId fuel mac ipv4 isXbox alias =
     (let e = entropy mac ipv4 alias;
          rng = NewPCG (big_endian (take 8 e)) (big_endian (drop 8 e))
      in if isXbox then generatePlatformUserIdXbox fuel rng else Some (generatePlatformUserIdSteam rng))"

type_synonym MainUsers = "(string, MainUser) SafeMap"

text \<open>
  \<open>GetOrCreateUser\<close>: \<open>gen\<close> is \<open>GenerateFn\<close> applied to the game's parts and the user's file.  The
  result is the platform path (the pointer) and the store.
\<close>

definition GetOrCreateUser ::
    "nat \<Rightarrow> bool \<Rightarrow> (string \<Rightarrow> bool \<Rightarrow> uint64 \<Rightarrow> string \<Rightarrow> MainUser option) \<Rightarrow> string option \<Rightarrow> string option
       \<Rightarrow> bool \<Rightarrow> uint64 \<Rightarrow> string \<Rightarrow> MainUsers \<Rightarrow> (string \<times> MainUsers) option" where
  "GetOrCreateUser fuel generateId gen mac ipv4 isXbox platformUserId alias users =
     (case (if generateId then generatedPlatformUserId fuel mac ipv4 isXbox alias else Some platformUserId) of
        None \<Rightarrow> None
      | Some pid \<Rightarrow>
          let identifier = getPlatformPath isXbox pid
          in (case SafeMap_Load users identifier of
                Some _ \<Rightarrow> Some (identifier, users)
              | None \<Rightarrow>
                  (case gen identifier isXbox pid alias of
                     None \<Rightarrow> None
                   | Some u \<Rightarrow> Some (identifier, snd (SafeMap_LoadOrStoreFn identifier (\<lambda>_. u) users)))))"

section \<open>Finding users\<close>

definition Users_getFirst :: "MainUsers \<Rightarrow> (MainUser \<Rightarrow> bool) \<Rightarrow> MainUser option" where
  "Users_getFirst users fn = List.find fn (SafeMap_Values users)"

definition GetUserByStatId :: "MainUsers \<Rightarrow> int32 \<Rightarrow> MainUser option" where
  "GetUserByStatId users i = Users_getFirst users (\<lambda>u. u_statId u = i)"

definition GetUserById :: "MainUsers \<Rightarrow> int32 \<Rightarrow> MainUser option" where
  "GetUserById users i = Users_getFirst users (\<lambda>u. u_id u = i)"

definition GetUserByPlatformUserId :: "MainUsers \<Rightarrow> bool \<Rightarrow> uint64 \<Rightarrow> MainUser option" where
  "GetUserByPlatformUserId users xbox i =
     Users_getFirst users (\<lambda>u. u_isXbox u = xbox \<and> u_platformUserId u = i)"

definition GetUserIds :: "MainUsers \<Rightarrow> int32 list" where
  "GetUserIds users = map u_id (SafeMap_Values users)"

text \<open>\<open>presenceDefinitions\<close> may be nil.\<close>

definition Users_EncodeProfileInfo ::
    "MainUsers \<Rightarrow> MainPresenceDefinitions option \<Rightarrow> (MainUser \<Rightarrow> bool) \<Rightarrow> uint16 \<Rightarrow> jv list" where
  "Users_EncodeProfileInfo users presenceDefinitions matches clientLibVersion =
     map (\<lambda>u. JArr (EncodeProfileInfo clientLibVersion u
            @ (case presenceDefinitions of None \<Rightarrow> [] | Some d \<Rightarrow> EncodePresence d u)))
       (filter matches (SafeMap_Values users))"

section \<open>Invariant\<close>

text \<open>Every user is stored under the path of its platform.\<close>

definition Users_wf :: "MainUsers \<Rightarrow> bool" where
  "Users_wf users \<longleftrightarrow> SafeMap_wf users \<and> (\<forall>k u. SafeMap_Load users k = Some u \<longrightarrow> GetPlatformPath u = k)"

lemma Users_wf_new [simp]: "Users_wf NewSafeMap"
  by (simp add: Users_wf_def)

lemma Users_Values_mem:
  assumes "Users_wf users"
  shows "u \<in> set (SafeMap_Values users) \<longleftrightarrow> SafeMap_Load users (GetPlatformPath u) = Some u"
  using assms by (metis SafeMap_Values_mem Users_wf_def)

lemma Users_wf_modify [simp, inv_intros]:
  assumes "Users_wf users" and "\<And>u. GetPlatformPath (f u) = GetPlatformPath u"
  shows "Users_wf (SafeMap_modify k f users)"
  using assms by (auto simp: Users_wf_def SafeMap_Load_modify split: if_splits)

lemma Users_getFirst_some:
  "Users_wf users \<Longrightarrow> Users_getFirst users fn = Some u \<Longrightarrow> SafeMap_Load users (GetPlatformPath u) = Some u \<and> fn u"
  by (metis Users_Values_mem Users_getFirst_def find_Some_mem)

lemma Generate_fields:
  assumes "Generate now ig g f idef sdef identifier x pid al = Some u"
  shows "u_platformUserId u = pid" "u_isXbox u = x" "u_alias u = al"
    "u_id u = fst (rand_Int32 (NewPCG (fnv64a identifier) (fnv64a identifier)))"
  using assms by (auto simp: Generate_def Let_def split_def split: option.splits)

lemma GetOrCreateUser_wf:
  assumes "Users_wf users"
    and gen: "\<And>idf x pid al u. gen idf x pid al = Some u \<Longrightarrow> u_platformUserId u = pid \<and> u_isXbox u = x"
    and "GetOrCreateUser fuel genId gen mac ip x pid al users = Some (k, users')"
  shows "Users_wf users'" "SafeMap_Load users' k \<noteq> None"
    "\<And>k'. SafeMap_Load users k' \<noteq> None \<Longrightarrow> SafeMap_Load users' k' = SafeMap_Load users k'"
proof -
  have wf: "SafeMap_wf users" using assms(1) by (simp add: Users_wf_def)
  from assms(3) obtain pid' where k: "k = getPlatformPath x pid'"
    and c: "(SafeMap_Load users k \<noteq> None \<and> users' = users)
       \<or> (\<exists>u. SafeMap_Load users k = None \<and> gen k x pid' al = Some u \<and> users' = SafeMap_put k u users)"
    by (auto simp: GetOrCreateUser_def Let_def SafeMap_LoadOrStoreFn_spec [OF wf] split: option.splits)
  from c show "Users_wf users'"
    using assms(1) gen by (auto simp: Users_wf_def sm.look_put [OF wf] GetPlatformPath_def k split: if_splits)
  from c show "SafeMap_Load users' k \<noteq> None" by (auto simp: sm.look_put [OF wf])
  from c show "SafeMap_Load users' k' = SafeMap_Load users k'" if "SafeMap_Load users k' \<noteq> None" for k'
    using that by (auto simp: sm.look_put [OF wf])
qed

section \<open>Properties\<close>

text \<open>
  A generated Steam identifier is one of an individual account (76561197960265728 plus an
  account number below 2 to the 32), and a generated Xbox identifier has 16 digits.
\<close>

lemma generated_platform_ids_in_range:
  "76561197960265728 \<le> unat (generatePlatformUserIdSteam rng)
   \<and> unat (generatePlatformUserIdSteam rng) < 76561197960265728 + 2 ^ 32
   \<and> (case generatePlatformUserIdXbox fuel rng of None \<Rightarrow> True
      | Some i \<Rightarrow> 10 ^ 15 \<le> unat i \<and> unat i < 10 ^ 16)"
proof -
  define z where "z = fst (PCG_Uint64 rng) AND (2 ^ 31 - 1)"
  have z: "unat z < 2 ^ 31"
  proof -
    have "z = take_bit 31 (fst (PCG_Uint64 rng))" by (simp add: z_def take_bit_eq_mask mask_eq_exp_minus_1)
    then show ?thesis 
      using take_bit_nat_less_exp [of 31 "unat (fst (PCG_Uint64 rng))"] by (simp add: unsigned_take_bit_eq)
  qed
  have y: "unat (z mod 2) < 2" by (simp add: unat_mod_distrib)
  have s: "unat (generatePlatformUserIdSteam rng) = unat z * 2 + unat (z mod 2) + 76561197960265728"
  proof -
    have "generatePlatformUserIdSteam rng = z * 2 + z mod 2 + 76561197960265728"
      by (simp only: generatePlatformUserIdSteam_def Let_def z_def)
    then show ?thesis using z y by (simp add: unat_word_ariths)
  qed
  have "unat z * 2 + unat (z mod 2) < 2 ^ 32" using z y by simp
  moreover have "10 ^ 15 \<le> unat i \<and> unat i < 10 ^ 16" if "generatePlatformUserIdXbox fuel rng = Some i" for i
  proof -
    have m: "(9 * 10 ^ 15 :: uint64) AND (9 * 10 ^ 15 - 1) \<noteq> 0" by simp
    from that m obtain u p where "uint64n_again fuel (9 * 10 ^ 15) rng = Some (u, p)" and i: "i = u + 10 ^ 15"
      by (auto simp: generatePlatformUserIdXbox_def rand_uint64n_def)
    from uint64n_again_less [OF this(1)] have "unat u < 9 * 10 ^ 15" by simp
    then show ?thesis by (simp add: i unat_word_ariths)
  qed
  ultimately show ?thesis using s by (auto split: option.split)
qed

text \<open>
  Logging in twice from the same platform account gives the same user: the first call
  creates it under its platform path, every later call finds it and changes nothing, and no call
  replaces a user that is already there.
\<close>

lemma GetOrCreateUser_once:
  assumes "Users_wf users"
    and "GetOrCreateUser fuel False (Generate now ig gameId f idef sdef) mac ip x pid al users = Some (k, users')"
  shows "k = getPlatformPath x pid \<and> Users_wf users'
    \<and> GetOrCreateUser fuel False (Generate now' ig' gameId f' idef sdef) mac' ip' x pid al' users' = Some (k, users')
    \<and> (\<forall>k' u. SafeMap_Load users k' = Some u \<longrightarrow> SafeMap_Load users' k' = Some u)
    \<and> (SafeMap_Load users k = None \<longrightarrow>
        map_option u_id (SafeMap_Load users' k) = Some (fst (rand_Int32 (NewPCG (fnv64a k) (fnv64a k)))))"
proof -
  have wf: "SafeMap_wf users" using assms(1) by (simp add: Users_wf_def)
  have k: "k = getPlatformPath x pid"
    using assms(2) by (auto simp: GetOrCreateUser_def Let_def split: option.splits)
  have r1: "Users_wf users'"
    by (rule GetOrCreateUser_wf(1) [OF assms(1) _ assms(2)]) (simp add: Generate_fields)
  have r2: "SafeMap_Load users' k \<noteq> None"
    by (rule GetOrCreateUser_wf(2) [OF assms(1) _ assms(2)]) (simp add: Generate_fields)
  have r3: "SafeMap_Load users' k' = SafeMap_Load users k'" if "SafeMap_Load users k' \<noteq> None" for k'
    by (rule GetOrCreateUser_wf(3) [OF assms(1) _ assms(2) that]) (simp add: Generate_fields)
  have new: "map_option u_id (SafeMap_Load users' k) = Some (fst (rand_Int32 (NewPCG (fnv64a k) (fnv64a k))))"
    if "SafeMap_Load users k = None"
  proof -
    from assms(2) that k obtain u where "Generate now ig gameId f idef sdef k x pid al = Some u"
        "users' = SafeMap_put k u users"
      by (auto simp: GetOrCreateUser_def Let_def SafeMap_LoadOrStoreFn_spec [OF wf] split: option.splits)
    then show ?thesis using Generate_fields(4) by (simp add: sm.look_put [OF wf])
  qed
  have again: "GetOrCreateUser fuel False (Generate now' ig' gameId f' idef sdef) mac' ip' x pid al' users' = Some (k, users')"
    using r2 by (auto simp: GetOrCreateUser_def Let_def k)
  show ?thesis using k r1 again r3 new by (metis option.distinct(1))
qed

definition empty_file :: UserFile where
  "empty_file = \<lparr>f_profileProperties = NotThere, f_avatarMetadata = NotThere, f_avatarStats = NotThere,
     f_items = NotThere, f_itemLoadouts = NotThere, f_auth = NotThere\<rparr>"

end
