(* ===== verification/BattleServers.thy ===== *)
theory BattleServers
  imports OrderedMaps
begin

text \<open>
  Battle servers (\<open>models/battleServer.go\<close>): the relays a match is played over.  What a request tells
  about the network (parsed addresses, the socket's own address) is the record \<open>RequestNet\<close>; whether
  a region is a version 4 GUID is decided by the package \<open>github.com/google/uuid\<close>, a parameter.
\<close>

record RequestNet =
  rn_remoteIsIPv4 :: bool
  rn_remoteInLocalSubnets :: bool
  rn_localIp :: string
  rn_host :: string
  rn_hostIsIPv4 :: bool
  rn_connectivity :: bool
  rn_publicIp :: string

record MainBattleServer =
  bsv_Region :: string
  bsv_Name :: string
  bsv_IPv4 :: string
  bsv_BsPort :: int
  bsv_WebSocketPort :: int
  bsv_OutOfBandPort :: int
  bsv_lan :: "bool option"
  bsv_hasOobPort :: bool
  bsv_battleServerName :: string

text \<open>\<open>LAN\<close> computes its answer once and keeps it.\<close>

definition BattleServer_LAN :: "(string \<Rightarrow> bool) \<Rightarrow> MainBattleServer \<Rightarrow> bool \<times> MainBattleServer" where
  "BattleServer_LAN guidV4 b =
     (case bsv_lan b of
        None \<Rightarrow> (guidV4 (bsv_Region b), b\<lparr>bsv_lan := Some (guidV4 (bsv_Region b))\<rparr>)
      | Some l \<Rightarrow> (l, b))"

definition SetLAN :: "bool \<Rightarrow> MainBattleServer \<Rightarrow> MainBattleServer" where
  "SetLAN enable b = b\<lparr>bsv_lan := Some enable\<rparr>"

definition AppendName :: "MainBattleServer \<Rightarrow> goA \<Rightarrow> goA" where
  "AppendName b encoded =
     (if bsv_battleServerName b = ''omit'' then encoded
      else if bsv_battleServerName b = ''null'' then encoded @ [JNull]
      else encoded @ [JStr (bsv_Name b)])"

definition EncodePorts :: "MainBattleServer \<Rightarrow> goA" where
  "EncodePorts b =
     [JInt (bsv_BsPort b), JInt (bsv_WebSocketPort b)]
     @ (if bsv_hasOobPort b then [JInt (bsv_OutOfBandPort b)] else [])"

definition ResolveIPv4 :: "RequestNet \<Rightarrow> MainBattleServer \<Rightarrow> string" where
  "ResolveIPv4 r b =
     (if bsv_IPv4 b \<noteq> ''auto'' then bsv_IPv4 b
      else if \<not> rn_remoteIsIPv4 r then []
      else if (if rn_connectivity r then rn_remoteInLocalSubnets r else True) then rn_localIp r
      else if rn_hostIsIPv4 r then rn_host r
      else rn_publicIp r)"

definition EncodeLogin :: "RequestNet \<Rightarrow> MainBattleServer \<Rightarrow> goA" where
  "EncodeLogin r b = AppendName b [JStr (bsv_Region b)] @ [JStr (ResolveIPv4 r b)] @ EncodePorts b"

definition EncodeAdvertisement :: "RequestNet \<Rightarrow> MainBattleServer \<Rightarrow> goA" where
  "EncodeAdvertisement r b = [JStr (ResolveIPv4 r b)] @ EncodePorts b"

section \<open>The battle servers of a game\<close>

record BattleServerOpts =
  opt_OobPort :: bool
  opt_Name :: string

record MainBattleServers =
  bsvs_store :: "(string, MainBattleServer) ReadOnlyOrderedMap"
  bsvs_haveOobPort :: bool
  bsvs_battleServerName :: string

text \<open>\<open>opts\<close> may be nil; an empty name counts as \<open>"true"\<close>.\<close>

definition MainBattleServers_Initialize ::
    "MainBattleServer list \<Rightarrow> BattleServerOpts option \<Rightarrow> MainBattleServers" where
  "MainBattleServers_Initialize battleServers opts =
     (let o1 = (case opts of None \<Rightarrow> \<lparr>opt_OobPort = True, opt_Name = []\<rparr> | Some x \<Rightarrow> x);
          o2 = (if opt_Name o1 = [] then o1\<lparr>opt_Name := ''true''\<rparr> else o1);
          bs = map (\<lambda>b. b\<lparr>bsv_hasOobPort := opt_OobPort o2, bsv_battleServerName := opt_Name o2\<rparr>) battleServers
      in \<lparr>bsvs_store = NewReadOnlyOrderedMap (map bsv_Region bs)
                         (fold (\<lambda>b. AList.update (bsv_Region b) b) bs []),
          bsvs_haveOobPort = opt_OobPort o2, bsvs_battleServerName = opt_Name o2\<rparr>)"

definition BattleServers_Get :: "MainBattleServers \<Rightarrow> string \<Rightarrow> MainBattleServer option" where
  "BattleServers_Get s region = ReadOnlyOrderedMap_Load (bsvs_store s) region"

definition BattleServers_Encode :: "RequestNet \<Rightarrow> MainBattleServers \<Rightarrow> goA" where
  "BattleServers_Encode r s = map (\<lambda>(_, b). JArr (EncodeLogin r b)) (ReadOnlyOrderedMap_Iter (bsvs_store s))"

definition NewBattleServer :: "MainBattleServers \<Rightarrow> string \<Rightarrow> MainBattleServer" where
  "NewBattleServer s region =
     \<lparr>bsv_Region = region, bsv_Name = [], bsv_IPv4 = [], bsv_BsPort = 0, bsv_WebSocketPort = 0,
      bsv_OutOfBandPort = 0, bsv_lan = None, bsv_hasOobPort = bsvs_haveOobPort s,
      bsv_battleServerName = bsvs_battleServerName s\<rparr>"

definition NewLANBattleServer :: "MainBattleServers \<Rightarrow> string \<Rightarrow> MainBattleServer" where
  "NewLANBattleServer s region = SetLAN True (NewBattleServer s region)"

lemma Initialize_Get_mem:
  assumes "BattleServers_Get (MainBattleServers_Initialize bs opts) region = Some b"
  shows "bsv_Region b = region \<and> region \<in> bsv_Region ` set bs"
proof -
  have *: "map_of (fold (\<lambda>b. AList.update (bsv_Region b) b) xs al) region = Some b \<Longrightarrow>
      map_of al region = Some b \<or> (b \<in> set xs \<and> bsv_Region b = region)" for xs al
  proof (induction xs arbitrary: al)
    case (Cons x xs)
    from Cons.prems Cons.IH [of "AList.update (bsv_Region x) x al"] show ?case by (auto split: if_splits)
  qed simp
  from assms obtain o1 :: bool and o2 :: string where
    "map_of (fold (\<lambda>b. AList.update (bsv_Region b) b)
      (map (\<lambda>b. b\<lparr>bsv_hasOobPort := o1, bsv_battleServerName := o2\<rparr>) bs) []) region = Some b"
    by (auto simp: BattleServers_Get_def MainBattleServers_Initialize_def ReadOnlyOrderedMap_Load_def
        NewReadOnlyOrderedMap_def Let_def)
  from * [OF this] show ?thesis by auto
qed

end
