(* ===== verification/Lobby.thy ===== *)
theory Lobby
  imports BattleServers Users
begin

text \<open>
  Lobbies: peers (\<open>models/peer.go\<close>), advertisements and their store (\<open>models/advertisement.go\<close>), and the
  requests that create and change them (\<open>routes/game/advertisement/shared\<close>).  A stored advertisement or
  peer is a pointer: it is named by its key, and a write through the pointer is \<open>SafeOrderedMap_modify\<close>
  at the key.  The locks by identifier are the subject of theory \<open>KeyMutex\<close>; here an operation runs to
  its end.  Times are seconds.
\<close>

section \<open>Peers\<close>

record MainPeer =
  p_advertisementId :: int32
  p_party :: int32
  p_advertisementIp :: string
  p_userId :: int32
  p_userStatId :: int32
  p_race :: int32
  p_team :: int32
  p_invites :: "string SafeSet"

definition UpdateMutable :: "int32 \<Rightarrow> int32 \<Rightarrow> MainPeer \<Rightarrow> MainPeer" where
  "UpdateMutable race team peer = peer\<lparr>p_race := race, p_team := team\<rparr>"

definition NewPeer :: "int32 \<Rightarrow> string \<Rightarrow> int32 \<Rightarrow> int32 \<Rightarrow> int32 \<Rightarrow> int32 \<Rightarrow> int32 \<Rightarrow> MainPeer" where
  "NewPeer advertisementId advertisementIp userId userStatId party race team =
     UpdateMutable race team
       \<lparr>p_advertisementId = advertisementId, p_party = party, p_advertisementIp = advertisementIp,
        p_userId = userId, p_userStatId = userStatId, p_race = 0, p_team = 0, p_invites = NewSafeSet\<rparr>"

definition Peer_Encode :: "MainPeer \<Rightarrow> goA" where
  "Peer_Encode peer =
     [j32 (p_advertisementId peer), j32 (p_userId peer), JInt (-1), j32 (p_userStatId peer),
      j32 (p_race peer), j32 (p_team peer), JStr (p_advertisementIp peer)]"

text \<open>A user is the platform path it is stored under.\<close>

definition Peer_Invite :: "string \<Rightarrow> MainPeer \<Rightarrow> bool \<times> MainPeer" where
  "Peer_Invite user peer = (let (r, s) = SafeSet_Store user (p_invites peer) in (r, peer\<lparr>p_invites := s\<rparr>))"

definition Peer_Uninvite :: "string \<Rightarrow> MainPeer \<Rightarrow> bool \<times> MainPeer" where
  "Peer_Uninvite user peer = (let (r, s) = SafeSet_Delete user (p_invites peer) in (r, peer\<lparr>p_invites := s\<rparr>))"

section \<open>Requests\<close>

record AdvertisementBaseRequest =
  rq_Id :: int32
  rq_AppBinaryChecksum :: int32
  rq_DataChecksum :: int32
  rq_ModDllFile :: string
  rq_ModDllChecksum :: int32
  rq_ModName :: string
  rq_ModVersion :: string
  rq_Party :: int32
  rq_Race :: int32
  rq_Team :: int32
  rq_VersionFlags :: uint32

record AdvertisementUpdateRequest =
  up_Id :: int32
  up_AppBinaryChecksum :: int32
  up_DataChecksum :: int32
  up_ModDllFile :: string
  up_ModDllChecksum :: int32
  up_ModName :: string
  up_ModVersion :: string
  up_VersionFlags :: uint32
  up_Description :: string
  up_AutomatchPollId :: int32
  up_MapName :: string
  up_HostId :: int32
  up_Observable :: bool
  up_ObserverDelay :: uint32
  up_ObserverPassword :: string
  up_Password :: string
  up_Passworded :: bool
  up_Visible :: bool
  up_Joinable :: bool
  up_MatchType :: uint8
  up_MaxPlayers :: uint8
  up_Options :: string
  up_SlotInfo :: string
  up_PsnSessionId :: uint64
  up_State :: int8

record AdvertisementHostRequest =
  h_base :: AdvertisementBaseRequest
  h_Description :: string
  h_AutomatchPollId :: int32
  h_RelayRegion :: string
  h_MapName :: string
  h_HostId :: int32
  h_Observable :: bool
  h_ObserverDelay :: uint32
  h_ObserverPassword :: string
  h_Password :: string
  h_Passworded :: bool
  h_ModDllFile :: string
  h_ModDllChecksum :: int32
  h_Visible :: bool
  h_StatGroup :: int32
  h_Joinable :: bool
  h_MatchType :: uint8
  h_MaxPlayers :: uint8
  h_Options :: string
  h_SlotInfo :: string
  h_PsnSessionId :: uint64
  h_State :: int8
  h_ServiceType :: uint8

section \<open>Advertisements\<close>

record MainAdvertisement =
  adv_id :: int32
  adv_ip :: string
  adv_automatchPollId :: int32
  adv_relayRegion :: string
  adv_appBinaryChecksum :: int32
  adv_mapName :: string
  adv_description :: string
  adv_dataChecksum :: int32
  adv_hostId :: int32
  adv_modDll_file :: string
  adv_modDll_checksum :: int32
  adv_modName :: string
  adv_modVersion :: string
  adv_observers_enabled :: bool
  adv_observers_delay :: uint32
  adv_observers_password :: string
  adv_observers_userIds :: "int32 SafeSet option"
  adv_password_value :: string
  adv_password_enabled :: bool
  adv_visible :: bool
  adv_party :: int32
  adv_race :: int32
  adv_team :: int32
  adv_statGroup :: int32
  adv_versionFlags :: uint32
  adv_joinable :: bool
  adv_matchType :: uint8
  adv_maxPlayers :: uint8
  adv_options :: string
  adv_slotInfo :: string
  adv_platformSessionId :: uint64
  adv_state :: int8
  adv_lan :: bool
  adv_startTime :: int
  adv_peers :: "(int32, MainPeer) SafeOrderedMap"
  adv_xboxSessionId :: string
  adv_tags_integer :: "(string \<times> int32) list"
  adv_tags_text :: "(string \<times> string) list"

definition zero_MainAdvertisement :: MainAdvertisement where
  "zero_MainAdvertisement =
     \<lparr>adv_id = 0, adv_ip = [], adv_automatchPollId = 0, adv_relayRegion = [], adv_appBinaryChecksum = 0,
      adv_mapName = [], adv_description = [], adv_dataChecksum = 0, adv_hostId = 0, adv_modDll_file = [],
      adv_modDll_checksum = 0, adv_modName = [], adv_modVersion = [], adv_observers_enabled = False,
      adv_observers_delay = 0, adv_observers_password = [], adv_observers_userIds = None,
      adv_password_value = [], adv_password_enabled = False, adv_visible = False, adv_party = 0, adv_race = 0,
      adv_team = 0, adv_statGroup = 0, adv_versionFlags = 0, adv_joinable = False, adv_matchType = 0,
      adv_maxPlayers = 0, adv_options = [], adv_slotInfo = [], adv_platformSessionId = 0, adv_state = 0,
      adv_lan = False, adv_startTime = 0, adv_peers = NewSafeOrderedMap, adv_xboxSessionId = [],
      adv_tags_integer = [], adv_tags_text = []\<rparr>"

fun containsFilter :: "('k \<times> 'v) list \<Rightarrow> ('k \<times> 'v) list \<Rightarrow> bool" where
  "containsFilter [] tags = True"
| "containsFilter ((fk, fv) # fs) tags =
     (case map_of tags fk of
        None \<Rightarrow> False
      | Some tv \<Rightarrow> if fv \<noteq> tv then False else containsFilter fs tags)"

definition UnsafeUpdateState :: "int \<Rightarrow> int8 \<Rightarrow> MainAdvertisement \<Rightarrow> MainAdvertisement" where
  "UnsafeUpdateState now state adv =
     (let previousState = adv_state adv;
          adv1 = adv\<lparr>adv_state := state\<rparr>
      in if adv_state adv1 = 1 \<and> previousState \<noteq> 1
         then adv1\<lparr>adv_startTime := now, adv_visible := False, adv_joinable := False,
                   adv_observers_userIds := Some NewSafeSet\<rparr>
         else adv1)"

definition UnsafeUpdate :: "int \<Rightarrow> AdvertisementUpdateRequest \<Rightarrow> MainAdvertisement \<Rightarrow> MainAdvertisement" where
  "UnsafeUpdate now advFrom adv =
     UnsafeUpdateState now (up_State advFrom)
       (adv\<lparr>adv_automatchPollId := up_AutomatchPollId advFrom,
            adv_appBinaryChecksum := up_AppBinaryChecksum advFrom,
            adv_mapName := up_MapName advFrom,
            adv_description := up_Description advFrom,
            adv_dataChecksum := up_DataChecksum advFrom,
            adv_modDll_checksum := up_ModDllChecksum advFrom,
            adv_modDll_file := up_ModDllFile advFrom,
            adv_modName := up_ModName advFrom,
            adv_modVersion := up_ModVersion advFrom,
            adv_observers_delay := up_ObserverDelay advFrom,
            adv_observers_enabled := up_Observable advFrom,
            adv_observers_password := up_ObserverPassword advFrom,
            adv_password_enabled := up_Passworded advFrom,
            adv_password_value := up_Password advFrom,
            adv_visible := up_Visible advFrom,
            adv_versionFlags := up_VersionFlags advFrom,
            adv_joinable := up_Joinable advFrom,
            adv_matchType := up_MatchType advFrom,
            adv_maxPlayers := up_MaxPlayers advFrom,
            adv_options := up_Options advFrom,
            adv_slotInfo := up_SlotInfo advFrom\<rparr>)"

definition UnsafeSetHostId :: "int32 \<Rightarrow> MainAdvertisement \<Rightarrow> MainAdvertisement" where
  "UnsafeSetHostId hostId adv = adv\<lparr>adv_hostId := hostId\<rparr>"

definition UnsafeUpdatePlatformSessionId :: "uint64 \<Rightarrow> MainAdvertisement \<Rightarrow> MainAdvertisement" where
  "UnsafeUpdatePlatformSessionId sessionId adv = adv\<lparr>adv_platformSessionId := sessionId\<rparr>"

definition UnsafeUpdateTags ::
    "(string \<times> int32) list \<Rightarrow> (string \<times> string) list \<Rightarrow> MainAdvertisement \<Rightarrow> MainAdvertisement" where
  "UnsafeUpdateTags integer text adv = adv\<lparr>adv_tags_integer := integer, adv_tags_text := text\<rparr>"

definition UnsafeMatchesTags ::
    "(string \<times> int32) list \<Rightarrow> (string \<times> string) list \<Rightarrow> MainAdvertisement \<Rightarrow> bool" where
  "UnsafeMatchesTags integer text adv \<longleftrightarrow>
     containsFilter integer (adv_tags_integer adv) \<and> containsFilter text (adv_tags_text adv)"

text \<open>Observing needs the set that the change to state 1 creates: before that the pointer is nil.\<close>

definition Adv_StartObserving :: "int32 \<Rightarrow> MainAdvertisement \<Rightarrow> MainAdvertisement outcome" where
  "Adv_StartObserving userId adv =
     (case adv_observers_userIds adv of
        None \<Rightarrow> Panic
      | Some s \<Rightarrow> Ret (adv\<lparr>adv_observers_userIds := Some (snd (SafeSet_Store userId s))\<rparr>))"

definition Adv_StopObserving :: "int32 \<Rightarrow> MainAdvertisement \<Rightarrow> MainAdvertisement outcome" where
  "Adv_StopObserving userId adv =
     (case adv_observers_userIds adv of
        None \<Rightarrow> Panic
      | Some s \<Rightarrow> Ret (adv\<lparr>adv_observers_userIds := Some (snd (SafeSet_Delete userId s))\<rparr>))"

definition EncodePeers :: "MainAdvertisement \<Rightarrow> jv list" where
  "EncodePeers adv = map (\<lambda>p. JArr (Peer_Encode p)) (snd (SafeOrderedMap_Values (adv_peers adv)))"

text \<open>A lobby that is not on the LAN and whose region has no battle server calls a method of a nil interface.\<close>

definition UnsafeEncode :: "string \<Rightarrow> MainBattleServers \<Rightarrow> MainAdvertisement \<Rightarrow> goA outcome" where
  "UnsafeEncode gameId battleServers adv =
     (let big = (gameId = AoE2 \<or> gameId = AoM \<or> gameId = AoE4);
          r1 = [j32 (adv_id adv), JInt (uint (adv_platformSessionId adv))]
               @ (if big then [if gameId = AoE4 then JInt 0 else JStr ''0'', JStr [], JStr []] else [])
               @ [JStr (adv_xboxSessionId adv), j32 (adv_hostId adv), JInt (sint (adv_state adv)), JStr (adv_description adv)]
               @ (if big then [JStr (adv_description adv)] else [])
               @ [jbool (adv_visible adv), JStr (adv_mapName adv), JStr (adv_options adv),
                  jbool (adv_password_enabled adv), JInt (uint (adv_maxPlayers adv)), JStr (adv_slotInfo adv),
                  JInt (uint (adv_matchType adv)), JArr (EncodePeers adv),
                  JInt (int (SafeSet_Len (adv_observers_userIds adv))), JInt 0,
                  jbool (adv_observers_enabled adv), ju32 (adv_observers_delay adv),
                  jbool (adv_observers_password adv \<noteq> []), jbool (adv_lan adv),
                  (if NumberToBool (adv_startTime adv) then JInt (adv_startTime adv) else JNull),
                  JStr (adv_relayRegion adv)]
      in if adv_lan adv then Ret (r1 @ [JNull])
         else (case BattleServers_Get battleServers (adv_relayRegion adv) of
                 None \<Rightarrow> Panic
               | Some b \<Rightarrow> Ret (AppendName b r1)))"

section \<open>The store of advertisements\<close>

type_synonym MainAdvertisements = "(int32, MainAdvertisement) SafeOrderedMap"

definition MainAdvertisements_Initialize :: MainAdvertisements where
  "MainAdvertisements_Initialize = NewSafeOrderedMap"

text \<open>The loop that draws identifiers: \<open>gen n\<close> is draw number \<open>n\<close>, \<open>None\<close> a loop that never ends.\<close>

partial_function (option) Advertisements_Store_loop ::
    "(nat \<Rightarrow> int32) \<Rightarrow> nat \<Rightarrow> MainAdvertisement \<Rightarrow> MainAdvertisements \<Rightarrow> (MainAdvertisement \<times> MainAdvertisements) option" where
  "Advertisements_Store_loop gen n adv store =
     (let adv1 = adv\<lparr>adv_id := gen n\<rparr>;
          r = SafeOrderedMap_Store (adv_id adv1) adv1 (Some (\<lambda>_. False)) store
      in if fst (fst r) then Advertisements_Store_loop gen (Suc n) adv1 (snd r)
         else Some (snd (fst r), snd r))"

definition scidEnd :: "string \<Rightarrow> string" where
  "scidEnd gameId =
     (if gameId = AoM then ''00006fe8b971'' else if gameId = AoE4 then ''00007d18f66e'' else ''000068a451d4'')"

definition host_update_request :: "AdvertisementHostRequest \<Rightarrow> AdvertisementUpdateRequest" where
  "host_update_request advFrom =
     \<lparr>up_Id = 0, up_AppBinaryChecksum = rq_AppBinaryChecksum (h_base advFrom),
      up_DataChecksum = rq_DataChecksum (h_base advFrom),
      up_ModDllFile = h_ModDllFile advFrom, up_ModDllChecksum = h_ModDllChecksum advFrom,
      up_ModName = rq_ModName (h_base advFrom), up_ModVersion = rq_ModVersion (h_base advFrom),
      up_VersionFlags = rq_VersionFlags (h_base advFrom), up_Description = h_Description advFrom,
      up_AutomatchPollId = h_AutomatchPollId advFrom, up_MapName = h_MapName advFrom, up_HostId = 0,
      up_Observable = h_Observable advFrom, up_ObserverDelay = h_ObserverDelay advFrom,
      up_ObserverPassword = h_ObserverPassword advFrom, up_Password = h_Password advFrom,
      up_Passworded = h_Passworded advFrom, up_Visible = h_Visible advFrom, up_Joinable = h_Joinable advFrom,
      up_MatchType = h_MatchType advFrom, up_MaxPlayers = h_MaxPlayers advFrom, up_Options = h_Options advFrom,
      up_SlotInfo = h_SlotInfo advFrom, up_PsnSessionId = 0, up_State = h_State advFrom\<rparr>"

text \<open>
  \<open>Store\<close>: \<open>ipDraw\<close> is \<open>rand.IntN(254)\<close> and \<open>uuid\<close> the text of the new UUID.
\<close>

definition new_advertisement ::
    "int \<Rightarrow> nat \<Rightarrow> string \<Rightarrow> AdvertisementHostRequest \<Rightarrow> bool \<Rightarrow> string \<Rightarrow> MainAdvertisement" where
  "new_advertisement now ipDraw uuid advFrom generateXboxSessionId gameId =
     (let adv = zero_MainAdvertisement
            \<lparr>adv_ip := ''/10.0.11.'' @ itoa (int ipDraw + 1),
             adv_relayRegion := h_RelayRegion advFrom,
             adv_xboxSessionId :=
               (if generateXboxSessionId
                then ''{\"templateName\":\"GameSession\",\"name\":\"'' @ uuid @
                     ''\",\"scid\":\"00000000-0000-0000-0000-'' @ scidEnd gameId @ ''\"}''
                else ''0''),
             adv_hostId := h_HostId advFrom,
             adv_party := rq_Party (h_base advFrom),
             adv_race := rq_Race (h_base advFrom),
             adv_team := rq_Team (h_base advFrom),
             adv_statGroup := h_StatGroup advFrom,
             adv_lan := NumberToBool (uint (h_ServiceType advFrom)),
             adv_tags_text := [], adv_tags_integer := [], adv_peers := NewSafeOrderedMap\<rparr>
      in UnsafeUpdate now (host_update_request advFrom) adv)"

definition Advertisements_Store ::
    "int \<Rightarrow> nat \<Rightarrow> string \<Rightarrow> (nat \<Rightarrow> int32) \<Rightarrow> AdvertisementHostRequest \<Rightarrow> bool \<Rightarrow> string \<Rightarrow> MainAdvertisements
       \<Rightarrow> (MainAdvertisement \<times> MainAdvertisements) option" where
  "Advertisements_Store now ipDraw uuid gen advFrom generateXboxSessionId gameId advs =
     Advertisements_Store_loop gen 0 (new_advertisement now ipDraw uuid advFrom generateXboxSessionId gameId) advs"

definition GetAdvertisement :: "MainAdvertisements \<Rightarrow> int32 \<Rightarrow> MainAdvertisement option" where
  "GetAdvertisement advs i = SafeOrderedMap_Load advs i"

text \<open>The result is the stored peer, which is an older one if the user already was a peer.\<close>

definition UnsafeNewPeer ::
    "int32 \<Rightarrow> string \<Rightarrow> int32 \<Rightarrow> int32 \<Rightarrow> int32 \<Rightarrow> int32 \<Rightarrow> int32 \<Rightarrow> MainAdvertisements
       \<Rightarrow> MainPeer option \<times> MainAdvertisements" where
  "UnsafeNewPeer advertisementId advertisementIp userId userStatId party race team advs =
     (case GetAdvertisement advs advertisementId of
        None \<Rightarrow> (None, advs)
      | Some adv \<Rightarrow>
          let peer = NewPeer advertisementId advertisementIp userId userStatId party race team;
              r = SafeOrderedMap_Store (p_userId peer) peer (Some (\<lambda>_. False)) (adv_peers adv)
          in (Some (snd (fst r)),
              SafeOrderedMap_modify advertisementId (\<lambda>a. a\<lparr>adv_peers := snd r\<rparr>) advs))"

definition UnsafeDelete :: "int32 \<Rightarrow> MainAdvertisements \<Rightarrow> MainAdvertisements" where
  "UnsafeDelete i advs = snd (SafeOrderedMap_Delete i advs)"

definition UnsafeRemovePeer :: "int32 \<Rightarrow> int32 \<Rightarrow> MainAdvertisements \<Rightarrow> bool \<times> MainAdvertisements" where
  "UnsafeRemovePeer advertisementId userId advs =
     (case GetAdvertisement advs advertisementId of
        None \<Rightarrow> (False, advs)
      | Some adv \<Rightarrow>
          let (deleted, peers) = SafeOrderedMap_Delete userId (adv_peers adv);
              advs1 = SafeOrderedMap_modify advertisementId (\<lambda>a. a\<lparr>adv_peers := peers\<rparr>) advs
          in if \<not> deleted then (False, advs1)
             else (True, if SafeOrderedMap_Len peers = 0 then UnsafeDelete (adv_id adv) advs1 else advs1))"

definition UnsafeFirstAdvertisement :: "(MainAdvertisement \<Rightarrow> bool) \<Rightarrow> MainAdvertisements \<Rightarrow> MainAdvertisement option" where
  "UnsafeFirstAdvertisement matches advs = List.find matches (snd (SafeOrderedMap_Values advs))"

definition GetUserAdvertisement :: "int32 \<Rightarrow> MainAdvertisements \<Rightarrow> MainAdvertisement option" where
  "GetUserAdvertisement userId advs =
     UnsafeFirstAdvertisement (\<lambda>adv. userId \<in> set (snd (SafeOrderedMap_Keys (adv_peers adv)))) advs"

text \<open>
  \<open>LockedFindAdvertisementsEncoded\<close>: without \<open>preMatchesLocking\<close> the test \<open>matches\<close> is not called.
  The bounds of the page are Go's \<open>int\<close>.
\<close>

fun find_encoded ::
    "string \<Rightarrow> MainBattleServers \<Rightarrow> bool \<Rightarrow> (MainAdvertisement \<Rightarrow> bool) \<Rightarrow> MainAdvertisement list \<Rightarrow> jv list \<Rightarrow> jv list outcome" where
  "find_encoded gameId bs pre matches [] res = Ret res"
| "find_encoded gameId bs pre matches (adv # advs) res =
     (if pre \<and> \<not> matches adv then find_encoded gameId bs pre matches advs res
      else (case UnsafeEncode gameId bs adv of
              Panic \<Rightarrow> Panic
            | Ret e \<Rightarrow> find_encoded gameId bs pre matches advs (res @ [JArr e])))"

definition page :: "int \<Rightarrow> int \<Rightarrow> 'a list \<Rightarrow> 'a list option" where
  "page len offset res =
     (if int (length res) \<le> offset then Some []
      else let len1 = (if len = 0 then int (length res) else len);
               end0 = wrap64 (len1 + offset);
               end1 = (if int (length res) < end0 then int (length res) else end0)
           in go_slice offset end1 res)"

definition LockedFindAdvertisementsEncoded ::
    "string \<Rightarrow> MainBattleServers \<Rightarrow> int \<Rightarrow> int \<Rightarrow> bool \<Rightarrow> (MainAdvertisement \<Rightarrow> bool) \<Rightarrow> MainAdvertisements \<Rightarrow> goA outcome" where
  "LockedFindAdvertisementsEncoded gameId bs len offset preMatchesLocking matches advs =
     (case find_encoded gameId bs preMatchesLocking matches (snd (SafeOrderedMap_Values advs)) [] of
        Panic \<Rightarrow> Panic
      | Ret res \<Rightarrow> (case page len offset res of None \<Rightarrow> Panic | Some xs \<Rightarrow> Ret xs))"

text \<open>Chat messages of a lobby (\<open>models/message.go\<close>).\<close>

record MainMessage =
  m_advertisementId :: int32
  m_time :: int
  m_broadcast :: bool
  m_content :: string
  m_typ :: uint8
  m_sender :: int32
  m_receivers :: "string list"

definition MakeMessage :: "int \<Rightarrow> bool \<Rightarrow> string \<Rightarrow> uint8 \<Rightarrow> int32 \<Rightarrow> string list \<Rightarrow> MainAdvertisement \<Rightarrow> MainMessage" where
  "MakeMessage now broadcast content typeId sender receivers adv =
     \<lparr>m_advertisementId = adv_id adv, m_time = now, m_broadcast = broadcast, m_content = content,
      m_typ = typeId, m_sender = sender, m_receivers = receivers\<rparr>"

definition Message_Encode :: "MainMessage \<Rightarrow> goA" where
  "Message_Encode message =
     [j32 (m_sender message), JStr (m_content message), JStr (m_content message), JInt (uint (m_typ message)),
      j32 (m_advertisementId message)]"

end
