(* ===== verification/LobbyLaws.thy ===== *)
theory LobbyLaws
  imports Lobby
begin

text \<open>
  What the lobbies promise: the invariant of the store and of every stored lobby, who is in which
  lobby as an abstract membership (the locale \<open>membership\<close>, interpreted on \<open>UnsafeNewPeer\<close> and
  \<open>UnsafeRemovePeer\<close>), and the behaviour of the single operations.
\<close>

section \<open>Invariant\<close>

definition adv_wf :: "int32 \<Rightarrow> MainAdvertisement \<Rightarrow> bool" where
  "adv_wf i adv \<longleftrightarrow> adv_id adv = i \<and> SafeOrderedMap_wf (adv_peers adv)
     \<and> (\<forall>u p. SafeOrderedMap_Load (adv_peers adv) u = Some p \<longrightarrow>
          p_userId p = u \<and> p_advertisementId p = i \<and> SafeMap_wf (p_invites p))"

definition lobbies_wf :: "MainAdvertisements \<Rightarrow> bool" where
  "lobbies_wf advs \<longleftrightarrow> SafeOrderedMap_wf advs
     \<and> (\<forall>i adv. GetAdvertisement advs i = Some adv \<longrightarrow> adv_wf i adv)"

text \<open>Who is in a lobby, in the order they came.\<close>

definition peers_of :: "MainAdvertisements \<Rightarrow> int32 \<Rightarrow> int32 list" where
  "peers_of advs i = (case GetAdvertisement advs i of None \<Rightarrow> [] | Some adv \<Rightarrow> keys (adv_peers adv))"

text \<open>No lobby is empty.\<close>

definition occupied :: "MainAdvertisements \<Rightarrow> bool" where
  "occupied advs \<longleftrightarrow> (\<forall>i. GetAdvertisement advs i \<noteq> None \<longrightarrow> peers_of advs i \<noteq> [])"

lemma lobbies_wf_new [simp]: "lobbies_wf NewSafeOrderedMap"
  by (simp add: lobbies_wf_def GetAdvertisement_def)

lemma occupied_new [simp]: "occupied NewSafeOrderedMap"
  by (simp add: occupied_def GetAdvertisement_def)

lemma lobbies_wfD:
  assumes "lobbies_wf advs"
  shows "SafeOrderedMap_wf advs" and "GetAdvertisement advs i = Some adv \<Longrightarrow> adv_wf i adv"
  using assms by (auto simp: lobbies_wf_def)

lemma adv_wfD:
  assumes "adv_wf i adv"
  shows "adv_id adv = i" and "SafeOrderedMap_wf (adv_peers adv)"
    and "SafeOrderedMap_Load (adv_peers adv) u = Some p \<Longrightarrow> p_userId p = u"
  using assms by (auto simp: adv_wf_def)

lemma Get_modify:
  "GetAdvertisement (SafeOrderedMap_modify i f advs) j =
     (if j = i then map_option f (GetAdvertisement advs j) else GetAdvertisement advs j)"
  by (simp add: GetAdvertisement_def SafeOrderedMap_Load_modify)

lemma lobbies_wf_modify [inv_intros]:
  assumes "lobbies_wf advs" and "\<And>a. GetAdvertisement advs i = Some a \<Longrightarrow> adv_wf i a \<Longrightarrow> adv_wf i (f a)"
  shows "lobbies_wf (SafeOrderedMap_modify i f advs)"
  using assms by (auto simp: lobbies_wf_def Get_modify split: if_splits)

lemma lobbies_wf_delete [inv_intros]: "lobbies_wf advs \<Longrightarrow> lobbies_wf (UnsafeDelete i advs)"
  by (auto simp: lobbies_wf_def UnsafeDelete_def GetAdvertisement_def om.look_remove split: if_splits)

lemma Get_delete:
  "lobbies_wf advs \<Longrightarrow> GetAdvertisement (UnsafeDelete i advs) = (GetAdvertisement advs)(i := None)"
  by (auto simp: lobbies_wf_def UnsafeDelete_def GetAdvertisement_def om.look_remove fun_eq_iff)

lemma peers_wf: "lobbies_wf advs \<Longrightarrow> GetAdvertisement advs i = Some adv \<Longrightarrow> SafeOrderedMap_wf (adv_peers adv)"
  by (blast dest: lobbies_wfD adv_wfD)

lemma peers_of_mem:
  "lobbies_wf advs \<Longrightarrow> u \<in> set (peers_of advs i) \<longleftrightarrow>
     (\<exists>adv. GetAdvertisement advs i = Some adv \<and> SafeOrderedMap_Load (adv_peers adv) u \<noteq> None)"
  by (cases "GetAdvertisement advs i") (simp_all add: peers_of_def om.seq_bound peers_wf)

lemma peers_of_distinct: "lobbies_wf advs \<Longrightarrow> distinct (peers_of advs i)"
  by (cases "GetAdvertisement advs i") (simp_all add: peers_of_def om.seq_distinct peers_wf)

lemma peers_of_modify_keep:
  "(\<And>a. adv_peers (f a) = adv_peers a) \<Longrightarrow> peers_of (SafeOrderedMap_modify i f advs) j = peers_of advs j"
  by (auto simp: peers_of_def Get_modify split: option.splits)

lemma adv_wf_keep:
  "adv_wf i a \<Longrightarrow> adv_peers (f a) = adv_peers a \<Longrightarrow> adv_id (f a) = adv_id a \<Longrightarrow> adv_wf i (f a)"
  by (simp add: adv_wf_def)

lemma Update_keeps [simp]:
  "adv_peers (UnsafeUpdateState now s a) = adv_peers a" "adv_id (UnsafeUpdateState now s a) = adv_id a"
  "adv_peers (UnsafeUpdate now q a) = adv_peers a" "adv_id (UnsafeUpdate now q a) = adv_id a"
  by (simp_all add: UnsafeUpdateState_def UnsafeUpdate_def Let_def)

section \<open>Membership\<close>

text \<open>
  The interface the handlers that move users between lobbies rely on: \<open>members s i\<close> lists who is in
  lobby \<open>i\<close>, which may not exist; joining one that exists adds the user at the end unless it is there,
  leaving removes it, and neither touches another lobby.
\<close>

locale membership =
  fixes inv :: "'s \<Rightarrow> bool"
    and exists_in :: "'s \<Rightarrow> 'i \<Rightarrow> bool"
    and members :: "'s \<Rightarrow> 'i \<Rightarrow> 'u list"
    and join :: "'i \<Rightarrow> 'u \<Rightarrow> 's \<Rightarrow> 's"
    and leave :: "'i \<Rightarrow> 'u \<Rightarrow> 's \<Rightarrow> 's"
  assumes inv_join: "inv s \<Longrightarrow> inv (join i u s)"
    and inv_leave: "inv s \<Longrightarrow> inv (leave i u s)"
    and members_none: "inv s \<Longrightarrow> \<not> exists_in s i \<Longrightarrow> members s i = []"
    and members_distinct: "inv s \<Longrightarrow> distinct (members s i)"
    and members_join: "inv s \<Longrightarrow> members (join i u s) j =
           (if j = i \<and> exists_in s i \<and> u \<notin> set (members s i) then members s i @ [u] else members s j)"
    and members_leave: "inv s \<Longrightarrow> members (leave i u s) j =
           (if j = i then removeAll u (members s i) else members s j)"
    and exists_join: "inv s \<Longrightarrow> exists_in (join i u s) j = exists_in s j"
    and exists_leave: "inv s \<Longrightarrow> exists_in (leave i u s) j =
           (exists_in s j \<and> \<not> (j = i \<and> u \<in> set (members s i) \<and> removeAll u (members s i) = []))"
begin

definition single :: "'u \<Rightarrow> 's \<Rightarrow> bool" where
  "single u s \<longleftrightarrow> (\<forall>i j. u \<in> set (members s i) \<longrightarrow> u \<in> set (members s j) \<longrightarrow> i = j)"

definition no_empty :: "'s \<Rightarrow> bool" where
  "no_empty s \<longleftrightarrow> (\<forall>i. exists_in s i \<longrightarrow> members s i \<noteq> [])"

lemma single_join_absent:
  "inv s \<Longrightarrow> \<forall>i. u \<notin> set (members s i) \<Longrightarrow> single u (join j u s)"
  by (auto simp: single_def members_join split: if_splits)

lemma single_other_join: "inv s \<Longrightarrow> single v s \<Longrightarrow> v \<noteq> u \<Longrightarrow> single v (join j u s)"
  by (auto simp: single_def members_join split: if_splits)

lemma single_leave: "inv s \<Longrightarrow> single v s \<Longrightarrow> single v (leave j u s)"
  by (auto simp: single_def members_leave split: if_splits)

lemma absent_after_leave:
  "inv s \<Longrightarrow> single u s \<Longrightarrow> u \<in> set (members s j) \<Longrightarrow> u \<notin> set (members (leave j u s) i)"
  by (auto simp: single_def members_leave)

lemma move_single:
  assumes "inv s" and "single u s" and "(\<forall>i. u \<notin> set (members s i)) \<or> u \<in> set (members s k)"
  shows "single u (join j u (if (\<forall>i. u \<notin> set (members s i)) then s else leave k u s))"
  using assms absent_after_leave inv_leave by (auto intro: single_join_absent)

lemma no_empty_join: "inv s \<Longrightarrow> no_empty s \<Longrightarrow> no_empty (join j u s)"
  by (auto simp: no_empty_def exists_join members_join)

lemma no_empty_leave: "inv s \<Longrightarrow> no_empty s \<Longrightarrow> no_empty (leave j u s)"
  by (auto simp: no_empty_def exists_leave members_leave)

lemma members_exist: "inv s \<Longrightarrow> u \<in> set (members s i) \<Longrightarrow> exists_in s i"
  using members_none by fastforce

end

subsection \<open>The operations of the store provide it\<close>

lemma NewPeer_fields [simp]:
  "p_userId (NewPeer a ip u s p r t) = u" "p_advertisementId (NewPeer a ip u s p r t) = a"
  "p_invites (NewPeer a ip u s p r t) = NewSafeSet" "p_race (NewPeer a ip u s p r t) = r"
  "p_team (NewPeer a ip u s p r t) = t" "p_party (NewPeer a ip u s p r t) = p"
  "p_userStatId (NewPeer a ip u s p r t) = s" "p_advertisementIp (NewPeer a ip u s p r t) = ip"
  by (simp_all add: NewPeer_def UpdateMutable_def)

lemma NewSafeSet_wf [simp]: "SafeMap_wf NewSafeSet"
  by (simp add: NewSafeSet_def)

lemma adv_wf_store_peer:
  assumes "adv_wf i adv" and "p_userId p = u" "p_advertisementId p = i" "SafeMap_wf (p_invites p)"
  shows "adv_wf i (adv\<lparr>adv_peers := SafeOrderedMap_ins u p (adv_peers adv)\<rparr>)"
  using assms by (auto simp: adv_wf_def om.look_ins split: if_splits)

lemma adv_wf_remove_peer:
  assumes "adv_wf i adv"
  shows "adv_wf i (adv\<lparr>adv_peers := SafeOrderedMap_remove u (adv_peers adv)\<rparr>)"
  using assms by (auto simp: adv_wf_def om.look_remove split: if_splits)

abbreviation newPeer :: "string \<Rightarrow> int32 \<Rightarrow> int32 \<Rightarrow> int32 \<Rightarrow> int32 \<Rightarrow> int32 \<Rightarrow> int32 \<Rightarrow> MainAdvertisements \<Rightarrow> MainAdvertisements" where
  "newPeer ip stat party race team i u advs \<equiv> snd (UnsafeNewPeer i ip u stat party race team advs)"

abbreviation removePeer :: "int32 \<Rightarrow> int32 \<Rightarrow> MainAdvertisements \<Rightarrow> MainAdvertisements" where
  "removePeer i u advs \<equiv> snd (UnsafeRemovePeer i u advs)"

lemma newPeer_wf [inv_intros]: "lobbies_wf advs \<Longrightarrow> lobbies_wf (newPeer ip stat party race team i u advs)"
  by (auto simp: UnsafeNewPeer_def Let_def intro!: lobbies_wf_modify adv_wf_store_peer split: option.split
      dest: lobbies_wfD)

lemma Get_newPeer:
  assumes "lobbies_wf advs"
  shows "GetAdvertisement (newPeer ip stat party race team i u advs) j =
     (if j = i then map_option (\<lambda>a. a\<lparr>adv_peers := SafeOrderedMap_ins u (NewPeer i ip u stat party race team) (adv_peers a)\<rparr>)
                     (GetAdvertisement advs i)
      else GetAdvertisement advs j)"
  by (cases "GetAdvertisement advs i") (auto simp: UnsafeNewPeer_def Let_def Get_modify)

lemma peers_of_newPeer:
  assumes "lobbies_wf advs"
  shows "peers_of (newPeer ip stat party race team i u advs) j =
     (if j = i \<and> GetAdvertisement advs i \<noteq> None \<and> u \<notin> set (peers_of advs i) then peers_of advs i @ [u]
      else peers_of advs j)"
proof (cases "j = i \<and> GetAdvertisement advs i \<noteq> None")
  case True
  then obtain a where a: "GetAdvertisement advs i = Some a" and j: "j = i" by auto
  have "SafeOrderedMap_wf (adv_peers a)" using assms a by (blast dest: lobbies_wfD adv_wfD)
  with a j show ?thesis
    by (auto simp: peers_of_def Get_newPeer [OF assms] om.seq_ins om.seq_bound)
next
  case False
  then show ?thesis by (auto simp: peers_of_def Get_newPeer [OF assms])
qed

lemma RemovePeer_cases:
  assumes "lobbies_wf advs"
  shows "UnsafeRemovePeer i u advs =
    (case GetAdvertisement advs i of
       None \<Rightarrow> (False, advs)
     | Some adv \<Rightarrow>
         let advs1 = SafeOrderedMap_modify i (\<lambda>a. a\<lparr>adv_peers := SafeOrderedMap_remove u (adv_peers adv)\<rparr>) advs
         in if u \<notin> set (keys (adv_peers adv)) then (False, advs1)
            else (True, if keys (adv_peers adv) = [u] then UnsafeDelete i advs1 else advs1))"
proof (cases "GetAdvertisement advs i")
  case None
  then show ?thesis by (simp add: UnsafeRemovePeer_def)
next
  case (Some adv)
  have a: "adv_wf i adv" using assms Some by (blast dest: lobbies_wfD)
  then have wf: "SafeOrderedMap_wf (adv_peers adv)" and i: "adv_id adv = i" by (auto dest: adv_wfD)
  have "SafeOrderedMap_Len (SafeOrderedMap_remove u (adv_peers adv)) = 0 \<longleftrightarrow> keys (adv_peers adv) = [u]"
    if "u \<in> set (keys (adv_peers adv))"
    using om.remove_empties [OF wf] that wf
    by (simp add: SafeOrderedMap_Len_pairs om_pairs_def om.seq_bound)
  with Some wf i show ?thesis
    by (simp add: UnsafeRemovePeer_def split_def Let_def SafeOrderedMap_Delete_result om.seq_bound
        SafeOrderedMap_Load_internal)
qed

lemma removePeer_wf [inv_intros]: "lobbies_wf advs \<Longrightarrow> lobbies_wf (removePeer i u advs)"
  by (auto simp: RemovePeer_cases Let_def intro!: lobbies_wf_delete lobbies_wf_modify adv_wf_remove_peer split: option.split)

lemma Get_removePeer:
  assumes "lobbies_wf advs"
  shows "GetAdvertisement (removePeer i u advs) j =
    (if j = i then (if peers_of advs i = [u] then None
                    else map_option (\<lambda>a. a\<lparr>adv_peers := SafeOrderedMap_remove u (adv_peers a)\<rparr>) (GetAdvertisement advs i))
     else GetAdvertisement advs j)"
proof (cases "GetAdvertisement advs i")
  case None
  then show ?thesis by (simp add: RemovePeer_cases [OF assms] peers_of_def)
next
  case (Some adv)
  let ?advs1 = "SafeOrderedMap_modify i (\<lambda>a. a\<lparr>adv_peers := SafeOrderedMap_remove u (adv_peers adv)\<rparr>) advs"
  have "lobbies_wf ?advs1"
    using assms Some by (auto intro!: lobbies_wf_modify adv_wf_remove_peer)
  with Some show ?thesis
    by (auto simp: RemovePeer_cases [OF assms] peers_of_def Let_def Get_modify Get_delete)
qed

lemma peers_of_removePeer:
  assumes "lobbies_wf advs"
  shows "peers_of (removePeer i u advs) j = (if j = i then removeAll u (peers_of advs i) else peers_of advs j)"
proof (cases "j = i \<and> GetAdvertisement advs i \<noteq> None")
  case True
  then obtain a where a: "GetAdvertisement advs i = Some a" and j: "j = i" by auto
  have "SafeOrderedMap_wf (adv_peers a)" using assms a by (blast dest: lobbies_wfD adv_wfD)
  with a j show ?thesis
    by (auto simp: peers_of_def Get_removePeer [OF assms] om.seq_remove)
next
  case False
  then show ?thesis by (auto simp: peers_of_def Get_removePeer [OF assms])
qed

interpretation lb: membership lobbies_wf "\<lambda>advs i. GetAdvertisement advs i \<noteq> None" peers_of
  "newPeer ip stat party race team" removePeer for ip stat party race team
proof unfold_locales
  fix s :: MainAdvertisements and i u j
  assume wf: "lobbies_wf s"
  show "lobbies_wf (newPeer ip stat party race team i u s)" using wf by (rule newPeer_wf)
  show "lobbies_wf (removePeer i u s)" using wf by (rule removePeer_wf)
  show "distinct (peers_of s i)"
    using wf by (rule peers_of_distinct)
  show "peers_of (newPeer ip stat party race team i u s) j =
      (if j = i \<and> GetAdvertisement s i \<noteq> None \<and> u \<notin> set (peers_of s i) then peers_of s i @ [u] else peers_of s j)"
    using wf by (rule peers_of_newPeer)
  show "peers_of (removePeer i u s) j = (if j = i then removeAll u (peers_of s i) else peers_of s j)"
    using wf by (rule peers_of_removePeer)
  show "(GetAdvertisement (newPeer ip stat party race team i u s) j \<noteq> None) = (GetAdvertisement s j \<noteq> None)"
    by (simp add: Get_newPeer [OF wf])
next
  fix s :: MainAdvertisements and i
  assume "\<not> GetAdvertisement s i \<noteq> None"
  then show "peers_of s i = []" by (simp add: peers_of_def)
next
  fix s :: MainAdvertisements and i u j
  assume wf: "lobbies_wf s"
  then have d: "distinct (peers_of s i)" by (rule peers_of_distinct)
  then have "u \<in> set (peers_of s i) \<and> removeAll u (peers_of s i) = [] \<longleftrightarrow> peers_of s i = [u]"
    by (cases "peers_of s i") (auto simp: filter_empty_conv removeAll_filter_not_eq, metis list.set_intros(1) neq_Nil_conv)
  then show "(GetAdvertisement (removePeer i u s) j \<noteq> None) = (GetAdvertisement s j \<noteq> None \<and>
      \<not> (j = i \<and> u \<in> set (peers_of s i) \<and> removeAll u (peers_of s i) = []))"
    by (auto simp: Get_removePeer [OF wf])
qed

section \<open>Creating a lobby\<close>

lemma Store_loop_fresh:
  assumes "SafeOrderedMap_wf st" and "SafeOrderedMap_Load st (gen n) = None"
  shows "Advertisements_Store_loop gen n adv st =
    Some (adv\<lparr>adv_id := gen n\<rparr>, SafeOrderedMap_ins (gen n) (adv\<lparr>adv_id := gen n\<rparr>) st)"
  using assms
  by (subst Advertisements_Store_loop.simps)
    (simp add: SafeOrderedMap_Store_def SafeOrderedMap_store_def SafeOrderedMap_Load_internal Let_def)

lemma Store_loop_taken:
  assumes "SafeOrderedMap_wf st" and "SafeOrderedMap_Load st (gen n) \<noteq> None"
  shows "Advertisements_Store_loop gen n adv st = Advertisements_Store_loop gen (Suc n) (adv\<lparr>adv_id := gen n\<rparr>) st"
  using assms
  by (subst Advertisements_Store_loop.simps)
    (auto simp: SafeOrderedMap_Store_def SafeOrderedMap_store_def SafeOrderedMap_Load_internal Let_def)

lemma Store_loop_first_fresh:
  assumes "SafeOrderedMap_wf st" and "SafeOrderedMap_Load st (gen (n + k)) = None"
    and "\<forall>j<k. SafeOrderedMap_Load st (gen (n + j)) \<noteq> None"
  shows "Advertisements_Store_loop gen n adv st =
    Some (adv\<lparr>adv_id := gen (n + k)\<rparr>, SafeOrderedMap_ins (gen (n + k)) (adv\<lparr>adv_id := gen (n + k)\<rparr>) st)"
  using assms(2,3)
proof (induction k arbitrary: n adv)
  case 0
  with assms(1) show ?case using Store_loop_fresh [of st gen n] by simp
next
  case (Suc k)
  have "SafeOrderedMap_Load st (gen n) \<noteq> None" using Suc.prems(2) [rule_format, of 0] by simp
  note Store_loop_taken [where gen = gen and n = n, OF assms(1) this, of adv]
  moreover have "\<forall>j<k. SafeOrderedMap_Load st (gen (Suc n + j)) \<noteq> None"
    using Suc.prems(2) by (auto simp del: not_None_eq dest: spec [of _ "Suc _"])
  ultimately show ?case using Suc.IH [of "Suc n" "adv\<lparr>adv_id := gen n\<rparr>"] Suc.prems(1) by simp
qed

lemma Store_loop_returns:
  assumes "Advertisements_Store_loop gen n adv st = Some r" and "SafeOrderedMap_wf st"
  shows "\<exists>k. SafeOrderedMap_Load st (gen (n + k)) = None"
proof -
  have "SafeOrderedMap_wf st \<longrightarrow> (\<exists>k. SafeOrderedMap_Load st (gen (n + k)) = None)"
  proof (rule Advertisements_Store_loop.raw_induct [OF _ assms(1),
        where P = "\<lambda>gen n adv st r. SafeOrderedMap_wf st \<longrightarrow> (\<exists>k. SafeOrderedMap_Load st (gen (n + k)) = None)"])
    fix f and gen :: "nat \<Rightarrow> int32" and n adv st r
    assume IH: "\<And>gen n adv st r. f gen n adv st = Some r \<Longrightarrow>
        SafeOrderedMap_wf st \<longrightarrow> (\<exists>k. SafeOrderedMap_Load st (gen (n + k)) = None)"
      and eq: "(let adv1 = adv\<lparr>adv_id := gen n\<rparr>;
          r = SafeOrderedMap_Store (adv_id adv1) adv1 (Some (\<lambda>_. False)) st
        in if fst (fst r) then f gen (Suc n) adv1 (snd r) else Some (snd (fst r), snd r)) = Some r"
    show "SafeOrderedMap_wf st \<longrightarrow> (\<exists>k. SafeOrderedMap_Load st (gen (n + k)) = None)"
    proof
      assume wf: "SafeOrderedMap_wf st"
      show "\<exists>k. SafeOrderedMap_Load st (gen (n + k)) = None"
      proof (cases "SafeOrderedMap_Load st (gen n)")
        case None
        then show ?thesis by (intro exI [of _ 0]) simp
      next
        case (Some s)
        with wf eq have "f gen (Suc n) (adv\<lparr>adv_id := gen n\<rparr>) st = Some r"
          by (simp add: SafeOrderedMap_Store_def SafeOrderedMap_store_def SafeOrderedMap_Load_internal Let_def)
        with IH wf obtain k where "SafeOrderedMap_Load st (gen (Suc n + k)) = None" by blast
        then show ?thesis by (intro exI [of _ "Suc k"]) simp
      qed
    qed
  qed
  with assms(2) show ?thesis by blast
qed

text \<open>The new lobby is entered under the first identifier drawn that is free.\<close>

lemma Store_loop_spec:
  assumes wf: "SafeOrderedMap_wf st"
  shows "(Advertisements_Store_loop gen 0 adv st \<noteq> None) = (\<exists>k. SafeOrderedMap_Load st (gen k) = None)"
    and "Advertisements_Store_loop gen 0 adv st = Some (a, st') \<Longrightarrow>
      \<exists>i. SafeOrderedMap_Load st i = None \<and> a = adv\<lparr>adv_id := i\<rparr> \<and> st' = SafeOrderedMap_ins i a st"
proof -
  have first: "\<exists>i. SafeOrderedMap_Load st i = None \<and>
      Advertisements_Store_loop gen 0 adv st = Some (adv\<lparr>adv_id := i\<rparr>, SafeOrderedMap_ins i (adv\<lparr>adv_id := i\<rparr>) st)"
    if ex: "\<exists>k. SafeOrderedMap_Load st (gen k) = None"
  proof -
    define k where "k = (LEAST k. SafeOrderedMap_Load st (gen k) = None)"
    have k: "SafeOrderedMap_Load st (gen (0 + k)) = None" unfolding k_def add_0 by (rule LeastI_ex [OF ex])
    have min: "\<forall>j<k. SafeOrderedMap_Load st (gen (0 + j)) \<noteq> None"
      unfolding k_def add_0 using not_less_Least by blast
    from Store_loop_first_fresh [OF wf k min] k show ?thesis by auto
  qed
  have ret: "\<exists>k. SafeOrderedMap_Load st (gen k) = None" if "Advertisements_Store_loop gen 0 adv st = Some r" for r
    using Store_loop_returns [OF that wf] by simp
  show "(Advertisements_Store_loop gen 0 adv st \<noteq> None) = (\<exists>k. SafeOrderedMap_Load st (gen k) = None)"
    using first ret by blast
  show "\<exists>i. SafeOrderedMap_Load st i = None \<and> a = adv\<lparr>adv_id := i\<rparr> \<and> st' = SafeOrderedMap_ins i a st"
    if "Advertisements_Store_loop gen 0 adv st = Some (a, st')"
    using first [OF ret [OF that]] that by auto
qed

lemma new_advertisement_peers [simp]: "adv_peers (new_advertisement now d u q x g) = NewSafeOrderedMap"
  by (simp add: new_advertisement_def Let_def)

lemma new_advertisement_wf: "adv_wf i ((new_advertisement now d u q x g)\<lparr>adv_id := i\<rparr>)"
  by (simp add: adv_wf_def)

lemma Store_spec:
  assumes "lobbies_wf advs" and "Advertisements_Store now d u gen q x g advs = Some (a, advs')"
  shows "GetAdvertisement advs (adv_id a) = None" "keys (adv_peers a) = []"
    "GetAdvertisement advs' = (GetAdvertisement advs)(adv_id a \<mapsto> a)" "lobbies_wf advs'"
    "a = (new_advertisement now d u q x g)\<lparr>adv_id := adv_id a\<rparr>"
proof -
  have wf: "SafeOrderedMap_wf advs" using assms(1) by (rule lobbies_wfD)
  from Store_loop_spec(2) [OF wf, of gen _ a advs'] assms(2) obtain i where i: "SafeOrderedMap_Load advs i = None"
      "a = (new_advertisement now d u q x g)\<lparr>adv_id := i\<rparr>" "advs' = SafeOrderedMap_ins i a advs"
    by (auto simp: Advertisements_Store_def)
  then have id: "adv_id a = i" by simp
  show "GetAdvertisement advs (adv_id a) = None" using i(1) id by (simp add: GetAdvertisement_def)
  have "wo_peers": "adv_peers a = NewSafeOrderedMap" by (simp add: i(2))
  then show "keys (adv_peers a) = []" by (simp add: NewSafeOrderedMap_def SafeOrderedMap_updateReadOnly_def)
  show g: "GetAdvertisement advs' = (GetAdvertisement advs)(adv_id a \<mapsto> a)"
    using i id by (auto simp: GetAdvertisement_def [abs_def] om.look_ins [OF wf])
  have "adv_wf i a" unfolding i(2) by (rule new_advertisement_wf)
  with assms(1) g id i(3) wf show "lobbies_wf advs'" by (auto simp: lobbies_wf_def om.wf_ins)
  show "a = (new_advertisement now d u q x g)\<lparr>adv_id := adv_id a\<rparr>" using i(2) id by simp
qed

section \<open>Properties\<close>

text \<open>
  C34: removing a user from a lobby reports success exactly if the user was in it, takes only
  that user out of only that lobby, keeps the others in their order, and deletes the lobby exactly
  when its last user leaves.
\<close>

theorem UnsafeRemovePeer_exact:
  assumes "lobbies_wf advs"
  shows "fst (UnsafeRemovePeer i u advs) = (u \<in> set (peers_of advs i))
    \<and> peers_of (snd (UnsafeRemovePeer i u advs)) j = (if j = i then removeAll u (peers_of advs i) else peers_of advs j)
    \<and> (GetAdvertisement (snd (UnsafeRemovePeer i u advs)) j = None)
        = (GetAdvertisement advs j = None \<or> j = i \<and> peers_of advs i = [u])
    \<and> lobbies_wf (snd (UnsafeRemovePeer i u advs))"
proof -
  have "fst (UnsafeRemovePeer i u advs) = (u \<in> set (peers_of advs i))"
    by (auto simp: RemovePeer_cases [OF assms] peers_of_def Let_def split: option.split)
  then show ?thesis
    using peers_of_removePeer [OF assms] Get_removePeer [OF assms] removePeer_wf [OF assms] by auto
qed

definition lobby_example :: MainAdvertisements where
  "lobby_example =
     snd (UnsafeNewPeer 9 [] 2 0 0 0 0 (snd (UnsafeNewPeer 9 [] 1 0 0 0 0
       (SafeOrderedMap_ins 9 (zero_MainAdvertisement\<lparr>adv_id := 9\<rparr>) NewSafeOrderedMap))))"

lemma lobby_example_wf: "lobbies_wf lobby_example"
proof -
  have "lobbies_wf (SafeOrderedMap_ins 9 (zero_MainAdvertisement\<lparr>adv_id := 9\<rparr>) NewSafeOrderedMap)"
    by (auto simp: lobbies_wf_def GetAdvertisement_def om.look_ins om.wf_ins adv_wf_def zero_MainAdvertisement_def
        split: if_splits)
  then show ?thesis unfolding lobby_example_def by (intro newPeer_wf)
qed

lemma lobby_example_peers: "peers_of lobby_example 9 = [1, 2]"
proof -
  let ?s = "SafeOrderedMap_ins 9 (zero_MainAdvertisement\<lparr>adv_id := 9\<rparr>) NewSafeOrderedMap"
  have wf: "lobbies_wf ?s"
    by (auto simp: lobbies_wf_def GetAdvertisement_def om.look_ins om.wf_ins adv_wf_def zero_MainAdvertisement_def
        split: if_splits)
  have g: "GetAdvertisement ?s 9 = Some (zero_MainAdvertisement\<lparr>adv_id := 9\<rparr>)"
    by (simp add: GetAdvertisement_def om.look_ins)
  have "keys NewSafeOrderedMap = []" by (simp add: NewSafeOrderedMap_def SafeOrderedMap_updateReadOnly_def)
  then have "keys (adv_peers (zero_MainAdvertisement\<lparr>adv_id := 9\<rparr>)) = []" by (simp add: zero_MainAdvertisement_def)
  then have "peers_of ?s 9 = []" by (simp only: peers_of_def g option.case)
  then show ?thesis
    unfolding lobby_example_def using g by (simp add: peers_of_newPeer [OF newPeer_wf [OF wf]] peers_of_newPeer [OF wf]
        Get_newPeer [OF wf])
qed

theorem UnsafeRemovePeer_exact_witness:
  "fst (UnsafeRemovePeer 9 1 lobby_example) \<and> peers_of (snd (UnsafeRemovePeer 9 1 lobby_example)) 9 = [2]
   \<and> \<not> fst (UnsafeRemovePeer 9 3 lobby_example)"
  using UnsafeRemovePeer_exact [OF lobby_example_wf, of 9 1 9] UnsafeRemovePeer_exact [OF lobby_example_wf, of 9 3 9]
  by (simp add: lobby_example_peers)

text \<open>
  Creating a lobby returns exactly when some identifier drawn is free, and then enters one
  new, empty lobby under a free identifier: no existing lobby is replaced or changed.
\<close>

lemma Advertisements_Store_fresh:
  assumes "lobbies_wf advs"
  shows "(Advertisements_Store now d u gen q x g advs \<noteq> None) = (\<exists>k. GetAdvertisement advs (gen k) = None)
    \<and> (case Advertisements_Store now d u gen q x g advs of None \<Rightarrow> True | Some (a, advs') \<Rightarrow>
        GetAdvertisement advs (adv_id a) = None \<and> peers_of advs' (adv_id a) = []
      \<and> GetAdvertisement advs' = (GetAdvertisement advs)(adv_id a \<mapsto> a) \<and> lobbies_wf advs')"
proof -
  have ex: "(Advertisements_Store now d u gen q x g advs \<noteq> None) = (\<exists>k. GetAdvertisement advs (gen k) = None)"
    unfolding Advertisements_Store_def GetAdvertisement_def
    by (rule Store_loop_spec(1) [OF lobbies_wfD(1) [OF assms]])
  show ?thesis
  proof (cases "Advertisements_Store now d u gen q x g advs")
    case None
    with ex show ?thesis by simp
  next
    case (Some r)
    obtain a advs' where r: "r = (a, advs')" by fastforce
    show ?thesis using ex Store_spec [OF assms Some [unfolded r]] Some r by (simp add: peers_of_def)
  qed
qed

definition host_example :: AdvertisementHostRequest where
  "host_example =
     \<lparr>h_base = \<lparr>rq_Id = - 1, rq_AppBinaryChecksum = 0, rq_DataChecksum = 0, rq_ModDllFile = [], rq_ModDllChecksum = 0,
        rq_ModName = [], rq_ModVersion = [], rq_Party = - 1, rq_Race = 0, rq_Team = 0, rq_VersionFlags = 0\<rparr>,
      h_Description = ''lobby'', h_AutomatchPollId = 0, h_RelayRegion = ''eu'', h_MapName = [], h_HostId = 1,
      h_Observable = True, h_ObserverDelay = 0, h_ObserverPassword = [], h_Password = ''pw'', h_Passworded = True,
      h_ModDllFile = [], h_ModDllChecksum = 0, h_Visible = True, h_StatGroup = 0, h_Joinable = True, h_MatchType = 0,
      h_MaxPlayers = 8, h_Options = [], h_SlotInfo = [], h_PsnSessionId = 0, h_State = 0, h_ServiceType = 1\<rparr>"

text \<open>
  The change to state 1 (in play) happens once: only a change from another state hides the
  lobby, closes it, stamps the start time and creates the empty set of observers; setting state 1
  again, or any other state, changes nothing but the state.
\<close>

lemma UnsafeUpdateState_edge:
  "UnsafeUpdateState now s adv =
     (if s = 1 \<and> adv_state adv \<noteq> 1
      then adv\<lparr>adv_state := 1, adv_startTime := now, adv_visible := False, adv_joinable := False,
               adv_observers_userIds := Some NewSafeSet\<rparr>
      else adv\<lparr>adv_state := s\<rparr>)
   \<and> UnsafeUpdateState now' s (UnsafeUpdateState now s adv) = UnsafeUpdateState now s adv"
  by (simp add: UnsafeUpdateState_def Let_def)

lemma containsFilter_iff:
  "containsFilter fs tags \<longleftrightarrow> (\<forall>(k, v) \<in> set fs. map_of tags k = Some v)"
  by (induction fs) (auto split: option.splits if_splits)

text \<open>
  A lobby matches a search by tags exactly if its tags contain every tag of the search with the
  same value.
\<close>

lemma UnsafeMatchesTags_submap:
  assumes "keys_distinct integer" and "keys_distinct text"
  shows "UnsafeMatchesTags integer text adv =
    (map_of integer \<subseteq>\<^sub>m map_of (adv_tags_integer adv) \<and> map_of text \<subseteq>\<^sub>m map_of (adv_tags_text adv))"
  using assms
  by (auto simp: UnsafeMatchesTags_def containsFilter_iff map_le_def dom_map_of map_of_eq_Some_iff)

lemma page_small:
  assumes "0 \<le> len" and "0 \<le> offset" and "len + offset < 2 ^ 63" and "int (length res) < 2 ^ 62"
  shows "page len offset res = Some (if len = 0 then drop (nat offset) res else take (nat len) (drop (nat offset) res))"
proof (cases "int (length res) \<le> offset")
  case True
  then show ?thesis by (simp add: page_def)
next
  case False
  define len1 where "len1 = (if len = 0 then int (length res) else len)"
  have "is_int64 (len1 + offset)"
    using False assms by (auto simp: len1_def is_int64_def)
  then have w: "wrap64 (len1 + offset) = len1 + offset" by simp
  show ?thesis
  proof (cases "len = 0")
    case True
    then show ?thesis
      using False assms(2) w by (auto simp: page_def len1_def go_slice_def nat_diff_distrib)
  next
    case nz: False
    then have "len1 = len" by (simp add: len1_def)
    with w False nz assms(1,2) show ?thesis
      by (auto simp: page_def go_slice_def Let_def nat_diff_distrib nat_add_distrib)
  qed
qed

text \<open>
  For bounds that are not negative and whose sum fits in 64 bits, a search returns the page
  that starts at the offset and holds the given number of lobbies, or all the rest for length 0.
  A sum past 63 bits wraps around to a negative end, and the slice expression panics.
\<close>

lemma page_spec:
  assumes "0 \<le> len" and "0 \<le> offset" and "is_int64 len" and "is_int64 offset" and "int (length res) < 2 ^ 62"
  shows "page len offset res =
    (if int (length res) \<le> offset then Some []
     else if 2 ^ 63 \<le> len + offset then None
     else Some (if len = 0 then drop (nat offset) res else take (nat len) (drop (nat offset) res)))"
proof (cases "int (length res) \<le> offset")
  case True
  then show ?thesis by (simp add: page_def)
next
  case False
  define len1 where "len1 = (if len = 0 then int (length res) else len)"
  have o: "offset < 2 ^ 62" using False assms(5) by linarith
  have l1: "0 < len1" using False assms(1,2) by (auto simp: len1_def)
  show ?thesis
  proof (cases "2 ^ 63 \<le> len + offset")
    case True
    then have "len1 = len" using o by (auto simp: len1_def)
    moreover have "wrap64 (len + offset) = len + offset - 2 ^ 64"
    proof -
      have "(len + offset + 2 ^ 63) mod 2 ^ 64 = (len + offset + 2 ^ 63 - 2 ^ 64) mod (2 :: int) ^ 64"
        by (simp only: minus_mod_self2)
      also have "\<dots> = len + offset + 2 ^ 63 - 2 ^ 64"
        using True assms(3) o by (intro mod_pos_pos_trivial) (simp_all add: is_int64_def)
      finally show ?thesis by (simp add: wrap64_def)
    qed
    ultimately show ?thesis
      using True False assms(3) o by (auto simp: page_def len1_def [symmetric] go_slice_def is_int64_def)
  next
    case small: False
    then show ?thesis using page_small [of len offset res] False assms by simp
  qed
qed

text \<open>
  The request for lobbies by identifier searches without \<open>preMatchesLocking\<close>, and then its
  test is never applied: whatever identifiers were asked for, every lobby is returned.
\<close>

lemma Locked_find_ignores_matches:
  "LockedFindAdvertisementsEncoded g bs len offset False matches advs =
     LockedFindAdvertisementsEncoded g bs len offset False (\<lambda>_. True) advs"
proof -
  have "find_encoded g bs False matches xs res = find_encoded g bs False (\<lambda>_. True) xs res" for xs res
    by (induction xs arbitrary: res) (auto split: outcome.split)
  then show ?thesis by (simp add: LockedFindAdvertisementsEncoded_def)
qed

end
