(* ===== verification/World.thy ===== *)
theory World
  imports LobbyLaws Sessions
begin

text \<open>
  The state of one game (\<open>models/game.go\<close>) with its chat channels (\<open>models/chatChannel.go\<close>), what a
  request's handler gets from outside, and what it does besides changing that state: the responses it
  writes (\<open>i.JSON\<close> may be called more than once) and the messages it sends.  A handler returns how
  it ended and the world it leaves: a panic keeps what was done before it, for \<open>net/http\<close> recovers it.
\<close>

section \<open>Chat channels\<close>

text \<open>The channel's users are pointers: their platform paths.\<close>

record MainChatChannel =
  ch_Id :: int32
  ch_Name :: string
  ch_users :: "(int32, string) SafeOrderedMap"

definition NewChatChannel :: "int32 \<Rightarrow> string \<Rightarrow> MainChatChannel" where
  "NewChatChannel i name = \<lparr>ch_Id = i, ch_Name = name, ch_users = NewSafeOrderedMap\<rparr>"

definition ChatChannel_Encode :: "MainChatChannel \<Rightarrow> goA" where
  "ChatChannel_Encode c = [j32 (ch_Id c), JStr (ch_Name c), JStr [], JInt (int (SafeOrderedMap_Len (ch_users c)))]"

definition ChatChannel_GetUsers :: "MainUsers \<Rightarrow> MainChatChannel \<Rightarrow> MainUser list" where
  "ChatChannel_GetUsers users c = map (\<lambda>k. the (SafeMap_Load users k)) (snd (SafeOrderedMap_Values (ch_users c)))"

text \<open>
  \<open>AddUser\<close> encodes the users that were there and stores the new one, replacing an entry that is
  already there (the callback is nil); the result says whether it was.
\<close>

definition ChatChannel_AddUser ::
    "MainUsers \<Rightarrow> MainUser \<Rightarrow> uint16 \<Rightarrow> MainChatChannel \<Rightarrow> (bool \<times> goA) \<times> MainChatChannel" where
  "ChatChannel_AddUser users user clientLibVersion c =
     (let (encodedUsers, (exists, _), us) =
            SafeOrderedMap_IterAndStore (u_id user) (GetPlatformPath user) None
              (\<lambda>(_, pairs). map (\<lambda>(_, k). JArr [JInt 0, JArr (EncodeProfileInfo clientLibVersion (the (SafeMap_Load users k)))]) pairs)
              (ch_users c)
      in ((exists, encodedUsers), c\<lparr>ch_users := us\<rparr>))"

definition ChatChannel_RemoveUser :: "MainUser \<Rightarrow> MainChatChannel \<Rightarrow> bool \<times> MainChatChannel" where
  "ChatChannel_RemoveUser user c =
     (let (r, us) = SafeOrderedMap_Delete (u_id user) (ch_users c) in (r, c\<lparr>ch_users := us\<rparr>))"

definition ChatChannel_HasUser :: "MainUser \<Rightarrow> MainChatChannel \<Rightarrow> bool" where
  "ChatChannel_HasUser user c \<longleftrightarrow> SafeOrderedMap_Load (ch_users c) (u_id user) \<noteq> None"

type_synonym MainChatChannels = "(int32, MainChatChannel) ReadOnlyOrderedMap"

text \<open>\<open>ids\<close> are the keys of the file after \<open>strconv.ParseInt\<close> (\<open>None\<close>: it fails, a panic).\<close>

fun ChatChannels_rows :: "(int32 option \<times> string) list \<Rightarrow> (int32 \<times> MainChatChannel) list option" where
  "ChatChannels_rows [] = Some []"
| "ChatChannels_rows ((None, _) # rest) = None"
| "ChatChannels_rows ((Some i, name) # rest) = map_option (\<lambda>r. (i, NewChatChannel i name) # r) (ChatChannels_rows rest)"

definition ChatChannels_Initialize :: "(int32 option \<times> string) list \<Rightarrow> MainChatChannels outcome" where
  "ChatChannels_Initialize chatChannels =
     (case ChatChannels_rows chatChannels of
        None \<Rightarrow> Panic
      | Some rows \<Rightarrow> Ret (NewReadOnlyOrderedMap (map fst rows) (fold (\<lambda>(k, v). AList.update k v) rows [])))"

definition ChatChannels_Encode :: "MainChatChannels \<Rightarrow> goA" where
  "ChatChannels_Encode cs = map (\<lambda>c. JArr (ChatChannel_Encode c)) (ReadOnlyOrderedMap_Values cs)"

definition ChatChannels_GetById :: "MainChatChannels \<Rightarrow> int32 \<Rightarrow> MainChatChannel option" where
  "ChatChannels_GetById cs i = ReadOnlyOrderedMap_Load cs i"

text \<open>A write through the pointer to a channel.\<close>

definition ChatChannels_modify :: "int32 \<Rightarrow> (MainChatChannel \<Rightarrow> MainChatChannel) \<Rightarrow> MainChatChannels \<Rightarrow> MainChatChannels" where
  "ChatChannels_modify i f cs = cs\<lparr>rom_internal := al_modify i f (rom_internal cs)\<rparr>"

section \<open>A game\<close>

record MainGame =
  g_title :: string
  g_battleServers :: MainBattleServers
  g_users :: MainUsers
  g_advertisements :: MainAdvertisements
  g_chatChannels :: MainChatChannels
  g_sessions :: MainSessions
  g_leaderboard :: "MainAvatarStatDefinitions option"
  g_items :: "MainItems option"
  g_presence :: MainPresenceDefinitions
  g_loginData :: goA

text \<open>
  \<open>CreateMainGame\<close>: the parts in the order in which it initialises them, from the decoded files; items
  and leaderboards only if their file is there, presence from the empty list otherwise.  \<open>None\<close> is a
  panic while a file is read.
\<close>

definition CreateMainGame ::
    "string \<Rightarrow> MainBattleServer list \<Rightarrow> BattleServerOpts option \<Rightarrow> (int32 option \<times> string) list \<Rightarrow> goA
       \<Rightarrow> ItemsRaw option \<Rightarrow> goA option \<Rightarrow> goA option \<Rightarrow> goA option \<Rightarrow> MainGame option" where
  "CreateMainGame gameId battleServers opts channels loginData itemDefinitions itemLocations leaderboards presenceData =
     (case ChatChannels_Initialize channels of
        Panic \<Rightarrow> None
      | Ret cs \<Rightarrow>
          (case (case itemLocations of None \<Rightarrow> Ret None
                 | Some locs \<Rightarrow> (case MainItems_Initialize itemDefinitions locs of Panic \<Rightarrow> Panic | Ret m \<Rightarrow> Ret (Some m))) of
             Panic \<Rightarrow> None
           | Ret items \<Rightarrow>
               (case (case leaderboards of None \<Rightarrow> Ret None
                      | Some l \<Rightarrow> (case newAvatarStatDefinitions l of None \<Rightarrow> Panic | Some d \<Rightarrow> Ret (Some d))) of
                  Panic \<Rightarrow> None
                | Ret lb \<Rightarrow>
                    (case MainPresenceDefinitions_Initialize (case presenceData of None \<Rightarrow> [] | Some p \<Rightarrow> p) of
                       None \<Rightarrow> None
                     | Some pd \<Rightarrow> Some
                         \<lparr>g_title = gameId, g_battleServers = MainBattleServers_Initialize battleServers opts,
                          g_users = NewSafeMap, g_advertisements = MainAdvertisements_Initialize,
                          g_chatChannels = cs, g_sessions = MainSessions_Initialize, g_leaderboard = lb,
                          g_items = items, g_presence = pd, g_loginData = loginData\<rparr>))))"

section \<open>Handlers\<close>

text \<open>
  What a handler draws from outside: the clock (seconds, and nanoseconds for the sessions), the
  network, the test for version 4 GUIDs, the generators and whether writes of files succeed.
\<close>

record Env =
  e_now :: int
  e_nowNs :: int
  e_net :: RequestNet
  e_guidV4 :: "string \<Rightarrow> bool"
  e_ipDraw :: nat
  e_uuid :: string
  e_advIds :: "nat \<Rightarrow> int32"
  e_sessionDraws :: "nat list"
  e_loadoutDraw :: int32
  e_io :: bool

datatype exit = HReturn | HPanic | HHang

record World =
  w_game :: MainGame
  w_out :: "jv list"
  w_sent :: "(string \<times> goA) list"

definition JSON :: "goA \<Rightarrow> World \<Rightarrow> World" where
  "JSON data w = w\<lparr>w_out := w_out w @ [JArr data]\<rparr>"

text \<open>
  \<open>SendOrStoreMessage\<close>: the message is built before the goroutine starts, so a nil session panics here.
  Which way it takes from here is the subject of theory \<open>Wss\<close>.
\<close>

definition finalMessage :: "SessionData \<Rightarrow> string \<Rightarrow> goA \<Rightarrow> goA" where
  "finalMessage session action message = [JInt 0, JStr action, j32 (sd_userId session), JArr message]"

definition SendOrStoreMessage :: "SessionData option \<Rightarrow> string \<Rightarrow> goA \<Rightarrow> World \<Rightarrow> exit \<times> World" where
  "SendOrStoreMessage session action message w =
     (case session of
        None \<Rightarrow> (HPanic, w)
      | Some s \<Rightarrow> (HReturn, w\<lparr>w_sent := w_sent w @ [(sd_id s, finalMessage s action message)]\<rparr>))"

abbreviation update_game :: "(MainGame \<Rightarrow> MainGame) \<Rightarrow> World \<Rightarrow> World" where
  "update_game f w \<equiv> w\<lparr>w_game := f (w_game w)\<rparr>"

abbreviation update_advs :: "(MainAdvertisements \<Rightarrow> MainAdvertisements) \<Rightarrow> World \<Rightarrow> World" where
  "update_advs f w \<equiv> update_game (\<lambda>g. g\<lparr>g_advertisements := f (g_advertisements g)\<rparr>) w"

abbreviation update_users :: "(MainUsers \<Rightarrow> MainUsers) \<Rightarrow> World \<Rightarrow> World" where
  "update_users f w \<equiv> update_game (\<lambda>g. g\<lparr>g_users := f (g_users g)\<rparr>) w"

abbreviation update_sessions :: "(MainSessions \<Rightarrow> MainSessions) \<Rightarrow> World \<Rightarrow> World" where
  "update_sessions f w \<equiv> update_game (\<lambda>g. g\<lparr>g_sessions := f (g_sessions g)\<rparr>) w"

abbreviation w_advs :: "World \<Rightarrow> MainAdvertisements" where "w_advs w \<equiv> g_advertisements (w_game w)"
abbreviation w_users :: "World \<Rightarrow> MainUsers" where "w_users w \<equiv> g_users (w_game w)"
abbreviation w_sessions :: "World \<Rightarrow> MainSessions" where "w_sessions w \<equiv> g_sessions (w_game w)"
abbreviation w_title :: "World \<Rightarrow> string" where "w_title w \<equiv> g_title (w_game w)"

text \<open>The loop that sends one message to every user of a list who has a session.\<close>

fun send_online :: "int32 list \<Rightarrow> string \<Rightarrow> (SessionData \<Rightarrow> goA) \<Rightarrow> World \<Rightarrow> World" where
  "send_online [] action msg w = w"
| "send_online (u # us) action msg w =
     (case MainSessions_GetByUserId (w_sessions w) u of
        None \<Rightarrow> send_online us action msg w
      | Some s \<Rightarrow> send_online us action msg (snd (SendOrStoreMessage (Some s) action (msg s) w)))"

subsection \<open>Lemmas on the effects\<close>

lemma JSON_simps [simp]:
  "w_game (JSON d w) = w_game w" "w_sent (JSON d w) = w_sent w" "w_out (JSON d w) = w_out w @ [JArr d]"
  by (simp_all add: JSON_def)

lemma send_online_keeps [simp]:
  "w_game (send_online us action msg w) = w_game w" "w_out (send_online us action msg w) = w_out w"
  by (induction us action msg w rule: send_online.induct) (auto simp: SendOrStoreMessage_def split: option.split)

lemma send_online_sent:
  "w_sent (send_online us action msg w) = w_sent w @
     map (\<lambda>s. (sd_id s, finalMessage s action (msg s))) (List.map_filter (MainSessions_GetByUserId (w_sessions w)) us)"
  by (induction us action msg w rule: send_online.induct)
    (auto simp: SendOrStoreMessage_def map_filter_simps split: option.split)

declare send_online.simps [simp del]

text \<open>Every session found for a user is that user's.\<close>

lemma GetByUserId_user: "MainSessions_GetByUserId s u = Some d \<Longrightarrow> sd_userId d = u"
  unfolding MainSessions_GetByUserId_def by (drule find_Some_mem) simp

lemma GetUserById_id: "GetUserById users i = Some u \<Longrightarrow> u_id u = i"
  unfolding GetUserById_def Users_getFirst_def by (drule find_Some_mem) simp

end
