(* ===== verification/AdvRoutes.thy ===== *)
theory AdvRoutes
  imports World
begin

text \<open>
  The handlers of \<open>routes/game/advertisement\<close>: hosting, joining, leaving, updating, observing and
  finding lobbies.  The bound request is an argument (\<open>None\<close>: \<open>i.Bind\<close> failed), so is the session the
  middleware set.
\<close>

section \<open>host.go\<close>

definition encodeHostResponse ::
    "string \<Rightarrow> int \<Rightarrow> int32 \<Rightarrow> MainBattleServer \<Rightarrow> RequestNet \<Rightarrow> string \<Rightarrow> jv list \<Rightarrow> string \<Rightarrow> string \<Rightarrow> goA" where
  "encodeHostResponse gameTitle errorCode advId battleServer r relayRegion encodedPeers metadata description =
     [JInt errorCode, j32 advId, JStr ''authtoken''] @ EncodeAdvertisement r battleServer
     @ [JStr relayRegion, JArr encodedPeers, JInt 0]
     @ (if gameTitle = AoE1 then [JStr metadata]
        else if gameTitle = AoE2 \<or> gameTitle = AoE4 \<or> gameTitle = AoM
        then [JInt 0, JNull, JNull, JStr metadata, JStr description]
        else [JStr ''0''])"

definition host_returnError :: "Env \<Rightarrow> World \<Rightarrow> World" where
  "host_returnError env w =
     JSON (encodeHostResponse (w_title w) 2 0 (NewBattleServer (g_battleServers (w_game w)) []) (e_net env) [] [] ''0'' []) w"

text \<open>The user leaves the lobby it is in, in every game but Age of Empires IV.\<close>

definition leave_previous :: "int32 \<Rightarrow> World \<Rightarrow> World" where
  "leave_previous userId w =
     (if w_title w \<noteq> AoE4
      then (case GetUserAdvertisement userId (w_advs w) of
              None \<Rightarrow> w
            | Some existingAdv \<Rightarrow> update_advs (\<lambda>a. snd (UnsafeRemovePeer (adv_id existingAdv) userId a)) w)
      else w)"

text \<open>The test of the party: an error is written, but the handler goes on.\<close>

definition Host_party :: "Env \<Rightarrow> AdvertisementHostRequest \<Rightarrow> World \<Rightarrow> World" where
  "Host_party env adv w =
     (if rq_Party (h_base adv) \<noteq> - 1
      then (case GetAdvertisement (w_advs w) (rq_Party (h_base adv)) of
              None \<Rightarrow> host_returnError env w
            | Some partyAdv \<Rightarrow> if adv_party partyAdv \<noteq> - 1 then host_returnError env w else w)
      else w)"

definition Host_store :: "Env \<Rightarrow> MainBattleServer \<Rightarrow> AdvertisementHostRequest \<Rightarrow> MainUser \<Rightarrow> World \<Rightarrow> exit \<times> World" where
  "Host_store env battleServer adv u w =
     (case Advertisements_Store (e_now env) (e_ipDraw env) (e_uuid env) (e_advIds env) adv
             (\<not> fst (BattleServer_LAN (e_guidV4 env) battleServer)) (w_title w) (w_advs w) of
        None \<Rightarrow> (HHang, w)
      | Some (storedAdv, advs1) \<Rightarrow>
          let (peer, advs2) = UnsafeNewPeer (adv_id storedAdv) (adv_ip storedAdv) (u_id u) (u_statId u)
                (rq_Party (h_base adv)) (rq_Race (h_base adv)) (rq_Team (h_base adv)) advs1;
              w1 = update_advs (\<lambda>_. advs2) w
          in (case peer of
                None \<Rightarrow> (HReturn, host_returnError env w1)
              | Some _ \<Rightarrow>
                  let a = (case GetAdvertisement advs2 (adv_id storedAdv) of None \<Rightarrow> storedAdv | Some a \<Rightarrow> a)
                  in (HReturn, JSON (encodeHostResponse (w_title w) 0 (adv_id a) battleServer (e_net env)
                        (adv_relayRegion a) (EncodePeers a) (adv_xboxSessionId a) (adv_description a)) w1)))"

definition Host :: "Env \<Rightarrow> string \<Rightarrow> AdvertisementHostRequest option \<Rightarrow> World \<Rightarrow> exit \<times> World" where
  "Host env region bound w =
     (let battleServers = g_battleServers (w_game w);
          bs0 = NewBattleServer battleServers region
      in case (if \<not> fst (BattleServer_LAN (e_guidV4 env) bs0) then BattleServers_Get battleServers region else Some bs0) of
           None \<Rightarrow> (HReturn, host_returnError env w)
         | Some battleServer \<Rightarrow>
             (case bound of
                None \<Rightarrow> (HReturn, host_returnError env w)
              | Some adv \<Rightarrow>
                  if w_title w \<noteq> AoE4 \<and> h_Description adv = ''SESSION_MATCH_KEY'' then (HReturn, host_returnError env w)
                  else if rq_Id (h_base adv) \<noteq> - 1 then (HReturn, host_returnError env w)
                  else let adv1 = (if w_title w = AoE1 \<or> w_title w = AoE3 \<or> w_title w = AoM
                                   then adv\<lparr>h_Joinable := True\<rparr> else adv)
                       in case GetUserById (w_users w) (h_HostId adv1) of
                            None \<Rightarrow> (HReturn, host_returnError env w)
                          | Some u \<Rightarrow>
                              let w1 = leave_previous (u_id u) w;
                                  w2 = Host_party env adv1 w1
                              in Host_store env battleServer adv1 u w2))"

section \<open>join.go\<close>

record JoinRequest =
  j_base :: AdvertisementBaseRequest
  j_Password :: string

definition encodeJoinResponse :: "int \<Rightarrow> string \<Rightarrow> MainBattleServer \<Rightarrow> RequestNet \<Rightarrow> goA \<Rightarrow> goA" where
  "encodeJoinResponse errorCode ip battleServer r peerEncoded =
     [JInt errorCode, JStr ip, JStr (ResolveIPv4 r battleServer)] @ EncodePorts battleServer @ [JArr [JArr peerEncoded]]"

definition joinReturnError :: "Env \<Rightarrow> World \<Rightarrow> World" where
  "joinReturnError env w =
     JSON (encodeJoinResponse 2 [] (NewBattleServer (g_battleServers (w_game w)) []) (e_net env) []) w"

definition join_mismatch :: "JoinRequest \<Rightarrow> MainAdvertisement \<Rightarrow> bool" where
  "join_mismatch q a \<longleftrightarrow>
     \<not> adv_joinable a
     \<or> adv_appBinaryChecksum a \<noteq> rq_AppBinaryChecksum (j_base q)
     \<or> adv_dataChecksum a \<noteq> rq_DataChecksum (j_base q)
     \<or> adv_modDll_file a \<noteq> rq_ModDllFile (j_base q)
     \<or> adv_modDll_checksum a \<noteq> rq_ModDllChecksum (j_base q)
     \<or> adv_modName a \<noteq> rq_ModName (j_base q)
     \<or> adv_modVersion a \<noteq> rq_ModVersion (j_base q)
     \<or> adv_versionFlags a \<noteq> rq_VersionFlags (j_base q)
     \<or> adv_password_value a \<noteq> j_Password q"

text \<open>
  The test under the read lock writes the error; its \<open>return\<close> only leaves the function literal.
\<close>

definition Join :: "Env \<Rightarrow> JoinRequest option \<Rightarrow> SessionData \<Rightarrow> World \<Rightarrow> exit \<times> World" where
  "Join env bound sess w =
     (case bound of
        None \<Rightarrow> (HReturn, joinReturnError env w)
      | Some q \<Rightarrow>
          (case GetUserById (w_users w) (sd_userId sess) of
             None \<Rightarrow> (HReturn, joinReturnError env w)
           | Some u \<Rightarrow>
               let w1 = leave_previous (u_id u) w
               in case GetAdvertisement (w_advs w1) (rq_Id (j_base q)) of
                    None \<Rightarrow> (HReturn, joinReturnError env w1)
                  | Some matchingAdv \<Rightarrow>
                      if rq_Party (j_base q) \<noteq> - 1 \<and> rq_Party (j_base q) \<noteq> adv_party matchingAdv
                      then (HReturn, joinReturnError env w1)
                      else
                        let w2 = (if join_mismatch q matchingAdv then joinReturnError env w1 else w1);
                            (peer, advs2) = UnsafeNewPeer (adv_id matchingAdv) (adv_ip matchingAdv) (u_id u) (u_statId u)
                              (rq_Party (j_base q)) (rq_Race (j_base q)) (rq_Team (j_base q)) (w_advs w2);
                            w3 = update_advs (\<lambda>_. advs2) w2
                        in (case peer of
                              None \<Rightarrow> (HReturn, joinReturnError env w3)
                            | Some p \<Rightarrow>
                                let bss = g_battleServers (w_game w);
                                    battleServer = (case BattleServers_Get bss (adv_relayRegion matchingAdv) of
                                                      None \<Rightarrow> NewLANBattleServer bss [] | Some b \<Rightarrow> b)
                                in (HReturn, JSON (encodeJoinResponse 0 (adv_ip matchingAdv) battleServer (e_net env)
                                      (Peer_Encode p)) w3))))"

section \<open>leave.go\<close>

definition Leave :: "int32 option \<Rightarrow> SessionData \<Rightarrow> World \<Rightarrow> exit \<times> World" where
  "Leave bound sess w =
     (case bound of
        None \<Rightarrow> (HReturn, JSON [JInt 2] w)
      | Some advertisementId \<Rightarrow>
          (case GetAdvertisement (w_advs w) advertisementId of
             None \<Rightarrow> (HReturn, JSON [JInt 2] w)
           | Some adv \<Rightarrow>
               let (success, advs) = UnsafeRemovePeer (adv_id adv) (sd_userId sess) (w_advs w);
                   w1 = update_advs (\<lambda>_. advs) w
               in (HReturn, JSON [JInt (if success then 0 else 2)] w1)))"

section \<open>update.go\<close>

definition updateReturnError :: "World \<Rightarrow> World" where
  "updateReturnError w = JSON ([JInt 2] @ (if w_title w \<noteq> AoE1 then [JArr []] else [])) w"

definition Update :: "Env \<Rightarrow> AdvertisementUpdateRequest option \<Rightarrow> World \<Rightarrow> exit \<times> World" where
  "Update env bound w =
     (case bound of
        None \<Rightarrow> (HReturn, updateReturnError w)
      | Some q \<Rightarrow>
          (case GetAdvertisement (w_advs w) (up_Id q) of
             None \<Rightarrow> (HReturn, updateReturnError w)
           | Some adv \<Rightarrow>
               let old = (w_title w = AoE1 \<or> w_title w = AoE3);
                   q1 = (if old then q\<lparr>up_Joinable := True\<rparr> else q);
                   a1 = UnsafeUpdate (e_now env) q1 adv;
                   a2 = (if old then UnsafeUpdatePlatformSessionId (up_PsnSessionId q1) a1 else a1);
                   w1 = update_advs (SafeOrderedMap_modify (up_Id q) (\<lambda>_. a2)) w
               in if w_title w = AoE2 \<or> w_title w = AoM \<or> w_title w = AoE4
                  then (case UnsafeEncode (w_title w) (g_battleServers (w_game w)) a2 of
                          Panic \<Rightarrow> (HPanic, w1)
                        | Ret response \<Rightarrow> (HReturn, JSON [JInt 0, JArr response] w1))
                  else (HReturn, JSON [JInt 0] w1)))"

section \<open>updateState.go\<close>

text \<open>
  The message goes to a slice with one place for every peer, filled from the front with the sessions
  that exist: the places left over hold the nil session.
\<close>

fun send_slots :: "SessionData option list \<Rightarrow> string \<Rightarrow> goA \<Rightarrow> World \<Rightarrow> exit \<times> World" where
  "send_slots [] action msg w = (HReturn, w)"
| "send_slots (s # ss) action msg w =
     (case SendOrStoreMessage s action msg w of
        (HReturn, w1) \<Rightarrow> send_slots ss action msg w1
      | r \<Rightarrow> r)"

definition pad :: "nat \<Rightarrow> 'a \<Rightarrow> 'a list \<Rightarrow> 'a list" where
  "pad n x xs = xs @ replicate (n - length xs) x"

definition MatchStart_message :: "(int32 \<times> MainPeer) list \<Rightarrow> nat \<Rightarrow> int \<Rightarrow> goA \<Rightarrow> goA" where
  "MatchStart_message present peersLen startTime advEncoded =
     [JArr (pad peersLen JNull (map (\<lambda>(u, _). JArr [j32 u, JArr []]) present)),
      JArr (pad peersLen JNull (map (\<lambda>(u, p). JArr [JStr (itoa (sint u)), JStr (itoa (sint (p_race p)))]) present)),
      JInt startTime,
      JArr (pad peersLen JNull (map (\<lambda>(u, _). JArr [JStr (itoa (sint u)), JArr []]) present)),
      JArr advEncoded,
      JArr (pad peersLen JNull (map (\<lambda>(u, _). JArr [JStr (itoa (sint u)), JArr []]) present))]"

text \<open>In any other state than 1 the iterator over the peers is nil, and ranging over it panics.\<close>

definition UpdateState :: "Env \<Rightarrow> (int32 \<times> int8) option \<Rightarrow> World \<Rightarrow> exit \<times> World" where
  "UpdateState env bound w =
     (case bound of
        None \<Rightarrow> (HReturn, JSON [JInt 2] w)
      | Some (advertisementId, state) \<Rightarrow>
          (case GetAdvertisement (w_advs w) advertisementId of
             None \<Rightarrow> (HReturn, JSON [JInt 2] (JSON [JInt 2] w))
           | Some adv \<Rightarrow>
               let a1 = UnsafeUpdateState (e_now env) state adv;
                   w1 = update_advs (SafeOrderedMap_modify advertisementId (\<lambda>_. a1)) w
               in if adv_state a1 \<noteq> 1 then (HPanic, w1)
                  else (case UnsafeEncode (w_title w) (g_battleServers (w_game w)) a1 of
                          Panic \<Rightarrow> (HPanic, w1)
                        | Ret advEncoded \<Rightarrow>
                            let (peersLen, peers) = SafeOrderedMap_Iter (adv_peers a1);
                                present = filter (\<lambda>(u, _). MainSessions_GetByUserId (w_sessions w1) u \<noteq> None) peers;
                                sessions = pad peersLen None (map (\<lambda>(u, _). MainSessions_GetByUserId (w_sessions w1) u) present)
                            in (case send_slots sessions ''MatchStartMessage''
                                   (MatchStart_message present peersLen (adv_startTime a1) advEncoded) w1 of
                                  (HReturn, w2) \<Rightarrow> (HReturn, JSON [JInt 0] w2)
                                | r \<Rightarrow> r))))"

section \<open>updateTags.go\<close>

record tagRequest =
  NumericTagNames :: "string list"
  NumericTagValues :: "int32 list"
  StringTagNames :: "string list"
  StringTagValues :: "string list"

definition parseTags :: "tagRequest option \<Rightarrow> ((string \<times> int32) list \<times> (string \<times> string) list) option" where
  "parseTags bound =
     (case bound of
        None \<Rightarrow> None
      | Some t \<Rightarrow>
          if length (StringTagNames t) \<noteq> length (StringTagValues t)
             \<or> length (NumericTagNames t) \<noteq> length (NumericTagValues t) then None
          else Some (fold (\<lambda>(k, v). AList.update k v) (zip (NumericTagNames t) (NumericTagValues t)) [],
                     fold (\<lambda>(k, v). AList.update k v) (zip (StringTagNames t) (StringTagValues t)) []))"

definition UpdateTags :: "tagRequest option \<Rightarrow> int32 option \<Rightarrow> SessionData \<Rightarrow> World \<Rightarrow> exit \<times> World" where
  "UpdateTags boundTags bound sess w =
     (case parseTags boundTags of
        None \<Rightarrow> (HReturn, JSON [JInt 2] w)
      | Some (numericTags, stringTags) \<Rightarrow>
          (case bound of
             None \<Rightarrow> (HReturn, JSON [JInt 2] w)
           | Some advertisementId \<Rightarrow>
               (case GetAdvertisement (w_advs w) advertisementId of
                  None \<Rightarrow> (HReturn, JSON [JInt 2] w)
                | Some matchingAdv \<Rightarrow>
                    if adv_hostId matchingAdv \<noteq> sd_userId sess then (HReturn, JSON [JInt 2] w)
                    else (HReturn, JSON [JInt 0]
                      (update_advs (SafeOrderedMap_modify advertisementId (UnsafeUpdateTags numericTags stringTags)) w)))))"

section \<open>updatePlatformLobbyID.go\<close>

text \<open>\<open>idValue\<close> is \<open>strconv.ParseInt\<close> of the form value (\<open>None\<close>: it does not parse).\<close>

definition updatePlatformID :: "int32 option \<Rightarrow> int64 option \<Rightarrow> SessionData \<Rightarrow> World \<Rightarrow> exit \<times> World" where
  "updatePlatformID bound idValue sess w =
     (case bound of
        None \<Rightarrow> (HReturn, JSON [JInt 2] w)
      | Some matchID \<Rightarrow>
          (case idValue of
             None \<Rightarrow> (HReturn, JSON [JInt 2] w)
           | Some idValueUint \<Rightarrow>
               (case GetAdvertisement (w_advs w) matchID of
                  None \<Rightarrow> (HReturn, JSON [JInt 2] w)
                | Some adv \<Rightarrow>
                    if SafeOrderedMap_Load (adv_peers adv) (sd_userId sess) = None then (HReturn, JSON [JInt 2] w)
                    else
                      let w1 = update_advs (SafeOrderedMap_modify matchID (UnsafeUpdatePlatformSessionId idValueUint)) w;
                          message = [j32 matchID, JStr (adv_xboxSessionId adv), JInt (uint idValueUint)]
                            @ (if w_title w = AoE2 \<or> w_title w = AoE4 \<or> w_title w = AoM then [JInt 0, JStr [], JStr []] else []);
                          w2 = send_online (snd (SafeOrderedMap_Keys (adv_peers adv))) ''PlatformSessionUpdateMessage'' (\<lambda>_. message) w1
                      in (HReturn, JSON [JInt 0] w2))))"

section \<open>findAdvertisements.go\<close>

record searchQuery =
  sq_AppBinaryChecksum :: int32
  sq_DataChecksum :: int32
  sq_MatchType :: "uint8 option"
  sq_ModDllFile :: string
  sq_ModDllChecksum :: int32
  sq_ModName :: string
  sq_ModVersion :: string
  sq_VersionFlags :: uint32

definition getAdvResp :: "int \<Rightarrow> goA \<Rightarrow> goA" where
  "getAdvResp errorCode advs = [JInt errorCode, JArr advs]"

definition findAdvResp :: "int \<Rightarrow> goA \<Rightarrow> goA" where
  "findAdvResp errorCode advs = getAdvResp errorCode advs @ [JArr []]"

definition search_matches ::
    "int32 \<Rightarrow> searchQuery \<Rightarrow> bool \<Rightarrow> (string \<Rightarrow> bool) \<Rightarrow> (MainAdvertisement \<Rightarrow> bool) option
       \<Rightarrow> (MainAdvertisement \<Rightarrow> bool) option \<Rightarrow> MainAdvertisement \<Rightarrow> bool" where
  "search_matches currentUserId q ongoing regionOk tagsCheck extraCheck adv \<longleftrightarrow>
     SafeOrderedMap_Load (adv_peers adv) currentUserId = None
     \<and> (case tagsCheck of None \<Rightarrow> True | Some f \<Rightarrow> f adv)
     \<and> (adv_joinable adv \<noteq> ongoing \<or> adv_visible adv \<noteq> ongoing)
     \<and> adv_appBinaryChecksum adv = sq_AppBinaryChecksum q
     \<and> adv_dataChecksum adv = sq_DataChecksum q
     \<and> (case sq_MatchType q of None \<Rightarrow> True | Some t \<Rightarrow> adv_matchType adv = t)
     \<and> adv_modDll_file adv = sq_ModDllFile q
     \<and> adv_modDll_checksum adv = sq_ModDllChecksum q
     \<and> adv_modName adv = sq_ModName q
     \<and> adv_modVersion adv = sq_ModVersion q
     \<and> adv_versionFlags adv = sq_VersionFlags q
     \<and> regionOk (adv_relayRegion adv)
     \<and> (case extraCheck of None \<Rightarrow> True | Some f \<Rightarrow> f adv)"

text \<open>An empty set of LAN regions means a search by the game's battle servers.\<close>

definition findAdvertisements ::
    "searchQuery option \<Rightarrow> tagRequest option \<Rightarrow> int \<Rightarrow> int \<Rightarrow> bool \<Rightarrow> string list \<Rightarrow> (MainAdvertisement \<Rightarrow> bool) option
       \<Rightarrow> SessionData \<Rightarrow> World \<Rightarrow> exit \<times> World" where
  "findAdvertisements bound boundTags len offset ongoing lanRegions extraCheck sess w =
     (case bound of
        None \<Rightarrow> (HReturn, JSON (findAdvResp 2 []) w)
      | Some q \<Rightarrow>
          let title = w_title w;
              bss = g_battleServers (w_game w);
              wan = (lanRegions = []);
              tagsCheck = (if wan \<and> (title = AoE2 \<or> title = AoM \<or> title = AoE4)
                           then map_option (\<lambda>(n, s). UnsafeMatchesTags n s) (parseTags boundTags) else None);
              regionOk = (\<lambda>r. if \<not> wan then r \<in> set lanRegions else BattleServers_Get bss r \<noteq> None)
          in (case LockedFindAdvertisementsEncoded title bss len offset True
                     (search_matches (sd_userId sess) q ongoing regionOk tagsCheck extraCheck) (w_advs w) of
                Panic \<Rightarrow> (HPanic, w)
              | Ret advs \<Rightarrow> (HReturn, JSON (findAdvResp 0 advs) w)))"

definition FindAdvertisements ::
    "(int \<times> int) option \<Rightarrow> searchQuery option \<Rightarrow> tagRequest option \<Rightarrow> SessionData \<Rightarrow> World \<Rightarrow> exit \<times> World" where
  "FindAdvertisements wanQuery bound boundTags sess w =
     (case wanQuery of
        None \<Rightarrow> (HReturn, JSON (findAdvResp 2 []) w)
      | Some (len, offset) \<Rightarrow> findAdvertisements bound boundTags len offset False [] None sess w)"

definition FindObservableAdvertisements ::
    "(int \<times> int) option \<Rightarrow> string \<Rightarrow> searchQuery option \<Rightarrow> tagRequest option \<Rightarrow> SessionData \<Rightarrow> World \<Rightarrow> exit \<times> World" where
  "FindObservableAdvertisements wanQuery observerGroupID bound boundTags sess w =
     (case wanQuery of
        None \<Rightarrow> (HReturn, JSON [JInt 2, JArr [], JArr []] w)
      | Some (len, offset) \<Rightarrow>
          if w_title w = AoE3 \<and> observerGroupID \<noteq> ''0'' then (HReturn, JSON [JInt 2, JArr [], JArr []] w)
          else findAdvertisements bound boundTags len offset True [] (Some adv_observers_enabled) sess w)"

definition GetAdvertisements :: "int32 list option \<Rightarrow> World \<Rightarrow> exit \<times> World" where
  "GetAdvertisements bound w =
     (case bound of
        None \<Rightarrow> (HReturn, JSON [JInt 2, JArr []] w)
      | Some matchIDs \<Rightarrow>
          (case LockedFindAdvertisementsEncoded (w_title w) (g_battleServers (w_game w)) 0 0 False
                  (\<lambda>adv. adv_id adv \<in> set matchIDs) (w_advs w) of
             Panic \<Rightarrow> (HPanic, w)
           | Ret advs \<Rightarrow> (HReturn, JSON (getAdvResp 0 advs) w)))"

text \<open>\<open>guids\<close> is the list that splitting the form value gives (\<open>None\<close> inside: the value is \<open>[]\<close>).\<close>

definition GetLanAdvertisements ::
    "string list option option \<Rightarrow> searchQuery option \<Rightarrow> SessionData \<Rightarrow> World \<Rightarrow> exit \<times> World" where
  "GetLanAdvertisements bound boundSearch sess w =
     (case bound of
        None \<Rightarrow> (HReturn, JSON [JInt 2, JArr [], JArr []] w)
      | Some None \<Rightarrow> (HReturn, JSON [JInt 0, JArr [], JArr []] w)
      | Some (Some guids) \<Rightarrow> findAdvertisements boundSearch None 0 0 False guids None sess w)"

section \<open>startObserving.go, stopObserving.go\<close>

definition encodeStartObservingResponse ::
    "int \<Rightarrow> MainBattleServer \<Rightarrow> RequestNet \<Rightarrow> goA \<Rightarrow> goA \<Rightarrow> int \<Rightarrow> goA" where
  "encodeStartObservingResponse errorCode battleServer r userIdsInt userIdsStr startTime =
     [JInt errorCode, JStr (ResolveIPv4 r battleServer)] @ EncodePorts battleServer
     @ [JArr userIdsInt, JInt startTime, JArr userIdsStr]"

definition joinReturnStartObservingError :: "Env \<Rightarrow> World \<Rightarrow> World" where
  "joinReturnStartObservingError env w =
     JSON (encodeStartObservingResponse 2 (NewBattleServer (g_battleServers (w_game w)) []) (e_net env) [] [] 0) w"

definition observing_refused :: "int32 \<Rightarrow> searchQuery \<Rightarrow> MainBattleServers \<Rightarrow> MainAdvertisement \<Rightarrow> bool" where
  "observing_refused currentUserId q bss adv \<longleftrightarrow>
     adv_joinable adv \<and> SafeOrderedMap_Load (adv_peers adv) currentUserId \<noteq> None \<and> adv_visible adv
     \<and> adv_appBinaryChecksum adv \<noteq> sq_AppBinaryChecksum q
     \<and> adv_dataChecksum adv \<noteq> sq_DataChecksum q
     \<and> (case sq_MatchType q of None \<Rightarrow> True | Some t \<Rightarrow> adv_matchType adv \<noteq> t)
     \<and> adv_modDll_file adv \<noteq> sq_ModDllFile q
     \<and> adv_modDll_checksum adv \<noteq> sq_ModDllChecksum q
     \<and> adv_modName adv \<noteq> sq_ModName q
     \<and> adv_modVersion adv \<noteq> sq_ModVersion q
     \<and> adv_versionFlags adv \<noteq> sq_VersionFlags q
     \<and> \<not> adv_observers_enabled adv
     \<and> BattleServers_Get bss (adv_relayRegion adv) = None"

text \<open>
  Both function literals may write an error and return, and neither ends the handler; without a
  battle server the last response is the nil slice, \<open>null\<close>.
\<close>

definition JSON_nil :: "World \<Rightarrow> World" where
  "JSON_nil w = w\<lparr>w_out := w_out w @ [JNull]\<rparr>"

definition StartObserving :: "Env \<Rightarrow> searchQuery option \<Rightarrow> int32 option \<Rightarrow> SessionData \<Rightarrow> World \<Rightarrow> exit \<times> World" where
  "StartObserving env boundSearch bound sess w =
     (case boundSearch of
        None \<Rightarrow> (HReturn, joinReturnStartObservingError env w)
      | Some q \<Rightarrow>
          (case bound of
             None \<Rightarrow> (HReturn, joinReturnStartObservingError env w)
           | Some advertisementId \<Rightarrow>
               (case GetAdvertisement (w_advs w) advertisementId of
                  None \<Rightarrow> (HReturn, joinReturnStartObservingError env w)
                | Some adv \<Rightarrow>
                    let bss = g_battleServers (w_game w);
                        w1 = (if observing_refused (sd_userId sess) q bss adv then joinReturnStartObservingError env w else w);
                        userIds = snd (SafeOrderedMap_Keys (adv_peers adv));
                        bs = BattleServers_Get bss (adv_relayRegion adv);
                        w2 = (case bs of None \<Rightarrow> joinReturnStartObservingError env w1 | Some _ \<Rightarrow> w1)
                    in (case Adv_StartObserving (sd_userId sess) adv of
                          Panic \<Rightarrow> (HPanic, w2)
                        | Ret a1 \<Rightarrow>
                            let w3 = update_advs (SafeOrderedMap_modify advertisementId (\<lambda>_. a1)) w2
                            in (HReturn,
                                (case bs of
                                   None \<Rightarrow> JSON_nil w3
                                 | Some battleServer \<Rightarrow>
                                     JSON (encodeStartObservingResponse 0 battleServer (e_net env)
                                        (map (\<lambda>u. JArr [j32 u, JArr []]) userIds)
                                        (map (\<lambda>u. JArr [JStr (itoa (sint u)), JArr []]) userIds)
                                        (adv_startTime adv)) w3))))))"

definition StopObserving :: "int32 option \<Rightarrow> SessionData \<Rightarrow> World \<Rightarrow> exit \<times> World" where
  "StopObserving bound sess w =
     (case bound of
        None \<Rightarrow> (HReturn, JSON [JInt 2] w)
      | Some advertisementId \<Rightarrow>
          (case GetAdvertisement (w_advs w) advertisementId of
             None \<Rightarrow> (HReturn, JSON [JInt 0] w)
           | Some adv \<Rightarrow>
               (case Adv_StopObserving (sd_userId sess) adv of
                  Panic \<Rightarrow> (HPanic, w)
                | Ret a1 \<Rightarrow>
                    (HReturn, JSON [JInt 0] (update_advs (SafeOrderedMap_modify advertisementId (\<lambda>_. a1)) w)))))"

section \<open>Lemmas\<close>

definition in_one_lobby :: "MainAdvertisements \<Rightarrow> bool" where
  "in_one_lobby advs \<longleftrightarrow>
     (\<forall>u i j. u \<in> set (peers_of advs i) \<and> u \<in> set (peers_of advs j) \<longrightarrow> i = j)"

lemma in_one_lobby_single: "in_one_lobby advs \<longleftrightarrow> (\<forall>u. membership.single peers_of u advs)"
  unfolding in_one_lobby_def lb.single_def by blast

lemma occupied_no_empty:
  "occupied advs \<longleftrightarrow> membership.no_empty (\<lambda>advs i. GetAdvertisement advs i \<noteq> None) peers_of advs"
  unfolding occupied_def lb.no_empty_def by blast

lemma GetUserAdvertisement_some:
  assumes "lobbies_wf advs" and "GetUserAdvertisement u advs = Some a"
  shows "GetAdvertisement advs (adv_id a) = Some a" and "u \<in> set (peers_of advs (adv_id a))"
proof -
  have wf: "SafeOrderedMap_wf advs" using assms(1) by (rule lobbies_wfD)
  have "a \<in> set (snd (SafeOrderedMap_Values advs)) \<and> u \<in> set (snd (SafeOrderedMap_Keys (adv_peers a)))"
    using assms(2) unfolding GetUserAdvertisement_def UnsafeFirstAdvertisement_def by (rule find_Some_mem)
  then obtain i where i: "(i, a) \<in> set (om_pairs advs)" and u: "u \<in> set (snd (SafeOrderedMap_Keys (adv_peers a)))"
    by (auto simp: SafeOrderedMap_Values_pairs [OF wf])
  then have g: "GetAdvertisement advs i = Some a"
    using om_pairs_distinct [OF wf] by (simp add: GetAdvertisement_def map_of_om_pairs [OF wf, symmetric] map_of_eq_Some_iff)
  then have "adv_id a = i" and w: "SafeOrderedMap_wf (adv_peers a)" using assms(1) by (blast dest: lobbies_wfD adv_wfD)+
  with g show "GetAdvertisement advs (adv_id a) = Some a" by simp
  with u w show "u \<in> set (peers_of advs (adv_id a))"
    by (simp add: peers_of_def SafeOrderedMap_Keys_pairs om_pairs_keys)
qed

lemma GetUserAdvertisement_none:
  assumes "lobbies_wf advs" and "GetUserAdvertisement u advs = None"
  shows "u \<notin> set (peers_of advs i)"
proof (cases "GetAdvertisement advs i")
  case None
  then show ?thesis by (simp add: peers_of_def)
next
  case (Some a)
  have wf: "SafeOrderedMap_wf advs" using assms(1) by (rule lobbies_wfD)
  have "(i, a) \<in> set (om_pairs advs)"
    using Some om_pairs_distinct [OF wf]
    by (simp add: GetAdvertisement_def map_of_om_pairs [OF wf, symmetric] map_of_eq_Some_iff)
  then have "a \<in> set (snd (SafeOrderedMap_Values advs))"
    by (force simp: SafeOrderedMap_Values_pairs [OF wf])
  then have "u \<notin> set (snd (SafeOrderedMap_Keys (adv_peers a)))"
    using assms(2) by (simp add: GetUserAdvertisement_def UnsafeFirstAdvertisement_def find_None)
  with Some show ?thesis
    by (simp add: peers_of_def SafeOrderedMap_Keys_pairs om_pairs_keys peers_wf [OF assms(1) Some])
qed

text \<open>Leaving the previous lobby: the state it leaves, field by field.\<close>

lemma leave_previous_simps [simp]:
  "w_title (leave_previous u w) = w_title w" "w_users (leave_previous u w) = w_users w"
  "w_sessions (leave_previous u w) = w_sessions w" "w_out (leave_previous u w) = w_out w"
  "w_sent (leave_previous u w) = w_sent w"
  "g_battleServers (w_game (leave_previous u w)) = g_battleServers (w_game w)"
  by (auto simp: leave_previous_def split: option.split)

lemma leave_previous_wf [inv_intros]: "lobbies_wf (w_advs w) \<Longrightarrow> lobbies_wf (w_advs (leave_previous u w))"
  by (auto simp: leave_previous_def intro!: removePeer_wf split: option.split)

lemma leave_previous_occupied:
  assumes "lobbies_wf (w_advs w)" and "occupied (w_advs w)"
  shows "occupied (w_advs (leave_previous u w))"
  using assms lb.no_empty_leave [OF assms(1)]
  by (auto simp: leave_previous_def occupied_no_empty split: option.split)

lemma leave_previous_single:
  assumes "lobbies_wf (w_advs w)" and "in_one_lobby (w_advs w)"
  shows "in_one_lobby (w_advs (leave_previous u w))"
  using assms lb.single_leave [OF assms(1)]
  by (auto simp: leave_previous_def in_one_lobby_single split: option.split)

lemma leave_previous_absent:
  assumes "lobbies_wf (w_advs w)" and "in_one_lobby (w_advs w)" and "w_title w \<noteq> AoE4"
  shows "u \<notin> set (peers_of (w_advs (leave_previous u w)) i)"
proof (cases "GetUserAdvertisement u (w_advs w)")
  case None
  with assms(3) GetUserAdvertisement_none [OF assms(1) None] show ?thesis by (simp add: leave_previous_def)
next
  case (Some a)
  have "membership.single peers_of u (w_advs w)" using assms(2) by (simp add: in_one_lobby_single)
  with Some assms(3) show ?thesis
    using lb.absent_after_leave [OF assms(1) _ GetUserAdvertisement_some(2) [OF assms(1) Some]]
    by (simp add: leave_previous_def)
qed

text \<open>Errors change nothing but the responses.\<close>

lemma error_simps [simp]:
  "w_game (host_returnError env w) = w_game w" "w_sent (host_returnError env w) = w_sent w"
  "w_game (joinReturnError env w) = w_game w" "w_sent (joinReturnError env w) = w_sent w"
  "w_game (Host_party env q w) = w_game w" "w_sent (Host_party env q w) = w_sent w"
  "w_game (joinReturnStartObservingError env w) = w_game w"
  "length (w_out (joinReturnError env w)) = Suc (length (w_out w))"
  by (auto simp: host_returnError_def joinReturnError_def Host_party_def joinReturnStartObservingError_def split: option.split)

lemma newPeer_some:
  "GetAdvertisement advs i \<noteq> None \<Longrightarrow> fst (UnsafeNewPeer i ip u s p r t advs) \<noteq> None"
  by (auto simp: UnsafeNewPeer_def Let_def)

text \<open>What the two handlers that move a user do to the lobbies.\<close>

lemma Join_advs:
  assumes "GetUserById (w_users w) (sd_userId sess) = Some u"
    and "GetAdvertisement (w_advs (leave_previous (u_id u) w)) (rq_Id (j_base q)) = Some a"
    and "rq_Party (j_base q) = - 1 \<or> rq_Party (j_base q) = adv_party a"
  shows "fst (Join env (Some q) sess w) = HReturn"
    and "w_advs (snd (Join env (Some q) sess w)) =
      newPeer (adv_ip a) (u_statId u) (rq_Party (j_base q)) (rq_Race (j_base q)) (rq_Team (j_base q)) (adv_id a) (u_id u)
        (w_advs (leave_previous (u_id u) w)) \<or> adv_id a \<noteq> rq_Id (j_base q)"
    and "adv_id a = rq_Id (j_base q) \<Longrightarrow> length (w_out (snd (Join env (Some q) sess w))) =
      length (w_out w) + (if join_mismatch q a then 2 else 1)"
  using assms newPeer_some [of "w_advs (leave_previous (u_id u) w)" "rq_Id (j_base q)"]
  by (auto simp: Join_def Let_def split_def split: option.split)

lemma Join_cases:
  assumes "lobbies_wf (w_advs w)"
  shows "w_advs (snd (Join env bound sess w)) = w_advs w
    \<or> (\<exists>u. w_advs (snd (Join env bound sess w)) = w_advs (leave_previous u w))
    \<or> (\<exists>u ip stat party race team i. w_advs (snd (Join env bound sess w)) =
         newPeer ip stat party race team i u (w_advs (leave_previous u w)))"
proof (cases "\<exists>q u a. bound = Some q \<and> GetUserById (w_users w) (sd_userId sess) = Some u
    \<and> GetAdvertisement (w_advs (leave_previous (u_id u) w)) (rq_Id (j_base q)) = Some a
    \<and> (rq_Party (j_base q) = - 1 \<or> rq_Party (j_base q) = adv_party a)")
  case True
  then obtain q u a where q: "bound = Some q" "GetUserById (w_users w) (sd_userId sess) = Some u"
      "GetAdvertisement (w_advs (leave_previous (u_id u) w)) (rq_Id (j_base q)) = Some a"
      "rq_Party (j_base q) = - 1 \<or> rq_Party (j_base q) = adv_party a" by blast
  have "adv_id a = rq_Id (j_base q)"
    using q(3) leave_previous_wf [OF assms] by (blast dest: lobbies_wfD adv_wfD)
  with Join_advs(2) [OF q(2,3,4), of env] q(1) show ?thesis by metis
next
  case False
  then show ?thesis by (auto simp: Join_def Let_def split: option.split)
qed

end
