(* ===== verification/Examples.thy ===== *)
theory Examples
  imports AdvRoutes
begin

text \<open>
  A small world for the witnesses of the handlers' properties: three users, of whom the users 1 and
  2 are in the lobby 9, and no session.
\<close>

definition example_user :: "int32 \<Rightarrow> uint64 \<Rightarrow> MainUser" where
  "example_user i p =
     \<lparr>u_id = i, u_statId = i, u_alias = [], u_platformUserId = p, u_profileId = i, u_reliclink = 0, u_isXbox = False,
      u_profileProperties = None, u_avatarMetadata = None, u_presence = 1, u_presenceProperties = Some NewSafeMap,
      u_avatarStats = None, u_items = None, u_itemLoadouts = None, u_auth = None\<rparr>"

definition example_world :: World where
  "example_world =
     \<lparr>w_game =
        \<lparr>g_title = AoE2, g_battleServers = MainBattleServers_Initialize [] None,
         g_users = \<lparr>wo = [(''/steam/1'', example_user 1 1), (''/steam/2'', example_user 2 2), (''/steam/3'', example_user 3 3)],
                    ro = [(''/steam/1'', example_user 1 1), (''/steam/2'', example_user 2 2), (''/steam/3'', example_user 3 3)]\<rparr>,
         g_advertisements = lobby_example, g_chatChannels = NewReadOnlyOrderedMap [] [],
         g_sessions = MainSessions_Initialize, g_leaderboard = None, g_items = None, g_presence = [], g_loginData = []\<rparr>,
      w_out = [], w_sent = []\<rparr>"

definition example_env :: Env where
  "example_env =
     \<lparr>e_now = 100, e_nowNs = 100, e_net = \<lparr>rn_remoteIsIPv4 = True, rn_remoteInLocalSubnets = True, rn_localIp = ''10.0.0.1'',
        rn_host = [], rn_hostIsIPv4 = False, rn_connectivity = False, rn_publicIp = []\<rparr>,
      e_guidV4 = (\<lambda>_. True), e_ipDraw = 3, e_uuid = [], e_advIds = (\<lambda>n. word_of_nat n), e_sessionDraws = [],
      e_loadoutDraw = 0, e_io = True\<rparr>"

definition example_session :: "int32 \<Rightarrow> SessionData" where
  "example_session u = \<lparr>sd_id = ''s'', sd_clientLibVersion = 190, sd_userId = u, sd_messageChan = []\<rparr>"

lemma example_simps [simp]:
  "w_title example_world = AoE2" "w_advs example_world = lobby_example" "w_out example_world = []"
  "GetUserById (w_users example_world) 3 = Some (example_user 3 3)" "u_id (example_user i p) = i"
  "sd_userId (example_session u) = u" "w_sessions example_world = MainSessions_Initialize"
  by (simp_all add: example_world_def GetUserById_def Users_getFirst_def SafeMap_Values_def example_user_def
      example_session_def)

lemma lobby_example_Get: "\<exists>a. GetAdvertisement lobby_example 9 = Some a \<and> adv_id a = 9"
  using lobby_example_peers lobby_example_wf
  by (auto simp: peers_of_def dest: lobbies_wfD adv_wfD split: option.splits)

lemma lobby_example_host:
  "\<exists>a. GetAdvertisement lobby_example 9 = Some a \<and> adv_hostId a = 0 \<and> adv_password_value a = [] \<and> adv_observers_userIds a = None"
proof -
  let ?s = "SafeOrderedMap_ins 9 (zero_MainAdvertisement\<lparr>adv_id := 9\<rparr>) NewSafeOrderedMap"
  have wf: "lobbies_wf ?s"
    by (auto simp: lobbies_wf_def GetAdvertisement_def om.look_ins om.wf_ins adv_wf_def zero_MainAdvertisement_def
        split: if_splits)
  have g: "GetAdvertisement ?s 9 = Some (zero_MainAdvertisement\<lparr>adv_id := 9\<rparr>)"
    by (simp add: GetAdvertisement_def om.look_ins)
  have z: "adv_hostId zero_MainAdvertisement = 0 \<and> adv_password_value zero_MainAdvertisement = []
      \<and> adv_observers_userIds zero_MainAdvertisement = None"
    by (simp add: zero_MainAdvertisement_def)
  show ?thesis
    unfolding lobby_example_def using g z by (simp add: Get_newPeer [OF newPeer_wf [OF wf]] Get_newPeer [OF wf])
qed

lemma lobby_example_other: "i \<noteq> 9 \<Longrightarrow> GetAdvertisement lobby_example i = None"
proof -
  let ?s = "SafeOrderedMap_ins 9 (zero_MainAdvertisement\<lparr>adv_id := 9\<rparr>) NewSafeOrderedMap"
  have wf: "lobbies_wf ?s"
    by (auto simp: lobbies_wf_def GetAdvertisement_def om.look_ins om.wf_ins adv_wf_def zero_MainAdvertisement_def
        split: if_splits)
  assume "i \<noteq> 9"
  then show ?thesis
    unfolding lobby_example_def
    by (simp add: Get_newPeer [OF newPeer_wf [OF wf]] Get_newPeer [OF wf]) (simp add: GetAdvertisement_def om.look_ins)
qed

lemma lobby_example_one: "in_one_lobby lobby_example" and lobby_example_occupied: "occupied lobby_example"
proof -
  have p: "peers_of lobby_example i = (if i = 9 then [1, 2] else [])" for i
    using lobby_example_peers lobby_example_other by (auto simp: peers_of_def)
  show "in_one_lobby lobby_example" by (auto simp: in_one_lobby_def p split: if_splits)
  show "occupied lobby_example"
    using lobby_example_other by (auto simp: occupied_def p)
qed

lemma example_leave: "w_advs (leave_previous 3 example_world) = lobby_example"
proof -
  have "GetUserAdvertisement 3 lobby_example = None"
  proof (rule ccontr)
    assume "GetUserAdvertisement 3 lobby_example \<noteq> None"
    then obtain a where "GetUserAdvertisement 3 lobby_example = Some a" by auto
    from GetUserAdvertisement_some(2) [OF lobby_example_wf this] have m: "3 \<in> set (peers_of lobby_example (adv_id a))" .
    show False
    proof (cases "adv_id a = 9")
      case True
      show False using m unfolding True lobby_example_peers by simp
    next
      case False
      then show False using m by (simp add: peers_of_def lobby_example_other)
    qed
  qed
  then show ?thesis by (simp add: leave_previous_def)
qed

text \<open>The lobby of the example on the LAN, so that it can be encoded.\<close>

definition lan_world :: World where
  "lan_world = update_advs (SafeOrderedMap_modify 9 (\<lambda>a. a\<lparr>adv_lan := True\<rparr>)) example_world"

lemma lan_world_wf: "lobbies_wf (w_advs lan_world)" and lan_world_peers: "peers_of (w_advs lan_world) 9 = [1, 2]"
  and lan_world_no_sessions: "MainSessions_GetByUserId (w_sessions lan_world) u = None"
proof -
  show "lobbies_wf (w_advs lan_world)"
    using lobby_example_wf by (auto simp: lan_world_def adv_wf_def intro!: lobbies_wf_modify)
  show "peers_of (w_advs lan_world) 9 = [1, 2]"
    using peers_of_modify_keep [of "\<lambda>a. a\<lparr>adv_lan := True\<rparr>" 9 lobby_example 9] lobby_example_peers by (simp add: lan_world_def)
  show "MainSessions_GetByUserId (w_sessions lan_world) u = None"
    by (simp add: lan_world_def MainSessions_GetByUserId_def MainSessions_Initialize_def BaseSessions_Values_def SafeMap_Values_def NewBaseSessions_def
        NewSafeMap_def SafeMap_updateReadOnly_def)
qed

lemma example_GetUserById: "i \<in> {1, 2, 3} \<Longrightarrow> GetUserById (w_users example_world) i = Some (example_user i (word_of_int (sint i)))"
  by (auto simp: example_world_def GetUserById_def Users_getFirst_def SafeMap_Values_def example_user_def)

lemma example_paths [simp]:
  "GetPlatformPath (example_user 1 1) = ''/steam/1''" "GetPlatformPath (example_user 2 2) = ''/steam/2''"
  "GetPlatformPath (example_user 3 3) = ''/steam/3''"
  by code_simp+

lemma example_users_wf: "Users_wf (w_users example_world)"
  by (auto simp: Users_wf_def example_world_def SafeMap_wf_def SafeMap_Load_def split: if_splits)

end
