(* ===== verification/AdvProps.thy ===== *)
theory AdvProps
  imports Examples
begin

text \<open>
  Properties of the advertisement handlers: who is in which lobby after hosting, joining and leaving,
  who may change what, what starting a match and observing do, and what a search returns.
\<close>

section \<open>Hosting\<close>

lemma Store_peers_of:
  assumes "lobbies_wf advs" and "Advertisements_Store now d u gen q x g advs = Some (a, advs1)"
  shows "peers_of advs1 j = peers_of advs j"
  using Store_spec [OF assms] by (cases "j = adv_id a") (auto simp: peers_of_def)

lemma Host_store_cases:
  "w_advs (snd (Host_store env b q u w)) = w_advs w
    \<or> (\<exists>ip stat party race team now d uuid gen x g a advs1.
         Advertisements_Store now d uuid gen q x g (w_advs w) = Some (a, advs1)
       \<and> w_advs (snd (Host_store env b q u w)) = newPeer ip stat party race team (adv_id a) (u_id u) advs1)"
proof (cases "Advertisements_Store (e_now env) (e_ipDraw env) (e_uuid env) (e_advIds env) q
             (\<not> fst (BattleServer_LAN (e_guidV4 env) b)) (w_title w) (w_advs w)")
  case None
  then show ?thesis by (simp add: Host_store_def)
next
  case (Some r)
  obtain a advs1 where r: "r = (a, advs1)" by fastforce
  have "w_advs (snd (Host_store env b q u w)) = newPeer (adv_ip a) (u_statId u)
      (rq_Party (h_base q)) (rq_Race (h_base q)) (rq_Team (h_base q)) (adv_id a) (u_id u) advs1"
    using Some by (simp add: Host_store_def r split_def Let_def split: option.split)
  with Some r show ?thesis by blast
qed

lemma Host_to_store:
  "w_advs (snd (Host env region bound w)) = w_advs w
    \<or> (\<exists>b q u w2. w_advs w2 = w_advs (leave_previous (u_id u) w) \<and> Host env region bound w = Host_store env b q u w2)"
proof -
  let ?bs0 = "NewBattleServer (g_battleServers (w_game w)) region"
  let ?bs = "if \<not> fst (BattleServer_LAN (e_guidV4 env) ?bs0) then BattleServers_Get (g_battleServers (w_game w)) region else Some ?bs0"
  show ?thesis
  proof (cases "\<exists>b q. ?bs = Some b \<and> bound = Some q \<and> \<not> (w_title w \<noteq> AoE4 \<and> h_Description q = ''SESSION_MATCH_KEY'')
      \<and> rq_Id (h_base q) = - 1")
    case True
    then obtain b q where q: "?bs = Some b" "bound = Some q" "\<not> (w_title w \<noteq> AoE4 \<and> h_Description q = ''SESSION_MATCH_KEY'')"
        "rq_Id (h_base q) = - 1" by blast
    define q' where "q' = (if w_title w = AoE1 \<or> w_title w = AoE3 \<or> w_title w = AoM then q\<lparr>h_Joinable := True\<rparr> else q)"
    have h: "Host env region bound w = (case GetUserById (w_users w) (h_HostId q') of
        None \<Rightarrow> (HReturn, host_returnError env w)
      | Some u \<Rightarrow> Host_store env b q' u (Host_party env q' (leave_previous (u_id u) w)))"
      unfolding Host_def Let_def q(1) unfolding q(2) option.case q'_def using q(3,4) by (simp only: if_False simp_thms)
    show ?thesis
    proof (cases "GetUserById (w_users w) (h_HostId q')")
      case None
      then show ?thesis by (simp add: h)
    next
      case (Some u)
      then have "Host env region bound w = Host_store env b q' u (Host_party env q' (leave_previous (u_id u) w))"
        by (simp add: h)
      moreover have "w_advs (Host_party env q' (leave_previous (u_id u) w)) = w_advs (leave_previous (u_id u) w)" by simp
      ultimately show ?thesis by blast
    qed
  next
    case False
    then have "Host env region bound w = (HReturn, host_returnError env w)"
      unfolding Host_def Let_def by (cases ?bs; cases bound) auto
    then show ?thesis by simp
  qed
qed

lemma Host_cases:
  "w_advs (snd (Host env region bound w)) = w_advs w
    \<or> (\<exists>u. w_advs (snd (Host env region bound w)) = w_advs (leave_previous u w))
    \<or> (\<exists>u ip stat party race team now d uuid gen q x g a advs1.
         Advertisements_Store now d uuid gen q x g (w_advs (leave_previous u w)) = Some (a, advs1)
       \<and> w_advs (snd (Host env region bound w)) = newPeer ip stat party race team (adv_id a) u advs1)"
  using Host_to_store [of env region bound w]
proof (elim disjE exE conjE)
  fix b q u w2
  assume w2: "w_advs w2 = w_advs (leave_previous (u_id u) w)" and h: "Host env region bound w = Host_store env b q u w2"
  from Host_store_cases [of env b q u w2] show ?thesis unfolding h w2 by metis
qed simp

lemma host_step_single:
  assumes wf: "lobbies_wf advs" and st: "Advertisements_Store now d uuid gen q x g advs = Some (a, advs1)"
    and "in_one_lobby advs" and "\<And>i. u \<notin> set (peers_of advs i)"
  shows "in_one_lobby (newPeer ip stat party race team (adv_id a) u advs1)"
proof -
  have wf1: "lobbies_wf advs1" by (rule Store_spec(4) [OF wf st])
  have "in_one_lobby advs1" using assms(3) by (simp add: in_one_lobby_def Store_peers_of [OF wf st])
  moreover have "\<forall>i. u \<notin> set (peers_of advs1 i)" using assms(4) by (simp add: Store_peers_of [OF wf st])
  ultimately show ?thesis
    unfolding in_one_lobby_single using lb.single_join_absent [OF wf1] lb.single_other_join [OF wf1] by metis
qed

lemma host_step_occupied:
  assumes wf: "lobbies_wf advs" and st: "Advertisements_Store now d uuid gen q x g advs = Some (a, advs1)"
    and occ: "occupied advs"
  shows "occupied (newPeer ip stat party race team (adv_id a) u advs1)"
proof -
  have wf1: "lobbies_wf advs1" by (rule Store_spec(4) [OF wf st])
  have g1: "GetAdvertisement advs1 = (GetAdvertisement advs)(adv_id a \<mapsto> a)" by (rule Store_spec(3) [OF wf st])
  have "peers_of advs (adv_id a) = []" using Store_spec(1) [OF wf st] by (simp add: peers_of_def)
  with occ g1 show ?thesis
    by (auto simp: occupied_def peers_of_newPeer [OF wf1] Get_newPeer [OF wf1] Store_peers_of [OF wf st] split: if_splits)
qed

section \<open>Properties\<close>

text \<open>
  C1: outside Age of Empires IV a user is in at most one lobby: hosting, joining and leaving keep
  this, keep every lobby occupied by at least one user, and keep the store well-formed, whatever the
  request says and however it ends.
\<close>

theorem host_join_leave_one_lobby:
  assumes "lobbies_wf (w_advs w)" and "occupied (w_advs w)" and "in_one_lobby (w_advs w)" and "w_title w \<noteq> AoE4"
    and "w' = snd (Host env region hostReq w) \<or> w' = snd (Join env joinReq sess w) \<or> w' = snd (Leave leaveReq sess w)"
  shows "lobbies_wf (w_advs w') \<and> occupied (w_advs w') \<and> in_one_lobby (w_advs w')"
proof -
  let ?good = "\<lambda>advs. lobbies_wf advs \<and> occupied advs \<and> in_one_lobby advs"
  let ?l = "\<lambda>u. w_advs (leave_previous u w)"
  have left: "?good (?l u)" for u
    using assms(1-3) leave_previous_wf leave_previous_occupied leave_previous_single by blast
  have absent: "u \<notin> set (peers_of (?l u) i)" for u i by (rule leave_previous_absent [OF assms(1,3,4)])
  consider "w' = snd (Host env region hostReq w)" | "w' = snd (Join env joinReq sess w)" | "w' = snd (Leave leaveReq sess w)"
    using assms(5) by blast
  then show ?thesis
  proof cases
    case 1
    from Host_cases [of env region hostReq w] show ?thesis
    proof (elim disjE exE conjE)
      fix u ip stat party race team now d uuid gen q x g a advs1
      assume st: "Advertisements_Store now d uuid gen q x g (?l u) = Some (a, advs1)"
        and w': "w_advs (snd (Host env region hostReq w)) = newPeer ip stat party race team (adv_id a) u advs1"
      have l: "lobbies_wf (?l u)" "occupied (?l u)" "in_one_lobby (?l u)" using left by auto
      have "lobbies_wf advs1" by (rule Store_spec(4) [OF l(1) st])
      from newPeer_wf [OF this] host_step_single [OF l(1) st l(3) absent] host_step_occupied [OF l(1) st l(2)]
      show ?thesis unfolding 1 w' by blast
    qed (use 1 assms(1-3) left in auto)
  next
    case 2
    from Join_cases [OF assms(1), of env joinReq sess] show ?thesis
    proof (elim disjE exE)
      fix u ip stat party race team i
      assume w': "w_advs (snd (Join env joinReq sess w)) = newPeer ip stat party race team i u (?l u)"
      have wf: "lobbies_wf (?l u)" using left by blast
      have "in_one_lobby (newPeer ip stat party race team i u (?l u))"
        using left absent lb.single_join_absent [OF wf] lb.single_other_join [OF wf]
        unfolding in_one_lobby_single by metis
      then show ?thesis
        unfolding 2 w' using wf left newPeer_wf lb.no_empty_join [OF wf] by (auto simp: occupied_no_empty)
    qed (use 2 assms(1-3) left in auto)
  next
    case 3
    have "w_advs w' = w_advs w \<or> (\<exists>i u. w_advs w' = removePeer i u (w_advs w))"
      unfolding 3 by (auto simp: Leave_def split_def Let_def split: option.split)
    then show ?thesis
      using assms(1-3) removePeer_wf lb.no_empty_leave [OF assms(1)] lb.single_leave [OF assms(1)]
      by (auto simp: occupied_no_empty in_one_lobby_single)
  qed
qed

text \<open>
  The conditions for joining are not enforced.  A user who asks to join an existing lobby
  ends up in it even if the lobby is closed, the password is wrong or the checksums differ: all that
  a mismatch does is add an error response in front of the success.
\<close>

lemma Join_ignores_mismatch:
  assumes "lobbies_wf (w_advs w)" and "GetUserById (w_users w) (sd_userId sess) = Some u"
    and "GetAdvertisement (w_advs (leave_previous (u_id u) w)) (rq_Id (j_base q)) = Some a"
    and "rq_Party (j_base q) = - 1 \<or> rq_Party (j_base q) = adv_party a"
  shows "fst (Join env (Some q) sess w) = HReturn
    \<and> u_id u \<in> set (peers_of (w_advs (snd (Join env (Some q) sess w))) (rq_Id (j_base q)))
    \<and> length (w_out (snd (Join env (Some q) sess w))) = length (w_out w) + (if join_mismatch q a then 2 else 1)"
proof -
  have wf: "lobbies_wf (w_advs (leave_previous (u_id u) w))" using assms(1) by (rule leave_previous_wf)
  then have id: "adv_id a = rq_Id (j_base q)" using assms(3) by (blast dest: lobbies_wfD adv_wfD)
  note advs = Join_advs(2) [OF assms(2,3,4), of env]
  have "u_id u \<in> set (peers_of (w_advs (snd (Join env (Some q) sess w))) (rq_Id (j_base q)))"
    using advs id assms(3) by (auto simp: peers_of_newPeer [OF wf])
  then show ?thesis using Join_advs(1,3) [OF assms(2,3,4), of env] id by blast
qed

definition join_example :: JoinRequest where
  "join_example =
     \<lparr>j_base = (h_base host_example)\<lparr>rq_Id := 9\<rparr>, j_Password = ''wrong''\<rparr>"

theorem host_join_leave_one_lobby_witness:
  "in_one_lobby (w_advs (snd (Join example_env (Some join_example) (example_session 3) example_world)))"
proof -
  have t: "w_title example_world \<noteq> AoE4" by (simp add: titles)
  show ?thesis
    using host_join_leave_one_lobby [of example_world "snd (Join example_env (Some join_example) (example_session 3) example_world)"
        example_env "[]" None "Some join_example" "example_session 3" None] lobby_example_wf lobby_example_occupied
        lobby_example_one t by simp
qed

lemma send_slots_sent:
  "send_slots (map Some ss @ replicate n None) action msg w =
     (if n = 0 then HReturn else HPanic, w\<lparr>w_sent := w_sent w @ map (\<lambda>s. (sd_id s, finalMessage s action msg)) ss\<rparr>)"
proof (induction ss arbitrary: w)
  case Nil
  show ?case by (cases n) (simp_all add: SendOrStoreMessage_def)
next
  case (Cons s ss)
  then show ?case by (simp add: SendOrStoreMessage_def)
qed

lemma map_filter_pairs:
  "map (\<lambda>(u, _). f u) (filter (\<lambda>(u, _). f u \<noteq> None) ps) = map Some (List.map_filter f (map fst ps))"
  by (induction ps) (auto simp: map_filter_simps split: option.split)



lemma map_of_fold_update:
  "map_of (fold (\<lambda>(k, v). AList.update k v) kvs al) = map_of al ++ map_of (rev kvs)"
  by (induction kvs arbitrary: al) (auto simp: update_conv' map_add_upd_left fun_eq_iff map_add_def split: option.split)

text \<open>
  The tags of a lobby change only if its host asks for it with as many values as names:
  then both tag maps are replaced as a whole, the last value of a name that is given twice wins, and
  nothing else of the lobby or of any other lobby changes.
\<close>

lemma UpdateTags_host_only:
  assumes "GetAdvertisement (w_advs w) i = Some a"
  shows "if adv_hostId a = sd_userId sess \<and> length (StringTagNames t) = length (StringTagValues t)
            \<and> length (NumericTagNames t) = length (NumericTagValues t)
         then \<exists>a'. GetAdvertisement (w_advs (snd (UpdateTags (Some t) (Some i) sess w))) = (GetAdvertisement (w_advs w))(i \<mapsto> a')
            \<and> map_of (adv_tags_integer a') = map_of (rev (zip (NumericTagNames t) (NumericTagValues t)))
            \<and> map_of (adv_tags_text a') = map_of (rev (zip (StringTagNames t) (StringTagValues t)))
            \<and> a'\<lparr>adv_tags_integer := adv_tags_integer a, adv_tags_text := adv_tags_text a\<rparr> = a
            \<and> w_out (snd (UpdateTags (Some t) (Some i) sess w)) = w_out w @ [JArr [JInt 0]]
         else UpdateTags (Some t) (Some i) sess w = (HReturn, JSON [JInt 2] w)"
proof (cases "adv_hostId a = sd_userId sess \<and> length (StringTagNames t) = length (StringTagValues t)
    \<and> length (NumericTagNames t) = length (NumericTagValues t)")
  case True
  let ?ns = "fold (\<lambda>(k, v). AList.update k v) (zip (NumericTagNames t) (NumericTagValues t)) []"
  let ?ss = "fold (\<lambda>(k, v). AList.update k v) (zip (StringTagNames t) (StringTagValues t)) []"
  let ?a = "UnsafeUpdateTags ?ns ?ss a"
  have u: "UpdateTags (Some t) (Some i) sess w =
      (HReturn, JSON [JInt 0] (update_advs (SafeOrderedMap_modify i (UnsafeUpdateTags ?ns ?ss)) w))"
    using True assms by (simp add: UpdateTags_def parseTags_def)
  have "GetAdvertisement (w_advs (snd (UpdateTags (Some t) (Some i) sess w))) = (GetAdvertisement (w_advs w))(i \<mapsto> ?a)"
    using assms by (simp add: u fun_eq_iff Get_modify)
  moreover have "map_of (adv_tags_integer ?a) = map_of (rev (zip (NumericTagNames t) (NumericTagValues t)))"
    "map_of (adv_tags_text ?a) = map_of (rev (zip (StringTagNames t) (StringTagValues t)))"
    by (simp_all add: UnsafeUpdateTags_def map_of_fold_update)
  moreover have "?a\<lparr>adv_tags_integer := adv_tags_integer a, adv_tags_text := adv_tags_text a\<rparr> = a"
    by (simp add: UnsafeUpdateTags_def)
  ultimately show ?thesis using True u by auto
next
  case False
  then show ?thesis using assms by (auto simp: UpdateTags_def parseTags_def)
qed

definition tags_example :: tagRequest where
  "tags_example = \<lparr>NumericTagNames = [''map'', ''map''], NumericTagValues = [3, 4], StringTagNames = [], StringTagValues = []\<rparr>"

definition search_example :: searchQuery where
  "search_example =
     \<lparr>sq_AppBinaryChecksum = 0, sq_DataChecksum = 0, sq_MatchType = None, sq_ModDllFile = [], sq_ModDllChecksum = 0,
      sq_ModName = [], sq_ModVersion = [], sq_VersionFlags = 0\<rparr>"

text \<open>
  Observing a lobby panics as long as its match has never started, and otherwise returns,
  adds the user to the observers whatever the request says about checksums and versions, and changes
  no peer: the only test there is needs every field to differ at once, and does not stop the handler.
\<close>

lemma StartObserving_unguarded:
  assumes "GetAdvertisement (w_advs w) i = Some a"
  shows "(fst (StartObserving env (Some q) (Some i) sess w) = HPanic) = (adv_observers_userIds a = None)
    \<and> (case adv_observers_userIds a of
         None \<Rightarrow> w_game (snd (StartObserving env (Some q) (Some i) sess w)) = w_game w
       | Some obs \<Rightarrow> GetAdvertisement (w_advs (snd (StartObserving env (Some q) (Some i) sess w))) =
           (GetAdvertisement (w_advs w))(i \<mapsto> a\<lparr>adv_observers_userIds := Some (snd (SafeSet_Store (sd_userId sess) obs))\<rparr>))"
  using assms
  by (auto simp: StartObserving_def Let_def Adv_StartObserving_def JSON_nil_def Get_modify fun_eq_iff split: option.splits)

definition encoded :: "string \<Rightarrow> MainBattleServers \<Rightarrow> MainAdvertisement \<Rightarrow> goA" where
  "encoded g bs a = (case UnsafeEncode g bs a of Ret e \<Rightarrow> e | Panic \<Rightarrow> [])"

lemma UnsafeEncode_region:
  "BattleServers_Get bs (adv_relayRegion a) \<noteq> None \<Longrightarrow> UnsafeEncode g bs a = Ret (encoded g bs a)"
  by (auto simp: encoded_def UnsafeEncode_def Let_def)

lemma find_encoded_filter:
  "(\<forall>a \<in> set as. m a \<longrightarrow> UnsafeEncode g bs a = Ret (encoded g bs a)) \<Longrightarrow>
    find_encoded g bs True m as res = Ret (res @ map (\<lambda>a. JArr (encoded g bs a)) (filter m as))"
  by (induction as arbitrary: res) auto

definition lobbies_found :: "searchQuery \<Rightarrow> tagRequest option \<Rightarrow> SessionData \<Rightarrow> World \<Rightarrow> MainAdvertisement list" where
  "lobbies_found q boundTags sess w =
     filter (search_matches (sd_userId sess) q False
        (\<lambda>r. BattleServers_Get (g_battleServers (w_game w)) r \<noteq> None)
        (if w_title w = AoE2 \<or> w_title w = AoM \<or> w_title w = AoE4
         then map_option (\<lambda>(n, s). UnsafeMatchesTags n s) (parseTags boundTags) else None) None)
      (snd (SafeOrderedMap_Values (w_advs w)))"


definition search_lobby :: MainAdvertisement where
  "search_lobby = zero_MainAdvertisement\<lparr>adv_id := 9, adv_joinable := True, adv_relayRegion := ''eu''\<rparr>"

definition search_world :: World where
  "search_world = update_game (\<lambda>g. g\<lparr>g_battleServers := MainBattleServers_Initialize
       [NewBattleServer (g_battleServers g) ''eu''] None,
     g_advertisements := SafeOrderedMap_ins 8 (search_lobby\<lparr>adv_id := 8, adv_relayRegion := ''gone''\<rparr>)
       (SafeOrderedMap_ins 9 search_lobby NewSafeOrderedMap)\<rparr>) example_world"


end
