(* ===== verification/PartyRoutes.thy ===== *)
theory PartyRoutes
  imports Examples
begin

text \<open>
  The handlers of \<open>routes/game/party\<close>: the host adds and changes peers, the first peer takes the host's
  place, and peers chat.
\<close>

section \<open>shared/peer.go\<close>

record peerRequest =
  MatchID :: int32
  ProfileIDs :: "int32 list"
  RaceIDs :: "int32 list"
  TeamIDs :: "int32 list"

text \<open>\<open>None\<close> is the parse error.\<close>

definition ParseParameters :: "peerRequest option \<Rightarrow> (int32 \<times> nat \<times> int32 list \<times> int32 list \<times> int32 list) option" where
  "ParseParameters bound =
     (case bound of
        None \<Rightarrow> None
      | Some req \<Rightarrow>
          let p = length (ProfileIDs req); r = length (RaceIDs req); t = length (TeamIDs req)
          in if min p (min r t) \<noteq> max p (max r t) then None
             else Some (MatchID req, p, ProfileIDs req, RaceIDs req, TeamIDs req))"

section \<open>peerAdd.go\<close>

text \<open>The first loop: every profile must be a user's.\<close>

fun lookup_users :: "MainUsers \<Rightarrow> int32 list \<Rightarrow> MainUser list option" where
  "lookup_users users [] = Some []"
| "lookup_users users (i # is) =
     (case GetUserById users i of None \<Rightarrow> None | Some u \<Rightarrow> map_option ((#) u) (lookup_users users is))"

text \<open>The second loop, which ends at the first peer that is nil.\<close>

fun PeerAdd_peers ::
    "int32 \<Rightarrow> string \<Rightarrow> (MainUser \<times> int32 \<times> int32) list \<Rightarrow> int32 list \<Rightarrow> MainAdvertisements \<Rightarrow> int32 list \<times> MainAdvertisements" where
  "PeerAdd_peers advId advIp [] addedUserIds advs = (addedUserIds, advs)"
| "PeerAdd_peers advId advIp ((u, race, team) # rest) addedUserIds advs =
     (case UnsafeNewPeer advId advIp (u_id u) (u_statId u) (- 1) race team advs of
        (None, advs1) \<Rightarrow> (addedUserIds, advs1)
      | (Some _, advs1) \<Rightarrow> PeerAdd_peers advId advIp rest (addedUserIds @ [u_id u]) advs1)"

definition PeerAdd :: "peerRequest option \<Rightarrow> SessionData \<Rightarrow> World \<Rightarrow> exit \<times> World" where
  "PeerAdd bound sess w =
     (case ParseParameters bound of
        None \<Rightarrow> (HReturn, JSON [JInt 2] w)
      | Some (advId, length', profileIds, raceIds, teamIds) \<Rightarrow>
          let (ok, w1) =
            (case GetAdvertisement (w_advs w) advId of
               None \<Rightarrow> (False, w)
             | Some adv \<Rightarrow>
                 if adv_hostId adv \<noteq> sd_userId sess then (False, w)
                 else (case lookup_users (w_users w) profileIds of
                         None \<Rightarrow> (False, w)
                       | Some us \<Rightarrow>
                           let (addedUserIds, advs1) =
                                 PeerAdd_peers advId (adv_ip adv) (zip us (zip raceIds teamIds)) [] (w_advs w)
                           in if length addedUserIds = length us then (True, update_advs (\<lambda>_. advs1) w)
                              else (us \<noteq> [], update_advs (\<lambda>_. fold (removePeer advId) addedUserIds advs1) w)))
          in (HReturn, JSON [JInt (if ok then 0 else 2)] w1))"

section \<open>peerUpdate.go\<close>

fun lookup_peers :: "MainUsers \<Rightarrow> MainAdvertisement \<Rightarrow> int32 list \<Rightarrow> MainPeer list option" where
  "lookup_peers users adv [] = Some []"
| "lookup_peers users adv (i # is) =
     (case GetUserById users i of
        None \<Rightarrow> None
      | Some u \<Rightarrow>
          (case SafeOrderedMap_Load (adv_peers adv) (u_id u) of
             None \<Rightarrow> None
           | Some peer \<Rightarrow> map_option ((#) peer) (lookup_peers users adv is)))"

text \<open>The writes go through the pointers to the peers, which are named by their user.\<close>

definition PeerUpdate_peers :: "(MainPeer \<times> int32 \<times> int32) list \<Rightarrow> MainAdvertisement \<Rightarrow> MainAdvertisement" where
  "PeerUpdate_peers rows adv =
     fold (\<lambda>(peer, race, team) a.
         a\<lparr>adv_peers := SafeOrderedMap_modify (p_userId peer) (UpdateMutable race team) (adv_peers a)\<rparr>) rows adv"

definition PeerUpdate :: "peerRequest option \<Rightarrow> SessionData \<Rightarrow> World \<Rightarrow> exit \<times> World" where
  "PeerUpdate bound sess w =
     (case ParseParameters bound of
        None \<Rightarrow> (HReturn, JSON [JInt 2] w)
      | Some (advId, length', profileIds, raceIds, teamIds) \<Rightarrow>
          (case GetAdvertisement (w_advs w) advId of
             None \<Rightarrow> (HReturn, JSON [JInt 2] w)
           | Some adv \<Rightarrow>
               if adv_hostId adv \<noteq> sd_userId sess then (HReturn, JSON [JInt 2] w)
               else (case lookup_peers (w_users w) adv profileIds of
                       None \<Rightarrow> (HReturn, JSON [JInt 2] w)
                     | Some peers \<Rightarrow>
                         (HReturn, JSON [JInt 0]
                            (update_advs (SafeOrderedMap_modify advId (PeerUpdate_peers (zip peers (zip raceIds teamIds)))) w)))))"

section \<open>updateHost.go\<close>

definition UpdateHost :: "int32 option \<Rightarrow> SessionData \<Rightarrow> World \<Rightarrow> exit \<times> World" where
  "UpdateHost bound sess w =
     (case bound of
        None \<Rightarrow> (HReturn, JSON [JInt 2] w)
      | Some matchID \<Rightarrow>
          (case GetAdvertisement (w_advs w) matchID of
             None \<Rightarrow> (HReturn, JSON [JInt 2] w)
           | Some adv \<Rightarrow>
               (case SafeOrderedMap_First (adv_peers adv) of
                  None \<Rightarrow> (HReturn, JSON [JInt 2] w)
                | Some (firstUserId, _) \<Rightarrow>
                    if firstUserId \<noteq> sd_userId sess then (HReturn, JSON [JInt 2] w)
                    else if adv_hostId adv = sd_userId sess then (HReturn, JSON [JInt 0] w)
                    else (HReturn, JSON [JInt 0]
                            (update_advs (SafeOrderedMap_modify matchID (UnsafeSetHostId (sd_userId sess))) w)))))"

section \<open>sendMatchChat.go\<close>

record matchChatRequest =
  mc_MessageTypeID :: uint8
  mc_MatchID :: int32
  mc_Broadcast :: bool
  mc_Message :: string

text \<open>\<open>toProfileId\<close> is bound in Age of Empires III, \<open>toProfileIds\<close> in the other games.\<close>

definition SendMatchChat ::
    "Env \<Rightarrow> matchChatRequest option \<Rightarrow> int32 option \<Rightarrow> int32 list option \<Rightarrow> SessionData \<Rightarrow> World \<Rightarrow> exit \<times> World" where
  "SendMatchChat env bound toProfileId toProfileIds sess w =
     (case bound of
        None \<Rightarrow> (HReturn, JSON [JInt 2] w)
      | Some req \<Rightarrow>
          (case (if w_title w = AoE3 then map_option (\<lambda>i. [i]) toProfileId else toProfileIds) of
             None \<Rightarrow> (HReturn, JSON [JInt 2] w)
           | Some ids \<Rightarrow>
               (case GetAdvertisement (w_advs w) (mc_MatchID req) of
                  None \<Rightarrow> (HReturn, JSON [JInt 2] w)
                | Some adv \<Rightarrow>
                    if SafeOrderedMap_Load (adv_peers adv) (sd_userId sess) = None then (HReturn, JSON [JInt 2] w)
                    else
                      let ids1 = (if w_title w = AoM then filter (\<lambda>i. i \<noteq> sd_userId sess) ids else ids)
                      in (case lookup_users (w_users w) ids1 of
                            None \<Rightarrow> (HReturn, JSON [JInt 2] w)
                          | Some receivers \<Rightarrow>
                              (case GetUserById (w_users w) (sd_userId sess) of
                                 None \<Rightarrow> (HReturn, JSON [JInt 2] w)
                               | Some currentUser \<Rightarrow>
                                   let message = MakeMessage (e_now env) (mc_Broadcast req) (mc_Message req)
                                         (mc_MessageTypeID req) (u_id currentUser) (map GetPlatformPath receivers) adv;
                                       w1 = send_online (map u_id receivers) ''MatchReceivedChatMessage''
                                              (\<lambda>_. Message_Encode message) w
                                   in (HReturn, JSON [JInt 0] w1))))))"

section \<open>Lemmas\<close>

lemma ParseParameters_some:
  "ParseParameters (Some q) = Some (i, n, ps, rs, ts) \<longleftrightarrow>
     i = MatchID q \<and> n = length ps \<and> ps = ProfileIDs q \<and> rs = RaceIDs q \<and> ts = TeamIDs q
     \<and> length rs = length ps \<and> length ts = length ps"
  by (auto simp: ParseParameters_def Let_def min_def max_def)

lemma lookup_users_ids: "lookup_users users is = Some us \<Longrightarrow> map u_id us = is"
  by (induction "is" arbitrary: us) (auto dest: GetUserById_id split: option.splits)

lemma lookup_users_length: "lookup_users users is = Some us \<Longrightarrow> length us = length is"
  by (metis length_map lookup_users_ids)

text \<open>The second loop of \<open>PeerAdd\<close> on a lobby that exists never ends early.\<close>

lemma PeerAdd_peers_spec:
  assumes "lobbies_wf advs" and "GetAdvertisement advs i \<noteq> None"
  shows "fst (PeerAdd_peers i ip rows added advs) = added @ map (u_id \<circ> fst) rows
    \<and> lobbies_wf (snd (PeerAdd_peers i ip rows added advs))
    \<and> (\<forall>j. (GetAdvertisement (snd (PeerAdd_peers i ip rows added advs)) j = None) = (GetAdvertisement advs j = None))
    \<and> (\<forall>j. peers_of (snd (PeerAdd_peers i ip rows added advs)) j =
         (if j = i then fold add_end (map (u_id \<circ> fst) rows) (peers_of advs i) else peers_of advs j))"
  using assms
proof (induction i ip rows added advs rule: PeerAdd_peers.induct)
  case (1 advId advIp added advs)
  then show ?case by simp
next
  case (2 i ip u race team rest added advs)
  obtain p advs1 where p: "UnsafeNewPeer i ip (u_id u) (u_statId u) (- 1) race team advs = (Some p, advs1)"
    using newPeer_some [OF "2.prems"(2), of ip "u_id u" "u_statId u" "- 1" race team]
    by (cases "UnsafeNewPeer i ip (u_id u) (u_statId u) (- 1) race team advs") auto
  then have new: "advs1 = newPeer ip (u_statId u) (- 1) race team i (u_id u) advs" by simp
  have wf1: "lobbies_wf advs1" using "2.prems"(1) unfolding new by (rule newPeer_wf)
  have g: "(GetAdvertisement advs1 j = None) = (GetAdvertisement advs j = None)" for j
    unfolding new by (simp add: Get_newPeer [OF "2.prems"(1)])
  have ps: "peers_of advs1 j = (if j = i then add_end (u_id u) (peers_of advs i) else peers_of advs j)" for j
    using "2.prems"(2) unfolding new by (auto simp: peers_of_newPeer [OF "2.prems"(1)] add_end_def)
  show ?case using "2.IH" [OF p [symmetric] refl wf1] "2.prems"(2) by (simp add: p g ps)
qed

section \<open>Properties\<close>

text \<open>
  C37: adding peers is all or nothing.  It is granted exactly if the lists have one length, the
  lobby exists, the caller is its host and every profile is a user's; then the users that are not yet
  peers are put at the end of that lobby in the order given and no other lobby changes - also not the
  one a user is in already, so the user may then be in two.  Otherwise nothing changes.
\<close>

theorem PeerAdd_all_or_nothing:
  assumes "lobbies_wf (w_advs w)"
  shows "if length (RaceIDs q) = length (ProfileIDs q) \<and> length (TeamIDs q) = length (ProfileIDs q)
           \<and> map_option adv_hostId (GetAdvertisement (w_advs w) (MatchID q)) = Some (sd_userId sess)
           \<and> lookup_users (w_users w) (ProfileIDs q) \<noteq> None
         then w_out (snd (PeerAdd (Some q) sess w)) = w_out w @ [JArr [JInt 0]]
           \<and> lobbies_wf (w_advs (snd (PeerAdd (Some q) sess w)))
           \<and> peers_of (w_advs (snd (PeerAdd (Some q) sess w))) j =
               (if j = MatchID q then fold add_end (ProfileIDs q) (peers_of (w_advs w) j) else peers_of (w_advs w) j)
         else PeerAdd (Some q) sess w = (HReturn, JSON [JInt 2] w)"
proof (cases "length (RaceIDs q) = length (ProfileIDs q) \<and> length (TeamIDs q) = length (ProfileIDs q)
    \<and> map_option adv_hostId (GetAdvertisement (w_advs w) (MatchID q)) = Some (sd_userId sess)
    \<and> lookup_users (w_users w) (ProfileIDs q) \<noteq> None")
  case True
  then obtain adv us where adv: "GetAdvertisement (w_advs w) (MatchID q) = Some adv" "adv_hostId adv = sd_userId sess"
    and us: "lookup_users (w_users w) (ProfileIDs q) = Some us" by auto
  let ?rows = "zip us (zip (RaceIDs q) (TeamIDs q))"
  let ?r = "PeerAdd_peers (MatchID q) (adv_ip adv) ?rows [] (w_advs w)"
  have len: "length us = length (ProfileIDs q)" using us by (rule lookup_users_length)
  have l: "length (RaceIDs q) = length (ProfileIDs q)" "length (TeamIDs q) = length (ProfileIDs q)" using True by blast+
  have "map fst ?rows = us" by (simp add: l len)
  then have ids: "map (u_id \<circ> fst) ?rows = ProfileIDs q"
    using lookup_users_ids [OF us] by (metis map_map)
  note spec = PeerAdd_peers_spec [OF assms, of "MatchID q" "adv_ip adv" ?rows "[]", unfolded ids]
  have parse: "ParseParameters (Some q) = Some (MatchID q, length (ProfileIDs q), ProfileIDs q, RaceIDs q, TeamIDs q)"
    by (simp add: ParseParameters_some l)
  have "length (fst ?r) = length us" using spec adv len by simp
  then have "PeerAdd (Some q) sess w = (HReturn, JSON [JInt 0] (update_advs (\<lambda>_. snd ?r) w))"
    using adv us by (simp add: PeerAdd_def parse split_def)
  with True spec adv show ?thesis by simp
next
  case False
  then show ?thesis
  proof (cases "ParseParameters (Some q)")
    case (Some r)
    then show ?thesis
      using False by (cases r) (auto simp: PeerAdd_def ParseParameters_some split: option.split)
  qed (auto simp: PeerAdd_def)
qed

text \<open>
  Only the user who has been in the lobby the longest can become its host, and does
  on request; nothing but the host changes.
\<close>

lemma UpdateHost_first_peer:
  assumes "lobbies_wf (w_advs w)" and "GetAdvertisement (w_advs w) i = Some a"
  shows "w_out (snd (UpdateHost (Some i) sess w)) =
      w_out w @ [JArr [JInt (if peers_of (w_advs w) i \<noteq> [] \<and> hd (peers_of (w_advs w) i) = sd_userId sess then 0 else 2)]]
    \<and> GetAdvertisement (w_advs (snd (UpdateHost (Some i) sess w))) =
      (if peers_of (w_advs w) i \<noteq> [] \<and> hd (peers_of (w_advs w) i) = sd_userId sess
       then (GetAdvertisement (w_advs w))(i \<mapsto> a\<lparr>adv_hostId := sd_userId sess\<rparr>)
       else GetAdvertisement (w_advs w))"
proof -
  have wf: "SafeOrderedMap_wf (adv_peers a)" using assms by (rule peers_wf)
  have ps: "peers_of (w_advs w) i = map fst (om_pairs (adv_peers a))"
    using assms(2) by (simp add: peers_of_def om_pairs_keys)
  show ?thesis
  proof (cases "om_pairs (adv_peers a)")
    case Nil
    then show ?thesis using assms(2) ps by (simp add: UpdateHost_def SafeOrderedMap_First_pairs [OF wf])
  next
    case (Cons p rest)
    obtain k v where p: "p = (k, v)" by fastforce
    have u: "UpdateHost (Some i) sess w =
        (if k \<noteq> sd_userId sess then (HReturn, JSON [JInt 2] w)
         else if adv_hostId a = sd_userId sess then (HReturn, JSON [JInt 0] w)
         else (HReturn, JSON [JInt 0] (update_advs (SafeOrderedMap_modify i (UnsafeSetHostId (sd_userId sess))) w)))"
      using Cons assms(2) by (simp add: UpdateHost_def SafeOrderedMap_First_pairs [OF wf] p)
    have ps: "peers_of (w_advs w) i = k # map fst rest" using ps Cons p by simp
    have same: "(GetAdvertisement (w_advs w))(i \<mapsto> a\<lparr>adv_hostId := sd_userId sess\<rparr>) = GetAdvertisement (w_advs w)"
      if "adv_hostId a = sd_userId sess"
    proof -
      have "a\<lparr>adv_hostId := sd_userId sess\<rparr> = a" using that by (cases a) simp
      then show ?thesis using assms(2) by (simp add: fun_upd_idem)
    qed
    show ?thesis
      unfolding u ps using same assms(2)
      by (simp add: Get_modify UnsafeSetHostId_def fun_eq_iff)
  qed
qed

definition peers_example :: peerRequest where
  "peers_example = \<lparr>MatchID = 9, ProfileIDs = [2, 3], RaceIDs = [0, 0], TeamIDs = [0, 0]\<rparr>"

theorem PeerAdd_all_or_nothing_witness:
  "peers_of (w_advs (snd (PeerAdd (Some peers_example) (example_session 0) example_world))) 9 = [1, 2, 3]
   \<and> w_advs (snd (PeerAdd (Some peers_example) (example_session 1) example_world)) = lobby_example"
proof -
  obtain a where a: "GetAdvertisement lobby_example 9 = Some a" and h: "adv_hostId a = 0" using lobby_example_host by blast
  have l: "lookup_users (w_users example_world) [2, 3] \<noteq> None"
    by (simp add: example_world_def GetUserById_def Users_getFirst_def SafeMap_Values_def example_user_def)
  have q: "MatchID peers_example = 9" "ProfileIDs peers_example = [2, 3]" "length (RaceIDs peers_example) = 2" "length (TeamIDs peers_example) = 2"
    by (simp_all add: peers_example_def)
  show ?thesis
    using PeerAdd_all_or_nothing [of example_world peers_example "example_session 0" 9]
      PeerAdd_all_or_nothing [of example_world peers_example "example_session 1" 9] lobby_example_wf a h l
    by (simp add: q lobby_example_peers add_end_def)
qed

text \<open>
  Only a peer of the lobby can chat in it.  The message goes once to every receiver listed
  who has a session, in the order listed, and to nobody if one of them is not a user; Age of Mythology
  leaves the sender out.  No lobby, user or session changes.
\<close>

lemma SendMatchChat_receivers:
  fixes w :: World and req :: matchChatRequest
  assumes "(if w_title w = AoE3 then map_option (\<lambda>i. [i]) toId else toIds) = Some ids"
    and "GetAdvertisement (w_advs w) (mc_MatchID req) = Some adv"
  shows "w_game (snd (SendMatchChat env (Some req) toId toIds sess w)) = w_game w
    \<and> w_sent (snd (SendMatchChat env (Some req) toId toIds sess w)) =
        (let receivers = (if w_title w = AoM then removeAll (sd_userId sess) ids else ids)
         in if SafeOrderedMap_Load (adv_peers adv) (sd_userId sess) = None \<or> lookup_users (w_users w) receivers = None
               \<or> GetUserById (w_users w) (sd_userId sess) = None
            then w_sent w
            else w_sent w @ map (\<lambda>s. (sd_id s, finalMessage s ''MatchReceivedChatMessage''
                     [j32 (sd_userId sess), JStr (mc_Message req), JStr (mc_Message req), JInt (uint (mc_MessageTypeID req)), j32 (adv_id adv)]))
                   (List.map_filter (MainSessions_GetByUserId (w_sessions w)) receivers))"
proof -
  define R where "R = (if w_title w = AoM then removeAll (sd_userId sess) ids else ids)"
  have f: "(if w_title w = AoM then filter (\<lambda>i. i \<noteq> sd_userId sess) ids else ids) = R"
    by (simp add: R_def removeAll_filter_not_eq eq_commute)
  define m where "m = [j32 (sd_userId sess), JStr (mc_Message req), JStr (mc_Message req), JInt (uint (mc_MessageTypeID req)), j32 (adv_id adv)]"
  define r where "r = SendMatchChat env (Some req) toId toIds sess w"
  show ?thesis
    unfolding R_def [symmetric] Let_def m_def [symmetric] r_def [symmetric]
  proof (cases "SafeOrderedMap_Load (adv_peers adv) (sd_userId sess) = None \<or> lookup_users (w_users w) R = None
      \<or> GetUserById (w_users w) (sd_userId sess) = None")
    case True
    then have "r = (HReturn, JSON [JInt 2] w)"
      unfolding r_def SendMatchChat_def option.case assms Let_def f by (auto split: option.split)
    with True show "w_game (snd r) = w_game w \<and> w_sent (snd r) =
        (if SafeOrderedMap_Load (adv_peers adv) (sd_userId sess) = None \<or> lookup_users (w_users w) R = None
            \<or> GetUserById (w_users w) (sd_userId sess) = None then w_sent w
         else w_sent w @ map (\<lambda>s. (sd_id s, finalMessage s ''MatchReceivedChatMessage'' m))
                   (List.map_filter (MainSessions_GetByUserId (w_sessions w)) R))" by simp
  next
    case False
    then obtain us u where us: "lookup_users (w_users w) R = Some us" and u: "GetUserById (w_users w) (sd_userId sess) = Some u"
      and p: "SafeOrderedMap_Load (adv_peers adv) (sd_userId sess) \<noteq> None" by auto
    have "r = (HReturn, JSON [JInt 0] (send_online R ''MatchReceivedChatMessage'' (\<lambda>_. m) w))"
      unfolding r_def SendMatchChat_def option.case assms Let_def f us u m_def
      using p by (simp only: if_False option.case u GetUserById_id [OF u] lookup_users_ids [OF us] MakeMessage_def Message_Encode_def
          MainMessage.simps)
    then show "w_game (snd r) = w_game w \<and> w_sent (snd r) =
        (if SafeOrderedMap_Load (adv_peers adv) (sd_userId sess) = None \<or> lookup_users (w_users w) R = None
            \<or> GetUserById (w_users w) (sd_userId sess) = None then w_sent w
         else w_sent w @ map (\<lambda>s. (sd_id s, finalMessage s ''MatchReceivedChatMessage'' m))
                   (List.map_filter (MainSessions_GetByUserId (w_sessions w)) R))"
      using us u p by (auto simp: send_online_sent)
  qed
qed

lemma lookup_peers_ids:
  assumes "adv_wf i adv"
  shows "lookup_peers users adv is = Some ps \<Longrightarrow> map p_userId ps = is"
  by (induction "is" arbitrary: ps) (auto dest!: GetUserById_id adv_wfD(3) [OF assms] split: option.splits)

lemma PeerUpdate_peers_Cons:
  "PeerUpdate_peers ((p, r, t) # rows) adv =
     PeerUpdate_peers rows (adv\<lparr>adv_peers := SafeOrderedMap_modify (p_userId p) (UpdateMutable r t) (adv_peers adv)\<rparr>)"
  by (simp add: PeerUpdate_peers_def)

lemma PeerUpdate_peers_spec:
  "keys (adv_peers (PeerUpdate_peers rows adv)) = keys (adv_peers adv)
   \<and> SafeOrderedMap_Load (adv_peers (PeerUpdate_peers rows adv)) u =
      (case map_of (rev (map (\<lambda>(p, rt). (p_userId p, rt)) rows)) u of
         None \<Rightarrow> SafeOrderedMap_Load (adv_peers adv) u
       | Some (race, team) \<Rightarrow> map_option (\<lambda>p. p\<lparr>p_race := race, p_team := team\<rparr>) (SafeOrderedMap_Load (adv_peers adv) u))"
proof (induction rows arbitrary: adv)
  case Nil
  then show ?case by (simp add: PeerUpdate_peers_def)
next
  case (Cons row rows)
  obtain p r t where row: "row = (p, r, t)" by (cases row)
  show ?case
    unfolding row PeerUpdate_peers_Cons
    using Cons.IH [of "adv\<lparr>adv_peers := SafeOrderedMap_modify (p_userId p) (UpdateMutable r t) (adv_peers adv)\<rparr>"]
    by (auto simp: SafeOrderedMap_Load_modify UpdateMutable_def [abs_def] map_add_def option.map_comp comp_def split: option.split)
qed

text \<open>
  Changing the race and team of peers is all or nothing, and granted exactly if the lists
  have one length, the caller is the lobby's host and every profile is a peer; then each listed peer
  has the race and team given last for it and nothing else of it changes, and no other peer of any
  lobby does.
\<close>

lemma PeerUpdate_all_or_nothing:
  assumes "lobbies_wf (w_advs w)" and "GetAdvertisement (w_advs w) (MatchID q) = Some adv"
  shows "if length (RaceIDs q) = length (ProfileIDs q) \<and> length (TeamIDs q) = length (ProfileIDs q)
           \<and> adv_hostId adv = sd_userId sess \<and> lookup_peers (w_users w) adv (ProfileIDs q) \<noteq> None
         then w_out (snd (PeerUpdate (Some q) sess w)) = w_out w @ [JArr [JInt 0]]
           \<and> (\<exists>adv'. GetAdvertisement (w_advs (snd (PeerUpdate (Some q) sess w))) = (GetAdvertisement (w_advs w))(MatchID q \<mapsto> adv')
              \<and> keys (adv_peers adv') = keys (adv_peers adv)
              \<and> (\<forall>u. SafeOrderedMap_Load (adv_peers adv') u =
                  (case map_of (rev (zip (ProfileIDs q) (zip (RaceIDs q) (TeamIDs q)))) u of
                     None \<Rightarrow> SafeOrderedMap_Load (adv_peers adv) u
                   | Some (race, team) \<Rightarrow> map_option (\<lambda>p. p\<lparr>p_race := race, p_team := team\<rparr>) (SafeOrderedMap_Load (adv_peers adv) u))))
         else PeerUpdate (Some q) sess w = (HReturn, JSON [JInt 2] w)"
proof (cases "length (RaceIDs q) = length (ProfileIDs q) \<and> length (TeamIDs q) = length (ProfileIDs q)
    \<and> adv_hostId adv = sd_userId sess \<and> lookup_peers (w_users w) adv (ProfileIDs q) \<noteq> None")
  case True
  then obtain ps where ps: "lookup_peers (w_users w) adv (ProfileIDs q) = Some ps" by auto
  have l: "length (RaceIDs q) = length (ProfileIDs q)" "length (TeamIDs q) = length (ProfileIDs q)"
    and h: "adv_hostId adv = sd_userId sess" using True by blast+
  have "adv_wf (MatchID q) adv" using assms by (rule lobbies_wfD)
  from lookup_peers_ids [OF this ps] have ids: "map p_userId ps = ProfileIDs q" .
  let ?rows = "zip ps (zip (RaceIDs q) (TeamIDs q))"
  let ?adv = "PeerUpdate_peers ?rows adv"
  have "map (\<lambda>(p, rt). (p_userId p, rt)) ?rows = zip (ProfileIDs q) (zip (RaceIDs q) (TeamIDs q))"
    by (simp add: ids [symmetric] zip_map1)
  note spec = PeerUpdate_peers_spec [of ?rows adv, unfolded this]
  have parse: "ParseParameters (Some q) = Some (MatchID q, length (ProfileIDs q), ProfileIDs q, RaceIDs q, TeamIDs q)"
    by (simp add: ParseParameters_some l)
  have u: "PeerUpdate (Some q) sess w =
      (HReturn, JSON [JInt 0] (update_advs (SafeOrderedMap_modify (MatchID q) (PeerUpdate_peers ?rows)) w))"
    by (simp add: PeerUpdate_def parse assms(2) h ps)
  have "GetAdvertisement (w_advs (snd (PeerUpdate (Some q) sess w))) = (GetAdvertisement (w_advs w))(MatchID q \<mapsto> ?adv)"
    by (simp add: u fun_eq_iff Get_modify assms(2))
  with True spec show ?thesis by (auto simp: u)
next
  case False
  then show ?thesis
  proof (cases "ParseParameters (Some q)")
    case (Some r)
    then show ?thesis
      using False assms(2) by (cases r) (auto simp: PeerUpdate_def ParseParameters_some split: option.split)
  qed (auto simp: PeerUpdate_def)
qed

end
