(* ===== verification/InviteRoutes.thy ===== *)
theory InviteRoutes
  imports Examples
begin

text \<open>
  The handlers of \<open>routes/game/invitation\<close>: a peer invites a user to its lobby and takes the invitation
  back, the user answers it.  The invitations of a peer are a set of users, named by their platform
  paths.
\<close>

record cancelRequest =
  iq_AdvertisementId :: int32
  iq_UserId :: int32

record extendRequest = cancelRequest +
  iq_AdvertisementPassword :: string

record replyRequest =
  iq_ReplyAdvertisementId :: int32
  iq_Accept :: bool
  iq_InviterId :: int32

text \<open>A write through the pointer to a peer of a lobby.\<close>

definition modify_peer :: "int32 \<Rightarrow> int32 \<Rightarrow> (MainPeer \<Rightarrow> MainPeer) \<Rightarrow> MainAdvertisements \<Rightarrow> MainAdvertisements" where
  "modify_peer i userId f advs =
     SafeOrderedMap_modify i (\<lambda>a. a\<lparr>adv_peers := SafeOrderedMap_modify userId f (adv_peers a)\<rparr>) advs"

section \<open>extendInvitation.go\<close>

text \<open>A session whose user is gone makes the call on the nil user panic.\<close>

definition ExtendInvitation :: "extendRequest option \<Rightarrow> SessionData \<Rightarrow> World \<Rightarrow> exit \<times> World" where
  "ExtendInvitation bound sess w =
     (case bound of
        None \<Rightarrow> (HReturn, JSON [JInt 2] w)
      | Some q \<Rightarrow>
          (case GetAdvertisement (w_advs w) (iq_AdvertisementId q) of
             None \<Rightarrow> (HReturn, JSON [JInt 2] w)
           | Some adv \<Rightarrow>
               if adv_password_value adv \<noteq> iq_AdvertisementPassword q then (HReturn, JSON [JInt 2] w)
               else (case GetUserById (w_users w) (sd_userId sess) of
                  None \<Rightarrow> (HPanic, w)
                | Some u \<Rightarrow>
                    (case SafeOrderedMap_Load (adv_peers adv) (u_id u) of
                       None \<Rightarrow> (HReturn, JSON [JInt 2] w)
                     | Some peer \<Rightarrow>
                         (case GetUserById (w_users w) (iq_UserId q) of
                            None \<Rightarrow> (HReturn, JSON [JInt 2] w)
                          | Some invitee \<Rightarrow>
                              let (new, peer1) = Peer_Invite (GetPlatformPath invitee) peer;
                                  w1 = update_advs (modify_peer (iq_AdvertisementId q) (u_id u) (\<lambda>_. peer1)) w
                              in if \<not> new then (HReturn, JSON [JInt 0] w1)
                                 else (HReturn, JSON [JInt 0]
                                   (send_online [u_id invitee] ''ExtendInvitationMessage''
                                      (\<lambda>s. [JArr (EncodeProfileInfo (sd_clientLibVersion s) u), j32 (iq_AdvertisementId q),
                                            JStr (iq_AdvertisementPassword q)]) w1)))))))"

section \<open>cancelInvitation.go\<close>

definition CancelInvitation :: "cancelRequest option \<Rightarrow> SessionData \<Rightarrow> World \<Rightarrow> exit \<times> World" where
  "CancelInvitation bound sess w =
     (case bound of
        None \<Rightarrow> (HReturn, JSON [JInt 2] w)
      | Some q \<Rightarrow>
          (case GetAdvertisement (w_advs w) (iq_AdvertisementId q) of
             None \<Rightarrow> (HReturn, JSON [JInt 2] w)
           | Some adv \<Rightarrow>
               (case GetUserById (w_users w) (sd_userId sess) of
                  None \<Rightarrow> (HPanic, w)
                | Some u \<Rightarrow>
                    (case SafeOrderedMap_Load (adv_peers adv) (u_id u) of
                       None \<Rightarrow> (HReturn, JSON [JInt 2] w)
                     | Some peer \<Rightarrow>
                         (case GetUserById (w_users w) (iq_UserId q) of
                            None \<Rightarrow> (HReturn, JSON [JInt 2] w)
                          | Some invitee \<Rightarrow>
                              let (gone, peer1) = Peer_Uninvite (GetPlatformPath invitee) peer;
                                  w1 = update_advs (modify_peer (iq_AdvertisementId q) (u_id u) (\<lambda>_. peer1)) w
                              in if \<not> gone then (HReturn, JSON [JInt 0] w1)
                                 else (HReturn, JSON [JInt 0]
                                   (send_online [u_id invitee] ''CancelInvitationMessage''
                                      (\<lambda>s. [JArr (EncodeProfileInfo (sd_clientLibVersion s) u), j32 (iq_AdvertisementId q)])
                                      w1)))))))"

section \<open>replyToInvitation.go\<close>

text \<open>Here a nil user is only looked up in the set, where it is not.\<close>

definition ReplyToInvitation :: "replyRequest option \<Rightarrow> SessionData \<Rightarrow> World \<Rightarrow> exit \<times> World" where
  "ReplyToInvitation bound sess w =
     (case bound of
        None \<Rightarrow> (HReturn, JSON [JInt 2] w)
      | Some q \<Rightarrow>
          (case GetAdvertisement (w_advs w) (iq_ReplyAdvertisementId q) of
             None \<Rightarrow> (HReturn, JSON [JInt 2] w)
           | Some adv \<Rightarrow>
               (case GetUserById (w_users w) (iq_InviterId q) of
                  None \<Rightarrow> (HReturn, JSON [JInt 2] w)
                | Some inviter \<Rightarrow>
                    (case SafeOrderedMap_Load (adv_peers adv) (u_id inviter) of
                       None \<Rightarrow> (HReturn, JSON [JInt 2] w)
                     | Some peer \<Rightarrow>
                         (case GetUserById (w_users w) (sd_userId sess) of
                            None \<Rightarrow> (HReturn, JSON [JInt 0] w)
                          | Some u \<Rightarrow>
                              let (gone, peer1) = Peer_Uninvite (GetPlatformPath u) peer;
                                  w1 = update_advs (modify_peer (iq_ReplyAdvertisementId q) (u_id inviter) (\<lambda>_. peer1)) w
                              in if \<not> gone then (HReturn, JSON [JInt 0] w1)
                                 else (HReturn, JSON [JInt 0]
                                   (send_online [u_id inviter] ''ReplyInvitationMessage''
                                      (\<lambda>s. [JArr (EncodeProfileInfo (sd_clientLibVersion s) u), j32 (iq_ReplyAdvertisementId q),
                                            JStr (if iq_Accept q then ''1'' else ''0'')]) w1)))))))"

section \<open>Lemmas\<close>

text \<open>Whom a peer has invited.\<close>

definition invited :: "MainAdvertisements \<Rightarrow> int32 \<Rightarrow> int32 \<Rightarrow> string set" where
  "invited advs i u =
     (case GetAdvertisement advs i of
        None \<Rightarrow> {}
      | Some a \<Rightarrow> (case SafeOrderedMap_Load (adv_peers a) u of None \<Rightarrow> {} | Some p \<Rightarrow> SafeSet_elems (p_invites p)))"

lemma invited_modify_peer:
  assumes "GetAdvertisement advs i = Some a" and "SafeOrderedMap_Load (adv_peers a) u = Some p"
  shows "invited (modify_peer i u (\<lambda>_. p') advs) j v =
    (if j = i \<and> v = u then SafeSet_elems (p_invites p') else invited advs j v)"
  using assms by (auto simp: invited_def modify_peer_def Get_modify SafeOrderedMap_Load_modify)

lemma peers_of_modify_peer [simp]: "peers_of (modify_peer i u f advs) j = peers_of advs j"
  by (simp add: modify_peer_def peers_of_modify_keep peers_of_def Get_modify split: option.split)

lemma peer_invites_wf:
  "lobbies_wf advs \<Longrightarrow> GetAdvertisement advs i = Some a \<Longrightarrow> SafeOrderedMap_Load (adv_peers a) u = Some p
    \<Longrightarrow> SafeMap_wf (p_invites p)"
  by (drule (1) lobbies_wfD(2)) (simp add: adv_wf_def)

lemma Peer_Invite_spec:
  assumes "SafeMap_wf (p_invites p)"
  shows "fst (Peer_Invite k p) \<longleftrightarrow> k \<notin> SafeSet_elems (p_invites p)"
    and "SafeSet_elems (p_invites (snd (Peer_Invite k p))) = insert k (SafeSet_elems (p_invites p))"
    and "fst (Peer_Uninvite k p) \<longleftrightarrow> k \<in> SafeSet_elems (p_invites p)"
    and "SafeSet_elems (p_invites (snd (Peer_Uninvite k p))) = SafeSet_elems (p_invites p) - {k}"
  using SafeSet_Store_spec [OF assms] SafeSet_Delete_spec [OF assms]
  by (simp_all add: Peer_Invite_def Peer_Uninvite_def split_def)

lemma invited_load:
  "GetAdvertisement advs i = Some a \<Longrightarrow> SafeOrderedMap_Load (adv_peers a) u = Some p \<Longrightarrow>
    invited advs i u = SafeSet_elems (p_invites p)"
  by (simp add: invited_def)

section \<open>Properties\<close>

text \<open>
  An invitation needs the lobby's password and a caller who is in the lobby.  Inviting someone
  the peer has not invited yet records it and tells the invited user, if online, once; inviting again
  changes nothing and sends nothing; no other invitation of any peer is touched.
\<close>

lemma ExtendInvitation_once:
  assumes "lobbies_wf (w_advs w)" and "GetUserById (w_users w) (sd_userId sess) = Some u"
    and "GetUserById (w_users w) (iq_UserId q) = Some v"
  shows "if (\<exists>a. GetAdvertisement (w_advs w) (iq_AdvertisementId q) = Some a
              \<and> adv_password_value a = iq_AdvertisementPassword q) \<and> u_id u \<in> set (peers_of (w_advs w) (iq_AdvertisementId q))
         then w_out (snd (ExtendInvitation (Some q) sess w)) = w_out w @ [JArr [JInt 0]]
           \<and> invited (w_advs (snd (ExtendInvitation (Some q) sess w))) j x =
              (if j = iq_AdvertisementId q \<and> x = u_id u then insert (GetPlatformPath v) (invited (w_advs w) j x) else invited (w_advs w) j x)
           \<and> length (w_sent (snd (ExtendInvitation (Some q) sess w))) = length (w_sent w) +
              (if GetPlatformPath v \<notin> invited (w_advs w) (iq_AdvertisementId q) (u_id u)
                  \<and> MainSessions_GetByUserId (w_sessions w) (u_id v) \<noteq> None then 1 else 0)
         else ExtendInvitation (Some q) sess w = (HReturn, JSON [JInt 2] w)"
proof (cases "(\<exists>a. GetAdvertisement (w_advs w) (iq_AdvertisementId q) = Some a
    \<and> adv_password_value a = iq_AdvertisementPassword q) \<and> u_id u \<in> set (peers_of (w_advs w) (iq_AdvertisementId q))")
  case True
  let ?i = "iq_AdvertisementId q"
  from True obtain a p where a: "GetAdvertisement (w_advs w) ?i = Some a" and pw: "adv_password_value a = iq_AdvertisementPassword q"
      and p: "SafeOrderedMap_Load (adv_peers a) (u_id u) = Some p" by (auto simp: peers_of_mem [OF assms(1)])
  note inv = Peer_Invite_spec(1,2) [OF peer_invites_wf [OF assms(1) a p], of "GetPlatformPath v"]
  let ?w1 = "update_advs (modify_peer ?i (u_id u) (\<lambda>_. snd (Peer_Invite (GetPlatformPath v) p))) w"
  let ?msg = "\<lambda>s. [JArr (EncodeProfileInfo (sd_clientLibVersion s) u), j32 ?i, JStr (iq_AdvertisementPassword q)]"
  have e: "ExtendInvitation (Some q) sess w = (HReturn, JSON [JInt 0]
      (if fst (Peer_Invite (GetPlatformPath v) p) then send_online [u_id v] ''ExtendInvitationMessage'' ?msg ?w1 else ?w1))"
    by (simp add: ExtendInvitation_def a pw assms(2,3) p split_def Let_def)
  have adv: "w_advs (snd (ExtendInvitation (Some q) sess w)) = modify_peer ?i (u_id u) (\<lambda>_. snd (Peer_Invite (GetPlatformPath v) p)) (w_advs w)"
    by (simp add: e)
  have sent: "length (w_sent (snd (ExtendInvitation (Some q) sess w))) = length (w_sent w) +
      (if fst (Peer_Invite (GetPlatformPath v) p) \<and> MainSessions_GetByUserId (w_sessions w) (u_id v) \<noteq> None then 1 else 0)"
    unfolding e by (auto simp: send_online_sent map_filter_simps split: option.split)
  have out: "w_out (snd (ExtendInvitation (Some q) sess w)) = w_out w @ [JArr [JInt 0]]" by (simp add: e)
  have i: "invited (w_advs w) ?i (u_id u) = SafeSet_elems (p_invites p)" using a p by (rule invited_load)
  show ?thesis
    using True unfolding adv invited_modify_peer [OF a p] sent out inv i by (auto simp: i)
next
  case False
  then show ?thesis
    using assms(2,3) by (auto simp: ExtendInvitation_def peers_of_mem [OF assms(1)] split: option.split)
qed

definition invite_example :: "string \<Rightarrow> extendRequest" where
  "invite_example pw = \<lparr>iq_AdvertisementId = 9, iq_UserId = 3, iq_AdvertisementPassword = pw\<rparr>"

text \<open>
  An invitation ends once, by the peer's cancelling it or by the invited user's answer,
  whichever comes first: that step removes it and sends the other side, if online, one message.  A
  cancellation of, or an answer to, an invitation that does not exist is answered with success too,
  but changes nothing and sends nothing.
\<close>

lemma invitation_ends_once:
  fixes w :: World and cq :: cancelRequest and rq :: replyRequest
  assumes "lobbies_wf (w_advs w)" and "GetUserById (w_users w) (sd_userId isess) = Some inviter"
    and "GetUserById (w_users w) (sd_userId vsess) = Some v"
    and "iq_UserId cq = sd_userId vsess" and "iq_InviterId rq = sd_userId isess"
    and "u_id inviter \<in> set (peers_of (w_advs w) (iq_AdvertisementId cq))"
    and "iq_ReplyAdvertisementId rq = iq_AdvertisementId cq"
    and "(r = CancelInvitation (Some cq) isess w \<and> other = v) \<or> (r = ReplyToInvitation (Some rq) vsess w \<and> other = inviter)"
  shows "fst r = HReturn \<and> w_out (snd r) = w_out w @ [JArr [JInt 0]]
    \<and> invited (w_advs (snd r)) j x =
        (if j = iq_AdvertisementId cq \<and> x = u_id inviter then invited (w_advs w) j x - {GetPlatformPath v} else invited (w_advs w) j x)
    \<and> length (w_sent (snd r)) = length (w_sent w) +
        (if GetPlatformPath v \<in> invited (w_advs w) (iq_AdvertisementId cq) (u_id inviter)
            \<and> MainSessions_GetByUserId (w_sessions w) (u_id other) \<noteq> None then 1 else 0)"
proof -
  let ?i = "iq_AdvertisementId cq"
  from assms(6) obtain a p where a: "GetAdvertisement (w_advs w) ?i = Some a"
      and p: "SafeOrderedMap_Load (adv_peers a) (u_id inviter) = Some p" by (auto simp: peers_of_mem [OF assms(1)])
  note inv = Peer_Invite_spec(3,4) [OF peer_invites_wf [OF assms(1) a p], of "GetPlatformPath v"]
  let ?w1 = "update_advs (modify_peer ?i (u_id inviter) (\<lambda>_. snd (Peer_Uninvite (GetPlatformPath v) p))) w"
  have "\<exists>act msg. r = (HReturn, JSON [JInt 0]
      (if fst (Peer_Uninvite (GetPlatformPath v) p) then send_online [u_id other] act msg ?w1 else ?w1))"
    using assms(8)
  proof
    assume r: "r = CancelInvitation (Some cq) isess w \<and> other = v"
    show ?thesis
      unfolding conjunct1 [OF r] conjunct2 [OF r] CancelInvitation_def option.case a assms(2,3,4) p Let_def split_def
      by (cases "fst (Peer_Uninvite (GetPlatformPath v) p)") auto
  next
    assume r: "r = ReplyToInvitation (Some rq) vsess w \<and> other = inviter"
    show ?thesis
      unfolding conjunct1 [OF r] conjunct2 [OF r] ReplyToInvitation_def option.case a assms(2,3,5,7) p Let_def split_def
      by (cases "fst (Peer_Uninvite (GetPlatformPath v) p)") auto
  qed
  then obtain act msg where e: "r = (HReturn, JSON [JInt 0]
      (if fst (Peer_Uninvite (GetPlatformPath v) p) then send_online [u_id other] act msg ?w1 else ?w1))" by blast
  have adv: "w_advs (snd r) = modify_peer ?i (u_id inviter) (\<lambda>_. snd (Peer_Uninvite (GetPlatformPath v) p)) (w_advs w)"
    by (simp add: e)
  have sent: "length (w_sent (snd r)) = length (w_sent w) +
      (if fst (Peer_Uninvite (GetPlatformPath v) p) \<and> MainSessions_GetByUserId (w_sessions w) (u_id other) \<noteq> None then 1 else 0)"
    unfolding e by (auto simp: send_online_sent map_filter_simps split: option.split)
  have out: "fst r = HReturn" "w_out (snd r) = w_out w @ [JArr [JInt 0]]" by (simp_all add: e)
  have i: "invited (w_advs w) ?i (u_id inviter) = SafeSet_elems (p_invites p)" using a p by (rule invited_load)
  show ?thesis unfolding adv invited_modify_peer [OF a p] sent out inv i by (auto simp: i)
qed

end
