(* ===== verification/ChatRoutes.thy ===== *)
theory ChatRoutes
  imports Examples
begin

text \<open>
  The handlers of \<open>routes/game/chat\<close>: joining and leaving channels, messages to a channel and to users.
  A write to a channel is \<open>ChatChannels_modify\<close> at its identifier.
\<close>

abbreviation update_channels :: "(MainChatChannels \<Rightarrow> MainChatChannels) \<Rightarrow> World \<Rightarrow> World" where
  "update_channels f w \<equiv> update_game (\<lambda>g. g\<lparr>g_chatChannels := f (g_chatChannels g)\<rparr>) w"

abbreviation w_channels :: "World \<Rightarrow> MainChatChannels" where "w_channels w \<equiv> g_chatChannels (w_game w)"

definition GetChatChannels :: "World \<Rightarrow> exit \<times> World" where
  "GetChatChannels w = (HReturn, JSON [JInt 0, JArr (ChatChannels_Encode (w_channels w)), JInt 100] w)"

definition GetOfflineMessages :: "SessionData \<Rightarrow> World \<Rightarrow> exit \<times> World" where
  "GetOfflineMessages sess w =
     (HReturn, JSON [JInt 0, JArr [], JArr [JArr [JStr (itoa (sint (sd_userId sess))), JArr []]], JArr [], JArr [], JArr []] w)"

section \<open>joinChannel.go\<close>

definition joinChannel_error :: goA where
  "joinChannel_error = [JInt 2, JStr [], JInt 0, JArr []]"

definition JoinChannel :: "int32 option \<Rightarrow> SessionData \<Rightarrow> World \<Rightarrow> exit \<times> World" where
  "JoinChannel bound sess w =
     (case bound of
        None \<Rightarrow> (HReturn, JSON joinChannel_error w)
      | Some chatroomID \<Rightarrow>
          (case ChatChannels_GetById (w_channels w) chatroomID of
             None \<Rightarrow> (HReturn, JSON joinChannel_error w)
           | Some chatChannel \<Rightarrow>
               (case GetUserById (w_users w) (sd_userId sess) of
                  None \<Rightarrow> (HReturn, JSON joinChannel_error w)
                | Some user \<Rightarrow>
                    let ((exists, encodedUsers), c1) =
                          ChatChannel_AddUser (w_users w) user (sd_clientLibVersion sess) chatChannel;
                        w1 = update_channels (ChatChannels_modify chatroomID (\<lambda>_. c1)) w
                    in if exists then (HReturn, JSON joinChannel_error w1)
                       else
                         let chatChannelIdStr = itoa (sint chatroomID);
                             w2 = JSON [JInt 0, JStr chatChannelIdStr, JInt 0, JArr encodedUsers] w1;
                             staticResponse = [JStr chatChannelIdStr,
                               JArr [JInt 0, JArr (EncodeProfileInfo (sd_clientLibVersion sess) user)]]
                         in (HReturn, send_online (GetUserIds (w_users w2)) ''ChannelJoinMessage'' (\<lambda>_. staticResponse) w2))))"

section \<open>leaveChannel.go\<close>

definition NotifyLeaveChannel :: "MainUser \<Rightarrow> int32 \<Rightarrow> uint16 \<Rightarrow> World \<Rightarrow> World" where
  "NotifyLeaveChannel user chatChannelId clientLibVersion w =
     (let staticResponse = [JStr (itoa (sint chatChannelId)), JArr (EncodeProfileInfo clientLibVersion user)]
      in send_online (filter (\<lambda>i. i \<noteq> u_id user) (GetUserIds (w_users w))) ''ChannelLeaveMessage'' (\<lambda>_. staticResponse) w)"

definition LeaveChannel :: "int32 option \<Rightarrow> SessionData \<Rightarrow> World \<Rightarrow> exit \<times> World" where
  "LeaveChannel bound sess w =
     (case bound of
        None \<Rightarrow> (HReturn, JSON [JInt 2] w)
      | Some chatroomID \<Rightarrow>
          (case ChatChannels_GetById (w_channels w) chatroomID of
             None \<Rightarrow> (HReturn, JSON [JInt 2] w)
           | Some chatChannel \<Rightarrow>
               (case GetUserById (w_users w) (sd_userId sess) of
                  None \<Rightarrow> (HReturn, JSON [JInt 2] w)
                | Some user \<Rightarrow>
                    let (removed, c1) = ChatChannel_RemoveUser user chatChannel;
                        w1 = update_channels (ChatChannels_modify chatroomID (\<lambda>_. c1)) w
                    in if \<not> removed then (HReturn, JSON [JInt 2] w1)
                       else (HReturn, NotifyLeaveChannel user (ch_Id chatChannel) (sd_clientLibVersion sess)
                                        (JSON [JInt 0] w1)))))"

section \<open>sendText.go\<close>

text \<open>The session of a member is not tested before it is used: a member without one ends the loop in a panic.\<close>

definition SendText :: "(int32 \<times> string) option \<Rightarrow> SessionData \<Rightarrow> World \<Rightarrow> exit \<times> World" where
  "SendText bound sess w =
     (case bound of
        None \<Rightarrow> (HReturn, JSON [JInt 2] w)
      | Some (chatroomID, message) \<Rightarrow>
          (case ChatChannels_GetById (w_channels w) chatroomID of
             None \<Rightarrow> (HReturn, JSON [JInt 2] w)
           | Some chatChannel \<Rightarrow>
               (case GetUserById (w_users w) (sd_userId sess) of
                  None \<Rightarrow> (HReturn, JSON [JInt 2] w)
                | Some user \<Rightarrow>
                    if \<not> ChatChannel_HasUser user chatChannel then (HReturn, JSON [JInt 2] w)
                    else send_slots
                      (map (\<lambda>u. MainSessions_GetByUserId (w_sessions w) (u_id u)) (ChatChannel_GetUsers (w_users w) chatChannel))
                      ''ChannelChatMessage''
                      [JStr (itoa (sint chatroomID)), JStr (itoa (sint (u_id user))), JStr [], JStr message]
                      (JSON [JInt 0] w))))"

section \<open>sendWhisper.go\<close>

definition whisperResult :: "int \<Rightarrow> World \<Rightarrow> World" where
  "whisperResult code w =
     JSON ([JInt code] @ (if w_title w = AoE4 \<or> w_title w = AoM then [JArr [JInt 0]] else [])) w"

text \<open>The recipients are users that exist: the loop stops with an error at the first that does not.\<close>

fun whisper_receivers :: "MainUsers \<Rightarrow> int32 list \<Rightarrow> MainUser list option" where
  "whisper_receivers users [] = Some []"
| "whisper_receivers users (i # is) =
     (case GetUserById users i of None \<Rightarrow> None | Some u \<Rightarrow> map_option ((#) u) (whisper_receivers users is))"

definition SendWhisper :: "string option \<Rightarrow> int32 list option \<Rightarrow> int32 option \<Rightarrow> SessionData \<Rightarrow> World \<Rightarrow> exit \<times> World" where
  "SendWhisper bound recipientIDs recipientID sess w =
     (let many = (w_title w = AoE4 \<or> w_title w = AoM)
      in case bound of
           None \<Rightarrow> (HReturn, whisperResult 2 w)
         | Some message \<Rightarrow>
             (case (if many then recipientIDs else map_option (\<lambda>i. [i]) recipientID) of
                None \<Rightarrow> (HReturn, whisperResult 2 w)
              | Some ids \<Rightarrow>
                  (case whisper_receivers (w_users w) ids of
                     None \<Rightarrow> (HReturn, whisperResult 2 w)
                   | Some receivers \<Rightarrow>
                       (case GetUserById (w_users w) (sd_userId sess) of
                          None \<Rightarrow> (HReturn, whisperResult 2 w)
                        | Some currentUser \<Rightarrow>
                            let msg = [JStr []] @ (if many then [JStr [], JStr message] else []) @ [JStr message]
                            in (HReturn, whisperResult 0
                                  (send_online (map u_id receivers) ''PersonalChatMessage''
                                     (\<lambda>s. [JArr (EncodeProfileInfo (sd_clientLibVersion s) currentUser)] @ msg) w))))))"

section \<open>Lemmas\<close>

text \<open>Who is in a channel.\<close>

definition channel_members :: "MainChatChannels \<Rightarrow> int32 \<Rightarrow> int32 list" where
  "channel_members cs i = (case ChatChannels_GetById cs i of None \<Rightarrow> [] | Some c \<Rightarrow> keys (ch_users c))"

definition channels_wf :: "MainChatChannels \<Rightarrow> bool" where
  "channels_wf cs \<longleftrightarrow> (\<forall>i c. ChatChannels_GetById cs i = Some c \<longrightarrow> ch_Id c = i \<and> SafeOrderedMap_wf (ch_users c))"

lemma GetById_modify:
  "ChatChannels_GetById (ChatChannels_modify i f cs) j =
     (if j = i then map_option f (ChatChannels_GetById cs j) else ChatChannels_GetById cs j)"
  by (simp add: ChatChannels_GetById_def ChatChannels_modify_def ReadOnlyOrderedMap_Load_def map_of_al_modify)

lemma channels_wf_modify [inv_intros]:
  assumes "channels_wf cs" and "\<And>c. ChatChannels_GetById cs i = Some c \<Longrightarrow> ch_Id (f c) = i \<and> SafeOrderedMap_wf (ch_users (f c))"
  shows "channels_wf (ChatChannels_modify i f cs)"
  using assms by (auto simp: channels_wf_def GetById_modify split: if_splits)

lemma send_slots_online:
  "fst (send_slots (map look us) action msg w) = (if \<forall>u \<in> set us. look u \<noteq> None then HReturn else HPanic)
   \<and> w_game (snd (send_slots (map look us) action msg w)) = w_game w
   \<and> w_out (snd (send_slots (map look us) action msg w)) = w_out w
   \<and> w_sent (snd (send_slots (map look us) action msg w)) = w_sent w @
       map (\<lambda>u. (sd_id (the (look u)), finalMessage (the (look u)) action msg)) (takeWhile (\<lambda>u. look u \<noteq> None) us)"
proof (induction us arbitrary: w)
  case (Cons u us)
  show ?case
  proof (cases "look u")
    case (Some s)
    then show ?thesis using Cons [of "w\<lparr>w_sent := w_sent w @ [(sd_id s, finalMessage s action msg)]\<rparr>"]
      by (simp add: SendOrStoreMessage_def)
  qed (simp add: SendOrStoreMessage_def)
qed simp

lemma AddUser_spec:
  assumes "SafeOrderedMap_wf (ch_users c)"
  shows "fst (fst (ChatChannel_AddUser us u v c)) = (u_id u \<in> set (keys (ch_users c)))"
    and "keys (ch_users (snd (ChatChannel_AddUser us u v c))) =
      (if u_id u \<in> set (keys (ch_users c)) then keys (ch_users c) else keys (ch_users c) @ [u_id u])"
    and "ch_Id (snd (ChatChannel_AddUser us u v c)) = ch_Id c"
    and "SafeOrderedMap_wf (ch_users (snd (ChatChannel_AddUser us u v c)))"
proof -
  define r where "r = SafeOrderedMap_Store (u_id u) (GetPlatformPath u) None (ch_users c)"
  have s: "fst (fst (ChatChannel_AddUser us u v c)) = fst (fst r)" "snd (ChatChannel_AddUser us u v c) = c\<lparr>ch_users := snd r\<rparr>"
    by (simp_all add: r_def ChatChannel_AddUser_def SafeOrderedMap_IterAndStore_def SafeOrderedMap_Store_def Let_def split_def)
  have d: "(SafeOrderedMap_Load (ch_users c) k = None) = (k \<notin> set (keys (ch_users c)))" for k
    by (simp add: om.seq_bound [OF assms])
  show "fst (fst (ChatChannel_AddUser us u v c)) = (u_id u \<in> set (keys (ch_users c)))"
    unfolding s r_def SafeOrderedMap_Store_result [OF assms] using d [of "u_id u"] by (auto split: option.split)
  show "keys (ch_users (snd (ChatChannel_AddUser us u v c))) =
      (if u_id u \<in> set (keys (ch_users c)) then keys (ch_users c) else keys (ch_users c) @ [u_id u])"
    unfolding s by (simp add: r_def SafeOrderedMap_keys_Store [OF assms] d)
  show "ch_Id (snd (ChatChannel_AddUser us u v c)) = ch_Id c" unfolding s by simp
  show "SafeOrderedMap_wf (ch_users (snd (ChatChannel_AddUser us u v c)))" unfolding s using assms by (simp add: r_def)
qed

lemma RemoveUser_spec:
  assumes "SafeOrderedMap_wf (ch_users c)"
  shows "fst (ChatChannel_RemoveUser u c) = (u_id u \<in> set (keys (ch_users c)))"
    and "keys (ch_users (snd (ChatChannel_RemoveUser u c))) = removeAll (u_id u) (keys (ch_users c))"
    and "ch_Id (snd (ChatChannel_RemoveUser u c)) = ch_Id c"
    and "SafeOrderedMap_wf (ch_users (snd (ChatChannel_RemoveUser u c)))"
  using assms wf_key_bound [OF assms]
  by (simp_all add: ChatChannel_RemoveUser_def split_def SafeOrderedMap_Delete_result SafeOrderedMap_keys_Delete)

section \<open>Properties\<close>

text \<open>
  C38: a user who is in a channel cannot join it again, and one who is not cannot leave it: both
  are refused without telling anyone.  Otherwise the user is put at the end of, or taken out of, that
  channel and no other; everyone online is told, on leaving without the user, on joining with.
\<close>

theorem channel_membership:
  assumes "channels_wf (w_channels w)" and "ChatChannels_GetById (w_channels w) i = Some c"
    and "GetUserById (w_users w) (sd_userId sess) = Some u"
  shows "(let r = snd (JoinChannel (Some i) sess w) in
        channels_wf (w_channels r)
      \<and> channel_members (w_channels r) j = (if j = i then add_end (u_id u) (channel_members (w_channels w) j) else channel_members (w_channels w) j)
      \<and> map fst (w_sent r) = map fst (w_sent w) @
          (if u_id u \<in> set (channel_members (w_channels w) i) then []
           else map sd_id (List.map_filter (MainSessions_GetByUserId (w_sessions w)) (GetUserIds (w_users w)))))
    \<and> (let r = snd (LeaveChannel (Some i) sess w) in
        channels_wf (w_channels r)
      \<and> channel_members (w_channels r) j = (if j = i then removeAll (u_id u) (channel_members (w_channels w) j) else channel_members (w_channels w) j)
      \<and> map fst (w_sent r) = map fst (w_sent w) @
          (if u_id u \<notin> set (channel_members (w_channels w) i) then []
           else map sd_id (List.map_filter (MainSessions_GetByUserId (w_sessions w)) (removeAll (u_id u) (GetUserIds (w_users w))))))"
proof -
  have wf: "SafeOrderedMap_wf (ch_users c)" using assms(1,2) by (simp add: channels_wf_def)
  have id: "ch_Id c = i" using assms(1,2) by (simp add: channels_wf_def)
  have m: "channel_members (w_channels w) i = keys (ch_users c)" using assms(2) by (simp add: channel_members_def)
  have upd: "channel_members (ChatChannels_modify i (\<lambda>_. c1) (w_channels w)) j =
      (if j = i then keys (ch_users c1) else channel_members (w_channels w) j)" for c1
    using assms(2) by (simp add: channel_members_def GetById_modify)
  have keep: "channels_wf (ChatChannels_modify i (\<lambda>_. c1) (w_channels w))"
    if "ch_Id c1 = ch_Id c" and "SafeOrderedMap_wf (ch_users c1)" for c1
    by (rule channels_wf_modify [OF assms(1)]) (simp add: that id)
  let ?a = "ChatChannel_AddUser (w_users w) u (sd_clientLibVersion sess) c" and ?d = "ChatChannel_RemoveUser u c"
  note a = AddUser_spec [OF wf, of "w_users w" u "sd_clientLibVersion sess"] and d = RemoveUser_spec [OF wf, of u]
  have ja: "w_channels (snd (JoinChannel (Some i) sess w)) = ChatChannels_modify i (\<lambda>_. snd ?a) (w_channels w)"
    by (simp add: JoinChannel_def assms(2,3) split_def Let_def)
  have js: "map fst (w_sent (snd (JoinChannel (Some i) sess w))) = map fst (w_sent w) @
      (if fst (fst ?a) then [] else map sd_id (List.map_filter (MainSessions_GetByUserId (w_sessions w)) (GetUserIds (w_users w))))"
    by (simp add: JoinChannel_def assms(2,3) split_def Let_def send_online_sent)
  have la: "w_channels (snd (LeaveChannel (Some i) sess w)) = ChatChannels_modify i (\<lambda>_. snd ?d) (w_channels w)"
    by (simp add: LeaveChannel_def assms(2,3) split_def Let_def NotifyLeaveChannel_def)
  have ls: "map fst (w_sent (snd (LeaveChannel (Some i) sess w))) = map fst (w_sent w) @
      (if \<not> fst ?d then [] else map sd_id (List.map_filter (MainSessions_GetByUserId (w_sessions w))
         (filter (\<lambda>x. x \<noteq> u_id u) (GetUserIds (w_users w)))))"
    by (simp add: LeaveChannel_def assms(2,3) split_def Let_def NotifyLeaveChannel_def send_online_sent)
  have f: "filter (\<lambda>x. x \<noteq> u_id u) xs = removeAll (u_id u) xs" for xs by (simp add: removeAll_filter_not_eq eq_commute)
  show ?thesis
    unfolding Let_def ja js la ls upd f using keep a d m by (auto simp: add_end_def)
qed

text \<open>Channel 5, with the users 1 and 2 in it.\<close>

definition channel_world :: World where
  "channel_world = update_channels (\<lambda>_. NewReadOnlyOrderedMap [5]
     [(5, snd (ChatChannel_AddUser NewSafeMap (example_user 2 2) 190
            (snd (ChatChannel_AddUser NewSafeMap (example_user 1 1) 190 (NewChatChannel 5 ''Lobby'')))))]) example_world"

lemma channel_world_facts:
  "channels_wf (w_channels channel_world)" "channel_members (w_channels channel_world) 5 = [1, 2]"
  "\<exists>c. ChatChannels_GetById (w_channels channel_world) 5 = Some c"
  "w_users channel_world = w_users example_world" "w_sessions channel_world = MainSessions_Initialize"
  "w_out channel_world = []" "w_sent channel_world = []"
proof -
  let ?c0 = "NewChatChannel 5 ''Lobby''"
  let ?c1 = "snd (ChatChannel_AddUser NewSafeMap (example_user 1 1) 190 ?c0)"
  let ?c2 = "snd (ChatChannel_AddUser NewSafeMap (example_user 2 2) 190 ?c1)"
  have g: "ChatChannels_GetById (w_channels channel_world) i = (if i = 5 then Some ?c2 else None)" for i
    by (simp add: channel_world_def ChatChannels_GetById_def ReadOnlyOrderedMap_Load_def NewReadOnlyOrderedMap_def)
  have wf0: "SafeOrderedMap_wf (ch_users ?c0)" and k0: "keys (ch_users ?c0) = []" and i0: "ch_Id ?c0 = 5"
    by (simp_all add: NewChatChannel_def) (simp add: NewSafeOrderedMap_def SafeOrderedMap_updateReadOnly_def)
  note a1 = AddUser_spec [OF wf0, of NewSafeMap "example_user 1 1" 190]
  note a2 = AddUser_spec [OF a1(4), of NewSafeMap "example_user 2 2" 190]
  show "channels_wf (w_channels channel_world)" using g a2(3,4) a1(3) i0 by (auto simp: channels_wf_def split: if_splits)
  show "channel_members (w_channels channel_world) 5 = [1, 2]" using a2(2) a1(2) k0 by (simp add: channel_members_def g)
  show "\<exists>c. ChatChannels_GetById (w_channels channel_world) 5 = Some c" by (simp add: g)
  show "w_users channel_world = w_users example_world" "w_sessions channel_world = MainSessions_Initialize"
    "w_out channel_world = []" "w_sent channel_world = []"
    by (simp_all add: channel_world_def) (simp add: example_world_def)
qed

theorem channel_membership_witness:
  "channel_members (w_channels (snd (JoinChannel (Some 5) (example_session 3) channel_world))) 5 = [1, 2, 3]
   \<and> channel_members (w_channels (snd (LeaveChannel (Some 5) (example_session 1) channel_world))) 5 = [2]"
proof -
  obtain c where c: "ChatChannels_GetById (w_channels channel_world) 5 = Some c" using channel_world_facts(3) by blast
  have u: "GetUserById (w_users channel_world) 1 = Some (example_user 1 1)" "GetUserById (w_users channel_world) 3 = Some (example_user 3 3)"
    unfolding channel_world_facts(4) by (simp_all add: example_GetUserById)
  show ?thesis
    using channel_membership [OF channel_world_facts(1) c, of "example_session 3" "example_user 3 3" 5]
      channel_membership [OF channel_world_facts(1) c, of "example_session 1" "example_user 1 1" 5] u
    by (simp add: channel_world_facts(2) add_end_def Let_def)
qed

text \<open>
  A text to a channel is accepted only from a member; it is acknowledged first and then
  delivered to the members in the order they joined.  A member who has no session any more ends that
  in a panic: the members after it never get the text.
\<close>

lemma SendText_stops_at_offline_member:
  fixes w :: World
  assumes "ChatChannels_GetById (w_channels w) i = Some c" and "GetUserById (w_users w) (sd_userId sess) = Some u"
    and "SafeOrderedMap_wf (ch_users c)"
  shows "let members = ChatChannel_GetUsers (w_users w) c; look = (\<lambda>v. MainSessions_GetByUserId (w_sessions w) (u_id v));
             r = SendText (Some (i, text)) sess w
         in if u_id u \<notin> set (channel_members (w_channels w) i) then r = (HReturn, JSON [JInt 2] w)
            else (fst r = HReturn) = (\<forall>v \<in> set members. look v \<noteq> None)
              \<and> w_out (snd r) = w_out w @ [JArr [JInt 0]]
              \<and> map fst (w_sent (snd r)) = map fst (w_sent w) @ map (\<lambda>v. sd_id (the (look v))) (takeWhile (\<lambda>v. look v \<noteq> None) members)"
proof (cases "u_id u \<in> set (channel_members (w_channels w) i)")
  case True
  then have "ChatChannel_HasUser u c"
    using assms by (simp add: channel_members_def ChatChannel_HasUser_def om.seq_bound)
  then have e: "SendText (Some (i, text)) sess w = send_slots
      (map (\<lambda>u. MainSessions_GetByUserId (w_sessions w) (u_id u)) (ChatChannel_GetUsers (w_users w) c)) ''ChannelChatMessage''
      [JStr (itoa (sint i)), JStr (itoa (sint (u_id u))), JStr [], JStr text] (JSON [JInt 0] w)"
    by (simp add: SendText_def assms(1,2))
  show ?thesis
    using True send_slots_online [of "\<lambda>u. MainSessions_GetByUserId (w_sessions w) (u_id u)" "ChatChannel_GetUsers (w_users w) c"
        "''ChannelChatMessage''" "[JStr (itoa (sint i)), JStr (itoa (sint (u_id u))), JStr [], JStr text]" "JSON [JInt 0] w"]
    unfolding e Let_def by (auto simp: comp_def)
next
  case False
  then have "\<not> ChatChannel_HasUser u c"
    using assms by (simp add: channel_members_def ChatChannel_HasUser_def om.seq_bound)
  then show ?thesis using False by (simp add: SendText_def assms(1,2) Let_def)
qed

end
