(* ===== verification/LoginRoutes.thy ===== *)
theory LoginRoutes
  imports ChatRoutes
begin

text \<open>
  The handlers of \<open>routes/game/relationship\<close> and \<open>routes/game/login\<close>: presence, logging in and out and
  reading the messages of a session.  A user is the platform path it is stored under, and its record is
  read again after a write through the pointer.
\<close>

section \<open>relationship\<close>

definition relationshipResponse :: "int \<Rightarrow> jv list \<Rightarrow> jv list \<Rightarrow> goA" where
  "relationshipResponse errorCode friends lastConnection =
     [JInt errorCode, JArr friends, JArr [], JArr [], JArr [], JArr lastConnection, JArr [], JArr []]"

definition Relationships :: "string \<Rightarrow> uint16 \<Rightarrow> MainUsers \<Rightarrow> MainUser \<Rightarrow> MainPresenceDefinitions \<Rightarrow> goA" where
  "Relationships gameTitle clientLibVersion users user presences =
     (let profileInfo = Users_EncodeProfileInfo users (Some presences)
            (\<lambda>u. GetPlatformPath u \<noteq> GetPlatformPath user \<and> 0 < sint (u_presence u)) clientLibVersion
      in if gameTitle = AoE3 \<or> gameTitle = AoE4 \<or> gameTitle = AoM
         then relationshipResponse 0 profileInfo [] else relationshipResponse 0 [] profileInfo)"

definition GetRelationships :: "SessionData \<Rightarrow> World \<Rightarrow> exit \<times> World" where
  "GetRelationships sess w =
     (HReturn, case GetUserById (w_users w) (sd_userId sess) of
        Some currentUser \<Rightarrow>
          JSON (Relationships (w_title w) (sd_clientLibVersion sess) (w_users w) currentUser (g_presence (w_game w))) w
      | None \<Rightarrow> JSON (relationshipResponse 0 [] []) w)"

definition Addfriend :: "int32 option \<Rightarrow> SessionData \<Rightarrow> World \<Rightarrow> exit \<times> World" where
  "Addfriend bound sess w =
     (case bound of
        None \<Rightarrow> (HReturn, JSON [JInt 2, JArr []] w)
      | Some target \<Rightarrow>
          (case GetUserById (w_users w) target of
             None \<Rightarrow> (HReturn, JSON [JInt 2, JArr []] w)
           | Some u \<Rightarrow> (HReturn, JSON [JInt 2, JArr (EncodeProfileInfo (sd_clientLibVersion sess) u)] w)))"

definition Ignore :: "int32 option \<Rightarrow> SessionData \<Rightarrow> World \<Rightarrow> exit \<times> World" where
  "Ignore bound sess w =
     (case bound of
        None \<Rightarrow> (HReturn, JSON [JInt 2, JArr [], JArr []] w)
      | Some target \<Rightarrow>
          (case GetUserById (w_users w) target of
             None \<Rightarrow> (HReturn, JSON [JInt 2, JArr [], JArr []] w)
           | Some u \<Rightarrow> (HReturn, JSON [JInt 2, JArr (EncodeProfileInfo (sd_clientLibVersion sess) u), JArr []] w)))"

text \<open>A user that is stored under the path \<open>k\<close>, read through the pointer.\<close>

definition user_at :: "World \<Rightarrow> string \<Rightarrow> MainUser" where
  "user_at w k = the (SafeMap_Load (w_users w) k)"

definition NotifyChangePresence :: "uint16 \<Rightarrow> string \<Rightarrow> World \<Rightarrow> World" where
  "NotifyChangePresence clientLibVersion k w =
     send_online (GetUserIds (w_users w)) ''PresenceMessage''
       (\<lambda>_. [JArr (EncodeProfileInfo clientLibVersion (user_at w k) @ EncodePresence (g_presence (w_game w)) (user_at w k))]) w"

definition ChangePresence :: "uint16 \<Rightarrow> string \<Rightarrow> int32 \<Rightarrow> World \<Rightarrow> World" where
  "ChangePresence clientLibVersion k presence w =
     NotifyChangePresence clientLibVersion k (update_users (SafeMap_modify k (SetPresence presence)) w)"

text \<open>The two handlers do not test the result of the lookup: a nil user makes the next call panic.\<close>

definition SetPresence_handler :: "int32 option \<Rightarrow> SessionData \<Rightarrow> World \<Rightarrow> exit \<times> World" where
  "SetPresence_handler bound sess w =
     (case bound of
        None \<Rightarrow> (HReturn, JSON [JInt 2] w)
      | Some presenceId \<Rightarrow>
          (case GetUserById (w_users w) (sd_userId sess) of
             None \<Rightarrow> (HPanic, w)
           | Some u \<Rightarrow>
               (HReturn, JSON [JInt 0] (ChangePresence (sd_clientLibVersion sess) (GetPlatformPath u) presenceId w))))"

definition SetPresenceProperty_handler :: "(int32 \<times> string) option \<Rightarrow> SessionData \<Rightarrow> World \<Rightarrow> exit \<times> World" where
  "SetPresenceProperty_handler bound sess w =
     (case bound of
        None \<Rightarrow> (HReturn, JSON [JInt 2] w)
      | Some (propertyId, v) \<Rightarrow>
          (case GetUserById (w_users w) (sd_userId sess) of
             None \<Rightarrow> (HPanic, w)
           | Some u \<Rightarrow>
               (case SetPresenceProperty propertyId v u of
                  Panic \<Rightarrow> (HPanic, w)
                | Ret u1 \<Rightarrow>
                    (HReturn, JSON [JInt 0] (NotifyChangePresence (sd_clientLibVersion sess) (GetPlatformPath u)
                       (update_users (SafeMap_modify (GetPlatformPath u) (\<lambda>_. u1)) w))))))"

section \<open>logout.go\<close>

text \<open>The channels are pointers: each is read when the loop comes to it.  The pauses between the
  messages are left out.\<close>

fun Logout_channels :: "MainUser \<Rightarrow> uint16 \<Rightarrow> int32 list \<Rightarrow> World \<Rightarrow> World" where
  "Logout_channels u clientLibVersion [] w = w"
| "Logout_channels u clientLibVersion (channelId # rest) w =
     (case ChatChannels_GetById (w_channels w) channelId of
        None \<Rightarrow> Logout_channels u clientLibVersion rest w
      | Some channel \<Rightarrow>
          let (removed, c1) = ChatChannel_RemoveUser u channel;
              w1 = update_channels (ChatChannels_modify channelId (\<lambda>_. c1)) w
          in Logout_channels u clientLibVersion rest
               (if removed then NotifyLeaveChannel u channelId clientLibVersion w1 else w1))"

definition Logout :: "SessionData \<Rightarrow> World \<Rightarrow> exit \<times> World" where
  "Logout sess w =
     (case GetUserById (w_users w) (sd_userId sess) of
        None \<Rightarrow> (HReturn, JSON [JInt 2] w)
      | Some u \<Rightarrow>
          let w1 = (case GetUserAdvertisement (u_id u) (w_advs w) of
                      None \<Rightarrow> w
                    | Some adv \<Rightarrow> update_advs (\<lambda>a. snd (UnsafeRemovePeer (adv_id adv) (u_id u) a)) w);
              w2 = Logout_channels u (sd_clientLibVersion sess) (map fst (ReadOnlyOrderedMap_Iter (w_channels w1))) w1;
              w3 = ChangePresence (sd_clientLibVersion sess) (GetPlatformPath u) 0 w2;
              title = w_title w;
              w4 = (if title = AoE3 \<or> title = AoE4 \<or> title = AoM
                    then send_online (filter (\<lambda>i. i \<noteq> u_id u) (GetUserIds (w_users w3))) ''FriendClearMessage''
                      (\<lambda>_. [JArr (EncodeProfileInfo (sd_clientLibVersion sess) (user_at w3 (GetPlatformPath u))), JInt 0]) w3
                    else w3);
              w5 = update_sessions (MainSessions_Delete (sd_id sess)) w4
          in (HReturn, JSON [JInt 0] w5))"

section \<open>platformlogin.go\<close>

text \<open>\<open>t\<close> is the JSON text of the time.\<close>

definition PlatformLoginError :: "string \<Rightarrow> World \<Rightarrow> World" where
  "PlatformLoginError t w =
     JSON [JInt 2, JStr [], JInt 0, JStr t, JArr [], JArr [], JInt 0, JInt 0, JNull, JNull, JArr [], JArr [], JInt 0, JArr []] w"

text \<open>The battle servers, or a local default if there is none.\<close>

definition login_servers :: "Env \<Rightarrow> World \<Rightarrow> goA" where
  "login_servers env w =
     (let bss = g_battleServers (w_game w);
          servers = BattleServers_Encode (e_net env) bss
      in if servers = []
         then let s1 = (NewBattleServer bss [])\<lparr>bsv_IPv4 := ''127.0.0.1'', bsv_BsPort := 27012, bsv_WebSocketPort := 27112\<rparr>;
                  s2 = (if w_title w \<noteq> AoE1 then s1\<lparr>bsv_Name := ''localhost'', bsv_OutOfBandPort := 27212\<rparr> else s1)
              in [JArr (EncodeLogin (e_net env) s2)]
         else servers)"

text \<open>The user's old session goes and a new one is created (\<open>None\<close>: the call never returns).\<close>

definition login_session :: "Env \<Rightarrow> string \<Rightarrow> uint16 \<Rightarrow> World \<Rightarrow> string option \<times> World" where
  "login_session env k clientLibVersion w =
     (let u = user_at w k;
          w1 = (case MainSessions_GetByUserId (w_sessions w) (u_id u) of
                  None \<Rightarrow> w
                | Some sess \<Rightarrow> update_sessions (MainSessions_Delete (sd_id sess)) w)
      in case MainSessions_Create (e_nowNs env) (e_sessionDraws env) (u_id u) clientLibVersion (w_sessions w1) of
           None \<Rightarrow> (None, w1)
         | Some (sessionId, ss) \<Rightarrow> (Some sessionId, update_sessions (\<lambda>_. ss) w1))"

text \<open>The presence changes and the others are told.\<close>

definition login_notify :: "string \<Rightarrow> uint16 \<Rightarrow> World \<Rightarrow> World" where
  "login_notify k clientLibVersion w =
     (let w1 = ChangePresence clientLibVersion k 1 w;
          u = user_at w1 k; title = w_title w
      in if title = AoE3 \<or> title = AoM \<or> title = AoE4
         then send_online (filter (\<lambda>i. i \<noteq> u_id u) (GetUserIds (w_users w1))) ''FriendAcceptMessage''
                (\<lambda>_. [JArr (EncodeProfileInfo clientLibVersion u)]) w1
         else w1)"

definition login_profile :: "uint16 \<Rightarrow> MainUser \<Rightarrow> jv \<Rightarrow> World \<Rightarrow> goA" where
  "login_profile clientLibVersion u avatarStats w =
     [JInt 0, JArr (EncodeProfileInfo clientLibVersion u),
      JArr (Relationships (w_title w) clientLibVersion (w_users w) u (g_presence (w_game w))),
      JArr (if w_title w = AoE2 then [JArr (EncodeExtraProfileInfo clientLibVersion u)] else []),
      avatarStats, JNull, JArr [], JNull, JInt 1]
     @ (if w_title w \<noteq> AoE1 then [JArr []] else [])
     @ (if 193 \<le> clientLibVersion then [JInt (-1)] else [])"

definition login_response :: "Env \<Rightarrow> int \<Rightarrow> string \<Rightarrow> MainUser \<Rightarrow> goA \<Rightarrow> goA \<Rightarrow> World \<Rightarrow> goA" where
  "login_response env t sessionId u profileInfo allProfileInfo w =
     [JInt 0, JStr sessionId, JInt 549000000, JInt t,
      JArr [j32 (u_profileId u), JStr (GetPlatformPath u), JInt (GetPlatformId u), JInt (-1), JInt 0, JStr ''en'', JStr ''eur'', JInt 2, JNull],
      JArr [JArr profileInfo], JInt 0, JInt 0, JNull]
     @ (if w_title w = AoE1 then [JArr []] else [])
     @ [JArr (g_loginData (w_game w)), JArr allProfileInfo, JArr [], JInt 0, JArr (login_servers env w)]"

text \<open>\<open>t\<close> is the time and \<open>k\<close> the user that the middleware put into the context.\<close>

definition Platformlogin :: "Env \<Rightarrow> int \<Rightarrow> string \<Rightarrow> uint16 \<Rightarrow> World \<Rightarrow> exit \<times> World" where
  "Platformlogin env t k clientLibVersion w =
     (case login_session env k clientLibVersion w of
        (None, w1) \<Rightarrow> (HHang, w1)
      | (Some sessionId, w1) \<Rightarrow>
          let w2 = login_notify k clientLibVersion w1;
              u = user_at w2 k
          in (case (if w_title w2 = AoE1 then Ret JNull
                    else (case EncodeAvatarStats u of Panic \<Rightarrow> Panic | Ret a \<Rightarrow> Ret (JArr a))) of
                Panic \<Rightarrow> (HPanic, w2)
              | Ret avatarStats \<Rightarrow>
                  (HReturn, JSON (login_response env t sessionId u (EncodeProfileInfo clientLibVersion u)
                     (login_profile clientLibVersion u avatarStats w2) w2) w2)))"

section \<open>readSession.go\<close>

text \<open>
  The response is the acknowledgement number, a comma and the JSON of the list of messages; the list is
  nil if the wait ended without one.  \<open>None\<close> is a call that is still waiting.
\<close>

definition ReadSession :: "nat option \<Rightarrow> SessionData \<Rightarrow> wait_event list \<Rightarrow> ((nat \<times> jv) \<times> SessionData) option" where
  "ReadSession bound sess evs =
     (case bound of
        None \<Rightarrow> Some ((0, JArr [JArr []]), sess)
      | Some ack \<Rightarrow>
          map_option (\<lambda>(messageId, messages, sess').
              ((messageId, JArr [jslice (if messages = [] then None else Some (map JArr messages))]), sess'))
            (WaitForMessages ack sess evs))"

end
