(* ===== verification/LoginProps.thy ===== *)
theory LoginProps
  imports LoginRoutes
begin

text \<open>
  What logging in and out leave behind: one session for every user, no lobby and no channel for a
  user who logged out.
\<close>

section \<open>The sessions of the users\<close>

text \<open>Every session knows its identifier, and a user has at most one.\<close>

definition sessions_wf :: "MainSessions \<Rightarrow> bool" where
  "sessions_wf s \<longleftrightarrow> BaseSessions_wf s
     \<and> (\<forall>i d. MainSessions_GetById s i = Some d \<longrightarrow> sd_id d = i)
     \<and> (\<forall>i j d e. MainSessions_GetById s i = Some d \<and> MainSessions_GetById s j = Some e \<and> sd_userId d = sd_userId e \<longrightarrow> i = j)"

lemma sessions_wfD:
  assumes "sessions_wf s"
  shows "BaseSessions_wf s" and "MainSessions_GetById s i = Some d \<Longrightarrow> sd_id d = i"
    and "MainSessions_GetById s i = Some d \<Longrightarrow> MainSessions_GetById s j = Some e \<Longrightarrow> sd_userId d = sd_userId e \<Longrightarrow> i = j"
  using assms unfolding sessions_wf_def by blast+

lemma sessions_wf_Initialize [simp]: "sessions_wf MainSessions_Initialize"
  using BaseSessions_wf_new [of sessionDuration]
  by (simp add: sessions_wf_def MainSessions_GetById_def MainSessions_Initialize_def) (simp add: BaseSessions_Get_def NewBaseSessions_def)

lemma GetById_Delete:
  "BaseSessions_wf s \<Longrightarrow> MainSessions_GetById (MainSessions_Delete i s) = (MainSessions_GetById s)(i := None)"
  by (auto simp: MainSessions_GetById_def MainSessions_Delete_def BaseSessions_Delete_def BaseSessions_Get_def
      BaseSessions_wf_def SafeMap_Load_Delete fun_eq_iff)

lemma sessions_wf_Delete [inv_intros]: "sessions_wf s \<Longrightarrow> sessions_wf (MainSessions_Delete i s)"
  unfolding sessions_wf_def using BaseSessions_wf_Delete [of s i]
  by (auto simp: GetById_Delete MainSessions_Delete_def [symmetric])

lemma GetByUserId_GetById:
  assumes "BaseSessions_wf s"
  shows "MainSessions_GetByUserId s u = Some d \<Longrightarrow> sd_userId d = u \<and> (\<exists>i. MainSessions_GetById s i = Some d)"
    and "MainSessions_GetByUserId s u = None \<Longrightarrow> MainSessions_GetById s i = Some e \<Longrightarrow> sd_userId e \<noteq> u"
proof -
  assume "MainSessions_GetByUserId s u = Some d"
  then have m: "d \<in> set (map bs_data (BaseSessions_Values s)) \<and> sd_userId d = u"
    unfolding MainSessions_GetByUserId_def by (rule find_Some_mem)
  then obtain b where "b \<in> set (BaseSessions_Values s)" and d: "d = bs_data b" by auto
  then have "BaseSessions_Get s (bs_id b) = Some b" by (simp add: BaseSessions_Values_mem [OF assms])
  with m d show "sd_userId d = u \<and> (\<exists>i. MainSessions_GetById s i = Some d)" by (auto simp: MainSessions_GetById_def)
next
  assume n: "MainSessions_GetByUserId s u = None" and "MainSessions_GetById s i = Some e"
  then obtain b where b: "BaseSessions_Get s i = Some b" and e: "e = bs_data b" by (auto simp: MainSessions_GetById_def)
  then have "b \<in> set (BaseSessions_Values s)"
    by (simp add: BaseSessions_Values_mem [OF assms] BaseSessions_Get_id [OF assms b])
  with n e show "sd_userId e \<noteq> u" by (auto simp: MainSessions_GetByUserId_def find_None)
qed

lemma GetByUserId_unique:
  assumes "sessions_wf s" and "MainSessions_GetById s i = Some d"
  shows "MainSessions_GetByUserId s (sd_userId d) = Some d"
proof (cases "MainSessions_GetByUserId s (sd_userId d)")
  case None
  with GetByUserId_GetById(2) [OF sessions_wfD(1) [OF assms(1)] None assms(2)] show ?thesis by simp
next
  case (Some e)
  with GetByUserId_GetById(1) [OF sessions_wfD(1) [OF assms(1)] Some] obtain j where
    "sd_userId e = sd_userId d" "MainSessions_GetById s j = Some e" by blast
  with sessions_wfD(3) [OF assms(1) assms(2), of j e] assms(2) Some show ?thesis by simp
qed

lemma MainSessions_Create_spec:
  assumes "BaseSessions_wf s"
  shows "(MainSessions_Create now draws u v s = None) = (MainSessions_GetById s (generateSessionId draws) \<noteq> None)"
    and "MainSessions_Create now draws u v s = Some (i, s') \<Longrightarrow>
      i = generateSessionId draws \<and> BaseSessions_wf s' \<and> MainSessions_GetById s i = None
      \<and> MainSessions_GetById s' = (MainSessions_GetById s)
          (i \<mapsto> \<lparr>sd_id = i, sd_clientLibVersion = v, sd_userId = u, sd_messageChan = []\<rparr>)"
proof -
  let ?d = "\<lparr>sd_id = generateSessionId draws, sd_clientLibVersion = v, sd_userId = u, sd_messageChan = []\<rparr>"
  have wf: "SafeMap_wf (bss_store s)" using assms by (simp add: BaseSessions_wf_def)
  note never = CreateSession_never [OF assms, of "\<lambda>_. generateSessionId draws" now ?d]
  note fresh = CreateSession_first_fresh [OF assms, of "\<lambda>_. generateSessionId draws" 0 now ?d]
  show none: "(MainSessions_Create now draws u v s = None) = (MainSessions_GetById s (generateSessionId draws) \<noteq> None)"
    using never fresh by (cases "BaseSessions_Get s (generateSessionId draws)")
      (simp_all add: MainSessions_Create_def MainSessions_GetById_def Let_def)
  assume c: "MainSessions_Create now draws u v s = Some (i, s')"
  then have n: "BaseSessions_Get s (generateSessionId draws) = None" using none by (simp add: MainSessions_GetById_def)
  from c obtain b where "CreateSession now (\<lambda>_. generateSessionId draws) ?d s = Some (b, s')"
    by (auto simp: MainSessions_Create_def Let_def split: option.splits)
  then have "BaseSessions_wf s'" by (rule BaseSessions_wf_Create [OF assms])
  then show "i = generateSessionId draws \<and> BaseSessions_wf s' \<and> MainSessions_GetById s i = None
      \<and> MainSessions_GetById s' = (MainSessions_GetById s)
          (i \<mapsto> \<lparr>sd_id = i, sd_clientLibVersion = v, sd_userId = u, sd_messageChan = []\<rparr>)"
    using c n fresh sm.look_ins [OF wf]
    by (auto simp: MainSessions_Create_def MainSessions_GetById_def BaseSessions_Get_def Let_def fun_eq_iff)
qed

lemma login_keeps [simp]:
  "w_sessions (ChangePresence v k p w) = w_sessions w" "w_advs (ChangePresence v k p w) = w_advs w"
  "w_channels (ChangePresence v k p w) = w_channels w" "w_title (ChangePresence v k p w) = w_title w"
  "w_users (ChangePresence v k p w) = SafeMap_modify k (SetPresence p) (w_users w)"
  "w_out (ChangePresence v k p w) = w_out w"
  by (simp_all add: ChangePresence_def NotifyChangePresence_def)

lemma login_notify_keeps [simp]:
  "w_sessions (login_notify k v w) = w_sessions w" "w_advs (login_notify k v w) = w_advs w"
  "w_users (login_notify k v w) = SafeMap_modify k (SetPresence 1) (w_users w)"
  "w_title (login_notify k v w) = w_title w"
  by (simp_all add: login_notify_def Let_def)

section \<open>Properties\<close>

lemma GetByUserId_iff:
  assumes "sessions_wf s"
  shows "MainSessions_GetByUserId s u = Some d \<longleftrightarrow> (\<exists>i. MainSessions_GetById s i = Some d) \<and> sd_userId d = u"
proof -
  have wf: "BaseSessions_wf s" using assms by (simp add: sessions_wf_def)
  show ?thesis using GetByUserId_GetById(1) [OF wf] GetByUserId_unique [OF assms] by metis
qed

lemma GetByUserId_cong:
  assumes "sessions_wf s" and "sessions_wf s'"
    and "\<And>i d. sd_userId d = u \<Longrightarrow> MainSessions_GetById s i = Some d \<longleftrightarrow> MainSessions_GetById s' i = Some d"
  shows "MainSessions_GetByUserId s u = MainSessions_GetByUserId s' u"
proof -
  have "MainSessions_GetByUserId s u = Some d \<longleftrightarrow> MainSessions_GetByUserId s' u = Some d" for d
    unfolding GetByUserId_iff [OF assms(1)] GetByUserId_iff [OF assms(2)] using assms(3) by blast
  then show ?thesis by (metis option.exhaust)
qed

text \<open>The sessions without a user's: what a login starts from.\<close>

definition without_user :: "int32 \<Rightarrow> MainSessions \<Rightarrow> MainSessions" where
  "without_user u s = (case MainSessions_GetByUserId s u of None \<Rightarrow> s | Some d \<Rightarrow> MainSessions_Delete (sd_id d) s)"

lemma without_user:
  assumes "sessions_wf s"
  shows "sessions_wf (without_user u s)"
    and "MainSessions_GetById (without_user u s) i = Some d \<longleftrightarrow> MainSessions_GetById s i = Some d \<and> sd_userId d \<noteq> u"
proof -
  have wf: "BaseSessions_wf s" using assms by (simp add: sessions_wf_def)
  show "sessions_wf (without_user u s)"
    using sessions_wf_Delete [OF assms] assms by (cases "MainSessions_GetByUserId s u") (simp_all add: without_user_def)
  show "MainSessions_GetById (without_user u s) i = Some d \<longleftrightarrow> MainSessions_GetById s i = Some d \<and> sd_userId d \<noteq> u"
  proof (cases "MainSessions_GetByUserId s u")
    case None
    then show ?thesis using GetByUserId_GetById(2) [OF wf None] by (auto simp: without_user_def)
  next
    case (Some e)
    then obtain j where "MainSessions_GetById s j = Some e" and u: "sd_userId e = u"
      using GetByUserId_GetById(1) [OF wf] by blast
    then have e: "MainSessions_GetById s (sd_id e) = Some e" using sessions_wfD(2) [OF assms] by metis
    have g: "MainSessions_GetById (without_user u s) = (MainSessions_GetById s)(sd_id e := None)"
      using Some by (simp add: without_user_def GetById_Delete [OF wf])
    show ?thesis
    proof (cases "i = sd_id e")
      case True
      then show ?thesis using e u by (auto simp: g)
    next
      case False
      have "sd_userId d \<noteq> u" if m: "MainSessions_GetById s i = Some d"
      proof
        assume "sd_userId d = u"
        then show False using sessions_wfD(3) [OF assms m e] u False by simp
      qed
      with False show ?thesis by (auto simp: g)
    qed
  qed
qed

lemma sessions_wf_create:
  assumes "sessions_wf s" and "\<And>i d. MainSessions_GetById s i = Some d \<Longrightarrow> sd_userId d \<noteq> u"
    and "MainSessions_Create now draws u v s = Some (i, s')"
  shows "sessions_wf s'"
proof -
  have wf: "BaseSessions_wf s" using assms(1) by (simp add: sessions_wf_def)
  from MainSessions_Create_spec(2) [OF wf assms(3)] assms(1,2) show ?thesis
    unfolding sessions_wf_def by auto
qed

lemma Platformlogin_sessions:
  assumes "SafeMap_Load (w_users w) k = Some u"
  shows "fst (Platformlogin env t k v w) = HHang \<longleftrightarrow>
      MainSessions_Create (e_nowNs env) (e_sessionDraws env) (u_id u) v (without_user (u_id u) (w_sessions w)) = None"
    and "w_sessions (snd (Platformlogin env t k v w)) =
      (case MainSessions_Create (e_nowNs env) (e_sessionDraws env) (u_id u) v (without_user (u_id u) (w_sessions w)) of
         None \<Rightarrow> without_user (u_id u) (w_sessions w) | Some (i, s') \<Rightarrow> s')"
    and "fst (Platformlogin env t k v w) \<noteq> HHang \<Longrightarrow>
      w_users (snd (Platformlogin env t k v w)) = SafeMap_modify k (SetPresence 1) (w_users w)"
  using assms
  by (auto simp: Platformlogin_def login_session_def without_user_def user_at_def Let_def split: option.splits outcome.splits)

text \<open>
  C2: a user who logs in has exactly one session afterwards, the new one: the old one, if there was
  any, is gone, every other user keeps its own, and the user's presence is 1.  The login hangs exactly
  if the identifier drawn is that of another session that stays.
\<close>

theorem Platformlogin_one_session:
  assumes "sessions_wf (w_sessions w)" and "SafeMap_Load (w_users w) k = Some u"
  shows "let r = Platformlogin env t k v w; i = generateSessionId (e_sessionDraws env) in
      (fst r = HHang) = (\<exists>d. MainSessions_GetById (w_sessions w) i = Some d \<and> sd_userId d \<noteq> u_id u)
    \<and> sessions_wf (w_sessions (snd r))
    \<and> (\<forall>x. x \<noteq> u_id u \<longrightarrow> MainSessions_GetByUserId (w_sessions (snd r)) x = MainSessions_GetByUserId (w_sessions w) x)
    \<and> (fst r \<noteq> HHang \<longrightarrow>
          map_option sd_id (MainSessions_GetByUserId (w_sessions (snd r)) (u_id u)) = Some i
        \<and> map_option u_presence (SafeMap_Load (w_users (snd r)) k) = Some 1)"
proof -
  let ?s0 = "without_user (u_id u) (w_sessions w)" and ?i = "generateSessionId (e_sessionDraws env)"
  note s0 = without_user [OF assms(1), of "u_id u"]
  have wf0: "BaseSessions_wf ?s0" using s0(1) by (simp add: sessions_wf_def)
  note p = Platformlogin_sessions [OF assms(2), of env t v]
  note c = MainSessions_Create_spec [OF wf0, of "e_nowNs env" "e_sessionDraws env" "u_id u" v]
  have hang: "(fst (Platformlogin env t k v w) = HHang) = (\<exists>d. MainSessions_GetById (w_sessions w) ?i = Some d \<and> sd_userId d \<noteq> u_id u)"
    unfolding p(1) c(1) using s0(2) by auto
  have pres: "map_option u_presence (SafeMap_Load (SafeMap_modify k (SetPresence 1) (w_users w)) k) = Some 1"
    using assms(2) by (simp add: SafeMap_Load_modify SetPresence_def)
  show ?thesis
  proof (cases "MainSessions_Create (e_nowNs env) (e_sessionDraws env) (u_id u) v ?s0")
    case None
    then have h: "fst (Platformlogin env t k v w) = HHang" and ws: "w_sessions (snd (Platformlogin env t k v w)) = ?s0"
      by (simp_all add: p)
    have "MainSessions_GetByUserId ?s0 x = MainSessions_GetByUserId (w_sessions w) x" if "x \<noteq> u_id u" for x
      by (rule GetByUserId_cong [OF s0(1) assms(1)]) (use that s0(2) in auto)
    then show ?thesis using hang h s0(1) by (simp add: Let_def ws)
  next
    case (Some r)
    obtain i s' where r: "r = (i, s')" by fastforce
    note cr = c(2) [OF Some [unfolded r]]
    have wf': "sessions_wf s'" by (rule sessions_wf_create [OF s0(1) _ Some [unfolded r]]) (use s0(2) in auto)
    have h: "fst (Platformlogin env t k v w) \<noteq> HHang" and ws: "w_sessions (snd (Platformlogin env t k v w)) = s'"
      using Some r by (simp_all add: p)
    have "MainSessions_GetByUserId s' x = MainSessions_GetByUserId (w_sessions w) x" if x: "x \<noteq> u_id u" for x
    proof (rule GetByUserId_cong [OF wf' assms(1)])
      fix j and d :: SessionData
      assume d: "sd_userId d = x"
      then have "MainSessions_GetById s' j = Some d \<longleftrightarrow> MainSessions_GetById ?s0 j = Some d"
        using cr x by (cases "j = i") auto
      also have "\<dots> \<longleftrightarrow> MainSessions_GetById (w_sessions w) j = Some d" using s0(2) d x by blast
      finally show "MainSessions_GetById s' j = Some d \<longleftrightarrow> MainSessions_GetById (w_sessions w) j = Some d" .
    qed
    moreover have "map_option sd_id (MainSessions_GetByUserId s' (u_id u)) = Some ?i"
      using GetByUserId_unique [OF wf', of i] cr by simp
    ultimately show ?thesis using hang h wf' p(3) [OF h] pres by (simp add: Let_def ws)
  qed
qed

theorem Platformlogin_one_session_witness:
  "fst (Platformlogin example_env 5 ''/steam/3'' 190 example_world) \<noteq> HHang
   \<and> map_option sd_userId (MainSessions_GetByUserId (w_sessions (snd (Platformlogin example_env 5 ''/steam/3'' 190 example_world))) 3) = Some 3"
proof -
  have u: "SafeMap_Load (w_users example_world) ''/steam/3'' = Some (example_user 3 3)"
    by (simp add: example_world_def SafeMap_Load_def)
  have s: "sessions_wf (w_sessions example_world)" by simp
  have n: "MainSessions_GetById (w_sessions example_world) x = None" for x
    by (simp add: MainSessions_GetById_def MainSessions_Initialize_def BaseSessions_Get_def NewBaseSessions_def)
  note t = Platformlogin_one_session [OF s u, of example_env 5 190, unfolded Let_def n]
  then have h: "fst (Platformlogin example_env 5 ''/steam/3'' 190 example_world) \<noteq> HHang" by simp
  moreover obtain d where "MainSessions_GetByUserId (w_sessions (snd (Platformlogin example_env 5 ''/steam/3'' 190 example_world))) 3 = Some d"
    using t h by auto
  ultimately show ?thesis using GetByUserId_user by fastforce
qed

lemma Logout_channels_keeps [simp]:
  "w_sessions (Logout_channels u v ids w) = w_sessions w" "w_advs (Logout_channels u v ids w) = w_advs w"
  "w_users (Logout_channels u v ids w) = w_users w"
  by (induction ids arbitrary: w)
    (auto simp: NotifyLeaveChannel_def split_def Let_def split: option.split)

lemma Logout_channels_members:
  assumes "channels_wf (w_channels w)"
  shows "channels_wf (w_channels (Logout_channels u v ids w))
    \<and> channel_members (w_channels (Logout_channels u v ids w)) j =
      (if j \<in> set ids then removeAll (u_id u) (channel_members (w_channels w) j) else channel_members (w_channels w) j)"
  using assms
proof (induction ids arbitrary: w)
  case (Cons i ids)
  show ?case
  proof (cases "ChatChannels_GetById (w_channels w) i")
    case None
    then show ?thesis using Cons.IH [OF Cons.prems] by (auto simp: channel_members_def)
  next
    case (Some c)
    have c: "ch_Id c = i" "SafeOrderedMap_wf (ch_users c)" using Cons.prems Some by (auto simp: channels_wf_def)
    note d = RemoveUser_spec [OF c(2), of u]
    let ?w1 = "update_channels (ChatChannels_modify i (\<lambda>_. snd (ChatChannel_RemoveUser u c))) w"
    let ?w2 = "if fst (ChatChannel_RemoveUser u c) then NotifyLeaveChannel u i v ?w1 else ?w1"
    have ch: "w_channels ?w2 = ChatChannels_modify i (\<lambda>_. snd (ChatChannel_RemoveUser u c)) (w_channels w)"
      by (simp add: NotifyLeaveChannel_def)
    have wf2: "channels_wf (w_channels ?w2)"
      unfolding ch by (rule channels_wf_modify [OF Cons.prems]) (simp add: d c)
    have m: "channel_members (w_channels ?w2) j =
        (if j = i then removeAll (u_id u) (channel_members (w_channels w) j) else channel_members (w_channels w) j)"
      unfolding ch using Some by (simp add: channel_members_def GetById_modify d)
    have "Logout_channels u v (i # ids) w = Logout_channels u v ids ?w2"
      using Some by (simp add: split_def Let_def)
    then show ?thesis using Cons.IH [OF wf2] m by auto
  qed
qed simp

lemma Logout_effect:
  assumes "GetUserById (w_users w) (sd_userId sess) = Some u"
  defines "w1 \<equiv> (case GetUserAdvertisement (u_id u) (w_advs w) of None \<Rightarrow> w
                   | Some adv \<Rightarrow> update_advs (removePeer (adv_id adv) (u_id u)) w)"
  shows "fst (Logout sess w) = HReturn"
    and "w_advs (snd (Logout sess w)) = w_advs w1"
    and "w_users (snd (Logout sess w)) = SafeMap_modify (GetPlatformPath u) (SetPresence 0) (w_users w)"
    and "w_sessions (snd (Logout sess w)) = MainSessions_Delete (sd_id sess) (w_sessions w)"
    and "w_channels (snd (Logout sess w)) = w_channels (Logout_channels u (sd_clientLibVersion sess)
           (map fst (ReadOnlyOrderedMap_Iter (w_channels w))) w1)"
proof -
  have k: "w_users w1 = w_users w" "w_sessions w1 = w_sessions w" "w_channels w1 = w_channels w"
    by (auto simp: w1_def split: option.split)
  have e: "snd (Logout sess w) = JSON [JInt 0] (update_sessions (MainSessions_Delete (sd_id sess))
      (let w3 = ChangePresence (sd_clientLibVersion sess) (GetPlatformPath u) 0 (Logout_channels u (sd_clientLibVersion sess)
           (map fst (ReadOnlyOrderedMap_Iter (w_channels w1))) w1)
       in if w_title w = AoE3 \<or> w_title w = AoE4 \<or> w_title w = AoM
          then send_online (filter (\<lambda>i. i \<noteq> u_id u) (GetUserIds (w_users w3))) ''FriendClearMessage''
            (\<lambda>_. [JArr (EncodeProfileInfo (sd_clientLibVersion sess) (user_at w3 (GetPlatformPath u))), JInt 0]) w3
          else w3))"
    and h: "fst (Logout sess w) = HReturn"
    by (simp_all only: Logout_def assms(1) option.case Let_def w1_def snd_conv fst_conv)
  show "fst (Logout sess w) = HReturn" by (rule h)
  show "w_advs (snd (Logout sess w)) = w_advs w1"
    "w_users (snd (Logout sess w)) = SafeMap_modify (GetPlatformPath u) (SetPresence 0) (w_users w)"
    "w_sessions (snd (Logout sess w)) = MainSessions_Delete (sd_id sess) (w_sessions w)"
    "w_channels (snd (Logout sess w)) = w_channels (Logout_channels u (sd_clientLibVersion sess)
           (map fst (ReadOnlyOrderedMap_Iter (w_channels w))) w1)"
    unfolding e by (simp_all add: Let_def k)
qed



end
