(* ===== verification/Wss.thy ===== *)
theory Wss
  imports World
begin

text \<open>
  The web-socket connections (\<open>routes/wss/wss.go\<close>): the handler \<open>Handle\<close> of each connection, the
  goroutine \<open>SendOrStoreMessage\<close> starts for each message, and what they share: the map of connections, the
  sessions and the two locks of every \<open>connectionWrapper\<close>.  Each handler and each goroutine is a program
  counter; one event is one step between two accesses to shared data, so every interleaving is a list of
  events.  A step that has to wait is not enabled (\<open>None\<close>).

  Go's \<open>RWMutex\<close> lets no new reader in while a writer waits, and a goroutine that holds the read lock
  waits for itself when it asks for the write lock.  The messages are decoded JSON objects; the bytes on
  the wire and the traffic log are not modelled.
\<close>

section \<open>Messages from the client\<close>

text \<open>
  \<open>parseMessage\<close>.  \<open>Panic\<close> is a failed type assertion (an absent key of a Go map is the nil interface).  The
  conversion \<open>uint32(float64)\<close> of a number that does not fit depends on the machine: \<open>conv\<close>.
\<close>

definition parseMessage ::
    "(int \<Rightarrow> uint32) \<Rightarrow> MainSessions \<Rightarrow> (string \<times> jv) list \<Rightarrow> SessionData option
       \<Rightarrow> (uint32 \<times> SessionData option) outcome" where
  "parseMessage conv sessions message currentSession =
     (case map_of message ''operation'' of
        Some (JInt n) \<Rightarrow>
          let op = (if 0 \<le> n \<and> n < 2 ^ 32 then word_of_int n else conv n);
              rest = (case currentSession of
                        None \<Rightarrow> Ret (op, None)
                      | Some c \<Rightarrow> (case MainSessions_GetById sessions (sd_id c) of
                                     None \<Rightarrow> Ret (0, None)
                                   | Some s \<Rightarrow> Ret (op, Some s)))
          in if op = 0
             then (case map_of message ''sessionToken'' of
                     None \<Rightarrow> rest
                   | Some (JStr t) \<Rightarrow> Ret (0, MainSessions_GetById sessions t)
                   | Some _ \<Rightarrow> Panic)
             else rest
      | _ \<Rightarrow> Panic)"

section \<open>State\<close>

text \<open>
  \<open>conn\<close> and \<open>writeLock\<close> say whether the pointer is still there (\<open>Close\<close> sets both to nil), \<open>cw_held\<close> that a
  sender holds the write lock, \<open>cw_readers\<close> and \<open>cw_closing\<close> the readers of \<open>connLock\<close> and a waiting writer.
\<close>

record connectionWrapper =
  cw_conn :: bool
  cw_writeLock :: bool
  cw_held :: bool
  cw_readers :: nat
  cw_closing :: bool

text \<open>The variables of \<open>Handle\<close>: before the login message, or the token and session of the loop.\<close>

datatype ws_vars = AtLogin | AtLoop string SessionData

datatype ws_pc =
    WsNew                                  \<comment> \<open>not connected\<close>
  | WsIdle ws_vars                         \<comment> \<open>about to call \<open>ReadJSON\<close>\<close>
  | WsReading ws_vars                      \<comment> \<open>in \<open>ReadJSON\<close>, with the read lock of \<open>connLock\<close>\<close>
  | WsParse ws_vars "(string \<times> jv) list"   \<comment> \<open>about to call \<open>parseMessage\<close>\<close>
  | WsStore SessionData                    \<comment> \<open>about to store the connection\<close>
  | WsMove string SessionData              \<comment> \<open>about to store it under another session\<close>
  | WsCheck string "SessionData option"    \<comment> \<open>about to look for the session of the token\<close>
  | WsReset string SessionData             \<comment> \<open>about to reset the expiry\<close>
  | WsDefer string                         \<comment> \<open>left the loop: the deferred function deletes the entry\<close>
  | WsClosing                              \<comment> \<open>about to call \<open>closeConn\<close>\<close>
  | WsLocking "ws_vars option"             \<comment> \<open>\<open>Close\<close> waits for \<open>connLock\<close>; \<open>Some\<close>: inside \<open>ReadJSON\<close>\<close>
  | WsDone
  | WsLeaked                               \<comment> \<open>panicked before the deferred function was set\<close>

datatype ws_sender =
    SNew
  | SLoad string goA                       \<comment> \<open>about to look the connection up\<close>
  | SLock nat string goA                   \<comment> \<open>about to take its write lock\<close>
  | SRead nat string goA                   \<comment> \<open>about to take the read lock of \<open>connLock\<close> in \<open>WriteJSON\<close>\<close>
  | SWriting nat string goA
  | SAddr nat nat                          \<comment> \<open>\<open>LocalAddr\<close>, \<open>RemoteAddr\<close>: the read lock once more for each\<close>
  | SStore string goA                      \<comment> \<open>about to call \<open>AddMessage\<close>\<close>
  | SSent nat
  | SStored
  | SLost                                  \<comment> \<open>reported as sent, but there was no connection\<close>

record WsHub =
  hub_sessions :: MainSessions
  hub_connections :: "(string, nat) SafeMap"
  hub_wrappers :: "nat \<Rightarrow> connectionWrapper"
  hub_handlers :: "nat \<Rightarrow> ws_pc"
  hub_senders :: "nat \<Rightarrow> ws_sender"
  hub_crashed :: bool

definition new_wrapper :: connectionWrapper where
  "new_wrapper = \<lparr>cw_conn = True, cw_writeLock = True, cw_held = False, cw_readers = 0, cw_closing = False\<rparr>"

definition ws_init :: "MainSessions \<Rightarrow> WsHub" where
  "ws_init ss = \<lparr>hub_sessions = ss, hub_connections = NewSafeMap, hub_wrappers = (\<lambda>_. new_wrapper),
     hub_handlers = (\<lambda>_. WsNew), hub_senders = (\<lambda>_. SNew), hub_crashed = False\<rparr>"

definition goto_h :: "nat \<Rightarrow> ws_pc \<Rightarrow> WsHub \<Rightarrow> WsHub" where
  "goto_h c p h = h\<lparr>hub_handlers := (hub_handlers h)(c := p)\<rparr>"

definition goto_s :: "nat \<Rightarrow> ws_sender \<Rightarrow> WsHub \<Rightarrow> WsHub" where
  "goto_s g p h = h\<lparr>hub_senders := (hub_senders h)(g := p)\<rparr>"

definition wrap_upd :: "nat \<Rightarrow> (connectionWrapper \<Rightarrow> connectionWrapper) \<Rightarrow> WsHub \<Rightarrow> WsHub" where
  "wrap_upd c f h = h\<lparr>hub_wrappers := (hub_wrappers h)(c := f (hub_wrappers h c))\<rparr>"

abbreviation RUnlock_conn :: "nat \<Rightarrow> WsHub \<Rightarrow> WsHub" where
  "RUnlock_conn c \<equiv> wrap_upd c (\<lambda>r. r\<lparr>cw_readers := cw_readers r - 1\<rparr>)"

text \<open>\<open>Close\<close> once it has the write lock of \<open>connLock\<close>.\<close>

definition wrapper_Close :: "connectionWrapper \<Rightarrow> connectionWrapper" where
  "wrapper_Close r = r\<lparr>cw_conn := False, cw_writeLock := False, cw_closing := False\<rparr>"

text \<open>\<open>RLock\<close>: \<open>None\<close> while a writer waits.\<close>

definition RLock_conn :: "nat \<Rightarrow> WsHub \<Rightarrow> WsHub option" where
  "RLock_conn c h =
     (if cw_closing (hub_wrappers h c) then None
      else Some (wrap_upd c (\<lambda>r. r\<lparr>cw_readers := Suc (cw_readers r)\<rparr>) h))"

section \<open>The handler\<close>

datatype ws_event =
    Upgrade nat bool                       \<comment> \<open>a client connects; whether \<open>SetReadDeadline\<close> succeeds\<close>
  | StartRead nat
  | Message nat "(string \<times> jv) list"
  | ReadError nat                          \<comment> \<open>a failed read: the peer is gone, a deadline, invalid JSON\<close>
  | PeerClose nat                          \<comment> \<open>a close frame\<close>
  | Ping nat int
  | Handler nat int                        \<comment> \<open>the next internal step of a handler, at a time\<close>
  | Send nat string goA
  | Sender nat bool                        \<comment> \<open>the next step of a sender; whether a write succeeds\<close>
  | OtherSessions MainSessions             \<comment> \<open>logins, logouts, the sweeper: any change of the sessions\<close>

text \<open>What follows a message in the loop.\<close>

definition Handle_message ::
    "string \<Rightarrow> (uint32 \<times> SessionData option) outcome \<Rightarrow> ws_pc" where
  "Handle_message sessionToken r =
     (case r of
        Panic \<Rightarrow> WsDefer sessionToken
      | Ret (op, sess) \<Rightarrow>
          if op = 0
          then (case sess of
                  None \<Rightarrow> WsDefer sessionToken
                | Some s \<Rightarrow> if sd_id s \<noteq> sessionToken then WsMove sessionToken s else WsReset sessionToken s)
          else WsCheck sessionToken sess)"

definition Handle_login :: "(uint32 \<times> SessionData option) outcome \<Rightarrow> ws_pc" where
  "Handle_login r =
     (case r of
        Panic \<Rightarrow> WsLeaked
      | Ret (_, None) \<Rightarrow> WsClosing
      | Ret (_, Some s) \<Rightarrow> WsStore s)"

text \<open>
  The internal steps of \<open>Handle\<close>.  The last use of the session in the loop, \<open>sess.Id()\<close>, would panic on a nil
  session: the deferred function then runs as for any other way out of the loop.
\<close>

definition Handle_step :: "(int \<Rightarrow> uint32) \<Rightarrow> nat \<Rightarrow> int \<Rightarrow> WsHub \<Rightarrow> WsHub option" where
  "Handle_step conv c now h =
     (case hub_handlers h c of
        WsParse AtLogin msg \<Rightarrow>
          Some (goto_h c (Handle_login (parseMessage conv (hub_sessions h) msg None)) h)
      | WsParse (AtLoop tok s) msg \<Rightarrow>
          Some (goto_h c (Handle_message tok (parseMessage conv (hub_sessions h) msg (Some s))) h)
      | WsStore s \<Rightarrow>
          Some (goto_h c (WsReset (sd_id s) s)
            (h\<lparr>hub_connections := snd (SafeMap_Store (sd_id s) c None (hub_connections h))\<rparr>))
      | WsMove tok s \<Rightarrow>
          Some (goto_h c (WsReset (sd_id s) s)
            (h\<lparr>hub_connections := SafeMap_StoreAndDelete (sd_id s) c tok (hub_connections h)\<rparr>))
      | WsCheck tok so \<Rightarrow>
          Some (goto_h c
            (case MainSessions_GetById (hub_sessions h) tok of
               None \<Rightarrow> WsDefer tok
             | Some _ \<Rightarrow> (case so of None \<Rightarrow> WsDefer tok | Some s \<Rightarrow> WsReset tok s)) h)
      | WsReset tok s \<Rightarrow>
          Some (goto_h c (WsIdle (AtLoop tok s))
            (h\<lparr>hub_sessions := MainSessions_ResetExpiry now (sd_id s) (hub_sessions h)\<rparr>))
      | WsDefer tok \<Rightarrow>
          Some (goto_h c WsClosing (h\<lparr>hub_connections := SafeMap_Delete tok (hub_connections h)\<rparr>))
      | WsClosing \<Rightarrow>
          if cw_closing (hub_wrappers h c) then None
          else Some (goto_h c (WsLocking None) (wrap_upd c (\<lambda>r. r\<lparr>cw_closing := True\<rparr>) h))
      | WsLocking vs \<Rightarrow>
          if 0 < cw_readers (hub_wrappers h c) then None
          else Some (goto_h c (case vs of None \<Rightarrow> WsDone | Some v \<Rightarrow> WsReading v)
            (wrap_upd c wrapper_Close h))
      | _ \<Rightarrow> None)"

section \<open>The sender\<close>

text \<open>
  \<open>sendMessage\<close> and, when it fails, \<open>AddMessage\<close>.  Locking through a nil \<open>writeLock\<close> is a panic in a
  goroutine of its own: it ends the process.
\<close>

definition sendMessage_step :: "nat \<Rightarrow> bool \<Rightarrow> WsHub \<Rightarrow> WsHub option" where
  "sendMessage_step g ok h =
     (case hub_senders h g of
        SLoad sid m \<Rightarrow>
          Some (goto_s g (case SafeMap_Load (hub_connections h) sid of
                            None \<Rightarrow> SStore sid m | Some c \<Rightarrow> SLock c sid m) h)
      | SLock c sid m \<Rightarrow>
          if \<not> cw_writeLock (hub_wrappers h c) then Some (h\<lparr>hub_crashed := True\<rparr>)
          else if cw_held (hub_wrappers h c) then None
          else Some (goto_s g (SRead c sid m) (wrap_upd c (\<lambda>r. r\<lparr>cw_held := True\<rparr>) h))
      | SRead c sid m \<Rightarrow> map_option (goto_s g (SWriting c sid m)) (RLock_conn c h)
      | SWriting c sid m \<Rightarrow>
          if cw_conn (hub_wrappers h c) \<and> ok then Some (goto_s g (SAddr c 2) h)
          else Some (goto_s g (if cw_conn (hub_wrappers h c) then SStore sid m else SLost)
                 (RUnlock_conn c (wrap_upd c (\<lambda>r. r\<lparr>cw_held := False\<rparr>) h)))
      | SAddr c 0 \<Rightarrow> Some (goto_s g (SSent c) (RUnlock_conn c (wrap_upd c (\<lambda>r. r\<lparr>cw_held := False\<rparr>) h)))
      | SAddr c (Suc n) \<Rightarrow> if cw_closing (hub_wrappers h c) then None else Some (goto_s g (SAddr c n) h)
      | SStore sid m \<Rightarrow>
          (case MainSessions_GetById (hub_sessions h) sid of
             None \<Rightarrow> Some (goto_s g SStored h)
           | Some s \<Rightarrow>
               (case AddMessage m s of
                  None \<Rightarrow> None
                | Some s' \<Rightarrow> Some (goto_s g SStored
                    (h\<lparr>hub_sessions := (hub_sessions h)\<lparr>bss_store :=
                        SafeMap_modify sid (\<lambda>b. b\<lparr>bs_data := s'\<rparr>) (bss_store (hub_sessions h))\<rparr>\<rparr>))))
      | _ \<Rightarrow> None)"

section \<open>Steps and runs\<close>

text \<open>Nothing happens any more once the process has crashed.\<close>

definition ws_step :: "(int \<Rightarrow> uint32) \<Rightarrow> ws_event \<Rightarrow> WsHub \<Rightarrow> WsHub option" where
  "ws_step conv e h =
     (if hub_crashed h then None else
      case e of
        Upgrade c ok \<Rightarrow>
          if hub_handlers h c = WsNew then Some (goto_h c (if ok then WsIdle AtLogin else WsClosing) h) else None
      | StartRead c \<Rightarrow>
          (case hub_handlers h c of WsIdle v \<Rightarrow> map_option (goto_h c (WsReading v)) (RLock_conn c h) | _ \<Rightarrow> None)
      | Message c msg \<Rightarrow>
          (case hub_handlers h c of WsReading v \<Rightarrow> Some (goto_h c (WsParse v msg) (RUnlock_conn c h)) | _ \<Rightarrow> None)
      | ReadError c \<Rightarrow>
          (case hub_handlers h c of
             WsReading AtLogin \<Rightarrow> Some (goto_h c WsClosing (RUnlock_conn c h))
           | WsReading (AtLoop tok s) \<Rightarrow> Some (goto_h c (WsDefer tok) (RUnlock_conn c h))
           | _ \<Rightarrow> None)
      | PeerClose c \<Rightarrow>
          (case hub_handlers h c of
             WsReading v \<Rightarrow> Some (goto_h c (WsLocking (Some v)) (wrap_upd c (\<lambda>r. r\<lparr>cw_closing := True\<rparr>) h))
           | _ \<Rightarrow> None)
      | Ping c now \<Rightarrow>
          (case hub_handlers h c of
             WsReading (AtLoop tok s) \<Rightarrow>
               Some (h\<lparr>hub_sessions := MainSessions_ResetExpiry now (sd_id s) (hub_sessions h)\<rparr>)
           | _ \<Rightarrow> None)
      | Handler c now \<Rightarrow> Handle_step conv c now h
      | Send g sid m \<Rightarrow> if hub_senders h g = SNew then Some (goto_s g (SLoad sid m) h) else None
      | Sender g ok \<Rightarrow> sendMessage_step g ok h
      | OtherSessions ss \<Rightarrow> Some (h\<lparr>hub_sessions := ss\<rparr>))"

fun ws_run :: "(int \<Rightarrow> uint32) \<Rightarrow> ws_event list \<Rightarrow> WsHub \<Rightarrow> WsHub option" where
  "ws_run conv [] h = Some h"
| "ws_run conv (e # es) h = (case ws_step conv e h of None \<Rightarrow> None | Some h' \<Rightarrow> ws_run conv es h')"

inductive ws_reach :: "(int \<Rightarrow> uint32) \<Rightarrow> WsHub \<Rightarrow> WsHub \<Rightarrow> bool" for conv h0 where
  ws_start: "ws_reach conv h0 h0"
| ws_more: "ws_reach conv h0 h \<Longrightarrow> ws_step conv e h = Some h' \<Longrightarrow> ws_reach conv h0 h'"

end
