(* ===== verification/WssProps.thy ===== *)
theory WssProps
  imports Wss
begin

text \<open>
  Invariants of the web-socket connections and what they give: which connection a message can reach, and
  the three ways in which closing a connection goes wrong.
\<close>

section \<open>Invariants\<close>

text \<open>The variable \<open>sessionToken\<close> of a handler, once it has one.\<close>

fun vars_token :: "ws_vars \<Rightarrow> string option" where
  "vars_token AtLogin = None"
| "vars_token (AtLoop tok s) = Some tok"

fun ws_token :: "ws_pc \<Rightarrow> string option" where
  "ws_token (WsIdle v) = vars_token v"
| "ws_token (WsReading v) = vars_token v"
| "ws_token (WsParse v msg) = vars_token v"
| "ws_token (WsMove tok s) = Some tok"
| "ws_token (WsCheck tok so) = Some tok"
| "ws_token (WsReset tok s) = Some tok"
| "ws_token (WsDefer tok) = Some tok"
| "ws_token (WsLocking (Some v)) = vars_token v"
| "ws_token _ = None"

text \<open>Who holds the read lock of \<open>connLock\<close>.\<close>

fun h_reads :: "ws_pc \<Rightarrow> bool" where
  "h_reads (WsReading v) = True"
| "h_reads (WsLocking (Some v)) = True"
| "h_reads _ = False"

fun s_reads :: "ws_sender \<Rightarrow> nat option" where
  "s_reads (SWriting c sid m) = Some c"
| "s_reads (SAddr c n) = Some c"
| "s_reads _ = None"

definition registered_inv :: "WsHub \<Rightarrow> bool" where
  "registered_inv h \<longleftrightarrow> SafeMap_wf (hub_connections h)
     \<and> (\<forall>tok c. SafeMap_Load (hub_connections h) tok = Some c \<longrightarrow> ws_token (hub_handlers h c) = Some tok)
     \<and> (\<forall>c tok. hub_handlers h c \<noteq> WsCheck tok None)"

definition readers_inv :: "WsHub \<Rightarrow> bool" where
  "readers_inv h \<longleftrightarrow> (\<forall>c. finite {g. s_reads (hub_senders h g) = Some c} \<and>
     cw_readers (hub_wrappers h c) =
       (if h_reads (hub_handlers h c) then 1 else 0) + card {g. s_reads (hub_senders h g) = Some c})"

definition closing_inv :: "WsHub \<Rightarrow> bool" where
  "closing_inv h \<longleftrightarrow> (\<forall>c. cw_closing (hub_wrappers h c) = (\<exists>vs. hub_handlers h c = WsLocking vs))"

lemma goto_h_simps [simp]:
  "hub_handlers (goto_h c p h) = (hub_handlers h)(c := p)" "hub_connections (goto_h c p h) = hub_connections h"
  "hub_wrappers (goto_h c p h) = hub_wrappers h" "hub_senders (goto_h c p h) = hub_senders h"
  "hub_sessions (goto_h c p h) = hub_sessions h" "hub_crashed (goto_h c p h) = hub_crashed h"
  by (simp_all add: goto_h_def)

lemma goto_s_simps [simp]:
  "hub_senders (goto_s g q h) = (hub_senders h)(g := q)" "hub_connections (goto_s g q h) = hub_connections h"
  "hub_wrappers (goto_s g q h) = hub_wrappers h" "hub_handlers (goto_s g q h) = hub_handlers h"
  "hub_sessions (goto_s g q h) = hub_sessions h" "hub_crashed (goto_s g q h) = hub_crashed h"
  by (simp_all add: goto_s_def)

lemma wrap_upd_simps [simp]:
  "hub_wrappers (wrap_upd c f h) = (hub_wrappers h)(c := f (hub_wrappers h c))"
  "hub_connections (wrap_upd c f h) = hub_connections h" "hub_senders (wrap_upd c f h) = hub_senders h"
  "hub_handlers (wrap_upd c f h) = hub_handlers h" "hub_sessions (wrap_upd c f h) = hub_sessions h"
  "hub_crashed (wrap_upd c f h) = hub_crashed h"
  by (simp_all add: wrap_upd_def)

text \<open>A message in the loop never leaves a nil session behind, and never forgets the token.\<close>

lemma parse_some: "parseMessage conv ss msg (Some s) = Ret (op, so) \<Longrightarrow> op \<noteq> 0 \<Longrightarrow> so \<noteq> None"
  by (auto simp: parseMessage_def Let_def split: option.splits jv.splits if_splits) metis+

lemma Handle_message_token: "ws_token (Handle_message tok r) = Some tok"
  by (auto simp: Handle_message_def split: outcome.split option.split)

lemma Handle_message_check:
  "Handle_message tok (parseMessage conv ss msg (Some s)) \<noteq> WsCheck tok' None"
  using parse_some [of conv ss msg s] by (fastforce simp: Handle_message_def split: outcome.splits option.splits if_splits)

lemma Handle_message_reads [simp]: "\<not> h_reads (Handle_message tok r)" "Handle_message tok r \<noteq> WsLocking vs"
  by (auto simp: Handle_message_def split: outcome.split option.split)

lemma Handle_login_simps [simp]:
  "ws_token (Handle_login r) = None" "Handle_login r \<noteq> WsCheck tok so" "\<not> h_reads (Handle_login r)"
  "Handle_login r \<noteq> WsLocking vs"
  by (auto simp: Handle_login_def split: outcome.split option.split prod.split)

lemma RLock_conn_Some: "RLock_conn c h = Some h' \<Longrightarrow>
    \<not> cw_closing (hub_wrappers h c) \<and> h' = wrap_upd c (\<lambda>r. r\<lparr>cw_readers := Suc (cw_readers r)\<rparr>) h"
  by (simp add: RLock_conn_def split: if_splits)

text \<open>Senders change neither the handlers nor the entries.\<close>

lemma sender_keeps:
  assumes "sendMessage_step g ok h = Some h'"
  shows "hub_handlers h' = hub_handlers h \<and> hub_connections h' = hub_connections h"
  using assms by (auto simp: sendMessage_step_def split: ws_sender.splits if_splits option.splits nat.splits dest: RLock_conn_Some)

text \<open>The handlers' steps, on the two parts of the state the registration rests on.\<close>

lemma registered_keep [simp]:
  "registered_inv (wrap_upd c f h) = registered_inv h" "registered_inv (goto_s g q h) = registered_inv h"
  "registered_inv (h\<lparr>hub_sessions := ss\<rparr>) = registered_inv h" "registered_inv (h\<lparr>hub_crashed := b\<rparr>) = registered_inv h"
  by (simp_all add: registered_inv_def)

lemma registered_token: "registered_inv h \<Longrightarrow> SafeMap_Load (hub_connections h) tok = Some c \<Longrightarrow> ws_token (hub_handlers h c) = Some tok"
  by (simp add: registered_inv_def)

lemma registered_own:
  "registered_inv h \<Longrightarrow> SafeMap_Load (hub_connections h) t = Some c \<Longrightarrow> ws_token (hub_handlers h c) = Some tok \<Longrightarrow> t = tok"
  by (drule (1) registered_token) simp

lemma registered_goto:
  assumes "registered_inv h" and "ws_token (hub_handlers h c) = None \<or> ws_token p = ws_token (hub_handlers h c)"
    and "\<And>tok. p \<noteq> WsCheck tok None"
  shows "registered_inv (goto_h c p h)"
proof -
  have "ws_token (hub_handlers (goto_h c p h) c') = Some tok" if "SafeMap_Load (hub_connections h) tok = Some c'" for tok c'
    using registered_token [OF assms(1) that] assms(2) by auto
  with assms(1,3) show ?thesis by (simp add: registered_inv_def)
qed

lemma registered_store:
  assumes "registered_inv h" and "ws_token (hub_handlers h c) = None \<or> ws_token (hub_handlers h c) = Some del"
    and "SafeMap_wf m" and "SafeMap_Load m = (SafeMap_Load (hub_connections h))(t := Some c, del := None) \<and> t \<noteq> del
      \<or> SafeMap_Load m = (SafeMap_Load (hub_connections h))(t := Some c) \<and> ws_token (hub_handlers h c) = None"
  shows "registered_inv (goto_h c (WsReset t s) (h\<lparr>hub_connections := m\<rparr>))"
  using assms registered_token [OF assms(1)] unfolding registered_inv_def
  by (auto split: if_splits)

lemma registered_handler:
  assumes inv: "registered_inv h" and st: "Handle_step conv c now h = Some h'"
  shows "registered_inv h'"
proof (cases "hub_handlers h c")
  case (WsParse v msg)
  with st inv show ?thesis
    by (cases v) (auto simp: Handle_step_def wrapper_Close_def Handle_message_token Handle_message_check intro!: registered_goto)
next
  case (WsStore s)
  with inv have "registered_inv (goto_h c (WsReset (sd_id s) s)
      (h\<lparr>hub_connections := snd (SafeMap_Store (sd_id s) c None (hub_connections h))\<rparr>))"
    by (intro registered_store [where del = "[]"])
      (auto simp: SafeMap_Load_Store fun_eq_iff registered_inv_def split: option.splits)
  with st WsStore show ?thesis by (simp add: Handle_step_def wrapper_Close_def)
next
  case (WsMove tok s)
  show ?thesis
  proof (cases "sd_id s = tok")
    case True
    have "t = tok" if "SafeMap_Load (hub_connections h) t = Some c" for t
      by (rule registered_own [OF inv that]) (simp add: WsMove)
    with True inv WsMove st show ?thesis
      by (auto simp: Handle_step_def wrapper_Close_def registered_inv_def SafeMap_Load_StoreAndDelete split: if_splits)
  next
    case False
    with inv WsMove have "registered_inv (goto_h c (WsReset (sd_id s) s)
        (h\<lparr>hub_connections := SafeMap_StoreAndDelete (sd_id s) c tok (hub_connections h)\<rparr>))"
      by (intro registered_store [where del = tok]) (auto simp: SafeMap_Load_StoreAndDelete registered_inv_def)
    with st WsMove show ?thesis by (simp add: Handle_step_def wrapper_Close_def)
  qed
next
  case (WsDefer tok)
  have "t = tok" if "SafeMap_Load (hub_connections h) t = Some c" for t
    by (rule registered_own [OF inv that]) (simp add: WsDefer)
  with WsDefer inv st show ?thesis
    by (auto simp: Handle_step_def wrapper_Close_def registered_inv_def SafeMap_Load_Delete split: if_splits)
qed (use inv st in \<open>auto simp: Handle_step_def wrapper_Close_def intro!: registered_goto split: if_splits option.splits\<close>)

lemma registered_step:
  assumes "registered_inv h" and "ws_step conv e h = Some h'"
  shows "registered_inv h'"
proof (cases e)
  case (Handler c now)
  with assms registered_handler show ?thesis by (auto simp: ws_step_def split: if_splits)
next
  case (Sender g ok)
  with assms have "sendMessage_step g ok h = Some h'" by (simp add: ws_step_def split: if_splits)
  from sender_keeps [OF this] assms(1) show ?thesis by (simp add: registered_inv_def)
qed (use assms in \<open>auto simp: ws_step_def intro!: registered_goto dest!: RLock_conn_Some
      split: if_splits ws_pc.splits ws_vars.splits\<close>)

lemma registered_reach: "ws_reach conv (ws_init ss) h \<Longrightarrow> registered_inv h"
proof (induction rule: ws_reach.induct)
  case ws_start
  show ?case by (simp add: registered_inv_def ws_init_def)
qed (rule registered_step)

lemma closing_step:
  assumes "closing_inv h" and "ws_step conv e h = Some h'"
  shows "closing_inv h'"
  using assms
  by (cases e)
    (auto simp: ws_step_def closing_inv_def Handle_step_def wrapper_Close_def sendMessage_step_def dest!: RLock_conn_Some
      split: if_splits ws_pc.splits ws_vars.splits ws_sender.splits option.splits nat.splits)

lemma closing_reach: "ws_reach conv (ws_init ss) h \<Longrightarrow> closing_inv h"
proof (induction rule: ws_reach.induct)
  case ws_start
  show ?case by (simp add: closing_inv_def ws_init_def new_wrapper_def)
qed (rule closing_step)

subsection \<open>Who holds \<open>connLock\<close>\<close>

lemma readers_set:
  "{g'. s_reads (((hub_senders h)(g := q)) g') = Some c} =
     (if s_reads q = Some c then insert g {g'. s_reads (hub_senders h g') = Some c}
      else {g'. s_reads (hub_senders h g') = Some c} - {g})"
  by auto

text \<open>A handler's step that keeps, takes or gives back the read lock of its connection.\<close>

lemma readers_goto_h:
  assumes "readers_inv h"
    and "cw_readers (f (hub_wrappers h c)) + (if h_reads (hub_handlers h c) then 1 else 0)
      = cw_readers (hub_wrappers h c) + (if h_reads p then 1 else 0)"
  shows "readers_inv (goto_h c p (wrap_upd c f h))"
  using assms unfolding readers_inv_def by (auto split: if_splits)

lemma readers_goto_h_same:
  assumes "readers_inv h" and "h_reads p = h_reads (hub_handlers h c)"
  shows "readers_inv (goto_h c p h)"
  using assms unfolding readers_inv_def by auto

lemma readers_keep [simp]:
  "readers_inv (h\<lparr>hub_sessions := ss\<rparr>) = readers_inv h" "readers_inv (h\<lparr>hub_connections := m\<rparr>) = readers_inv h"
  "readers_inv (h\<lparr>hub_crashed := b\<rparr>) = readers_inv h"
  by (simp_all add: readers_inv_def)

lemma readers_goto_s:
  assumes "readers_inv h"
    and "s_reads (hub_senders h g) = None \<and> s_reads q = None \<and> (\<forall>r. cw_readers (f r) = cw_readers r)
       \<or> s_reads (hub_senders h g) = None \<and> s_reads q = Some c \<and> (\<forall>r. cw_readers (f r) = Suc (cw_readers r))
       \<or> s_reads (hub_senders h g) = Some c \<and> s_reads q = Some c \<and> (\<forall>r. cw_readers (f r) = cw_readers r)
       \<or> s_reads (hub_senders h g) = Some c \<and> s_reads q = None \<and> (\<forall>r. cw_readers (f r) = cw_readers r - 1)"
  shows "readers_inv (goto_s g q (wrap_upd c f h))"
proof -
  let ?S = "\<lambda>c'. {g'. s_reads (hub_senders h g') = Some c'}"
  have fin: "finite (?S c')" and cnt: "cw_readers (hub_wrappers h c') = (if h_reads (hub_handlers h c') then 1 else 0) + card (?S c')" for c'
    using assms(1) by (auto simp: readers_inv_def)
  have mem: "g \<in> ?S c' \<longleftrightarrow> s_reads (hub_senders h g) = Some c'" for c' by simp
  show ?thesis
    unfolding readers_inv_def goto_s_simps wrap_upd_simps readers_set
  proof (intro allI conjI)
    fix c'
    show "finite (if s_reads q = Some c' then insert g (?S c') else ?S c' - {g})" using fin by simp
    show "cw_readers (((hub_wrappers h)(c := f (hub_wrappers h c))) c') = (if h_reads (hub_handlers h c') then 1 else 0)
        + card (if s_reads q = Some c' then insert g (?S c') else ?S c' - {g})"
      using assms(2) cnt [of c'] fin [of c'] mem [of c'] card_gt_0_iff [of "?S c'"]
      by (cases "c' = c") (auto simp: insert_absorb card_Diff_singleton_if)
  qed
qed

lemma wrap_upd_id: "wrap_upd c (\<lambda>r. r) h = h"
  by (simp add: wrap_upd_def)

lemmas readers_goto_s_same = readers_goto_s [where f = "\<lambda>r. r", unfolded wrap_upd_id]

lemma readers_handler:
  assumes "readers_inv h" and "Handle_step conv c now h = Some h'"
  shows "readers_inv h'"
proof (cases "hub_handlers h c")
  case (WsParse v msg)
  with assms show ?thesis by (cases v) (auto simp: Handle_step_def wrapper_Close_def intro!: readers_goto_h_same)
next
  case (WsLocking vs)
  with assms show ?thesis
    by (cases vs) (auto simp: Handle_step_def wrapper_Close_def intro!: readers_goto_h split: if_splits)
next
  case WsClosing
  with assms show ?thesis by (auto simp: Handle_step_def wrapper_Close_def intro!: readers_goto_h split: if_splits)
qed (use assms in \<open>auto simp: Handle_step_def wrapper_Close_def intro!: readers_goto_h_same split: if_splits option.splits\<close>)

lemma wrap_upd_twice [simp]: "wrap_upd c f (wrap_upd c g h) = wrap_upd c (\<lambda>r. f (g r)) h"
  by (simp add: wrap_upd_def)

lemma readers_sender:
  assumes "readers_inv h" and "sendMessage_step g ok h = Some h'"
  shows "readers_inv h'"
proof (cases "hub_senders h g")
  case (SLock c sid m)
  with assms show ?thesis by (auto simp: sendMessage_step_def intro!: readers_goto_s split: if_splits)
next
  case (SRead c sid m)
  with assms show ?thesis by (auto simp: sendMessage_step_def intro!: readers_goto_s dest!: RLock_conn_Some)
next
  case (SWriting c sid m)
  show ?thesis
  proof (cases "cw_conn (hub_wrappers h c) \<and> ok")
    case True
    with SWriting assms show ?thesis
      by (auto simp: sendMessage_step_def intro!: readers_goto_s_same [where c = c])
  next
    case False
    with SWriting assms show ?thesis
      by (cases "cw_conn (hub_wrappers h c)") (auto simp: sendMessage_step_def intro!: readers_goto_s)
  qed
next
  case (SAddr c n)
  show ?thesis
  proof (cases n)
    case 0
    with SAddr assms show ?thesis by (auto simp: sendMessage_step_def intro!: readers_goto_s)
  next
    case (Suc k)
    with SAddr assms show ?thesis
      by (auto simp: sendMessage_step_def intro!: readers_goto_s_same [where c = c] split: if_splits)
  qed
qed (use assms in \<open>auto simp: sendMessage_step_def intro!: readers_goto_s_same split: option.splits\<close>)

lemma readers_step:
  assumes "readers_inv h" and "ws_step conv e h = Some h'"
  shows "readers_inv h'"
proof (cases e)
  case (Handler c now)
  with assms readers_handler show ?thesis by (auto simp: ws_step_def split: if_splits)
next
  case (Sender g ok)
  with assms readers_sender show ?thesis by (auto simp: ws_step_def split: if_splits)
next
  case (Message c msg)
  have "0 < cw_readers (hub_wrappers h c)" if "hub_handlers h c = WsReading v" for v
    using assms(1) that by (simp add: readers_inv_def)
  with Message assms show ?thesis
    by (auto simp: ws_step_def intro!: readers_goto_h split: if_splits ws_pc.splits)
next
  case (StartRead c)
  with assms show ?thesis
    by (auto simp: ws_step_def intro!: readers_goto_h dest!: RLock_conn_Some split: if_splits ws_pc.splits)
next
  case (PeerClose c)
  with assms show ?thesis by (auto simp: ws_step_def intro!: readers_goto_h split: if_splits ws_pc.splits)
next
  case (ReadError c)
  have "0 < cw_readers (hub_wrappers h c)" if "hub_handlers h c = WsReading v" for v
    using assms(1) that by (simp add: readers_inv_def)
  with ReadError assms show ?thesis
    by (auto simp: ws_step_def intro!: readers_goto_h split: if_splits ws_pc.splits ws_vars.splits)
qed (use assms in \<open>auto simp: ws_step_def intro!: readers_goto_h_same readers_goto_s_same
      split: if_splits ws_pc.splits ws_vars.splits\<close>)

lemma readers_reach: "ws_reach conv (ws_init ss) h \<Longrightarrow> readers_inv h"
proof (induction rule: ws_reach.induct)
  case ws_start
  show ?case by (simp add: readers_inv_def ws_init_def new_wrapper_def)
qed (rule readers_step)

section \<open>A closing handshake\<close>

text \<open>
  A handler that got a close frame waits in \<open>Close\<close> for the write lock while it holds the read lock:
  no step of anything changes that, and no sender gets past that connection's \<open>connLock\<close>.
\<close>

definition stuck_at :: "nat \<Rightarrow> ws_vars \<Rightarrow> WsHub \<Rightarrow> bool" where
  "stuck_at c v h \<longleftrightarrow> hub_handlers h c = WsLocking (Some v) \<and> cw_closing (hub_wrappers h c)
     \<and> 0 < cw_readers (hub_wrappers h c)"

text \<open>Senders that wait for \<open>connLock\<close>, or come to.\<close>

fun s_waits :: "nat \<Rightarrow> ws_sender \<Rightarrow> bool" where
  "s_waits c (SLock c' sid m) = (c' = c)"
| "s_waits c (SRead c' sid m) = (c' = c)"
| "s_waits c _ = False"

lemma stuck_readers: "readers_inv h \<Longrightarrow> closing_inv h \<Longrightarrow> stuck_at c v h \<longleftrightarrow> hub_handlers h c = WsLocking (Some v)"
  by (auto simp: stuck_at_def readers_inv_def closing_inv_def)

lemma stuck_handler: "ws_step conv e h = Some h' \<Longrightarrow> stuck_at c v h \<Longrightarrow> hub_handlers h' c = WsLocking (Some v)"
  by (cases e)
    (auto simp: ws_step_def stuck_at_def Handle_step_def wrapper_Close_def dest!: RLock_conn_Some sender_keeps
      split: if_splits ws_pc.splits ws_vars.splits option.splits)

lemma stuck_sender:
  assumes "ws_step conv e h = Some h'" and "stuck_at c v h" and "cw_writeLock (hub_wrappers h c)"
    and "s_waits c (hub_senders h g)"
  shows "s_waits c (hub_senders h' g)"
  using assms
  by (cases e)
    (auto simp: ws_step_def stuck_at_def Handle_step_def wrapper_Close_def sendMessage_step_def RLock_conn_def
      split: if_splits ws_pc.splits ws_vars.splits option.splits ws_sender.splits nat.splits)

lemma stuck_lock: "ws_step conv e h = Some h' \<Longrightarrow> stuck_at c v h \<Longrightarrow> cw_writeLock (hub_wrappers h' c) = cw_writeLock (hub_wrappers h c)"
  by (cases e)
    (auto simp: ws_step_def stuck_at_def Handle_step_def wrapper_Close_def sendMessage_step_def RLock_conn_def
      split: if_splits ws_pc.splits ws_vars.splits option.splits ws_sender.splits nat.splits)

text \<open>Only a handler that is done has lost its connection: closing from inside \<open>ReadJSON\<close> never gets there.\<close>

definition locks_inv :: "WsHub \<Rightarrow> bool" where
  "locks_inv h \<longleftrightarrow> (\<forall>c. hub_handlers h c \<noteq> WsDone \<longrightarrow> cw_writeLock (hub_wrappers h c) \<and> cw_conn (hub_wrappers h c))"

lemma locks_step:
  assumes "locks_inv h" and "readers_inv h" and "ws_step conv e h = Some h'"
  shows "locks_inv h'"
proof -
  have no: "hub_handlers h c \<noteq> WsLocking (Some v)" if "cw_readers (hub_wrappers h c) = 0" for c v
    using assms(2) that by (auto simp: readers_inv_def)
  with assms(1,3) show ?thesis
    by (cases e)
      (auto simp: ws_step_def locks_inv_def Handle_step_def wrapper_Close_def sendMessage_step_def Handle_message_def Handle_login_def
        RLock_conn_def fun_upd_def
        split: if_splits ws_pc.splits ws_vars.splits option.splits ws_sender.splits nat.splits)
qed

lemma locks_reach: "ws_reach conv (ws_init ss) h \<Longrightarrow> locks_inv h"
proof (induction rule: ws_reach.induct)
  case ws_start
  show ?case by (simp add: locks_inv_def ws_init_def new_wrapper_def)
next
  case (ws_more h e h')
  then show ?case using locks_step readers_reach by blast
qed

lemma reach_trans: "ws_reach conv h1 h2 \<Longrightarrow> ws_reach conv h0 h1 \<Longrightarrow> ws_reach conv h0 h2"
  by (induction rule: ws_reach.induct) (auto intro: ws_reach.intros)

lemma run_reach: "ws_run conv es h = Some h' \<Longrightarrow> ws_reach conv h0 h \<Longrightarrow> ws_reach conv h0 h'"
  by (induction es arbitrary: h) (auto split: option.splits intro: ws_reach.intros)

lemma stuck_reach:
  assumes "ws_reach conv h1 h2" and "ws_reach conv (ws_init ss) h1" and "stuck_at c v h1" and "cw_writeLock (hub_wrappers h1 c)"
  shows "stuck_at c v h2 \<and> cw_writeLock (hub_wrappers h2 c)
    \<and> (\<forall>g. s_waits c (hub_senders h1 g) \<longrightarrow> s_waits c (hub_senders h2 g))"
  using assms
proof (induction rule: ws_reach.induct)
  case (ws_more h e h')
  then have st: "stuck_at c v h" and wl: "cw_writeLock (hub_wrappers h c)"
    and w: "\<And>g. s_waits c (hub_senders h1 g) \<Longrightarrow> s_waits c (hub_senders h g)" by auto
  have "ws_reach conv (ws_init ss) h'"
    using ws_more.hyps ws_more.prems(1) by (blast intro: reach_trans ws_reach.intros)
  then have "stuck_at c v h'"
    using stuck_readers readers_reach closing_reach stuck_handler [OF ws_more.hyps(2) st] by blast
  then show ?case
    using stuck_lock [OF ws_more.hyps(2) st] wl stuck_sender [OF ws_more.hyps(2) st wl] w by simp
qed simp

section \<open>Properties\<close>

text \<open>
  C14: whatever the interleaving, a connection is registered under one session token at most, the one its
  handler last accepted, so the connection a sender finds for a session is one whose handler accepted that
  session's token; and the handler never uses a nil session.
\<close>

theorem connection_registered_under_its_token:
  assumes "ws_reach conv (ws_init ss) h"
  shows "(SafeMap_Load (hub_connections h) tok = Some c \<longrightarrow> ws_token (hub_handlers h c) = Some tok)
    \<and> (SafeMap_Load (hub_connections h) tok = Some c \<and> SafeMap_Load (hub_connections h) tok' = Some c \<longrightarrow> tok' = tok)
    \<and> hub_handlers h c \<noteq> WsCheck tok None"
  using registered_reach [OF assms] registered_token [OF registered_reach [OF assms]]
  by (fastforce simp: registered_inv_def)

definition ws_sessions :: MainSessions where
  "ws_sessions = \<lparr>bss_expiry = sessionDuration,
     bss_store = SafeMap_put ''t'' \<lparr>bs_id = ''t'', bs_expiry = 9,
       bs_data = \<lparr>sd_id = ''t'', sd_clientLibVersion = 0, sd_userId = 7, sd_messageChan = []\<rparr>\<rparr> NewSafeMap,
     sweeperTaskStarted = True\<rparr>"

definition ws_login :: "nat \<Rightarrow> ws_event list" where
  "ws_login c = [Upgrade c True, StartRead c, Message c [(''operation'', JInt 0), (''sessionToken'', JStr ''t'')],
     Handler c 0, Handler c 0, Handler c 0, StartRead c]"

definition ws_example :: "ws_event list \<Rightarrow> WsHub" where
  "ws_example es = the (ws_run (\<lambda>_. 0) es (ws_init ws_sessions))"

lemmas ws_run_defs = ws_example_def ws_login_def ws_init_def new_wrapper_def ws_sessions_def ws_step_def Handle_step_def wrapper_Close_def
  sendMessage_step_def RLock_conn_def parseMessage_def Let_def Handle_login_def Handle_message_def goto_h_def goto_s_def
  wrap_upd_def SafeMap_Store_def SafeMap_defs NewSafeMap_def MainSessions_GetById_def BaseSessions_Get_def
  MainSessions_ResetExpiry_def ResetExpiryTimer_def

lemmas ws_run_simps = ws_run_defs al_modify_def

lemma ws_login_runs: "ws_run (\<lambda>_. 0) (ws_login 3) (ws_init ws_sessions) = Some (ws_example (ws_login 3))"
  by (simp add: ws_run_simps)

text \<open>Connection 3 reads, and a message to its session is on its way.\<close>

definition ws_sending :: "ws_event list" where
  "ws_sending = ws_login 3 @ [Send 0 ''t'' [], Sender 0 True]"

lemma ws_sending_runs: "ws_run (\<lambda>_. 0) ws_sending (ws_init ws_sessions) = Some (ws_example ws_sending)"
  by (simp add: ws_run_simps ws_sending_def)

lemma ws_sending_state:
  "\<not> hub_crashed (ws_example ws_sending)" "\<not> cw_closing (hub_wrappers (ws_example ws_sending) 3)"
  "hub_handlers (ws_example ws_sending) 3 =
     WsReading (AtLoop ''t'' \<lparr>sd_id = ''t'', sd_clientLibVersion = 0, sd_userId = 7, sd_messageChan = []\<rparr>)"
  "hub_senders (ws_example ws_sending) 0 = SLock 3 ''t'' []" "cw_readers (hub_wrappers (ws_example ws_sending) 3) = 1"
  by (simp_all add: ws_run_simps ws_sending_def)

text \<open>Connection 4 has presented the same token as connection 3.\<close>

lemma ws_twice_state:
  "\<not> hub_crashed (ws_example (ws_login 3 @ ws_login 4))"
  "hub_handlers (ws_example (ws_login 3 @ ws_login 4)) 3 =
     WsReading (AtLoop ''t'' \<lparr>sd_id = ''t'', sd_clientLibVersion = 0, sd_userId = 7, sd_messageChan = []\<rparr>)"
  "SafeMap_wf (hub_connections (ws_example (ws_login 3 @ ws_login 4)))"
  "SafeMap_Load (hub_connections (ws_example (ws_login 3 @ ws_login 4))) ''t'' = Some 4"
  "hub_senders (ws_example (ws_login 3 @ ws_login 4)) 1 = SNew"
  by (simp_all add: ws_run_simps)

theorem connection_registered_under_its_token_witness:
  "SafeMap_Load (hub_connections (ws_example (ws_login 3))) ''t'' = Some 3
     \<and> ws_token (hub_handlers (ws_example (ws_login 3)) 3) = Some ''t''"
proof -
  have l: "SafeMap_Load (hub_connections (ws_example (ws_login 3))) ''t'' = Some 3"
    by (simp add: ws_run_simps)
  with connection_registered_under_its_token [OF run_reach [OF ws_login_runs ws_start], of "''t''" 3] show ?thesis by blast
qed

text \<open>
  C15: a client that closes its connection with a close frame blocks it for good.  The close
  handler runs inside \<open>ReadJSON\<close>, which holds the read lock of \<open>connLock\<close>, and \<open>Close\<close> asks for the write lock:
  the handler waits for itself, in every state that can follow, and no sender that waits for this
  connection ever sends its message or stores it for polling.
\<close>

theorem close_handshake_deadlocks:
  assumes "ws_reach conv (ws_init ss) h" and "hub_handlers h c = WsReading v"
    and "ws_step conv (PeerClose c) h = Some h1" and "ws_reach conv h1 h2"
  shows "hub_handlers h2 c = WsLocking (Some v) \<and> Handle_step conv c now h2 = None
    \<and> (\<forall>g. s_waits c (hub_senders h1 g) \<longrightarrow> s_waits c (hub_senders h2 g))"
proof -
  have r1: "ws_reach conv (ws_init ss) h1" using assms(1,3) by (rule ws_more)
  have "hub_handlers h1 c = WsLocking (Some v)" using assms(2,3) by (auto simp: ws_step_def split: if_splits)
  with r1 have st: "stuck_at c v h1" and wl: "cw_writeLock (hub_wrappers h1 c)"
    using stuck_readers readers_reach closing_reach locks_reach unfolding locks_inv_def by (blast, force)
  from stuck_reach [OF assms(4) r1 st wl] show ?thesis by (auto simp: stuck_at_def Handle_step_def wrapper_Close_def)
qed

theorem close_handshake_deadlocks_witness:
  "\<exists>h1 h2. ws_step (\<lambda>_. 0) (PeerClose 3) (ws_example ws_sending) = Some h1
     \<and> ws_step (\<lambda>_. 0) (Sender 0 True) h1 = Some h2 \<and> s_waits 3 (hub_senders h2 0)
     \<and> Handle_step (\<lambda>_. 0) 3 0 h2 = None"
proof -
  let ?h = "ws_example ws_sending"
  obtain h1 where h1: "ws_step (\<lambda>_. 0) (PeerClose 3) ?h = Some h1" by (simp add: ws_step_def ws_sending_state)
  then have e: "h1 = goto_h 3 (WsLocking (Some (AtLoop ''t'' \<lparr>sd_id = ''t'', sd_clientLibVersion = 0, sd_userId = 7,
      sd_messageChan = []\<rparr>))) (wrap_upd 3 (\<lambda>r. r\<lparr>cw_closing := True\<rparr>) ?h)"
    by (simp add: ws_step_def ws_sending_state)
  have s1: "hub_senders h1 0 = SLock 3 ''t'' []" by (simp add: e ws_sending_state)
  have "cw_writeLock (hub_wrappers ?h 3) \<and> \<not> cw_held (hub_wrappers ?h 3)" by (simp add: ws_run_simps ws_sending_def)
  then obtain h2 where h2: "ws_step (\<lambda>_. 0) (Sender 0 True) h1 = Some h2"
    by (simp add: ws_step_def sendMessage_step_def e ws_sending_state)
  have r: "ws_reach (\<lambda>_. 0) (ws_init ws_sessions) ?h" by (rule run_reach [OF ws_sending_runs ws_start])
  from close_handshake_deadlocks [OF r ws_sending_state(3) h1 ws_more [OF ws_start h2], of 0] s1 h1 h2
  show ?thesis by auto
qed

text \<open>
  C16: a message that is sent while a connection ends can stop the whole server.  \<open>Close\<close> sets \<open>writeLock\<close>
  to nil, and a goroutine that has looked the connection up before takes the lock through the
  nil pointer: the panic is in a goroutine of its own, where nothing recovers it.
\<close>

theorem send_during_close_crashes:
  assumes "\<not> hub_crashed h" and "hub_handlers h c = WsReading (AtLoop tok s)" and "cw_readers (hub_wrappers h c) = 1"
    and "\<not> cw_closing (hub_wrappers h c)" and "hub_senders h g = SLock c sid m"
  shows "\<exists>h'. ws_run conv [ReadError c, Handler c t, Handler c t, Handler c t, Sender g ok] h = Some h' \<and> hub_crashed h'"
  using assms by (simp add: ws_step_def Handle_step_def wrapper_Close_def sendMessage_step_def)

theorem send_during_close_crashes_witness:
  "\<exists>h. ws_run (\<lambda>_. 0) [ReadError 3, Handler 3 0, Handler 3 0, Handler 3 0, Sender 0 True] (ws_example ws_sending) = Some h
     \<and> hub_crashed h"
  by (rule send_during_close_crashes [OF ws_sending_state(1,3,5,2,4)])

text \<open>
  When a client has opened a second connection for its session, the end of the first one deletes the
  entry of the second: messages to the session are no longer sent, although its connection is
  open and reads, until it presents the token of another session.
\<close>

lemma stale_close_unregisters:
  assumes "\<not> hub_crashed h" and "hub_handlers h c = WsReading (AtLoop tok s)" and "SafeMap_wf (hub_connections h)"
    and "SafeMap_Load (hub_connections h) tok = Some c'" and "c' \<noteq> c" and "hub_senders h g = SNew"
  shows "\<exists>h'. ws_run conv [ReadError c, Handler c t, Send g tok m, Sender g ok] h = Some h'
     \<and> hub_handlers h' c' = hub_handlers h c' \<and> hub_senders h' g = SStore tok m
     \<and> SafeMap_Load (hub_connections h') = (SafeMap_Load (hub_connections h))(tok := None)"
  using assms by (simp add: ws_step_def Handle_step_def wrapper_Close_def sendMessage_step_def SafeMap_Load_Delete)

end
