(* ===== verification/AuthRoutes.thy ===== *)
theory AuthRoutes
  imports LoginRoutes
begin

text \<open>
  What a request passes before its handler (\<open>routes/router\<close>): the check of its session
  (\<open>sessionMiddleware.go\<close>), and for a login the user (\<open>loginMiddleware.go\<close>) and the authentication with the
  official servers (\<open>authMiddleware.go\<close>).  The replies of the official servers are arguments.  Instants
  are nanoseconds since Go's zero time, so that 0 is \<open>time.Time{}\<close>.
\<close>

type_synonym handler = "World \<Rightarrow> exit \<times> World"

section \<open>sessionMiddleware.go\<close>

definition sessAnonymousPaths :: "string list" where
  "sessAnonymousPaths =
     [''/game/msstore/getStoreTokens'', ''/game/login/platformlogin'', ''/wss/'', ''/game/news/getNews'',
      ''/game/Challenge/getChallenges'', ''/game/item/getItemBundleItemsJson'']"

definition has_prefix :: "string \<Rightarrow> string \<Rightarrow> bool" where
  "has_prefix p s \<longleftrightarrow> take (length p) s = p"

text \<open>\<open>http.Error\<close>: status 401 and a line of text.\<close>

definition Unauthorized :: "World \<Rightarrow> World" where
  "Unauthorized w = w\<lparr>w_out := w_out w @ [JStr ''Unauthorized'']\<rparr>"

text \<open>The next handler gets the session, if there is one in the context of the request.\<close>

definition SessionMiddleware ::
    "int \<Rightarrow> string \<Rightarrow> string \<Rightarrow> (SessionData option \<Rightarrow> handler) \<Rightarrow> handler" where
  "SessionMiddleware now path sessionID next w =
     (if path \<notin> set sessAnonymousPaths \<and> \<not> has_prefix ''/cloudfiles/'' path
      then if sessionID = [] then (HReturn, Unauthorized w)
           else (case MainSessions_GetById (w_sessions w) sessionID of
                   None \<Rightarrow> (HReturn, Unauthorized w)
                 | Some sess \<Rightarrow> next (Some sess) (update_sessions (MainSessions_ResetExpiry now (sd_id sess)) w))
      else next None w)"

text \<open>\<open>SessionOrPanic\<close> in front of the handlers that need a session.\<close>

definition SessionOrPanic :: "(SessionData \<Rightarrow> handler) \<Rightarrow> SessionData option \<Rightarrow> handler" where
  "SessionOrPanic h sess w = (case sess of None \<Rightarrow> (HPanic, w) | Some s \<Rightarrow> h s w)"

section \<open>loginMiddleware.go\<close>

record PlatformLoginRequest =
  plr_AccountType :: string
  plr_PlatformUserId :: uint64
  plr_Alias :: string
  plr_MacAddress :: "string option"

text \<open>
  \<open>fuel\<close>, \<open>generateId\<close> and \<open>itemGen\<close> as in \<open>GetOrCreateUser\<close> and \<open>Generate\<close>; \<open>files\<close> are the users' files, \<open>ipv4\<close>
  the address of the client, \<open>tt\<close> the JSON text of the time.  Calling a method of the nil interface
  \<open>LeaderboardDefinitions\<close> panics.
\<close>

definition LoginUserMiddleware ::
    "nat \<Rightarrow> bool \<Rightarrow> (nat \<Rightarrow> int32) \<Rightarrow> (string \<Rightarrow> UserFile) \<Rightarrow> int \<Rightarrow> string \<Rightarrow> string option
       \<Rightarrow> PlatformLoginRequest option \<Rightarrow> (string \<Rightarrow> handler) \<Rightarrow> handler" where
  "LoginUserMiddleware fuel generateId itemGen files now tt ipv4 bound next w =
     (case bound of
        None \<Rightarrow> (HReturn, PlatformLoginError tt w)
      | Some req \<Rightarrow>
          let title = w_title w; g = w_game w
          in if title \<noteq> AoE1 \<and> g_leaderboard g = None then (HPanic, w)
             else (case GetOrCreateUser fuel generateId
                      (\<lambda>identifier isXbox pid alias. Generate now itemGen title (files identifier) (g_items g)
                         (if title \<noteq> AoE1 then g_leaderboard g else None) identifier isXbox pid alias)
                      (plr_MacAddress req) ipv4 (plr_AccountType req = ''XBOXLIVE'') (plr_PlatformUserId req) (plr_Alias req)
                      (w_users w) of
                     None \<Rightarrow> (HHang, w)
                   | Some (k, users) \<Rightarrow> next k (update_users (\<lambda>_. users) w)))"

section \<open>authMiddleware.go\<close>

definition authCacheValidity :: int where
  "authCacheValidity = 30 * 24 * 3600 * 10 ^ 9"

text \<open>A nil \<open>GetAuth()\<close> panics.\<close>

definition AuthMiddlewareOffline :: "int \<Rightarrow> string \<Rightarrow> string \<Rightarrow> (string \<Rightarrow> handler) \<Rightarrow> handler" where
  "AuthMiddlewareOffline now tt k next w =
     (case u_auth (user_at w k) of
        None \<Rightarrow> (HPanic, w)
      | Some p \<Rightarrow>
          let deadline = pjd_data p; valid = (deadline \<noteq> 0 \<and> deadline > now)
          in if valid then next k w else (HReturn, PlatformLoginError tt w))"

text \<open>
  What comes back for a request: \<open>NoReply\<close> if it fails, has another status than 200 or its body cannot be
  read, otherwise the body, decoded if it is JSON.
\<close>

datatype upstream = NoReply | Body "jv option"

text \<open>\<open>json.Unmarshal\<close> into a slice: \<open>null\<close> leaves it nil, anything else but an array is an error.\<close>

definition reply_slice :: "jv option \<Rightarrow> goA" where
  "reply_slice b = (case b of Some (JArr xs) \<Rightarrow> xs | _ \<Rightarrow> [])"

text \<open>
  \<open>doRequest\<close>: the named results \<open>respAny\<close> and \<open>ok\<close> beside the state; an exit other than \<open>HReturn\<close> comes from the
  error handler and is the caller's too.  \<open>errorCode, ok :=\<close> assigns the named result \<open>ok\<close>.
\<close>

definition doRequest :: "handler \<Rightarrow> upstream \<Rightarrow> World \<Rightarrow> (exit \<times> World) \<times> goA \<times> bool" where
  "doRequest errorHandler r w =
     (case r of
        NoReply \<Rightarrow> (errorHandler w, [], False)
      | Body b \<Rightarrow>
          (case reply_slice b of
             [] \<Rightarrow> (errorHandler w, [], False)
           | JInt errorCode # rest \<Rightarrow>
               if errorCode \<noteq> 0 then ((HReturn, JSON (JInt errorCode # rest) w), JInt errorCode # rest, True)
               else ((HReturn, w), JInt errorCode # rest, True)
           | xs \<Rightarrow> (errorHandler w, xs, False)))"

text \<open>Type assertions on an element of a slice; \<open>None\<close> is the panic, also of an index out of range.\<close>

definition as_int :: "goA \<Rightarrow> nat \<Rightarrow> int option" where
  "as_int xs i = (if i < length xs then (case xs ! i of JInt n \<Rightarrow> Some n | _ \<Rightarrow> None) else None)"

definition as_str :: "goA \<Rightarrow> nat \<Rightarrow> string option" where
  "as_str xs i = (if i < length xs then (case xs ! i of JStr s \<Rightarrow> Some s | _ \<Rightarrow> None) else None)"

definition as_arr :: "goA \<Rightarrow> nat \<Rightarrow> goA option" where
  "as_arr xs i = (if i < length xs then (case xs ! i of JArr s \<Rightarrow> Some s | _ \<Rightarrow> None) else None)"

text \<open>
  \<open>NewMainItemFromRaw\<close> (\<open>models/item.go\<close>): \<open>parse\<close> decodes the text of the metadata, \<open>conv\<close> the conversion of a
  number to an \<open>int32\<close>, which Go leaves to the machine if it does not fit.
\<close>

definition float_int32 :: "(int \<Rightarrow> int32) \<Rightarrow> int \<Rightarrow> int32" where
  "float_int32 conv n = (if - (2 ^ 31) \<le> n \<and> n < 2 ^ 31 then word_of_int n else conv n)"

definition NewMainItemFromRaw ::
    "(int \<Rightarrow> int32) \<Rightarrow> (string \<Rightarrow> ReadOnlyItemMetadata option) \<Rightarrow> goA \<Rightarrow> MainItem outcome" where
  "NewMainItemFromRaw conv parse itemRaw =
     (let num = (\<lambda>i. float_int32 conv (the (as_int itemRaw i)))
      in if list_all (\<lambda>i. as_int itemRaw i \<noteq> None) [0, 1, 2, 4, 5, 7, 8, 9, 10, 11] \<and> as_str itemRaw 6 \<noteq> None
         then Ret \<lparr>it_id = num 0, it_metadata = NewItemMetadataRaw (parse (the (as_str itemRaw 6))),
           it_entityVersion = num 1, it_definitionId = num 2, it_durabilityId = num 5, it_durabilityCount = num 4,
           it_creationDate = the (as_int itemRaw 7), it_locationId = num 8, it_tradeId = num 9,
           it_permissionFlags = num 10, it_maxCharges = num 11\<rparr>
         else Panic)"

text \<open>The callback of \<open>GetItems().WithReadWrite\<close>: the map is emptied first.\<close>

fun items_from_raw ::
    "(int \<Rightarrow> int32) \<Rightarrow> (string \<Rightarrow> ReadOnlyItemMetadata option) \<Rightarrow> goA \<Rightarrow> (int32 \<times> MainItem) list
       \<Rightarrow> (int32 \<times> MainItem) list \<times> bool outcome" where
  "items_from_raw conv parse [] items = (items, Ret False)"
| "items_from_raw conv parse (JArr itemRaw # rest) items =
     (case NewMainItemFromRaw conv parse itemRaw of
        Panic \<Rightarrow> (items, Panic)
      | Ret item \<Rightarrow> items_from_raw conv parse rest (AList.update (it_id item) item items))"
| "items_from_raw conv parse (_ # rest) items = (items, Panic)"

text \<open>A transaction on a part of the user, which panics if that part is nil.\<close>

definition user_ReadWrite ::
    "bool \<Rightarrow> string \<Rightarrow> (MainUser \<Rightarrow> 'd PersistentJsonData option) \<Rightarrow> ('d PersistentJsonData option \<Rightarrow> MainUser \<Rightarrow> MainUser)
       \<Rightarrow> ('d \<Rightarrow> 'd \<times> bool outcome) \<Rightarrow> handler" where
  "user_ReadWrite io k get put fn w =
     (case get (user_at w k) of
        None \<Rightarrow> (HPanic, w)
      | Some p \<Rightarrow>
          let (r, p') = WithReadWrite io fn p;
              w' = update_users (SafeMap_modify k (put (Some p'))) w
          in (case r of Panic \<Rightarrow> (HPanic, w') | Ret _ \<Rightarrow> (HReturn, w')))"

definition put_auth :: "int PersistentJsonData option \<Rightarrow> MainUser \<Rightarrow> MainUser" where
  "put_auth p u = u\<lparr>u_auth := p\<rparr>"

definition put_items :: "(int32 \<times> MainItem) list PersistentJsonData option \<Rightarrow> MainUser \<Rightarrow> MainUser" where
  "put_items p u = u\<lparr>u_items := p\<rparr>"

text \<open>\<open>authResp[5].(i.A)[0].(i.A)[1].(float64)\<close> and \<open>resp[1].(i.A)[0].(i.A)[1].(i.A)\<close>.\<close>

definition resp_profileId :: "goA \<Rightarrow> int option" where
  "resp_profileId a = Option.bind (as_arr a 5) (\<lambda>x. Option.bind (as_arr x 0) (\<lambda>y. as_int y 1))"

definition resp_items :: "goA \<Rightarrow> goA option" where
  "resp_items a = Option.bind (as_arr a 1) (\<lambda>x. Option.bind (as_arr x 0) (\<lambda>y. as_arr y 1))"

record AuthEnv =
  ae_cached :: bool
  ae_io :: bool
  ae_conv :: "int \<Rightarrow> int32"
  ae_parse :: "string \<Rightarrow> ReadOnlyItemMetadata option"
  ae_readOk :: bool
  ae_urlOk :: bool
  ae_login :: upstream
  ae_items :: upstream
  ae_logout :: upstream

definition Auth_errorHandler :: "AuthEnv \<Rightarrow> int \<Rightarrow> string \<Rightarrow> string \<Rightarrow> (string \<Rightarrow> handler) \<Rightarrow> handler" where
  "Auth_errorHandler ae t tt k next w =
     (if ae_cached ae then AuthMiddlewareOffline t tt k next w else (HReturn, PlatformLoginError tt w))"

text \<open>Sequencing: what follows only if the handler did not end.\<close>

definition and_then :: "exit \<times> World \<Rightarrow> handler \<Rightarrow> exit \<times> World" where
  "and_then r f = (case r of (HReturn, w) \<Rightarrow> f w | (e, w) \<Rightarrow> (e, w))"

text \<open>From the acceptance of the login to the end, the deferred logout apart.\<close>

definition Auth_accepted :: "AuthEnv \<Rightarrow> int \<Rightarrow> string \<Rightarrow> string \<Rightarrow> (string \<Rightarrow> handler) \<Rightarrow> goA \<Rightarrow> handler" where
  "Auth_accepted ae t tt k next authResp w =
     and_then (if ae_cached ae then user_ReadWrite (ae_io ae) k u_auth put_auth (\<lambda>_. (t + authCacheValidity, Ret False)) w
               else (HReturn, w))
       (\<lambda>w1.
         if \<not> ae_urlOk ae then Auth_errorHandler ae t tt k next w1
         else if resp_profileId authResp = None then (HPanic, w1)
         else case doRequest (Auth_errorHandler ae t tt k next) (ae_items ae) w1 of
           (r, resp, ok) \<Rightarrow> and_then r (\<lambda>w2.
             if \<not> ok then (HReturn, w2)
             else case resp_items resp of
                None \<Rightarrow> (HPanic, w2)
              | Some itemsRaw \<Rightarrow>
                  and_then (user_ReadWrite (ae_io ae) k u_items put_items
                      (\<lambda>_. items_from_raw (ae_conv ae) (ae_parse ae) itemsRaw []) w2)
                    (next k)))"

text \<open>A deferred call runs after a panic too; a panic of its own or of the body goes on.\<close>

definition deferred :: "handler \<Rightarrow> exit \<times> World \<Rightarrow> exit \<times> World" where
  "deferred d r =
     (case r of
        (HHang, w) \<Rightarrow> (HHang, w)
      | (e, w) \<Rightarrow> (case d w of (HReturn, w') \<Rightarrow> (e, w') | r' \<Rightarrow> r'))"

definition AuthMiddleware :: "AuthEnv \<Rightarrow> int \<Rightarrow> string \<Rightarrow> string \<Rightarrow> (string \<Rightarrow> handler) \<Rightarrow> handler" where
  "AuthMiddleware ae t tt k next w =
     (if \<not> ae_readOk ae then (HReturn, PlatformLoginError tt w)
      else case doRequest (Auth_errorHandler ae t tt k next) (ae_login ae) w of
        (r, authResp, ok) \<Rightarrow> and_then r (\<lambda>w1.
          if \<not> ok then (HReturn, w1)
          else if as_str authResp 1 = None then (HPanic, w1)
          else deferred (\<lambda>w2. fst (doRequest (Auth_errorHandler ae t tt k next) (ae_logout ae) w2))
                 (Auth_accepted ae t tt k next authResp w1)))"

text \<open>The handler of \<open>/game/login/platformlogin\<close> as \<open>InitializeRoutes\<close> (\<open>game.go\<close>) wraps it.\<close>

datatype authentication = AuthDisabled | AuthCached | AuthRequired

definition login_route :: "authentication \<Rightarrow> bool \<Rightarrow> AuthEnv \<Rightarrow> int \<Rightarrow> string \<Rightarrow> (string \<Rightarrow> handler) \<Rightarrow> string \<Rightarrow> handler" where
  "login_route auth connectivity ae t tt loginHandler k =
     (if auth = AuthDisabled then loginHandler k
      else if connectivity then AuthMiddleware (ae\<lparr>ae_cached := (auth = AuthCached)\<rparr>) t tt k loginHandler
      else AuthMiddlewareOffline t tt k loginHandler)"

end
