(* ===== verification/AuthProps.thy ===== *)
theory AuthProps
  imports AuthRoutes LoginProps
begin

text \<open>
  What the middleware lets through: requests with a live session, and logins the official servers
  accepted, or not.
\<close>

section \<open>Lemmas\<close>

lemma user_at_modify:
  "SafeMap_Load (w_users w) k = Some u \<Longrightarrow> user_at (update_users (SafeMap_modify k f) w) k = f u"
  by (simp add: user_at_def SafeMap_Load_modify)

lemma user_at_JSON [simp]: "user_at (JSON d w) = user_at w"
  by (simp add: user_at_def fun_eq_iff)

lemma user_at_sessions [simp]: "user_at (update_sessions f w) = user_at w"
  by (simp add: user_at_def fun_eq_iff)

lemma PlatformLoginError_game [simp]: "w_game (PlatformLoginError t w) = w_game w"
  by (simp add: PlatformLoginError_def)

lemma doRequest_denied:
  "n \<noteq> 0 \<Longrightarrow> doRequest eh (Body (Some (JArr (JInt n # rest)))) w = ((HReturn, JSON (JInt n # rest) w), JInt n # rest, True)"
  by (simp add: doRequest_def reply_slice_def)

lemma doRequest_accepted:
  "doRequest eh (Body (Some (JArr (JInt 0 # rest)))) w = ((HReturn, w), JInt 0 # rest, True)"
  by (simp add: doRequest_def reply_slice_def)

lemma and_then_simps [simp]: "and_then (HReturn, w) f = f w" "and_then (HPanic, w) f = (HPanic, w)" "and_then (HHang, w) f = (HHang, w)"
  by (simp_all add: and_then_def)

text \<open>The session of a user who has just logged in is the one under the identifier handed out.\<close>

lemma Platformlogin_session:
  assumes "sessions_wf (w_sessions w)" and "SafeMap_Load (w_users w) k = Some u"
    and "fst (Platformlogin env t k v w) \<noteq> HHang"
  shows "MainSessions_GetById (w_sessions (snd (Platformlogin env t k v w))) (generateSessionId (e_sessionDraws env)) =
      Some \<lparr>sd_id = generateSessionId (e_sessionDraws env), sd_clientLibVersion = v, sd_userId = u_id u, sd_messageChan = []\<rparr>"
proof -
  let ?s0 = "without_user (u_id u) (w_sessions w)"
  have wf0: "BaseSessions_wf ?s0" using without_user [OF assms(1), of "u_id u"] by (simp add: sessions_wf_def)
  note p = Platformlogin_sessions [OF assms(2), of env t v]
  from assms(3) obtain i s' where c: "MainSessions_Create (e_nowNs env) (e_sessionDraws env) (u_id u) v ?s0 = Some (i, s')"
    by (cases "MainSessions_Create (e_nowNs env) (e_sessionDraws env) (u_id u) v ?s0") (auto simp: p)
  then have "w_sessions (snd (Platformlogin env t k v w)) = s'" by (simp add: p)
  with MainSessions_Create_spec(2) [OF wf0 c] show ?thesis by auto
qed

lemma Platformlogin_wf:
  assumes "sessions_wf (w_sessions w)" and "SafeMap_Load (w_users w) k = Some u" and "fst (Platformlogin env t k v w) \<noteq> HHang"
  shows "BaseSessions_wf (w_sessions (snd (Platformlogin env t k v w)))"
proof -
  let ?s0 = "without_user (u_id u) (w_sessions w)"
  have wf0: "BaseSessions_wf ?s0" using without_user [OF assms(1), of "u_id u"] by (simp add: sessions_wf_def)
  note p = Platformlogin_sessions [OF assms(2), of env t v]
  from assms(3) obtain i s' where c: "MainSessions_Create (e_nowNs env) (e_sessionDraws env) (u_id u) v ?s0 = Some (i, s')"
    by (cases "MainSessions_Create (e_nowNs env) (e_sessionDraws env) (u_id u) v ?s0") (auto simp: p)
  with MainSessions_Create_spec(2) [OF wf0 c] show ?thesis by (simp add: p)
qed

lemma GetUserById_modify:
  assumes "Users_wf users" and "SafeMap_Load users k = Some u" and "u_id (f u) = u_id u"
  shows "GetUserById (SafeMap_modify k f users) (u_id u) \<noteq> None"
proof
  assume "GetUserById (SafeMap_modify k f users) (u_id u) = None"
  then have "\<forall>x \<in> set (SafeMap_Values (SafeMap_modify k f users)). u_id x \<noteq> u_id u"
    by (simp add: GetUserById_def Users_getFirst_def find_None)
  moreover have "f u \<in> set (SafeMap_Values (SafeMap_modify k f users))"
    using assms by (subst SafeMap_Values_mem) (auto simp: SafeMap_Load_modify Users_wf_def intro: exI [of _ k])
  ultimately show False using assms(3) by blast
qed

lemma GetById_ResetExpiry:
  "MainSessions_GetById (MainSessions_ResetExpiry now i s) = MainSessions_GetById s"
  by (auto simp: MainSessions_GetById_def MainSessions_ResetExpiry_def ResetExpiryTimer_def BaseSessions_Get_def
      SafeMap_Load_modify fun_eq_iff split: option.split)

section \<open>Properties\<close>

text \<open>
  C5: a request outside the six public paths and the cloud files reaches its handler exactly if it names a
  session that exists, and the handler gets that session; otherwise it is answered with one 401 and
  nothing changes.  So a handler behind the check never panics for want of a session, and what the
  check itself changes is the expiry of that session.
\<close>

theorem SessionMiddleware_gate:
  assumes "path \<notin> set sessAnonymousPaths" and "\<not> has_prefix ''/cloudfiles/'' path" and "sessions_wf (w_sessions w)"
  shows "SessionMiddleware now path i (SessionOrPanic h) w =
    (case MainSessions_GetById (w_sessions w) i of
       Some s \<Rightarrow> if i = [] then (HReturn, w\<lparr>w_out := w_out w @ [JStr ''Unauthorized'']\<rparr>)
                 else h s (update_sessions (MainSessions_ResetExpiry now i) w)
     | None \<Rightarrow> (HReturn, w\<lparr>w_out := w_out w @ [JStr ''Unauthorized'']\<rparr>))
   \<and> MainSessions_GetById (w_sessions (update_sessions (MainSessions_ResetExpiry now i) w)) = MainSessions_GetById (w_sessions w)"
  using assms sessions_wfD(2) [OF assms(3)]
  by (auto simp: SessionMiddleware_def SessionOrPanic_def Unauthorized_def GetById_ResetExpiry split: option.split)


text \<open>
  A login the official servers deny (error code, session identifier, no profile) ends in a panic after
  their answer was passed on.  With required authentication nothing else happens.  With cached
  authentication the denial has extended the user's authorisation by 30 days: from then on the login passes
  the offline check until the deadline.
\<close>

lemma denied_login_is_cached:
  assumes "ae_readOk ae" and "ae_login ae = Body (Some (JArr (JInt n # JStr i # rest)))" and "n \<noteq> 0"
    and "resp_profileId (JInt n # JStr i # rest) = None" and "ae_urlOk ae"
    and "ae_logout ae = Body (Some (JArr (JInt 0 # rest')))"
    and "SafeMap_Load (w_users w) k = Some u" and "u_auth u = Some p" and "0 \<le> t"
  shows "fst (AuthMiddleware ae t tt k next w) = HPanic
    \<and> w_out (snd (AuthMiddleware ae t tt k next w)) = w_out w @ [JArr (JInt n # JStr i # rest)]
    \<and> (\<not> ae_cached ae \<longrightarrow> w_game (snd (AuthMiddleware ae t tt k next w)) = w_game w)
    \<and> (ae_cached ae \<and> now < t + authCacheValidity \<longrightarrow>
         AuthMiddlewareOffline now tt' k next' (snd (AuthMiddleware ae t tt k next w)) = next' k (snd (AuthMiddleware ae t tt k next w)))"
proof -
  let ?w1 = "JSON (JInt n # JStr i # rest) w"
  let ?p = "p\<lparr>pjd_data := t + authCacheValidity, pjd_saved := t + authCacheValidity\<rparr>"
  let ?w2 = "if ae_cached ae then update_users (SafeMap_modify k (put_auth (Some ?p))) ?w1 else ?w1"
  have s: "as_str (JInt n # JStr i # rest) 1 = Some i" by (simp add: as_str_def)
  have u: "user_at w k = u" using assms(7) by (simp add: user_at_def)
  have rw: "user_ReadWrite (ae_io ae) k u_auth put_auth (\<lambda>_. (t + authCacheValidity, Ret False)) ?w1
      = (HReturn, update_users (SafeMap_modify k (put_auth (Some ?p))) ?w1)"
    using assms(8) by (simp add: user_ReadWrite_def u WithReadWrite_def Let_def)
  have a: "Auth_accepted ae t tt k next (JInt n # JStr i # rest) ?w1 = (HPanic, ?w2)"
    unfolding Auth_accepted_def using assms(4,5) by (simp add: rw)
  have e: "AuthMiddleware ae t tt k next w = (HPanic, ?w2)"
    unfolding AuthMiddleware_def assms(2) doRequest_denied [OF assms(3)]
    using assms(1) s a by (simp add: deferred_def assms(6) doRequest_accepted)
  have d: "u_auth (user_at ?w2 k) = Some ?p" if "ae_cached ae"
    using that assms(7) by (simp add: user_at_def SafeMap_Load_modify put_auth_def)
  have v: "t + authCacheValidity \<noteq> 0" using assms(9) by (simp add: authCacheValidity_def)
  show ?thesis unfolding e using d v by (auto simp: AuthMiddlewareOffline_def Let_def)
qed

text \<open>
  With cached authentication a login that the official servers accept runs the login handler a second time if
  the logout from those servers fails: the error handler of the deferred request takes the offline
  path, and the deadline was just extended.
\<close>

lemma failed_logout_logs_in_twice:
  assumes "ae_readOk ae" and "ae_cached ae" and "ae_urlOk ae" and "ae_login ae = Body (Some (JArr (JInt 0 # JStr i # rest)))"
    and "resp_profileId (JInt 0 # JStr i # rest) \<noteq> None" and "ae_items ae = Body (Some (JArr (JInt 0 # rest')))"
    and "resp_items (JInt 0 # rest') = Some raw" and "snd (items_from_raw (ae_conv ae) (ae_parse ae) raw []) = Ret False"
    and "ae_logout ae = NoReply"
    and "SafeMap_Load (w_users w) k = Some u" and "u_auth u = Some p" and "u_items u = Some q" and "0 \<le> t"
    and "\<And>w. fst (next k w) = HReturn \<and> u_auth (user_at (snd (next k w)) k) = u_auth (user_at w k)"
  shows "\<exists>w'. AuthMiddleware ae t tt k next w = next k (snd (next k w'))
    \<and> map_option pjd_data (u_auth (user_at w' k)) = Some (t + authCacheValidity)"
proof -
  let ?p = "p\<lparr>pjd_data := t + authCacheValidity, pjd_saved := t + authCacheValidity\<rparr>"
  let ?w1 = "update_users (SafeMap_modify k (put_auth (Some ?p))) w"
  have rw: "user_ReadWrite (ae_io ae) k u_auth put_auth (\<lambda>_. (t + authCacheValidity, Ret False)) w = (HReturn, ?w1)"
    using assms(10,11) by (simp add: user_ReadWrite_def user_at_def WithReadWrite_def Let_def)
  obtain m where m: "items_from_raw (ae_conv ae) (ae_parse ae) raw [] = (m, Ret False)"
    using assms(8) by (metis prod.collapse)
  let ?w2 = "update_users (SafeMap_modify k (put_items (Some (q\<lparr>pjd_data := m, pjd_saved := m\<rparr>)))) ?w1"
  obtain w2 where w2: "w2 = ?w2" by blast
  have u1: "user_at ?w1 k = put_auth (Some ?p) u" by (rule user_at_modify [OF assms(10)])
  have ri: "user_ReadWrite (ae_io ae) k u_items put_items (\<lambda>_. items_from_raw (ae_conv ae) (ae_parse ae) raw []) ?w1 = (HReturn, ?w2)"
    unfolding user_ReadWrite_def u1 using assms(12) by (simp add: put_auth_def WithReadWrite_def Let_def m)
  have l1: "SafeMap_Load (w_users ?w1) k = Some (put_auth (Some ?p) u)" using assms(10) by (simp add: SafeMap_Load_modify)
  have a: "u_auth (user_at w2 k) = Some ?p"
    unfolding w2 user_at_modify [OF l1] by (simp add: put_items_def put_auth_def)
  have acc: "Auth_accepted ae t tt k next (JInt 0 # JStr i # rest) w = next k w2"
    unfolding w2 Auth_accepted_def assms(6) doRequest_accepted using assms(2,3,5,7) by (simp add: rw ri del: not_None_eq)
  have v: "t + authCacheValidity \<noteq> 0" "t < t + authCacheValidity" using assms(13) by (simp_all add: authCacheValidity_def)
  obtain w3 where w3: "next k w2 = (HReturn, w3)" using assms(14) by (metis prod.collapse)
  then have u3: "u_auth (user_at w3 k) = Some ?p" using assms(14) [of w2] a by simp
  obtain w4 where w4: "next k w3 = (HReturn, w4)" using assms(14) by (metis prod.collapse)
  have s: "as_str (JInt 0 # JStr i # rest) (Suc 0) = Some i" by (simp add: as_str_def)
  have off: "Auth_errorHandler ae t tt k next w3 = next k w3"
    using assms(2) v u3 by (simp add: Auth_errorHandler_def AuthMiddlewareOffline_def Let_def)
  have "AuthMiddleware ae t tt k next w = next k w3"
    unfolding AuthMiddleware_def assms(4) doRequest_accepted
    using assms(1) by (simp add: s acc w3 deferred_def assms(9) doRequest_def off w4)
  with w3 a show ?thesis by (intro exI [of _ w2]) simp
qed

section \<open>Witnesses\<close>

text \<open>User 1 has an authorisation that has run out, items and a session.\<close>

definition auth_session :: SessionData where
  "auth_session = \<lparr>sd_id = ''t'', sd_clientLibVersion = 190, sd_userId = 1, sd_messageChan = []\<rparr>"

definition auth_user :: MainUser where
  "auth_user = (example_user 1 1)\<lparr>u_auth := Some \<lparr>pjd_data = 5, pjd_saved = 5\<rparr>, u_items := Some \<lparr>pjd_data = [], pjd_saved = []\<rparr>\<rparr>"

definition auth_world :: World where
  "auth_world = example_world\<lparr>w_game := (w_game example_world)
     \<lparr>g_sessions := \<lparr>bss_expiry = sessionDuration,
        bss_store = \<lparr>wo = [(''t'', \<lparr>bs_id = ''t'', bs_expiry = 9, bs_data = auth_session\<rparr>)],
                     ro = [(''t'', \<lparr>bs_id = ''t'', bs_expiry = 9, bs_data = auth_session\<rparr>)]\<rparr>,
        sweeperTaskStarted = True\<rparr>,
      g_users := \<lparr>wo = [(''/steam/1'', auth_user)], ro = [(''/steam/1'', auth_user)]\<rparr>\<rparr>\<rparr>"

lemma auth_world_facts:
  "MainSessions_GetById (w_sessions auth_world) = [''t'' \<mapsto> auth_session]"
  "SafeMap_Load (w_users auth_world) ''/steam/1'' = Some auth_user" "w_out auth_world = []"
  by (auto simp: auth_world_def MainSessions_GetById_def BaseSessions_Get_def SafeMap_Load_def fun_eq_iff example_world_def)

lemma auth_world_sessions: "sessions_wf (w_sessions auth_world)"
proof -
  have "BaseSessions_wf (w_sessions auth_world)"
    by (auto simp: auth_world_def BaseSessions_wf_def SafeMap_wf_def SafeMap_Load_def split: if_splits)
  then show ?thesis unfolding sessions_wf_def auth_world_facts by (auto simp: auth_session_def split: if_splits)
qed

theorem SessionMiddleware_gate_witness:
  "SessionMiddleware 7 ''/game/login/logout'' ''t'' (SessionOrPanic (\<lambda>s w. (HReturn, JSON [j32 (sd_userId s)] w))) auth_world =
      (HReturn, JSON [JInt 1] (update_sessions (MainSessions_ResetExpiry 7 ''t'') auth_world))"
proof -
  have "''/game/login/logout'' \<notin> set sessAnonymousPaths" "\<not> has_prefix ''/cloudfiles/'' ''/game/login/logout''"
    by (simp_all add: sessAnonymousPaths_def has_prefix_def)
  from SessionMiddleware_gate [OF this auth_world_sessions] show ?thesis
    by (simp add: auth_world_facts auth_session_def)
qed

lemma auth_world_users: "Users_wf (w_users auth_world)"
proof -
  have "GetPlatformPath auth_user = ''/steam/1''" by code_simp
  then show ?thesis by (auto simp: Users_wf_def auth_world_def SafeMap_wf_def SafeMap_Load_def split: if_splits)
qed


text \<open>The replies of the official servers: the login is denied, or accepted with one item.\<close>

definition auth_env :: "bool \<Rightarrow> upstream \<Rightarrow> upstream \<Rightarrow> AuthEnv" where
  "auth_env cached l out =
     \<lparr>ae_cached = cached, ae_io = True, ae_conv = (\<lambda>_. 0), ae_parse = (\<lambda>_. None), ae_readOk = True, ae_urlOk = True,
      ae_login = l,
      ae_items = Body (Some (JArr [JInt 0, JArr [JArr [JInt 7, JArr [JArr [JInt 4, JInt 0, JInt 11, JInt 7, JInt 1, JInt 0,
        JStr [], JInt 99, JInt 0, JInt (-1), JInt 0, JInt 0]]]]])),
      ae_logout = out\<rparr>"

end
