(* ===== verification/AccountRoutes.thy ===== *)
theory AccountRoutes
  imports AuthRoutes
begin

text \<open>
  The handlers of \<open>routes/game/account\<close> and \<open>routes/game/leaderboard\<close>: profiles, their properties and metadata,
  statistics.  \<open>lower\<close> is \<open>strings.ToLower\<close>; decoded queries are arguments.
\<close>

section \<open>account\<close>

definition str_contains :: "string \<Rightarrow> string \<Rightarrow> bool" where
  "str_contains s sub \<longleftrightarrow> list_ex (\<lambda>i. has_prefix sub (drop i s)) [0..<Suc (length s)]"

definition FindProfiles :: "(string \<Rightarrow> string) \<Rightarrow> string \<Rightarrow> SessionData \<Rightarrow> handler" where
  "FindProfiles lower query sess w =
     (let name = lower query
      in if length name < 1 then (HReturn, JSON [JInt 2, JArr []] w)
         else (HReturn, JSON [JInt 0, JArr (Users_EncodeProfileInfo (w_users w) (Some (g_presence (w_game w)))
                 (\<lambda>u. str_contains (lower (u_alias u)) name) (sd_clientLibVersion sess))] w))"

definition FindProfilesByPlatformID :: "uint64 list option \<Rightarrow> SessionData \<Rightarrow> handler" where
  "FindProfilesByPlatformID bound sess w =
     (case bound of
        None \<Rightarrow> (HReturn, JSON [JInt 2, JArr []] w)
      | Some platformIDs \<Rightarrow>
          (HReturn, JSON [JInt 0, JArr (Users_EncodeProfileInfo (w_users w) (Some (g_presence (w_game w)))
             (\<lambda>u. u_platformUserId u \<in> set platformIDs) (sd_clientLibVersion sess))] w))"

text \<open>The identifiers of the request are called profile identifiers, but compared with the users'.\<close>

definition GetProfileName :: "int32 list option \<Rightarrow> SessionData \<Rightarrow> handler" where
  "GetProfileName bound sess w =
     (case bound of
        None \<Rightarrow> (HReturn, JSON [JInt 2, JArr []] w)
      | Some profileIDs \<Rightarrow>
          (HReturn, JSON [JInt 0, JArr (Users_EncodeProfileInfo (w_users w) None
             (\<lambda>u. u_id u \<in> set profileIDs) (sd_clientLibVersion sess))] w))"

definition put_profileProperties :: "(string \<times> string) list PersistentJsonData option \<Rightarrow> MainUser \<Rightarrow> MainUser" where
  "put_profileProperties p u = u\<lparr>u_profileProperties := p\<rparr>"

definition put_avatarMetadata :: "string PersistentJsonData option \<Rightarrow> MainUser \<Rightarrow> MainUser" where
  "put_avatarMetadata p u = u\<lparr>u_avatarMetadata := p\<rparr>"

definition put_avatarStats :: "AvatarStats PersistentJsonData option \<Rightarrow> MainUser \<Rightarrow> MainUser" where
  "put_avatarStats p u = u\<lparr>u_avatarStats := p\<rparr>"

text \<open>
  A change of the user's properties, if it has any; a user that is not found is a nil interface, and its method
  panics.
\<close>

definition change_properties ::
    "bool \<Rightarrow> ((string \<times> string) list \<Rightarrow> (string \<times> string) list) \<Rightarrow> SessionData \<Rightarrow> handler" where
  "change_properties io f sess w =
     (case GetUserById (w_users w) (sd_userId sess) of
        None \<Rightarrow> (HPanic, w)
      | Some u \<Rightarrow>
          and_then (if u_profileProperties u = None then (HReturn, w)
                    else user_ReadWrite io (GetPlatformPath u) u_profileProperties put_profileProperties
                           (\<lambda>d. (f d, Ret False)) w)
            (\<lambda>w1. (HReturn, JSON [JInt 0] w1)))"

definition AddProfileProperty :: "bool \<Rightarrow> (string \<times> string) option \<Rightarrow> SessionData \<Rightarrow> handler" where
  "AddProfileProperty io bound sess w =
     (case bound of
        None \<Rightarrow> (HReturn, JSON [JInt 0] w)
      | Some (propertyId, v) \<Rightarrow> change_properties io (AList.update propertyId v) sess w)"

definition ClearProfileProperty :: "bool \<Rightarrow> string option \<Rightarrow> SessionData \<Rightarrow> handler" where
  "ClearProfileProperty io bound sess w =
     (case bound of
        None \<Rightarrow> (HReturn, JSON [JInt 0] w)
      | Some propertyId \<Rightarrow> change_properties io (AList.delete propertyId) sess w)"

definition GetProfileProperty :: "(string \<times> int32) option \<Rightarrow> handler" where
  "GetProfileProperty bound w =
     (HReturn, JSON [JInt 0, JArr
        (case bound of
           None \<Rightarrow> []
         | Some (propertyId, profileID) \<Rightarrow>
             (case GetUserById (w_users w) profileID of
                None \<Rightarrow> []
              | Some u \<Rightarrow>
                  (case u_profileProperties u of
                     None \<Rightarrow> []
                   | Some p \<Rightarrow> (case map_of (pjd_data p) propertyId of None \<Rightarrow> [] | Some v \<Rightarrow> [JStr v]))))] w)"

definition SetAvatarMetadata :: "bool \<Rightarrow> string option \<Rightarrow> SessionData \<Rightarrow> handler" where
  "SetAvatarMetadata io bound sess w =
     (case bound of
        None \<Rightarrow> (HReturn, JSON [JInt 2, JArr []] w)
      | Some metadata \<Rightarrow>
          (case GetUserById (w_users w) (sd_userId sess) of
             None \<Rightarrow> (HPanic, w)
           | Some u \<Rightarrow>
               and_then (user_ReadWrite io (GetPlatformPath u) u_avatarMetadata put_avatarMetadata
                   (\<lambda>_. (metadata, Ret False)) w)
                 (\<lambda>w1. (HReturn, JSON [JInt 0, JArr (EncodeProfileInfo (sd_clientLibVersion sess)
                    (user_at w1 (GetPlatformPath u)))] w1))))"

text \<open>\<open>crossplayEnabled\<close>, or \<open>enable\<close> of Age of Empires I.\<close>

definition SetCrossplayEnabled :: "string \<Rightarrow> string \<Rightarrow> handler" where
  "SetCrossplayEnabled crossplayEnabled enable w =
     (if (if crossplayEnabled = [] then enable else crossplayEnabled) = ''1''
      then (HReturn, JSON [JInt 0] w) else (HReturn, JSON [JInt 2] w))"

definition SetLanguage :: handler where
  "SetLanguage w = (HReturn, JSON [JInt 2] w)"

section \<open>leaderboard\<close>

text \<open>\<open>GetStatGroups\<close>: the groups of the first identifier that is a user's; a list that does not decode gives a
  nil response.\<close>

fun GetStatGroups_first :: "(int32 \<Rightarrow> MainUser option) \<Rightarrow> int32 list \<Rightarrow> MainUser option" where
  "GetStatGroups_first get [] = None"
| "GetStatGroups_first get (i # ids) = (case get i of None \<Rightarrow> GetStatGroups_first get ids | Some u \<Rightarrow> Some u)"

definition GetStatGroups :: "int32 list option \<Rightarrow> bool \<Rightarrow> bool \<Rightarrow> SessionData \<Rightarrow> World \<Rightarrow> goA option" where
  "GetStatGroups bound isProfileId includeExtraProfileInfo sess w =
     (case bound of
        None \<Rightarrow> None
      | Some ids \<Rightarrow>
          Some (case GetStatGroups_first (if isProfileId then GetUserById (w_users w) else GetUserByStatId (w_users w)) ids of
             None \<Rightarrow> [JInt 0, JArr [], JArr [], JArr []]
           | Some u \<Rightarrow>
               [JInt 0, JArr [JArr [j32 (u_statId u), JStr [], JStr [], JInt 1, JArr [j32 (u_id u)]]],
                JArr [JArr (EncodeProfileInfo (sd_clientLibVersion sess) u)],
                JArr (if includeExtraProfileInfo then [JArr (EncodeExtraProfileInfo (sd_clientLibVersion sess) u)] else [])]))"

definition JSON_slice :: "goA option \<Rightarrow> World \<Rightarrow> World" where
  "JSON_slice d w = w\<lparr>w_out := w_out w @ [jslice d]\<rparr>"

definition GetPartyStat :: "int32 list option \<Rightarrow> SessionData \<Rightarrow> handler" where
  "GetPartyStat bound sess w = (HReturn, JSON_slice (GetStatGroups bound False True sess w) w)"

definition GetStatGroupsByProfileIDs :: "int32 list option \<Rightarrow> SessionData \<Rightarrow> handler" where
  "GetStatGroupsByProfileIDs bound sess w =
     (HReturn, JSON_slice (GetStatGroups bound True (w_title w = AoE2) sess w) w)"

definition GetStatsForLeaderboardByProfileName :: "int32 list option \<Rightarrow> SessionData \<Rightarrow> handler" where
  "GetStatsForLeaderboardByProfileName bound sess w = (HReturn, JSON_slice (GetStatGroups bound True False sess w) w)"

subsection \<open>setAvatarStatValues.go\<close>

record setAvatarStatValuesRequest =
  sv_AvatarStatIds :: "int32 list"
  sv_Values :: "int64 list"
  sv_UpdateTypes :: "int32 list"

definition fixedAvatarNames :: "string \<Rightarrow> string list" where
  "fixedAvatarNames title = (if title = AoM then [''STAT_GAUNTLET_REWARD_FAVOUR'', ''STAT_GAUNTLET_REWARD_XP''] else [])"

definition fixedAvatarIds :: "MainAvatarStatDefinitions \<Rightarrow> string \<Rightarrow> int32 list" where
  "fixedAvatarIds defs title = List.map_filter (GetIdByName defs) (fixedAvatarNames title)"

text \<open>The loop over the identifiers: a list of values that is too short makes it panic (\<open>None\<close>).\<close>

fun statValues :: "int32 list \<Rightarrow> int32 list \<Rightarrow> int64 list \<Rightarrow> (int32 \<times> int64) list \<Rightarrow> (int32 \<times> int64) list option" where
  "statValues fixed [] vs m = Some m"
| "statValues fixed (i # ids) vs m =
     (if i \<in> set fixed then statValues fixed ids (tl vs) m
      else (case vs of [] \<Rightarrow> None | v # rest \<Rightarrow> statValues fixed ids rest (AList.update i v m)))"

text \<open>
  The callback, over the values in the order in which Go iterates over them.  \<open>GetStat\<close> returns a copy: the value set
  on it is encoded but not stored.
\<close>

fun setStats :: "int \<Rightarrow> int32 \<Rightarrow> (int32 \<times> int64) list \<Rightarrow> AvatarStats \<Rightarrow> goA \<Rightarrow> AvatarStats \<times> goA" where
  "setStats now profileId [] as enc = (as, enc)"
| "setStats now profileId ((i, v) # rest) as enc =
     (case AvatarStats_GetStat as i of
        Some s \<Rightarrow> setStats now profileId rest as (enc @ [JArr (AvatarStat_Encode profileId (AvatarStat_SetValue now v s))])
      | None \<Rightarrow> let s = NewAvatarStat now i v
                in setStats now profileId rest (AvatarStats_AddStat s as) (enc @ [JArr (AvatarStat_Encode profileId s)]))"

text \<open>
  The error response is not followed by a return; what was decoded before the error is in \<open>req\<close>.  A nil
  leaderboard or nil statistics make it panic.
\<close>

definition SetAvatarStatValues :: "bool \<Rightarrow> int \<Rightarrow> bool \<Rightarrow> setAvatarStatValuesRequest \<Rightarrow> SessionData \<Rightarrow> handler" where
  "SetAvatarStatValues io now bindOk req sess w =
     (let bad = (\<not> bindOk \<or> length (sv_Values req) < 1 \<or> length (sv_AvatarStatIds req) \<noteq> length (sv_Values req)
                 \<or> length (sv_UpdateTypes req) \<noteq> length (sv_Values req));
          w1 = (if bad then JSON [JInt 2] w else w)
      in case GetUserById (w_users w1) (sd_userId sess) of
           None \<Rightarrow> (HReturn, JSON [JInt 2] w1)
         | Some u \<Rightarrow>
             (case g_leaderboard (w_game w1) of
                None \<Rightarrow> (HPanic, w1)
              | Some defs \<Rightarrow>
                  (case statValues (fixedAvatarIds defs (w_title w1)) (sv_AvatarStatIds req) (sv_Values req) [] of
                     None \<Rightarrow> (HPanic, w1)
                   | Some values \<Rightarrow>
                       if values = [] then (HReturn, JSON [JInt 0] w1)
                       else (case u_avatarStats u of
                               None \<Rightarrow> (HPanic, w1)
                             | Some p \<Rightarrow>
                                 let (as, enc) = setStats now (u_profileId u) values (pjd_data p) []
                                 in and_then (user_ReadWrite io (GetPlatformPath u) u_avatarStats put_avatarStats
                                        (\<lambda>_. (as, Ret False)) w1)
                                      (\<lambda>w2. (HReturn, JSON [JInt 0]
                                         (snd (SendOrStoreMessage (Some sess) ''AvatarStatsUpdatedMessage'' [JArr enc] w2))))))))"

section \<open>Handlers with a fixed answer\<close>

definition Leaderboard_ApplyOfflineUpdates :: handler where
  "Leaderboard_ApplyOfflineUpdates w = (HReturn, JSON [JInt 0, JArr [], JArr []] w)"

definition GetAvatarStatLeaderBoard :: handler where
  "GetAvatarStatLeaderBoard w = (HReturn, JSON [JInt 0, JArr [], JArr []] w)"

definition GetLeaderBoard :: handler where
  "GetLeaderBoard w = (HReturn, JSON [JInt 0, JArr [], JArr [], JArr []] w)"

definition GetRecentMatchHistory :: handler where
  "GetRecentMatchHistory w = (HReturn, JSON [JInt 0, JArr []] w)"

definition GetRecentMatchSinglePlayerHistory :: handler where
  "GetRecentMatchSinglePlayerHistory w = (HReturn, JSON [JInt 13, JArr []] w)"

definition GetChallengeProgressData :: goA where
  "GetChallengeProgressData = []"

definition GetChallengeProgress :: handler where
  "GetChallengeProgress w = (HReturn, JSON [JInt 0, JArr GetChallengeProgressData] w)"

definition UpdateProgress :: handler where
  "UpdateProgress w = (HReturn, JSON [JInt 2, JArr [], JArr []] w)"

definition UpdateProgressBatched :: handler where
  "UpdateProgressBatched w = (HReturn, JSON [JInt 0] w)"

definition GetAchievements :: "SessionData \<Rightarrow> handler" where
  "GetAchievements sess w = (HReturn, JSON [JInt 0, JArr [JArr [j32 (sd_userId sess), JArr []]]] w)"

definition GrantAchievement :: "int \<Rightarrow> handler" where
  "GrantAchievement now w = (HReturn, JSON [JInt 2, JInt now] w)"

definition SyncStats :: handler where
  "SyncStats w = (HReturn, JSON [JInt 2] w)"

definition ClearRelationship :: handler where
  "ClearRelationship w = (HReturn, JSON [JInt 2] w)"

definition DeleteOfflineMessage :: handler where
  "DeleteOfflineMessage w = (HReturn, JSON [JInt 0] w)"

definition Clan_Create :: handler where
  "Clan_Create w = (HReturn, JSON [JInt 2, JNull, JNull, JArr []] w)"

definition Clan_Find :: handler where
  "Clan_Find w = (HReturn, JSON [JInt 0, JArr []] w)"

definition GetNews :: handler where
  "GetNews w = (HReturn, JSON [JInt 0, JArr [], JArr []] w)"

definition ReportUser :: handler where
  "ReportUser w = (HReturn, JSON [JInt 2, JInt 0] w)"

definition FinalizeReplayUpload :: handler where
  "FinalizeReplayUpload w = (HReturn, JSON [JInt 0] w)"

definition GetEventLeaderboard :: handler where
  "GetEventLeaderboard w = (HReturn, JSON [JInt 2, JArr [], JArr [], JArr []] w)"

definition GetEventStats :: handler where
  "GetEventStats w = (HReturn, JSON [JInt 2, JArr [], JArr [], JArr [], JArr []] w)"

text \<open>\<open>CommunityEventsEncoded\<close> of Age of Mythology is an argument.\<close>

definition GetAvailableCommunityEvents :: "goA \<Rightarrow> handler" where
  "GetAvailableCommunityEvents athensEvents w =
     (HReturn, JSON (if w_title w = AoM then athensEvents
        else [JInt 0, JArr [], JArr []] @ (if w_title w = AoE2 \<or> w_title w = AoE4 then [JArr [], JArr [], JArr [], JArr []] else [])) w)"

end
