(* ===== verification/ItemRoutes.thy ===== *)
theory ItemRoutes
  imports AccountRoutes
begin

text \<open>
  The handlers of \<open>routes/game/item\<close>: a user's items and loadouts.  An item is a pointer in the map of the
  user's items: its record is read and written under its identifier.
\<close>

type_synonym UserItems = "(int32 \<times> MainItem) list"

definition put_itemLoadouts :: "MainItemLoadouts PersistentJsonData option \<Rightarrow> MainUser \<Rightarrow> MainUser" where
  "put_itemLoadouts p u = u\<lparr>u_itemLoadouts := p\<rparr>"

section \<open>Changes of several items\<close>

text \<open>
  The three handlers that change items run a callback in one transaction over the items of the request.  The callback
  yields the items, the error codes and the encoded items in order, or a panic: then the changes before it stay in
  memory, and are not saved.
\<close>

definition items_transaction ::
    "bool \<Rightarrow> (UserItems \<Rightarrow> UserItems \<times> (jv list \<times> jv list) outcome) \<Rightarrow> SessionData \<Rightarrow> handler" where
  "items_transaction io f sess w =
     (case GetUserById (w_users w) (sd_userId sess) of
        None \<Rightarrow> (HReturn, JSON [JInt 2, JArr [], JArr []] w)
      | Some u \<Rightarrow>
          (case u_items u of
             None \<Rightarrow> (HPanic, w)
           | Some p \<Rightarrow>
               (case f (pjd_data p) of
                  (d, Panic) \<Rightarrow> user_ReadWrite io (GetPlatformPath u) u_items put_items (\<lambda>_. (d, Panic)) w
                | (d, Ret (errorCodes, encoded)) \<Rightarrow>
                    and_then (user_ReadWrite io (GetPlatformPath u) u_items put_items (\<lambda>_. (d, Ret False)) w)
                      (\<lambda>w1. (HReturn, JSON [JInt 0, JArr errorCodes, JArr encoded] w1)))))"

text \<open>One entry of the request after the other; \<open>step\<close> changes an item or panics.\<close>

fun items_loop ::
    "('a \<Rightarrow> int32) \<Rightarrow> ('a \<Rightarrow> MainItem \<Rightarrow> MainItem \<times> bool) \<Rightarrow> ('a \<Rightarrow> int \<Rightarrow> jv) \<Rightarrow> int32 \<Rightarrow> 'a list \<Rightarrow> UserItems
       \<Rightarrow> jv list \<Rightarrow> jv list \<Rightarrow> UserItems \<times> (jv list \<times> jv list) outcome" where
  "items_loop itemId step code userId [] items errs enc = (items, Ret (errs, enc))"
| "items_loop itemId step code userId (x # xs) items errs enc =
     (case map_of items (itemId x) of
        None \<Rightarrow> items_loop itemId step code userId xs items (errs @ [code x 2]) (enc @ [JArr []])
      | Some item \<Rightarrow>
          (case step x item of
             (item', True) \<Rightarrow> (al_modify (itemId x) (\<lambda>_. item') items, Panic)
           | (item', False) \<Rightarrow>
               let item'' = IncrementVersion item'
               in items_loop itemId step code userId xs (al_modify (itemId x) (\<lambda>_. item'') items)
                    (errs @ [code x 0]) (enc @ [JArr (MainItem_Encode userId item'')])))"

definition DetachItems_step :: "int32 \<times> int32 \<times> int32 \<Rightarrow> MainItem \<Rightarrow> MainItem \<times> bool" where
  "DetachItems_step r item =
     (let (_, itemLocationId, durabilityCount) = r;
          item1 = (if itemLocationId \<noteq> - 1 then SetLocationId itemLocationId item else item);
          item2 = (if durabilityCount \<noteq> - 1 then SetDurabilityCount durabilityCount item1 else item1)
      in (item2, False))"

definition DetachItems :: "bool \<Rightarrow> (int32 list \<times> int32 list \<times> int32 list) option \<Rightarrow> SessionData \<Rightarrow> handler" where
  "DetachItems io bound sess w =
     (case bound of
        None \<Rightarrow> (HReturn, JSON [JInt 2, JArr [], JArr []] w)
      | Some (itemIds, locationIds, durabilityCounts) \<Rightarrow>
          let ns = [length itemIds, length locationIds, length durabilityCounts];
              minLength = Min (set ns); maxLength = Max (set ns)
          in if minLength = 0 \<or> maxLength = 0 \<or> minLength \<noteq> maxLength
             then (HReturn, JSON [JInt 2, JArr [], JArr []] w)
             else items_transaction io
                    (\<lambda>d. items_loop fst DetachItems_step (\<lambda>_ e. JInt e) (sd_userId sess)
                       (zip itemIds (zip locationIds durabilityCounts)) d [] []) sess w)"

text \<open>A slot is written into the other metadata of the item, a nil map if it has none.\<close>

definition MoveItem_step :: "int32 \<times> int32 \<times> int32 \<times> int32 \<Rightarrow> MainItem \<Rightarrow> MainItem \<times> bool" where
  "MoveItem_step r item =
     (let (_, itemLocationId, positionId, slotId) = r;
          item1 = (if itemLocationId \<noteq> - 1 then SetLocationId itemLocationId item else item)
      in if slotId \<noteq> - 1
         then (case ItemMetadata_UpdateOther ''eslot'' (JStr (itoa (sint slotId))) (it_metadata item1) of
                 Panic \<Rightarrow> (item1, True)
               | Ret md \<Rightarrow> (item1\<lparr>it_metadata := md\<rparr>, False))
         else (item1, False))"

definition MoveItem :: "bool \<Rightarrow> (int32 list \<times> int32 list \<times> int32 list \<times> int32 list) option \<Rightarrow> SessionData \<Rightarrow> handler" where
  "MoveItem io bound sess w =
     (case bound of
        None \<Rightarrow> (HReturn, JSON [JInt 2, JArr [], JArr []] w)
      | Some (itemIds, locationIds, positionIds, slotIds) \<Rightarrow>
          let ns = [length itemIds, length locationIds, length positionIds, length slotIds];
              minLength = Min (set ns); maxLength = Max (set ns)
          in if minLength = 0 \<or> maxLength = 0 \<or> minLength \<noteq> maxLength
             then (HReturn, JSON [JInt 2, JArr [], JArr []] w)
             else items_transaction io
                    (\<lambda>d. items_loop fst MoveItem_step (\<lambda>_ e. JInt e) (sd_userId sess)
                       (zip itemIds (zip locationIds (zip positionIds slotIds))) d [] []) sess w)"

text \<open>Every item gets all the attributes; writing to a nil map panics at the first.\<close>

fun update_attributes :: "(string \<times> string) list \<Rightarrow> ItemMetadata \<Rightarrow> ItemMetadata outcome" where
  "update_attributes [] md = Ret md"
| "update_attributes ((k, v) # kvs) md =
     (case ItemMetadata_UpdateAttribute k v md of Panic \<Rightarrow> Panic | Ret md' \<Rightarrow> update_attributes kvs md')"

definition UpdateItemAttributes_step :: "(string \<times> string) list \<Rightarrow> int32 \<Rightarrow> MainItem \<Rightarrow> MainItem \<times> bool" where
  "UpdateItemAttributes_step kvs i item =
     (case update_attributes kvs (it_metadata item) of
        Panic \<Rightarrow> (item, True) | Ret md \<Rightarrow> (item\<lparr>it_metadata := md\<rparr>, False))"

definition UpdateItemAttributes ::
    "bool \<Rightarrow> (string list \<times> string list \<times> int32 list \<times> int32 list) option \<Rightarrow> SessionData \<Rightarrow> handler" where
  "UpdateItemAttributes io bound sess w =
     (case bound of
        None \<Rightarrow> (HReturn, JSON [JInt 2, JArr [], JArr []] w)
      | Some (ks, vals, itemIds, xpGains) \<Rightarrow>
          let ns = [length ks, length vals, length itemIds, length xpGains];
              minLength = Min (set ns); maxLength = Max (set ns)
          in if minLength = 0 \<or> maxLength = 0 \<or> minLength \<noteq> maxLength
             then (HReturn, JSON [JInt 2, JArr [], JArr []] w)
             else items_transaction io
                    (\<lambda>d. items_loop id (UpdateItemAttributes_step (zip ks vals))
                       (\<lambda>_ e. JArr [JInt e, JArr (replicate (length ks) (JInt e))]) (sd_userId sess) itemIds d [] [])
                    sess w)"

section \<open>Reading items\<close>

text \<open>Only the user's own items are shown; the slice of items is nil if there is none.\<close>

definition inventory_row :: "MainUsers \<Rightarrow> int32 \<Rightarrow> int32 \<Rightarrow> goA option outcome" where
  "inventory_row users userId profileId =
     (if userId \<noteq> profileId then Ret None
      else (case GetUserById users profileId of
              None \<Rightarrow> Ret None
            | Some u \<Rightarrow>
                (case u_items u of
                   None \<Rightarrow> Panic
                 | Some p \<Rightarrow> Ret (if pjd_data p = [] then None
                              else Some (map (\<lambda>(_, item). JArr (MainItem_Encode profileId item)) (pjd_data p))))))"

definition GetInventoryByProfileIDs :: "int32 list option \<Rightarrow> SessionData \<Rightarrow> handler" where
  "GetInventoryByProfileIDs bound sess w =
     (case bound of
        None \<Rightarrow> (HReturn, JSON [JInt 2] w)
      | Some profileIDs \<Rightarrow>
          (case (case g_items (w_game w) of None \<Rightarrow> Panic | Some items \<Rightarrow> EncodeLocations items) of
             Panic \<Rightarrow> (HPanic, w)
           | Ret locations \<Rightarrow>
               let rows = map (\<lambda>i. (i, inventory_row (w_users w) (sd_userId sess) i)) profileIDs
               in if \<exists>r \<in> set rows. snd r = Panic then (HPanic, w)
                  else (HReturn, JSON [JInt 0,
                     JArr (map (\<lambda>(i, r). JArr [JStr (itoa (sint i)), (case r of Ret x \<Rightarrow> jslice x | Panic \<Rightarrow> JNull)]) rows),
                     JArr (map (\<lambda>(i, r). JArr [JStr (itoa (sint i)), JArr locations]) rows)] w)))"

section \<open>Loadouts\<close>

text \<open>
  What is not a location must be an item of the user.  A nil \<open>Items()\<close> panics at the first identifier.  \<open>draw\<close> is
  the identifier the generator draws.
\<close>

definition CreateItemLoadout :: "bool \<Rightarrow> int32 \<Rightarrow> (int32 list \<times> string \<times> int32) option \<Rightarrow> SessionData \<Rightarrow> handler" where
  "CreateItemLoadout io draw bound sess w =
     (case bound of
        None \<Rightarrow> (HReturn, JSON [JInt 2, JArr []] w)
      | Some (itemOrLocIds, name, typ) \<Rightarrow>
          (case GetUserById (w_users w) (sd_userId sess) of
             None \<Rightarrow> (HReturn, JSON [JInt 2, JArr []] w)
           | Some u \<Rightarrow>
               if itemOrLocIds \<noteq> [] \<and> g_items (w_game w) = None then (HPanic, w)
               else
                 let itemIds = filter (\<lambda>i. GetLocation (the (g_items (w_game w))) i = None) itemOrLocIds
                 in if itemIds \<noteq> [] \<and> u_items u = None then (HPanic, w)
                    else if itemIds \<noteq> [] \<and> \<not> set itemIds \<subseteq> fst ` set (pjd_data (the (u_items u)))
                    then (HReturn, JSON [JInt 2, JArr []] w)
                    else (case u_itemLoadouts u of
                            None \<Rightarrow> (HPanic, w)
                          | Some p \<Rightarrow>
                              (case NewItemLoadout draw name typ (remdups itemOrLocIds) (sd_userId sess) (pjd_data p) of
                                 None \<Rightarrow> (HHang, w)
                               | Some (enc, l) \<Rightarrow>
                                   and_then (user_ReadWrite io (GetPlatformPath u) u_itemLoadouts put_itemLoadouts
                                       (\<lambda>_. (l, Ret False)) w)
                                     (\<lambda>w1. (HReturn, JSON [JInt 0, JArr enc] w1))))))"

definition UpdateItemLoadout :: "bool \<Rightarrow> (int32 \<times> int32 list \<times> string \<times> int32) option \<Rightarrow> SessionData \<Rightarrow> handler" where
  "UpdateItemLoadout io bound sess w =
     (case bound of
        None \<Rightarrow> (HReturn, JSON [JInt 2, JArr []] w)
      | Some (i, itemOrLocIds, name, typ) \<Rightarrow>
          (case GetUserById (w_users w) (sd_userId sess) of
             None \<Rightarrow> (HReturn, JSON [JInt 2, JArr []] w)
           | Some u \<Rightarrow>
               (case u_itemLoadouts u of
                  None \<Rightarrow> (HPanic, w)
                | Some p \<Rightarrow>
                    let d = al_modify i (MainItemLoadout_Update name typ (remdups itemOrLocIds)) (pjd_data p)
                    in and_then (user_ReadWrite io (GetPlatformPath u) u_itemLoadouts put_itemLoadouts (\<lambda>_. (d, Ret False)) w)
                         (\<lambda>w1. (HReturn,
                            case MainItemLoadouts_Get d i of
                              None \<Rightarrow> JSON [JInt 2, JArr []] w1
                            | Some lo \<Rightarrow> JSON [JInt 0, JArr (MainItemLoadout_Encode (sd_userId sess) lo)] w1)))))"

definition EquipItemLoadout :: "int32 option \<Rightarrow> SessionData \<Rightarrow> handler" where
  "EquipItemLoadout bound sess w =
     (case bound of
        None \<Rightarrow> (HReturn, JSON [JInt 2, JArr [], JArr []] w)
      | Some i \<Rightarrow>
          (case GetUserById (w_users w) (sd_userId sess) of
             None \<Rightarrow> (HReturn, JSON [JInt 2, JArr [], JArr []] w)
           | Some u \<Rightarrow>
               (case u_itemLoadouts u of
                  None \<Rightarrow> (HPanic, w)
                | Some p \<Rightarrow> (HReturn,
                    case MainItemLoadouts_Get (pjd_data p) i of
                      None \<Rightarrow> JSON [JInt 2, JArr [], JArr []] w
                    | Some lo \<Rightarrow> JSON [JInt 0, JArr (MainItemLoadout_Encode (sd_userId sess) lo), JArr []] w))))"

definition GetItemLoadouts :: "SessionData \<Rightarrow> handler" where
  "GetItemLoadouts sess w =
     (case GetUserById (w_users w) (sd_userId sess) of
        None \<Rightarrow> (HPanic, w)
      | Some u \<Rightarrow>
          let encoded = (case u_itemLoadouts u of None \<Rightarrow> []
                         | Some p \<Rightarrow> map (\<lambda>(_, lo). JArr (MainItemLoadout_Encode (sd_userId sess) lo)) (pjd_data p))
          in (HReturn, JSON [JInt 0, jslice (if encoded = [] then None else Some encoded)] w))"

section \<open>Fixed answers\<close>

definition GetItemPrices :: handler where
  "GetItemPrices w = (HReturn, JSON [JInt 0, JArr [], JInt 0, JArr []] w)"

definition GetPersonalizedSaleItems :: handler where
  "GetPersonalizedSaleItems w = (HReturn, JSON [JInt 0, JArr [], JArr []] w)"

definition GetScheduledSaleAndItems :: handler where
  "GetScheduledSaleAndItems w = (HReturn, JSON [JInt 0, JArr [], JArr [], JInt 0] w)"

definition SignItems :: handler where
  "SignItems w = (HReturn, JSON [JInt 2, JStr []] w)"

end
