(* ===== verification/ItemProps.thy ===== *)
theory ItemProps
  imports ItemRoutes AuthProps
begin

text \<open>
  What the handlers of accounts, statistics and items keep for a user.
\<close>

section \<open>A user changed through its pointer\<close>

lemma find_map_pres: "(\<And>x. P (g x) = P x) \<Longrightarrow> List.find P (map g xs) = map_option g (List.find P xs)"
  by (induction xs) auto

text \<open>A change that keeps the identifier does not change which user is found.\<close>

lemma GetUserById_modify_eq:
  assumes "Users_wf users" and "\<And>u. u_id (f u) = u_id u"
  shows "GetUserById (SafeMap_modify k f users) i =
    map_option (\<lambda>u. if GetPlatformPath u = k then f u else u) (GetUserById users i)"
proof -
  have wf: "SafeMap_wf users" using assms(1) by (simp add: Users_wf_def)
  have p: "GetPlatformPath u = k'" if "(k', u) \<in> set (ro users)" for k' u
  proof -
    from that wf have "SafeMap_Load users k' = Some u"
      by (simp add: SafeMap_Load_def SafeMap_wf_def map_of_eq_Some_iff)
    then show ?thesis using assms(1) by (simp add: Users_wf_def)
  qed
  have "SafeMap_Values (SafeMap_modify k f users) = map (\<lambda>u. if GetPlatformPath u = k then f u else u) (SafeMap_Values users)"
    using p by (auto simp: SafeMap_Values_def SafeMap_modify_def al_modify_def)
  then show ?thesis
    unfolding GetUserById_def Users_getFirst_def by (simp add: find_map_pres assms(2))
qed

text \<open>A transaction that does not panic, on a part the user has.\<close>

lemma user_ReadWrite_ok:
  assumes "SafeMap_Load (w_users w) k = Some u" and "get u = Some p" and "fn (pjd_data p) = (d, Ret False)"
  shows "user_ReadWrite io k get put fn w =
    (HReturn, update_users (SafeMap_modify k (put (Some (p\<lparr>pjd_data := d, pjd_saved := d\<rparr>)))) w)"
  using assms by (simp add: user_ReadWrite_def user_at_def WithReadWrite_def Let_def)

lemma GetUserById_Load:
  "Users_wf users \<Longrightarrow> GetUserById users i = Some u \<Longrightarrow> SafeMap_Load users (GetPlatformPath u) = Some u \<and> u_id u = i"
  using Users_getFirst_some [of users "\<lambda>u. u_id u = i" u] by (simp add: GetUserById_def)

lemma put_ids [simp]:
  "u_id (put_profileProperties p u) = u_id u" "u_id (put_avatarStats s u) = u_id u" "u_id (put_items q u) = u_id u"
  by (simp_all add: put_profileProperties_def put_avatarStats_def put_items_def)

section \<open>Profile properties\<close>

lemma change_properties_ok:
  assumes "Users_wf (w_users w)" and "GetUserById (w_users w) (sd_userId sess) = Some u" and "u_profileProperties u = Some p"
  shows "change_properties io f sess w = (HReturn, JSON [JInt 0] (update_users (SafeMap_modify (GetPlatformPath u)
      (put_profileProperties (Some (p\<lparr>pjd_data := f (pjd_data p), pjd_saved := f (pjd_data p)\<rparr>)))) w))"
proof -
  have l: "SafeMap_Load (w_users w) (GetPlatformPath u) = Some u" using GetUserById_Load [OF assms(1,2)] by simp
  show ?thesis
    using assms(2,3) user_ReadWrite_ok [where get = u_profileProperties and put = put_profileProperties
        and fn = "\<lambda>d. (f d, Ret False)" and w = w and io = io, OF l] by (simp add: change_properties_def)
qed

lemma GetProfileProperty_changed:
  assumes "Users_wf (w_users w)" and "GetUserById (w_users w) (sd_userId sess) = Some u" and "u_profileProperties u = Some p"
  shows "w_out (snd (GetProfileProperty (Some (key, sd_userId sess)) (snd (change_properties io f sess w)))) =
    w_out w @ [JArr [JInt 0], JArr [JInt 0, JArr (case map_of (f (pjd_data p)) key of None \<Rightarrow> [] | Some v \<Rightarrow> [JStr v])]]"
proof -
  let ?p = "p\<lparr>pjd_data := f (pjd_data p), pjd_saved := f (pjd_data p)\<rparr>"
  have g: "GetUserById (SafeMap_modify (GetPlatformPath u) (put_profileProperties (Some ?p)) (w_users w)) (sd_userId sess) =
      Some (put_profileProperties (Some ?p) u)"
    using GetUserById_modify_eq [OF assms(1), of "put_profileProperties (Some ?p)"] assms(2) by simp
  show ?thesis
    unfolding change_properties_ok [OF assms] by (simp add: GetProfileProperty_def g) (simp add: put_profileProperties_def)
qed

text \<open>
  A profile property that was added is read back by anyone who asks for it, one that was cleared
  is not, and neither call touches the other properties of the user.
\<close>

lemma profile_property_roundtrip:
  assumes "Users_wf (w_users w)" and "GetUserById (w_users w) (sd_userId sess) = Some u" and "u_profileProperties u = Some p"
    and "key' \<noteq> key"
  shows "let ask = (\<lambda>key w. last (w_out (snd (GetProfileProperty (Some (key, sd_userId sess)) w))));
      added = snd (AddProfileProperty io (Some (key, v)) sess w); cleared = snd (ClearProfileProperty io (Some key) sess w)
    in ask key added = JArr [JInt 0, JArr [JStr v]] \<and> ask key cleared = JArr [JInt 0, JArr []]
     \<and> ask key' added = ask key' w \<and> ask key' cleared = ask key' w"
proof -
  have a: "last (w_out (snd (GetProfileProperty (Some (k, sd_userId sess)) w))) =
      JArr [JInt 0, JArr (case map_of (pjd_data p) k of None \<Rightarrow> [] | Some v \<Rightarrow> [JStr v])]" for k
    using assms(2,3) by (simp add: GetProfileProperty_def)
  show ?thesis
    unfolding Let_def AddProfileProperty_def ClearProfileProperty_def option.case prod.case
      GetProfileProperty_changed [OF assms(1-3)] a
    using assms(4) by simp
qed

section \<open>Statistics\<close>

lemma setStats_old:
  "AvatarStats_wf as \<Longrightarrow> SafeMap_Load as i = Some s \<Longrightarrow> SafeMap_Load (fst (setStats now pid kvs as enc)) i = Some s"
proof (induction now pid kvs as enc rule: setStats.induct)
  case (2 now pid j v rest as enc)
  show ?case
  proof (cases "AvatarStats_GetStat as j")
    case None
    have wf: "SafeMap_wf as" using "2.prems"(1) by (simp add: AvatarStats_wf_def)
    have "SafeMap_Load (AvatarStats_AddStat (NewAvatarStat now j v) as) i = Some s"
      unfolding AvatarStats_AddStat_def by (rule sm.ins_keeps [OF wf "2.prems"(2)])
    from "2.IH"(1) [OF None refl AvatarStats_wf_AddStat [OF "2.prems"(1)] this] None show ?thesis by (simp add: Let_def)
  next
    case (Some t)
    from "2.IH"(2) [OF Some "2.prems"] Some show ?thesis by simp
  qed
qed simp

lemma setStats_sent:
  assumes "AvatarStats_wf as" and "SafeMap_Load as i = Some s" and "(i, v) \<in> set kvs"
  shows "JArr (AvatarStat_Encode pid (AvatarStat_SetValue now v s)) \<in> set (snd (setStats now pid kvs as enc))"
  using assms
proof (induction now pid kvs as enc rule: setStats.induct)
  case (2 now pid j w rest as enc)
  have keep: "set enc' \<subseteq> set (snd (setStats now pid kvs as' enc'))" for kvs as' and enc' :: "jv list"
    by (induction now pid kvs as' enc' rule: setStats.induct) (auto simp: Let_def split: option.split)
  show ?case
  proof (cases "AvatarStats_GetStat as j")
    case None
    with "2.prems" have m: "(i, v) \<in> set rest" by (auto simp: AvatarStats_GetStat_def)
    have wf: "SafeMap_wf as" using "2.prems"(1) by (simp add: AvatarStats_wf_def)
    have "SafeMap_Load (AvatarStats_AddStat (NewAvatarStat now j w) as) i = Some s"
      unfolding AvatarStats_AddStat_def by (rule sm.ins_keeps [OF wf "2.prems"(2)])
    from "2.IH"(1) [OF None refl AvatarStats_wf_AddStat [OF "2.prems"(1)] this m] None show ?thesis by (simp add: Let_def)
  next
    case (Some t)
    show ?thesis
    proof (cases "(i, v) \<in> set rest")
      case True
      from "2.IH"(2) [OF Some "2.prems"(1,2) True] Some show ?thesis by simp
    next
      case False
      with "2.prems"(3) have "j = i" "w = v" by auto
      with Some "2.prems"(2) have "t = s" by (simp add: AvatarStats_GetStat_def)
      then show ?thesis using Some \<open>j = i\<close> \<open>w = v\<close>
        keep [of "enc @ [JArr (AvatarStat_Encode pid (AvatarStat_SetValue now v s))]" rest as] by auto
    qed
  qed
qed simp

text \<open>
  A new value for a statistic the user already has is acknowledged and sent to the client, but not stored:
  \<open>GetStat\<close> returns a copy and only the copy is changed.  No statistic is ever changed by the handler.
\<close>

lemma SetAvatarStatValues_keeps_old:
  assumes "Users_wf (w_users w)" and "GetUserById (w_users w) (sd_userId sess) = Some u" and "u_avatarStats u = Some p"
    and "AvatarStats_wf (pjd_data p)" and "g_leaderboard (w_game w) = Some defs"
    and "SafeMap_Load (pjd_data p) i = Some s"
    and "statValues (fixedAvatarIds defs (w_title w)) (sv_AvatarStatIds req) (sv_Values req) [] = Some kvs" and "(i, v) \<in> set kvs"
    and "length (sv_AvatarStatIds req) = length (sv_Values req)" and "length (sv_UpdateTypes req) = length (sv_Values req)"
  shows "let r = SetAvatarStatValues io now True req sess w in
      fst r = HReturn \<and> w_out (snd r) = w_out w @ [JArr [JInt 0]]
    \<and> (\<exists>enc. w_sent (snd r) = w_sent w @ [(sd_id sess, finalMessage sess ''AvatarStatsUpdatedMessage'' [JArr enc])]
          \<and> JArr (AvatarStat_Encode (u_profileId u) (AvatarStat_SetValue now v s)) \<in> set enc)
    \<and> map_option (\<lambda>q. SafeMap_Load (pjd_data q) i) (u_avatarStats (user_at (snd r) (GetPlatformPath u))) = Some (Some s)"
proof -
  let ?st = "setStats now (u_profileId u) kvs (pjd_data p) []"
  let ?p = "p\<lparr>pjd_data := fst ?st, pjd_saved := fst ?st\<rparr>"
  have l: "SafeMap_Load (w_users w) (GetPlatformPath u) = Some u" using GetUserById_Load [OF assms(1,2)] by simp
  have n: "sv_Values req \<noteq> []" using assms(7,8,9) by auto
  have rw: "user_ReadWrite io (GetPlatformPath u) u_avatarStats put_avatarStats (\<lambda>_. (fst ?st, Ret False)) w =
      (HReturn, update_users (SafeMap_modify (GetPlatformPath u) (put_avatarStats (Some ?p))) w)"
    by (rule user_ReadWrite_ok [where get = u_avatarStats and put = put_avatarStats, OF l assms(3)]) simp
  have e: "SetAvatarStatValues io now True req sess w = (HReturn, JSON [JInt 0] (snd (SendOrStoreMessage (Some sess) ''AvatarStatsUpdatedMessage''
      [JArr (snd ?st)] (update_users (SafeMap_modify (GetPlatformPath u) (put_avatarStats (Some ?p))) w))))"
    unfolding SetAvatarStatValues_def using assms(2,3,5,8-10) n by (auto simp: assms(7) rw split_def Let_def)
  have s: "SafeMap_Load (fst ?st) i = Some s" by (rule setStats_old [OF assms(4,6)])
  have "JArr (AvatarStat_Encode (u_profileId u) (AvatarStat_SetValue now v s)) \<in> set (snd ?st)"
    by (rule setStats_sent [OF assms(4,6,8)])
  then show ?thesis
    unfolding e Let_def using l s
    by (auto simp: SendOrStoreMessage_def user_at_def SafeMap_Load_modify put_avatarStats_def intro: exI [of _ "snd ?st"])
qed

text \<open>A loop whose steps do not panic, over different items.\<close>

lemma items_loop_ok:
  assumes "\<And>x item. \<not> snd (step x item)" and "distinct (map itemId xs)"
  shows "\<exists>items'. items_loop itemId step code userId xs items errs enc = (items',
        Ret (errs @ map (\<lambda>x. code x (if map_of items (itemId x) = None then 2 else 0)) xs,
             enc @ map (\<lambda>x. JArr (case map_of items (itemId x) of None \<Rightarrow> []
                                 | Some item \<Rightarrow> MainItem_Encode userId (IncrementVersion (fst (step x item))))) xs))
    \<and> (\<forall>x \<in> set xs. map_of items' (itemId x) =
          map_option (\<lambda>item. IncrementVersion (fst (step x item))) (map_of items (itemId x)))
    \<and> (\<forall>i. i \<notin> itemId ` set xs \<longrightarrow> map_of items' i = map_of items i)"
  using assms(2)
proof (induction xs arbitrary: items errs enc)
  case (Cons x xs)
  have ne: "itemId y \<noteq> itemId x" if "y \<in> set xs" for y using Cons.prems imageI [OF that, of itemId] by auto
  show ?case
  proof (cases "map_of items (itemId x)")
    case None
    from Cons.IH [of items "errs @ [code x 2]" "enc @ [JArr []]"] Cons.prems None show ?thesis by auto
  next
    case (Some item)
    let ?item = "IncrementVersion (fst (step x item))"
    let ?items = "al_modify (itemId x) (\<lambda>_. ?item) items"
    have st: "step x item = (fst (step x item), False)" using assms(1) [of x item] by (cases "step x item") auto
    have m: "map_of ?items i = (if i = itemId x then Some ?item else map_of items i)" for i
      using Some by (simp add: map_of_al_modify)
    have l: "items_loop itemId step code userId (x # xs) items errs enc =
        items_loop itemId step code userId xs ?items (errs @ [code x 0]) (enc @ [JArr (MainItem_Encode userId ?item)])"
      using Some by (simp add: Let_def) (subst st, simp)
    from Cons.prems have d: "distinct (map itemId xs)" by simp
    have out: "itemId x \<notin> itemId ` set xs" using Cons.prems by auto
    from Cons.IH [OF d, of ?items "errs @ [code x 0]" "enc @ [JArr (MainItem_Encode userId ?item)]"]
    obtain items' where h: "items_loop itemId step code userId xs ?items (errs @ [code x 0]) (enc @ [JArr (MainItem_Encode userId ?item)]) =
        (items', Ret ((errs @ [code x 0]) @ map (\<lambda>x. code x (if map_of ?items (itemId x) = None then 2 else 0)) xs,
             (enc @ [JArr (MainItem_Encode userId ?item)]) @ map (\<lambda>x. JArr (case map_of ?items (itemId x) of None \<Rightarrow> []
                                 | Some item \<Rightarrow> MainItem_Encode userId (IncrementVersion (fst (step x item))))) xs))"
      and i1: "\<forall>x \<in> set xs. map_of items' (itemId x) =
          map_option (\<lambda>item. IncrementVersion (fst (step x item))) (map_of ?items (itemId x))"
      and i2: "\<forall>i. i \<notin> itemId ` set xs \<longrightarrow> map_of items' i = map_of ?items i" by blast
    show ?thesis
      unfolding l h using i1 i2 out ne Some by (auto simp: m cong: map_cong)
  qed
qed simp

lemma items_transaction_eq:
  assumes "Users_wf (w_users w)" and "GetUserById (w_users w) (sd_userId sess) = Some u" and "u_items u = Some p"
  shows "f (pjd_data p) = (d, Ret (errs, enc)) \<Longrightarrow> items_transaction io f sess w =
      (HReturn, JSON [JInt 0, JArr errs, JArr enc]
        (update_users (SafeMap_modify (GetPlatformPath u) (put_items (Some (p\<lparr>pjd_data := d, pjd_saved := d\<rparr>)))) w))"
    and "f (pjd_data p) = (d, Panic) \<Longrightarrow> items_transaction io f sess w =
      (HPanic, update_users (SafeMap_modify (GetPlatformPath u) (put_items (Some (p\<lparr>pjd_data := d\<rparr>)))) w)"
proof -
  have l: "SafeMap_Load (w_users w) (GetPlatformPath u) = Some u" using GetUserById_Load [OF assms(1,2)] by simp
  show "items_transaction io f sess w =
      (HReturn, JSON [JInt 0, JArr errs, JArr enc]
        (update_users (SafeMap_modify (GetPlatformPath u) (put_items (Some (p\<lparr>pjd_data := d, pjd_saved := d\<rparr>)))) w))"
    if "f (pjd_data p) = (d, Ret (errs, enc))"
    using assms(2,3) that user_ReadWrite_ok [where get = u_items and put = put_items and fn = "\<lambda>_. (d, Ret False)" and w = w and io = io, OF l]
    by (simp add: items_transaction_def)
  show "items_transaction io f sess w =
      (HPanic, update_users (SafeMap_modify (GetPlatformPath u) (put_items (Some (p\<lparr>pjd_data := d\<rparr>)))) w)"
    if "f (pjd_data p) = (d, Panic)"
    using assms(2,3) that l by (simp add: items_transaction_def user_ReadWrite_def user_at_def WithReadWrite_def Let_def)
qed


text \<open>Putting an item into a slot needs other metadata.\<close>

definition needs_metadata :: "UserItems \<Rightarrow> int32 \<times> int32 \<times> int32 \<times> int32 \<Rightarrow> bool" where
  "needs_metadata items x \<longleftrightarrow> snd (snd (snd x)) \<noteq> - 1
     \<and> (\<exists>item. map_of items (fst x) = Some item \<and> im_other (it_metadata item) = None)"

lemma MoveItem_step_panics: "snd (MoveItem_step x item) \<longleftrightarrow> snd (snd (snd x)) \<noteq> - 1 \<and> im_other (it_metadata item) = None"
  by (cases x) (auto simp: MoveItem_step_def ItemMetadata_UpdateOther_def SetLocationId_def Let_def split: option.split)

lemma MoveItem_step_other: "im_other (it_metadata (fst (MoveItem_step x item))) = None \<longleftrightarrow> im_other (it_metadata item) = None"
  by (cases x) (auto simp: MoveItem_step_def ItemMetadata_UpdateOther_def SetLocationId_def Let_def split: option.split)

lemma MoveItem_loop_panics:
  "snd (items_loop fst MoveItem_step code userId xs items errs enc) = Panic \<longleftrightarrow> (\<exists>x \<in> set xs. needs_metadata items x)"
proof (induction xs arbitrary: items errs enc)
  case (Cons x xs)
  show ?case
  proof (cases "map_of items (fst x)")
    case None
    then show ?thesis using Cons.IH by (auto simp: needs_metadata_def)
  next
    case (Some item)
    show ?thesis
    proof (cases "snd (MoveItem_step x item)")
      case True
      then have n: "needs_metadata items x" using Some by (simp add: needs_metadata_def MoveItem_step_panics)
      from True obtain item' where "MoveItem_step x item = (item', True)" by (metis prod.collapse)
      with n Some show ?thesis by simp
    next
      case False
      then have n: "\<not> needs_metadata items x" using Some by (simp add: needs_metadata_def MoveItem_step_panics)
      from False obtain item' where st: "MoveItem_step x item = (item', False)" by (metis prod.collapse)
      let ?items = "al_modify (fst x) (\<lambda>_. IncrementVersion item') items"
      have o: "im_other (it_metadata (IncrementVersion item')) = None \<longleftrightarrow> im_other (it_metadata item) = None"
        using MoveItem_step_other [of x item] st by (simp add: IncrementVersion_def)
      have "needs_metadata ?items y = needs_metadata items y" for y
        using Some o by (auto simp: needs_metadata_def map_of_al_modify)
      with n show ?thesis using Cons.IH [of ?items] Some st by (simp add: Let_def)
    qed
  qed
qed simp

text \<open>
  Moving items panics exactly if one of the listed items that the user owns is to be put into a slot and has no
  other metadata (its Go map is nil): the slot is written into the nil map.  Nothing is saved then, and
  the client gets no answer.
\<close>

lemma MoveItem_panics_iff:
  assumes "Users_wf (w_users w)" and "GetUserById (w_users w) (sd_userId sess) = Some u" and "u_items u = Some p"
    and "ids \<noteq> []" and "length locs = length ids" and "length poss = length ids" and "length slots = length ids"
  shows "let r = MoveItem io (Some (ids, locs, poss, slots)) sess w in
    (fst r = HPanic) = (\<exists>j < length ids. slots ! j \<noteq> - 1 \<and>
        (\<exists>item. map_of (pjd_data p) (ids ! j) = Some item \<and> im_other (it_metadata item) = None))
    \<and> (fst r = HPanic \<longrightarrow> w_out (snd r) = w_out w
        \<and> map_option pjd_saved (u_items (user_at (snd r) (GetPlatformPath u))) = Some (pjd_saved p))
    \<and> (fst r \<noteq> HPanic \<longrightarrow> fst r = HReturn \<and> (\<exists>errs enc. w_out (snd r) = w_out w @ [JArr [JInt 0, JArr errs, JArr enc]]))"
proof -
  let ?xs = "zip ids (zip locs (zip poss slots))"
  let ?f = "\<lambda>d. items_loop fst MoveItem_step (\<lambda>_ e. JInt e) (sd_userId sess) ?xs d [] []"
  have l: "SafeMap_Load (w_users w) (GetPlatformPath u) = Some u" using GetUserById_Load [OF assms(1,2)] by simp
  have call: "MoveItem io (Some (ids, locs, poss, slots)) sess w = items_transaction io ?f sess w"
    using assms(4-7) by (simp add: MoveItem_def)
  have "(\<exists>x \<in> set ?xs. needs_metadata (pjd_data p) x) \<longleftrightarrow> (\<exists>j < length ?xs. needs_metadata (pjd_data p) (?xs ! j))"
    by (metis in_set_conv_nth)
  also have "\<dots> \<longleftrightarrow> (\<exists>j < length ids. slots ! j \<noteq> - 1 \<and>
        (\<exists>item. map_of (pjd_data p) (ids ! j) = Some item \<and> im_other (it_metadata item) = None))"
    using assms(5-7) by (intro ex_cong1) (auto simp: needs_metadata_def)
  finally have "(\<exists>x \<in> set ?xs. needs_metadata (pjd_data p) x) \<longleftrightarrow> (\<exists>j < length ids. slots ! j \<noteq> - 1 \<and>
        (\<exists>item. map_of (pjd_data p) (ids ! j) = Some item \<and> im_other (it_metadata item) = None))" .
  with MoveItem_loop_panics [of "\<lambda>_ e. JInt e" "sd_userId sess" ?xs "pjd_data p" "[]" "[]"]
  have iff: "snd (?f (pjd_data p)) = Panic \<longleftrightarrow> (\<exists>j < length ids. slots ! j \<noteq> - 1 \<and>
        (\<exists>item. map_of (pjd_data p) (ids ! j) = Some item \<and> im_other (it_metadata item) = None))" by simp
  show ?thesis
  proof (cases "snd (?f (pjd_data p))")
    case Panic
    then obtain d where d: "?f (pjd_data p) = (d, Panic)" by (metis prod.collapse)
    show ?thesis
      unfolding call items_transaction_eq(2) [where f = ?f, OF assms(1-3) d] Let_def
      using Panic iff l by (simp add: user_at_def SafeMap_Load_modify put_items_def)
  next
    case (Ret x)
    then obtain d errs enc where d: "?f (pjd_data p) = (d, Ret (errs, enc))" by (metis prod.collapse)
    show ?thesis
      unfolding call items_transaction_eq(1) [where f = ?f, OF assms(1-3) d] Let_def
      using Ret iff by simp
  qed
qed

section \<open>Witnesses\<close>

definition account_user :: MainUser where
  "account_user = auth_user\<lparr>u_profileProperties := Some \<lparr>pjd_data = [(''a'', ''1'')], pjd_saved = []\<rparr>,
     u_items := Some \<lparr>pjd_data = [(4, \<lparr>it_id = 4, it_metadata = \<lparr>im_attributes = None, im_other = None\<rparr>, it_entityVersion = 0,
        it_definitionId = 1, it_durabilityId = 0, it_durabilityCount = 1, it_creationDate = 0, it_locationId = 2, it_tradeId = 0,
        it_permissionFlags = 0, it_maxCharges = 0\<rparr>)], pjd_saved = []\<rparr>,
     u_avatarStats := Some \<lparr>pjd_data = SafeMap_put 8 (NewAvatarStat 0 8 5) NewSafeMap, pjd_saved = NewSafeMap\<rparr>\<rparr>"

definition account_world :: World where
  "account_world = auth_world\<lparr>w_game := (w_game auth_world)
     \<lparr>g_users := \<lparr>wo = [(''/steam/1'', account_user)], ro = [(''/steam/1'', account_user)]\<rparr>,
      g_leaderboard := Some \<lparr>nameToId = [], idToName = []\<rparr>\<rparr>\<rparr>"

lemma account_path: "GetPlatformPath account_user = ''/steam/1''"
  by code_simp

lemma account_facts:
  "Users_wf (w_users account_world)" "GetUserById (w_users account_world) (sd_userId (example_session 1)) = Some account_user"
  using account_path
  by (auto simp: Users_wf_def account_world_def SafeMap_wf_def SafeMap_Load_def GetUserById_def Users_getFirst_def SafeMap_Values_def
      account_user_def auth_user_def split: if_splits)

lemma account_items: "\<exists>p item. u_items account_user = Some p \<and> map_of (pjd_data p) 4 = Some item
    \<and> im_other (it_metadata item) = None \<and> it_locationId item = 2 \<and> map_of (pjd_data p) 5 = None"
  by (simp add: account_user_def)


end
