(* ===== verification/CloudRoutes.thy ===== *)
theory CloudRoutes
  imports Sessions Prelude
begin

text \<open>
  Cloud files and the assets a game downloads: the index of the files and the credentials for them
  (\<open>models/cloudfiles.go\<close>, \<open>models/credentials.go\<close>), the handlers that hand out their addresses and
  credentials (\<open>routes/game/cloud\<close>), the one that serves them (\<open>routes/cloudfiles\<close>) and \<open>ReturnSignedAsset\<close>
  (\<open>models/resources.go\<close>).  The contents of files, escaping and the text of a time are arguments.
\<close>

section \<open>Files and credentials\<close>

record CloudfilesIndex =
  cf_Id :: int
  cf_Key :: string
  cf_Type :: string
  cf_Version :: string
  cf_ETag :: string
  cf_Created :: string
  cf_Length :: int
  cf_Checksum :: string

text \<open>A credential is a session whose datum is the key of a file.\<close>

type_synonym Credentials = "(string, string) BaseSessions"

definition credentialsExpiry :: int where
  "credentialsExpiry = 5 * 60 * 10 ^ 9"

definition NewCredentials :: Credentials where
  "NewCredentials = NewBaseSessions credentialsExpiry"

text \<open>\<open>gen\<close> are the signatures \<open>generateSignature\<close> yields.\<close>

definition CreateCredential ::
    "int \<Rightarrow> (nat \<Rightarrow> string) \<Rightarrow> string \<Rightarrow> Credentials \<Rightarrow> ((string, string) BaseSession \<times> Credentials) option" where
  "CreateCredential now gen key creds = CreateSession now gen key creds"

text \<open>A game without an index has a nil map and nil credentials.\<close>

record CloudFiles =
  cl_Value :: "(string \<times> CloudfilesIndex) list option"
  cl_Credentials :: "Credentials option"

definition index_entries :: "CloudFiles \<Rightarrow> (string \<times> CloudfilesIndex) list" where
  "index_entries m = (case cl_Value m of None \<Rightarrow> [] | Some al \<Rightarrow> al)"

definition GetByKey :: "CloudFiles \<Rightarrow> string \<Rightarrow> (string \<times> CloudfilesIndex) option" where
  "GetByKey m key = List.find (\<lambda>(_, file). cf_Key file = key) (index_entries m)"

text \<open>\<open>files\<close> is the file system under the folder of the game.\<close>

definition Cloud_ReadFile :: "(string \<Rightarrow> string option) \<Rightarrow> CloudFiles \<Rightarrow> string \<Rightarrow> string option" where
  "Cloud_ReadFile files m name = (if map_of (index_entries m) name = None then None else files name)"

text \<open>
  \<open>BuildCloudfilesIndex\<close>: \<open>index\<close> is the index file (\<open>None\<close>: not there; \<open>Some None\<close>: it does not decode), \<open>md5\<close> the
  checksum.  A file of the index that cannot be read is a panic.
\<close>

definition BuildCloudfilesIndex ::
    "(string \<Rightarrow> string) \<Rightarrow> (string \<Rightarrow> string option) \<Rightarrow> (string \<times> CloudfilesIndex) list option option \<Rightarrow> CloudFiles option outcome" where
  "BuildCloudfilesIndex md5 files index =
     (case index of
        None \<Rightarrow> Ret None
      | Some None \<Rightarrow> Panic
      | Some (Some al) \<Rightarrow>
          if list_all (\<lambda>(name, _). files name \<noteq> None) al
          then Ret (Some \<lparr>cl_Value = Some (map (\<lambda>(name, f). (name, f\<lparr>cf_Length := int (length (the (files name))),
                 cf_Checksum := md5 (the (files name))\<rparr>)) al), cl_Credentials = Some NewCredentials\<rparr>)
          else Panic)"

text \<open>\<open>initializeCloud\<close> leaves the zero value if there is no index.\<close>

definition initializeCloud :: "CloudFiles option \<Rightarrow> CloudFiles" where
  "initializeCloud c = (case c of None \<Rightarrow> \<lparr>cl_Value = None, cl_Credentials = None\<rparr> | Some m \<Rightarrow> m)"

section \<open>getFileURL.go\<close>

definition file_description :: "string \<Rightarrow> string \<Rightarrow> string \<Rightarrow> CloudfilesIndex \<Rightarrow> jv" where
  "file_description title host name f =
     JArr ([JStr name, JInt (cf_Length f), JInt (cf_Id f), JStr (''https://'' @ host @ ''/cloudfiles/'' @ cf_Key f)]
       @ (if title = AoE2 then [JStr (cf_Key f)] else []))"

definition GetFileURL :: "string \<Rightarrow> string \<Rightarrow> string list option \<Rightarrow> CloudFiles \<Rightarrow> goA" where
  "GetFileURL title host bound m =
     (case bound of
        None \<Rightarrow> [JInt 2, JArr [JNull]]
      | Some names \<Rightarrow>
          (case cl_Value m of
             None \<Rightarrow> [JInt 2, JArr (replicate (length names) JNull)]
           | Some al \<Rightarrow>
               [JInt (if list_ex (\<lambda>n. map_of al n = None) names then 2 else 0),
                JArr (map (\<lambda>n. case map_of al n of None \<Rightarrow> JArr [JNull] | Some f \<Rightarrow> file_description title host n f) names)]))"

section \<open>getTempCredentials.go\<close>

definition TrimPrefix :: "string \<Rightarrow> string \<Rightarrow> string" where
  "TrimPrefix p s = (if take (length p) s = p then drop (length p) s else s)"

text \<open>
  \<open>escape\<close> is \<open>url.QueryEscape\<close>, \<open>rfc3339\<close> and \<open>timeJSON\<close> the texts of an instant (in nanoseconds).  The credential is
  created before the file is looked for.  \<open>None\<close> is a call that never returns; nil credentials panic.
\<close>

definition GetTempCredentials ::
    "(string \<Rightarrow> string) \<Rightarrow> (int \<Rightarrow> string) \<Rightarrow> (int \<Rightarrow> string) \<Rightarrow> int \<Rightarrow> (nat \<Rightarrow> string) \<Rightarrow> string \<Rightarrow> string \<Rightarrow> CloudFiles
       \<Rightarrow> (goA \<times> CloudFiles) option outcome" where
  "GetTempCredentials escape rfc3339 timeJSON now gen title fullKey m =
     (case cl_Credentials m of
        None \<Rightarrow> Panic
      | Some creds \<Rightarrow>
          let key = TrimPrefix ''/cloudfiles/'' fullKey
          in Ret (case CreateCredential now gen key creds of
                    None \<Rightarrow> None
                  | Some (cred, creds') \<Rightarrow>
                      let t = bs_expiry cred
                      in Some ((case GetByKey m key of
                                  Some (_, file) \<Rightarrow>
                                    [JInt 0, JInt (t div 10 ^ 9),
                                     JStr (''title='' @ title @ ''&sig='' @ escape (bs_id cred) @ ''&se='' @ escape (rfc3339 t)
                                       @ ''&sv='' @ escape (cf_Version file) @ ''&sp=r&sr=b''), JStr fullKey]
                                | None \<Rightarrow> [JInt 2, JStr (timeJSON t), JStr [], JStr fullKey]),
                               m\<lparr>cl_Credentials := Some creds'\<rparr>)))"

section \<open>cloudfiles.go\<close>

text \<open>\<open>strings.Join(strings.Split(path, "/")[2:], "/")\<close>: what follows the second slash.\<close>

definition after_slash :: "string \<Rightarrow> string" where
  "after_slash s = drop 1 (dropWhile (\<lambda>c. c \<noteq> CHR ''/'') s)"

text \<open>A served file carries its headers (in the order of the calls of \<open>Set\<close>) and its contents.\<close>

datatype cloud_reply =
    CloudError nat string
  | CloudFile "(string \<times> string) list" string

text \<open>\<open>requestId\<close> is what \<open>generateRequestId\<close> draws, \<open>date\<close> the current time in RFC 1123 form.\<close>

definition file_headers :: "string \<Rightarrow> string \<Rightarrow> string \<Rightarrow> string \<Rightarrow> CloudfilesIndex \<Rightarrow> (string \<times> string) list" where
  "file_headers requestId date title filename file =
     [(''Content-Length'', itoa (cf_Length file)), (''Content-Type'', cf_Type file), (''Content-MD5'', cf_Checksum file),
      (''Last-Modified'', cf_Created file), (''Accept-Range'', ''bytes''), (''ETag'', cf_ETag file),
      (''Server'', ''Windows-Azure-Blob/1.0 Microsoft-HTTPAPI/2.0''), (''x-ms-request-id'', requestId),
      (''x-ms-version'', cf_Version file)]
     @ (if title \<noteq> AoE3 \<and> title \<noteq> AoM
        then [(''x-ms-meta-filename'', filename), (''x-ms-meta-ContentLength'', itoa (cf_Length file))] else [])
     @ [(''x-ms-creation-time'', cf_Created file), (''x-ms-lease-status'', ''unlocked''), (''x-ms-lease-state'', ''available''),
        (''x-ms-blob-type'', ''BlockBlob''), (''x-ms-server-encrypted'', ''true''), (''Date'', date), (''Content-Type'', cf_Type file)]"

text \<open>\<open>sig\<close> is the query parameter; nil credentials panic.\<close>

definition Cloudfiles ::
    "string \<Rightarrow> string \<Rightarrow> string \<Rightarrow> (string \<Rightarrow> string option) \<Rightarrow> string \<Rightarrow> string \<Rightarrow> CloudFiles \<Rightarrow> cloud_reply outcome" where
  "Cloudfiles requestId date title files path sig m =
     (case cl_Credentials m of
        None \<Rightarrow> Panic
      | Some creds \<Rightarrow> Ret
          (let key = after_slash (after_slash path)
           in case BaseSessions_Get creds sig of
                None \<Rightarrow> CloudError 401 ''Unauthorized''
              | Some info \<Rightarrow>
                  (case GetByKey m key of
                     None \<Rightarrow> CloudError 404 ''Not Found''
                   | Some (filename, file) \<Rightarrow>
                       if cf_Key file \<noteq> bs_data info then CloudError 403 ''Incorrect signature''
                       else (case Cloud_ReadFile files m filename of
                               None \<Rightarrow> CloudError 404 ''Not Found''
                             | Some data \<Rightarrow> CloudFile (file_headers requestId date title filename file) data))))"

section \<open>ReturnSignedAsset\<close>

text \<open>
  \<open>arrayFiles\<close> are decoded arrays, \<open>keyedFiles\<close> the texts of the keyed files (as the value they decode to) and
  \<open>signatures\<close> their signatures.  An absent entry of a map is its zero value: an empty slice, or an empty signature.  Keyed:
  the asset, or only the signature if the client has that version.  Otherwise the signature is the last
  element of the array, and the elements in between are dropped.
\<close>

definition ReturnSignedAsset ::
    "(string \<times> goA) list \<Rightarrow> (string \<times> jv) list \<Rightarrow> (string \<times> string) list \<Rightarrow> string \<Rightarrow> string \<Rightarrow> bool \<Rightarrow> jv option outcome" where
  "ReturnSignedAsset arrayFiles keyedFiles signatures name signature keyedResponse =
     (if keyedResponse
      then let serverSignature = (case map_of signatures name of None \<Rightarrow> [] | Some s \<Rightarrow> s)
           in if signature \<noteq> serverSignature then Ret (map_of keyedFiles name)
              else Ret (Some (JObj [(''result'', JInt 0), (''dataSignature'', JStr serverSignature)]))
      else let response = (case map_of arrayFiles name of None \<Rightarrow> [] | Some r \<Rightarrow> r)
           in if response = [] then Panic
              else (case last response of
                      JStr serverSignature \<Rightarrow>
                        if signature \<noteq> serverSignature then Ret (Some (JArr response))
                        else if length response < 2 then Panic
                        else Ret (Some (JArr ([JInt 0] @ replicate (length response - 2) JNull @ [JStr serverSignature])))
                    | _ \<Rightarrow> Panic))"

section \<open>Lemmas\<close>

lemma GetByKey_some: "GetByKey m key = Some (name, file) \<Longrightarrow> cf_Key file = key \<and> (name, file) \<in> set (index_entries m)"
  by (auto simp: GetByKey_def dest: find_Some_mem)

lemma after_slash_app: "CHR ''/'' \<notin> set p \<Longrightarrow> after_slash (p @ CHR ''/'' # s) = s"
  by (induction p) (auto simp: after_slash_def)

lemma cloud_path: "after_slash (after_slash (''/cloudfiles/'' @ key)) = key"
  using after_slash_app [of "[]" "''cloudfiles/'' @ key"] after_slash_app [of "''cloudfiles''" key] by simp

lemma TrimPrefix_app: "TrimPrefix p (p @ s) = s"
  by (simp add: TrimPrefix_def)

section \<open>Properties\<close>

text \<open>
  C40: a credential opens exactly the file it was asked for.  Asking for the credentials of a file's key
  answers with the signature of a fresh credential; with that signature the file is served, another file of the
  index is refused, and the signatures that were valid before open what they opened before, no more.
\<close>

theorem credential_opens_its_file:
  assumes "cl_Credentials m = Some creds" and "BaseSessions_wf creds" and "GetByKey m key = Some (name, file)"
    and "keys_distinct (index_entries m)" and "files name = Some data"
    and "GetTempCredentials escape rfc3339 timeJSON now gen title (''/cloudfiles/'' @ key) m = Ret (Some (reply, m'))"
  shows "\<exists>i expiry rest. reply = [JInt 0, JInt (expiry div 10 ^ 9), JStr (''title='' @ title @ ''&sig='' @ escape i @ rest), JStr (''/cloudfiles/'' @ key)]
    \<and> BaseSessions_Get creds i = None
    \<and> Cloudfiles requestId date title files (''/cloudfiles/'' @ key) i m' = Ret (CloudFile (file_headers requestId date title name file) data)
    \<and> (\<forall>key' x. key' \<noteq> key \<longrightarrow> GetByKey m key' = Some x \<longrightarrow>
          Cloudfiles requestId date title files (''/cloudfiles/'' @ key') i m' = Ret (CloudError 403 ''Incorrect signature''))
    \<and> (\<forall>j path. j \<noteq> i \<longrightarrow> Cloudfiles requestId date title files path j m' = Cloudfiles requestId date title files path j m)"
proof -
  from assms(1,3,6) obtain cred creds' where c: "CreateSession now gen key creds = Some (cred, creds')"
    and m': "m' = m\<lparr>cl_Credentials := Some creds'\<rparr>"
    and r: "reply = [JInt 0, JInt (bs_expiry cred div 10 ^ 9), JStr (''title='' @ title @ ''&sig='' @ escape (bs_id cred)
       @ ''&se='' @ escape (rfc3339 (bs_expiry cred)) @ ''&sv='' @ escape (cf_Version file) @ ''&sp=r&sr=b''), JStr (''/cloudfiles/'' @ key)]"
    by (auto simp: GetTempCredentials_def TrimPrefix_def CreateCredential_def Let_def split: option.splits)
  note s = CreateSession_Some [OF assms(2) c]
  have k: "bs_data cred = key" using s by (metis BaseSession.select_convs(3))
  have keep: "GetByKey m' = GetByKey m" "index_entries m' = index_entries m" "Cloud_ReadFile files m' = Cloud_ReadFile files m"
    by (simp_all add: m' GetByKey_def index_entries_def Cloud_ReadFile_def fun_eq_iff)
  have rd: "Cloud_ReadFile files m name = Some data"
    using GetByKey_some [OF assms(3)] assms(4,5) by (auto simp: Cloud_ReadFile_def)
  have g: "BaseSessions_Get creds' = (BaseSessions_Get creds)(bs_id cred \<mapsto> cred)" using s by blast
  have own: "Cloudfiles requestId date title files (''/cloudfiles/'' @ key) (bs_id cred) m' = Ret (CloudFile (file_headers requestId date title name file) data)"
    unfolding Cloudfiles_def keep cloud_path using GetByKey_some [OF assms(3)] k
    by (simp add: m' g assms(3) rd Let_def)
  have other: "Cloudfiles requestId date title files (''/cloudfiles/'' @ key') (bs_id cred) m' = Ret (CloudError 403 ''Incorrect signature'')"
    if "key' \<noteq> key" "GetByKey m key' = Some x" for key' x
    unfolding Cloudfiles_def keep cloud_path using GetByKey_some [of m key' "fst x" "snd x"] that k
    by (simp add: m' g Let_def split_def)
  have rest: "Cloudfiles requestId date title files path j m' = Cloudfiles requestId date title files path j m" if "j \<noteq> bs_id cred" for path j
    unfolding Cloudfiles_def keep using that by (simp add: m' g assms(1))
  have fresh: "BaseSessions_Get creds (bs_id cred) = None" using s by blast
  show ?thesis unfolding r
    by (rule exI [of _ "bs_id cred"], rule exI [of _ "bs_expiry cred"],
        rule exI [of _ "''&se='' @ escape (rfc3339 (bs_expiry cred)) @ ''&sv='' @ escape (cf_Version file) @ ''&sp=r&sr=b''"])
      (intro conjI refl fresh own allI impI other rest, assumption+)
qed

definition cloud_example :: CloudFiles where
  "cloud_example = \<lparr>cl_Value = Some [(''map.x'', \<lparr>cf_Id = 1, cf_Key = ''k1'', cf_Type = [], cf_Version = [], cf_ETag = [], cf_Created = [],
     cf_Length = 3, cf_Checksum = []\<rparr>)], cl_Credentials = Some NewCredentials\<rparr>"

theorem credential_opens_its_file_witness:
  "\<exists>reply m' i. GetTempCredentials (\<lambda>s. s) (\<lambda>_. []) (\<lambda>_. []) 5 (\<lambda>_. ''S'') AoE2 ''/cloudfiles/k1'' cloud_example = Ret (Some (reply, m'))
     \<and> Cloudfiles ''R'' ''D'' AoE2 (\<lambda>_. Some ''abc'') ''/cloudfiles/k1'' i m' \<noteq> Cloudfiles ''R'' ''D'' AoE2 (\<lambda>_. Some ''abc'') ''/cloudfiles/k1'' i cloud_example"
proof -
  have n: "BaseSessions_Get NewCredentials ''S'' = None"
    by (simp add: NewCredentials_def BaseSessions_Get_def NewBaseSessions_def)
  obtain cred creds' where c: "CreateSession 5 (\<lambda>_. ''S'') ''k1'' NewCredentials = Some (cred, creds')"
    using CreateSession_returns_iff [of NewCredentials 5 "\<lambda>_. ''S''" "''k1''"] n by (auto simp: NewCredentials_def)
  have g: "\<exists>name file. GetByKey cloud_example ''k1'' = Some (name, file)" by (simp add: GetByKey_def cloud_example_def index_entries_def)
  then obtain nm fl where g: "GetByKey cloud_example ''k1'' = Some (nm, fl)" by blast
  have "\<exists>r m'. GetTempCredentials (\<lambda>s. s) (\<lambda>_. []) (\<lambda>_. []) 5 (\<lambda>_. ''S'') AoE2 (''/cloudfiles/'' @ ''k1'') cloud_example = Ret (Some (r, m'))"
    unfolding GetTempCredentials_def TrimPrefix_app by (simp add: cloud_example_def CreateCredential_def c Let_def)
  then obtain r m' where r: "GetTempCredentials (\<lambda>s. s) (\<lambda>_. []) (\<lambda>_. []) 5 (\<lambda>_. ''S'') AoE2 (''/cloudfiles/'' @ ''k1'') cloud_example = Ret (Some (r, m'))"
    by blast
  have cr: "cl_Credentials cloud_example = Some NewCredentials" "keys_distinct (index_entries cloud_example)"
    by (simp_all add: cloud_example_def index_entries_def)
  have wf: "BaseSessions_wf NewCredentials" by (simp add: NewCredentials_def)
  obtain i where i: "BaseSessions_Get NewCredentials i = None"
      "Cloudfiles ''R'' ''D'' AoE2 (\<lambda>_. Some ''abc'') (''/cloudfiles/'' @ ''k1'') i m' = Ret (CloudFile (file_headers ''R'' ''D'' AoE2 nm fl) ''abc'')"
    using credential_opens_its_file [where requestId = "''R''" and date = "''D''" and files = "\<lambda>_. Some ''abc''" and data = "''abc''", OF cr(1) wf g cr(2) refl r] by blast
  have "Cloudfiles ''R'' ''D'' AoE2 (\<lambda>_. Some ''abc'') (''/cloudfiles/'' @ ''k1'') i cloud_example = Ret (CloudError 401 ''Unauthorized'')"
    using i(1) by (simp add: Cloudfiles_def cr Let_def)
  with r i(2) show ?thesis by (auto intro!: exI [of _ i])
qed

end
