(* ===== verification/CommunityEvents.thy ===== *)
theory CommunityEvents
  imports AccountRoutes
begin

text \<open>
  The community events of Age of Mythology (\<open>athens/routes/game/communityEvent\<close>): daily challenges and monthly
  events, generated from the current time.  Instants and durations are nanoseconds; calendar functions of
  the time zone are arguments.
\<close>

section \<open>Events\<close>

record EventLeaderboardMap =
  em_MatchtypeId :: int
  em_StatgroupType :: int
  em_CivilizationId :: int

record EventLeaderBoard =
  el_Id :: nat
  el_Name :: string
  el_IsRanked :: bool
  el_ScoringType :: int
  el_Maps :: "EventLeaderboardMap list"

record CommunityEvent =
  ce_Id :: nat
  ce_Name :: string
  ce_Start :: int
  ce_End :: int
  ce_ExpiryTime :: int
  ce_CustomData :: jv
  ce_EventState :: int
  ce_Leaderboards :: "EventLeaderBoard list"

definition Unix :: "int \<Rightarrow> int" where
  "Unix t = t div 10 ^ 9"

definition CommunityEvent_Encode :: "bool \<Rightarrow> CommunityEvent \<Rightarrow> goA" where
  "CommunityEvent_Encode marshalCustomData c =
     [JStr (ce_Name c), JInt (Unix (ce_Start c)), JInt (Unix (ce_End c)), JInt (Unix (ce_ExpiryTime c)), JInt (int (ce_Id c)),
      JInt (ce_EventState c), JNull] @ (if marshalCustomData then [JText (ce_CustomData c)] else [ce_CustomData c])"

definition EncodeLeaderboards :: "CommunityEvent \<Rightarrow> goA" where
  "EncodeLeaderboards c =
     map (\<lambda>l. JArr [JInt (int (ce_Id c)), JInt (int (el_Id l)), JStr (el_Name l), JInt (if el_IsRanked l then 1 else 0), JInt (el_ScoringType l)])
       (ce_Leaderboards c)"

definition EncodeLeaderboardsMaps :: "CommunityEvent \<Rightarrow> goA" where
  "EncodeLeaderboardsMaps c =
     concat (map (\<lambda>l. map (\<lambda>mp. JArr [JInt (int (el_Id l)), JInt (em_MatchtypeId mp), JInt (em_StatgroupType mp),
        JInt (em_CivilizationId mp), JInt (int (ce_Id c))]) (el_Maps l)) (ce_Leaderboards c))"

section \<open>Generating them\<close>

definition dayDuration :: int where
  "dayDuration = 24 * 3600 * 10 ^ 9"

definition leaderboardName :: string where
  "leaderboardName = ''skirmish_plus_leaderboard_38 ''"

definition event_map :: EventLeaderboardMap where
  "event_map = \<lparr>em_MatchtypeId = 60, em_StatgroupType = 1, em_CivilizationId = - 1\<rparr>"

text \<open>
  \<open>currentEvent\<close> is 7:55 on the first of the month, \<open>addDate y m t\<close> is \<open>AddDate\<close> by years and months, \<open>monthName\<close> the lower-case
  name of an instant's month.
\<close>

definition generateMonthlyEvents :: "(int \<Rightarrow> int \<Rightarrow> int \<Rightarrow> int) \<Rightarrow> (int \<Rightarrow> string) \<Rightarrow> int \<Rightarrow> CommunityEvent list" where
  "generateMonthlyEvents addDate monthName currentEvent =
     map (\<lambda>months.
       let eventStart = addDate 0 (int months) currentEvent;
           eventEnd = addDate 0 (int months) eventStart - 3600 * 10 ^ 9;
           expiryTime = addDate 1 0 eventStart;
           eventName = monthName eventStart @ ''_pantheon_pinup''
       in \<lparr>ce_Id = months, ce_Name = eventName, ce_Start = eventStart, ce_End = eventEnd, ce_ExpiryTime = expiryTime,
           ce_CustomData = JStr [], ce_EventState = 2,
           ce_Leaderboards = map (\<lambda>s. \<lparr>el_Id = s, el_Name = eventName @ ''_s'' @ itoa (int s), el_IsRanked = True, el_ScoringType = 3,
              el_Maps = [event_map]\<rparr>) [1..<17]\<rparr>)
       [0, 1]"

text \<open>\<open>Truncate\<close> rounds towards zero.  \<open>eventMetadata\<close> is the value \<open>Initialize\<close> sets up.\<close>

definition Truncate :: "int \<Rightarrow> int \<Rightarrow> int" where
  "Truncate d m = d - (if 0 \<le> d then d mod m else - ((- d) mod m))"

definition generateDailyChallengeEvents :: "jv \<Rightarrow> int \<Rightarrow> int \<Rightarrow> CommunityEvent list" where
  "generateDailyChallengeEvents eventMetadata dailyCelestialChallengeStart now =
     (let timeSince = now - dailyCelestialChallengeStart;
          daysSince = Truncate timeSince dayDuration;
          currentEventStart = dailyCelestialChallengeStart + daysSince;
          daysSinceIt = unat (of_int (daysSince div dayDuration) :: uint64)
      in map (\<lambda>days.
           let eventStart = currentEventStart + dayDuration * int days;
               eventEnd = eventStart + (dayDuration - 10 ^ 9);
               expiryTime = eventEnd + dayDuration * 7;
               i = unat (of_nat (daysSinceIt + days) :: uint64);
               eventName = ''skirmish_plus_'' @ itoa (int i)
           in \<lparr>ce_Id = i, ce_Name = eventName, ce_Start = eventStart, ce_End = eventEnd, ce_ExpiryTime = expiryTime,
               ce_CustomData = eventMetadata, ce_EventState = 2,
               ce_Leaderboards = [\<lparr>el_Id = i, el_Name = eventName @ ''_'' @ leaderboardName, el_IsRanked = True,
                 el_ScoringType = 3, el_Maps = [event_map]\<rparr>]\<rparr>)
           [0, 1, 2])"

definition CommunityEventsEncoded :: "CommunityEvent list \<Rightarrow> CommunityEvent list \<Rightarrow> goA" where
  "CommunityEventsEncoded daily monthly =
     (let events = daily @ monthly
      in [JInt 0,
          JArr (map (\<lambda>event. JArr (CommunityEvent_Encode (\<not> str_contains (ce_Name event) ''pantheon'') event)) events),
          JArr [], JArr [], JArr (concat (map EncodeLeaderboards events)), JArr (concat (map EncodeLeaderboardsMaps events)), JArr []])"

section \<open>Properties\<close>

lemma Truncate_div: "0 \<le> d \<Longrightarrow> 0 < m \<Longrightarrow> Truncate d m = m * (d div m)"
  by (simp add: Truncate_def minus_mod_eq_mult_div)

lemma unat_uint64: "n < 2 ^ 64 \<Longrightarrow> unat (of_nat n :: uint64) = n"
  by (simp add: unsigned_of_nat take_bit_nat_eq_self)

text \<open>
  Of the three daily challenges the first is the one of today, they follow each other without overlap one second apart, and their
  identifiers are the days since the first one.  The first monthly event ends an hour before it starts, so there is none in the
  current month, while the second ends an hour before the month after it.
\<close>

lemma community_events_periods:
  assumes "start \<le> now" and "now - start < 2 ^ 63" and "\<And>t. addDate 0 0 t = t"
  shows "(\<exists>a b c. generateDailyChallengeEvents eventMetadata start now = [a, b, c]
      \<and> ce_Start a \<le> now \<and> now < ce_Start a + dayDuration \<and> int (ce_Id a) = (now - start) div dayDuration
      \<and> ce_End a + 10 ^ 9 = ce_Start b \<and> ce_End b + 10 ^ 9 = ce_Start c \<and> ce_Id b = Suc (ce_Id a) \<and> ce_Id c = Suc (ce_Id b))
    \<and> (\<exists>a b. generateMonthlyEvents addDate monthName currentEvent = [a, b]
      \<and> ce_Start a = currentEvent \<and> ce_End a = ce_Start a - 3600 * 10 ^ 9
      \<and> ce_Start b = addDate 0 1 currentEvent \<and> ce_End b = addDate 0 1 (ce_Start b) - 3600 * 10 ^ 9)"
proof
  define d where "d = (now - start) div dayDuration"
  have day: "dayDuration = 86400000000000" by (simp add: dayDuration_def)
  have t: "Truncate (now - start) dayDuration = dayDuration * d"
    using assms(1) by (simp add: Truncate_div d_def day)
  have d0: "0 \<le> d" using assms(1) by (simp add: d_def day pos_imp_zdiv_nonneg_iff)
  have m: "dayDuration * d = (now - start) - (now - start) mod dayDuration" by (simp add: d_def minus_mod_eq_mult_div)
  have b: "0 \<le> (now - start) mod dayDuration" "(now - start) mod dayDuration < dayDuration" by (simp_all add: day)
  from m b have in_day: "start + dayDuration * d \<le> now" "now < start + dayDuration * d + dayDuration" by linarith+
  have "d \<le> dayDuration * d" using d0 by (simp add: day)
  with in_day(1) assms(2) have d1: "d < 2 ^ 63" by linarith
  have u: "unat (of_int d :: uint64) = nat d"
    using d0 d1 by (simp add: nat_eq_iff take_bit_int_eq_self unsigned_of_int)
  have ids: "unat (of_nat (nat d) :: uint64) = nat d" "unat (of_nat (Suc (nat d)) :: uint64) = Suc (nat d)"
      "unat (of_nat (Suc (Suc (nat d))) :: uint64) = Suc (Suc (nat d))"
    using d0 d1 by (auto intro!: unat_uint64 simp del: of_nat_Suc of_nat_nat)
  have q: "dayDuration * d div dayDuration = d" by (simp add: day)
  show "\<exists>a b c. generateDailyChallengeEvents eventMetadata start now = [a, b, c]
      \<and> ce_Start a \<le> now \<and> now < ce_Start a + dayDuration \<and> int (ce_Id a) = (now - start) div dayDuration
      \<and> ce_End a + 10 ^ 9 = ce_Start b \<and> ce_End b + 10 ^ 9 = ce_Start c \<and> ce_Id b = Suc (ce_Id a) \<and> ce_Id c = Suc (ce_Id b)"
    using in_day ids d0 unfolding generateDailyChallengeEvents_def t Let_def q u
    by (simp add: d_def [symmetric] ids del: of_nat_add of_nat_Suc of_nat_nat)
qed (simp add: generateMonthlyEvents_def assms(3) Let_def)

end
