(* ===== verification/AthensData.thy ===== *)
theory AthensData
  imports Persist
begin

text \<open>
  The data of the Age of Mythology services (\<open>models/athens\<close>, \<open>models/playfab\<close>): values with the time of their
  last change (\<open>models/playfab/data\<close>), what is stored for a user (\<open>models/athens/user\<close>), the configuration
  the labyrinths are made from and what is precomputed from it (\<open>athens/routes/playfab\<close>), and the items of the
  catalog.
\<close>

section \<open>Values with a time\<close>

text \<open>Instants are nanoseconds.\<close>

record CustomTime =
  ct_Time :: int
  ct_Format :: string

text \<open>\<open>Update\<close> has a value receiver: it assigns to its own copy, and the caller's value stays what it was.\<close>

definition CustomTime_Update :: "int \<Rightarrow> CustomTime \<Rightarrow> CustomTime" where
  "CustomTime_Update now ct = (let _ = ct\<lparr>ct_Time := now\<rparr> in ct)"

text \<open>A nil \<open>Value\<close> is \<open>None\<close>.  \<open>Value\<close> has the same fields and another JSON form.\<close>

record 'a BaseValue =
  bv_LastUpdated :: CustomTime
  bv_Permission :: string
  bv_Value :: "'a option"

definition UpdateLastUpdated :: "int \<Rightarrow> 'a BaseValue \<Rightarrow> 'a BaseValue" where
  "UpdateLastUpdated now b = b\<lparr>bv_LastUpdated := CustomTime_Update now (bv_LastUpdated b)\<rparr>"

text \<open>The functions passed to \<open>Update\<close> dereference the value: nil is a panic.\<close>

definition BaseValue_Update :: "int \<Rightarrow> ('a \<Rightarrow> 'a) \<Rightarrow> 'a BaseValue \<Rightarrow> 'a BaseValue outcome" where
  "BaseValue_Update now updateFn b =
     (case bv_Value b of
        None \<Rightarrow> Panic
      | Some v \<Rightarrow> Ret (UpdateLastUpdated now (b\<lparr>bv_Value := Some (updateFn v)\<rparr>)))"

definition Iso8601Layout :: string where
  "Iso8601Layout = ''2006-01-02T15:04:05.000Z''"

definition NewBaseValue :: "int \<Rightarrow> string \<Rightarrow> 'a \<Rightarrow> 'a BaseValue" where
  "NewBaseValue now permission value =
     \<lparr>bv_LastUpdated = \<lparr>ct_Time = now, ct_Format = Iso8601Layout\<rparr>, bv_Permission = permission, bv_Value = Some value\<rparr>"

definition NewPrivateBaseValue :: "int \<Rightarrow> 'a \<Rightarrow> 'a BaseValue" where
  "NewPrivateBaseValue now value = NewBaseValue now ''Private'' value"

text \<open>\<open>ToValue().MarshalJSON\<close>: the value is a string that holds its JSON text; \<open>fmt\<close> prints an instant.\<close>

definition Value_json :: "(int \<Rightarrow> string) \<Rightarrow> ('a \<Rightarrow> jv) \<Rightarrow> 'a BaseValue \<Rightarrow> jv" where
  "Value_json fmt enc v =
     JObj [(''LastUpdated'', JStr (fmt (ct_Time (bv_LastUpdated v)))), (''Permission'', JStr (bv_Permission v)),
           (''Value'', JText (case bv_Value v of None \<Rightarrow> JNull | Some x \<Rightarrow> enc x))]"

section \<open>What is stored for a user\<close>

record PunchCardProgress =
  pc_Holes :: uint8
  pc_DateOfMostRecentHolePunch :: CustomTime

record MissionRewards =
  mr_Amount :: int
  mr_Scaling :: string
  mr_ItemId :: string

record WorldTwist =
  wt_Id :: string
  wt_ArenaEffectName :: string
  wt_Title :: string
  wt_Description :: string
  wt_OwnerIcon :: string
  wt_OwnerPortrait :: string
  wt_Visualization :: string

record Opponent =
  op_Civ :: string
  op_Team :: int
  op_Personality :: string
  op_DifficultyOffset :: int

record ChallengeMission =
  cm_RowIndex :: int
  cm_Id :: string
  cm_Predecessors :: "string list"
  cm_PositionX :: int
  cm_PositionY :: int
  cm_Visualization :: string
  cm_Map :: string
  cm_Size :: string
  cm_VictoryCondition :: string
  cm_GameType :: string
  cm_MapVisibility :: string
  cm_StartingResources :: string
  cm_AllowTitans :: bool
  cm_WorldTwists :: "WorldTwist list"
  cm_Opponents :: "Opponent list"
  cm_OpponentsFor2PlayerCoop :: "Opponent list"
  cm_Rewards :: "MissionRewards list"
  cm_MinimapImage :: string
  cm_MapPreviewImage :: string

record Labyrinth =
  lb_Id :: int
  lb_Difficulty :: string
  lb_Missions :: "ChallengeMission list"

record ProgressInventory =
  pi_SeasonId :: string
  pi_Item :: string
  pi_Rarity :: int

record Progress =
  pg_Lives :: int
  pg_CompletedMissions :: "string list"
  pg_Inventory :: "ProgressInventory list"
  pg_MissionBeingPlayedRightNow :: string

record Challenge =
  ch_Labyrinth :: "Labyrinth BaseValue option"
  ch_Progress :: "Progress BaseValue option"

record StoryMission =
  sm_State :: string
  sm_RewardsAwarded :: string
  sm_CompletionCountEasy :: uint32
  sm_CompletionCountMedium :: uint32
  sm_CompletionCountHard :: uint32

record PlayfabData =
  pd_Challenge :: Challenge
  pd_StoryMissions :: "(string \<times> StoryMission BaseValue) list"
  pd_PunchCardProgress :: "PunchCardProgress BaseValue"
  pd_DataVersion :: uint32

definition storyMissions :: "string list" where
  "storyMissions = map (\<lambda>s. ''Mission_Season0_'' @ s)
     [''L0P0C1M1'', ''L0P0C2M1'', ''L0P0C3M1'', ''L0P0C4M1'', ''L0P0C5M1'', ''L0P0C6M1'', ''L0P0C6M2'', ''L0P0C7M3'',
      ''L0P0C7M2'', ''L0P0C7M1'', ''L0P0C8M2'', ''L0P0C8M1'', ''L0P0C9M3'', ''L0P0C9M1'', ''L0P0C9M2'', ''L0P0C10M1'',
      ''L0P1C1M1'', ''L0P1C2M1'', ''L0P1C2M2'', ''L0P1C3M1'', ''L0P1C3M2'', ''L0P1C3M3'', ''L0P1C4M2'', ''L0P1C4M1'',
      ''L0P1C5M1'', ''L0P1C6M2'', ''L0P1C6M1'', ''L0P1C6M3'', ''L0P1C7M1'', ''L0P1C7M2'', ''L0P1C8M2'', ''L0P1C8M3'',
      ''L0P1C9M2'', ''L0P1C9M1'', ''L0P1C10M1'']"

text \<open>Every story mission is completed; \<open>punched\<close> is 2024-05-02 03:34 UTC.\<close>

definition PlayfabData_Default :: "int \<Rightarrow> int \<Rightarrow> PlayfabData" where
  "PlayfabData_Default now punched =
     (let lastUpdated = \<lparr>ct_Time = now, ct_Format = Iso8601Layout\<rparr>;
          permission = ''Private''
      in \<lparr>pd_Challenge = \<lparr>ch_Labyrinth = None, ch_Progress = None\<rparr>,
          pd_StoryMissions = map (\<lambda>missionId. (missionId, \<lparr>bv_LastUpdated = lastUpdated, bv_Permission = permission,
            bv_Value = Some \<lparr>sm_State = ''Completed'', sm_RewardsAwarded = ''Hard'', sm_CompletionCountEasy = 0,
              sm_CompletionCountMedium = 0, sm_CompletionCountHard = 1\<rparr>\<rparr>)) storyMissions,
          pd_PunchCardProgress = \<lparr>bv_LastUpdated = lastUpdated, bv_Permission = permission,
            bv_Value = Some \<lparr>pc_Holes = 0,
              pc_DateOfMostRecentHolePunch = \<lparr>ct_Time = punched, ct_Format = ''2006-01-02T15:04:05Z07:00''\<rparr>\<rparr>\<rparr>,
          pd_DataVersion = 0\<rparr>)"

section \<open>Their JSON form\<close>

definition MissionRewards_json :: "MissionRewards \<Rightarrow> jv" where
  "MissionRewards_json r = JObj [(''Amount'', JInt (mr_Amount r)), (''Scaling'', JStr (mr_Scaling r)), (''ItemId'', JStr (mr_ItemId r))]"

definition WorldTwist_json :: "WorldTwist \<Rightarrow> jv" where
  "WorldTwist_json t = JObj [(''Id'', JStr (wt_Id t)), (''ArenaEffectName'', JStr (wt_ArenaEffectName t)), (''Title'', JStr (wt_Title t)),
     (''Description'', JStr (wt_Description t)), (''OwnerIcon'', JStr (wt_OwnerIcon t)), (''OwnerPortrait'', JStr (wt_OwnerPortrait t)),
     (''Visualization'', JStr (wt_Visualization t))]"

definition Opponent_json :: "Opponent \<Rightarrow> jv" where
  "Opponent_json p = JObj [(''Civ'', JStr (op_Civ p)), (''Team'', JInt (op_Team p)), (''Personality'', JStr (op_Personality p)),
     (''DifficultyOffset'', JInt (op_DifficultyOffset p))]"

text \<open>\<open>RowIndex\<close> is left out.\<close>

definition ChallengeMission_json :: "ChallengeMission \<Rightarrow> jv" where
  "ChallengeMission_json m = JObj [(''Id'', JStr (cm_Id m)), (''Predecessors'', JArr (map JStr (cm_Predecessors m))),
     (''PositionX'', JInt (cm_PositionX m)), (''PositionY'', JInt (cm_PositionY m)), (''Visualization'', JStr (cm_Visualization m)),
     (''Map'', JStr (cm_Map m)), (''Size'', JStr (cm_Size m)), (''VictoryCondition'', JStr (cm_VictoryCondition m)),
     (''GameType'', JStr (cm_GameType m)), (''MapVisibility'', JStr (cm_MapVisibility m)),
     (''StartingResources'', JStr (cm_StartingResources m)), (''AllowTitans'', JBool (cm_AllowTitans m)),
     (''WorldTwists'', JArr (map WorldTwist_json (cm_WorldTwists m))), (''Opponents'', JArr (map Opponent_json (cm_Opponents m))),
     (''OpponentsFor2PlayerCoop'', JArr (map Opponent_json (cm_OpponentsFor2PlayerCoop m))),
     (''Rewards'', JArr (map MissionRewards_json (cm_Rewards m))), (''MinimapImage'', JStr (cm_MinimapImage m)),
     (''MapPreviewImage'', JStr (cm_MapPreviewImage m))]"

definition Labyrinth_json :: "Labyrinth \<Rightarrow> jv" where
  "Labyrinth_json l = JObj [(''Id'', JInt (lb_Id l)), (''Difficulty'', JStr (lb_Difficulty l)),
     (''Missions'', JArr (map ChallengeMission_json (lb_Missions l)))]"

definition ProgressInventory_json :: "ProgressInventory \<Rightarrow> jv" where
  "ProgressInventory_json p = JObj [(''SeasonId'', JStr (pi_SeasonId p)), (''Item'', JStr (pi_Item p)), (''Rarity'', JInt (pi_Rarity p))]"

definition Progress_json :: "Progress \<Rightarrow> jv" where
  "Progress_json p = JObj [(''Lives'', JInt (pg_Lives p)), (''CompletedMissions'', JArr (map JStr (pg_CompletedMissions p))),
     (''Inventory'', JArr (map ProgressInventory_json (pg_Inventory p))),
     (''MissionBeingPlayedRightNow'', JStr (pg_MissionBeingPlayedRightNow p))]"

definition StoryMission_json :: "StoryMission \<Rightarrow> jv" where
  "StoryMission_json m = JObj [(''State'', JStr (sm_State m)), (''RewardsAwarded'', JStr (sm_RewardsAwarded m)),
     (''CompletionCountEasy'', ju32 (sm_CompletionCountEasy m)), (''CompletionCountMedium'', ju32 (sm_CompletionCountMedium m)),
     (''CompletionCountHard'', ju32 (sm_CompletionCountHard m))]"

definition PunchCardProgress_json :: "(int \<Rightarrow> string) \<Rightarrow> PunchCardProgress \<Rightarrow> jv" where
  "PunchCardProgress_json fmt p = JObj [(''Holes'', JInt (uint (pc_Holes p))),
     (''DateOfMostRecentHolePunch'', JStr (fmt (ct_Time (pc_DateOfMostRecentHolePunch p))))]"

section \<open>Configuration\<close>

record Blessings =
  bl_EffectName :: string
  bl_KnownRarities :: "int list"

record GauntletMissionPool =
  mp_Name :: string
  mp_Missions :: "ChallengeMission list"

record LabyrinthConfig =
  lc_ForGauntletDifficulties :: "string list"
  lc_ColumnConfigs :: "string list"
  lc_BossMissionPool :: string

record Gauntlet =
  ga_LabyrinthConfigs :: "LabyrinthConfig list"
  ga_ExcludeFromRegularRewards :: "Blessings list"

definition ItemName :: "string \<Rightarrow> string \<Rightarrow> int \<Rightarrow> string" where
  "ItemName category effectName rarity = ''Item_'' @ category @ ''_'' @ effectName @ ''_'' @ itoa rarity"

section \<open>What is precomputed\<close>

text \<open>Sets are lists without repetition, in the order one iteration takes.\<close>

definition blessingKeys :: "Blessings list \<Rightarrow> (string \<times> int) list" where
  "blessingKeys blessings = remdups (concat (map (\<lambda>b. map (\<lambda>r. (bl_EffectName b, r)) (bl_KnownRarities b)) blessings))"

definition AllowedGauntletBlessings :: "Gauntlet \<Rightarrow> Blessings list \<Rightarrow> (int \<times> string list) list" where
  "AllowedGauntletBlessings gauntlet knownBlessings =
     (let disallowedBlessings = blessingKeys (ga_ExcludeFromRegularRewards gauntlet);
          allowedBlessings = filter (\<lambda>b. b \<notin> set disallowedBlessings) (blessingKeys knownBlessings);
          blessingLevels = remdups (map snd allowedBlessings)
      in map (\<lambda>level. (level, map (\<lambda>(e, r). ItemName ''Gauntlet'' e r) (filter (\<lambda>b. snd b = level) allowedBlessings))) blessingLevels)"

text \<open>Of several pools with one name the last counts; a name without pool has index zero.\<close>

definition PoolNamesToIndex :: "GauntletMissionPool list \<Rightarrow> string \<Rightarrow> nat" where
  "PoolNamesToIndex missionPools name =
     (case map_of (rev (zip (map mp_Name missionPools) [0..<length missionPools])) name of None \<Rightarrow> 0 | Some i \<Rightarrow> i)"

text \<open>
  The boss pool goes behind the last column; with no column at all the index is out of range and the
  code panics.  A later configuration of a difficulty replaces an earlier one.
\<close>

fun PoolsIndexByDifficulty :: "LabyrinthConfig list \<Rightarrow> (string \<Rightarrow> nat) \<Rightarrow> (string \<times> nat list) list \<Rightarrow> (string \<times> nat list) list outcome" where
  "PoolsIndexByDifficulty [] poolNamesToIndex acc = Ret acc"
| "PoolsIndexByDifficulty (config # configs) poolNamesToIndex acc =
     (if lc_ColumnConfigs config = [] then Panic
      else let poolDifficultyIndex = map poolNamesToIndex (lc_ColumnConfigs config) @ [poolNamesToIndex (lc_BossMissionPool config)]
           in PoolsIndexByDifficulty configs poolNamesToIndex
                (fold (\<lambda>difficulty. AList.update difficulty poolDifficultyIndex) (lc_ForGauntletDifficulties config) acc))"

section \<open>Items\<close>

record InventoryItem =
  ii_Id :: string
  ii_StackId :: string
  ii_Amount :: int
  ii_Type :: string

text \<open>Of a catalog item only what depends on the item; every other field is a constant.\<close>

record CatalogItem =
  ci_Id :: string
  ci_FriendlyId :: string
  ci_Title :: string
  ci_AlternateIds :: "(string \<times> string) list"

definition addItem ::
    "string \<Rightarrow> (string \<times> CatalogItem) list \<times> InventoryItem list \<Rightarrow> (string \<times> CatalogItem) list \<times> InventoryItem list" where
  "addItem name s =
     (let (catalogItems, inventoryItems) = s
      in (AList.update name \<lparr>ci_Id = name, ci_FriendlyId = name, ci_Title = name, ci_AlternateIds = [(''FriendlyId'', name)]\<rparr> catalogItems,
          inventoryItems @ [\<lparr>ii_Id = name, ii_StackId = ''default'', ii_Amount = 1, ii_Type = ''catalogItem''\<rparr>]))"

definition addBlessing ::
    "string \<Rightarrow> int \<Rightarrow> (string \<times> CatalogItem) list \<times> InventoryItem list \<Rightarrow> (string \<times> CatalogItem) list \<times> InventoryItem list" where
  "addBlessing effect r s =
     (if r > - 1
      then let s1 = addItem (ItemName ''Season0'' effect r) s
           in if take 11 effect = ''GrantLegend'' then addItem (ItemName [] effect r) s1 else s1
      else s)"

definition Athens_Items :: "Blessings list \<Rightarrow> (string \<times> CatalogItem) list \<times> InventoryItem list" where
  "Athens_Items blessings =
     fold (\<lambda>b. fold (addBlessing (bl_EffectName b)) (bl_KnownRarities b)) blessings ([], [])"

end
