(* ===== verification/Gauntlet.thy ===== *)
theory Gauntlet
  imports AthensData
begin

text \<open>
  The labyrinth of Age of Mythology (\<open>athens/.../buildGauntletLabyrinth/generator.go\<close>): a graph of missions in
  ten columns and six rows, generated at random.  What chance and the order of sets and maps decide is an
  argument: \<open>ch_Intn t n\<close> is the number below \<open>n\<close> drawn, and \<open>ch_order t n\<close> the order in which \<open>n\<close> things come, at the
  place of the run named by \<open>t\<close>.
\<close>

section \<open>Chance\<close>

record choices =
  ch_Intn :: "nat list \<Rightarrow> int \<Rightarrow> int"
  ch_order :: "nat list \<Rightarrow> nat \<Rightarrow> nat list"

definition choices_ok :: "choices \<Rightarrow> bool" where
  "choices_ok ch \<longleftrightarrow> (\<forall>t n. 0 < n \<longrightarrow> 0 \<le> ch_Intn ch t n \<and> ch_Intn ch t n < n)
     \<and> (\<forall>t n. distinct (ch_order ch t n) \<and> set (ch_order ch t n) = {..<n})"

text \<open>A shuffle, a permutation, or one iteration over a set or map.\<close>

definition arrange :: "choices \<Rightarrow> nat list \<Rightarrow> 'a list \<Rightarrow> 'a list" where
  "arrange ch t xs = map ((!) xs) (ch_order ch t (length xs))"

definition itag :: "int \<Rightarrow> nat list" where
  "itag k = [if k < 0 then 1 else 0, nat \<bar>k\<bar>]"

section \<open>Numbers of nodes\<close>

definition columns :: nat where "columns = 10"
definition rows :: int where "rows = 6"
definition window :: "int list" where "window = [- 1, 0, 1]"
definition windowLen :: nat where "windowLen = length window"

record Range =
  rg_Min :: int
  rg_Max :: int

text \<open>\<open>rand.Intn\<close> panics on an argument that is not positive.\<close>

definition RandomValue :: "choices \<Rightarrow> nat list \<Rightarrow> Range \<Rightarrow> int outcome" where
  "RandomValue ch t r =
     (let n = rg_Max r - rg_Min r + 1 in if n \<le> 0 then Panic else Ret (ch_Intn ch t n + rg_Min r))"

definition nodesPerColumn :: "Range list" where
  "nodesPerColumn =
     [\<lparr>rg_Min = 2, rg_Max = 3\<rparr>] @ replicate 8 \<lparr>rg_Min = 2, rg_Max = 6\<rparr> @ [\<lparr>rg_Min = 1, rg_Max = 1\<rparr>]"

definition blessingLevelPerColumn :: "int list" where
  "blessingLevelPerColumn = [0, 0, 1, 1, 2, 2, 3, 3, 4, 5]"

fun nodes_loop :: "choices \<Rightarrow> nat \<Rightarrow> int \<Rightarrow> Range list \<Rightarrow> int list outcome" where
  "nodes_loop ch index previousNodes [] = Ret []"
| "nodes_loop ch index previousNodes (rang # rs) =
     (let maxNodes = min rows (previousNodes * 2 + 1);
          minNodes = (previousNodes + int windowLen - 1) div int windowLen;
          finalRng = \<lparr>rg_Min = max (rg_Min rang) minNodes, rg_Max = min (rg_Max rang) maxNodes\<rparr>
      in case RandomValue ch [0, index] finalRng of
           Panic \<Rightarrow> Panic
         | Ret n \<Rightarrow> (case nodes_loop ch (Suc index) n rs of Panic \<Rightarrow> Panic | Ret ns \<Rightarrow> Ret (n # ns)))"

definition GenerateNumberOfNodes :: "choices \<Rightarrow> int list outcome" where
  "GenerateNumberOfNodes ch =
     (case RandomValue ch [0, 0] (nodesPerColumn ! 0) of
        Panic \<Rightarrow> Panic
      | Ret n0 \<Rightarrow>
          (case nodes_loop ch 1 n0 (butlast (tl nodesPerColumn)) of
             Panic \<Rightarrow> Panic
           | Ret ns \<Rightarrow>
               (case RandomValue ch [0, columns - 1] (nodesPerColumn ! (columns - 1)) of
                  Panic \<Rightarrow> Panic
                | Ret b \<Rightarrow> Ret (n0 # ns @ [b]))))"

section \<open>Rows of the nodes\<close>

definition connectablePositions :: "int \<Rightarrow> int list" where
  "connectablePositions position =
     filter (\<lambda>computedPos. computedPos > - 1 \<and> computedPos < rows) (map (\<lambda>pos. position + pos) window)"

text \<open>What the first loops of \<open>computePositions\<close> build: a map from nodes to positions and one from positions to nodes.\<close>

definition nodeToPositions :: "int list \<Rightarrow> (int \<times> int list) list" where
  "nodeToPositions previousNodes = map (\<lambda>node. (node, connectablePositions node)) (remdups previousNodes)"

definition positionToNodes :: "int list \<Rightarrow> int \<Rightarrow> int list" where
  "positionToNodes previousNodes pos = filter (\<lambda>node. pos \<in> set (connectablePositions node)) (remdups previousNodes)"

text \<open>The first of the positions with the most nodes.\<close>

fun best_position :: "(int \<Rightarrow> int) \<Rightarrow> int list \<Rightarrow> int \<Rightarrow> int \<Rightarrow> int" where
  "best_position crd [] best bestCard = best"
| "best_position crd (pos # ps) best bestCard =
     (if crd pos > bestCard then best_position crd ps pos (crd pos) else best_position crd ps best bestCard)"

definition best_positions :: "choices \<Rightarrow> nat list \<Rightarrow> int list \<Rightarrow> int list" where
  "best_positions ch t previousNodes =
     fold (\<lambda>(node, positions) finalPositions.
         let best = best_position (\<lambda>pos. int (length (positionToNodes previousNodes pos)))
                      (arrange ch (t @ 0 # itag node) positions) (- 1) (- 1)
         in if best \<noteq> - 1 then add_end best finalPositions else finalPositions)
       (nodeToPositions previousNodes) []"

text \<open>One turn of the two nested loops that fill up; it does nothing once there are enough positions.\<close>

definition positions_round :: "choices \<Rightarrow> nat list \<Rightarrow> int list \<Rightarrow> int \<Rightarrow> nat \<Rightarrow> nat \<Rightarrow> int list \<Rightarrow> int list" where
  "positions_round ch t previousNodes numberOfNodes i j finalPositions =
     (if int (length finalPositions) < numberOfNodes
      then let acumPositions = concat (map snd (filter (\<lambda>(_, positions). length positions = i) (nodeToPositions previousNodes)));
               found = filter (\<lambda>position. length (positionToNodes previousNodes position) = j
                           \<and> position \<in> set acumPositions \<and> position \<notin> set finalPositions)
                         (arrange ch (t @ [1, i, j]) [0..rows - 1]);
               currentPositions = (if length found > 1 then arrange ch (t @ [2, i, j]) found else found);
               positionsToTake = min (numberOfNodes - int (length finalPositions)) (int (length currentPositions))
           in if positionsToTake > 0 then fold add_end (take (nat positionsToTake) currentPositions) finalPositions
              else finalPositions
      else finalPositions)"

definition computePositions :: "choices \<Rightarrow> nat list \<Rightarrow> int list \<Rightarrow> int \<Rightarrow> int list" where
  "computePositions ch t previousNodes numberOfNodes =
     arrange ch (t @ [3])
       (fold (\<lambda>i. fold (\<lambda>j. positions_round ch t previousNodes numberOfNodes i j) [3, 2, 1]) [1, 2, 3]
          (best_positions ch t previousNodes))"

text \<open>Column \<open>col + 1\<close> gets the number of nodes of column \<open>col\<close>, as in the code.\<close>

fun rows_loop :: "choices \<Rightarrow> nat \<Rightarrow> int list \<Rightarrow> int list \<Rightarrow> int list list" where
  "rows_loop ch col previousNodes [] = []"
| "rows_loop ch col previousNodes (numberOfColumnNodes # ns) =
     (let nodes = computePositions ch [1, col] previousNodes numberOfColumnNodes
      in nodes # rows_loop ch (Suc col) nodes ns)"

definition GenerateNodeRows :: "choices \<Rightarrow> int list \<Rightarrow> int list list outcome" where
  "GenerateNodeRows ch numberOfNodes =
     (case numberOfNodes of
        [] \<Rightarrow> Panic
      | n0 # _ \<Rightarrow>
          if n0 < 0 \<or> n0 > rows \<or> length numberOfNodes > columns then Panic
          else let first = take (nat n0) (arrange ch [1] [0..rows - 1]);
                   nodes = first # rows_loop ch 1 first (butlast numberOfNodes)
               in Ret (butlast nodes @ [[0]] @ replicate (columns - length numberOfNodes) []))"

section \<open>Missions\<close>

definition RandomizedBlessings :: "choices \<Rightarrow> (int \<times> string list) list \<Rightarrow> (int \<times> string list) list" where
  "RandomizedBlessings ch blessings = map (\<lambda>(k, v). (k, arrange ch (2 # itag k) v)) blessings"

definition mission_predecessors :: "nat \<Rightarrow> ChallengeMission list \<Rightarrow> int \<Rightarrow> string list" where
  "mission_predecessors col previousColumn node =
     (if col = columns - 1 then map cm_Id previousColumn
      else if col > 0 then map cm_Id (filter (\<lambda>p. node \<in> set (connectablePositions (cm_RowIndex p))) previousColumn)
      else [])"

definition mission_id :: "nat \<Rightarrow> int \<Rightarrow> string \<Rightarrow> string \<Rightarrow> string" where
  "mission_id col node pool mission = itoa (int col) @ ''_'' @ itoa node @ ''_'' @ pool @ ''/'' @ mission"

definition make_mission :: "nat \<Rightarrow> string \<Rightarrow> ChallengeMission list \<Rightarrow> int \<Rightarrow> ChallengeMission \<Rightarrow> string \<Rightarrow> ChallengeMission" where
  "make_mission col poolName previousColumn node mission unusedBlessing =
     \<lparr>cm_RowIndex = node, cm_Id = mission_id col node poolName (cm_Id mission),
      cm_Predecessors = mission_predecessors col previousColumn node,
      cm_PositionX = (if col = columns - 1 then 1600 else 80 + 160 * int col),
      cm_PositionY = (if col = columns - 1 then 0 else - 350 + 140 * node),
      cm_Visualization = (if col = columns - 1 then ''UberBoss'' else ''Regular''),
      cm_Map = [], cm_Size = cm_Size mission, cm_VictoryCondition = ''Standard'', cm_GameType = ''Standard'',
      cm_MapVisibility = cm_MapVisibility mission, cm_StartingResources = cm_StartingResources mission,
      cm_AllowTitans = False, cm_WorldTwists = [], cm_Opponents = [], cm_OpponentsFor2PlayerCoop = [],
      cm_Rewards = [\<lparr>mr_Amount = 1, mr_Scaling = ''None'', mr_ItemId = unusedBlessing\<rparr>],
      cm_MinimapImage = [], cm_MapPreviewImage = []\<rparr>"

text \<open>
  The missions of a column.  \<open>blessings\<close> are those of the level that are not used yet; a mission, a pool or
  a blessing that is not there is an index out of range.
\<close>

fun column_missions ::
    "nat \<Rightarrow> string \<Rightarrow> ChallengeMission list \<Rightarrow> ChallengeMission list \<Rightarrow> string list \<Rightarrow> int list \<Rightarrow> ChallengeMission list outcome" where
  "column_missions col poolName previousColumn chosen blessings [] = Ret []"
| "column_missions col poolName previousColumn (m # ms) (b # bs) (node # nodes) =
     (case column_missions col poolName previousColumn ms bs nodes of
        Panic \<Rightarrow> Panic
      | Ret missions \<Rightarrow> Ret (make_mission col poolName previousColumn node m b # missions))"
| "column_missions col poolName previousColumn _ _ (node # nodes) = Panic"

text \<open>\<open>blessingIndexes\<close> counts the blessings used of each level.\<close>

fun missions_loop ::
    "choices \<Rightarrow> nat list \<Rightarrow> GauntletMissionPool list \<Rightarrow> (int \<times> string list) list \<Rightarrow> nat \<Rightarrow> ChallengeMission list
       \<Rightarrow> (int \<Rightarrow> nat) \<Rightarrow> int list list \<Rightarrow> ChallengeMission list list outcome" where
  "missions_loop ch poolsIndexes missionsPools blessings col previousColumn blessingIndexes [] = Ret []"
| "missions_loop ch poolsIndexes missionsPools blessings col previousColumn blessingIndexes (nodes # rest) =
     (if col \<ge> length poolsIndexes \<or> poolsIndexes ! col \<ge> length missionsPools \<or> col \<ge> length blessingLevelPerColumn
         \<or> length nodes > length (mp_Missions (missionsPools ! (poolsIndexes ! col)))
      then Panic
      else let pool = missionsPools ! (poolsIndexes ! col);
               chosen = take (length nodes) (arrange ch [3, col] (mp_Missions pool));
               blessingLevel = blessingLevelPerColumn ! col;
               allBlessings = (case map_of blessings blessingLevel of None \<Rightarrow> [] | Some bs \<Rightarrow> bs)
           in case column_missions col (mp_Name pool) previousColumn chosen
                     (drop (blessingIndexes blessingLevel) allBlessings) nodes of
                Panic \<Rightarrow> Panic
              | Ret missionsColumn \<Rightarrow>
                  (case missions_loop ch poolsIndexes missionsPools blessings (Suc col) missionsColumn
                          (blessingIndexes(blessingLevel := blessingIndexes blessingLevel + length nodes)) rest of
                     Panic \<Rightarrow> Panic
                   | Ret cols \<Rightarrow> Ret (missionsColumn # cols)))"

subsection \<open>Crossing edges\<close>

fun slices_Index :: "'a list \<Rightarrow> 'a \<Rightarrow> nat option" where
  "slices_Index [] x = None"
| "slices_Index (y # ys) x = (if y = x then Some 0 else map_option Suc (slices_Index ys x))"

definition nodePosToIndex :: "int list \<Rightarrow> int \<Rightarrow> nat option" where
  "nodePosToIndex nodes = map_of (rev (zip nodes [0..<length nodes]))"

definition delete_predecessor :: "nat \<Rightarrow> ChallengeMission \<Rightarrow> ChallengeMission" where
  "delete_predecessor k m = m\<lparr>cm_Predecessors := slices_Delete k (Suc k) (cm_Predecessors m)\<rparr>"

text \<open>The missions at \<open>pos\<close> and \<open>pos + 1\<close> of this column and of the one before: of two edges that cross one is removed.\<close>

definition uncross_at ::
    "choices \<Rightarrow> nat \<Rightarrow> int list \<Rightarrow> int list \<Rightarrow> ChallengeMission list \<Rightarrow> int \<Rightarrow> ChallengeMission list \<Rightarrow> ChallengeMission list" where
  "uncross_at ch col previousNodes nodes previousColumn pos currentColumn =
     (case (nodePosToIndex nodes pos, nodePosToIndex previousNodes pos,
            nodePosToIndex nodes (pos + 1), nodePosToIndex previousNodes (pos + 1)) of
        (Some a, Some p, Some b, Some q) \<Rightarrow>
          (case (slices_Index (cm_Predecessors (currentColumn ! a)) (cm_Id (previousColumn ! q)),
                 slices_Index (cm_Predecessors (currentColumn ! b)) (cm_Id (previousColumn ! p))) of
             (Some k, Some l) \<Rightarrow>
               if ch_Intn ch ([4, col] @ itag pos) 2 = 0
               then currentColumn[a := delete_predecessor k (currentColumn ! a)]
               else currentColumn[b := delete_predecessor l (currentColumn ! b)]
           | _ \<Rightarrow> currentColumn)
      | _ \<Rightarrow> currentColumn)"

definition uncross_column ::
    "choices \<Rightarrow> nat \<Rightarrow> int list \<Rightarrow> int list \<Rightarrow> ChallengeMission list \<Rightarrow> ChallengeMission list \<Rightarrow> ChallengeMission list" where
  "uncross_column ch col previousNodes nodes previousColumn currentColumn =
     fold (uncross_at ch col previousNodes nodes previousColumn) [0..rows - 2] currentColumn"

text \<open>Of the column before, only the identifiers are read, and they do not change.\<close>

definition GenerateMissions ::
    "choices \<Rightarrow> int list list \<Rightarrow> nat list \<Rightarrow> GauntletMissionPool list \<Rightarrow> (int \<times> string list) list
       \<Rightarrow> ChallengeMission list list outcome" where
  "GenerateMissions ch nodeRows poolsIndexes missionsPools blessings =
     (case missions_loop ch poolsIndexes missionsPools blessings 0 [] (\<lambda>_. 0) nodeRows of
        Panic \<Rightarrow> Panic
      | Ret missionColumns \<Rightarrow>
          Ret (map (\<lambda>col. if col = 0 then missionColumns ! 0
                     else uncross_column ch col (nodeRows ! (col - 1)) (nodeRows ! col)
                            (missionColumns ! (col - 1)) (missionColumns ! col))
                 [0..<length missionColumns]))"

text \<open>The labyrinth of \<open>RunTyped\<close>; a difficulty without configuration has no pools.\<close>

definition build_labyrinth ::
    "choices \<Rightarrow> nat list \<Rightarrow> GauntletMissionPool list \<Rightarrow> (int \<times> string list) list \<Rightarrow> ChallengeMission list list outcome" where
  "build_labyrinth ch poolIndexes missionsPools allowed =
     (case GenerateNumberOfNodes ch of
        Panic \<Rightarrow> Panic
      | Ret nodes \<Rightarrow>
          (case GenerateNodeRows ch nodes of
             Panic \<Rightarrow> Panic
           | Ret nodeRows \<Rightarrow>
               GenerateMissions ch nodeRows poolIndexes missionsPools (RandomizedBlessings ch allowed)))"

end
