(* ===== verification/GauntletProps.thy ===== *)
theory GauntletProps
  imports Gauntlet
begin

text \<open>
  Why a generated labyrinth can be played: the numbers of nodes stay within the grid, every node can be reached
  from the column before and leads to the next, and removing crossing edges keeps both.
\<close>

section \<open>Arrangements\<close>

lemma length_arrange [simp]: "choices_ok ch \<Longrightarrow> length (arrange ch t xs) = length xs"
proof -
  assume "choices_ok ch"
  then have "distinct (ch_order ch t (length xs))" and "set (ch_order ch t (length xs)) = {..<length xs}"
    by (simp_all add: choices_ok_def)
  then have "length (ch_order ch t (length xs)) = card {..<length xs}" by (metis distinct_card)
  then show ?thesis by (simp add: arrange_def)
qed

lemma set_arrange [simp]:
  assumes "choices_ok ch"
  shows "set (arrange ch t xs) = set xs"
proof -
  have "set (arrange ch t xs) = (!) xs ` {..<length xs}" using assms by (simp add: arrange_def choices_ok_def)
  then show ?thesis by (auto simp: in_set_conv_nth image_iff)
qed

lemma distinct_arrange [simp]:
  assumes "choices_ok ch" and "distinct xs"
  shows "distinct (arrange ch t xs)"
proof -
  have "distinct (ch_order ch t (length xs))" and s: "set (ch_order ch t (length xs)) = {..<length xs}"
    using assms(1) by (simp_all add: choices_ok_def)
  moreover have "inj_on ((!) xs) {..<length xs}" using assms(2) by (auto simp: inj_on_def nth_eq_iff_index_eq)
  ultimately show ?thesis by (simp add: arrange_def distinct_map)
qed

lemma RandomValue_in:
  assumes "choices_ok ch" and "rg_Min r \<le> rg_Max r"
  shows "\<exists>n. RandomValue ch t r = Ret n \<and> rg_Min r \<le> n \<and> n \<le> rg_Max r"
proof -
  have "0 < rg_Max r - rg_Min r + 1" using assms(2) by simp
  then have "0 \<le> ch_Intn ch t (rg_Max r - rg_Min r + 1) \<and> ch_Intn ch t (rg_Max r - rg_Min r + 1) < rg_Max r - rg_Min r + 1"
    using assms(1) by (simp only: choices_ok_def)
  then show ?thesis using assms(2) by (simp add: RandomValue_def Let_def)
qed

section \<open>Numbers of nodes\<close>

text \<open>How many nodes may follow how many.\<close>

definition may_follow :: "int \<Rightarrow> int \<Rightarrow> bool" where
  "may_follow m n \<longleftrightarrow> 2 \<le> n \<and> n \<le> rows \<and> n \<le> 2 * m + 1 \<and> m \<le> 3 * n"

lemma nodes_loop_ok:
  assumes "choices_ok ch" and "2 \<le> m" and "m \<le> rows" and "\<forall>r\<in>set rs. r = \<lparr>rg_Min = 2, rg_Max = 6\<rparr>"
  shows "\<exists>ns. nodes_loop ch index m rs = Ret ns \<and> length ns = length rs
    \<and> (\<forall>i<length ns. may_follow ((m # ns) ! i) (ns ! i))"
  using assms(2-4)
proof (induction rs arbitrary: index m)
  case (Cons r rs)
  then have r: "r = \<lparr>rg_Min = 2, rg_Max = 6\<rparr>" by simp
  let ?r = "\<lparr>rg_Min = max 2 ((m + int windowLen - 1) div int windowLen), rg_Max = min 6 (min rows (m * 2 + 1))\<rparr>"
  have w: "int windowLen = 3" by (simp add: windowLen_def window_def)
  have "rg_Min ?r \<le> rg_Max ?r" using Cons.prems by (simp add: rows_def w)
  from RandomValue_in [OF assms(1) this, of "[0, index]"] obtain n where n: "RandomValue ch [0, index] ?r = Ret n"
    and b: "rg_Min ?r \<le> n" "n \<le> rg_Max ?r" by blast
  have f: "may_follow m n" using b Cons.prems by (auto simp: may_follow_def rows_def w)
  then have "2 \<le> n" "n \<le> rows" by (simp_all add: may_follow_def)
  with Cons.IH [of n "Suc index"] Cons.prems obtain ns where
    ns: "nodes_loop ch (Suc index) n rs = Ret ns" "length ns = length rs"
        "\<forall>i<length ns. may_follow ((n # ns) ! i) (ns ! i)" by auto
  have "may_follow ((m # n # ns) ! i) ((n # ns) ! i)" if "i < length (n # ns)" for i
    using that ns(3) f by (cases i) auto
  with ns(1,2) n r show ?case by (simp add: Let_def)
qed simp

text \<open>
  The numbers of nodes of the columns can always be drawn, whatever the draws (no range is empty, so
  \<open>rand.Intn\<close> never panics): ten numbers, two or three in the first column, one in the last, two to six in
  between, and no column has so many or so few nodes that it could not be joined to the one before with the
  three connections a node may have.
\<close>

lemma GenerateNumberOfNodes_total:
  assumes "choices_ok ch"
  shows "\<exists>ns. GenerateNumberOfNodes ch = Ret ns \<and> length ns = columns
    \<and> ns ! 0 \<in> {2, 3} \<and> ns ! 9 = 1 \<and> (\<forall>i<8. may_follow (ns ! i) (ns ! Suc i))"
proof -
  from RandomValue_in [OF assms, of "nodesPerColumn ! 0" "[0, 0]"] obtain n0 where
    n0: "RandomValue ch [0, 0] (nodesPerColumn ! 0) = Ret n0" "2 \<le> n0" "n0 \<le> 3"
    by (auto simp: nodesPerColumn_def)
  have m: "\<forall>r\<in>set (butlast (tl nodesPerColumn)). r = \<lparr>rg_Min = 2, rg_Max = 6\<rparr>" and l: "length (butlast (tl nodesPerColumn)) = 8"
    by (simp_all add: nodesPerColumn_def numeral_eq_Suc)
  have "n0 \<le> rows" using n0 by (simp add: rows_def)
  from nodes_loop_ok [OF assms n0(2) this m, of 1] l obtain ns where
    ns: "nodes_loop ch 1 n0 (butlast (tl nodesPerColumn)) = Ret ns" "length ns = 8" "\<forall>i<8. may_follow ((n0 # ns) ! i) (ns ! i)"
    by auto
  from RandomValue_in [OF assms, of "nodesPerColumn ! (columns - 1)" "[0, columns - 1]"] obtain b where
    b: "RandomValue ch [0, columns - 1] (nodesPerColumn ! (columns - 1)) = Ret b" "b = 1"
    by (auto simp: nodesPerColumn_def columns_def numeral_eq_Suc)
  have "may_follow ((n0 # ns @ [b]) ! i) ((n0 # ns @ [b]) ! Suc i)" if "i < 8" for i
  proof -
    have "(n0 # ns @ [b]) ! i = (n0 # ns) ! i" and "(n0 # ns @ [b]) ! Suc i = ns ! i"
      using that ns(2) by (simp_all add: nth_append nth_Cons split: nat.split)
    with ns(3) that show ?thesis by simp
  qed
  moreover have "(n0 # ns @ [b]) ! 9 = 1" using ns(2) b(2) by (simp add: nth_append)
  ultimately show ?thesis using n0 ns b by (auto simp: GenerateNumberOfNodes_def columns_def)
qed

definition plain_choices :: choices where
  "plain_choices = \<lparr>ch_Intn = (\<lambda>_ _. 0), ch_order = (\<lambda>_ n. [0..<n])\<rparr>"

lemma plain_choices_ok: "choices_ok plain_choices"
  by (auto simp: choices_ok_def plain_choices_def)

section \<open>Positions\<close>

lemma set_connectable: "set (connectablePositions n) = {p. 0 \<le> p \<and> p < rows \<and> \<bar>p - n\<bar> \<le> 1}"
  by (auto simp: connectablePositions_def window_def)

lemma set_add_end [simp]: "set (add_end x xs) = insert x (set xs)"
  by (auto simp: add_end_def)

lemma distinct_add_end [simp]: "distinct xs \<Longrightarrow> distinct (add_end x xs)"
  by (simp add: add_end_def)

lemma length_add_end: "length (add_end x xs) \<le> Suc (length xs)"
  by (simp add: add_end_def)

lemma fold_add_end:
  "set (fold add_end ys xs) = set xs \<union> set ys \<and> (distinct xs \<longrightarrow> distinct (fold add_end ys xs))
     \<and> length (fold add_end ys xs) \<le> length xs + length ys"
proof (induction ys arbitrary: xs)
  case (Cons y ys)
  from Cons.IH [of "add_end y xs"] length_add_end [of y xs] show ?case by auto
qed simp

lemma best_position_mem:
  "(best_position crd ps b bc = b \<or> best_position crd ps b bc \<in> set ps)
     \<and> ((\<exists>p\<in>set ps. bc < crd p) \<longrightarrow> best_position crd ps b bc \<in> set ps)"
  by (induction crd ps b bc rule: best_position.induct) auto

text \<open>What positions of a column must be with respect to the one before.\<close>

definition linked :: "int list \<Rightarrow> int list \<Rightarrow> bool" where
  "linked previousNodes nodes \<longleftrightarrow> distinct nodes \<and> set nodes \<subseteq> {0..<rows}
     \<and> (\<forall>p\<in>set nodes. \<exists>n\<in>set previousNodes. \<bar>p - n\<bar> \<le> 1)
     \<and> (\<forall>n\<in>set previousNodes. \<exists>p\<in>set nodes. \<bar>p - n\<bar> \<le> 1)"

definition reached :: "int list \<Rightarrow> int list \<Rightarrow> bool" where
  "reached previousNodes ps \<longleftrightarrow> distinct ps
     \<and> (\<forall>p\<in>set ps. \<exists>n\<in>set previousNodes. p \<in> set (connectablePositions n))"

lemma best_positions_ok:
  assumes "choices_ok ch" and "set previousNodes \<subseteq> {0..<rows}"
  shows "reached previousNodes (best_positions ch t previousNodes)
    \<and> (\<forall>n\<in>set previousNodes. \<exists>p\<in>set (best_positions ch t previousNodes). p \<in> set (connectablePositions n))
    \<and> length (best_positions ch t previousNodes) \<le> length previousNodes"
proof -
  let ?best = "\<lambda>node positions. best_position (\<lambda>pos. int (length (positionToNodes previousNodes pos)))
                      (arrange ch (t @ 0 # itag node) positions) (- 1) (- 1)"
  let ?f = "\<lambda>(node, positions) ps. let best = ?best node positions in if best \<noteq> - 1 then add_end best ps else ps"
  have b: "?best n (connectablePositions n) \<in> set (connectablePositions n) \<and> ?best n (connectablePositions n) \<noteq> - 1"
    if "n \<in> set previousNodes" for n
  proof -
    have "n \<in> set (connectablePositions n)" using that assms(2) by (auto simp: set_connectable)
    then have "\<exists>p\<in>set (arrange ch (t @ 0 # itag n) (connectablePositions n)). (- 1 :: int) < int (length (positionToNodes previousNodes p))"
      using assms(1) by (auto intro: order.strict_trans2 [of "- 1" 0])
    then have "?best n (connectablePositions n) \<in> set (connectablePositions n)"
      using best_position_mem [of "\<lambda>pos. int (length (positionToNodes previousNodes pos))"] assms(1) by fastforce
    then show ?thesis by (auto simp: set_connectable)
  qed
  have "reached previousNodes (fold ?f (map (\<lambda>n. (n, connectablePositions n)) ns) ps)
      \<and> set ps \<subseteq> set (fold ?f (map (\<lambda>n. (n, connectablePositions n)) ns) ps)
      \<and> (\<forall>n\<in>set ns. \<exists>p\<in>set (fold ?f (map (\<lambda>n. (n, connectablePositions n)) ns) ps). p \<in> set (connectablePositions n))
      \<and> length (fold ?f (map (\<lambda>n. (n, connectablePositions n)) ns) ps) \<le> length ps + length ns"
    if "set ns \<subseteq> set previousNodes" and "reached previousNodes ps" for ns ps
    using that
  proof (induction ns arbitrary: ps)
    case (Cons n ns)
    let ?p = "?best n (connectablePositions n)"
    have n: "n \<in> set previousNodes" using Cons.prems(1) by simp
    have "reached previousNodes (add_end ?p ps)" using Cons.prems(2) b [OF n] n by (auto simp: reached_def)
    with Cons.IH [of "add_end ?p ps"] Cons.prems(1) b [OF n] length_add_end [of ?p ps]
    show ?case by (fastforce simp: Let_def)
  qed simp
  note main = this
  have e: "best_positions ch t previousNodes = fold ?f (map (\<lambda>n. (n, connectablePositions n)) (remdups previousNodes)) []"
    by (simp add: best_positions_def nodeToPositions_def)
  have "reached previousNodes []" by (simp add: reached_def)
  note r0 = this
  have "set (remdups previousNodes) \<subseteq> set previousNodes" by simp
  note m = main [OF this r0, folded e]
  then have "length (best_positions ch t previousNodes) \<le> length (remdups previousNodes)" by simp
  also note length_remdups_leq
  finally show ?thesis using m unfolding set_remdups by blast
qed

lemma positions_round_ok:
  assumes "choices_ok ch" and "reached previousNodes ps"
  shows "reached previousNodes (positions_round ch t previousNodes n i j ps)
    \<and> set ps \<subseteq> set (positions_round ch t previousNodes n i j ps)
    \<and> int (length (positions_round ch t previousNodes n i j ps)) \<le> max (int (length ps)) n"
proof (cases "int (length ps) < n")
  case True
  define acum where "acum = concat (map snd (filter (\<lambda>(_, positions). length positions = i) (nodeToPositions previousNodes)))"
  define found where "found = filter (\<lambda>position. length (positionToNodes previousNodes position) = j
      \<and> position \<in> set acum \<and> position \<notin> set ps) (arrange ch (t @ [1, i, j]) [0..rows - 1])"
  define cur where "cur = (if length found > 1 then arrange ch (t @ [2, i, j]) found else found)"
  define k where "k = min (n - int (length ps)) (int (length cur))"
  have c: "set cur \<subseteq> set acum" using assms(1) by (auto simp: cur_def found_def)
  have acum: "\<exists>m\<in>set previousNodes. p \<in> set (connectablePositions m)" if "p \<in> set acum" for p
    using that by (auto simp: acum_def nodeToPositions_def)
  have eq: "positions_round ch t previousNodes n i j ps = (if k > 0 then fold add_end (take (nat k) cur) ps else ps)"
    unfolding positions_round_def k_def cur_def found_def acum_def Let_def by (simp only: True if_True)
  note f = fold_add_end [of "take (nat k) cur" ps]
  have "reached previousNodes (fold add_end (take (nat k) cur) ps)"
    unfolding reached_def using assms(2) f c acum set_take_subset [of "nat k" cur] unfolding reached_def by blast
  moreover have "int (length (fold add_end (take (nat k) cur) ps)) \<le> n" if "k > 0"
  proof -
    have "length (take (nat k) cur) \<le> nat k" and "k \<le> n - int (length ps)" by (simp_all add: k_def)
    with f that show ?thesis by linarith
  qed
  ultimately show ?thesis using eq f assms(2) by auto
qed (use assms in \<open>simp add: positions_round_def\<close>)

lemma positions_rounds_ok:
  assumes "choices_ok ch" and "reached previousNodes ps"
  shows "reached previousNodes (fold (\<lambda>(i, j). positions_round ch t previousNodes n i j) ijs ps)
    \<and> set ps \<subseteq> set (fold (\<lambda>(i, j). positions_round ch t previousNodes n i j) ijs ps)
    \<and> int (length (fold (\<lambda>(i, j). positions_round ch t previousNodes n i j) ijs ps)) \<le> max (int (length ps)) n"
  using assms(2)
proof (induction ijs arbitrary: ps)
  case (Cons ij ijs)
  obtain i j where ij: "ij = (i, j)" by (cases ij)
  note r = positions_round_ok [OF assms(1) Cons.prems, of t n i j]
  from Cons.IH [OF r [THEN conjunct1]] r show ?case by (auto simp: ij)
qed simp

lemma computePositions_ok:
  assumes "choices_ok ch" and "set previousNodes \<subseteq> {0..<rows}"
  shows "linked previousNodes (computePositions ch t previousNodes n)
    \<and> int (length (computePositions ch t previousNodes n)) \<le> max (int (length previousNodes)) n"
proof -
  define ijs :: "(nat \<times> nat) list" where "ijs = [(1, 3), (1, 2), (1, 1), (2, 3), (2, 2), (2, 1), (3, 3), (3, 2), (3, 1)]"
  define ps where "ps = fold (\<lambda>(i, j). positions_round ch t previousNodes n i j) ijs (best_positions ch t previousNodes)"
  note b = best_positions_ok [OF assms, of t]
  note r = positions_rounds_ok [OF assms(1) b [THEN conjunct1], of t n ijs, folded ps_def]
  have eq: "computePositions ch t previousNodes n = arrange ch (t @ [3]) ps"
    by (simp add: computePositions_def ps_def ijs_def)
  have "linked previousNodes (arrange ch (t @ [3]) ps)"
    using assms(1) r b unfolding linked_def reached_def by (fastforce simp: set_connectable)
  with eq r b assms(1) show ?thesis by auto
qed


section \<open>Columns of nodes\<close>

lemma linked_neq: "linked previousNodes nodes \<Longrightarrow> previousNodes \<noteq> [] \<Longrightarrow> nodes \<noteq> []"
  by (cases previousNodes) (auto simp: linked_def)

lemma linked_rows: "linked previousNodes nodes \<Longrightarrow> set nodes \<subseteq> {0..<rows} \<and> distinct nodes"
  by (simp add: linked_def)

lemma rows_loop_ok:
  assumes "choices_ok ch" and "set first \<subseteq> {0..<rows}"
  shows "length (rows_loop ch col first ns) = length ns
    \<and> (\<forall>i<length ns. linked ((first # rows_loop ch col first ns) ! i) (rows_loop ch col first ns ! i)
         \<and> int (length (rows_loop ch col first ns ! i)) \<le> max (int (length ((first # rows_loop ch col first ns) ! i))) (ns ! i))"
  using assms(2)
proof (induction ns arbitrary: col first)
  case (Cons n ns)
  let ?c = "computePositions ch [1, col] first n"
  note c = computePositions_ok [OF assms(1) Cons.prems, of "[1, col]" n]
  then have "set ?c \<subseteq> {0..<rows}" by (simp add: linked_def)
  note IH = Cons.IH [OF this, of "Suc col"]
  have "linked ((first # ?c # rows_loop ch (Suc col) ?c ns) ! i) ((?c # rows_loop ch (Suc col) ?c ns) ! i)
      \<and> int (length ((?c # rows_loop ch (Suc col) ?c ns) ! i))
        \<le> max (int (length ((first # ?c # rows_loop ch (Suc col) ?c ns) ! i))) ((n # ns) ! i)"
    if "i < length (n # ns)" for i
    using that IH c by (cases i) auto
  with IH show ?case by (simp add: Let_def)
qed simp

text \<open>The shape of the columns of nodes: \<open>R ! 9\<close> is the boss.\<close>

definition grid_ok :: "int list list \<Rightarrow> bool" where
  "grid_ok R \<longleftrightarrow> length R = columns \<and> R ! 9 = [0] \<and> R ! 0 \<noteq> [] \<and> distinct (R ! 0) \<and> set (R ! 0) \<subseteq> {0..<rows}
     \<and> (\<forall>i<8. linked (R ! i) (R ! Suc i))"

lemma GenerateNodeRows_shape:
  assumes "choices_ok ch" and "length ns = columns" and "1 \<le> ns ! 0" and "ns ! 0 \<le> rows"
  shows "\<exists>R. GenerateNodeRows ch ns = Ret R \<and> grid_ok R \<and> int (length (R ! 0)) = ns ! 0
    \<and> (\<forall>i<8. int (length (R ! Suc i)) \<le> max (int (length (R ! i))) (ns ! i))"
proof -
  from assms(2) obtain n0 ns' where ns: "ns = n0 # ns'" by (cases ns) (auto simp: columns_def)
  with assms have n0: "1 \<le> n0" "n0 \<le> 6" and l: "length ns' = 9" by (auto simp: rows_def columns_def)
  define first where "first = take (nat n0) (arrange ch [1] [0..rows - 1])"
  define rs where "rs = rows_loop ch 1 first (butlast ns)"
  have len: "length first = nat n0" using n0 assms(1) by (simp add: first_def rows_def)
  have dist: "distinct first" using assms(1) by (simp add: first_def)
  have sub: "set first \<subseteq> {0..<rows}"
    using set_take_subset [of "nat n0" "arrange ch [1] [0..rows - 1]"] assms(1) by (auto simp: first_def)
  have bl: "length (butlast ns) = 9" using assms(2) by (simp add: columns_def)
  note ok = rows_loop_ok [OF assms(1) sub, of 1 "butlast ns", folded rs_def, unfolded bl]
  have no: "(n0 < 0 \<or> n0 > rows \<or> length (n0 # ns') > columns) = False" using n0 l by (simp add: rows_def columns_def)
  have "GenerateNodeRows ch ns = Ret (butlast (first # rs) @ [[0]] @ replicate (columns - length ns) [])"
    by (simp only: GenerateNodeRows_def ns list.case if_False Let_def first_def rs_def no)
  then have eq: "GenerateNodeRows ch ns = Ret (butlast (first # rs) @ [[0]])" using assms(2) by simp
  have lr: "length rs = 9" using ok by simp
  have nth: "(butlast (first # rs) @ [[0]]) ! i = (first # rs) ! i" if "i < 9" for i
    using that lr by (simp add: nth_append nth_butlast del: butlast.simps)
  have last: "(butlast (first # rs) @ [[0]]) ! 9 = [0]" using lr by (simp add: nth_append del: butlast.simps)
  have step: "linked ((first # rs) ! i) ((first # rs) ! Suc i)
      \<and> int (length ((first # rs) ! Suc i)) \<le> max (int (length ((first # rs) ! i))) (ns ! i)" if "i < 8" for i
    using ok that bl by (auto simp: nth_butlast)
  have "first \<noteq> []" using len n0 by auto
  then have "grid_ok (butlast (first # rs) @ [[0]])"
    using lr dist sub step last nth by (auto simp: grid_ok_def columns_def)
  moreover have "int (length ((butlast (first # rs) @ [[0]]) ! 0)) = ns ! 0" using nth [of 0] len n0 ns by simp
  moreover have "\<forall>i<8. int (length ((butlast (first # rs) @ [[0]]) ! Suc i)) \<le> max (int (length ((butlast (first # rs) @ [[0]]) ! i))) (ns ! i)"
    using step nth by simp
  ultimately show ?thesis using eq by blast
qed

lemma grid_rows:
  assumes "grid_ok R" and "i < columns"
  shows "distinct (R ! i) \<and> set (R ! i) \<subseteq> {0..<rows} \<and> R ! i \<noteq> []"
proof -
  have "distinct (R ! i) \<and> set (R ! i) \<subseteq> {0..<rows} \<and> R ! i \<noteq> []" if "i < 9" for i
    using that
  proof (induction i)
    case 0
    then show ?case using assms(1) by (simp add: grid_ok_def)
  next
    case (Suc i)
    then have "linked (R ! i) (R ! Suc i)" using assms(1) by (simp add: grid_ok_def)
    with Suc show ?case using linked_neq linked_rows by auto
  qed
  then show ?thesis using assms by (cases "i = 9") (auto simp: grid_ok_def columns_def rows_def)
qed

section \<open>Missions of a column\<close>

text \<open>What the missions are when the first loop has made them.\<close>

definition column_ok :: "nat \<Rightarrow> ChallengeMission list \<Rightarrow> int list \<Rightarrow> ChallengeMission list \<Rightarrow> bool" where
  "column_ok col previousColumn nodes ms \<longleftrightarrow> map cm_RowIndex ms = nodes
     \<and> (\<forall>m\<in>set ms. cm_Predecessors m = mission_predecessors col previousColumn (cm_RowIndex m)
          \<and> (\<exists>pool mission. cm_Id m = mission_id col (cm_RowIndex m) pool mission))"

lemma column_missions_ok:
  "column_missions col poolName previousColumn chosen blessings nodes = Ret ms \<Longrightarrow> column_ok col previousColumn nodes ms"
  by (induction col poolName previousColumn chosen blessings nodes arbitrary: ms rule: column_missions.induct)
    (auto simp: column_ok_def make_mission_def split: outcome.splits, blast)

lemma column_missions_total:
  "length nodes \<le> length chosen \<Longrightarrow> length nodes \<le> length blessings \<Longrightarrow>
     \<exists>ms. column_missions col poolName previousColumn chosen blessings nodes = Ret ms"
proof (induction nodes arbitrary: chosen blessings)
  case (Cons n nodes)
  then obtain m ms b bs where "chosen = m # ms" "blessings = b # bs" by (cases chosen; cases blessings) auto
  with Cons show ?case by fastforce
qed simp

lemma missions_loop_ok:
  "missions_loop ch poolsIndexes pools blessings col previousColumn used R = Ret cols \<Longrightarrow>
     length cols = length R \<and> (\<forall>i<length R. column_ok (col + i) ((previousColumn # cols) ! i) (R ! i) (cols ! i))"
proof (induction R arbitrary: col previousColumn used cols)
  case (Cons nodes rest)
  from Cons.prems obtain ms cols' used' where c: "column_ok col previousColumn nodes ms" and cols: "cols = ms # cols'"
    and r: "missions_loop ch poolsIndexes pools blessings (Suc col) ms used' rest = Ret cols'"
    by (auto simp: Let_def split: if_splits outcome.splits dest!: column_missions_ok)
  note IH = Cons.IH [OF r]
  have "column_ok (col + i) ((previousColumn # cols) ! i) ((nodes # rest) ! i) (cols ! i)" if "i < length (nodes # rest)" for i
    using that c IH cols by (cases i) auto
  with IH cols show ?case by simp
qed simp

end
