(* ===== verification/GauntletPaths.thy ===== *)
theory GauntletPaths
  imports GauntletProps
begin

text \<open>
  Removing crossing edges, and the properties of a whole labyrinth: from every mission of a column the next column can be
  reached, every mission can be reached from the column before, and no two edges cross.
\<close>

section \<open>Identifiers\<close>

lemma itoa_digit: "0 \<le> r \<Longrightarrow> r < 10 \<Longrightarrow> itoa r = [digit_char (nat r)]"
  using nat_digits.simps [of "nat r"] by (auto simp: itoa_def nat_less_iff)

lemma digit_char_inj: "a < 10 \<Longrightarrow> b < 10 \<Longrightarrow> digit_char a = digit_char b \<Longrightarrow> a = b"
  unfolding digit_char_def using char_of_eq_iff [of "48 + a" "char_of (48 + b)"] by simp

lemma mission_id_row:
  assumes "mission_id col r pool m = mission_id col r' pool' m'" and "r \<in> {0..<rows}" and "r' \<in> {0..<rows}"
  shows "r = r'"
proof -
  have "[digit_char (nat r)] @ ''_'' @ pool @ ''/'' @ m = [digit_char (nat r')] @ ''_'' @ pool' @ ''/'' @ m'"
    using assms by (simp add: mission_id_def itoa_digit rows_def)
  then have "digit_char (nat r) = digit_char (nat r')" by simp
  moreover have "nat r < 10" "nat r' < 10" using assms(2,3) by (simp_all add: rows_def nat_less_iff)
  ultimately have "nat r = nat r'" by (intro digit_char_inj)
  with assms(2,3) show ?thesis by (metis atLeastLessThan_iff eq_nat_nat_iff)
qed

lemma column_ids:
  assumes "column_ok col previousColumn nodes ms" and "set nodes \<subseteq> {0..<rows}" and "p \<in> set ms" and "q \<in> set ms"
    and "cm_Id p = cm_Id q"
  shows "cm_RowIndex p = cm_RowIndex q"
proof -
  have "cm_RowIndex p \<in> set nodes" "cm_RowIndex q \<in> set nodes" using assms(1,3,4) by (auto simp: column_ok_def)
  moreover obtain a b c d where "cm_Id p = mission_id col (cm_RowIndex p) a b" "cm_Id q = mission_id col (cm_RowIndex q) c d"
    using assms(1,3,4) unfolding column_ok_def by blast
  ultimately show ?thesis using assms(2,5) mission_id_row by (metis subsetD)
qed

section \<open>Indices\<close>

lemma slices_Index_Some: "slices_Index xs x = Some k \<Longrightarrow> k < length xs \<and> xs ! k = x"
  by (induction xs arbitrary: k) (auto split: if_splits)

lemma slices_Index_None: "slices_Index xs x = None \<longleftrightarrow> x \<notin> set xs"
  by (induction xs) auto

lemma set_slices_Delete:
  assumes "distinct xs" and "slices_Index xs x = Some k"
  shows "set (slices_Delete k (Suc k) xs) = set xs - {x} \<and> distinct (slices_Delete k (Suc k) xs)"
  using assms slices_Index_Some [OF assms(2)] set_take_drop_nth [of xs k] distinct_take_drop [of xs k]
  by (simp add: slices_Delete_def)

lemma nodePosToIndex_iff:
  assumes "distinct nodes"
  shows "nodePosToIndex nodes pos = Some a \<longleftrightarrow> a < length nodes \<and> nodes ! a = pos"
proof -
  have "distinct (map fst (rev (zip nodes [0..<length nodes])))" using assms by (simp add: rev_map [symmetric])
  then have "nodePosToIndex nodes pos = Some a \<longleftrightarrow> (pos, a) \<in> set (zip nodes [0..<length nodes])"
    by (simp add: nodePosToIndex_def map_of_eq_Some_iff)
  then show ?thesis by (auto simp: set_zip)
qed

lemma nodePosToIndex_None: "distinct nodes \<Longrightarrow> nodePosToIndex nodes pos = None \<longleftrightarrow> pos \<notin> set nodes"
  by (metis nodePosToIndex_iff in_set_conv_nth not_None_eq)

section \<open>One crossing\<close>

text \<open>
  \<open>edges_kept prev cur0 cur\<close>: only edges are missing, every edge that is missing is a diagonal one, and its two
  straight neighbours are there.
\<close>

definition edges_kept :: "ChallengeMission list \<Rightarrow> ChallengeMission list \<Rightarrow> ChallengeMission list \<Rightarrow> bool" where
  "edges_kept prev cur0 cur \<longleftrightarrow> length cur = length cur0 \<and> (\<forall>a<length cur0.
       cur ! a = (cur0 ! a)\<lparr>cm_Predecessors := cm_Predecessors (cur ! a)\<rparr>
     \<and> distinct (cm_Predecessors (cur ! a)) \<and> set (cm_Predecessors (cur ! a)) \<subseteq> set (cm_Predecessors (cur0 ! a))
     \<and> (\<forall>p\<in>set prev. cm_Id p \<in> set (cm_Predecessors (cur0 ! a)) - set (cm_Predecessors (cur ! a)) \<longrightarrow>
          cm_RowIndex p \<noteq> cm_RowIndex (cur0 ! a) \<and> cm_RowIndex p \<in> cm_RowIndex ` set cur0
          \<and> cm_RowIndex (cur0 ! a) \<in> cm_RowIndex ` set prev))"

definition crosses :: "ChallengeMission list \<Rightarrow> ChallengeMission list \<Rightarrow> int \<Rightarrow> bool" where
  "crosses prev cur pos \<longleftrightarrow> (\<exists>a b p q. a < length cur \<and> b < length cur \<and> p < length prev \<and> q < length prev
     \<and> cm_RowIndex (cur ! a) = pos \<and> cm_RowIndex (cur ! b) = pos + 1
     \<and> cm_RowIndex (prev ! p) = pos \<and> cm_RowIndex (prev ! q) = pos + 1
     \<and> cm_Id (prev ! q) \<in> set (cm_Predecessors (cur ! a)) \<and> cm_Id (prev ! p) \<in> set (cm_Predecessors (cur ! b)))"

lemma only_predecessors:
  "x = y\<lparr>cm_Predecessors := P\<rparr> \<Longrightarrow> cm_RowIndex x = cm_RowIndex y \<and> cm_Id x = cm_Id y
     \<and> delete_predecessor l x = y\<lparr>cm_Predecessors := cm_Predecessors (delete_predecessor l x)\<rparr>"
  by (simp add: delete_predecessor_def)

lemma edges_kept_remove:
  assumes k: "edges_kept prev cur0 cur" and a: "a < length cur" and i: "slices_Index (cm_Predecessors (cur ! a)) (cm_Id q) = Some l"
    and q: "cm_RowIndex q \<noteq> cm_RowIndex (cur ! a)" "cm_RowIndex q \<in> cm_RowIndex ` set cur0" "cm_RowIndex (cur ! a) \<in> cm_RowIndex ` set prev"
    and ids: "\<forall>p\<in>set prev. cm_Id p = cm_Id q \<longrightarrow> cm_RowIndex p = cm_RowIndex q"
  shows "edges_kept prev cur0 (cur[a := delete_predecessor l (cur ! a)])
    \<and> set (cm_Predecessors (delete_predecessor l (cur ! a))) = set (cm_Predecessors (cur ! a)) - {cm_Id q}"
proof -
  have d: "distinct (cm_Predecessors (cur ! a))" using k a by (simp add: edges_kept_def)
  have c: "cur ! a = (cur0 ! a)\<lparr>cm_Predecessors := cm_Predecessors (cur ! a)\<rparr>" using k a unfolding edges_kept_def by simp
  have r: "cm_RowIndex (cur ! a) = cm_RowIndex (cur0 ! a)"
    and e: "delete_predecessor l (cur ! a) = (cur0 ! a)\<lparr>cm_Predecessors := cm_Predecessors (delete_predecessor l (cur ! a))\<rparr>"
    using only_predecessors [OF c] by blast+
  have s: "set (cm_Predecessors (delete_predecessor l (cur ! a))) = set (cm_Predecessors (cur ! a)) - {cm_Id q}
      \<and> distinct (cm_Predecessors (delete_predecessor l (cur ! a)))"
    using set_slices_Delete [OF d i] by (simp add: delete_predecessor_def)
  have "edges_kept prev cur0 (cur[a := delete_predecessor l (cur ! a)])"
    unfolding edges_kept_def
  proof (intro conjI allI impI)
    show "length (cur[a := delete_predecessor l (cur ! a)]) = length cur0" using k by (simp add: edges_kept_def)
  next
    fix b assume b: "b < length cur0"
    let ?c = "cur[a := delete_predecessor l (cur ! a)] ! b"
    have old: "cur ! b = (cur0 ! b)\<lparr>cm_Predecessors := cm_Predecessors (cur ! b)\<rparr>
       \<and> distinct (cm_Predecessors (cur ! b)) \<and> set (cm_Predecessors (cur ! b)) \<subseteq> set (cm_Predecessors (cur0 ! b))
       \<and> (\<forall>p\<in>set prev. cm_Id p \<in> set (cm_Predecessors (cur0 ! b)) - set (cm_Predecessors (cur ! b)) \<longrightarrow>
          cm_RowIndex p \<noteq> cm_RowIndex (cur0 ! b) \<and> cm_RowIndex p \<in> cm_RowIndex ` set cur0
          \<and> cm_RowIndex (cur0 ! b) \<in> cm_RowIndex ` set prev)"
      using k b unfolding edges_kept_def by blast
    show "?c = (cur0 ! b)\<lparr>cm_Predecessors := cm_Predecessors ?c\<rparr>"
      using e old a by (cases "a = b") auto
    show "distinct (cm_Predecessors ?c)" using s old a by (cases "a = b") auto
    show "set (cm_Predecessors ?c) \<subseteq> set (cm_Predecessors (cur0 ! b))" using s old a by (cases "a = b") auto
    show "\<forall>p\<in>set prev. cm_Id p \<in> set (cm_Predecessors (cur0 ! b)) - set (cm_Predecessors ?c) \<longrightarrow>
          cm_RowIndex p \<noteq> cm_RowIndex (cur0 ! b) \<and> cm_RowIndex p \<in> cm_RowIndex ` set cur0
          \<and> cm_RowIndex (cur0 ! b) \<in> cm_RowIndex ` set prev"
    proof (intro ballI impI)
      fix p assume p: "p \<in> set prev" "cm_Id p \<in> set (cm_Predecessors (cur0 ! b)) - set (cm_Predecessors ?c)"
      show "cm_RowIndex p \<noteq> cm_RowIndex (cur0 ! b) \<and> cm_RowIndex p \<in> cm_RowIndex ` set cur0
          \<and> cm_RowIndex (cur0 ! b) \<in> cm_RowIndex ` set prev"
      proof (cases "a = b \<and> cm_Id p = cm_Id q")
        case True
        then show ?thesis using q ids p(1) r by metis
      next
        case False
        with p(2) s a have "cm_Id p \<in> set (cm_Predecessors (cur0 ! b)) - set (cm_Predecessors (cur ! b))"
          by (cases "a = b") auto
        with old p(1) show ?thesis by blast
      qed
    qed
  qed
  with s show ?thesis by blast
qed

lemma crosses_delete:
  "crosses prev (cur[a := delete_predecessor l (cur ! a)]) pos \<Longrightarrow> crosses prev cur pos"
proof -
  define new where "new = cur[a := delete_predecessor l (cur ! a)]"
  have len: "length new = length cur" by (simp add: new_def)
  have r: "cm_RowIndex (new ! b) = cm_RowIndex (cur ! b) \<and> set (cm_Predecessors (new ! b)) \<subseteq> set (cm_Predecessors (cur ! b))"
    if "b < length cur" for b
    using that set_take_subset [of l "cm_Predecessors (cur ! a)"] set_drop_subset [of "Suc l" "cm_Predecessors (cur ! a)"]
    by (cases "a = b") (auto simp: new_def delete_predecessor_def slices_Delete_def)
  assume "crosses prev (cur[a := delete_predecessor l (cur ! a)]) pos"
  then obtain a' b p q where c: "a' < length cur" "b < length cur" "p < length prev" "q < length prev"
      "cm_RowIndex (new ! a') = pos" "cm_RowIndex (new ! b) = pos + 1"
      "cm_RowIndex (prev ! p) = pos" "cm_RowIndex (prev ! q) = pos + 1"
      "cm_Id (prev ! q) \<in> set (cm_Predecessors (new ! a'))" "cm_Id (prev ! p) \<in> set (cm_Predecessors (new ! b))"
    unfolding new_def [symmetric] crosses_def len by blast
  then show ?thesis unfolding crosses_def using r [OF c(1)] r [OF c(2)]
    by (intro exI [of _ a'] exI [of _ b] exI [of _ p] exI [of _ q]) auto
qed

lemma uncross_at_ok:
  assumes rows0: "map cm_RowIndex cur0 = nodes" "distinct nodes" "map cm_RowIndex prev = previousNodes" "distinct previousNodes"
    and ids: "\<forall>p\<in>set prev. \<forall>q\<in>set prev. cm_Id p = cm_Id q \<longrightarrow> cm_RowIndex p = cm_RowIndex q"
    and kept: "edges_kept prev cur0 cur"
  shows "edges_kept prev cur0 (uncross_at ch col previousNodes nodes prev pos cur)
    \<and> \<not> crosses prev (uncross_at ch col previousNodes nodes prev pos cur) pos
    \<and> (\<forall>k. crosses prev (uncross_at ch col previousNodes nodes prev pos cur) k \<longrightarrow> crosses prev cur k)"
proof -
  let ?new = "uncross_at ch col previousNodes nodes prev pos cur"
  have len: "length cur = length cur0" using kept by (simp add: edges_kept_def)
  have row: "cm_RowIndex (cur ! a) = nodes ! a" if "a < length cur" for a
  proof -
    from kept len that have "cur ! a = (cur0 ! a)\<lparr>cm_Predecessors := cm_Predecessors (cur ! a)\<rparr>" unfolding edges_kept_def by simp
    from only_predecessors [OF this] that len rows0(1) show ?thesis by auto
  qed
  have prow: "cm_RowIndex (prev ! p) = previousNodes ! p" if "p < length prev" for p using that rows0(3) by auto
  have ln: "length nodes = length cur" "length previousNodes = length prev" using len rows0(1,3) by auto
  note at = nodePosToIndex_iff [OF rows0(2)] nodePosToIndex_iff [OF rows0(4)]
  have uniq: "a = a'" if "a < length cur" "a' < length cur" "nodes ! a = nodes ! a'" for a a'
    using that rows0(2) ln by (simp add: nth_eq_iff_index_eq)
  show ?thesis
  proof (cases "crosses prev cur pos")
    case False
    have "?new = cur"
    proof (rule ccontr)
      assume "?new \<noteq> cur"
      then obtain a p b q where "nodePosToIndex nodes pos = Some a" "nodePosToIndex previousNodes pos = Some p"
          "nodePosToIndex nodes (pos + 1) = Some b" "nodePosToIndex previousNodes (pos + 1) = Some q"
          "slices_Index (cm_Predecessors (cur ! a)) (cm_Id (prev ! q)) \<noteq> None"
          "slices_Index (cm_Predecessors (cur ! b)) (cm_Id (prev ! p)) \<noteq> None"
        unfolding uncross_at_def by (auto split: option.splits)
      then have "crosses prev cur pos" unfolding crosses_def at slices_Index_None using row prow ln by metis
      with False show False by simp
    qed
    with False kept show ?thesis by simp
  next
    case True
    then obtain a b p q where l: "a < length cur" "b < length cur" "p < length prev" "q < length prev"
      and r: "nodes ! a = pos" "nodes ! b = pos + 1" "previousNodes ! p = pos" "previousNodes ! q = pos + 1"
      and e: "cm_Id (prev ! q) \<in> set (cm_Predecessors (cur ! a))" "cm_Id (prev ! p) \<in> set (cm_Predecessors (cur ! b))"
      unfolding crosses_def using row prow by metis
    have n: "nodePosToIndex nodes pos = Some a" "nodePosToIndex previousNodes pos = Some p"
        "nodePosToIndex nodes (pos + 1) = Some b" "nodePosToIndex previousNodes (pos + 1) = Some q"
      unfolding at using l r ln by simp_all
    from e obtain k j where i: "slices_Index (cm_Predecessors (cur ! a)) (cm_Id (prev ! q)) = Some k"
        "slices_Index (cm_Predecessors (cur ! b)) (cm_Id (prev ! p)) = Some j"
      using slices_Index_None by (metis not_None_eq)
    have pq: "prev ! p \<in> set prev" "prev ! q \<in> set prev" using l by simp_all
    have inrows: "x \<in> cm_RowIndex ` set cur0 \<longleftrightarrow> x \<in> set nodes" "x \<in> cm_RowIndex ` set prev \<longleftrightarrow> x \<in> set previousNodes" for x
      using rows0(1,3) by auto
    have mem: "pos \<in> set nodes" "pos + 1 \<in> set nodes" "pos \<in> set previousNodes" "pos + 1 \<in> set previousNodes"
      using l r ln nth_mem by metis+
    have ka: "edges_kept prev cur0 (cur[a := delete_predecessor k (cur ! a)])
        \<and> set (cm_Predecessors (delete_predecessor k (cur ! a))) = set (cm_Predecessors (cur ! a)) - {cm_Id (prev ! q)}"
    proof (rule edges_kept_remove [OF kept l(1) i(1)])
      show "\<forall>p\<in>set prev. cm_Id p = cm_Id (prev ! q) \<longrightarrow> cm_RowIndex p = cm_RowIndex (prev ! q)" using ids pq by blast
    qed (simp_all add: inrows row [OF l(1)] prow [OF l(4)] r mem)
    have kb: "edges_kept prev cur0 (cur[b := delete_predecessor j (cur ! b)])
        \<and> set (cm_Predecessors (delete_predecessor j (cur ! b))) = set (cm_Predecessors (cur ! b)) - {cm_Id (prev ! p)}"
    proof (rule edges_kept_remove [OF kept l(2) i(2)])
      show "\<forall>q\<in>set prev. cm_Id q = cm_Id (prev ! p) \<longrightarrow> cm_RowIndex q = cm_RowIndex (prev ! p)" using ids pq by blast
    qed (simp_all add: inrows row [OF l(2)] prow [OF l(3)] r mem)
    have puniq: "p' = p" if "p' < length prev" "cm_RowIndex (prev ! p') = pos" for p'
      using that rows0(4) ln l r prow [OF that(1)] by (metis nth_eq_iff_index_eq)
    have quniq: "q' = q" if "q' < length prev" "cm_RowIndex (prev ! q') = pos + 1" for q'
      using that rows0(4) ln l r prow [OF that(1)] by (metis nth_eq_iff_index_eq)
    have na: "\<not> crosses prev (cur[a := delete_predecessor k (cur ! a)]) pos"
    proof
      assume "crosses prev (cur[a := delete_predecessor k (cur ! a)]) pos"
      then obtain a' q' where "a' < length cur" "q' < length prev" "cm_RowIndex (prev ! q') = pos + 1"
        "cm_RowIndex (cur[a := delete_predecessor k (cur ! a)] ! a') = pos"
        "cm_Id (prev ! q') \<in> set (cm_Predecessors (cur[a := delete_predecessor k (cur ! a)] ! a'))"
        unfolding crosses_def by auto
      moreover from this have "a' = a"
        using uniq [OF _ l(1), of a'] row [of a'] r by (cases "a' = a") auto
      ultimately show False using ka l quniq by auto
    qed
    have nb: "\<not> crosses prev (cur[b := delete_predecessor j (cur ! b)]) pos"
    proof
      assume "crosses prev (cur[b := delete_predecessor j (cur ! b)]) pos"
      then obtain b' p' where "b' < length cur" "p' < length prev" "cm_RowIndex (prev ! p') = pos"
        "cm_RowIndex (cur[b := delete_predecessor j (cur ! b)] ! b') = pos + 1"
        "cm_Id (prev ! p') \<in> set (cm_Predecessors (cur[b := delete_predecessor j (cur ! b)] ! b'))"
        unfolding crosses_def by auto
      moreover from this have "b' = b"
        using uniq [OF _ l(2), of b'] row [of b'] r by (cases "b' = b") auto
      ultimately show False using kb l puniq by auto
    qed
    have "?new = cur[a := delete_predecessor k (cur ! a)] \<or> ?new = cur[b := delete_predecessor j (cur ! b)]"
      by (simp add: uncross_at_def n i)
    with ka kb na nb crosses_delete show ?thesis by metis
  qed
qed

lemma uncross_column_ok:
  assumes "map cm_RowIndex cur0 = nodes" "distinct nodes" "map cm_RowIndex prev = previousNodes" "distinct previousNodes"
    and "\<forall>p\<in>set prev. \<forall>q\<in>set prev. cm_Id p = cm_Id q \<longrightarrow> cm_RowIndex p = cm_RowIndex q"
    and "\<forall>m\<in>set cur0. distinct (cm_Predecessors m)"
  shows "edges_kept prev cur0 (uncross_column ch col previousNodes nodes prev cur0)
    \<and> (\<forall>pos\<in>{0..rows - 2}. \<not> crosses prev (uncross_column ch col previousNodes nodes prev cur0) pos)"
proof -
  note step = uncross_at_ok [OF assms(1-5)]
  have "edges_kept prev cur0 (fold (uncross_at ch col previousNodes nodes prev) ps cur)
      \<and> (\<forall>k. crosses prev (fold (uncross_at ch col previousNodes nodes prev) ps cur) k \<longrightarrow> crosses prev cur k \<and> k \<notin> set ps)"
    if "edges_kept prev cur0 cur" for ps cur
    using that
  proof (induction ps arbitrary: cur)
    case (Cons pos ps)
    note s = step [OF Cons.prems, of ch col pos]
    from Cons.IH [OF s [THEN conjunct1]] s show ?case by auto
  qed simp
  moreover have "edges_kept prev cur0 cur0" using assms(6) by (simp add: edges_kept_def)
  ultimately show ?thesis unfolding uncross_column_def by fastforce
qed

section \<open>One column after another\<close>

text \<open>What a column is for the one before it, given by the identifiers and rows of its missions.\<close>

definition mission_nodes :: "ChallengeMission list \<Rightarrow> (string \<times> int) set" where
  "mission_nodes ms = (\<lambda>m. (cm_Id m, cm_RowIndex m)) ` set ms"

definition column_joined :: "(string \<times> int) set \<Rightarrow> ChallengeMission list \<Rightarrow> bool" where
  "column_joined previous cur \<longleftrightarrow>
     (\<forall>m\<in>set cur. cm_Predecessors m \<noteq> [] \<and> set (cm_Predecessors m) \<subseteq> fst ` previous)
   \<and> (\<forall>(i, r)\<in>previous. \<exists>m\<in>set cur. i \<in> set (cm_Predecessors m))
   \<and> (\<forall>m\<in>set cur. \<forall>m'\<in>set cur. \<forall>(i, r)\<in>previous. \<forall>(i', r')\<in>previous.
        i' \<in> set (cm_Predecessors m) \<and> i \<in> set (cm_Predecessors m') \<and> cm_RowIndex m < cm_RowIndex m' \<longrightarrow> \<not> r < r')"

lemma fst_mission_nodes [simp]: "fst ` mission_nodes ms = cm_Id ` set ms"
  by (simp add: mission_nodes_def image_image)

lemma column_joined_uncrossed:
  assumes "column_joined N cur" and "m \<in> set cur" and "m' \<in> set cur" and "(i, r) \<in> N" and "(i', r') \<in> N"
    and "i' \<in> set (cm_Predecessors m)" and "i \<in> set (cm_Predecessors m')" and "cm_RowIndex m < cm_RowIndex m'"
  shows "\<not> r < r'"
proof -
  have "\<forall>m\<in>set cur. \<forall>m'\<in>set cur. \<forall>(i, r)\<in>N. \<forall>(i', r')\<in>N.
        i' \<in> set (cm_Predecessors m) \<and> i \<in> set (cm_Predecessors m') \<and> cm_RowIndex m < cm_RowIndex m' \<longrightarrow> \<not> r < r'"
    using assms(1) unfolding column_joined_def by blast
  from bspec [OF bspec [OF this assms(2)] assms(3)] have "\<forall>(i, r)\<in>N. \<forall>(i', r')\<in>N.
        i' \<in> set (cm_Predecessors m) \<and> i \<in> set (cm_Predecessors m') \<and> cm_RowIndex m < cm_RowIndex m' \<longrightarrow> \<not> r < r'" .
  from bspec [OF this assms(4)] assms(5-) show ?thesis by auto
qed

lemma edges_kept_nodes:
  assumes "edges_kept prev cur0 cur"
  shows "mission_nodes cur = mission_nodes cur0 \<and> map cm_RowIndex cur = map cm_RowIndex cur0"
proof -
  have l: "length cur = length cur0" using assms by (simp add: edges_kept_def)
  have "cm_Id (cur ! a) = cm_Id (cur0 ! a) \<and> cm_RowIndex (cur ! a) = cm_RowIndex (cur0 ! a)" if "a < length cur0" for a
    using only_predecessors [where x = "cur ! a" and y = "cur0 ! a"] assms that unfolding edges_kept_def by blast
  then have "map (\<lambda>m. (cm_Id m, cm_RowIndex m)) cur = map (\<lambda>m. (cm_Id m, cm_RowIndex m)) cur0"
    and "map cm_RowIndex cur = map cm_RowIndex cur0"
    using l by (auto intro: nth_equalityI)
  then show ?thesis unfolding mission_nodes_def by (metis set_map)
qed

lemma uncross_column_joined:
  assumes c: "0 < c" "c < columns - 1"
    and prev: "column_ok c' pp previousNodes prev" "distinct previousNodes" "set previousNodes \<subseteq> {0..<rows}"
    and cur: "column_ok c prev nodes cur0" "linked previousNodes nodes"
  shows "edges_kept prev cur0 (uncross_column ch c previousNodes nodes prev cur0)
    \<and> column_joined (mission_nodes prev) (uncross_column ch c previousNodes nodes prev cur0)"
proof -
  define new where "new = uncross_column ch c previousNodes nodes prev cur0"
  have r0: "map cm_RowIndex cur0 = nodes" and rp: "map cm_RowIndex prev = previousNodes"
    using prev(1) cur(1) by (simp_all add: column_ok_def)
  have dn: "distinct nodes" and sn: "set nodes \<subseteq> {0..<rows}" using linked_rows [OF cur(2)] by simp_all
  have ids: "\<forall>p\<in>set prev. \<forall>q\<in>set prev. cm_Id p = cm_Id q \<longrightarrow> cm_RowIndex p = cm_RowIndex q"
    using column_ids [OF prev(1,3)] by blast
  have inj: "p = q" if "p \<in> set prev" "q \<in> set prev" "cm_Id p = cm_Id q" for p q
    using ids that prev(2) rp by (metis inj_onD distinct_map)
  have preds: "cm_Predecessors m = map cm_Id (filter (\<lambda>p. cm_RowIndex m \<in> set (connectablePositions (cm_RowIndex p))) prev)"
    if "m \<in> set cur0" for m
    using that cur(1) c by (auto simp: column_ok_def mission_predecessors_def)
  have "distinct prev" using prev(2) unfolding rp [symmetric] by (simp add: distinct_map)
  then have dp: "distinct (cm_Predecessors m)" if "m \<in> set cur0" for m
    unfolding preds [OF that] distinct_map using inj by (auto simp: inj_on_def)
  have edge: "cm_Id p \<in> set (cm_Predecessors m) \<longleftrightarrow> \<bar>cm_RowIndex m - cm_RowIndex p\<bar> \<le> 1" if "m \<in> set cur0" "p \<in> set prev" for m p
  proof -
    have "cm_RowIndex m \<in> set nodes" using that(1) r0 by auto
    then have "cm_RowIndex m \<in> {0..<rows}" using sn by blast
    then show ?thesis using that inj by (auto simp: preds [OF that(1)] set_connectable)
  qed
  from dp have dps: "\<forall>m\<in>set cur0. distinct (cm_Predecessors m)" by blast
  note u = uncross_column_ok [OF r0 dn rp prev(2) ids dps, of ch c, folded new_def]
  then have kept: "edges_kept prev cur0 new" by blast
  have len: "length new = length cur0" using kept by (simp add: edges_kept_def)
  have row: "cm_RowIndex (new ! a) = cm_RowIndex (cur0 ! a)" if "a < length cur0" for a
    using edges_kept_nodes [OF kept] that len by (metis nth_map)
  have sub: "set (cm_Predecessors (new ! a)) \<subseteq> set (cm_Predecessors (cur0 ! a))" if "a < length cur0" for a
    using kept that unfolding edges_kept_def by blast
  have stays: "cm_Id p \<in> set (cm_Predecessors (new ! a))"
    if "a < length cur0" "p \<in> set prev" "cm_Id p \<in> set (cm_Predecessors (cur0 ! a))"
      "cm_RowIndex p = cm_RowIndex (cur0 ! a) \<or> cm_RowIndex p \<notin> set nodes \<or> cm_RowIndex (cur0 ! a) \<notin> set previousNodes" for a p
    using kept that r0 rp unfolding edges_kept_def by (metis (no_types, lifting) DiffI set_map)
  have A: "cm_Predecessors (new ! a) \<noteq> [] \<and> set (cm_Predecessors (new ! a)) \<subseteq> fst ` mission_nodes prev" if "a < length cur0" for a
  proof -
    have m: "cur0 ! a \<in> set cur0" using that by simp
    then have "cm_RowIndex (cur0 ! a) \<in> set nodes" using r0 by auto
    then obtain n where n: "n \<in> set previousNodes" "\<bar>cm_RowIndex (cur0 ! a) - n\<bar> \<le> 1"
        "cm_RowIndex (cur0 ! a) \<in> set previousNodes \<Longrightarrow> n = cm_RowIndex (cur0 ! a)"
      using cur(2) unfolding linked_def by (cases "cm_RowIndex (cur0 ! a) \<in> set previousNodes") auto
    then obtain p where p: "p \<in> set prev" "cm_RowIndex p = n" using rp by auto
    have "cm_Id p \<in> set (cm_Predecessors (new ! a))"
      using stays [OF that p(1)] edge [OF m p(1)] n p(2) by auto
    moreover have "set (cm_Predecessors (cur0 ! a)) \<subseteq> fst ` mission_nodes prev"
      unfolding preds [OF m] fst_mission_nodes by auto
    ultimately show ?thesis using sub [OF that] by auto
  qed
  have B: "\<exists>m\<in>set new. cm_Id p \<in> set (cm_Predecessors m)" if p: "p \<in> set prev" for p
  proof -
    have "cm_RowIndex p \<in> set previousNodes" using p rp by auto
    then obtain n where n: "n \<in> set nodes" "\<bar>n - cm_RowIndex p\<bar> \<le> 1" "cm_RowIndex p \<in> set nodes \<Longrightarrow> n = cm_RowIndex p"
      using cur(2) unfolding linked_def by (cases "cm_RowIndex p \<in> set nodes") auto
    then obtain a where a: "a < length cur0" "cm_RowIndex (cur0 ! a) = n" using r0 by (metis in_set_conv_nth length_map nth_map)
    have "cm_Id p \<in> set (cm_Predecessors (new ! a))"
      using stays [OF a(1) p] edge [of "cur0 ! a" p] a n p by auto
    then show ?thesis using a len by (metis nth_mem)
  qed
  have C: "\<not> cm_RowIndex p < cm_RowIndex p'"
    if a: "a < length cur0" "b < length cur0" and p: "p \<in> set prev" "p' \<in> set prev"
      and e: "cm_Id p' \<in> set (cm_Predecessors (new ! a))" "cm_Id p \<in> set (cm_Predecessors (new ! b))"
      and lt: "cm_RowIndex (new ! a) < cm_RowIndex (new ! b)" for a b p p'
  proof
    assume "cm_RowIndex p < cm_RowIndex p'"
    moreover have "\<bar>cm_RowIndex (cur0 ! a) - cm_RowIndex p'\<bar> \<le> 1" "\<bar>cm_RowIndex (cur0 ! b) - cm_RowIndex p\<bar> \<le> 1"
      using edge [of "cur0 ! a" p'] edge [of "cur0 ! b" p] sub e a p by auto
    ultimately have rs: "cm_RowIndex (cur0 ! a) = cm_RowIndex p" "cm_RowIndex p' = cm_RowIndex p + 1" "cm_RowIndex (cur0 ! b) = cm_RowIndex p + 1"
      using lt row a by auto
    have "cm_RowIndex p \<in> set previousNodes" "cm_RowIndex p' \<in> set previousNodes" using p rp by auto
    then have "cm_RowIndex p \<in> {0..<rows}" "cm_RowIndex p' \<in> {0..<rows}" using prev(3) by blast+
    then have pos: "cm_RowIndex p \<in> {0..rows - 2}" using rs(2) by (simp add: rows_def)
    from p obtain i j where ij: "i < length prev" "prev ! i = p" "j < length prev" "prev ! j = p'" by (metis in_set_conv_nth)
    have "crosses prev new (cm_RowIndex p)" unfolding crosses_def
      using a ij rs row e len by (intro exI [of _ a] exI [of _ b] exI [of _ i] exI [of _ j]) auto
    with u pos show False by blast
  qed
  have ex: "\<exists>a<length cur0. new ! a = m" if "m \<in> set new" for m using that len by (metis in_set_conv_nth)
  have "column_joined (mission_nodes prev) new"
    unfolding column_joined_def
  proof (intro conjI ballI)
    fix m assume "m \<in> set new"
    then show "cm_Predecessors m \<noteq> []" and "set (cm_Predecessors m) \<subseteq> fst ` mission_nodes prev" using A ex by blast+
  next
    fix x assume "x \<in> mission_nodes prev"
    then show "case x of (i, r) \<Rightarrow> \<exists>m\<in>set new. i \<in> set (cm_Predecessors m)" using B by (auto simp: mission_nodes_def)
  next
    fix m m' x assume m: "m \<in> set new" "m' \<in> set new" and x: "x \<in> mission_nodes prev"
    obtain a b where ab: "a < length cur0" "new ! a = m" "b < length cur0" "new ! b = m'" using ex m by blast
    obtain p where p: "p \<in> set prev" "x = (cm_Id p, cm_RowIndex p)" using x by (auto simp: mission_nodes_def)
    have "\<not> cm_RowIndex p < cm_RowIndex p'" if "p' \<in> set prev" "cm_Id p' \<in> set (cm_Predecessors m)"
      "cm_Id p \<in> set (cm_Predecessors m')" "cm_RowIndex m < cm_RowIndex m'" for p'
      using C [OF ab(1,3) p(1) that(1)] that ab by simp
    then show "case x of (i, r) \<Rightarrow> \<forall>(i', r')\<in>mission_nodes prev. i' \<in> set (cm_Predecessors m) \<and> i \<in> set (cm_Predecessors m')
        \<and> cm_RowIndex m < cm_RowIndex m' \<longrightarrow> \<not> r < r'"
      by (auto simp: mission_nodes_def p(2))
  qed
  with kept show ?thesis unfolding new_def by blast
qed

section \<open>The whole labyrinth\<close>

lemma boss_joined:
  assumes "column_ok 9 prev [0] cur" and "prev \<noteq> []"
  shows "column_joined (mission_nodes prev) cur"
proof -
  from assms(1) obtain m where m: "cur = [m]" by (auto simp: column_ok_def)
  have "cm_Predecessors m = map cm_Id prev" using assms(1) by (simp add: m column_ok_def mission_predecessors_def columns_def)
  then have "set (cm_Predecessors m) = fst ` mission_nodes prev" "cm_Predecessors m \<noteq> []" using assms(2) by simp_all
  moreover have "\<forall>(i, r)\<in>mission_nodes prev. i \<in> cm_Id ` set prev" by (auto simp: mission_nodes_def)
  ultimately show ?thesis by (auto simp: column_joined_def m)
qed

lemma uncross_boss:
  assumes "column_ok 9 prev [0] cur"
  shows "uncross_column ch 9 previousNodes [0] prev cur = cur"
proof -
  have no: "nodePosToIndex [0] pos = None \<or> nodePosToIndex [0] (pos + 1) = None" for pos
    using nodePosToIndex_None [of "[0]"] by auto
  have "uncross_at ch 9 previousNodes [0] prev pos ms = ms" for pos ms
    using no [of pos] by (auto simp: uncross_at_def split: option.split)
  then have "fold (uncross_at ch 9 previousNodes [0] prev) ps cur = cur" for ps by (induction ps) simp_all
  then show ?thesis by (simp add: uncross_column_def)
qed

lemma GenerateMissions_ok:
  assumes R: "grid_ok R" and gen: "GenerateMissions ch R poolsIndexes pools blessings = Ret cols"
  shows "length cols = columns \<and> (\<forall>c<columns. map cm_RowIndex (cols ! c) = R ! c)
    \<and> (\<forall>c. 0 < c \<and> c < columns \<longrightarrow> column_joined (mission_nodes (cols ! (c - 1))) (cols ! c))"
proof -
  from gen obtain cols0 where m0: "missions_loop ch poolsIndexes pools blessings 0 [] (\<lambda>_. 0) R = Ret cols0"
    and cols: "cols = map (\<lambda>col. if col = 0 then cols0 ! 0
                     else uncross_column ch col (R ! (col - 1)) (R ! col) (cols0 ! (col - 1)) (cols0 ! col)) [0..<length cols0]"
    by (auto simp: GenerateMissions_def split: outcome.splits)
  have lR: "length R = 10" using R by (simp add: grid_ok_def columns_def)
  from missions_loop_ok [OF m0] lR have l0: "length cols0 = 10"
    and ok: "\<And>c. c < 10 \<Longrightarrow> column_ok c (([] # cols0) ! c) (R ! c) (cols0 ! c)" by auto
  have ok': "column_ok c (cols0 ! (c - 1)) (R ! c) (cols0 ! c)" if "0 < c" "c < 10" for c
    using ok [OF that(2)] that(1) by (cases c) auto
  have nth: "cols ! c = uncross_column ch c (R ! (c - 1)) (R ! c) (cols0 ! (c - 1)) (cols0 ! c)" if "0 < c" "c < 10" for c
    using that by (simp add: cols l0)
  have nth0: "cols ! 0 = cols0 ! 0" by (simp add: cols l0)
  have link: "linked (R ! (c - 1)) (R ! c)" if "0 < c" "c < 9" for c
    using R that by (cases c) (auto simp: grid_ok_def)
  have mid: "edges_kept (cols0 ! (c - 1)) (cols0 ! c) (cols ! c) \<and> column_joined (mission_nodes (cols0 ! (c - 1))) (cols ! c)"
    if "0 < c" "c < 9" for c
  proof -
    note p = ok [of "c - 1"] and g = grid_rows [OF R, of "c - 1"]
    show ?thesis using uncross_column_joined [OF that(1) _ p _ _ ok' [OF that(1)] link [OF that]] g that nth [of c]
      by (simp add: columns_def)
  qed
  have ne: "cols0 ! 8 \<noteq> []"
    using ok [of 8] grid_rows [OF R, of 8] by (auto simp: column_ok_def columns_def)
  have R9: "R ! 9 = [0]" using R by (simp add: grid_ok_def)
  have boss: "column_ok 9 (cols0 ! 8) [0] (cols0 ! 9)" using ok' [of 9] R9 by simp
  have last: "cols ! 9 = cols0 ! 9" using nth [of 9] uncross_boss [OF boss] R9 by simp
  have same: "mission_nodes (cols ! c) = mission_nodes (cols0 ! c) \<and> map cm_RowIndex (cols ! c) = R ! c" if c: "c < 10" for c
  proof -
    have r: "map cm_RowIndex (cols0 ! c) = R ! c" using ok [OF c] by (simp add: column_ok_def)
    consider "c = 0" | "0 < c \<and> c < 9" | "c = 9" using c by linarith
    then show ?thesis
    proof cases
      case 1
      then show ?thesis using r nth0 by simp
    next
      case 2
      then show ?thesis using edges_kept_nodes [of "cols0 ! (c - 1)" "cols0 ! c" "cols ! c"] mid r by simp
    next
      case 3
      then show ?thesis using last r by simp
    qed
  qed
  have "column_joined (mission_nodes (cols ! (c - 1))) (cols ! c)" if "0 < c" "c < 10" for c
  proof (cases "c = 9")
    case True
    then show ?thesis using same [of 8] boss_joined [OF boss ne] last by simp
  next
    case False
    then show ?thesis using mid [of c] same [of "c - 1"] that by simp
  qed
  then show ?thesis using same by (auto simp: cols l0 columns_def)
qed

text \<open>
  C17: a generated labyrinth can be played, whatever the draws.  It has ten columns, none empty, and a single
  boss in the last.  Every mission after the first column has a predecessor, and its predecessors are missions of the
  column before; every mission before the last column is a predecessor of one in the next, so every path
  goes on to the boss; and no two edges between neighbouring columns cross.
\<close>

theorem labyrinth_playable:
  assumes "choices_ok ch" and "build_labyrinth ch poolIndexes missionsPools allowed = Ret cols"
  shows "length cols = columns \<and> (\<forall>c<columns. cols ! c \<noteq> []) \<and> length (cols ! 9) = 1
    \<and> (\<forall>c m. 0 < c \<and> c < columns \<and> m \<in> set (cols ! c) \<longrightarrow>
          cm_Predecessors m \<noteq> [] \<and> set (cm_Predecessors m) \<subseteq> cm_Id ` set (cols ! (c - 1)))
    \<and> (\<forall>c p. Suc c < columns \<and> p \<in> set (cols ! c) \<longrightarrow>
          (\<exists>m\<in>set (cols ! Suc c). cm_Id p \<in> set (cm_Predecessors m)))
    \<and> (\<forall>c m m' p p'. Suc c < columns \<and> m \<in> set (cols ! Suc c) \<and> m' \<in> set (cols ! Suc c)
          \<and> p \<in> set (cols ! c) \<and> p' \<in> set (cols ! c) \<and> cm_Id p' \<in> set (cm_Predecessors m) \<and> cm_Id p \<in> set (cm_Predecessors m')
          \<and> cm_RowIndex m < cm_RowIndex m' \<longrightarrow> \<not> cm_RowIndex p < cm_RowIndex p')"
proof -
  from GenerateNumberOfNodes_total [OF assms(1)] obtain ns where ns: "GenerateNumberOfNodes ch = Ret ns" "length ns = columns"
      "ns ! 0 \<in> {2, 3}" by blast
  then have "1 \<le> ns ! 0" "ns ! 0 \<le> rows" by (auto simp: rows_def)
  from GenerateNodeRows_shape [OF assms(1) ns(2) this] obtain R where R: "GenerateNodeRows ch ns = Ret R" "grid_ok R" by blast
  from assms(2) ns R have "GenerateMissions ch R poolIndexes missionsPools (RandomizedBlessings ch allowed) = Ret cols"
    by (simp add: build_labyrinth_def)
  note g = GenerateMissions_ok [OF R(2) this]
  then have joined: "column_joined (mission_nodes (cols ! c)) (cols ! Suc c)" if "Suc c < columns" for c
    using that by (metis diff_Suc_1 zero_less_Suc)
  have ne: "cols ! c \<noteq> []" if "c < columns" for c using g grid_rows [OF R(2) that] that by (metis list.map_disc_iff)
  have boss: "length (cols ! 9) = 1"
  proof -
    have "map cm_RowIndex (cols ! 9) = [0]" using g R(2) by (simp add: columns_def grid_ok_def)
    then show ?thesis by (cases "cols ! 9") auto
  qed
  have A: "cm_Predecessors m \<noteq> [] \<and> set (cm_Predecessors m) \<subseteq> cm_Id ` set (cols ! (c - 1))"
    if "0 < c" "c < columns" "m \<in> set (cols ! c)" for c m
    using joined [of "c - 1"] that by (auto simp: column_joined_def)
  have B: "\<exists>m\<in>set (cols ! Suc c). cm_Id p \<in> set (cm_Predecessors m)" if "Suc c < columns" "p \<in> set (cols ! c)" for c p
    using joined [OF that(1)] that(2) by (auto simp: column_joined_def mission_nodes_def)
  have C: "\<not> cm_RowIndex p < cm_RowIndex p'"
    if "Suc c < columns" "m \<in> set (cols ! Suc c)" "m' \<in> set (cols ! Suc c)" "p \<in> set (cols ! c)" "p' \<in> set (cols ! c)"
      "cm_Id p' \<in> set (cm_Predecessors m)" "cm_Id p \<in> set (cm_Predecessors m')" "cm_RowIndex m < cm_RowIndex m'" for c m m' p p'
    using column_joined_uncrossed [OF joined [OF that(1)] that(2,3) _ _ that(6-8)] that(4,5)
    unfolding mission_nodes_def by blast
  have 1: "length cols = columns" using g by blast
  have 2: "\<forall>c<columns. cols ! c \<noteq> []" using ne by blast
  have 3: "\<forall>c m. 0 < c \<and> c < columns \<and> m \<in> set (cols ! c) \<longrightarrow>
          cm_Predecessors m \<noteq> [] \<and> set (cm_Predecessors m) \<subseteq> cm_Id ` set (cols ! (c - 1))"
    by (intro allI impI A) simp_all
  have 4: "\<forall>c p. Suc c < columns \<and> p \<in> set (cols ! c) \<longrightarrow>
          (\<exists>m\<in>set (cols ! Suc c). cm_Id p \<in> set (cm_Predecessors m))"
    by (intro allI impI B) simp_all
  have 5: "\<forall>c m m' p p'. Suc c < columns \<and> m \<in> set (cols ! Suc c) \<and> m' \<in> set (cols ! Suc c)
          \<and> p \<in> set (cols ! c) \<and> p' \<in> set (cols ! c) \<and> cm_Id p' \<in> set (cm_Predecessors m) \<and> cm_Id p \<in> set (cm_Predecessors m')
          \<and> cm_RowIndex m < cm_RowIndex m' \<longrightarrow> \<not> cm_RowIndex p < cm_RowIndex p'"
    by (intro allI impI, elim conjE, rule C) assumption+
  show ?thesis by (intro conjI 1 2 boss 3 4 5)
qed

section \<open>No panic\<close>

text \<open>How many blessings of a level the columns use.\<close>

definition blessings_needed :: "int \<Rightarrow> int list \<Rightarrow> int list list \<Rightarrow> nat" where
  "blessings_needed k levels R = sum_list (map (\<lambda>(l, nodes). if l = k then length nodes else 0) (zip levels R))"

definition blessings_of :: "(int \<times> string list) list \<Rightarrow> int \<Rightarrow> string list" where
  "blessings_of blessings k = (case map_of blessings k of None \<Rightarrow> [] | Some bs \<Rightarrow> bs)"

lemma missions_loop_total:
  assumes "choices_ok ch"
    and "\<forall>i<length R. col + i < length idx \<and> idx ! (col + i) < length pools \<and> col + i < length blessingLevelPerColumn
           \<and> length (R ! i) \<le> length (mp_Missions (pools ! (idx ! (col + i))))"
    and "\<forall>k. used k + blessings_needed k (drop col blessingLevelPerColumn) R \<le> length (blessings_of blessings k)"
  shows "\<exists>cols. missions_loop ch idx pools blessings col prev used R = Ret cols"
  using assms(2,3)
proof (induction R arbitrary: col prev used)
  case (Cons nodes R)
  define level where "level = blessingLevelPerColumn ! col"
  have c: "col < length idx" "idx ! col < length pools" "col < length blessingLevelPerColumn"
      "length nodes \<le> length (mp_Missions (pools ! (idx ! col)))"
    using Cons.prems(1) by (auto dest: spec [of _ 0])
  have d: "drop col blessingLevelPerColumn = level # drop (Suc col) blessingLevelPerColumn"
    unfolding level_def using c(3) by (simp add: Cons_nth_drop_Suc)
  have need: "used k + ((if level = k then length nodes else 0) + blessings_needed k (drop (Suc col) blessingLevelPerColumn) R)
      \<le> length (blessings_of blessings k)" for k
    using Cons.prems(2) unfolding d by (simp add: blessings_needed_def)
  from need [of level] have "length nodes \<le> length (drop (used level) (blessings_of blessings level))" by simp
  with column_missions_total [of nodes "take (length nodes) (arrange ch [3, col] (mp_Missions (pools ! (idx ! col))))"
      "drop (used level) (blessings_of blessings level)"] c(4) assms(1)
  obtain ms where ms: "column_missions col (mp_Name (pools ! (idx ! col))) prev
      (take (length nodes) (arrange ch [3, col] (mp_Missions (pools ! (idx ! col)))))
      (drop (used level) (blessings_of blessings level)) nodes = Ret ms"
    by fastforce
  have "\<exists>cols. missions_loop ch idx pools blessings (Suc col) ms (used(level := used level + length nodes)) R = Ret cols"
  proof (rule Cons.IH)
    show "\<forall>i<length R. Suc col + i < length idx \<and> idx ! (Suc col + i) < length pools \<and> Suc col + i < length blessingLevelPerColumn
           \<and> length (R ! i) \<le> length (mp_Missions (pools ! (idx ! (Suc col + i))))"
    proof (intro allI impI)
      fix i assume "i < length R"
      with Cons.prems(1) [rule_format, of "Suc i"]
      show "Suc col + i < length idx \<and> idx ! (Suc col + i) < length pools \<and> Suc col + i < length blessingLevelPerColumn
           \<and> length (R ! i) \<le> length (mp_Missions (pools ! (idx ! (Suc col + i))))" by simp
    qed
    show "\<forall>k. (used(level := used level + length nodes)) k + blessings_needed k (drop (Suc col) blessingLevelPerColumn) R
        \<le> length (blessings_of blessings k)"
    proof
      fix k
      show "(used(level := used level + length nodes)) k + blessings_needed k (drop (Suc col) blessingLevelPerColumn) R
        \<le> length (blessings_of blessings k)"
        using need [of k] by (cases "k = level") auto
    qed
  qed
  with ms c show ?case by (auto simp: Let_def level_def [symmetric] blessings_of_def [symmetric])
qed simp

lemma RandomizedBlessings_length:
  assumes "choices_ok ch"
  shows "length (blessings_of (RandomizedBlessings ch blessings) k) = length (blessings_of blessings k)"
  using assms unfolding RandomizedBlessings_def blessings_of_def by (induction blessings) auto

lemma grid_column_length:
  assumes "grid_ok R" and "c < columns"
  shows "length (R ! c) \<le> 6"
proof -
  have "card (set (R ! c)) \<le> card {0..<rows}" using grid_rows [OF assms] by (intro card_mono) simp_all
  then show ?thesis using grid_rows [OF assms] by (simp add: distinct_card rows_def)
qed

lemma blessings_needed_le:
  assumes "grid_ok R"
  shows "blessings_needed k blessingLevelPerColumn R \<le> 12"
proof -
  have l: "length R = 10" using assms by (simp add: grid_ok_def columns_def)
  have R: "R = map ((!) R) [0, 1, 2, 3, 4, 5, 6, 7, 8, 9]"
    using l map_nth [of R] by (simp add: upt_rec numeral_eq_Suc)
  have b: "length (R ! c) \<le> 6" if "c < 10" for c using grid_column_length [OF assms, of c] that by (simp add: columns_def)
  show ?thesis unfolding blessings_needed_def
    by (subst R) (use b [of 0] b [of 1] b [of 2] b [of 3] b [of 4] b [of 5] b [of 6] b [of 7] b [of 8] b [of 9]
      in \<open>simp add: blessingLevelPerColumn_def\<close>)
qed

lemma build_labyrinth_total:
  assumes "choices_ok ch" and "length poolIndexes = columns"
    and "\<forall>i\<in>set poolIndexes. i < length missionsPools \<and> 6 \<le> length (mp_Missions (missionsPools ! i))"
    and "\<forall>k\<in>{0..5}. \<exists>bs. map_of allowed k = Some bs \<and> 12 \<le> length bs"
  shows "\<exists>cols. build_labyrinth ch poolIndexes missionsPools allowed = Ret cols"
proof -
  from GenerateNumberOfNodes_total [OF assms(1)] obtain ns where ns: "GenerateNumberOfNodes ch = Ret ns" "length ns = columns"
      "ns ! 0 \<in> {2, 3}" by blast
  then have "1 \<le> ns ! 0" "ns ! 0 \<le> rows" by (auto simp: rows_def)
  from GenerateNodeRows_shape [OF assms(1) ns(2) this] obtain R where R: "GenerateNodeRows ch ns = Ret R" "grid_ok R" by blast
  have lR: "length R = 10" using R(2) by (simp add: grid_ok_def columns_def)
  have "blessings_needed k blessingLevelPerColumn R \<le> length (blessings_of (RandomizedBlessings ch allowed) k)" for k
  proof (cases "k \<in> {0..5}")
    case True
    with assms(4) obtain bs where "map_of allowed k = Some bs" "12 \<le> length bs" by blast
    then have "12 \<le> length (blessings_of allowed k)" by (simp add: blessings_of_def)
    with blessings_needed_le [OF R(2), of k] RandomizedBlessings_length [OF assms(1)] show ?thesis by (metis le_trans)
  next
    case False
    then have "\<forall>l\<in>set blessingLevelPerColumn. l \<noteq> k" by (auto simp: blessingLevelPerColumn_def)
    then have "blessings_needed k blessingLevelPerColumn R = 0"
      unfolding blessings_needed_def by (auto simp: sum_list_eq_0_iff dest: set_zip_leftD)
    then show ?thesis by simp
  qed
  then have "\<exists>cols. missions_loop ch poolIndexes missionsPools (RandomizedBlessings ch allowed) 0 [] (\<lambda>_. 0) R = Ret cols"
  proof (intro missions_loop_total [OF assms(1)] allI impI)
    fix i assume "i < length R"
    then have i: "i < 10" using lR by simp
    then have "poolIndexes ! i \<in> set poolIndexes" using assms(2) by (simp add: columns_def)
    with assms(2,3) i grid_column_length [OF R(2), of i]
    show "0 + i < length poolIndexes \<and> poolIndexes ! (0 + i) < length missionsPools \<and> 0 + i < length blessingLevelPerColumn
        \<and> length (R ! i) \<le> length (mp_Missions (missionsPools ! (poolIndexes ! (0 + i))))"
      by (fastforce simp: columns_def blessingLevelPerColumn_def)
  qed simp
  then show ?thesis using ns R by (auto simp: build_labyrinth_def GenerateMissions_def)
qed

text \<open>
  C18: with ten pools of at least six missions each and twelve blessings of every level from 0 to 5 no
  index is ever out of range: the generator returns a labyrinth, whatever the draws.
\<close>

theorem build_labyrinth_returns:
  assumes "choices_ok ch" and "length poolIndexes = columns"
    and "\<forall>i\<in>set poolIndexes. i < length missionsPools \<and> 6 \<le> length (mp_Missions (missionsPools ! i))"
    and "\<forall>k\<in>{0..5}. \<exists>bs. map_of allowed k = Some bs \<and> 12 \<le> length bs"
  shows "\<exists>cols. build_labyrinth ch poolIndexes missionsPools allowed = Ret cols"
  by (rule build_labyrinth_total [OF assms])

section \<open>A small configuration\<close>

definition example_pool :: GauntletMissionPool where
  "example_pool = \<lparr>mp_Name = ''Pool'', mp_Missions = replicate 6 (make_mission 0 [] [] 0
     \<lparr>cm_RowIndex = 0, cm_Id = ''M'', cm_Predecessors = [], cm_PositionX = 0, cm_PositionY = 0, cm_Visualization = [],
      cm_Map = [], cm_Size = ''Small'', cm_VictoryCondition = [], cm_GameType = [], cm_MapVisibility = [],
      cm_StartingResources = [], cm_AllowTitans = False, cm_WorldTwists = [], cm_Opponents = [],
      cm_OpponentsFor2PlayerCoop = [], cm_Rewards = [], cm_MinimapImage = [], cm_MapPreviewImage = []\<rparr> [])\<rparr>"

definition example_blessings :: "(int \<times> string list) list" where
  "example_blessings = map (\<lambda>k. (k, replicate 12 (ItemName ''Gauntlet'' ''Effect'' k))) [0, 1, 2, 3, 4, 5]"

lemma example_configuration:
  "length (replicate 10 (0::nat)) = columns"
  "\<forall>i\<in>set (replicate 10 0). i < length [example_pool] \<and> 6 \<le> length (mp_Missions ([example_pool] ! i))"
  "\<forall>k\<in>{0..5}. \<exists>bs. map_of example_blessings k = Some bs \<and> 12 \<le> length bs"
proof -
  show "length (replicate 10 (0::nat)) = columns" by (simp add: columns_def)
  show "\<forall>i\<in>set (replicate 10 0). i < length [example_pool] \<and> 6 \<le> length (mp_Missions ([example_pool] ! i))"
    by (simp add: example_pool_def)
  have "k \<in> {0, 1, 2, 3, 4, 5}" if "k \<in> {0..5}" for k :: int using that by auto
  then show "\<forall>k\<in>{0..5}. \<exists>bs. map_of example_blessings k = Some bs \<and> 12 \<le> length bs"
    by (auto simp: example_blessings_def)
qed

theorem build_labyrinth_returns_witness:
  "\<exists>cols. build_labyrinth plain_choices (replicate 10 0) [example_pool] example_blessings = Ret cols"
  by (rule build_labyrinth_returns [OF plain_choices_ok example_configuration])

theorem labyrinth_playable_witness:
  "\<exists>cols. build_labyrinth plain_choices (replicate 10 0) [example_pool] example_blessings = Ret cols
     \<and> length cols = columns \<and> length (cols ! 9) = 1"
proof -
  obtain cols where "build_labyrinth plain_choices (replicate 10 0) [example_pool] example_blessings = Ret cols"
    using build_labyrinth_total [OF plain_choices_ok example_configuration] by blast
  with labyrinth_playable [OF plain_choices_ok this] show ?thesis by blast
qed

text \<open>
  The number of nodes drawn for a column is used for the next one: a column has at most as many nodes as the larger of
  the column before and the number drawn for the column before.  So the second column never has more than three nodes,
  although up to six may be drawn for it.
\<close>

lemma second_column_at_most_three:
  assumes "choices_ok ch" and "GenerateNumberOfNodes ch = Ret ns" and "GenerateNodeRows ch ns = Ret R"
  shows "int (length (R ! 0)) = ns ! 0 \<and> (\<forall>i<8. int (length (R ! Suc i)) \<le> max (int (length (R ! i))) (ns ! i))
    \<and> length (R ! 1) \<le> 3"
proof -
  from GenerateNumberOfNodes_total [OF assms(1)] assms(2) have ns: "length ns = columns" "ns ! 0 \<in> {2, 3}" by auto
  then have "1 \<le> ns ! 0" "ns ! 0 \<le> rows" by (auto simp: rows_def)
  from GenerateNodeRows_shape [OF assms(1) ns(1) this] assms(3)
  have R: "int (length (R ! 0)) = ns ! 0" "\<forall>i<8. int (length (R ! Suc i)) \<le> max (int (length (R ! i))) (ns ! i)" by auto
  from R(2) [rule_format, of 0] R(1) ns(2) have "length (R ! 1) \<le> 3" by auto
  with R show ?thesis by blast
qed

end
