(* ===== verification/GoText.thy ===== *)
theory GoText
  imports Prelude
begin

text \<open>
  What the code uses of Go's text functions: splitting and joining, decimal and hexadecimal numbers.  Text is a list
  of bytes, as a Go string is.
\<close>

section \<open>Text\<close>

text \<open>\<open>strings.Split\<close> and \<open>strings.Join\<close> with a separator of one character.\<close>

fun str_Split :: "char \<Rightarrow> string \<Rightarrow> string list" where
  "str_Split sep [] = [[]]"
| "str_Split sep (c # cs) = (if c = sep then [] # str_Split sep cs
     else (case str_Split sep cs of [] \<Rightarrow> [[c]] | x # xs \<Rightarrow> (c # x) # xs))"

fun str_Join :: "char \<Rightarrow> string list \<Rightarrow> string" where
  "str_Join sep [] = []"
| "str_Join sep [x] = x"
| "str_Join sep (x # xs) = x @ sep # str_Join sep xs"

lemma Split_not_Nil [simp]: "str_Split sep t \<noteq> []"
  by (induction t) (auto split: list.splits)

lemma Join_Split: "str_Join sep (str_Split sep t) = t"
proof (induction t)
  case (Cons c t)
  obtain x xs where s: "str_Split sep t = x # xs" by (cases "str_Split sep t") auto
  with Cons show ?case by (cases xs) auto
qed simp

lemma Split_append: "str_Split sep (t @ sep # u) = str_Split sep t @ str_Split sep u"
proof (induction t)
  case (Cons c t)
  obtain x xs where s: "str_Split sep t = x # xs" by (cases "str_Split sep t") auto
  with Cons show ?case by simp
qed simp

lemma Join_append: "xs \<noteq> [] \<Longrightarrow> str_Join sep (xs @ [y]) = str_Join sep xs @ sep # y"
  by (induction sep xs rule: str_Join.induct) auto

text \<open>\<open>strings.SplitN(s, sep, 2)\<close>: what stands before the first separator, and what follows it if there is one.\<close>

fun str_SplitN2 :: "char \<Rightarrow> string \<Rightarrow> string list" where
  "str_SplitN2 sep [] = [[]]"
| "str_SplitN2 sep (c # cs) = (if c = sep then [[], cs]
     else (case str_SplitN2 sep cs of [] \<Rightarrow> [[c]] | x # xs \<Rightarrow> (c # x) # xs))"

text \<open>
  \<open>unicode.IsSpace\<close> on the UTF-8 bytes: how many bytes the rune in front takes if it is a space, 0 if it is none.
\<close>

definition byte_of :: "char \<Rightarrow> nat" where "byte_of c = of_char c"

definition space_len :: "string \<Rightarrow> nat" where
  "space_len s = (case map byte_of s of
      [] \<Rightarrow> 0
    | b # bs \<Rightarrow>
        if b = 32 \<or> 9 \<le> b \<and> b \<le> 13 then 1
        else if b < 128 then 0
        else (case bs of
            [] \<Rightarrow> 0
          | c # cs \<Rightarrow>
              if b = 194 \<and> (c = 133 \<or> c = 160) then 2
              else (case cs of
                  [] \<Rightarrow> 0
                | d # _ \<Rightarrow>
                    if (b, c, d) = (225, 154, 128) \<or> (b, c, d) = (226, 129, 159) \<or> (b, c, d) = (227, 128, 128)
                      \<or> (b, c) = (226, 128) \<and> (128 \<le> d \<and> d \<le> 138 \<or> d = 168 \<or> d = 169 \<or> d = 175)
                    then 3 else 0)))"

text \<open>\<open>strings.Fields\<close>: the pieces between runs of spaces; \<open>w\<close> is the piece read so far.\<close>

function Fields_from :: "string \<Rightarrow> string \<Rightarrow> string list" where
  "Fields_from w [] = (if w = [] then [] else [w])"
| "Fields_from w (c # cs) =
     (let n = space_len (c # cs)
      in if n = 0 then Fields_from (w @ [c]) cs
         else (if w = [] then [] else [w]) @ Fields_from [] (drop (n - 1) cs))"
  by pat_completeness auto

termination by (relation "measure (\<lambda>(w, s). length s)") (auto simp: Let_def)

definition str_Fields :: "string \<Rightarrow> string list" where
  "str_Fields s = Fields_from [] s"

text \<open>\<open>utf8.Valid\<close>.\<close>

definition is_cont :: "nat \<Rightarrow> bool" where "is_cont b \<longleftrightarrow> 128 \<le> b \<and> b \<le> 191"

fun utf8_bytes :: "nat list \<Rightarrow> bool" where
  "utf8_bytes [] \<longleftrightarrow> True"
| "utf8_bytes (b # bs) \<longleftrightarrow>
     (if b < 128 then utf8_bytes bs
      else if 194 \<le> b \<and> b \<le> 223 then
        (case bs of c # cs \<Rightarrow> is_cont c \<and> utf8_bytes cs | [] \<Rightarrow> False)
      else if 224 \<le> b \<and> b \<le> 239 then
        (case bs of c # d # cs \<Rightarrow>
           is_cont c \<and> is_cont d \<and> (b = 224 \<longrightarrow> 160 \<le> c) \<and> (b = 237 \<longrightarrow> c \<le> 159) \<and> utf8_bytes cs | _ \<Rightarrow> False)
      else if 240 \<le> b \<and> b \<le> 244 then
        (case bs of c # d # e # cs \<Rightarrow>
           is_cont c \<and> is_cont d \<and> is_cont e \<and> (b = 240 \<longrightarrow> 144 \<le> c) \<and> (b = 244 \<longrightarrow> c \<le> 143) \<and> utf8_bytes cs | _ \<Rightarrow> False)
      else False)"

definition utf8_Valid :: "string \<Rightarrow> bool" where
  "utf8_Valid s \<longleftrightarrow> utf8_bytes (map byte_of s)"

text \<open>\<open>strconv.Atoi\<close>: the value and whether there was no error; a number out of range yields the nearest bound.\<close>

definition is_digit :: "char \<Rightarrow> bool" where
  "is_digit c \<longleftrightarrow> 48 \<le> (of_char c :: nat) \<and> (of_char c :: nat) \<le> 57"

definition digits_value :: "string \<Rightarrow> int" where
  "digits_value s = foldl (\<lambda>n c. 10 * n + (int (of_char c) - 48)) 0 s"

definition Atoi :: "string \<Rightarrow> int \<times> bool" where
  "Atoi s =
     (let neg = (s \<noteq> [] \<and> hd s = CHR ''-''); ds = (if s \<noteq> [] \<and> (hd s = CHR ''-'' \<or> hd s = CHR ''+'') then tl s else s)
      in if ds = [] \<or> \<not> list_all is_digit ds then (0, False)
         else let n = (if neg then - digits_value ds else digits_value ds)
              in if n < - (2 ^ 63) then (- (2 ^ 63), False) else if n \<ge> 2 ^ 63 then (2 ^ 63 - 1, False) else (n, True))"

text \<open>\<open>hex.EncodeToString\<close> and \<open>hex.DecodeString\<close>.\<close>

definition hex_char :: "nat \<Rightarrow> char" where
  "hex_char d = char_of (if d < 10 then 48 + d else 87 + d)"

definition hex_digit :: "char \<Rightarrow> nat option" where
  "hex_digit c = (let n = of_char c :: nat
     in if 48 \<le> n \<and> n \<le> 57 then Some (n - 48) else if 97 \<le> n \<and> n \<le> 102 then Some (n - 87)
        else if 65 \<le> n \<and> n \<le> 70 then Some (n - 55) else None)"

text \<open>\<open>strconv.AppendUint(_, _, 16)\<close>.\<close>

fun nat_hex :: "nat \<Rightarrow> string" where
  "nat_hex n = (if n < 16 then [hex_char n] else nat_hex (n div 16) @ [hex_char (n mod 16)])"

declare nat_hex.simps [simp del]

fun hex_encode :: "uint8 list \<Rightarrow> string" where
  "hex_encode [] = []"
| "hex_encode (b # bs) = hex_char (unat b div 16) # hex_char (unat b mod 16) # hex_encode bs"

fun hex_decode :: "string \<Rightarrow> uint8 list option" where
  "hex_decode [] = Some []"
| "hex_decode [c] = None"
| "hex_decode (c # d # s) =
     (case (hex_digit c, hex_digit d, hex_decode s) of
        (Some x, Some y, Some bs) \<Rightarrow> Some (of_nat (16 * x + y) # bs)
      | _ \<Rightarrow> None)"

section \<open>Facts\<close>

lemma hex_digit_char: "d < 16 \<Longrightarrow> hex_digit (hex_char d) = Some d"
  by (auto simp: hex_digit_def hex_char_def Let_def)

lemma hex_decode_encode: "hex_decode (hex_encode bs) = Some bs"
proof (induction bs)
  case (Cons b bs)
  have "unat b < 256" using unsigned_less [where 'a = nat, of b] by simp
  then have "hex_digit (hex_char (unat b div 16)) = Some (unat b div 16)" "hex_digit (hex_char (unat b mod 16)) = Some (unat b mod 16)"
    by (simp_all add: hex_digit_char less_mult_imp_div_less)
  moreover have "(of_nat (16 * (unat b div 16) + unat b mod 16) :: uint8) = b" by simp
  ultimately show ?case using Cons by (simp del: of_nat_add of_nat_mult)
qed simp

lemma digit_char_value: "d < 10 \<Longrightarrow> int (of_char (digit_char d)) - 48 = int d \<and> is_digit (digit_char d)"
  by (auto simp: digit_char_def is_digit_def)

lemma digits_value_append: "digits_value (s @ [c]) = 10 * digits_value s + (int (of_char c) - 48)"
  by (simp add: digits_value_def)

lemma digits_value_nat_digits: "digits_value (nat_digits n) = int n \<and> list_all is_digit (nat_digits n) \<and> nat_digits n \<noteq> []"
proof (induction n rule: nat_digits.induct)
  case (1 n)
  show ?case
  proof (cases "n < 10")
    case True
    then show ?thesis using digit_char_value [of n] by (simp add: nat_digits.simps [of n] digits_value_def)
  next
    case False
    with 1 digit_char_value [of "n mod 10"] show ?thesis
      by (simp add: nat_digits.simps [of n] digits_value_append zdiv_int zmod_int)
  qed
qed

lemma Atoi_itoa: "0 \<le> k \<Longrightarrow> k < 2 ^ 63 \<Longrightarrow> Atoi (itoa k) = (k, True)"
proof -
  assume k: "0 \<le> k" "k < 2 ^ 63"
  define ds where "ds = nat_digits (nat k)"
  have d: "digits_value ds = k" "list_all is_digit ds" "ds \<noteq> []" using digits_value_nat_digits [of "nat k"] k by (simp_all add: ds_def)
  then have "is_digit (hd ds)" by (cases ds) auto
  then have "hd ds \<noteq> CHR ''-''" "hd ds \<noteq> CHR ''+''" by (auto simp: is_digit_def)
  with d k show ?thesis by (simp add: Atoi_def itoa_def ds_def [symmetric] Let_def)
qed

end
