(* ===== verification/Playfab.thy ===== *)
theory Playfab
  imports Gauntlet World GoText
begin

text \<open>
  The playfab services of Age of Mythology and Age of Empires IV: sessions (\<open>models/playfab/session.go\<close>), Steam
  tickets (\<open>steamAppTicket.go\<close>), the cloud functions (\<open>athens/.../cloudScriptFunction\<close>), the handlers
  (\<open>routes/playfab\<close>) and the middleware in front of them (\<open>playfabapiMiddleware.go\<close>).
\<close>

section \<open>steamAppTicket.go\<close>

text \<open>Little-endian numbers; the position is returned with the number.\<close>

definition little_endian :: "uint8 list \<Rightarrow> nat" where
  "little_endian bs = foldr (\<lambda>b n. unat b + 256 * n) bs 0"

definition readUint32 :: "uint8 list \<Rightarrow> nat \<Rightarrow> (uint32 \<times> nat) option" where
  "readUint32 b off = (if off + 4 > length b then None else Some (of_nat (little_endian (take 4 (drop off b))), off + 4))"

definition readUint64 :: "uint8 list \<Rightarrow> nat \<Rightarrow> (uint64 \<times> nat) option" where
  "readUint64 b off = (if off + 8 > length b then None else Some (of_nat (little_endian (take 8 (drop off b))), off + 8))"

text \<open>The fields that are only read past, each with its error; \<open>Skip\<close> moves on without a check.\<close>

datatype ticket_field = U32 string | U64 string | Skip nat

fun read_past :: "uint8 list \<Rightarrow> ticket_field list \<Rightarrow> nat \<Rightarrow> string + nat" where
  "read_past b [] off = Inr off"
| "read_past b (U32 e # fs) off = (case readUint32 b off of None \<Rightarrow> Inl e | Some (_, off') \<Rightarrow> read_past b fs off')"
| "read_past b (U64 e # fs) off = (case readUint64 b off of None \<Rightarrow> Inl e | Some (_, off') \<Rightarrow> read_past b fs off')"
| "read_past b (Skip n # fs) off = read_past b fs (off + n)"

definition wrapper_fields :: "ticket_field list" where
  "wrapper_fields =
     [U64 ''unexpected end (gcToken)'', Skip 8, U32 ''unexpected end (tokenGenerated)'', U32 ''unexpected end (sessionheader)'',
      Skip 8, U32 ''unexpected end (sessionExternalIP)'', Skip 4, U32 ''unexpected end (clientConnectionTime)'',
      U32 ''unexpected end (clientConnectionCount)'', U32 ''unexpected end (ownership section length)'']"

definition ownership_fields :: "ticket_field list" where
  "ownership_fields = [U32 ''unexpected end (ownershipLength)'', U32 ''unexpected end (version)'']"

definition ParseSteamIDHex :: "string \<Rightarrow> string + uint64" where
  "ParseSteamIDHex ticketHex =
     (case hex_decode ticketHex of
        None \<Rightarrow> Inl ''encoding/hex''
      | Some data \<Rightarrow>
          (case readUint32 data 0 of
             None \<Rightarrow> Inl ''ticket too short''
           | Some (initialLen, off) \<Rightarrow>
               (case (if initialLen = 20 then read_past data wrapper_fields off else Inr (off - 4)) of
                  Inl e \<Rightarrow> Inl e
                | Inr off1 \<Rightarrow>
                    (case read_past data ownership_fields off1 of
                       Inl e \<Rightarrow> Inl e
                     | Inr off2 \<Rightarrow>
                         (case readUint64 data off2 of None \<Rightarrow> Inl ''unexpected end (steamID)'' | Some (steamID, _) \<Rightarrow> Inr steamID)))))"

section \<open>Sessions\<close>

definition pf_sessionDuration :: int where
  "pf_sessionDuration = 24 * 3600 * 10 ^ 9"

text \<open>The user is its platform path.\<close>

record PfSessionData =
  pf_playfabId :: string
  pf_token :: string
  pf_user :: string

type_synonym PfSessions = "(string, PfSessionData) BaseSessions"

definition PfSessions_Initialize :: PfSessions where
  "PfSessions_Initialize = NewBaseSessions pf_sessionDuration"

text \<open>\<open>generateId\<close>: the sixteen hexadecimal digits of a drawn number.\<close>

definition pf_generateId :: "uint64 \<Rightarrow> string" where
  "pf_generateId draw = hex_encode (map (\<lambda>i. of_nat (unat draw div 256 ^ i mod 256)) [7, 6, 5, 4, 3, 2, 1, 0])"

text \<open>
  \<open>uuid\<close> is the new token, \<open>draws\<close> the numbers drawn.  The identifier is written into the stored data
  afterwards.  \<open>None\<close>: the drawing never ends.
\<close>

definition PfSessions_create :: "int \<Rightarrow> string \<Rightarrow> (nat \<Rightarrow> uint64) \<Rightarrow> string \<Rightarrow> PfSessions \<Rightarrow> (string \<times> PfSessions) option" where
  "PfSessions_create now uuid draws user s =
     (let sess = \<lparr>pf_playfabId = [], pf_token = uuid, pf_user = user\<rparr>
      in case CreateSession now (\<lambda>n. pf_generateId (draws n)) sess s of
           None \<Rightarrow> None
         | Some (stored, s1) \<Rightarrow>
             Some (bs_id stored, s1\<lparr>bss_store := SafeMap_modify (bs_id stored)
               (\<lambda>b. b\<lparr>bs_data := (bs_data b)\<lparr>pf_playfabId := bs_id stored\<rparr>\<rparr>) (bss_store s1)\<rparr>))"

definition CreateWithSteamUserId ::
    "int \<Rightarrow> string \<Rightarrow> (nat \<Rightarrow> uint64) \<Rightarrow> MainUsers \<Rightarrow> uint64 \<Rightarrow> PfSessions \<Rightarrow> (string \<times> PfSessions) option" where
  "CreateWithSteamUserId now uuid draws users steamUserId s =
     (case GetUserByPlatformUserId users False steamUserId of
        None \<Rightarrow> Some ([], s) | Some user \<Rightarrow> PfSessions_create now uuid draws (GetPlatformPath user) s)"

definition CreateWithUserId ::
    "int \<Rightarrow> string \<Rightarrow> (nat \<Rightarrow> uint64) \<Rightarrow> MainUsers \<Rightarrow> int32 \<Rightarrow> PfSessions \<Rightarrow> (string \<times> PfSessions) option" where
  "CreateWithUserId now uuid draws users userId s =
     (case GetUserById users userId of
        None \<Rightarrow> Some ([], s) | Some user \<Rightarrow> PfSessions_create now uuid draws (GetPlatformPath user) s)"

definition PfSessions_GetById :: "PfSessions \<Rightarrow> string \<Rightarrow> PfSessionData option" where
  "PfSessions_GetById s entityToken = map_option bs_data (BaseSessions_Get s entityToken)"

definition PfSessions_ResetExpiry :: "int \<Rightarrow> string \<Rightarrow> PfSessions \<Rightarrow> PfSessions" where
  "PfSessions_ResetExpiry now entityToken s = ResetExpiryTimer now entityToken s"

section \<open>The state and its replies\<close>

text \<open>\<open>pw_data\<close> is the playfab data of the users, by their platform path.\<close>

record PlayfabWorld =
  pw_world :: World
  pw_sessions :: PfSessions
  pw_data :: "(string \<times> PlayfabData PersistentJsonData) list"
  pw_out :: "jv list"

type_synonym pf_handler = "PlayfabWorld \<Rightarrow> exit \<times> PlayfabWorld"

definition pf_write :: "jv \<Rightarrow> PlayfabWorld \<Rightarrow> PlayfabWorld" where
  "pf_write v w = w\<lparr>pw_out := pw_out w @ [v]\<rparr>"

definition pf_Respond :: "int \<Rightarrow> string \<Rightarrow> jv \<Rightarrow> PlayfabWorld \<Rightarrow> PlayfabWorld" where
  "pf_Respond code status d = pf_write (JObj [(''code'', JInt code), (''status'', JStr status), (''data'', d)])"

definition RespondOK :: "jv \<Rightarrow> PlayfabWorld \<Rightarrow> PlayfabWorld" where
  "RespondOK d = pf_Respond 200 ''OK'' d"

definition RespondError :: "int \<Rightarrow> string \<Rightarrow> int \<Rightarrow> string \<Rightarrow> string \<Rightarrow> PlayfabWorld \<Rightarrow> PlayfabWorld" where
  "RespondError code status errorCode err errorMessage =
     pf_write (JObj [(''code'', JInt code), (''status'', JStr status), (''errorCode'', JInt errorCode),
       (''error'', JStr err), (''errorMessage'', JStr errorMessage)])"

definition RespondBadRequest :: "PlayfabWorld \<Rightarrow> PlayfabWorld" where
  "RespondBadRequest = RespondError 400 ''BadRequest'' (- 1) ''Could not parse request body.'' []"

definition RespondNotAvailable :: "PlayfabWorld \<Rightarrow> PlayfabWorld" where
  "RespondNotAvailable = RespondError 503 ''ServiceUnavailable'' (- 2) ''Service is currently not available.'' []"

section \<open>playfabapiMiddleware.go\<close>

definition playAnonymousPaths :: "string list" where
  "playAnonymousPaths =
     [''/Client/LoginWithSteam'', ''/Client/LoginWithCustomID'', ''/MultiplayerServer/ListPartyQosServers'',
      ''/Event/WriteTelemetryEvents'']"

definition authHeader :: "string \<Rightarrow> string" where
  "authHeader title = (if title = AoE4 then ''X-Sessionticket'' else ''X-Entitytoken'')"

text \<open>\<open>header\<close> gives the values of the headers.\<close>

definition PlayfabMiddleware ::
    "int \<Rightarrow> string \<Rightarrow> (string \<Rightarrow> string) \<Rightarrow> (PfSessionData option \<Rightarrow> pf_handler) \<Rightarrow> pf_handler" where
  "PlayfabMiddleware now path header next w =
     (if path \<notin> set playAnonymousPaths \<and> take 7 path \<noteq> ''/static''
      then let h = authHeader (w_title (pw_world w)); token = header h;
               denied = (HReturn, RespondError 401 ''Unauthorized'' 401 (''Invalid '' @ h @ '' header'') [] w)
           in if token \<noteq> []
              then (case PfSessions_GetById (pw_sessions w) token of
                      None \<Rightarrow> denied
                    | Some sess \<Rightarrow> next (Some sess) (w\<lparr>pw_sessions := PfSessions_ResetExpiry now (pf_token sess) (pw_sessions w)\<rparr>))
              else denied
      else next None w)"

definition pf_SessionOrPanic :: "(PfSessionData \<Rightarrow> pf_handler) \<Rightarrow> PfSessionData option \<Rightarrow> pf_handler" where
  "pf_SessionOrPanic h sess w = (case sess of None \<Rightarrow> (HPanic, w) | Some s \<Rightarrow> h s w)"

section \<open>Logging in\<close>

definition infoResultPayload_json :: "(string \<times> jv) list" where
  "infoResultPayload_json = [(''UserInventory'', JArr []), (''UserDataVersion'', JInt 0), (''UserReadOnlyData'', JObj []),
     (''UserReadOnlyDataVersion'', JInt 0), (''CharacterInventories'', JArr [])]"

text \<open>\<open>fmt\<close> prints an instant, \<open>tomorrow\<close> is the same time a day later, \<open>uuid\<close> a fresh identifier.\<close>

definition login_json :: "(int \<Rightarrow> string) \<Rightarrow> int \<Rightarrow> string \<Rightarrow> string \<Rightarrow> (string \<times> jv) list" where
  "login_json fmt tomorrow uuid i =
     [(''SessionTicket'', JStr i), (''PlayFabId'', JStr i), (''NewlyCreated'', JBool True),
      (''SettingsForUser'', JObj [(''NeedsAttribution'', JBool False), (''GatherDeviceInfo'', JBool True), (''GatherFocusInfo'', JBool True)]),
      (''LastLoginTime'', JStr ''2025-11-12T03:34:00.000Z''),
      (''EntityToken'', JObj [(''EntityToken'', JStr i), (''TokenExpiration'', JStr (fmt tomorrow)),
         (''Entity'', JObj [(''Id'', JStr uuid), (''Type'', JStr ''title_player_account''), (''TypeString'', JStr ''title_player_account'')])]),
      (''TreatmentAssignment'', JObj [(''Variants'', JArr []), (''Variables'', JArr [])])]"

text \<open>
  \<open>login\<close>: \<open>reqToPlayfabID\<close> yields an identifier, or nil after it has answered itself, or never returns.  The
  response is passed on to \<open>respond\<close>.
\<close>

datatype key_result = Key string | NoKey | KeyHang

definition pf_login ::
    "(int \<Rightarrow> string) \<Rightarrow> int \<Rightarrow> string \<Rightarrow> 'r option \<Rightarrow> ('r \<Rightarrow> PlayfabWorld \<Rightarrow> key_result \<times> PlayfabWorld)
       \<Rightarrow> ((string \<times> jv) list \<Rightarrow> PlayfabWorld \<Rightarrow> PlayfabWorld) \<Rightarrow> pf_handler" where
  "pf_login fmt tomorrow uuid bound reqToPlayfabID respond w =
     (case bound of
        None \<Rightarrow> (HReturn, RespondBadRequest w)
      | Some req \<Rightarrow>
          (case reqToPlayfabID req w of
             (KeyHang, w1) \<Rightarrow> (HHang, w1)
           | (NoKey, w1) \<Rightarrow> (HReturn, RespondBadRequest w1)
           | (Key i, w1) \<Rightarrow> (HReturn, respond (login_json fmt tomorrow uuid i) w1)))"

definition created :: "(string \<times> PfSessions) option \<Rightarrow> PlayfabWorld \<Rightarrow> key_result \<times> PlayfabWorld" where
  "created c w = (case c of None \<Rightarrow> (KeyHang, w) | Some (i, s) \<Rightarrow> (Key i, w\<lparr>pw_sessions := s\<rparr>))"

definition LoginWithSteam ::
    "(int \<Rightarrow> string) \<Rightarrow> int \<Rightarrow> int \<Rightarrow> string \<Rightarrow> string \<Rightarrow> (nat \<Rightarrow> uint64) \<Rightarrow> string option \<Rightarrow> pf_handler" where
  "LoginWithSteam fmt now tomorrow uuid token draws bound =
     pf_login fmt tomorrow uuid bound
       (\<lambda>ticket w. case ParseSteamIDHex ticket of
          Inl _ \<Rightarrow> (NoKey, RespondBadRequest w)
        | Inr steamId \<Rightarrow> created (CreateWithSteamUserId now token draws (w_users (pw_world w)) steamId (pw_sessions w)) w)
       (\<lambda>fields. RespondOK (JObj fields))"

text \<open>\<open>parsed\<close>: what \<open>strconv.ParseInt(req.CustomId, 10, 32)\<close> yields.\<close>

definition ParseInt32 :: "string \<Rightarrow> int32 option" where
  "ParseInt32 s = (case Atoi s of (n, ok) \<Rightarrow> if ok \<and> - (2 ^ 31) \<le> n \<and> n < 2 ^ 31 then Some (of_int n) else None)"

definition LoginWithCustomID ::
    "(int \<Rightarrow> string) \<Rightarrow> int \<Rightarrow> int \<Rightarrow> string \<Rightarrow> string \<Rightarrow> (nat \<Rightarrow> uint64) \<Rightarrow> string option \<Rightarrow> pf_handler" where
  "LoginWithCustomID fmt now tomorrow uuid token draws bound =
     pf_login fmt tomorrow uuid bound
       (\<lambda>customId w. case ParseInt32 customId of
          None \<Rightarrow> (NoKey, RespondBadRequest w)
        | Some userId \<Rightarrow> created (CreateWithUserId now token draws (w_users (pw_world w)) userId (pw_sessions w)) w)
       (\<lambda>fields. RespondOK (JObj (fields @ infoResultPayload_json)))"

end
