(* ===== verification/CloudScript.thy ===== *)
theory CloudScript
  imports Playfab
begin

text \<open>
  The cloud functions of Age of Mythology (\<open>athens/routes/playfab/cloudScriptFunction\<close>) and the handlers of
  \<open>routes/playfab\<close> that read and change the playfab data of a user.
\<close>

section \<open>Transactions on the data of a user\<close>

definition pf_data_at :: "PlayfabWorld \<Rightarrow> string \<Rightarrow> PlayfabData PersistentJsonData option" where
  "pf_data_at w k = map_of (pw_data w) k"

text \<open>\<open>PlayfabData.WithReadWrite\<close>; the errors it returns are ignored by its callers.  A nil \<open>PlayfabData\<close> panics.\<close>

definition pf_ReadWrite :: "bool \<Rightarrow> string \<Rightarrow> (PlayfabData \<Rightarrow> PlayfabData \<times> bool outcome) \<Rightarrow> pf_handler" where
  "pf_ReadWrite io k fn w =
     (case pf_data_at w k of
        None \<Rightarrow> (HPanic, w)
      | Some p \<Rightarrow>
          let (r, p') = WithReadWrite io fn p; w' = w\<lparr>pw_data := al_modify k (\<lambda>_. p') (pw_data w)\<rparr>
          in (case r of Panic \<Rightarrow> (HPanic, w') | Ret _ \<Rightarrow> (HReturn, w')))"

abbreviation put_progress :: "Progress BaseValue \<Rightarrow> PlayfabData \<Rightarrow> PlayfabData" where
  "put_progress p d \<equiv> d\<lparr>pd_Challenge := (pd_Challenge d)\<lparr>ch_Progress := Some p\<rparr>\<rparr>"

section \<open>startGauntletMission.go\<close>

record StartGauntletMissionParameters =
  sg_CdnPath :: string
  sg_MissionId :: string

definition StartGauntletMission_fn :: "int \<Rightarrow> StartGauntletMissionParameters \<Rightarrow> PlayfabData \<Rightarrow> PlayfabData \<times> bool outcome" where
  "StartGauntletMission_fn now parameters d =
     (case ch_Progress (pd_Challenge d) of
        None \<Rightarrow> (d, Ret True)
      | Some progress \<Rightarrow>
          (case bv_Value progress of
             None \<Rightarrow> (d, Panic)
           | Some value \<Rightarrow>
               if pg_MissionBeingPlayedRightNow value \<noteq> sg_MissionId parameters
               then (case BaseValue_Update now (\<lambda>p. p\<lparr>pg_MissionBeingPlayedRightNow := sg_MissionId parameters\<rparr>) progress of
                       Panic \<Rightarrow> (d, Panic)
                     | Ret progress' \<Rightarrow> ((put_progress progress' d)\<lparr>pd_DataVersion := pd_DataVersion d + 1\<rparr>, Ret False))
               else (d, Ret True)))"

definition StartGauntletMission :: "bool \<Rightarrow> int \<Rightarrow> string \<Rightarrow> StartGauntletMissionParameters \<Rightarrow> pf_handler" where
  "StartGauntletMission io now user parameters = pf_ReadWrite io user (StartGauntletMission_fn now parameters)"

section \<open>awardMissionRewards.go\<close>

record AwardMissionRewardsParameters =
  aw_CdnPath :: string
  aw_Difficulty :: string
  aw_MissionId :: string
  aw_Won :: bool

text \<open>\<open>AwardMissionRewardsResultItemsAdded\<close>: amount and friendly identifier.\<close>

type_synonym items_added = "(int \<times> string) list"

text \<open>The rewards of one mission, in order; an identifier of less than four parts is an index out of range.\<close>

fun award_rewards :: "MissionRewards list \<Rightarrow> Progress \<Rightarrow> items_added \<Rightarrow> Progress \<times> items_added outcome" where
  "award_rewards [] progress added = (progress, Ret added)"
| "award_rewards (reward # rewards) progress added =
     (let elements = str_Split (CHR ''_'') (mr_ItemId reward)
      in if length elements < 4 then (progress, Panic)
         else award_rewards rewards
                (progress\<lparr>pg_Inventory := pg_Inventory progress
                   @ [\<lparr>pi_SeasonId = ''Gauntlet'', pi_Item = elements ! 2, pi_Rarity = fst (Atoi (elements ! 3))\<rparr>]\<rparr>)
                (added @ [(mr_Amount reward, mr_ItemId reward)]))"

definition award_missions :: "ChallengeMission list \<Rightarrow> string \<Rightarrow> Progress \<Rightarrow> Progress \<times> items_added outcome" where
  "award_missions missions actualMissionId progress =
     award_rewards (concat (map cm_Rewards (filter (\<lambda>m. cm_Id m = actualMissionId) missions))) progress []"

text \<open>The callback: the data, its error or panic, and the items added to the result.\<close>

definition AwardMissionRewards_fn ::
    "int \<Rightarrow> AwardMissionRewardsParameters \<Rightarrow> string \<Rightarrow> PlayfabData \<Rightarrow> PlayfabData \<times> bool outcome \<times> items_added" where
  "AwardMissionRewards_fn now parameters actualMissionId d =
     (let challenge = pd_Challenge d
      in case ch_Progress challenge of
           None \<Rightarrow> (d, Ret True, [])
         | Some progress \<Rightarrow>
             (case bv_Value progress of
                None \<Rightarrow> (d, Panic, [])
              | Some value \<Rightarrow>
                  if pg_MissionBeingPlayedRightNow value \<noteq> aw_MissionId parameters then (d, Ret True, [])
                  else if aw_Won parameters
                  then let value1 = value\<lparr>pg_CompletedMissions := pg_CompletedMissions value @ [aw_MissionId parameters]\<rparr>
                       in case Option.bind (ch_Labyrinth challenge) bv_Value of
                            None \<Rightarrow> (put_progress (progress\<lparr>bv_Value := Some value1\<rparr>) d, Panic, [])
                          | Some labyrinth \<Rightarrow>
                              (case award_missions (lb_Missions labyrinth) actualMissionId value1 of
                                 (value2, Panic) \<Rightarrow> (put_progress (progress\<lparr>bv_Value := Some value2\<rparr>) d, Panic, [])
                               | (value2, Ret added) \<Rightarrow>
                                   let value3 = value2\<lparr>pg_MissionBeingPlayedRightNow := []\<rparr>;
                                       progress' = UpdateLastUpdated now (progress\<lparr>bv_Value := Some value3\<rparr>)
                                   in ((put_progress progress' d)\<lparr>pd_DataVersion := pd_DataVersion d + 1\<rparr>, Ret False, added))
                  else (d, Ret True, [])))"

text \<open>An identifier without an underscore is an index out of range.\<close>

definition AwardMissionRewards ::
    "bool \<Rightarrow> int \<Rightarrow> string \<Rightarrow> AwardMissionRewardsParameters \<Rightarrow> PlayfabWorld \<Rightarrow> items_added \<times> exit \<times> PlayfabWorld" where
  "AwardMissionRewards io now user parameters w =
     (let elements = str_Split (CHR ''_'') (aw_MissionId parameters)
      in if length elements < 2 then ([], HPanic, w)
         else if elements ! 1 = ''Gauntlet''
         then let actualMissionId = str_Join (CHR ''_'') (drop 2 elements)
              in case pf_data_at w user of
                   None \<Rightarrow> ([], HPanic, w)
                 | Some p \<Rightarrow>
                     (snd (snd (AwardMissionRewards_fn now parameters actualMissionId (pjd_data p))),
                      pf_ReadWrite io user
                        (\<lambda>d. case AwardMissionRewards_fn now parameters actualMissionId d of (d', r, _) \<Rightarrow> (d', r)) w)
         else ([], HReturn, w))"

section \<open>buildGauntletLabyrinth.go\<close>

record BuildGauntletLabyrinthParameters =
  bg_CdnPath :: string
  bg_GauntletDifficulty :: string

text \<open>What the game has precomputed.\<close>

record AthensGame =
  ag_AllowedBlessings :: "(int \<times> string list) list"
  ag_GauntletPoolIndexByDifficulty :: "(string \<times> nat list) list"
  ag_GauntletMissionPools :: "GauntletMissionPool list"
  ag_CatalogItems :: "(string \<times> CatalogItem) list"
  ag_InventoryItems :: "InventoryItem list"

definition CreateAthensGame :: "Blessings list \<Rightarrow> Gauntlet \<Rightarrow> GauntletMissionPool list \<Rightarrow> AthensGame outcome" where
  "CreateAthensGame blessings gauntlet pools =
     (case PoolsIndexByDifficulty (ga_LabyrinthConfigs gauntlet) (PoolNamesToIndex pools) [] of
        Panic \<Rightarrow> Panic
      | Ret indexes \<Rightarrow>
          Ret \<lparr>ag_AllowedBlessings = AllowedGauntletBlessings gauntlet blessings, ag_GauntletPoolIndexByDifficulty = indexes,
               ag_GauntletMissionPools = pools, ag_CatalogItems = fst (Athens_Items blessings),
               ag_InventoryItems = snd (Athens_Items blessings)\<rparr>)"

definition BuildGauntletLabyrinth_fn ::
    "int \<Rightarrow> string \<Rightarrow> ChallengeMission list \<Rightarrow> PlayfabData \<Rightarrow> (PlayfabData \<times> (Labyrinth \<times> Progress)) outcome" where
  "BuildGauntletLabyrinth_fn now difficulty missions d =
     (let stored = (\<lambda>i. let labyrinth = \<lparr>lb_Id = i, lb_Difficulty = difficulty, lb_Missions = missions\<rparr>;
                           progress = \<lparr>pg_Lives = 3, pg_CompletedMissions = [], pg_Inventory = [], pg_MissionBeingPlayedRightNow = []\<rparr>
                       in Ret (d\<lparr>pd_Challenge := \<lparr>ch_Labyrinth = Some (NewPrivateBaseValue now labyrinth),
                                                 ch_Progress = Some (NewPrivateBaseValue now progress)\<rparr>,
                                 pd_DataVersion := pd_DataVersion d + 1\<rparr>, (labyrinth, progress)))
      in case ch_Labyrinth (pd_Challenge d) of
           None \<Rightarrow> stored 1
         | Some labyrinth \<Rightarrow> (case bv_Value labyrinth of None \<Rightarrow> Panic | Some l \<Rightarrow> stored (wrap64 (lb_Id l + 1))))"

definition BuildGauntletLabyrinth ::
    "bool \<Rightarrow> int \<Rightarrow> choices \<Rightarrow> AthensGame \<Rightarrow> string \<Rightarrow> BuildGauntletLabyrinthParameters \<Rightarrow> PlayfabWorld
       \<Rightarrow> (Labyrinth \<times> Progress) option \<times> exit \<times> PlayfabWorld" where
  "BuildGauntletLabyrinth io now ch game user parameters w =
     (let poolIndexes = (case map_of (ag_GauntletPoolIndexByDifficulty game) (bg_GauntletDifficulty parameters) of
                           None \<Rightarrow> [] | Some xs \<Rightarrow> xs)
      in case build_labyrinth ch poolIndexes (ag_GauntletMissionPools game) (ag_AllowedBlessings game) of
           Panic \<Rightarrow> (None, HPanic, w)
         | Ret missionColumns \<Rightarrow>
             let run = BuildGauntletLabyrinth_fn now (bg_GauntletDifficulty parameters) (concat missionColumns)
             in case pf_data_at w user of
                  None \<Rightarrow> (None, HPanic, w)
                | Some p \<Rightarrow>
                    ((case run (pjd_data p) of Panic \<Rightarrow> None | Ret (_, result) \<Rightarrow> Some result),
                     pf_ReadWrite io user (\<lambda>d. case run d of Panic \<Rightarrow> (d, Panic) | Ret (d', _) \<Rightarrow> (d', Ret False)) w))"

section \<open>ExecuteFunction.go\<close>

text \<open>
  \<open>FunctionParameter\<close>, as it decodes to the parameters of each function: \<open>None\<close> is an error, \<open>Some None\<close> the
  text \<open>null\<close>, which leaves a nil interface for the type assertion of \<open>Run\<close>.
\<close>

record ExecuteRequest =
  ex_FunctionName :: string
  ex_award :: "AwardMissionRewardsParameters option option"
  ex_start :: "StartGauntletMissionParameters option option"
  ex_build :: "BuildGauntletLabyrinthParameters option option"

definition items_added_json :: "items_added \<Rightarrow> jv" where
  "items_added_json xs = JObj [(''itemsAdded'', JArr (map (\<lambda>(a, i). JObj [(''amount'', JInt a), (''itemFriendlyId'', JStr i)]) xs))]"

definition build_json :: "Labyrinth \<times> Progress \<Rightarrow> jv" where
  "build_json r = JObj [(''Labyrinth'', Labyrinth_json (fst r)), (''Progress'', Progress_json (snd r))]"

text \<open>The store of functions by name, and one run: the result to be marshalled.\<close>

definition cloud_run ::
    "bool \<Rightarrow> int \<Rightarrow> choices \<Rightarrow> AthensGame \<Rightarrow> string \<Rightarrow> ExecuteRequest \<Rightarrow> (PlayfabWorld \<Rightarrow> jv option \<times> exit \<times> PlayfabWorld) option option" where
  "cloud_run io now ch game user req =
     (if ex_FunctionName req = ''AwardMissionRewards''
      then Some (map_option (\<lambda>par w. case par of None \<Rightarrow> (None, HPanic, w)
             | Some p \<Rightarrow> (case AwardMissionRewards io now user p w of (added, r) \<Rightarrow> (Some (items_added_json added), r))) (ex_award req))
      else if ex_FunctionName req = ''StartGauntletMission''
      then Some (map_option (\<lambda>par w. case par of None \<Rightarrow> (None, HPanic, w)
             | Some p \<Rightarrow> (None, StartGauntletMission io now user p w)) (ex_start req))
      else if ex_FunctionName req = ''BuildGauntletLabyrinth''
      then Some (map_option (\<lambda>par w. case par of None \<Rightarrow> (None, HPanic, w)
             | Some p \<Rightarrow> (case BuildGauntletLabyrinth io now ch game user p w of (res, r) \<Rightarrow> (map_option build_json res, r))) (ex_build req))
      else None)"

text \<open>\<open>textSize\<close> is the length of a JSON text, \<open>ms\<close> the duration; a result of \<open>null\<close> is left out.\<close>

definition ExecuteFunction ::
    "(jv \<Rightarrow> nat) \<Rightarrow> int \<Rightarrow> bool \<Rightarrow> int \<Rightarrow> choices \<Rightarrow> AthensGame \<Rightarrow> ExecuteRequest option \<Rightarrow> PfSessionData option \<Rightarrow> pf_handler" where
  "ExecuteFunction textSize ms io now ch game bound sess w =
     (case bound of
        None \<Rightarrow> (HReturn, RespondBadRequest w)
      | Some req \<Rightarrow>
          if ex_FunctionName req = [] then (HReturn, RespondBadRequest w)
          else (case cloud_run io now ch game (case sess of None \<Rightarrow> [] | Some s \<Rightarrow> pf_user s) req of
                  None \<Rightarrow> (HReturn, RespondBadRequest w)
                | Some None \<Rightarrow> (HReturn, RespondBadRequest w)
                | Some (Some run) \<Rightarrow>
                    pf_SessionOrPanic (\<lambda>_ w. case run w of
                       (result, HReturn, w1) \<Rightarrow>
                         (HReturn, RespondOK (JObj ([(''ExecutionTimeMilliseconds'', JInt ms), (''FunctionName'', JStr (ex_FunctionName req))]
                            @ (case result of None \<Rightarrow> [] | Some v \<Rightarrow> [(''FunctionResult'', v)])
                            @ [(''FunctionResultSize'', JInt (case result of None \<Rightarrow> 0 | Some v \<Rightarrow> int (textSize v) mod 2 ^ 32))])) w1)
                     | (_, e, w1) \<Rightarrow> (e, w1)) sess w))"

section \<open>Reading the data of a user\<close>

text \<open>The zero value of \<open>time.Time\<close> and of a story mission that is not there.\<close>

definition zeroTime :: int where
  "zeroTime = - 62135596800 * 10 ^ 9"

definition zeroStoryMission :: "StoryMission BaseValue" where
  "zeroStoryMission = \<lparr>bv_LastUpdated = \<lparr>ct_Time = zeroTime, ct_Format = []\<rparr>, bv_Permission = [], bv_Value = None\<rparr>"

definition getValue :: "(int \<Rightarrow> string) \<Rightarrow> string \<Rightarrow> PlayfabData \<Rightarrow> jv option" where
  "getValue fmt key d =
     (if key = ''PunchCardProgress'' then Some (Value_json fmt (PunchCardProgress_json fmt) (pd_PunchCardProgress d))
      else if key = ''CurrentGauntletProgress'' then map_option (Value_json fmt Progress_json) (ch_Progress (pd_Challenge d))
      else if key = ''CurrentGauntletLabyrinth'' then map_option (Value_json fmt Labyrinth_json) (ch_Labyrinth (pd_Challenge d))
      else if take 16 key = ''Mission_Season0_''
      then Some (Value_json fmt StoryMission_json (case map_of (pd_StoryMissions d) key of None \<Rightarrow> zeroStoryMission | Some m \<Rightarrow> m))
      else None)"

definition GetUserReadOnlyData ::
    "(int \<Rightarrow> string) \<Rightarrow> (uint32 option \<times> string list) option \<Rightarrow> PfSessionData \<Rightarrow> pf_handler" where
  "GetUserReadOnlyData fmt bound sess w =
     (case bound of
        None \<Rightarrow> (HReturn, RespondBadRequest w)
      | Some (ifChangedFrom, ks) \<Rightarrow>
          if ks = [] then (HReturn, RespondBadRequest w)
          else (case pf_data_at w (pf_user sess) of
                  None \<Rightarrow> (HPanic, w)
                | Some p \<Rightarrow>
                    let d = pjd_data p;
                        changed = (case ifChangedFrom of None \<Rightarrow> True | Some v \<Rightarrow> v < pd_DataVersion d);
                        values = (if changed then fold (\<lambda>key m. case getValue fmt key d of None \<Rightarrow> m | Some v \<Rightarrow> AList.update key v m) ks [] else [])
                    in (HReturn, RespondOK (JObj [(''DataVersion'', ju32 (pd_DataVersion d)), (''Data'', JObj values)]) w)))"

section \<open>Items\<close>

definition InventoryItem_json :: "InventoryItem \<Rightarrow> jv" where
  "InventoryItem_json i = JObj [(''Id'', JStr (ii_Id i)), (''StackId'', JStr (ii_StackId i)), (''DisplayProperties'', JObj []),
     (''Amount'', JInt (ii_Amount i)), (''Type'', JStr (ii_Type i))]"

text \<open>\<open>date\<close> is 2024-05-02 03:34 UTC in the layout of the service.\<close>

definition CatalogItem_json :: "string \<Rightarrow> CatalogItem \<Rightarrow> jv" where
  "CatalogItem_json date c = JObj [(''Id'', JStr (ci_Id c)), (''Type'', JStr ''catalogItem''),
     (''AlternateIds'', JArr (map (\<lambda>(t, v). JObj [(''Type'', JStr t), (''Value'', JStr v)]) (ci_AlternateIds c))),
     (''FriendlyId'', JStr (ci_FriendlyId c)), (''Title'', JObj [(''NEUTRAL'', JStr (ci_Title c))]), (''Description'', JObj []),
     (''Keywords'', JObj []),
     (''CreatorEntity'', JObj [(''Id'', JStr ''C15F9''), (''Type'', JStr ''title''), (''TypeString'', JStr ''title'')]),
     (''Platforms'', JArr []), (''Tags'', JArr []), (''CreationDate'', JStr date), (''LastModifiedDate'', JStr date),
     (''StartDate'', JStr date), (''Contents'', JArr []), (''Images'', JArr []), (''ItemReferences'', JArr []), (''DeepLinks'', JArr []),
     (''DisplayProperties'', JObj [])]"

text \<open>The slice is nil if no item is found.\<close>

definition GetItems :: "string \<Rightarrow> AthensGame \<Rightarrow> string list option \<Rightarrow> pf_handler" where
  "GetItems date game bound w =
     (case bound of
        None \<Rightarrow> (HReturn, RespondBadRequest w)
      | Some ids \<Rightarrow>
          if ids = [] then (HReturn, RespondBadRequest w)
          else let catalogItems = List.map_filter (map_of (ag_CatalogItems game)) ids
               in (HReturn, RespondOK (JObj [(''Items'', if catalogItems = [] then JNull
                     else JArr (map (CatalogItem_json date) catalogItems))]) w))"

text \<open>
  \<open>GetInventoryItems\<close>: the page of the items and the token of the next one.  An offset outside the items is a
  panic.  \<open>None\<close> is a token that is no number.
\<close>

definition inventory_page :: "string option \<Rightarrow> uint8 \<Rightarrow> InventoryItem list \<Rightarrow> (InventoryItem list \<times> string) outcome option" where
  "inventory_page continuationToken n items =
     (case (case continuationToken of None \<Rightarrow> (0, True) | Some t \<Rightarrow> Atoi t) of
        (_, False) \<Rightarrow> None
      | (offset, True) \<Rightarrow>
          Some (case go_slice offset (int (length items)) items of
                  None \<Rightarrow> Panic
                | Some inventoryItems \<Rightarrow>
                    let returnItems = take (min (unat n) (length inventoryItems)) inventoryItems
                    in Ret (returnItems, if length returnItems < length inventoryItems
                                         then itoa (wrap64 (offset + int (length returnItems))) else [])))"

definition GetInventoryItems :: "AthensGame \<Rightarrow> (string option \<times> uint8) option \<Rightarrow> pf_handler" where
  "GetInventoryItems game bound w =
     (case bound of
        None \<Rightarrow> (HReturn, RespondBadRequest w)
      | Some (continuationToken, n) \<Rightarrow>
          (case inventory_page continuationToken n (ag_InventoryItems game) of
             None \<Rightarrow> (HReturn, RespondBadRequest w)
           | Some Panic \<Rightarrow> (HPanic, w)
           | Some (Ret (items, token)) \<Rightarrow>
               (HReturn, RespondOK (JObj ([(''Items'', JArr (map InventoryItem_json items))]
                  @ (if token = [] then [] else [(''ContinuationToken'', JStr token)])
                  @ [(''ETag'', JStr ''1/MQ==\"'')])) w)))"

section \<open>Handlers with little to do\<close>

definition GetPlayerCombinedInfo :: "PfSessionData \<Rightarrow> pf_handler" where
  "GetPlayerCombinedInfo sess w =
     (HReturn, RespondOK (JObj [(''PlayFabId'', JStr (pf_playfabId sess)), (''InfoResultPayload'', JObj infoResultPayload_json)]) w)"

definition GetTime :: "(int \<Rightarrow> string) \<Rightarrow> int \<Rightarrow> pf_handler" where
  "GetTime fmt now w = (HReturn, RespondOK (JObj [(''Time'', JStr (fmt now))]) w)"

definition GetTitleData :: "string \<Rightarrow> string \<Rightarrow> pf_handler" where
  "GetTitleData host staticConfig w =
     (HReturn, RespondOK (JObj [(''Data'', JObj [(''CdnUrl'', JStr (''https://'' @ host @ ''/static'')),
        (''CdnPathConfig'', JStr staticConfig)])]) w)"

definition GetUserData :: "(int \<Rightarrow> string) \<Rightarrow> int \<Rightarrow> PfSessionData \<Rightarrow> pf_handler" where
  "GetUserData fmt now sess w =
     (case SafeMap_Load (w_users (pw_world w)) (pf_user sess) of
        None \<Rightarrow> (HPanic, w)
      | Some u \<Rightarrow> (HReturn, RespondOK (JObj [(''DataVersion'', JInt 0),
          (''Data'', JObj [(''RLinkProfileID'', Value_json fmt j32 (NewBaseValue now ''public'' (u_id u)))])]) w))"

definition UpdateUserTitleDisplayName :: "string option \<Rightarrow> pf_handler" where
  "UpdateUserTitleDisplayName bound w =
     (case bound of
        None \<Rightarrow> (HReturn, RespondBadRequest w)
      | Some displayName \<Rightarrow> (HReturn, RespondOK (JObj [(''DisplayName'', JStr displayName)]) w))"

definition WriteTelemetryEvents :: pf_handler where
  "WriteTelemetryEvents w = (HReturn, RespondOK (JObj [(''AssignedEventIds'', JArr [])]) w)"

definition GetCognitiveServicesToken :: pf_handler where
  "GetCognitiveServicesToken w = (HReturn, RespondNotAvailable w)"

definition ListPartyQosServers :: pf_handler where
  "ListPartyQosServers w = (HReturn, RespondNotAvailable w)"

definition RequestParty :: pf_handler where
  "RequestParty w = (HReturn, RespondNotAvailable w)"

end
