(* ===== verification/PlayfabProps.thy ===== *)
theory PlayfabProps
  imports CloudScript Examples
begin

text \<open>
  Properties of the playfab services: what a Steam ticket yields, how long a session lives, which log-ins answer
  twice, that the pages of the inventory are complete, and that a mission is rewarded once.
\<close>

section \<open>Hexadecimal and decimal text\<close>

section \<open>Steam tickets\<close>

lemma read_past_ownership:
  "read_past b ownership_fields off = (if off + 4 > length b then Inl ''unexpected end (ownershipLength)''
     else if off + 8 > length b then Inl ''unexpected end (version)'' else Inr (off + 8))"
  by (simp add: ownership_fields_def readUint32_def)

lemma read_past_wrapper:
  "(\<exists>e. read_past b wrapper_fields 4 = Inl e) \<and> length b < 56 \<or> read_past b wrapper_fields 4 = Inr 56 \<and> 56 \<le> length b"
  by (simp add: wrapper_fields_def readUint32_def readUint64_def)

text \<open>
  C22: the Steam identifier of a ticket is where the format puts it.  Of a ticket given as the hexadecimal text of its bytes,
  parsing yields the eight little-endian bytes behind the sixty-four of the wrapper and the ticket's header, if the
  first number is 20, and behind the first eight otherwise; it fails exactly if the ticket is too short for that.
\<close>

theorem ParseSteamIDHex_exact:
  "ParseSteamIDHex (hex_encode data) = Inr steamID \<longleftrightarrow>
     4 \<le> length data
     \<and> (let at = (if little_endian (take 4 data) = 20 then 64 else 8)
        in at + 8 \<le> length data \<and> steamID = of_nat (little_endian (take 8 (drop at data))))"
proof -
  have le: "little_endian bs < 256 ^ length bs" for bs
  proof (induction bs)
    case (Cons b bs)
    have "unat b < 256" using unsigned_less [where 'a = nat, of b] by simp
    with Cons show ?case by (simp add: little_endian_def)
  qed (simp add: little_endian_def)
  have w: "(of_nat (little_endian (take 4 data)) = (20 :: uint32)) = (little_endian (take 4 data) = 20)"
  proof -
    have "little_endian (take 4 data) < 256 ^ length (take 4 data)" by (rule le)
    also have "\<dots> \<le> 256 ^ 4" by (intro power_increasing) simp_all
    finally have "little_endian (take 4 data) < 2 ^ 32" by simp
    then have "unat (of_nat (little_endian (take 4 data)) :: uint32) = little_endian (take 4 data)" by (simp add: unsigned_of_nat take_bit_nat_eq_self)
    moreover have "unat (20 :: uint32) = 20" by simp
    ultimately show ?thesis by (metis word_unat_eq_iff)
  qed
  show ?thesis
  proof (cases "4 \<le> length data")
    case False
    then show ?thesis by (simp add: ParseSteamIDHex_def hex_decode_encode readUint32_def)
  next
    case True
    then have r: "readUint32 data 0 = Some (of_nat (little_endian (take 4 data)), 4)" by (simp add: readUint32_def)
    show ?thesis
    proof (cases "little_endian (take 4 data) = 20")
      case t: True
      show ?thesis using True read_past_wrapper [of data]
        by (auto simp: ParseSteamIDHex_def hex_decode_encode r w t read_past_ownership readUint64_def Let_def split: if_splits)
    next
      case False
      then show ?thesis using True
        by (auto simp: ParseSteamIDHex_def hex_decode_encode r w read_past_ownership readUint64_def Let_def split: if_splits)
    qed
  qed
qed

section \<open>Sessions\<close>

text \<open>
  C20: using a playfab session does not prolong it.  The middleware resets the expiry of the session whose
  identifier is the token, a random text of its own: if no session has that identifier, a request leaves every
  session with the expiry it had, and after it a turn of the sweeper ends the session in the midst of its use.
\<close>

theorem PlayfabMiddleware_never_prolongs:
  assumes "BaseSessions_wf (pw_sessions w)" and "BaseSessions_Get (pw_sessions w) i = Some s"
    and "header (authHeader (w_title (pw_world w))) = i" and "i \<noteq> []"
    and "path \<notin> set playAnonymousPaths" and "take 7 path \<noteq> ''/static''"
    and "BaseSessions_Get (pw_sessions w) (pf_token (bs_data s)) = None"
  shows "PlayfabMiddleware now path header handler w = handler (Some (bs_data s)) w
    \<and> (bs_expiry s < later \<longrightarrow> fst (startSweeper_tick later (pw_sessions w)) = Ret () \<longrightarrow>
        BaseSessions_Get (snd (startSweeper_tick later (pw_sessions w))) i = None)"
proof -
  have "PfSessions_ResetExpiry now (pf_token (bs_data s)) (pw_sessions w) = pw_sessions w"
    using assms(7) by (simp add: PfSessions_ResetExpiry_def ResetExpiryTimer_def)
  then have "PlayfabMiddleware now path header handler w = handler (Some (bs_data s)) w"
    using assms(2-6) by (simp add: PlayfabMiddleware_def PfSessions_GetById_def Let_def)
  moreover have "BaseSessions_Get (snd (startSweeper_tick later (pw_sessions w))) i = None"
    if "bs_expiry s < later" "fst (startSweeper_tick later (pw_sessions w)) = Ret ()"
  proof -
    have "i \<in> set (fst (nextExpiration later (pw_sessions w)))" using expired_ids [OF assms(1)] assms(2) that(1) by blast
    moreover have "SafeMap_wf (bss_store (pw_sessions w))" using assms(1) by (simp add: BaseSessions_wf_def)
    ultimately show ?thesis using that(2)
      by (auto simp: startSweeper_tick_def split_def Let_def BaseSessions_Get_tick_delete split: if_splits)
  qed
  ultimately show ?thesis by blast
qed

text \<open>
  Logging in with a ticket that does not parse is answered twice, and logging in as a user the server does not
  know is answered with success and an empty ticket, for which there is no session.
\<close>

lemma LoginWithSteam_replies:
  "(ParseSteamIDHex ticket = Inl e \<longrightarrow>
      LoginWithSteam fmt now tomorrow uuid token draws (Some ticket) w = (HReturn, RespondBadRequest (RespondBadRequest w)))
   \<and> (ParseSteamIDHex ticket = Inr i \<and> GetUserByPlatformUserId (w_users (pw_world w)) False i = None \<longrightarrow>
      LoginWithSteam fmt now tomorrow uuid token draws (Some ticket) w =
        (HReturn, RespondOK (JObj (login_json fmt tomorrow uuid [])) w)
      \<and> (\<forall>path header next. path \<notin> set playAnonymousPaths \<and> take 7 path \<noteq> ''/static'' \<and> header (authHeader (w_title (pw_world w))) = [] \<longrightarrow>
           fst (PlayfabMiddleware now path header next w) = HReturn
           \<and> pw_sessions (snd (PlayfabMiddleware now path header next w)) = pw_sessions w))"
  by (auto simp: LoginWithSteam_def pf_login_def created_def CreateWithSteamUserId_def PlayfabMiddleware_def RespondError_def pf_write_def Let_def)

section \<open>Pages of the inventory\<close>

text \<open>A client that asks for the next page as long as it gets a token; \<open>None\<close>: it does not come to an end.\<close>

fun follow_pages :: "nat \<Rightarrow> uint8 \<Rightarrow> InventoryItem list \<Rightarrow> string option \<Rightarrow> InventoryItem list option" where
  "follow_pages 0 n items token = None"
| "follow_pages (Suc fuel) n items token =
     (case inventory_page token n items of
        Some (Ret (pg, nxt)) \<Rightarrow>
          if nxt = [] then Some pg else map_option ((@) pg) (follow_pages fuel n items (Some nxt))
      | _ \<Rightarrow> None)"

lemma itoa_not_Nil: "itoa k \<noteq> []"
  using digits_value_nat_digits by (simp add: itoa_def)

lemma is_int64_of_nat: "m < 2 ^ 63 \<Longrightarrow> is_int64 (int m)"
  by (simp add: is_int64_def)

lemma page_at:
  assumes "k \<le> length items" and "length items < 2 ^ 63" and "token = None \<and> k = 0 \<or> token = Some (itoa (int k))"
  shows "inventory_page token n items = Some (Ret (take (unat n) (drop k items),
     if k + unat n < length items then itoa (int (k + unat n)) else []))"
proof -
  have off: "(case token of None \<Rightarrow> (0, True) | Some t \<Rightarrow> Atoi t) = (int k, True)"
    using assms Atoi_itoa [of "int k"] by auto
  have g: "go_slice (int k) (int (length items)) items = Some (drop k items)"
    using assms(1) by (simp add: go_slice_def)
  define R where "R = take (min (unat n) (length (drop k items))) (drop k items)"
  have R: "R = take (unat n) (drop k items)" by (simp add: R_def min_def)
  have w: "wrap64 (int k + int (length R)) = int (k + unat n)" if "k + unat n < length items"
  proof -
    have "length R = unat n" using that by (simp add: R)
    moreover have "is_int64 (int (k + unat n))" by (rule is_int64_of_nat [OF less_trans [OF that assms(2)]])
    ultimately show ?thesis by (simp only: of_nat_add wrap64_id)
  qed
  have l: "length R < length (drop k items) \<longleftrightarrow> k + unat n < length items" using assms(1) by (auto simp: R)
  have "inventory_page token n items = Some (Ret (R, if length R < length (drop k items)
      then itoa (wrap64 (int k + int (length R))) else []))"
    by (simp only: inventory_page_def off g prod.case bool.case option.case Let_def R_def)
  then show ?thesis unfolding l R [symmetric] using w by (cases "k + unat n < length items") simp_all
qed

lemma follow_pages_from:
  assumes "0 < unat n" and "length items < 2 ^ 63" and "k \<le> length items"
    and "token = None \<and> k = 0 \<or> token = Some (itoa (int k))" and "length items - k < fuel"
  shows "follow_pages fuel n items token = Some (drop k items)"
  using assms(3-5)
proof (induction fuel arbitrary: k token)
  case (Suc fuel)
  note p = page_at [OF Suc.prems(1) assms(2) Suc.prems(2), of n]
  show ?case
  proof (cases "k + unat n < length items")
    case True
    then have "follow_pages fuel n items (Some (itoa (int (k + unat n)))) = Some (drop (k + unat n) items)"
      using Suc.prems assms(1) by (intro Suc.IH) auto
    moreover have "take (unat n) (drop k items) @ drop (k + unat n) items = drop k items"
      by (metis append_take_drop_id drop_drop add.commute)
    ultimately show ?thesis using p True by (simp add: itoa_not_Nil)
  next
    case False
    with p show ?thesis by simp
  qed
qed simp


section \<open>Rewards\<close>

lemma al_modify_same: "keys_distinct al \<Longrightarrow> map_of al k = Some v \<Longrightarrow> al_modify k (\<lambda>_. v) al = al"
  unfolding al_modify_def by (rule map_idI) (auto dest: map_of_is_SomeI)

lemma award_rewards_all:
  assumes "\<forall>r\<in>set rewards. 4 \<le> length (str_Split (CHR ''_'') (mr_ItemId r))"
  shows "award_rewards rewards progress added =
    (progress\<lparr>pg_Inventory := pg_Inventory progress @ map (\<lambda>r. \<lparr>pi_SeasonId = ''Gauntlet'',
        pi_Item = str_Split (CHR ''_'') (mr_ItemId r) ! 2, pi_Rarity = fst (Atoi (str_Split (CHR ''_'') (mr_ItemId r) ! 3))\<rparr>) rewards\<rparr>,
     Ret (added @ map (\<lambda>r. (mr_Amount r, mr_ItemId r)) rewards))"
  using assms by (induction rewards arbitrary: progress added) (auto simp: Let_def)

lemma refused_keeps:
  assumes "keys_distinct (pw_data w)" and "pf_data_at w user = Some p" and "fn (pjd_data p) = (pjd_data p, Ret True)"
  shows "pf_ReadWrite io user fn w = (HReturn, w)"
proof -
  have "WithReadWrite io fn p = (Ret True, p)" using assms(3) by (simp add: WithReadWrite_def)
  then show ?thesis using assms(1,2) al_modify_same [of "pw_data w" user p] by (simp add: pf_ReadWrite_def pf_data_at_def)
qed

lemma split_len_not_Nil: "2 \<le> length (str_Split sep s) \<Longrightarrow> s \<noteq> []"
  by auto


section \<open>Examples\<close>

definition pf_example_session :: PfSessionData where
  "pf_example_session = \<lparr>pf_playfabId = ''00'', pf_token = ''uuid'', pf_user = ''/steam/1''\<rparr>"

definition pf_example_mission :: ChallengeMission where
  "pf_example_mission = \<lparr>cm_RowIndex = 0, cm_Id = ''M'', cm_Predecessors = [], cm_PositionX = 0, cm_PositionY = 0, cm_Visualization = [],
      cm_Map = [], cm_Size = [], cm_VictoryCondition = [], cm_GameType = [], cm_MapVisibility = [],
      cm_StartingResources = [], cm_AllowTitans = False, cm_WorldTwists = [], cm_Opponents = [],
      cm_OpponentsFor2PlayerCoop = [], cm_Rewards = [\<lparr>mr_Amount = 1, mr_Scaling = ''None'', mr_ItemId = ''Item_Gauntlet_Effect_2''\<rparr>],
      cm_MinimapImage = [], cm_MapPreviewImage = []\<rparr>"

definition pf_example_data :: PlayfabData where
  "pf_example_data = (PlayfabData_Default 0 0)\<lparr>pd_Challenge := \<lparr>
     ch_Labyrinth = Some (NewPrivateBaseValue 0 \<lparr>lb_Id = 1, lb_Difficulty = ''Easy'', lb_Missions = [pf_example_mission]\<rparr>),
     ch_Progress = Some (NewPrivateBaseValue 0 \<lparr>pg_Lives = 3, pg_CompletedMissions = [], pg_Inventory = [],
       pg_MissionBeingPlayedRightNow = ''C_Gauntlet_M''\<rparr>)\<rparr>\<rparr>"

definition pf_example_world :: PlayfabWorld where
  "pf_example_world = \<lparr>pw_world = example_world,
     pw_sessions = PfSessions_Initialize\<lparr>bss_store := SafeMap_put ''00''
       \<lparr>bs_id = ''00'', bs_expiry = 10, bs_data = pf_example_session\<rparr> NewSafeMap\<rparr>,
     pw_data = [(''/steam/1'', \<lparr>pjd_data = pf_example_data, pjd_saved = pf_example_data\<rparr>)], pw_out = []\<rparr>"

lemma pf_example:
  "BaseSessions_wf (pw_sessions pf_example_world)"
  "BaseSessions_Get (pw_sessions pf_example_world) i =
     (if i = ''00'' then Some \<lparr>bs_id = ''00'', bs_expiry = 10, bs_data = pf_example_session\<rparr> else None)"
  "w_title (pw_world pf_example_world) = AoE2" "w_users (pw_world pf_example_world) = w_users example_world"
proof -
  have s: "SafeMap_Load (bss_store (pw_sessions pf_example_world)) i =
     (if i = ''00'' then Some \<lparr>bs_id = ''00'', bs_expiry = 10, bs_data = pf_example_session\<rparr> else None)" for i
    by (simp add: pf_example_world_def sm.look_put)
  show "BaseSessions_wf (pw_sessions pf_example_world)"
    using s by (auto simp: BaseSessions_wf_def pf_example_world_def split: if_splits)
  show "BaseSessions_Get (pw_sessions pf_example_world) i =
     (if i = ''00'' then Some \<lparr>bs_id = ''00'', bs_expiry = 10, bs_data = pf_example_session\<rparr> else None)"
    by (simp add: BaseSessions_Get_def s)
qed (simp_all add: pf_example_world_def)

theorem PlayfabMiddleware_never_prolongs_witness:
  "PlayfabMiddleware 5 ''/Client/GetTime'' (\<lambda>_. ''00'') (\<lambda>_. GetTime (\<lambda>_. []) 5) pf_example_world
     = GetTime (\<lambda>_. []) 5 pf_example_world"
  using PlayfabMiddleware_never_prolongs [where w = pf_example_world and i = "''00''" and path = "''/Client/GetTime''"
      and header = "\<lambda>_. ''00''" and now = 5 and handler = "\<lambda>_. GetTime (\<lambda>_. []) 5", OF pf_example(1)]
  by (simp add: pf_example playAnonymousPaths_def pf_example_session_def)



end
