(* ===== verification/NetIP.thy ===== *)
theory NetIP
  imports GoText
begin

text \<open>
  The addresses of package \<open>net\<close> as the code uses them: \<open>ParseIP\<close>, \<open>String\<close>, \<open>Equal\<close> and \<open>To4\<close>.  An address is
  its bytes, 4 or 16 of them; \<open>ParseIP\<close> always yields 16.  The lemmas show that the text of an address
  reads back as that address.
\<close>

section \<open>Addresses\<close>

type_synonym IP = "uint8 list"

definition v4InV6Prefix :: IP where
  "v4InV6Prefix = [0, 0, 0, 0, 0, 0, 0, 0, 0, 0, 255, 255]"

definition To4 :: "IP \<Rightarrow> IP option" where
  "To4 ip = (if length ip = 4 then Some ip
     else if length ip = 16 \<and> take 12 ip = v4InV6Prefix then Some (drop 12 ip) else None)"

definition To16 :: "IP \<Rightarrow> IP" where
  "To16 ip = (if length ip = 4 then v4InV6Prefix @ ip else ip)"

definition IP_Equal :: "IP \<Rightarrow> IP \<Rightarrow> bool" where
  "IP_Equal ip x \<longleftrightarrow>
     (if length ip = length x then ip = x
      else if length ip = 4 \<and> length x = 16 then take 12 x = v4InV6Prefix \<and> ip = drop 12 x
      else if length ip = 16 \<and> length x = 4 then take 12 ip = v4InV6Prefix \<and> drop 12 ip = x
      else False)"

section \<open>Printing\<close>

definition IPv4_text :: "IP \<Rightarrow> string" where
  "IPv4_text ip = str_Join (CHR ''.'') (map (\<lambda>b. nat_digits (unat b)) ip)"

fun ip_groups :: "IP \<Rightarrow> nat list" where
  "ip_groups (a # b # bs) = (256 * unat a + unat b) # ip_groups bs"
| "ip_groups _ = []"

text \<open>The longest run of at least two zero groups, the first one of that length: where it starts and ends.\<close>

definition zero_run :: "nat list \<Rightarrow> nat \<Rightarrow> nat" where
  "zero_run gs i = length (takeWhile (\<lambda>g. g = 0) (drop i gs))"

definition longest_zeros :: "nat list \<Rightarrow> (nat \<times> nat) option" where
  "longest_zeros gs = fold (\<lambda>i best.
      let l = zero_run gs i; now = (case best of None \<Rightarrow> 0 | Some (s, e) \<Rightarrow> e - s)
      in if 2 \<le> l \<and> now < l then Some (i, i + l) else best) [0..<length gs] None"

definition IPv6_text :: "IP \<Rightarrow> string" where
  "IPv6_text ip = (let gs = ip_groups ip; hex = (\<lambda>xs. str_Join (CHR '':'') (map nat_hex xs))
     in case longest_zeros gs of
          None \<Rightarrow> hex gs
        | Some (s, e) \<Rightarrow> hex (take s gs) @ ''::'' @ hex (drop e gs))"

definition IP_String :: "IP \<Rightarrow> string" where
  "IP_String ip =
     (if ip = [] then ''<nil>''
      else if length ip \<noteq> 4 \<and> length ip \<noteq> 16 then CHR ''?'' # hex_encode ip
      else (case To4 ip of Some p \<Rightarrow> IPv4_text p | None \<Rightarrow> IPv6_text ip))"

section \<open>Parsing\<close>

text \<open>
  The four decimal fields: \<open>prev\<close> is the byte read before, \<open>val\<close> and \<open>digLen\<close> describe the field being read.
\<close>

fun parseIPv4Fields :: "char option \<Rightarrow> nat \<Rightarrow> nat \<Rightarrow> IP \<Rightarrow> string \<Rightarrow> IP option" where
  "parseIPv4Fields prev val digLen fields [] = (if length fields < 3 then None else Some (fields @ [of_nat val]))"
| "parseIPv4Fields prev val digLen fields (c # cs) =
     (if is_digit c then
        (if digLen = 1 \<and> val = 0 then None
         else let val' = 10 * val + (byte_of c - 48)
              in if val' > 255 then None else parseIPv4Fields (Some c) val' (digLen + 1) fields cs)
      else if c = CHR ''.'' then
        (if prev = None \<or> cs = [] \<or> prev = Some (CHR ''.'') then None
         else if length fields = 3 then None
         else parseIPv4Fields (Some c) 0 0 (fields @ [of_nat val]) cs)
      else None)"

text \<open>One hexadecimal group: how many digits, their value, and the rest of the text.\<close>

fun parse_group :: "nat \<Rightarrow> nat \<Rightarrow> string \<Rightarrow> (nat \<times> nat \<times> string) option" where
  "parse_group off acc [] = Some (off, acc, [])"
| "parse_group off acc (c # cs) =
     (case hex_digit c of
        None \<Rightarrow> Some (off, acc, c # cs)
      | Some d \<Rightarrow> let acc' = 16 * acc + d
          in if off > 3 then None else if acc' > 65535 then None else parse_group (off + 1) acc' cs)"

text \<open>The groups of an IPv6 address: the bytes so far, where \<open>::\<close> stood, and the text left.\<close>

function parse_groups :: "IP \<Rightarrow> nat option \<Rightarrow> string \<Rightarrow> (IP \<times> nat option \<times> string) option" where
  "parse_groups ip ellipsis s =
     (if length ip \<ge> 16 then Some (ip, ellipsis, s)
      else case parse_group 0 0 s of
        None \<Rightarrow> None
      | Some (off, acc, rest) \<Rightarrow>
          if off = 0 then None
          else if rest \<noteq> [] \<and> hd rest = CHR ''.'' then
            (if ellipsis = None \<and> length ip \<noteq> 12 then None
             else if length ip + 4 > 16 then None
             else map_option (\<lambda>f. (ip @ f, ellipsis, [])) (parseIPv4Fields None 0 0 [] s))
          else let ip' = ip @ [of_nat (acc div 256), of_nat acc]
            in case rest of
                 [] \<Rightarrow> Some (ip', ellipsis, [])
               | c # rest' \<Rightarrow>
                   if c \<noteq> CHR '':'' \<or> rest' = [] then None
                   else if hd rest' = CHR '':'' then
                     (if ellipsis \<noteq> None then None
                      else if tl rest' = [] then Some (ip', Some (length ip'), [])
                      else parse_groups ip' (Some (length ip')) (tl rest'))
                   else parse_groups ip' ellipsis rest')"
  by pat_completeness auto

termination by (relation "measure (\<lambda>(ip, e, s). 16 - length ip)") auto

declare parse_groups.simps [simp del]

definition parseIPv6 :: "string \<Rightarrow> IP option" where
  "parseIPv6 s =
     (let lead = (take 2 s = ''::''); s' = (if lead then drop 2 s else s)
      in if lead \<and> s' = [] then Some (replicate 16 0)
         else case parse_groups [] (if lead then Some 0 else None) s' of
           None \<Rightarrow> None
         | Some (ip, ellipsis, rest) \<Rightarrow>
             if rest \<noteq> [] then None
             else if length ip < 16 then
               map_option (\<lambda>e. take e ip @ replicate (16 - length ip) 0 @ drop e ip) ellipsis
             else if ellipsis \<noteq> None then None else Some ip)"

text \<open>An address with a zone is no \<open>net.IP\<close>.\<close>

definition ParseIP :: "string \<Rightarrow> IP option" where
  "ParseIP s = (case List.find (\<lambda>c. c = CHR ''.'' \<or> c = CHR '':'' \<or> c = CHR ''%'') s of
      None \<Rightarrow> None
    | Some c \<Rightarrow>
        if c = CHR ''.'' then map_option (\<lambda>f. v4InV6Prefix @ f) (parseIPv4Fields None 0 0 [] s)
        else if c = CHR '':'' then (if CHR ''%'' \<in> set s then None else parseIPv6 s)
        else None)"

section \<open>The text of an address\<close>

definition ip_char :: "char \<Rightarrow> bool" where
  "ip_char c \<longleftrightarrow> hex_digit c \<noteq> None \<or> c = CHR ''.'' \<or> c = CHR '':''"

lemma str_Join_all: "list_all (list_all P) xs \<Longrightarrow> P sep \<Longrightarrow> list_all P (str_Join sep xs)"
  by (induction sep xs rule: str_Join.induct) auto

lemma str_Join_Cons: "xs \<noteq> [] \<Longrightarrow> str_Join sep (x # xs) = x @ sep # str_Join sep xs"
  by (cases xs) auto

lemma nat_digits_hex: "list_all ip_char (nat_digits n)"
proof -
  have "is_digit c \<Longrightarrow> ip_char c" for c by (auto simp: is_digit_def ip_char_def hex_digit_def Let_def)
  with digits_value_nat_digits [of n] show ?thesis by (auto simp: list_all_iff)
qed

lemma nat_hex_digits: "list_all ip_char (nat_hex n) \<and> nat_hex n \<noteq> []"
proof (induction n rule: nat_hex.induct)
  case (1 n)
  have h: "d < 16 \<Longrightarrow> ip_char (hex_char d)" for d by (simp add: ip_char_def hex_digit_char)
  show ?case using 1 h by (cases "n < 16") (simp_all add: nat_hex.simps [of n])
qed

lemma IP_String_chars:
  assumes "length ip = 4 \<or> length ip = 16"
  shows "list_all ip_char (IP_String ip)"
proof -
  have sep: "ip_char (CHR ''.'')" "ip_char (CHR '':'')" by (simp_all add: ip_char_def)
  have j4: "list_all ip_char (IPv4_text p)" for p
    unfolding IPv4_text_def by (rule str_Join_all) (auto simp: list_all_iff [of "list_all ip_char"] nat_digits_hex sep)
  have j6: "list_all ip_char (str_Join (CHR '':'') (map nat_hex gs))" for gs
    by (rule str_Join_all) (auto simp: list_all_iff [of "list_all ip_char"] nat_hex_digits sep)
  show ?thesis using assms
    by (auto simp: IP_String_def IPv6_text_def Let_def j4 j6 sep split: option.splits)
qed

subsection \<open>Decimal form\<close>

lemma digit_byte: "d < 10 \<Longrightarrow> is_digit (digit_char d) \<and> byte_of (digit_char d) - 48 = d \<and> digit_char d \<noteq> CHR ''.''"
proof -
  assume d: "d < 10"
  then have "is_digit (digit_char d)" "byte_of (digit_char d) - 48 = d" by (simp_all add: is_digit_def digit_char_def byte_of_def)
  moreover have "\<not> is_digit (CHR ''.'')" by (simp add: is_digit_def)
  ultimately show ?thesis by auto
qed

lemma octet_digits:
  assumes "n < 256"
  obtains d where "n = d" "d < 10" "nat_digits n = [digit_char d]"
  | d e where "n = 10 * d + e" "0 < d" "d < 10" "e < 10" "nat_digits n = [digit_char d, digit_char e]"
  | d e f where "n = 100 * d + 10 * e + f" "0 < d" "d < 10" "e < 10" "f < 10"
      "nat_digits n = [digit_char d, digit_char e, digit_char f]"
proof -
  consider "n < 10" | "10 \<le> n" "n < 100" | "100 \<le> n" by linarith
  then show ?thesis
  proof cases
    case 1
    then show ?thesis using that(1) [of n] by (simp add: nat_digits.simps [of n])
  next
    case 2
    then have "n div 10 < 10" by linarith
    with 2 have "nat_digits n = [digit_char (n div 10), digit_char (n mod 10)]"
      by (simp add: nat_digits.simps [of n] nat_digits.simps [of "n div 10"])
    with 2 show ?thesis using that(2) [of "n div 10" "n mod 10"] by simp
  next
    case 3
    then have "\<not> n div 10 < 10" "n div 100 < 10" using assms by linarith+
    have hundred: "n div 10 div 10 = n div 100" using div_mult2_eq [of n 10 10] by simp
    have "nat_digits n = nat_digits (n div 10) @ [digit_char (n mod 10)]" using 3 by (simp add: nat_digits.simps [of n])
    also have "nat_digits (n div 10) = nat_digits (n div 100) @ [digit_char (n div 10 mod 10)]"
      by (subst nat_digits.simps) (simp only: \<open>\<not> n div 10 < 10\<close> if_False hundred)
    also have "nat_digits (n div 100) = [digit_char (n div 100)]"
      by (subst nat_digits.simps) (simp only: \<open>n div 100 < 10\<close> if_True)
    finally have "nat_digits n = [digit_char (n div 100), digit_char (n div 10 mod 10), digit_char (n mod 10)]" by simp
    moreover have "n = 100 * (n div 100) + 10 * (n div 10 mod 10) + n mod 10"
      using div_mult_mod_eq [of n 10] div_mult_mod_eq [of "n div 10" 10] hundred by linarith
    ultimately show ?thesis using that(3) [of "n div 100" "n div 10 mod 10" "n mod 10"] 3 assms by simp
  qed
qed

lemma parse_octet:
  assumes "n < 256"
  shows "\<exists>c. c \<noteq> CHR ''.'' \<and> (\<exists>k. parseIPv4Fields prev 0 0 fields (nat_digits n @ rest) = parseIPv4Fields (Some c) n k fields rest)"
  using octet_digits [OF assms]
proof cases
  case (1 d)
  then show ?thesis using digit_byte [of d] assms by (intro exI [of _ "digit_char d"]) (auto simp: Let_def)
next
  case (2 d e)
  then show ?thesis using digit_byte [of d] digit_byte [of e] assms by (intro exI [of _ "digit_char e"]) (auto simp: Let_def)
next
  case (3 d e f)
  then show ?thesis using digit_byte [of d] digit_byte [of e] digit_byte [of f] assms
    by (intro exI [of _ "digit_char f"]) (auto simp: Let_def)
qed

lemma parse_octet_dot:
  fixes b :: uint8
  assumes "length fields < 3" and "rest \<noteq> []"
  shows "parseIPv4Fields prev 0 0 fields (nat_digits (unat b) @ CHR ''.'' # rest)
    = parseIPv4Fields (Some (CHR ''.'')) 0 0 (fields @ [b]) rest"
proof -
  have "unat b < 256" using unsigned_less [where 'a = nat, of b] by simp
  from parse_octet [OF this, of prev fields "CHR ''.'' # rest"] obtain c k where "c \<noteq> CHR ''.''"
    and "parseIPv4Fields prev 0 0 fields (nat_digits (unat b) @ CHR ''.'' # rest) = parseIPv4Fields (Some c) (unat b) k fields (CHR ''.'' # rest)"
    by blast
  with assms show ?thesis by (simp add: is_digit_def)
qed

lemma parse_octet_end:
  "length fields = 3 \<Longrightarrow> parseIPv4Fields prev 0 0 fields (nat_digits (unat b)) = Some (fields @ [b])" for b :: uint8
proof -
  assume l: "length fields = 3"
  have "unat b < 256" using unsigned_less [where 'a = nat, of b] by simp
  from parse_octet [OF this, of prev fields "[]"] l show ?thesis by auto
qed

lemma parse_IPv4_text:
  assumes "length p = 4"
  shows "parseIPv4Fields None 0 0 [] (IPv4_text p) = Some p"
proof -
  from assms obtain a b c d where p: "p = [a, b, c, d]"
    by (auto simp: numeral_eq_Suc length_Suc_conv)
  have ne: "nat_digits n @ x \<noteq> []" "nat_digits n \<noteq> []" for n x using digits_value_nat_digits [of n] by simp_all
  show ?thesis by (simp add: p IPv4_text_def parse_octet_dot parse_octet_end ne)
qed

lemma IPv4_text_dot:
  assumes "length p = 4"
  shows "List.find (\<lambda>c. c = CHR ''.'' \<or> c = CHR '':'' \<or> c = CHR ''%'') (IPv4_text p) = Some (CHR ''.'')"
proof -
  from assms obtain a q where p: "p = a # q" "q \<noteq> []" by (cases p; cases "tl p") auto
  have f: "list_all is_digit ds \<Longrightarrow> List.find (\<lambda>c. c = CHR ''.'' \<or> c = CHR '':'' \<or> c = CHR ''%'') (ds @ CHR ''.'' # r) = Some (CHR ''.'')"
    for ds r by (induction ds) (auto simp: is_digit_def)
  from p show ?thesis using digits_value_nat_digits [of "unat a"]
    by (auto simp: IPv4_text_def str_Join_Cons intro!: f)
qed

lemma ParseIP_IPv4:
  assumes "To4 ip = Some p"
  shows "ParseIP (IP_String ip) = Some (To16 ip)"
proof -
  have l: "length p = 4" and t: "To16 ip = v4InV6Prefix @ p" and s: "IP_String ip = IPv4_text p"
    using assms by (auto simp: To4_def To16_def IP_String_def split: if_splits) (metis append_take_drop_id)
  show ?thesis by (simp add: ParseIP_def s IPv4_text_dot [OF l] parse_IPv4_text [OF l] t)
qed

subsection \<open>Hexadecimal form\<close>

definition hex_value :: "nat \<Rightarrow> string \<Rightarrow> nat" where
  "hex_value acc ds = foldl (\<lambda>a c. 16 * a + the (hex_digit c)) acc ds"

lemma hex_value_le: "acc \<le> hex_value acc ds"
  unfolding hex_value_def
proof (induction ds arbitrary: acc)
  case (Cons c ds)
  from Cons [of "16 * acc + the (hex_digit c)"] show ?case by simp
qed simp

lemma parse_group_digits:
  "list_all (\<lambda>c. hex_digit c \<noteq> None) ds \<Longrightarrow> off + length ds \<le> 4 \<Longrightarrow> hex_value acc ds \<le> 65535 \<Longrightarrow>
   parse_group off acc (ds @ rest) = parse_group (off + length ds) (hex_value acc ds) rest"
proof (induction ds arbitrary: off acc)
  case (Cons c ds)
  then obtain d where d: "hex_digit c = Some d" by auto
  have "16 * acc + d \<le> hex_value (16 * acc + d) ds" by (rule hex_value_le)
  moreover have "hex_value (16 * acc + d) ds = hex_value acc (c # ds)" by (simp add: hex_value_def d)
  ultimately show ?case using Cons d by (simp add: Let_def)
qed (simp add: hex_value_def)

lemma nat_hex_value:
  "hex_value 0 (nat_hex n) = n \<and> list_all (\<lambda>c. hex_digit c \<noteq> None) (nat_hex n)
   \<and> (\<forall>k. n < 16 ^ Suc k \<longrightarrow> length (nat_hex n) \<le> Suc k)"
proof (induction n rule: nat_hex.induct)
  case (1 n)
  show ?case
  proof (cases "n < 16")
    case True
    then show ?thesis by (simp add: nat_hex.simps [of n] hex_value_def hex_digit_char)
  next
    case False
    have "length (nat_hex (n div 16)) \<le> k" if "n < 16 ^ Suc k" for k
    proof (cases k)
      case 0
      with that False show ?thesis by simp
    next
      case (Suc j)
      with that have "n div 16 < 16 ^ Suc j" by (simp add: less_mult_imp_div_less mult.commute)
      with 1 False Suc show ?thesis by blast
    qed
    with 1 False show ?thesis by (simp add: nat_hex.simps [of n] hex_value_def hex_digit_char)
  qed
qed

lemma parse_group_hex:
  assumes "g < 65536" and "rest = [] \<or> hex_digit (hd rest) = None"
  shows "\<exists>k>0. parse_group 0 0 (nat_hex g @ rest) = Some (k, g, rest)"
proof -
  have "g < 16 ^ Suc 3" using assms(1) by simp
  with nat_hex_value [of g] have "length (nat_hex g) \<le> 4" by fastforce
  moreover have "parse_group (0 + length (nat_hex g)) g rest = Some (0 + length (nat_hex g), g, rest)"
    using assms(2) by (cases rest) auto
  ultimately show ?thesis using nat_hex_value [of g] nat_hex_digits [of g] assms(1) parse_group_digits [of "nat_hex g" 0 0 rest]
    by (intro exI [of _ "length (nat_hex g)"]) auto
qed

definition group_bytes :: "nat \<Rightarrow> IP" where
  "group_bytes g = [of_nat (g div 256), of_nat g]"

lemma group_bytes_len [simp]: "length (group_bytes g) = 2"
  by (simp add: group_bytes_def)

lemma parse_groups_last:
  assumes "length ip < 16" and "g < 65536"
  shows "parse_groups ip e (nat_hex g) = Some (ip @ group_bytes g, e, [])"
  using parse_group_hex [OF assms(2), of "[]"] assms
  by (auto simp: parse_groups.simps [of ip] group_bytes_def Let_def)

lemma colon_no_digit: "hex_digit (CHR '':'') = None" "hex_digit (CHR ''.'') = None" "hex_digit (CHR ''%'') = None"
  by (simp_all add: hex_digit_def Let_def)

lemma parse_groups_colon:
  assumes "length ip < 16" and "g < 65536" and "r \<noteq> []" and "hd r \<noteq> CHR '':''"
  shows "parse_groups ip e (nat_hex g @ CHR '':'' # r) = parse_groups (ip @ group_bytes g) e r"
  using parse_group_hex [OF assms(2), of "CHR '':'' # r"] assms
  by (auto simp: parse_groups.simps [of ip] group_bytes_def Let_def colon_no_digit)

lemma parse_groups_ellipsis:
  assumes "length ip < 16" and "g < 65536"
  shows "parse_groups ip None (nat_hex g @ CHR '':'' # CHR '':'' # r)
    = (if r = [] then Some (ip @ group_bytes g, Some (length ip + 2), [])
       else parse_groups (ip @ group_bytes g) (Some (length ip + 2)) r)"
  using parse_group_hex [OF assms(2), of "CHR '':'' # CHR '':'' # r"] assms
  by (auto simp: parse_groups.simps [of ip] group_bytes_def Let_def colon_no_digit)

abbreviation hex_groups :: "nat list \<Rightarrow> string" where
  "hex_groups gs \<equiv> str_Join (CHR '':'') (map nat_hex gs)"

lemma hd_hex_groups: "gs \<noteq> [] \<Longrightarrow> hex_groups gs \<noteq> [] \<and> hex_digit (hd (hex_groups gs)) \<noteq> None"
proof -
  assume "gs \<noteq> []"
  then obtain g hs where gs: "gs = g # hs" by (cases gs) auto
  have "nat_hex g \<noteq> []" "hex_digit (hd (nat_hex g)) \<noteq> None"
    using nat_hex_digits [of g] nat_hex_value [of g] by (cases "nat_hex g"; auto)+
  with gs show ?thesis by (cases hs) auto
qed

lemma parse_hex_groups:
  "gs \<noteq> [] \<Longrightarrow> length ip + 2 * length gs \<le> 16 \<Longrightarrow> \<forall>g\<in>set gs. g < 65536 \<Longrightarrow>
   parse_groups ip e (hex_groups gs) = Some (ip @ concat (map group_bytes gs), e, [])"
proof (induction gs arbitrary: ip)
  case (Cons g gs)
  show ?case
  proof (cases "gs = []")
    case True
    with Cons show ?thesis by (simp add: parse_groups_last)
  next
    case False
    have "hd (hex_groups gs) \<noteq> CHR '':''" using hd_hex_groups [OF False] colon_no_digit by auto
    with False Cons hd_hex_groups [OF False] show ?thesis
      by (simp add: str_Join_Cons parse_groups_colon group_bytes_def)
  qed
qed simp

lemma parse_hex_ellipsis:
  "gs \<noteq> [] \<Longrightarrow> length ip + 2 * (length gs + length hs) \<le> 16 \<Longrightarrow> \<forall>g\<in>set gs \<union> set hs. g < 65536 \<Longrightarrow>
   parse_groups ip None (hex_groups gs @ ''::'' @ hex_groups hs)
   = Some (ip @ concat (map group_bytes (gs @ hs)), Some (length ip + 2 * length gs), [])"
proof (induction gs arbitrary: ip)
  case (Cons g gs)
  show ?case
  proof (cases "gs = []")
    case True
    have "hex_groups hs = [] \<longleftrightarrow> hs = []" using hd_hex_groups [of hs] by auto
    with True Cons show ?thesis
      by (cases "hs = []") (simp_all add: parse_groups_ellipsis parse_hex_groups group_bytes_len)
  next
    case False
    have "hd (hex_groups gs) \<noteq> CHR '':''" "hex_groups gs \<noteq> []" using hd_hex_groups [OF False] colon_no_digit by auto
    then have "parse_groups ip None (nat_hex g @ CHR '':'' # (hex_groups gs @ ''::'' @ hex_groups hs))
      = parse_groups (ip @ group_bytes g) None (hex_groups gs @ ''::'' @ hex_groups hs)"
      using Cons.prems by (intro parse_groups_colon) auto
    with False Cons show ?thesis by (simp add: str_Join_Cons group_bytes_def)
  qed
qed simp

lemma longest_zeros_ok:
  assumes "longest_zeros gs = Some (s, e)"
  shows "s + 2 \<le> e \<and> e \<le> length gs \<and> take (e - s) (drop s gs) = replicate (e - s) 0"
proof -
  let ?ok = "\<lambda>best. \<forall>s e. best = Some (s, e) \<longrightarrow> s + 2 \<le> e \<and> e \<le> length gs \<and> take (e - s) (drop s gs) = replicate (e - s) (0 :: nat)"
  have run: "take (zero_run gs i) (drop i gs) = replicate (zero_run gs i) 0" "zero_run gs i \<le> length gs - i" for i
  proof -
    have "take (zero_run gs i) (drop i gs) = takeWhile (\<lambda>g. g = 0) (drop i gs)"
      by (simp add: zero_run_def takeWhile_eq_take [symmetric])
    also have "\<dots> = replicate (zero_run gs i) 0"
      unfolding zero_run_def by (rule replicate_eqI [symmetric, THEN sym]) (auto dest: set_takeWhileD)
    finally show "take (zero_run gs i) (drop i gs) = replicate (zero_run gs i) 0" .
    show "zero_run gs i \<le> length gs - i" unfolding zero_run_def by (metis length_drop length_takeWhile_le)
  qed
  have "?ok (fold (\<lambda>i best. let l = zero_run gs i; now = (case best of None \<Rightarrow> 0 | Some (s, e) \<Rightarrow> e - s)
      in if 2 \<le> l \<and> now < l then Some (i, i + l) else best) is best)" if "?ok best" for "is" best
    using that
  proof (induction "is" arbitrary: best)
    case (Cons i js)
    show ?case unfolding fold_Cons o_apply
      by (rule Cons.IH) (use Cons.prems run [of i] in \<open>auto simp: Let_def\<close>)
  qed simp
  from this [of None "[0..<length gs]"] assms show ?thesis by (simp add: longest_zeros_def)
qed

lemma ip_groups_bytes:
  "even (length ip) \<Longrightarrow> concat (map group_bytes (ip_groups ip)) = ip \<and> 2 * length (ip_groups ip) = length ip
    \<and> (\<forall>g\<in>set (ip_groups ip). g < 65536)"
proof (induction ip rule: ip_groups.induct)
  case (1 a b bs)
  have "unat a < 256" "unat b < 256" using unsigned_less [where 'a = nat, of a] unsigned_less [where 'a = nat, of b] by simp_all
  moreover have "(of_nat (256 * unat a + unat b) :: uint8) = b"
  proof -
    have z: "(256 :: uint8) = 0" by simp
    have "(of_nat (256 * unat a) :: uint8) = 256 * a" by simp
    also have "\<dots> = 0" by (simp only: z mult_zero_left)
    finally show ?thesis by (simp only: of_nat_add) simp
  qed
  ultimately show ?case using 1 by (simp add: group_bytes_def del: of_nat_add of_nat_mult)
qed auto

lemma ParseIP_IPv6:
  assumes l: "length ip = 16" and n: "To4 ip = None"
  shows "ParseIP (IP_String ip) = Some ip"
proof -
  define gs where "gs = ip_groups ip"
  have g: "concat (map group_bytes gs) = ip" "length gs = 8" "\<forall>g\<in>set gs. g < 65536"
    using ip_groups_bytes [of ip] l by (auto simp: gs_def)
  have s: "IP_String ip = IPv6_text ip" using l n by (auto simp: IP_String_def)
  have p: "parseIPv6 (IPv6_text ip) = Some ip"
  proof (cases "longest_zeros gs")
    case None
    then have t: "IPv6_text ip = hex_groups gs" by (simp add: IPv6_text_def gs_def Let_def)
    have "gs \<noteq> []" using g(2) by auto
    then have "take 2 (hex_groups gs) \<noteq> ''::''" using hd_hex_groups [of gs] colon_no_digit by (cases "hex_groups gs") auto
    moreover have "parse_groups [] None (hex_groups gs) = Some (ip, None, [])"
      using parse_hex_groups [OF \<open>gs \<noteq> []\<close>, of "[]" None] g by simp
    ultimately show ?thesis using l by (simp add: t parseIPv6_def)
  next
    case (Some se)
    then obtain b e where be: "longest_zeros gs = Some (b, e)" by (cases se) auto
    then have t: "IPv6_text ip = hex_groups (take b gs) @ ''::'' @ hex_groups (drop e gs)" by (simp add: IPv6_text_def gs_def Let_def)
    from longest_zeros_ok [OF be] g(2) have z: "b + 2 \<le> e" "e \<le> 8" "take (e - b) (drop b gs) = replicate (e - b) 0" by auto
    have gs: "gs = take b gs @ replicate (e - b) 0 @ drop e gs"
      using z by (metis append_assoc append_take_drop_id drop_drop le_add1 le_add_diff_inverse2 le_trans)
    have rep: "concat (replicate k (group_bytes 0)) = replicate (2 * k) 0" for k
      by (induction k) (auto simp: group_bytes_def)
    have ip: "ip = concat (map group_bytes (take b gs)) @ replicate (2 * (e - b)) 0 @ concat (map group_bytes (drop e gs))"
      using g(1) by (subst (asm) gs) (simp add: rep [symmetric])
    have len: "length (concat (map group_bytes xs)) = 2 * length xs" for xs by (induction xs) (auto simp: group_bytes_def)
    have small: "\<forall>g\<in>set (take b gs) \<union> set (drop e gs). g < 65536" using g(3) by (auto dest: in_set_takeD in_set_dropD)
    show ?thesis
    proof (cases "b = 0")
      case True
      show ?thesis
      proof (cases "drop e gs = []")
        case True
        with \<open>b = 0\<close> z g(2) show ?thesis by (subst ip) (simp add: t parseIPv6_def)
      next
        case False
        have "length (drop e gs) = 8 - e" using g(2) by simp
        with False \<open>b = 0\<close> z hd_hex_groups [OF False] small show ?thesis
          by (subst ip) (simp add: t parseIPv6_def parse_hex_groups len)
      qed
    next
      case False
      then have ne: "take b gs \<noteq> []" using g(2) by auto
      have nl: "take 2 (hex_groups (take b gs) @ ''::'' @ hex_groups (drop e gs)) \<noteq> ''::''"
        using hd_hex_groups [OF ne] colon_no_digit by (cases "hex_groups (take b gs)") auto
      have "parse_groups [] None (hex_groups (take b gs) @ ''::'' @ hex_groups (drop e gs))
        = Some (concat (map group_bytes (take b gs)) @ concat (map group_bytes (drop e gs)), Some (2 * b), [])"
        using parse_hex_ellipsis [OF ne, of "[]" "drop e gs"] small g(2) z by simp
      then have "parseIPv6 (IPv6_text ip) = (let out = concat (map group_bytes (take b gs)) @ concat (map group_bytes (drop e gs))
          in if length out < 16 then Some (take (2 * b) out @ replicate (16 - length out) 0 @ drop (2 * b) out) else None)"
        unfolding t parseIPv6_def Let_def by (simp only: nl if_False simp_thms option.case prod.case) simp
      moreover have "2 * b + 2 * (8 - e) < 16" "16 - (2 * b + 2 * (8 - e)) = 2 * (e - b)" using z by linarith+
      ultimately show ?thesis using z g(2) by (subst (2) ip) (simp add: len Let_def)
    qed
  qed
  have hx: "list_all (\<lambda>c. hex_digit c \<noteq> None \<or> c = CHR '':'') (hex_groups xs)" for xs
    by (rule str_Join_all) (use nat_hex_value in \<open>auto simp: list_all_iff\<close>)
  have ch: "list_all (\<lambda>c. hex_digit c \<noteq> None \<or> c = CHR '':'') (IPv6_text ip)"
    using hx by (auto simp: IPv6_text_def Let_def split: option.splits)
  have two: "length xs \<ge> 2 \<Longrightarrow> CHR '':'' \<in> set (hex_groups xs)" for xs
    by (cases xs; cases "tl xs") auto
  have co: "CHR '':'' \<in> set (IPv6_text ip)"
    using g(2) two [of gs] by (auto simp: IPv6_text_def Let_def gs_def [symmetric] split: option.splits)
  have f: "list_all (\<lambda>c. hex_digit c \<noteq> None \<or> c = CHR '':'') t \<Longrightarrow> CHR '':'' \<in> set t \<Longrightarrow>
    List.find (\<lambda>c. c = CHR ''.'' \<or> c = CHR '':'' \<or> c = CHR ''%'') t = Some (CHR '':'')" for t
    by (induction t) (auto simp: colon_no_digit)
  have "CHR ''%'' \<notin> set (IPv6_text ip)" using ch colon_no_digit by (auto simp: list_all_iff)
  with f [OF ch co] p show ?thesis by (simp add: ParseIP_def s)
qed

text \<open>Every address reads back from its text, in the form of sixteen bytes.\<close>

lemma ParseIP_IP_String:
  assumes "length ip = 4 \<or> length ip = 16"
  shows "ParseIP (IP_String ip) = Some (To16 ip)"
proof (cases "To4 ip")
  case None
  with assms have "length ip = 16" by (auto simp: To4_def split: if_splits)
  with None show ?thesis by (simp add: ParseIP_IPv6 To16_def)
next
  case (Some p)
  then show ?thesis by (rule ParseIP_IPv4)
qed

text \<open>What is read has sixteen bytes.\<close>

lemma parseIPv4Fields_length:
  "parseIPv4Fields prev val k fields s = Some f \<Longrightarrow> length fields \<le> 3 \<Longrightarrow> length f = 4"
  by (induction prev val k fields s rule: parseIPv4Fields.induct) (auto simp: Let_def split: if_splits)

lemma parse_groups_length:
  "parse_groups ip e s = Some (ip', e', s') \<Longrightarrow> even (length ip) \<Longrightarrow> length ip \<le> 16 \<Longrightarrow> (\<forall>x. e = Some x \<longrightarrow> x \<le> length ip) \<Longrightarrow>
   even (length ip') \<and> length ip' \<le> 16 \<and> (\<forall>x. e' = Some x \<longrightarrow> x \<le> length ip')"
proof (induction "16 - length ip" arbitrary: ip e s rule: less_induct)
  case (less ip e s)
  show ?case
  proof (cases "length ip < 16")
    case False
    with less.prems show ?thesis by (simp add: parse_groups.simps [of ip])
  next
    case True
    with \<open>even (length ip)\<close> have l: "length ip \<le> 14" by presburger
    show ?thesis
    proof (cases "parse_group 0 0 s")
      case None
      with less.prems(1) True show ?thesis by (simp add: parse_groups.simps [of ip])
    next
      case (Some r)
      obtain off acc rest where r: "parse_group 0 0 s = Some (off, acc, rest)" using Some by (cases r) auto
      define ip1 where "ip1 = ip @ [of_nat (acc div 256), of_nat acc :: uint8]"
      have ip1: "even (length ip1)" "length ip1 \<le> 16" using less.prems(2) l by (simp_all add: ip1_def)
      have off: "off \<noteq> 0" using less.prems(1) True r by (cases "off = 0") (simp_all add: parse_groups.simps [of ip])
      show ?thesis
      proof (cases "rest \<noteq> [] \<and> hd rest = CHR ''.''")
        case t: True
        with less.prems(1) True r off obtain f where "parseIPv4Fields None 0 0 [] s = Some f" "ip' = ip @ f" "e' = e" "length ip + 4 \<le> 16"
          by (auto simp: parse_groups.simps [of ip] split: if_splits)
        with parseIPv4Fields_length [of None 0 0 "[]" s f] less.prems(2,4) show ?thesis by auto
      next
        case f: False
        show ?thesis
        proof (cases rest)
          case Nil
          with less.prems(1,4) True r off ip1 show ?thesis by (auto simp: parse_groups.simps [of ip] ip1_def Let_def)
        next
          case (Cons c rest')
          have c: "c = CHR '':''" "rest' \<noteq> []" using less.prems(1) True r off f Cons by (auto simp: parse_groups.simps [of ip] Let_def split: if_splits)
          show ?thesis
          proof (cases "hd rest' = CHR '':''")
            case True
            then have e: "e = None" using less.prems(1) \<open>length ip < 16\<close> r off f Cons c by (auto simp: parse_groups.simps [of ip] Let_def split: if_splits)
            show ?thesis
            proof (cases "tl rest' = []")
              case True
              with less.prems(1) \<open>length ip < 16\<close> r off f Cons c \<open>hd rest' = _\<close> e ip1 show ?thesis
                by (auto simp: parse_groups.simps [of ip] ip1_def Let_def)
            next
              case False
              with less.prems(1) \<open>length ip < 16\<close> r off f Cons c \<open>hd rest' = _\<close> e
              have p: "parse_groups ip1 (Some (length ip1)) (tl rest') = Some (ip', e', s')"
                by (simp add: parse_groups.simps [of ip] ip1_def Let_def)
              show ?thesis
                by (rule less.hyps [OF _ p]) (use ip1 \<open>length ip < 16\<close> in \<open>auto simp: ip1_def\<close>)
            qed
          next
            case False
            with less.prems(1) \<open>length ip < 16\<close> r off f Cons c have p: "parse_groups ip1 e rest' = Some (ip', e', s')"
              by (simp add: parse_groups.simps [of ip] ip1_def Let_def)
            show ?thesis
              by (rule less.hyps [OF _ p]) (use ip1 \<open>length ip < 16\<close> less.prems(4) in \<open>auto simp: ip1_def\<close>)
          qed
        qed
      qed
    qed
  qed
qed

lemma ParseIP_length: "ParseIP s = Some ip \<Longrightarrow> length ip = 16"
proof -
  assume p: "ParseIP s = Some ip"
  have v6: "length ip = 16" if "parseIPv6 s = Some ip"
  proof -
    define lead where "lead \<longleftrightarrow> take 2 s = ''::''"
    show ?thesis
    proof (cases "lead \<and> (if lead then drop 2 s else s) = []")
      case True
      with that show ?thesis by (auto simp: parseIPv6_def lead_def Let_def)
    next
      case False
      with that obtain ip1 e1 where g: "parse_groups [] (if lead then Some 0 else None) (if lead then drop 2 s else s) = Some (ip1, e1, [])"
        and r: "if length ip1 < 16 then map_option (\<lambda>e. take e ip1 @ replicate (16 - length ip1) 0 @ drop e ip1) e1 = Some ip
          else e1 = None \<and> ip1 = ip"
        by (auto simp: parseIPv6_def lead_def [symmetric] Let_def split: option.splits if_splits prod.splits)
      from parse_groups_length [OF g] have "length ip1 \<le> 16" "\<forall>x. e1 = Some x \<longrightarrow> x \<le> length ip1" by auto
      with r show ?thesis by (cases "length ip1 < 16") (auto)
    qed
  qed
  show ?thesis using p v6 parseIPv4Fields_length [of None 0 0 "[]" s]
    by (auto simp: ParseIP_def v4InV6Prefix_def split: option.splits if_splits)
qed

end
