(* ===== verification/Domains.thy ===== *)
theory Domains
  imports GoText
begin

text \<open>
  The names the launcher maps to the server (\<open>common/domain.go\<close>).  Some names carry a release number; how many
  releases there are is asked of public name servers (\<open>DirectHostToIP\<close>), whose answers are the argument
  \<open>resolves\<close>.  The loop over the releases ends only when a name does not resolve, so it is a partial function.
\<close>

section \<open>Names\<close>

definition apiWorldsEdge :: string where "apiWorldsEdge = ''-api.worldsedgelink.com''"
definition relicDomain :: string where "relicDomain = ''aoe-api.reliclink.com''"
definition playFabSuffix :: string where "playFabSuffix = ''.playfabapi.com''"
definition CdnAgeOfEmpires :: string where "CdnAgeOfEmpires = ''cdn.ageofempires.com''"
definition ApiAgeOfEmpires :: string where "ApiAgeOfEmpires = ''api.ageofempires.com''"
definition Aoe4ApiAgeOfEmpires :: string where "Aoe4ApiAgeOfEmpires = ''api-dr.ageofempires.com''"
definition aoe2MacWorldsEdgeDomain :: string where "aoe2MacWorldsEdgeDomain = ''arthurlive'' @ apiWorldsEdge"

definition SelfSignedCertDomains :: "string list" where
  "SelfSignedCertDomains = [relicDomain, ''*.worldsedgelink.com'', ''*.ageofempires.com'']"

definition CertDomains :: "string list" where
  "CertDomains = (''*'' @ playFabSuffix) # SelfSignedCertDomains"

definition SelfSignedCertGame :: "string \<Rightarrow> bool" where
  "SelfSignedCertGame game \<longleftrightarrow> game \<noteq> AoE4 \<and> game \<noteq> AoM"

lemmas domain_names = apiWorldsEdge_def relicDomain_def playFabSuffix_def CdnAgeOfEmpires_def ApiAgeOfEmpires_def
  Aoe4ApiAgeOfEmpires_def aoe2MacWorldsEdgeDomain_def SelfSignedCertDomains_def

section \<open>Release names\<close>

text \<open>The second loop of \<open>generateDomains\<close>, from one release on.\<close>

partial_function (option) releases_from :: "(string \<Rightarrow> bool) \<Rightarrow> (nat \<Rightarrow> string) \<Rightarrow> nat \<Rightarrow> string list \<Rightarrow> string list option" where
  "releases_from resolves name release domains =
     (if resolves (name release) then releases_from resolves name (release + 1) (domains @ [name release])
      else Some domains)"

text \<open>Prefix, number of releases known, and the text before the release number.\<close>

definition release_scheme :: "string \<Rightarrow> (string \<times> nat \<times> string) option" where
  "release_scheme gameId =
     (if gameId = AoE2 then Some (''pb'', 2, ''-live-release'')
      else if gameId = AoE4 then Some (''dr'', 2, ''-activerelease'')
      else if gameId = AoM then Some (''andromeda'', 20, ''-live-release'')
      else None)"

definition release_name :: "string \<Rightarrow> string \<Rightarrow> nat \<Rightarrow> string" where
  "release_name prefix part release = prefix @ part @ itoa (int release) @ apiWorldsEdge"

type_synonym DomainsCache = "(string \<times> string list) list"

definition generateDomains :: "(string \<Rightarrow> bool) \<Rightarrow> string \<Rightarrow> DomainsCache \<Rightarrow> (string list \<times> DomainsCache) option" where
  "generateDomains resolves gameId generatedDomainsCache =
     (case map_of generatedDomainsCache gameId of
        Some cache \<Rightarrow> Some (cache, generatedDomainsCache)
      | None \<Rightarrow>
          (case release_scheme gameId of
             None \<Rightarrow> Some ([], generatedDomainsCache)
           | Some (prefix, releaseMin, part) \<Rightarrow>
               map_option (\<lambda>domains. (domains, AList.update gameId domains generatedDomainsCache))
                 (releases_from resolves (release_name prefix part) (releaseMin + 1)
                    (map (release_name prefix part) [1..<releaseMin + 1]))))"

section \<open>The hosts of a game\<close>

text \<open>
  \<open>GameHosts\<close>: for Age of Empires IV the case adds two names and then falls through to the case that assigns the list anew.
\<close>

definition GameHosts_cases :: "string \<Rightarrow> string list" where
  "GameHosts_cases gameId =
     (let domains = (if gameId = AoE4 then map (\<lambda>i. ''aoeliverelease'' @ itoa (int i) @ apiWorldsEdge) [1..<3] else []);
          domains = (if gameId \<in> {AoE4, AoE1, AoE2, AoE3} then [relicDomain, ''aoe-api.worldsedgelink.com''] else domains)
      in if gameId = AoM then [''athens-live'' @ apiWorldsEdge] else domains)"

definition GameHosts :: "(string \<Rightarrow> bool) \<Rightarrow> string \<Rightarrow> bool \<Rightarrow> DomainsCache \<Rightarrow> (string list \<times> DomainsCache) option" where
  "GameHosts resolves gameId withMacOsExclusive cache =
     (let domains = GameHosts_cases gameId;
          domains = (if gameId = AoE2 \<and> withMacOsExclusive then domains @ [aoe2MacWorldsEdgeDomain] else domains)
      in map_option (\<lambda>(generated, cache'). (domains @ generated, cache')) (generateDomains resolves gameId cache))"

definition AllHosts :: "(string \<Rightarrow> bool) \<Rightarrow> string \<Rightarrow> bool \<Rightarrow> DomainsCache \<Rightarrow> (string list \<times> DomainsCache) option" where
  "AllHosts resolves gameId withMacOsExclusive cache =
     map_option (\<lambda>(domains, cache').
       (domains
          @ (if gameId = AoM then [''c15f9'' @ playFabSuffix] else if gameId = AoE4 then [''ed603'' @ playFabSuffix] else [])
          @ [CdnAgeOfEmpires]
          @ [if gameId = AoE4 then Aoe4ApiAgeOfEmpires else ApiAgeOfEmpires],
        cache'))
       (GameHosts resolves gameId withMacOsExclusive cache)"

section \<open>The loop over the releases\<close>

lemma releases_from_stops:
  "\<not> resolves (name (release + n)) \<Longrightarrow> \<forall>i<n. resolves (name (release + i)) \<Longrightarrow>
   releases_from resolves name release domains = Some (domains @ map name [release..<release + n])"
proof (induction n arbitrary: release domains)
  case 0
  then show ?case by (simp add: releases_from.simps)
next
  case (Suc n)
  from Suc.prems(2) have "resolves (name release)" by fastforce
  then have "releases_from resolves name release domains = releases_from resolves name (release + 1) (domains @ [name release])"
    by (simp add: releases_from.simps [of _ _ release])
  also have "\<dots> = Some ((domains @ [name release]) @ map name [release + 1..<release + 1 + n])"
  proof (rule Suc.IH)
    show "\<not> resolves (name (release + 1 + n))" using Suc.prems(1) by simp
    show "\<forall>i<n. resolves (name (release + 1 + i))" using Suc.prems(2) by (metis Suc_less_eq add.assoc plus_1_eq_Suc)
  qed
  finally show ?case by (simp add: upt_conv_Cons del: upt_Suc)
qed

lemma releases_from_some:
  "releases_from resolves name release domains = Some r \<Longrightarrow>
   \<exists>n. r = domains @ map name [release..<release + n] \<and> (\<forall>i<n. resolves (name (release + i))) \<and> \<not> resolves (name (release + n))"
proof (induction rule: releases_from.raw_induct [rotated 1, consumes 1])
  case (1 releases_from resolves name release domains r)
  show ?case
  proof (cases "resolves (name release)")
    case True
    with 1(2) have "releases_from resolves name (release + 1) (domains @ [name release]) = Some r" by simp
    from 1(1) [OF this] obtain n where r: "r = (domains @ [name release]) @ map name [release + 1..<release + 1 + n]"
      and a: "\<forall>i<n. resolves (name (release + 1 + i))" and s: "\<not> resolves (name (release + 1 + n))" by blast
    show ?thesis
    proof (intro exI [of _ "Suc n"] conjI allI impI)
      show "r = domains @ map name [release..<release + Suc n]" using r by (simp add: upt_conv_Cons del: upt_Suc)
      show "resolves (name (release + i))" if "i < Suc n" for i
        using that a True by (cases i) auto
      show "\<not> resolves (name (release + Suc n))" using s by simp
    qed
  next
    case False
    with 1(2) show ?thesis by (intro exI [of _ 0]) simp
  qed
qed

text \<open>The loop ends exactly if some release from the first one on does not resolve.\<close>

lemma releases_from_returns:
  "(\<exists>r. releases_from resolves name release domains = Some r) \<longleftrightarrow> (\<exists>n. \<not> resolves (name (release + n)))"
proof
  assume "\<exists>n. \<not> resolves (name (release + n))"
  then have l: "\<not> resolves (name (release + (LEAST n. \<not> resolves (name (release + n)))))" by (rule LeastI_ex)
  have "\<forall>i<(LEAST n. \<not> resolves (name (release + n))). resolves (name (release + i))" by (auto dest: not_less_Least)
  from releases_from_stops [OF l this] show "\<exists>r. releases_from resolves name release domains = Some r" by blast
qed (use releases_from_some in blast)

text \<open>The two names added for Age of Empires IV never reach the list.\<close>

lemma GameHosts_AoE4_loses_names:
  "GameHosts_cases AoE4 = GameHosts_cases AoE1"
  by (simp add: GameHosts_cases_def titles)

text \<open>Without an answer of the name servers, the hosts of a game are a fixed list.\<close>

lemma AllHosts_offline:
  "AllHosts (\<lambda>_. False) AoE1 mac [] = Some ([relicDomain, ''aoe-api.worldsedgelink.com'', CdnAgeOfEmpires, ApiAgeOfEmpires], [])"
  by (simp add: AllHosts_def GameHosts_def GameHosts_cases_def generateDomains_def release_scheme_def titles)

end
