(* ===== verification/Hosts.thy ===== *)
theory Hosts
  imports NetIP Domains
begin

text \<open>
  The hosts file (\<open>common/hosts\<close>): how a line is read and printed (\<open>line.go\<close>, \<open>parser*.go\<close>), how the file is
  decoded (\<open>text\<close>), and which lines are kept when mappings are added (\<open>mappings.go\<close>, \<open>missingIpMappings\<close>).  Text is
  UTF-8.  Internationalised names are converted by \<open>golang.org/x/net/idna\<close>, and files that are not UTF-8 by
  \<open>golang.org/x/text\<close>: both are fields of the environment.
\<close>

section \<open>The environment\<close>

datatype goos = Windows | Darwin | Linux

record HostsEnv =
  env_os :: goos
  env_ToUnicode :: "string \<Rightarrow> string option"
  env_ToASCII :: "string \<Rightarrow> string"
  env_decode :: "nat \<Rightarrow> string \<Rightarrow> string option"
  env_encode :: "nat \<Rightarrow> string \<Rightarrow> string option"
  env_Hostname :: "string option"
  env_windir :: string

definition maxHostsPerLine :: "goos \<Rightarrow> int" where
  "maxHostsPerLine os = (if os = Windows then 9 else 2 ^ 63 - 1)"

definition maxCharsPerLine :: "goos \<Rightarrow> int" where
  "maxCharsPerLine os = (if os = Windows then 2 ^ 63 - 1 else 256)"

definition WindowsLineEnding :: string where "WindowsLineEnding = [CHR 0x0D, CHR 0x0A]"

definition LineEnding :: "goos \<Rightarrow> string" where
  "LineEnding os = (if os = Windows then WindowsLineEnding else [CHR 0x0A])"

definition hosts_Path :: "HostsEnv \<Rightarrow> string" where
  "hosts_Path e = (if env_os e = Windows then env_windir e @ [CHR 0x5C] @ ''System32'' @ [CHR 0x5C] @ ''drivers'' @ [CHR 0x5C] @ ''etc'' @ [CHR 0x5C] @ ''hosts''
     else ''/etc/hosts'')"

definition backup_Path :: "HostsEnv \<Rightarrow> string" where
  "backup_Path e = hosts_Path e @ ''.bak''"

section \<open>Lines\<close>

definition commentMarker :: char where "commentMarker = CHR ''#''"

definition marking :: string where "marking = ''ageLANServer''"

record Line =
  line_ip :: "IP option"
  line_hosts :: "string list"
  line_comments :: "string list"

definition OnlyComments :: "Line \<Rightarrow> bool" where
  "OnlyComments l \<longleftrightarrow> line_ip l = None \<and> line_hosts l = []"

definition hasOwnMarking :: "Line \<Rightarrow> bool" where
  "hasOwnMarking l \<longleftrightarrow> line_comments l \<noteq> [] \<and> last (line_comments l) = marking"

definition Line_String :: "HostsEnv \<Rightarrow> Line \<Rightarrow> string" where
  "Line_String e l =
     (let sb = (case line_ip l of
          None \<Rightarrow> []
        | Some ip \<Rightarrow> IP_String ip @ [CHR 0x09] @ str_Join (CHR '' '') (map (env_ToASCII e) (line_hosts l)))
      in if line_comments l = [] then sb
         else sb @ (if sb \<noteq> [] then '' '' else []) @ [commentMarker] @ str_Join commentMarker (line_comments l))"

definition WithoutOwnMarking :: "Line \<Rightarrow> Line" where
  "WithoutOwnMarking l = (if hasOwnMarking l then l\<lparr>line_comments := butlast (line_comments l)\<rparr> else l)"

definition WithOwnMarking :: "Line \<Rightarrow> Line" where
  "WithOwnMarking l = (if hasOwnMarking l then l else l\<lparr>line_comments := line_comments l @ [marking]\<rparr>)"

text \<open>The first comment is taken without looking whether there is one.\<close>

definition Uncommented :: "HostsEnv \<Rightarrow> Line \<Rightarrow> string outcome" where
  "Uncommented e l =
     (if \<not> OnlyComments l then Ret (Line_String e l)
      else case line_comments l of
        [] \<Rightarrow> Panic
      | c # cs \<Rightarrow> Ret (c @ (if cs = [] then [] else commentMarker # str_Join commentMarker cs)))"

section \<open>Parsing a line\<close>

definition parseHost :: "HostsEnv \<Rightarrow> string \<Rightarrow> string option" where
  "parseHost e host = (case env_ToUnicode e host of
      None \<Rightarrow> None
    | Some decoded \<Rightarrow> if ParseIP decoded = None then Some decoded else None)"

text \<open>On macOS a comment starts at the beginning of the line or behind a space only.\<close>

function split_darwin :: "bool \<Rightarrow> string \<Rightarrow> string \<Rightarrow> string list" where
  "split_darwin prevWasSpace front [] = [front]"
| "split_darwin prevWasSpace front (c # cs) =
     (if c = commentMarker \<and> prevWasSpace then [front, cs]
      else let n = space_len (c # cs)
        in if n = 0 then split_darwin False (front @ [c]) cs
           else split_darwin True (front @ take n (c # cs)) (drop (n - 1) cs))"
  by pat_completeness auto

termination by (relation "measure (\<lambda>(p, b, s). length s)") (auto simp: Let_def)

definition splitLine_darwin :: "string \<Rightarrow> string list" where
  "splitLine_darwin line = (if line \<noteq> [] \<and> hd line = commentMarker then [[], tl line] else split_darwin False [] line)"

definition splitLine_other :: "string \<Rightarrow> string list" where
  "splitLine_other line = str_SplitN2 commentMarker line"

definition splitLine :: "HostsEnv \<Rightarrow> string \<Rightarrow> string list" where
  "splitLine e line = (if env_os e = Darwin then splitLine_darwin line else splitLine_other line)"

text \<open>
  The results are whether the line is valid, whether it is over a limit, and the line; what is over a limit
  is cut off.
\<close>

definition ParseLine :: "HostsEnv \<Rightarrow> string \<Rightarrow> bool \<Rightarrow> bool \<times> bool \<times> Line" where
  "ParseLine e line ignoreLimit =
     (let maxChars = (if ignoreLimit then int (length line) else maxCharsPerLine (env_os e) - int (length (LineEnding (env_os e))));
          overChars = (int (length line) > maxChars);
          split = splitLine e (if overChars then take (nat maxChars) line else line);
          comments = (if length split > 1 then str_Split commentMarker (split ! 1) else []);
          nothing = \<lparr>line_ip = None, line_hosts = [], line_comments = comments\<rparr>;
          fields = str_Fields (split ! 0)
      in if split ! 0 = [] then (True, overChars, nothing)
         else if length fields < 2 then (False, overChars, nothing)
         else case ParseIP (hd fields) of
           None \<Rightarrow> (False, overChars, nothing)
         | Some ip \<Rightarrow>
             (let hosts = tl fields;
                  maxHosts = (if ignoreLimit then int (length hosts) else maxHostsPerLine (env_os e));
                  overHosts = (int (length hosts) > maxHosts);
                  parsed = List.map_filter (parseHost e) (if overHosts then take (nat maxHosts) hosts else hosts)
              in (parsed \<noteq> [], overChars \<or> overHosts, \<lparr>line_ip = Some ip, line_hosts = parsed, line_comments = comments\<rparr>)))"

definition Commented :: "HostsEnv \<Rightarrow> Line \<Rightarrow> bool \<times> Line" where
  "Commented e l =
     (if OnlyComments l then (True, l)
      else case ParseLine e (commentMarker # Line_String e l) True of (ok, _, nl) \<Rightarrow> (ok, nl))"

definition commentLineStr :: "HostsEnv \<Rightarrow> string \<Rightarrow> bool \<times> Line" where
  "commentLineStr e line =
     (case ParseLine e (commentMarker # line) True of (ok, _, l) \<Rightarrow>
        if \<not> ok then (False, l)
        else case Commented e l of (ok', l') \<Rightarrow> if ok' then (True, WithOwnMarking l') else (False, l'))"

section \<open>Reading the file\<close>

definition EncodingUTF16LEBOM :: nat where "EncodingUTF16LEBOM = 0"
definition EncodingUTF16LE :: nat where "EncodingUTF16LE = 1"
definition EncodingUTF16BEBOM :: nat where "EncodingUTF16BEBOM = 2"
definition EncodingUTF16BE :: nat where "EncodingUTF16BE = 3"
definition EncodingUTF8 :: nat where "EncodingUTF8 = 4"
definition EncodingUTF8BOM :: nat where "EncodingUTF8BOM = 5"
definition EncodingANSI :: nat where "EncodingANSI = 6"
definition EncodingOther :: nat where "EncodingOther = 7"

lemmas encodings = EncodingUTF16LEBOM_def EncodingUTF16LE_def EncodingUTF16BEBOM_def EncodingUTF16BE_def
  EncodingUTF8_def EncodingUTF8BOM_def EncodingANSI_def EncodingOther_def

text \<open>How many null bytes stand at even and at odd positions of the pairs.\<close>

fun null_bytes :: "nat list \<Rightarrow> nat \<times> nat" where
  "null_bytes (a # b # bs) =
     (case null_bytes bs of (ev, od) \<Rightarrow> (if a = 0 then ev + 1 else ev, if b = 0 then od + 1 else od))"
| "null_bytes _ = (0, 0)"

definition Encoding :: "string \<Rightarrow> nat" where
  "Encoding buf =
     (let bs = map byte_of buf; n = length buf; (nullInEven, nullInOdd) = null_bytes bs
      in if n = 0 then EncodingUTF8
         else if n < 2 then (if utf8_Valid buf then EncodingUTF8 else EncodingOther)
         else if take 2 bs = [255, 254] then EncodingUTF16LEBOM
         else if take 2 bs = [254, 255] then EncodingUTF16BEBOM
         else if take 3 bs = [239, 187, 191] then EncodingUTF8BOM
         else if nullInOdd > n div 4 \<and> nullInEven = 0 then EncodingUTF16LE
         else if nullInEven > n div 4 \<and> nullInOdd = 0 then EncodingUTF16BE
         else if utf8_Valid buf then EncodingUTF8
         else if \<exists>b\<in>set bs. b \<ge> 128 then EncodingANSI
         else EncodingOther)"

text \<open>\<open>GetEncoding\<close>: whether there is a decoder for the encoding.  Outside Windows the decoder changes nothing.\<close>

definition GetEncoding :: "HostsEnv \<Rightarrow> nat \<Rightarrow> bool" where
  "GetEncoding e enc \<longleftrightarrow> (if env_os e = Windows then enc \<noteq> EncodingOther else enc = EncodingUTF8)"

definition decode_bytes :: "HostsEnv \<Rightarrow> nat \<Rightarrow> string \<Rightarrow> string option" where
  "decode_bytes e enc buf = (if env_os e = Windows then env_decode e enc buf else Some buf)"

definition encode_text :: "HostsEnv \<Rightarrow> nat \<Rightarrow> string \<Rightarrow> string option" where
  "encode_text e enc t = (if env_os e = Windows then env_encode e enc t else Some t)"

definition Decode :: "HostsEnv \<Rightarrow> string \<Rightarrow> string option" where
  "Decode e buf =
     (let enc = Encoding buf
      in if \<not> GetEncoding e enc then None
         else case decode_bytes e enc buf of
           None \<Rightarrow> None
         | Some t \<Rightarrow> if utf8_Valid t then Some t else None)"

text \<open>
  \<open>bufio.Scanner\<close> with lines: a line ends at a line feed, one carriage return before it is dropped, and a line of
  65536 bytes or more is an error.  The result is the lines before the error, and whether there was none.
\<close>

definition drop_cr :: "string \<Rightarrow> string" where
  "drop_cr l = (if l \<noteq> [] \<and> last l = CHR 0x0D then butlast l else l)"

definition scan_lines :: "string \<Rightarrow> string list \<times> bool" where
  "scan_lines t =
     (let pieces = str_Split (CHR 0x0A) t;
          raw = (if last pieces = [] then butlast pieces else pieces);
          good = takeWhile (\<lambda>l. int (length l) < 65536) raw
      in (map drop_cr good, length good = length raw))"

text \<open>\<open>GetAllLines\<close>: the active lines, every host once.  The result is the lines and whether there was no error.\<close>

fun new_hosts :: "string list \<Rightarrow> string list \<Rightarrow> string list \<times> string list" where
  "new_hosts addedHosts [] = ([], addedHosts)"
| "new_hosts addedHosts (h # hs) =
     (if h \<in> set addedHosts then new_hosts addedHosts hs
      else case new_hosts (h # addedHosts) hs of (fin, added') \<Rightarrow> (h # fin, added'))"

fun collect_lines :: "HostsEnv \<Rightarrow> string list \<Rightarrow> string list \<Rightarrow> Line list" where
  "collect_lines e addedHosts [] = []"
| "collect_lines e addedHosts (line # rest) =
     (case ParseLine e line True of (ok, _, parsedLine) \<Rightarrow>
        if \<not> ok \<or> OnlyComments parsedLine then collect_lines e addedHosts rest
        else case new_hosts addedHosts (line_hosts parsedLine) of (finalHosts, addedHosts') \<Rightarrow>
          (if finalHosts \<noteq> []
           then [WithOwnMarking \<lparr>line_ip = line_ip parsedLine, line_hosts = finalHosts, line_comments = []\<rparr>]
           else [])
          @ collect_lines e addedHosts' rest)"

definition GetAllLines :: "HostsEnv \<Rightarrow> string \<Rightarrow> Line list \<times> bool" where
  "GetAllLines e buf =
     (case Decode e buf of
        None \<Rightarrow> ([], False)
      | Some t \<Rightarrow> (case scan_lines t of (lines, ok) \<Rightarrow> (collect_lines e [] lines, ok)))"

section \<open>Mappings\<close>

type_synonym HostMappings = "(string \<times> IP) list"

definition Mappings :: "(string \<Rightarrow> bool) \<Rightarrow> string \<Rightarrow> IP option \<Rightarrow> bool \<Rightarrow> DomainsCache \<Rightarrow> (HostMappings \<times> DomainsCache) option" where
  "Mappings resolves gameId ip withMacOsExclusive cache =
     (case ip of
        None \<Rightarrow> Some ([], cache)
      | Some a \<Rightarrow> map_option (\<lambda>(hosts, cache'). (fold (\<lambda>h m. AList.update h a m) hosts [], cache'))
          (AllHosts resolves gameId withMacOsExclusive cache))"

definition own_line :: "string \<times> IP \<Rightarrow> Line" where
  "own_line hi = WithOwnMarking \<lparr>line_ip = Some (snd hi), line_hosts = [fst hi], line_comments = []\<rparr>"

definition Mappings_String :: "HostsEnv \<Rightarrow> string \<Rightarrow> HostMappings \<Rightarrow> string" where
  "Mappings_String e lineEnding h = concat (map (\<lambda>hi. lineEnding @ Line_String e (own_line hi)) h) @ lineEnding"

text \<open>\<open>commentHost\<close>: outside Windows, the name of the machine.\<close>

definition commentHost :: "HostsEnv \<Rightarrow> string \<Rightarrow> bool" where
  "commentHost e host \<longleftrightarrow> env_os e \<noteq> Windows
     \<and> host = (case env_Hostname e of None \<Rightarrow> [] | Some name \<Rightarrow> (case parseHost e name of None \<Rightarrow> [] | Some h \<Rightarrow> h))"

text \<open>Which hosts of a line are mapped to the address already: they leave the mappings.\<close>

fun claim_hosts :: "HostMappings \<Rightarrow> IP \<Rightarrow> string list \<Rightarrow> HostMappings \<times> bool list" where
  "claim_hosts mappings lineIp [] = (mappings, [])"
| "claim_hosts mappings lineIp (h # hs) =
     (let hit = (case map_of mappings h of None \<Rightarrow> False | Some ip \<Rightarrow> IP_Equal ip lineIp);
          (mappings', hits) = claim_hosts (if hit then AList.delete h mappings else mappings) lineIp hs
      in (mappings', hit # hits))"

definition missing_line :: "HostsEnv \<Rightarrow> string \<Rightarrow> HostMappings \<times> Line list \<Rightarrow> HostMappings \<times> Line list" where
  "missing_line e line st =
     (let (mappings, restLines) = st;
          (ok, overLimit, parsed) = ParseLine e line False;
          (ok', lineParsed) = (if ok then (True, parsed) else commentLineStr e line)
      in if \<not> ok' then st
         else case line_ip lineParsed of
           None \<Rightarrow> (mappings, restLines @ [lineParsed])
         | Some lineIp \<Rightarrow>
           (let hosts = line_hosts lineParsed;
                (mappings', hits) = claim_hosts mappings lineIp hosts;
                keptHosts = map fst (filter (\<lambda>(h, hit). \<not> hit \<and> \<not> commentHost e h) (zip hosts hits));
                (over, lineParsed') = (if overLimit then commentLineStr e line else (False, lineParsed));
                removedHosts = (length keptHosts < length hosts \<or> over);
                restLines1 = (if removedHosts
                  then (case Commented e lineParsed' of (c, nl) \<Rightarrow> if c then restLines @ [WithOwnMarking nl] else restLines)
                  else restLines);
                kept = \<lparr>line_ip = Some lineIp, line_hosts = keptHosts, line_comments = []\<rparr>
            in (mappings', if keptHosts \<noteq> [] then restLines1 @ [if removedHosts then WithOwnMarking kept else kept] else restLines1)))"

text \<open>The mappings still missing, the lines to write before them, and whether there was no error.\<close>

definition missingIpMappings :: "HostsEnv \<Rightarrow> HostMappings \<Rightarrow> string \<Rightarrow> (HostMappings \<times> Line list) \<times> bool" where
  "missingIpMappings e mappings buf =
     (case Decode e buf of
        None \<Rightarrow> ((mappings, []), False)
      | Some t \<Rightarrow> (case scan_lines t of (lines, ok) \<Rightarrow> (fold (missing_line e) lines (mappings, []), ok)))"

end
