(* ===== verification/HostsFile.thy ===== *)
theory HostsFile
  imports Hosts
begin

text \<open>
  Changing the hosts file: \<open>AddHosts\<close> and \<open>UpdateHosts\<close> (\<open>common/hosts/hosts.go\<close>), \<open>RemoveHosts\<close> and what it restores
  (\<open>launcher-config-admin/internal/hosts/hosts.go\<close>).  The disk maps paths to a text and the time of its last change.
  Which operations of the system fail is an argument, as are the times of the writes; locks are taken for granted once
  a file is open, and removing a file succeeds.  Flushing the cache of names is a counter.
\<close>

section \<open>Files\<close>

text \<open>A file open for reading and writing: its bytes and the position.\<close>

record OsFile =
  os_data :: string
  os_pos :: nat

definition Seek_start :: "OsFile \<Rightarrow> OsFile" where
  "Seek_start f = f\<lparr>os_pos := 0\<rparr>"

text \<open>Writing replaces the bytes from the position on, and adds to the file behind its end.\<close>

definition WriteString :: "string \<Rightarrow> OsFile \<Rightarrow> OsFile" where
  "WriteString s f = \<lparr>os_data = take (os_pos f) (os_data f) @ replicate (os_pos f - length (os_data f)) (CHR 0x00)
       @ s @ drop (os_pos f + length s) (os_data f),
     os_pos = os_pos f + length s\<rparr>"

definition os_Truncate :: "nat \<Rightarrow> OsFile \<Rightarrow> OsFile" where
  "os_Truncate n f = f\<lparr>os_data := take n (os_data f) @ replicate (n - length (os_data f)) (CHR 0x00)\<rparr>"

record HostsDisk =
  disk_files :: "string \<Rightarrow> (string \<times> int) option"
  disk_flushes :: nat

definition put_file :: "string \<Rightarrow> string \<Rightarrow> int \<Rightarrow> HostsDisk \<Rightarrow> HostsDisk" where
  "put_file p t time d = d\<lparr>disk_files := (disk_files d)(p \<mapsto> (t, time))\<rparr>"

definition remove_file :: "string \<Rightarrow> HostsDisk \<Rightarrow> HostsDisk" where
  "remove_file p d = d\<lparr>disk_files := (disk_files d)(p := None)\<rparr>"

text \<open>The operations that may fail; \<open>io_partial\<close> is how much is copied back before the copy fails.\<close>

datatype io_op =
    OpenHosts | OpenHostsCreate | ReadHosts | SeekHosts | CreateTempFile | CopyToTemp
  | OpenBackup | SeekTemp | CopyBackup | SeekTempAgain | WriteTemp | TruncateTemp
  | RewindTemp | TruncateHosts | RewindHosts | CopyBack | StatBackup | StatHosts

record HostsIO =
  io_fails :: "io_op \<Rightarrow> bool"
  io_partial :: nat
  io_backup_time :: int
  io_write_time :: int

section \<open>UpdateHosts\<close>

text \<open>
  An updater changes the temporary file, which holds a copy of the hosts file and stands at its end, and
  possibly other files.  The callers have the hosts file at its start.
\<close>

type_synonym updater = "OsFile \<Rightarrow> HostsDisk \<Rightarrow> bool outcome \<times> OsFile \<times> HostsDisk"

definition UpdateHosts :: "HostsIO \<Rightarrow> string \<Rightarrow> updater \<Rightarrow> bool \<Rightarrow> HostsDisk \<Rightarrow> bool outcome \<times> HostsDisk" where
  "UpdateHosts io path upd flushFn d =
     (if io_fails io CreateTempFile \<or> io_fails io CopyToTemp then (Ret False, d)
      else let content = (case disk_files d path of None \<Rightarrow> [] | Some (t, _) \<Rightarrow> t) in
        case upd \<lparr>os_data = content, os_pos = length content\<rparr> d of
          (Panic, tmp, d1) \<Rightarrow> (Panic, d1)
        | (Ret False, tmp, d1) \<Rightarrow> (Ret False, d1)
        | (Ret True, tmp, d1) \<Rightarrow>
            if io_fails io RewindTemp \<or> io_fails io TruncateHosts then (Ret False, d1)
            else if io_fails io RewindHosts then (Ret False, put_file path [] (io_write_time io) d1)
            else if io_fails io CopyBack then (Ret False, put_file path (take (io_partial io) (os_data tmp)) (io_write_time io) d1)
            else let d2 = put_file path (os_data tmp) (io_write_time io) d1
              in (Ret True, if flushFn then d2\<lparr>disk_flushes := disk_flushes d2 + 1\<rparr> else d2))"

section \<open>AddHosts\<close>

text \<open>The backup of the hosts file of the system is written first; it must not exist yet.\<close>

definition write_backup :: "HostsEnv \<Rightarrow> HostsIO \<Rightarrow> updater" where
  "write_backup e io f d =
     (if disk_files d (backup_Path e) \<noteq> None \<or> io_fails io OpenBackup then (Ret False, f, d)
      else if io_fails io SeekTemp \<or> io_fails io CopyBackup \<or> io_fails io SeekTempAgain
        then (Ret False, f, remove_file (backup_Path e) d)
      else (Ret True, Seek_start f, put_file (backup_Path e) (os_data f) (io_backup_time io) d))"

definition new_text :: "HostsEnv \<Rightarrow> string \<Rightarrow> HostMappings \<Rightarrow> Line list \<Rightarrow> string" where
  "new_text e lineEnding mappings restLines =
     concat (map (\<lambda>l. Line_String e l @ lineEnding) restLines) @ Mappings_String e lineEnding mappings"

definition AddHosts_updater :: "HostsEnv \<Rightarrow> HostsIO \<Rightarrow> bool \<Rightarrow> string \<Rightarrow> HostMappings \<Rightarrow> Line list \<Rightarrow> updater" where
  "AddHosts_updater e io systemHosts lineEnding mappings restLines f d =
     (case (if systemHosts then write_backup e io f d else (Ret True, f, d)) of
        (Ret True, f1, d1) \<Rightarrow>
          if io_fails io WriteTemp then (Ret False, f1, d1)
          else (Ret True, WriteString (new_text e lineEnding mappings restLines) f1, d1)
      | r \<Rightarrow> r)"

text \<open>\<open>AddHosts\<close> behind the computation of the mappings; an empty path is the hosts file of the system.\<close>

definition AddHosts_mappings ::
  "HostsEnv \<Rightarrow> HostsIO \<Rightarrow> HostMappings \<Rightarrow> string \<Rightarrow> string \<Rightarrow> bool \<Rightarrow> HostsDisk \<Rightarrow> bool outcome \<times> HostsDisk" where
  "AddHosts_mappings e io mappings hostFilePath lineEnding flushFn d =
     (let systemHosts = (hostFilePath = []);
          path = (if systemHosts then hosts_Path e else hostFilePath);
          ending = (if lineEnding = [] then LineEnding (env_os e) else lineEnding);
          opened = (case disk_files d path of
             Some _ \<Rightarrow> if io_fails io OpenHosts then None else Some d
           | None \<Rightarrow> if io_fails io OpenHostsCreate then None else Some (put_file path [] (io_write_time io) d))
      in case opened of
           None \<Rightarrow> (Ret False, d)
         | Some d1 \<Rightarrow>
             (let buf = (case disk_files d1 path of None \<Rightarrow> [] | Some (t, _) \<Rightarrow> t);
                  ((missing, restLines), ok) = missingIpMappings e mappings buf
              in if \<not> ok then (Ret False, d1)
                 else if missing = [] then (Ret True, d1)
                 else if io_fails io SeekHosts then (Ret False, d1)
                 else UpdateHosts io path (AddHosts_updater e io systemHosts ending missing restLines) flushFn d1))"

text \<open>\<open>None\<close>: the search for release names does not end.\<close>

definition AddHosts ::
  "HostsEnv \<Rightarrow> HostsIO \<Rightarrow> (string \<Rightarrow> bool) \<Rightarrow> DomainsCache \<Rightarrow> IP option \<Rightarrow> string \<Rightarrow> string \<Rightarrow> string \<Rightarrow> bool \<Rightarrow> bool
   \<Rightarrow> HostsDisk \<Rightarrow> (bool outcome \<times> HostsDisk) option" where
  "AddHosts e io resolves cache ip gameId hostFilePath lineEnding withMacOsExclusive flushFn d =
     map_option (\<lambda>(mappings, _). AddHosts_mappings e io mappings hostFilePath lineEnding flushFn d)
       (Mappings resolves gameId ip withMacOsExclusive cache)"

section \<open>RemoveHosts\<close>

definition restoreBackup :: "HostsEnv \<Rightarrow> HostsIO \<Rightarrow> HostsDisk \<Rightarrow> bool outcome \<times> HostsDisk" where
  "restoreBackup e io d =
     UpdateHosts io (hosts_Path e)
       (\<lambda>f d. let backup = (case disk_files d (backup_Path e) of None \<Rightarrow> [] | Some (t, _) \<Rightarrow> t)
          in if io_fails io SeekTemp \<or> io_fails io CopyBackup then (Ret False, f, d)
             else if io_fails io TruncateTemp then (Ret False, f, d)
             else (Ret True, os_Truncate (length backup) (WriteString backup (Seek_start f)), d))
       True d"

text \<open>What restoring makes of one line: nothing, a text, or a panic.\<close>

definition restore_line :: "HostsEnv \<Rightarrow> string \<Rightarrow> string option outcome" where
  "restore_line e line =
     (case ParseLine e line True of (ok, _, parsedLine) \<Rightarrow>
        if \<not> ok then Ret None
        else if hasOwnMarking parsedLine then
          (if OnlyComments parsedLine then
             (case Uncommented e (WithoutOwnMarking parsedLine) of Panic \<Rightarrow> Panic | Ret t \<Rightarrow> Ret (Some t))
           else Ret None)
        else Ret (Some line))"

fun restore_lines :: "HostsEnv \<Rightarrow> string list \<Rightarrow> string list outcome" where
  "restore_lines e [] = Ret []"
| "restore_lines e (l # ls) =
     (case restore_line e l of
        Panic \<Rightarrow> Panic
      | Ret r \<Rightarrow> (case restore_lines e ls of Panic \<Rightarrow> Panic | Ret rs \<Rightarrow> Ret ((case r of None \<Rightarrow> [] | Some t \<Rightarrow> [t]) @ rs)))"

fun Join_lines :: "string \<Rightarrow> string list \<Rightarrow> string" where
  "Join_lines sep [] = []"
| "Join_lines sep [l] = l"
| "Join_lines sep (l # ls) = l @ sep @ Join_lines sep ls"

definition restoreInPlace_updater :: "HostsEnv \<Rightarrow> HostsIO \<Rightarrow> nat \<Rightarrow> updater" where
  "restoreInPlace_updater e io enc f d =
     (if io_fails io SeekTemp then (Ret False, f, d)
      else case decode_bytes e enc (os_data f) of
        None \<Rightarrow> (Ret False, f, d)
      | Some t \<Rightarrow>
          (case scan_lines t of (scanned, ok) \<Rightarrow>
             (case restore_lines e scanned of
                Panic \<Rightarrow> (Panic, f, d)
              | Ret lines \<Rightarrow>
                  if \<not> ok \<or> io_fails io SeekTempAgain then (Ret False, f, d)
                  else case encode_text e enc (Join_lines (LineEnding (env_os e)) lines) of
                    None \<Rightarrow> (Ret False, f, d)
                  | Some out \<Rightarrow>
                      if io_fails io WriteTemp \<or> io_fails io TruncateTemp then (Ret False, f, d)
                      else (Ret True, os_Truncate (length out) (WriteString out (Seek_start f)), d))))"

definition restoreInPlace :: "HostsEnv \<Rightarrow> HostsIO \<Rightarrow> HostsDisk \<Rightarrow> bool outcome \<times> HostsDisk" where
  "restoreInPlace e io d =
     (let buf = (case disk_files d (hosts_Path e) of None \<Rightarrow> [] | Some (t, _) \<Rightarrow> t); enc = Encoding buf
      in if io_fails io ReadHosts \<or> \<not> GetEncoding e enc \<or> io_fails io SeekHosts then (Ret False, d)
         else UpdateHosts io (hosts_Path e) (restoreInPlace_updater e io enc) True d)"

text \<open>One second, in nanoseconds.  The backup is removed on the way out, also when restoring in place failed.\<close>

definition one_second :: int where "one_second = 10 ^ 9"

definition RemoveHosts :: "HostsEnv \<Rightarrow> HostsIO \<Rightarrow> HostsDisk \<Rightarrow> bool outcome \<times> HostsDisk" where
  "RemoveHosts e io d =
     (let bak = (if io_fails io OpenBackup then None else disk_files d (backup_Path e));
          drop_backup = (\<lambda>(r, d'). (r, remove_file (backup_Path e) d'));
          restore = (\<lambda>d. case restoreBackup e io d of
              (Ret True, d') \<Rightarrow> drop_backup (Ret True, d')
            | r \<Rightarrow> r)
      in case disk_files d (hosts_Path e) of
           None \<Rightarrow>
             (case bak of
                None \<Rightarrow> (Ret True, d)
              | Some _ \<Rightarrow> if io_fails io OpenHostsCreate then (Ret False, d)
                  else restore (put_file (hosts_Path e) [] (io_write_time io) d))
         | Some (_, mainTime) \<Rightarrow>
             if io_fails io OpenHosts then (Ret False, d)
             else (case bak of
                None \<Rightarrow> restoreInPlace e io d
              | Some (_, bakTime) \<Rightarrow>
                  if io_fails io StatBackup \<or> io_fails io StatHosts then (Ret False, d)
                  else if mainTime < bakTime + one_second then restore d
                  else drop_backup (restoreInPlace e io d)))"

end
