(* ===== verification/HostsProps.thy ===== *)
theory HostsProps
  imports HostsFile
begin

text \<open>
  Properties of the changes to the hosts file: what stands in the file afterwards, which address a mapped name has
  then, and that removing the mappings gives the file back.
\<close>

section \<open>Writing\<close>

lemma WriteString_start [simp]: "os_pos f = 0 \<Longrightarrow> os_data (WriteString s f) = s @ drop (length s) (os_data f)"
  by (simp add: WriteString_def)

lemma WriteString_end [simp]: "os_pos f = length (os_data f) \<Longrightarrow> os_data (WriteString s f) = os_data f @ s"
  by (simp add: WriteString_def)

lemma Truncate_written [simp]: "os_data (os_Truncate (length s) (WriteString s (Seek_start f))) = s"
  by (simp add: os_Truncate_def WriteString_def Seek_start_def)

lemma disk_files_put [simp]: "disk_files (put_file p t time d) = (disk_files d)(p \<mapsto> (t, time))"
  by (simp add: put_file_def)

lemma disk_files_remove [simp]: "disk_files (remove_file p d) = (disk_files d)(p := None)"
  by (simp add: remove_file_def)

lemma backup_other [simp]: "backup_Path e \<noteq> hosts_Path e" "hosts_Path e \<noteq> backup_Path e"
  by (simp_all add: backup_Path_def)

lemma hosts_Path_not_Nil [simp]: "hosts_Path e \<noteq> []"
  by (simp add: hosts_Path_def)

text \<open>
  Adding mappings to the hosts file of the system, when nothing fails: the old text is in the backup, and the new text
  is written over the old one, whose bytes behind the end of the new text stay.
\<close>

lemma AddHosts_system:
  assumes "io_fails io = (\<lambda>_. False)" and "disk_files d (hosts_Path e) = Some (c, t)"
    and "disk_files d (backup_Path e) = None"
    and "missingIpMappings e m c = ((missing, rest), True)" and "missing \<noteq> []"
  shows "\<exists>d'. AddHosts_mappings e io m [] [] fl d = (Ret True, d')
    \<and> disk_files d' (backup_Path e) = Some (c, io_backup_time io)
    \<and> disk_files d' (hosts_Path e) = Some (let new = new_text e (LineEnding (env_os e)) missing rest
        in new @ drop (length new) c, io_write_time io)"
  using assms by (simp add: AddHosts_mappings_def UpdateHosts_def AddHosts_updater_def write_backup_def Seek_start_def Let_def)

text \<open>What a success means, whatever failed on the way.\<close>

lemma AddHosts_success:
  assumes "AddHosts_mappings e io m [] [] fl d = (Ret True, d')" and "disk_files d (hosts_Path e) = Some (c, t)"
    and "missingIpMappings e m c = ((missing, rest), ok)"
  shows "ok \<and> (missing = [] \<and> d' = d \<or> missing \<noteq> [] \<and>
    disk_files d' (hosts_Path e) = Some (let new = new_text e (LineEnding (env_os e)) missing rest in new @ drop (length new) c, io_write_time io))"
  using assms
  by (auto simp: AddHosts_mappings_def UpdateHosts_def AddHosts_updater_def write_backup_def Seek_start_def Let_def
      split: if_splits prod.splits)

text \<open>With a file of the caller the new text follows the old one.\<close>

lemma AddHosts_custom:
  assumes "io_fails io = (\<lambda>_. False)" and "disk_files d p = Some (c, t)" and "p \<noteq> []"
    and "missingIpMappings e m c = ((missing, rest), True)" and "missing \<noteq> []"
  shows "\<exists>d'. AddHosts_mappings e io m p le fl d = (Ret True, d')
    \<and> disk_files d' p = Some (c @ new_text e (if le = [] then LineEnding (env_os e) else le) missing rest, io_write_time io)"
  using assms by (simp add: AddHosts_mappings_def UpdateHosts_def AddHosts_updater_def Let_def)

text \<open>A backup left behind stops every further attempt.\<close>

lemma AddHosts_backup_exists:
  assumes "disk_files d (hosts_Path e) = Some (c, t)" and "disk_files d (backup_Path e) \<noteq> None"
    and "fst (fst (missingIpMappings e m c)) \<noteq> []"
  shows "AddHosts_mappings e io m [] le fl d = (Ret False, d)"
  using assms by (auto simp: AddHosts_mappings_def UpdateHosts_def AddHosts_updater_def write_backup_def Let_def split: prod.splits)

section \<open>Restoring the backup\<close>

lemma restoreBackup_exact:
  assumes "io_fails io = (\<lambda>_. False)" and "disk_files d (backup_Path e) = Some (c, t)"
  shows "\<exists>d'. restoreBackup e io d = (Ret True, d') \<and> disk_files d' = (disk_files d)(hosts_Path e \<mapsto> (c, io_write_time io))"
  using assms by (simp add: restoreBackup_def UpdateHosts_def Let_def)

text \<open>Removing the mappings when the backup is fresh and nothing fails.\<close>

lemma RemoveHosts_backed_up:
  assumes "io_fails io = (\<lambda>_. False)" and "disk_files d (backup_Path e) = Some (c, bt)"
    and "disk_files d (hosts_Path e) = Some (new, wt)" and "wt < bt + one_second"
  shows "\<exists>d'. RemoveHosts e io d = (Ret True, d')
    \<and> disk_files d' = (disk_files d)(hosts_Path e \<mapsto> (c, io_write_time io), backup_Path e := None)"
proof -
  from restoreBackup_exact [OF assms(1,2)] obtain d1 where b: "restoreBackup e io d = (Ret True, d1)"
    "disk_files d1 = (disk_files d)(hosts_Path e \<mapsto> (c, io_write_time io))" by blast
  have "RemoveHosts e io d = (Ret True, remove_file (backup_Path e) d1)"
    using assms b(1) by (simp add: RemoveHosts_def Let_def)
  with b(2) show ?thesis by simp
qed

text \<open>What a successful call did when it left a backup.\<close>

lemma AddHosts_backed_up:
  assumes "AddHosts_mappings e io m [] le fl d = (Ret True, d1)"
    and "disk_files d (hosts_Path e) = Some (c, t)" and "disk_files d (backup_Path e) = None"
    and "disk_files d1 (backup_Path e) \<noteq> None"
  shows "\<exists>new. disk_files d1 = (disk_files d)(backup_Path e \<mapsto> (c, io_backup_time io), hosts_Path e \<mapsto> (new, io_write_time io))"
  using assms
  by (auto simp: AddHosts_mappings_def UpdateHosts_def AddHosts_updater_def write_backup_def Seek_start_def Let_def
      split: if_splits prod.splits)

text \<open>
  C24: adding mappings to the hosts file of the system and removing them again gives the file back.  If no
  backup was left over from before, the addition succeeded and left one, whatever failed on the way, and the hosts file was written
  less than a second after its backup, then a removal in which nothing fails succeeds and leaves every file as it was
  before the addition, the hosts file byte for byte.
\<close>

theorem add_then_remove_restores:
  assumes "disk_files d (hosts_Path e) = Some (c, t)" and "disk_files d (backup_Path e) = None"
    and "AddHosts_mappings e io m [] le fl d = (Ret True, d1)" and "disk_files d1 (backup_Path e) \<noteq> None"
    and "io_write_time io < io_backup_time io + one_second"
    and "io_fails io' = (\<lambda>_. False)" and "RemoveHosts e io' d1 = (r, d2)"
  shows "r = Ret True \<and> map_option fst (disk_files d2 (hosts_Path e)) = Some c
    \<and> (\<forall>p. p \<noteq> hosts_Path e \<longrightarrow> disk_files d2 p = disk_files d p)"
proof -
  from AddHosts_backed_up [OF assms(3,1,2,4)] obtain new where
    d1: "disk_files d1 = (disk_files d)(backup_Path e \<mapsto> (c, io_backup_time io), hosts_Path e \<mapsto> (new, io_write_time io))" ..
  from RemoveHosts_backed_up [OF assms(6), of d1 e] d1 assms(5) obtain d' where "RemoveHosts e io' d1 = (Ret True, d')"
    "disk_files d' = (disk_files d1)(hosts_Path e \<mapsto> (c, io_write_time io'), backup_Path e := None)" by auto
  with d1 assms(2,7) show ?thesis by (auto simp: fun_upd_def)
qed

section \<open>Which address a mapped name gets\<close>

text \<open>The addresses the lines of a list give to a host, in order.\<close>

definition occurs :: "string \<Rightarrow> IP \<Rightarrow> string list \<Rightarrow> IP list" where
  "occurs h a hs = map (\<lambda>_. a) (filter (\<lambda>x. x = h) hs)"

definition line_occurs :: "string \<Rightarrow> Line \<Rightarrow> IP list" where
  "line_occurs h l = (case line_ip l of None \<Rightarrow> [] | Some a \<Rightarrow> occurs h a (line_hosts l))"

definition occurrences :: "string \<Rightarrow> Line list \<Rightarrow> IP list" where
  "occurrences h ls = concat (map (line_occurs h) ls)"

text \<open>The address of a host: that of the first line that names it.\<close>

definition lookup_host :: "Line list \<Rightarrow> string \<Rightarrow> IP option" where
  "lookup_host ls h = (case occurrences h ls of [] \<Rightarrow> None | a # _ \<Rightarrow> Some a)"

definition host_address :: "HostsEnv \<Rightarrow> string \<Rightarrow> string \<Rightarrow> IP option" where
  "host_address e t h = lookup_host (fst (GetAllLines e t)) h"

text \<open>The lines as \<open>AddHosts\<close> reads them, within the limits.\<close>

definition read_lines :: "HostsEnv \<Rightarrow> bool \<Rightarrow> string list \<Rightarrow> Line list" where
  "read_lines e ignoreLimit lines =
     List.map_filter (\<lambda>line. case ParseLine e line ignoreLimit of (ok, _, l) \<Rightarrow> if ok \<and> \<not> OnlyComments l then Some l else None) lines"

text \<open>One occurrence of the host in the file: a mapping to that address is taken as done, and the occurrence goes.\<close>

fun claim :: "IP option \<times> IP list \<Rightarrow> IP \<Rightarrow> IP option \<times> IP list" where
  "claim (Some ip, out) a = (if IP_Equal ip a then (None, out) else (Some ip, out @ [a]))"
| "claim (None, out) a = (None, out @ [a])"

lemma claim_hosts_occurs:
  "claim_hosts m a hs = (m', hits) \<Longrightarrow> \<not> commentHost e h \<Longrightarrow>
   length hits = length hs \<and>
   foldl claim (map_of m h, out) (occurs h a hs)
   = (map_of m' h, out @ occurs h a (map fst (filter (\<lambda>(h, hit). \<not> hit \<and> \<not> commentHost e h) (zip hs hits))))"
proof (induction hs arbitrary: m out m' hits)
  case Nil
  then show ?case by (simp add: occurs_def)
next
  case (Cons x hs)
  define hit where "hit = (case map_of m x of None \<Rightarrow> False | Some ip \<Rightarrow> IP_Equal ip a)"
  define m1 where "m1 = (if hit then AList.delete x m else m)"
  obtain hits1 where c: "claim_hosts m1 a hs = (m', hits1)" and hits: "hits = hit # hits1"
    using Cons.prems(1) by (auto simp: hit_def [symmetric] m1_def [symmetric] Let_def split: prod.splits)
  note IH = Cons.IH [OF c Cons.prems(2)]
  show ?case
  proof (cases "x = h")
    case False
    then have "map_of m1 h = map_of m h" by (simp add: m1_def)
    with False IH [of out] hits show ?thesis by (simp add: occurs_def)
  next
    case True
    show ?thesis
    proof (cases hit)
      case t: True
      then obtain ip where "map_of m h = Some ip" "IP_Equal ip a" using True by (auto simp: hit_def split: option.splits)
      moreover have "map_of m1 h = None" using True t by (simp add: m1_def)
      ultimately show ?thesis using IH [of out] hits True t by (simp add: occurs_def)
    next
      case f: False
      then have "claim (map_of m h, out) a = (map_of m h, out @ [a])" using True by (cases "map_of m h") (auto simp: hit_def)
      moreover have "map_of m1 h = map_of m h" using f by (simp add: m1_def)
      ultimately show ?thesis using IH [of "out @ [a]"] hits True f Cons.prems(2) by (simp add: occurs_def)
    qed
  qed
qed

text \<open>A line that is commented out is a comment.\<close>

lemma ParseLine_comment:
  "ParseLine e (commentMarker # t) True = (True, False, \<lparr>line_ip = None, line_hosts = [], line_comments = str_Split commentMarker t\<rparr>)"
  by (simp add: ParseLine_def splitLine_def splitLine_darwin_def splitLine_other_def Let_def)

lemma Commented_comment:
  "Commented e l = (True, if OnlyComments l then l
     else \<lparr>line_ip = None, line_hosts = [], line_comments = str_Split commentMarker (Line_String e l)\<rparr>)"
  by (simp add: Commented_def ParseLine_comment)

lemma commentLineStr_comment:
  "commentLineStr e line = (True, WithOwnMarking \<lparr>line_ip = None, line_hosts = [], line_comments = str_Split commentMarker line\<rparr>)"
  by (simp add: commentLineStr_def ParseLine_comment Commented_comment OnlyComments_def)

lemma WithOwnMarking_fields [simp]:
  "line_ip (WithOwnMarking l) = line_ip l" "line_hosts (WithOwnMarking l) = line_hosts l"
  by (simp_all add: WithOwnMarking_def)

lemma comment_occurs: "line_ip l = None \<Longrightarrow> line_occurs h l = []"
  by (simp add: line_occurs_def)

lemma Commented_occurs: "Commented e l = (c, nl) \<Longrightarrow> (OnlyComments l \<Longrightarrow> line_ip l = None) \<Longrightarrow> line_occurs h (WithOwnMarking nl) = []"
  by (auto simp: Commented_comment line_occurs_def OnlyComments_def split: if_splits)

lemma occurrences_append: "occurrences h (xs @ ys) = occurrences h xs @ occurrences h ys"
  by (simp add: occurrences_def)

lemma occurrences_Nil [simp]: "occurrences h [] = []"
  by (simp add: occurrences_def)

lemma occurrences_Cons: "occurrences h (l # ls) = line_occurs h l @ occurrences h ls"
  by (simp add: occurrences_def)

lemma ParseLine_ip: "ParseLine e line lim = (ok, over, l) \<Longrightarrow> ok \<Longrightarrow> OnlyComments l \<longleftrightarrow> line_ip l = None"
  by (auto simp: ParseLine_def OnlyComments_def Let_def split: if_splits option.splits)

text \<open>What becomes of an active line: possibly a comment that keeps it, and a line with the hosts that stay.\<close>

definition kept_hosts :: "HostsEnv \<Rightarrow> HostMappings \<Rightarrow> IP \<Rightarrow> string list \<Rightarrow> string list" where
  "kept_hosts e m a hs = map fst (filter (\<lambda>(h, hit). \<not> hit \<and> \<not> commentHost e h) (zip hs (snd (claim_hosts m a hs))))"

definition comment_of :: "string \<Rightarrow> Line" where
  "comment_of t = \<lparr>line_ip = None, line_hosts = [], line_comments = str_Split commentMarker t\<rparr>"

lemma missing_line_active:
  assumes "ParseLine e line False = (True, over, l)" and "line_ip l = Some a"
  shows "missing_line e line (m, rest) =
    (let kept = kept_hosts e m a (line_hosts l); removed = (length kept < length (line_hosts l) \<or> over)
     in (fst (claim_hosts m a (line_hosts l)),
         rest @ (if removed then [WithOwnMarking (if over then WithOwnMarking (comment_of line) else comment_of (Line_String e l))] else [])
           @ (if kept = [] then []
              else [(if removed then WithOwnMarking else id) \<lparr>line_ip = Some a, line_hosts = kept, line_comments = []\<rparr>])))"
proof -
  have o: "\<not> OnlyComments l" "OnlyComments (WithOwnMarking (comment_of line))" using assms(2) by (simp_all add: OnlyComments_def comment_of_def)
  obtain m' hits where c: "claim_hosts m a (line_hosts l) = (m', hits)" by force
  show ?thesis using assms o c
    by (simp add: missing_line_def kept_hosts_def Let_def Commented_comment commentLineStr_comment comment_of_def [symmetric])
qed

lemma missing_line_comment:
  assumes "ParseLine e line False = (ok, over, l)" and "\<not> ok \<or> line_ip l = None"
  shows "missing_line e line (m, rest) = (m, rest @ [if ok then l else WithOwnMarking (comment_of line)])"
  using assms by (auto simp: missing_line_def commentLineStr_comment comment_of_def)

lemma comment_of_occurs [simp]:
  "line_occurs h (comment_of t) = []" "line_occurs h (WithOwnMarking (comment_of t)) = []"
  "line_occurs h (WithOwnMarking (WithOwnMarking (comment_of t))) = []"
  by (simp_all add: line_occurs_def comment_of_def)

lemma active_occurs [simp]:
  "line_occurs h \<lparr>line_ip = Some a, line_hosts = hs, line_comments = cs\<rparr> = occurs h a hs"
  "line_occurs h (WithOwnMarking \<lparr>line_ip = Some a, line_hosts = hs, line_comments = cs\<rparr>) = occurs h a hs"
  by (simp_all add: line_occurs_def)

lemma occurs_Nil [simp]: "occurs h a [] = []"
  by (simp add: occurs_def)

lemma missing_line_occurs:
  assumes "missing_line e line (m, rest) = (m', rest')" and h: "\<not> commentHost e h"
  shows "(map_of m' h, occurrences h rest') = foldl claim (map_of m h, occurrences h rest) (occurrences h (read_lines e False [line]))"
proof -
  obtain ok over l where p: "ParseLine e line False = (ok, over, l)" by (cases "ParseLine e line False")
  show ?thesis
  proof (cases "ok \<and> line_ip l \<noteq> None")
    case False
    then have "read_lines e False [line] = []"
      using p ParseLine_ip [OF p] by (auto simp: read_lines_def List.map_filter_simps)
    moreover have "m' = m" "rest' = rest @ [if ok then l else WithOwnMarking (comment_of line)]"
      using assms(1) missing_line_comment [OF p, of m rest] False by auto
    ultimately show ?thesis using False by (auto simp: occurrences_append occurrences_Cons comment_occurs)
  next
    case True
    then obtain a where ok: ok and a: "line_ip l = Some a" by auto
    have r: "occurrences h (read_lines e False [line]) = occurs h a (line_hosts l)"
      using p ok a ParseLine_ip [OF p ok] by (simp add: read_lines_def List.map_filter_simps occurrences_Cons line_occurs_def)
    obtain hits where c: "claim_hosts m a (line_hosts l) = (m', hits)"
      using assms(1) missing_line_active [of e line over l a m rest] p ok a by (cases "claim_hosts m a (line_hosts l)") (auto simp: Let_def)
    have "occurrences h rest' = occurrences h rest @ occurs h a (kept_hosts e m a (line_hosts l))"
      using assms(1) missing_line_active [of e line over l a m rest] p ok a
      by (auto simp: Let_def occurrences_append occurrences_Cons active_occurs split: if_splits)
    then show ?thesis using claim_hosts_occurs [OF c h, of "occurrences h rest"] r by (simp add: kept_hosts_def c)
  qed
qed

lemma missing_lines_occurs:
  "fold (missing_line e) lines (m, rest) = (m', rest') \<Longrightarrow> \<not> commentHost e h \<Longrightarrow>
   (map_of m' h, occurrences h rest') = foldl claim (map_of m h, occurrences h rest) (occurrences h (read_lines e False lines))"
proof (induction lines arbitrary: m rest)
  case Nil
  then show ?case by (simp add: read_lines_def List.map_filter_simps)
next
  case (Cons line lines)
  obtain m1 rest1 where s: "missing_line e line (m, rest) = (m1, rest1)" by force
  have r: "read_lines e False (line # lines) = read_lines e False [line] @ read_lines e False lines"
    by (auto simp: read_lines_def List.map_filter_simps split: option.splits)
  from Cons.prems(1) s have "fold (missing_line e) lines (m1, rest1) = (m', rest')" by simp
  from Cons.IH [OF this Cons.prems(2)] missing_line_occurs [OF s Cons.prems(2)] show ?case
    by (simp add: r occurrences_append)
qed

lemma claim_none: "foldl claim (None, out) as = (None, out @ as)"
  by (induction as arbitrary: out) auto

lemma claim_prefix: "\<exists>zs. snd (foldl claim (mo, out) as) = out @ zs"
proof (induction as arbitrary: mo out)
  case (Cons a as)
  have "\<exists>mo1 ys. claim (mo, out) a = (mo1, out @ ys)" by (cases mo) auto
  then obtain mo1 ys where c: "claim (mo, out) a = (mo1, out @ ys)" by blast
  from Cons.IH [of mo1 "out @ ys"] c show ?case by auto
qed simp

lemma claim_result:
  "foldl claim (Some ip, []) as = (mo, out) \<Longrightarrow>
   (case out of [] \<Rightarrow> mo | a # _ \<Rightarrow> Some a)
   = (case as of [] \<Rightarrow> Some ip | a # as' \<Rightarrow> if IP_Equal ip a then (case as' of [] \<Rightarrow> None | b # _ \<Rightarrow> Some b) else Some a)"
proof (cases as)
  case (Cons a as')
  assume f: "foldl claim (Some ip, []) as = (mo, out)"
  show ?thesis
  proof (cases "IP_Equal ip a")
    case True
    then show ?thesis using f Cons by (auto simp: claim_none split: list.splits)
  next
    case False
    then have "foldl claim (Some ip, [a]) as' = (mo, out)" using f Cons by simp
    with claim_prefix [of "Some ip" "[a]" as'] obtain zs where "out = a # zs" by auto
    with False Cons show ?thesis by simp
  qed
qed auto

section \<open>Printed lines read back\<close>

text \<open>
  What the conversion of names promises: a name that is accepted is printed as letters, digits, hyphens and dots, and
  what is printed is accepted as the same name again.
\<close>

definition host_char :: "char \<Rightarrow> bool" where
  "host_char c \<longleftrightarrow> (let n = byte_of c in 97 \<le> n \<and> n \<le> 122 \<or> 48 \<le> n \<and> n \<le> 57 \<or> n = 45 \<or> n = 46)"

definition idna_ok :: "HostsEnv \<Rightarrow> bool" where
  "idna_ok e \<longleftrightarrow> (\<forall>h d. env_ToUnicode e h = Some d \<longrightarrow>
     env_ToUnicode e (env_ToASCII e d) = Some d \<and> env_ToASCII e d \<noteq> [] \<and> list_all host_char (env_ToASCII e d))"

text \<open>A host that was read, and lines that hold such hosts.\<close>

definition host_read :: "HostsEnv \<Rightarrow> string \<Rightarrow> bool" where
  "host_read e h \<longleftrightarrow> (\<exists>h'. parseHost e h' = Some h)"

definition no_newline :: "string \<Rightarrow> bool" where
  "no_newline t \<longleftrightarrow> CHR 0x0A \<notin> set t"

definition writable :: "HostsEnv \<Rightarrow> Line \<Rightarrow> bool" where
  "writable e l \<longleftrightarrow> (case line_ip l of
      None \<Rightarrow> line_hosts l = [] \<and> (\<forall>c\<in>set (line_comments l). no_newline c)
    | Some a \<Rightarrow> (length a = 4 \<or> length a = 16) \<and> line_hosts l \<noteq> [] \<and> (\<forall>h\<in>set (line_hosts l). host_read e h)
        \<and> (line_comments l = [] \<or> line_comments l = [marking]))"

definition word_char :: "char \<Rightarrow> bool" where
  "word_char c \<longleftrightarrow> 32 < byte_of c \<and> byte_of c < 128 \<and> c \<noteq> commentMarker"

lemma host_word_char: "host_char c \<Longrightarrow> word_char c"
  by (auto simp: host_char_def word_char_def commentMarker_def byte_of_def Let_def)

lemma ip_word_char: "ip_char c \<Longrightarrow> word_char c"
  by (auto simp: ip_char_def hex_digit_def word_char_def commentMarker_def byte_of_def Let_def split: if_splits)

lemma marking_word: "list_all word_char marking"
  by (simp add: marking_def word_char_def commentMarker_def byte_of_def)

lemma Fields_word_char: "word_char c \<Longrightarrow> Fields_from w (c # cs) = Fields_from (w @ [c]) cs"
  by (auto simp: word_char_def space_len_def Let_def)

lemma Fields_space: "c = CHR '' '' \<or> c = CHR 0x09 \<Longrightarrow> Fields_from w (c # cs) = (if w = [] then [] else [w]) @ Fields_from [] cs"
  by (auto simp: space_len_def byte_of_def Let_def)

lemma Fields_word: "list_all word_char s \<Longrightarrow> Fields_from w (s @ r) = Fields_from (w @ s) r"
  by (induction s arbitrary: w) (auto simp: Fields_word_char simp del: Fields_from.simps)

lemma Fields_Nil [simp]: "Fields_from w [] = (if w = [] then [] else [w])"
  by simp

lemma Fields_Join:
  "(\<forall>w\<in>set ws. w \<noteq> [] \<and> list_all word_char w) \<Longrightarrow>
   Fields_from [] (str_Join (CHR '' '') ws) = ws \<and> Fields_from [] (str_Join (CHR '' '') ws @ '' '') = ws"
proof (induction "CHR '' ''" ws rule: str_Join.induct)
  case 1
  show ?case by (simp add: Fields_space del: Fields_from.simps(2))
next
  case (2 x)
  then show ?case using Fields_word [of x "[]" "[]"] by (simp add: Fields_word Fields_space del: Fields_from.simps(2))
next
  case (3 x y zs)
  then show ?case by (simp add: Fields_word Fields_space del: Fields_from.simps(2))
qed

lemma SplitN2_none: "sep \<notin> set s \<Longrightarrow> str_SplitN2 sep s = [s]"
  by (induction s) auto

lemma SplitN2_cut: "sep \<notin> set s \<Longrightarrow> str_SplitN2 sep (s @ sep # r) = [s, r]"
  by (induction s) auto

lemma Split_none: "sep \<notin> set s \<Longrightarrow> str_Split sep s = [s]"
  by (induction s) auto

lemma Split_cut: "sep \<notin> set s \<Longrightarrow> str_Split sep (s @ sep # r) = s # str_Split sep r"
  by (induction s) auto

lemma host_read_ascii:
  assumes "idna_ok e" and "host_read e h"
  shows "parseHost e (env_ToASCII e h) = Some h" "env_ToASCII e h \<noteq> []" "list_all word_char (env_ToASCII e h)"
proof -
  from assms(2) obtain h' where "env_ToUnicode e h' = Some h" "ParseIP h = None"
    by (auto simp: host_read_def parseHost_def split: option.splits if_splits)
  with assms(1) have "env_ToUnicode e (env_ToASCII e h) = Some h" "env_ToASCII e h \<noteq> []" "list_all host_char (env_ToASCII e h)"
    by (auto simp: idna_ok_def)
  with \<open>ParseIP h = None\<close> show "parseHost e (env_ToASCII e h) = Some h" "env_ToASCII e h \<noteq> []" "list_all word_char (env_ToASCII e h)"
    by (auto simp: parseHost_def list_all_iff host_word_char)
qed

lemma IP_String_ne: "length a = 4 \<or> length a = 16 \<Longrightarrow> IP_String a \<noteq> []"
  using ParseIP_IP_String [of a] by (auto simp: ParseIP_def)

text \<open>The text of an active line, and its fields.\<close>

lemma active_text:
  assumes "idna_ok e" and "writable e l" and "line_ip l = Some a"
  defines "body \<equiv> IP_String a @ [CHR 0x09] @ str_Join (CHR '' '') (map (env_ToASCII e) (line_hosts l))"
  shows "Line_String e l = body @ (if line_comments l = [] then [] else '' '' @ [commentMarker] @ marking)"
    and "str_Fields body = IP_String a # map (env_ToASCII e) (line_hosts l)"
    and "str_Fields (body @ '' '') = IP_String a # map (env_ToASCII e) (line_hosts l)"
    and "commentMarker \<notin> set body" and "CHR 0x0A \<notin> set body" and "body \<noteq> []" and "word_char (last body)"
proof -
  have ip: "list_all word_char (IP_String a)" "IP_String a \<noteq> []"
    using assms(2,3) IP_String_chars [of a] IP_String_ne [of a] by (auto simp: writable_def list_all_iff ip_word_char)
  have hosts: "\<forall>w\<in>set (map (env_ToASCII e) (line_hosts l)). w \<noteq> [] \<and> list_all word_char w"
    using assms(2,3) host_read_ascii [OF assms(1)] by (auto simp: writable_def)
  show "Line_String e l = body @ (if line_comments l = [] then [] else '' '' @ [commentMarker] @ marking)"
    using assms(2,3) by (auto simp: Line_String_def body_def writable_def)
  show "str_Fields body = IP_String a # map (env_ToASCII e) (line_hosts l)"
    and "str_Fields (body @ '' '') = IP_String a # map (env_ToASCII e) (line_hosts l)"
    using ip hosts by (simp_all add: str_Fields_def body_def Fields_word Fields_space Fields_Join del: Fields_from.simps)
  have sep: "set (str_Join c ws) \<subseteq> insert c (\<Union> (set ` set ws))" for c ws
    by (induction c ws rule: str_Join.induct) auto
  have all: "\<forall>c\<in>set body. word_char c \<or> c = CHR 0x09 \<or> c = CHR '' ''"
    using sep [of "CHR '' ''" "map (env_ToASCII e) (line_hosts l)"] ip hosts unfolding body_def by (fastforce simp: list_all_iff)
  show "commentMarker \<notin> set body" using all by (auto simp: word_char_def commentMarker_def)
  show "CHR 0x0A \<notin> set body" using all by (auto simp: word_char_def byte_of_def)
  show "body \<noteq> []" by (simp add: body_def)
  have lastj: "ws \<noteq> [] \<Longrightarrow> \<forall>w\<in>set ws. w \<noteq> [] \<and> list_all word_char w \<Longrightarrow> str_Join (CHR '' '') ws \<noteq> [] \<and> word_char (last (str_Join (CHR '' '') ws))" for ws
    by (induction "CHR '' ''" ws rule: str_Join.induct) (auto simp: list_all_iff)
  have "line_hosts l \<noteq> []" using assms(2,3) by (simp add: writable_def)
  with lastj [of "map (env_ToASCII e) (line_hosts l)"] hosts show "word_char (last body)" by (simp add: body_def)
qed

lemma ParseLine_written:
  assumes "idna_ok e" and "env_os e \<noteq> Darwin" and "writable e l" and "line_ip l = Some a"
  shows "ParseLine e (Line_String e l) True = (True, False, l\<lparr>line_ip := Some (To16 a)\<rparr>)"
proof -
  define body where "body = IP_String a @ [CHR 0x09] @ str_Join (CHR '' '') (map (env_ToASCII e) (line_hosts l))"
  note t = active_text [OF assms(1,3,4), folded body_def]
  have a: "length a = 4 \<or> length a = 16" "line_hosts l \<noteq> []" "\<forall>h\<in>set (line_hosts l). host_read e h"
    "line_comments l = [] \<or> line_comments l = [marking]" using assms(3,4) by (simp_all add: writable_def)
  have sp: "splitLine e (Line_String e l) = (if line_comments l = [] then [body] else [body @ '' '', marking])"
    using t(1,4) assms(2) SplitN2_cut [of commentMarker "body @ '' ''" marking]
    by (auto simp: splitLine_def splitLine_other_def SplitN2_none commentMarker_def)
  have hs: "List.map_filter (parseHost e) (map (env_ToASCII e) hs) = hs" if "\<forall>h\<in>set hs. host_read e h" for hs
    using that by (induction hs) (auto simp: List.map_filter_simps host_read_ascii(1) [OF assms(1)])
  have mk: "str_Split commentMarker marking = [marking]"
    by (rule Split_none) (use marking_word in \<open>auto simp: list_all_iff word_char_def\<close>)
  have ne: "length (line_hosts l) \<ge> 1" using a(2) by (cases "line_hosts l") auto
  show ?thesis
  proof (cases "line_comments l = []")
    case True
    then show ?thesis using sp t(2,6) hs [OF a(3)] ParseIP_IP_String [OF a(1)] ne a(2)
      by (simp add: ParseLine_def Let_def)
  next
    case False
    with a(4) have "line_comments l = [marking]" by simp
    then show ?thesis using sp t(3,6) hs [OF a(3)] ParseIP_IP_String [OF a(1)] ne a(2) mk
      by (simp add: ParseLine_def Let_def)
  qed
qed

lemma no_newline_append [simp]: "no_newline (s @ t) \<longleftrightarrow> no_newline s \<and> no_newline t"
  by (auto simp: no_newline_def)

lemma no_newline_Cons [simp]: "no_newline (c # t) \<longleftrightarrow> c \<noteq> CHR 0x0A \<and> no_newline t"
  by (auto simp: no_newline_def)

lemma no_newline_Nil [simp]: "no_newline []"
  by (simp add: no_newline_def)

lemma no_newline_Join: "\<forall>t\<in>set ts. no_newline t \<Longrightarrow> sep \<noteq> CHR 0x0A \<Longrightarrow> no_newline (str_Join sep ts)"
  by (induction sep ts rule: str_Join.induct) auto

lemma no_newline_word: "list_all word_char t \<Longrightarrow> no_newline t"
  by (auto simp: no_newline_def list_all_iff word_char_def byte_of_def)

lemma no_newline_Split: "no_newline t \<Longrightarrow> c \<in> set (str_Split sep t) \<Longrightarrow> no_newline c"
  by (induction sep t arbitrary: c rule: str_Split.induct) (auto split: if_splits list.splits)

lemma no_newline_SplitN2: "no_newline t \<Longrightarrow> c \<in> set (str_SplitN2 sep t) \<Longrightarrow> no_newline c"
  by (induction sep t arbitrary: c rule: str_SplitN2.induct) (auto split: if_splits list.splits)

lemma no_newline_take: "no_newline t \<Longrightarrow> no_newline (take n t)"
  by (auto simp: no_newline_def dest: in_set_takeD)

lemma commentMarker_newline [simp]: "commentMarker \<noteq> CHR 0x0A"
  by (simp add: commentMarker_def)

lemma marking_newline [simp]: "no_newline marking"
  using no_newline_word marking_word by blast

text \<open>The lines that are read, and what is printed of them, contain no line feed.\<close>

definition line_read :: "HostsEnv \<Rightarrow> Line \<Rightarrow> bool" where
  "line_read e l \<longleftrightarrow> (\<forall>a. line_ip l = Some a \<longrightarrow> length a = 4 \<or> length a = 16) \<and> (line_ip l = None \<longrightarrow> line_hosts l = [])
     \<and> (\<forall>h\<in>set (line_hosts l). host_read e h) \<and> (\<forall>c\<in>set (line_comments l). no_newline c)"

lemma map_filter_set: "x \<in> set (List.map_filter f xs) \<Longrightarrow> \<exists>y. f y = Some x"
  by (induction xs) (auto simp: List.map_filter_simps split: option.splits)

lemma ParseLine_read:
  assumes "env_os e \<noteq> Darwin" and "no_newline line" and "ParseLine e line lim = (ok, over, l)"
  shows "line_read e l"
proof -
  define top where "top = (if lim then int (length line) else maxCharsPerLine (env_os e) - int (length (LineEnding (env_os e))))"
  define part where "part = (if int (length line) > top then take (nat top) line else line)"
  have p: "no_newline part" using assms(2) by (auto simp: part_def no_newline_take)
  have sp: "splitLine e part = str_SplitN2 commentMarker part" using assms(1) by (simp add: splitLine_def splitLine_other_def)
  define cm where "cm = (if length (splitLine e part) > 1 then str_Split commentMarker (splitLine e part ! 1) else [])"
  have c: "no_newline c" if "c \<in> set cm" for c
  proof -
    from that have "length (splitLine e part) > 1" "c \<in> set (str_Split commentMarker (splitLine e part ! 1))"
      by (auto simp: cm_def split: if_splits)
    then show ?thesis using no_newline_Split no_newline_SplitN2 [OF p] sp by (metis nth_mem)
  qed
  have hr: "h \<in> set (List.map_filter (parseHost e) hs) \<Longrightarrow> host_read e h" for h hs
    unfolding host_read_def by (rule map_filter_set)
  have "l = \<lparr>line_ip = None, line_hosts = [], line_comments = cm\<rparr>
    \<or> (\<exists>a hs. ParseIP (hd (str_Fields (splitLine e part ! 0))) = Some a
        \<and> l = \<lparr>line_ip = Some a, line_hosts = List.map_filter (parseHost e) hs, line_comments = cm\<rparr>)"
    using assms(3) unfolding ParseLine_def Let_def top_def [symmetric] part_def [symmetric] cm_def [symmetric]
    by (simp split: if_split_asm option.split_asm) blast+
  then show ?thesis using c hr ParseIP_length by (auto simp: line_read_def)
qed

lemma Line_String_no_newline:
  assumes "idna_ok e" and "line_read e l"
  shows "no_newline (Line_String e l)"
proof -
  have ip: "no_newline (IP_String a)" if "line_ip l = Some a" for a
    using that assms(2) IP_String_chars [of a] by (intro no_newline_word) (auto simp: line_read_def list_all_iff ip_word_char)
  have hs: "no_newline (str_Join (CHR '' '') (map (env_ToASCII e) (line_hosts l)))"
    using assms host_read_ascii(3) by (intro no_newline_Join) (auto simp: line_read_def intro: no_newline_word)
  have cs: "no_newline (str_Join commentMarker (line_comments l))"
    using assms(2) by (intro no_newline_Join) (auto simp: line_read_def)
  show ?thesis using ip hs cs by (auto simp: Line_String_def Let_def split: option.splits)
qed

lemma writable_read: "writable e l \<Longrightarrow> line_read e l"
  by (auto simp: writable_def line_read_def split: option.splits)

lemma comment_writable: "no_newline t \<Longrightarrow> writable e (comment_of t)"
  by (auto simp: writable_def comment_of_def dest: no_newline_Split)

lemma writable_mark: "writable e l \<Longrightarrow> line_ip l = None \<Longrightarrow> writable e (WithOwnMarking l)"
  by (auto simp: writable_def WithOwnMarking_def)

text \<open>\<open>AddHosts\<close> keeps lines that can be written.\<close>

lemma kept_hosts_subset: "set (kept_hosts e m a hs) \<subseteq> set hs"
  by (auto simp: kept_hosts_def dest: set_zip_leftD)

lemma missing_line_writable:
  assumes "idna_ok e" and "env_os e \<noteq> Darwin" and "no_newline line" and "\<forall>l\<in>set rest. writable e l"
    and "missing_line e line (m, rest) = (m', rest')"
  shows "\<forall>l\<in>set rest'. writable e l"
proof -
  obtain ok over l where p: "ParseLine e line False = (ok, over, l)" by (cases "ParseLine e line False")
  have r: "line_read e l" by (rule ParseLine_read [OF assms(2,3) p])
  have cw: "writable e (comment_of line)" "writable e (WithOwnMarking (comment_of line))" "writable e (WithOwnMarking (WithOwnMarking (comment_of line)))"
    using comment_writable [OF assms(3)] by (auto intro!: writable_mark simp: comment_of_def)
  have sw: "writable e (WithOwnMarking (comment_of (Line_String e l)))"
    using comment_writable [OF Line_String_no_newline [OF assms(1) r]] by (auto intro!: writable_mark simp: comment_of_def)
  show ?thesis
  proof (cases "ok \<and> line_ip l \<noteq> None")
    case False
    have "line_ip l = None \<Longrightarrow> writable e l" using r by (auto simp: writable_def line_read_def)
    with False assms(4,5) missing_line_comment [OF p, of m rest] cw show ?thesis by auto
  next
    case True
    then obtain a where ok: ok and a: "line_ip l = Some a" by auto
    have kw: "writable e \<lparr>line_ip = Some a, line_hosts = k, line_comments = []\<rparr>"
      "writable e (WithOwnMarking \<lparr>line_ip = Some a, line_hosts = k, line_comments = []\<rparr>)"
      if "k \<noteq> []" "set k \<subseteq> set (line_hosts l)" for k
      using that r a by (auto simp: writable_def line_read_def WithOwnMarking_def hasOwnMarking_def)
    show ?thesis using assms(4,5) missing_line_active [of e line over l a m rest] p ok a cw sw
        kw [OF _ kept_hosts_subset [of e m a "line_hosts l"]]
      by (auto simp: Let_def split: if_splits)
  qed
qed

lemma missing_lines_writable:
  "fold (missing_line e) lines (m, rest) = (m', rest') \<Longrightarrow> idna_ok e \<Longrightarrow> env_os e \<noteq> Darwin \<Longrightarrow> \<forall>l\<in>set lines. no_newline l \<Longrightarrow>
   \<forall>l\<in>set rest. writable e l \<Longrightarrow> \<forall>l\<in>set rest'. writable e l"
proof (induction lines arbitrary: m rest)
  case (Cons line lines)
  obtain m1 rest1 where s: "missing_line e line (m, rest) = (m1, rest1)" by force
  have "\<forall>l\<in>set rest1. writable e l" using missing_line_writable [OF Cons.prems(2,3) _ Cons.prems(5) s] Cons.prems(4) by simp
  with Cons.IH [of m1 rest1] Cons.prems s show ?case by simp
qed simp

lemma claim_hosts_subset: "claim_hosts m a hs = (m', hits) \<Longrightarrow> set m' \<subseteq> set m"
proof (induction hs arbitrary: m m' hits)
  case (Cons h hs)
  then show ?case by (auto simp: Let_def split: prod.splits if_splits) (fastforce simp: AList.delete_eq)+
qed simp

lemma missing_lines_subset: "fold (missing_line e) lines (m, rest) = (m', rest') \<Longrightarrow> set m' \<subseteq> set m"
proof (induction lines arbitrary: m rest)
  case (Cons line lines)
  obtain m1 rest1 where s: "missing_line e line (m, rest) = (m1, rest1)" by force
  have "set m1 \<subseteq> set m"
  proof -
    obtain ok over l where p: "ParseLine e line False = (ok, over, l)" by (cases "ParseLine e line False")
    show ?thesis
    proof (cases "ok \<and> line_ip l \<noteq> None")
      case False
      with missing_line_comment [OF p, of m rest] s show ?thesis by auto
    next
      case True
      then obtain a where "ok" "line_ip l = Some a" by auto
      then show ?thesis using missing_line_active [of e line over l a m rest] p s claim_hosts_subset [of m a "line_hosts l"]
        by (cases "claim_hosts m a (line_hosts l)") (auto simp: Let_def)
    qed
  qed
  with Cons.IH [of m1 rest1] Cons.prems s show ?case by auto
qed simp

section \<open>The text that is written\<close>

lemma Join_nil: "concat (map (\<lambda>x. le @ f x) xs) @ le = le @ concat (map (\<lambda>x. f x @ le) xs)"
  by (induction xs) auto

lemma new_text_lines:
  "new_text e le m rest = concat (map (\<lambda>l. Line_String e l @ le)
     (rest @ \<lparr>line_ip = None, line_hosts = [], line_comments = []\<rparr> # map own_line m))"
  by (simp add: new_text_def Mappings_String_def Join_nil Line_String_def o_def)

lemma Split_lines:
  "\<forall>x\<in>set xs. no_newline (f x) \<Longrightarrow>
   str_Split (CHR 0x0A) (concat (map (\<lambda>x. f x @ [CHR 0x0A]) xs) @ r) = map f xs @ str_Split (CHR 0x0A) r"
  by (induction xs) (simp_all add: Split_cut no_newline_def)

lemma scan_written:
  assumes "\<forall>x\<in>set xs. no_newline (f x)" and "snd (scan_lines (concat (map (\<lambda>x. f x @ [CHR 0x0A]) xs)))"
  shows "fst (scan_lines (concat (map (\<lambda>x. f x @ [CHR 0x0A]) xs))) = map (\<lambda>x. drop_cr (f x)) xs"
proof -
  have sp: "str_Split (CHR 0x0A) (concat (map (\<lambda>x. f x @ [CHR 0x0A]) xs)) = map f xs @ [[]]"
    using Split_lines [OF assms(1), of "[]"] by simp
  then have ok: "length (takeWhile (\<lambda>l. int (length l) < 65536) (map f xs)) = length (map f xs)"
    using assms(2) by (simp add: scan_lines_def Let_def)
  then have tw: "takeWhile (\<lambda>l. int (length l) < 65536) (map f xs) = map f xs"
    by (metis takeWhile_eq_take take_all_iff order_refl)
  have "fst (scan_lines (concat (map (\<lambda>x. f x @ [CHR 0x0A]) xs))) = map drop_cr (takeWhile (\<lambda>l. int (length l) < 65536) (map f xs))"
    by (simp add: scan_lines_def sp Let_def)
  then show ?thesis by (simp only: tw map_map o_def)
qed

text \<open>Reading the lines written gives the same addresses.\<close>

lemma drop_cr_active:
  assumes "idna_ok e" and "writable e l" and "line_ip l = Some a"
  shows "drop_cr (Line_String e l) = Line_String e l"
proof -
  note t = active_text [OF assms]
  have "word_char (last (Line_String e l))"
    using t(1,6,7) marking_word by (cases "line_comments l = []") (simp_all add: list_all_iff marking_def)
  then have "last (Line_String e l) \<noteq> CHR 0x0D" by (auto simp: word_char_def byte_of_def)
  then show ?thesis by (simp add: drop_cr_def)
qed

lemma ParseLine_empty: "ParseLine e [] True = (True, False, \<lparr>line_ip = None, line_hosts = [], line_comments = []\<rparr>)"
  by (simp add: ParseLine_def splitLine_def splitLine_darwin_def splitLine_other_def Let_def)

lemma comment_text: "line_ip l = None \<Longrightarrow> drop_cr (Line_String e l) = [] \<or> (\<exists>t. drop_cr (Line_String e l) = commentMarker # t)"
  by (auto simp: Line_String_def drop_cr_def commentMarker_def Let_def)

lemma read_written:
  assumes "idna_ok e" and "env_os e \<noteq> Darwin" and "\<forall>l\<in>set ls. writable e l"
  shows "occurrences h (read_lines e True (map (\<lambda>l. drop_cr (Line_String e l)) ls)) = map To16 (occurrences h ls)"
  using assms(3)
proof (induction ls)
  case Nil
  then show ?case by (simp add: read_lines_def List.map_filter_simps)
next
  case (Cons l ls)
  have one: "occurrences h (read_lines e True [drop_cr (Line_String e l)]) = map To16 (line_occurs h l)"
  proof (cases "line_ip l")
    case None
    from comment_text [OF None, of e] show ?thesis using None
      by (auto simp: read_lines_def List.map_filter_simps ParseLine_empty ParseLine_comment OnlyComments_def line_occurs_def)
  next
    case (Some a)
    have w: "writable e l" using Cons.prems by simp
    show ?thesis using ParseLine_written [OF assms(1,2) w Some] drop_cr_active [OF assms(1) w Some] Some
      by (simp add: read_lines_def List.map_filter_simps OnlyComments_def occurrences_Cons line_occurs_def occurs_def)
  qed
  have "read_lines e True (x # xs) = read_lines e True [x] @ read_lines e True xs" for x xs
    by (auto simp: read_lines_def List.map_filter_simps split: option.splits)
  from this [of "drop_cr (Line_String e l)" "map (\<lambda>l. drop_cr (Line_String e l)) ls"] one Cons show ?case
    by (simp add: occurrences_append occurrences_Cons)
qed

text \<open>Leaving out hosts that were seen does not change what comes first.\<close>

lemma new_hosts_spec:
  "new_hosts added hs = (fin, added') \<Longrightarrow>
   set added' = set added \<union> set hs \<and> filter (\<lambda>x. x = h) fin = (if h \<in> set added \<or> h \<notin> set hs then [] else [h])"
  by (induction hs arbitrary: added fin) (auto split: if_splits prod.splits)

lemma lookup_collect:
  "lookup_host (collect_lines e added lines) h = (if h \<in> set added then None else lookup_host (read_lines e True lines) h)"
proof (induction lines arbitrary: added)
  case Nil
  then show ?case by (simp add: lookup_host_def read_lines_def List.map_filter_simps)
next
  case (Cons line lines)
  obtain ok over l where p: "ParseLine e line True = (ok, over, l)" by (cases "ParseLine e line True")
  show ?case
  proof (cases "ok \<and> \<not> OnlyComments l")
    case False
    then show ?thesis using p Cons by (auto simp: read_lines_def List.map_filter_simps)
  next
    case True
    then obtain a where a: "line_ip l = Some a" using ParseLine_ip [OF p] by auto
    obtain fin added' where n: "new_hosts added (line_hosts l) = (fin, added')" by force
    have r: "read_lines e True (line # lines) = l # read_lines e True lines"
      using True p by (simp add: read_lines_def List.map_filter_simps)
    define out where "out = occurrences h (if fin \<noteq> [] then [WithOwnMarking \<lparr>line_ip = Some a, line_hosts = fin, line_comments = []\<rparr>] else [])"
    have out: "out = (if h \<in> set added \<or> h \<notin> set (line_hosts l) then [] else [a])"
      using new_hosts_spec [OF n, of h] by (auto simp: out_def occurrences_Cons occurs_def)
    have c: "occurrences h (collect_lines e added (line # lines)) = out @ occurrences h (collect_lines e added' lines)"
      using True p n a by (simp add: out_def occurrences_append)
    have f: "filter (\<lambda>x. x = h) (line_hosts l) = [] \<longleftrightarrow> h \<notin> set (line_hosts l)" by (auto simp: filter_empty_conv)
    show ?thesis
    proof (cases "h \<in> set added")
      case True
      then have "h \<in> set added'" using new_hosts_spec [OF n, of h] by simp
      with Cons [of added'] True c out show ?thesis by (auto simp: lookup_host_def split: list.splits)
    next
      case False
      show ?thesis
      proof (cases "h \<in> set (line_hosts l)")
        case True
        with f obtain z zs where "filter (\<lambda>x. x = h) (line_hosts l) = z # zs" by (cases "filter (\<lambda>x. x = h) (line_hosts l)") auto
        with False True c out r a show ?thesis by (simp add: lookup_host_def occurrences_Cons line_occurs_def occurs_def)
      next
        case nf: False
        then have "h \<notin> set added'" using False new_hosts_spec [OF n, of h] by simp
        with nf False c out r a f Cons [of added'] show ?thesis
          by (simp add: lookup_host_def occurrences_Cons line_occurs_def occurs_def)
      qed
    qed
  qed
qed

lemma lookup_own_lines: "lookup_host (map own_line m) h = map_of m h"
  by (induction m) (auto simp: lookup_host_def occurrences_Cons own_line_def occurs_def)

lemma scan_lines_newline: "line \<in> set (fst (scan_lines t)) \<Longrightarrow> no_newline line"
proof -
  assume l: "line \<in> set (fst (scan_lines t))"
  have pieces: "p \<in> set (str_Split (CHR 0x0A) u) \<Longrightarrow> no_newline p" for p u
    by (induction u arbitrary: p) (auto split: if_splits list.splits)
  have cr: "no_newline p \<Longrightarrow> no_newline (drop_cr p)" for p
    by (auto simp: drop_cr_def no_newline_def dest: in_set_butlastD)
  from l obtain p where "line = drop_cr p" "p \<in> set (str_Split (CHR 0x0A) t)"
    by (auto simp: scan_lines_def Let_def dest!: set_takeWhileD split: if_splits dest: in_set_butlastD)
  then show ?thesis using pieces cr by blast
qed

text \<open>Where the code finds a name: the first address of the list, less the one taken as done.\<close>

definition address_after :: "IP \<Rightarrow> IP list \<Rightarrow> IP option" where
  "address_after ip as = (case as of
      [] \<Rightarrow> Some ip
    | a # as' \<Rightarrow> if IP_Equal ip a then (case as' of [] \<Rightarrow> None | b # _ \<Rightarrow> Some b) else Some a)"

lemma address_after_map:
  "\<forall>a\<in>set as. length a = 16 \<Longrightarrow> map_option To16 (address_after ip as) = (if as = [] then Some (To16 ip) else address_after ip as)"
  by (auto simp: address_after_def To16_def split: list.splits)

lemma occurrences_length:
  assumes "env_os e \<noteq> Darwin" and "a \<in> set (occurrences h (read_lines e lim lines))"
  shows "length a = 16"
proof -
  have ip: "length a = 16" if "ParseLine e line lim = (ok, over, l)" "line_ip l = Some a" for line ok over l a
    using that ParseIP_length by (auto simp: ParseLine_def Let_def split: if_splits option.splits)
  show ?thesis using assms(2)
  proof (induction lines)
    case Nil
    then show ?case by (simp add: read_lines_def List.map_filter_simps)
  next
    case (Cons line lines)
    obtain ok over l where p: "ParseLine e line lim = (ok, over, l)" by (cases "ParseLine e line lim")
    show ?case using Cons p ip [OF p]
      by (auto simp: read_lines_def List.map_filter_simps occurrences_Cons line_occurs_def occurs_def split: if_splits option.splits)
  qed
qed

lemma address_of_written:
  assumes "idna_ok e" and "env_os e = Linux" and "\<forall>l\<in>set (rest @ map own_line m). writable e l"
    and "snd (GetAllLines e (new_text e [CHR 0x0A] m rest))"
  shows "host_address e (new_text e [CHR 0x0A] m rest) h
    = map_option To16 (case occurrences h rest of [] \<Rightarrow> map_of m h | a # _ \<Rightarrow> Some a)"
proof -
  define ls where "ls = rest @ \<lparr>line_ip = None, line_hosts = [], line_comments = []\<rparr> # map own_line m"
  define t where "t = concat (map (\<lambda>l. Line_String e l @ [CHR 0x0A]) ls)"
  have nt: "new_text e [CHR 0x0A] m rest = t" by (simp only: new_text_lines t_def ls_def)
  have w: "\<forall>l\<in>set ls. writable e l" using assms(3) by (auto simp: ls_def writable_def)
  have dec: "Decode e t = Some t" and ok: "snd (scan_lines t)"
    using assms(2,4) unfolding nt by (auto simp: GetAllLines_def Decode_def decode_bytes_def Let_def split: option.splits if_splits prod.splits)
  have nl: "\<forall>l\<in>set ls. no_newline (Line_String e l)"
    using w Line_String_no_newline [OF assms(1)] writable_read by blast
  have sc: "fst (scan_lines t) = map (\<lambda>l. drop_cr (Line_String e l)) ls"
    unfolding t_def by (rule scan_written) (use nl ok in \<open>simp_all add: t_def\<close>)
  have "fst (GetAllLines e t) = collect_lines e [] (map (\<lambda>l. drop_cr (Line_String e l)) ls)"
    using dec sc by (cases "scan_lines t") (simp add: GetAllLines_def)
  then have "host_address e t h = lookup_host (read_lines e True (map (\<lambda>l. drop_cr (Line_String e l)) ls)) h"
    by (simp add: host_address_def lookup_collect)
  also have "\<dots> = map_option To16 (case occurrences h ls of [] \<Rightarrow> None | a # _ \<Rightarrow> Some a)"
    using read_written [OF assms(1) _ w, of h] assms(2) by (simp add: lookup_host_def split: list.splits)
  also have "(case occurrences h ls of [] \<Rightarrow> None | a # _ \<Rightarrow> Some a) = (case occurrences h rest of [] \<Rightarrow> map_of m h | a # _ \<Rightarrow> Some a)"
    using lookup_own_lines [of m h] by (simp add: ls_def occurrences_append occurrences_Cons line_occurs_def lookup_host_def split: list.splits)
  finally show ?thesis by (simp only: nt)
qed


section \<open>Restoring in place\<close>

text \<open>
  A line that printing gives back: it is within the limits, does not end in the mark of the program, and is blank, a
  comment, a line that is no mapping, or a mapping without a comment as the program itself would print it.
\<close>

definition plain_line :: "HostsEnv \<Rightarrow> string \<Rightarrow> bool" where
  "plain_line e l \<longleftrightarrow> no_newline l \<and> drop_cr l = l \<and> last (str_Split commentMarker l) \<noteq> marking
     \<and> (case ParseLine e l False of (ok, over, p) \<Rightarrow>
          \<not> over \<and> (ok \<longrightarrow> Line_String e p = l \<and> (line_ip p \<noteq> None \<longrightarrow> line_comments p = [])))"

lemma Split_marking: "str_Split commentMarker marking = [marking]"
  by (rule Split_none) (use marking_word in \<open>auto simp: list_all_iff word_char_def\<close>)

lemma drop_cr_marking: "drop_cr (t @ marking) = t @ marking"
  by (simp add: drop_cr_def marking_def)

text \<open>A line that was commented out comes back.\<close>

lemma restore_commented:
  assumes "last (str_Split commentMarker t) \<noteq> marking"
  shows "restore_line e (drop_cr (Line_String e (WithOwnMarking (comment_of t)))) = Ret (Some t)"
proof -
  have m: "WithOwnMarking (comment_of t) = \<lparr>line_ip = None, line_hosts = [], line_comments = str_Split commentMarker t @ [marking]\<rparr>"
    using assms by (simp add: WithOwnMarking_def hasOwnMarking_def comment_of_def)
  have s: "Line_String e (WithOwnMarking (comment_of t)) = (commentMarker # t @ [commentMarker]) @ marking"
    by (simp add: m Line_String_def Join_append Join_Split)
  have p: "ParseLine e ((commentMarker # t @ [commentMarker]) @ marking) True
    = (True, False, \<lparr>line_ip = None, line_hosts = [], line_comments = str_Split commentMarker t @ [marking]\<rparr>)"
    using ParseLine_comment [of e "t @ commentMarker # marking"] by (simp add: Split_append Split_marking)
  obtain c cs where c: "str_Split commentMarker t = c # cs" by (cases "str_Split commentMarker t") auto
  have "c @ (if cs = [] then [] else commentMarker # str_Join commentMarker cs) = t"
    using Join_Split [of commentMarker t] c by (cases cs) auto
  with c show ?thesis unfolding s drop_cr_marking restore_line_def p
    by (simp add: hasOwnMarking_def OnlyComments_def Uncommented_def WithoutOwnMarking_def)
qed

lemma ParseLine_in_limit:
  "ParseLine e l False = (ok, False, p) \<Longrightarrow> ParseLine e l True = (ok, False, p)"
  by (auto simp: ParseLine_def Let_def split: if_splits option.splits)

text \<open>What is written for one plain line is restored to that line.\<close>

lemma restore_missing_line:
  assumes e: "idna_ok e" "env_os e = Linux" and l: "plain_line e l"
  shows "\<exists>new m'. missing_line e l (m, rest) = (m', rest @ new) \<and>
    restore_lines e (map (\<lambda>x. drop_cr (Line_String e x)) new) = Ret [l]"
proof -
  obtain ok over p where p: "ParseLine e l False = (ok, over, p)" by (cases "ParseLine e l False")
  from l p have pl: "no_newline l" "drop_cr l = l" "last (str_Split commentMarker l) \<noteq> marking" "\<not> over"
    "ok \<longrightarrow> Line_String e p = l" "ok \<longrightarrow> line_ip p \<noteq> None \<longrightarrow> line_comments p = []" by (auto simp: plain_line_def)
  have pt: "ParseLine e l True = (ok, False, p)" using p pl(4) by (auto intro: ParseLine_in_limit)
  have nd: "env_os e \<noteq> Darwin" using e(2) by simp
  show ?thesis
  proof (cases "ok \<and> line_ip p \<noteq> None")
    case False
    show ?thesis
    proof (cases ok)
      case no: False
      show ?thesis using missing_line_comment [OF p, of m rest] no restore_commented [OF pl(3)] by auto
    next
      case True
      with False have n: "line_ip p = None" by simp
      have "\<not> hasOwnMarking p"
      proof (cases l)
        case Nil
        then show ?thesis using pt by (auto simp: ParseLine_empty hasOwnMarking_def)
      next
        case (Cons c t)
        have "c = commentMarker"
        proof (rule ccontr)
          assume "c \<noteq> commentMarker"
          then have "splitLine e l ! 0 \<noteq> []" using Cons e(2)
            by (cases "str_SplitN2 commentMarker t") (auto simp: splitLine_def splitLine_other_def)
          then show False using pt n True by (auto simp: ParseLine_def Let_def split: if_splits option.splits)
        qed
        then show ?thesis using pt pl(3) Cons by (auto simp: ParseLine_comment hasOwnMarking_def)
      qed
      then show ?thesis using missing_line_comment [OF p, of m rest] True n pl(2,5) pt
        by (intro exI [of _ "[p]"] exI [of _ m]) (simp add: restore_line_def)
    qed
  next
    case True
    then obtain a where ok: ok and a: "line_ip p = Some a" by auto
    from p pl(4) ok have pf: "ParseLine e l False = (True, False, p)" by simp
    have rd: "line_read e p" by (rule ParseLine_read [OF nd pl(1) p])
    define hs where "hs = line_hosts p"
    define kept where "kept = kept_hosts e m a hs"
    have hs: "hs \<noteq> []" using pt ok a by (auto simp: hs_def ParseLine_def Let_def split: if_splits option.splits)
    have pe: "p = \<lparr>line_ip = Some a, line_hosts = hs, line_comments = []\<rparr>" using pl(6) ok a by (simp add: hs_def)
    have kl: "length kept \<le> length hs" "length kept = length hs \<Longrightarrow> kept = hs"
    proof -
      have z: "length (filter P xs) = length xs \<Longrightarrow> filter P xs = xs" for P and xs :: "(string \<times> bool) list"
        by (metis filter_True length_filter_less less_irrefl)
      have lh: "length (snd (claim_hosts m a hs)) = length hs" for m
        by (induction m a hs rule: claim_hosts.induct) (auto simp: Let_def split: prod.splits)
      have zl: "length (zip hs (snd (claim_hosts m a hs))) = length hs" by (simp add: lh)
      show "length kept \<le> length hs" unfolding kept_def kept_hosts_def by (metis length_filter_le length_map zl)
      assume "length kept = length hs"
      then have "filter (\<lambda>(h, hit). \<not> hit \<and> \<not> commentHost e h) (zip hs (snd (claim_hosts m a hs))) = zip hs (snd (claim_hosts m a hs))"
        by (intro z) (simp add: kept_def kept_hosts_def lh)
      then show "kept = hs" using lh by (simp add: kept_def kept_hosts_def)
    qed
    define own where "own = (if kept = [] then [] else [WithOwnMarking \<lparr>line_ip = Some a, line_hosts = kept, line_comments = []\<rparr>])"
    have ow: "restore_lines e (map (\<lambda>x. drop_cr (Line_String e x)) own) = Ret []"
    proof (cases "kept = []")
      case True
      then show ?thesis by (simp add: own_def)
    next
      case False
      let ?o = "WithOwnMarking \<lparr>line_ip = Some a, line_hosts = kept, line_comments = []\<rparr>"
      have w: "writable e ?o" using False rd a kept_hosts_subset [of e m a hs]
        by (auto simp: writable_def line_read_def WithOwnMarking_def hasOwnMarking_def kept_def hs_def)
      have ip: "line_ip ?o = Some a" by simp
      have "restore_line e (drop_cr (Line_String e ?o)) = Ret None"
        using ParseLine_written [OF e(1) nd w ip] drop_cr_active [OF e(1) w ip]
        by (simp add: restore_line_def hasOwnMarking_def OnlyComments_def WithOwnMarking_def)
      with False show ?thesis by (simp add: own_def)
    qed
    show ?thesis
    proof (cases "length kept < length hs")
      case True
      then have "missing_line e l (m, rest) = (fst (claim_hosts m a hs), rest @ WithOwnMarking (comment_of l) # own)"
        using missing_line_active [OF pf a, of m rest] pl(5) ok by (simp add: Let_def hs_def [symmetric] kept_def [symmetric] own_def)
      then show ?thesis using restore_commented [OF pl(3), of e] ow
        by (intro exI [of _ "WithOwnMarking (comment_of l) # own"] exI [of _ "fst (claim_hosts m a hs)"]) simp
    next
      case False
      then have k: "kept = hs" using kl by simp
      then have "missing_line e l (m, rest) = (fst (claim_hosts m a hs), rest @ [p])"
        using missing_line_active [OF pf a, of m rest] hs by (simp add: Let_def hs_def [symmetric] kept_def [symmetric] pe [symmetric])
      moreover have "restore_line e l = Ret (Some l)"
        using pt ok pe by (simp add: restore_line_def hasOwnMarking_def)
      ultimately show ?thesis using pl(2,5) ok
        by (intro exI [of _ "[p]"] exI [of _ "fst (claim_hosts m a hs)"]) simp
    qed
  qed
qed

lemma restore_lines_append:
  "restore_lines e xs = Ret as \<Longrightarrow> restore_lines e ys = Ret bs \<Longrightarrow> restore_lines e (xs @ ys) = Ret (as @ bs)"
  by (induction xs arbitrary: as) (auto split: outcome.splits)

lemma restore_missing_lines:
  "idna_ok e \<Longrightarrow> env_os e = Linux \<Longrightarrow> \<forall>l\<in>set lines. plain_line e l \<Longrightarrow>
   \<exists>new m'. fold (missing_line e) lines (m, rest) = (m', rest @ new)
     \<and> restore_lines e (map (\<lambda>x. drop_cr (Line_String e x)) new) = Ret lines"
proof (induction lines arbitrary: m rest)
  case (Cons l lines)
  from restore_missing_line [OF Cons.prems(1,2), of l m rest] Cons.prems(3) obtain new1 m1 where
    s: "missing_line e l (m, rest) = (m1, rest @ new1)" "restore_lines e (map (\<lambda>x. drop_cr (Line_String e x)) new1) = Ret [l]" by auto
  from Cons.IH [OF Cons.prems(1,2), of m1 "rest @ new1"] Cons.prems(3) obtain new2 m2 where
    t: "fold (missing_line e) lines (m1, rest @ new1) = (m2, (rest @ new1) @ new2)"
      "restore_lines e (map (\<lambda>x. drop_cr (Line_String e x)) new2) = Ret lines" by auto
  show ?case using s t restore_lines_append [OF s(2) t(2)]
    by (intro exI [of _ "new1 @ new2"] exI [of _ m2]) simp
qed simp

lemma restore_own_lines:
  assumes "idna_ok e" and "env_os e = Linux" and "\<forall>l\<in>set (map own_line m). writable e l"
  shows "restore_lines e (map (\<lambda>x. drop_cr (Line_String e x)) (map own_line m)) = Ret []"
  using assms(3)
proof (induction m)
  case (Cons hi m)
  have w: "writable e (own_line hi)" and ip: "line_ip (own_line hi) = Some (snd hi)" using Cons.prems by (simp_all add: own_line_def)
  have "restore_line e (drop_cr (Line_String e (own_line hi))) = Ret None"
    using ParseLine_written [OF assms(1) _ w ip] drop_cr_active [OF assms(1) w ip] assms(2)
    by (simp add: restore_line_def hasOwnMarking_def OnlyComments_def own_line_def WithOwnMarking_def)
  with Cons show ?case by simp
qed simp

lemma restore_blank: "restore_line e [] = Ret (Some [])"
  by (simp add: restore_line_def ParseLine_empty hasOwnMarking_def)

definition unlines :: "string list \<Rightarrow> string" where
  "unlines ls = concat (map (\<lambda>l. l @ [CHR 0x0A]) ls)"

lemma Join_unlines: "Join_lines [CHR 0x0A] (ls @ [[]]) = unlines ls"
proof (induction ls)
  case (Cons l ls)
  then show ?case by (cases "ls @ [[]]") (auto simp: unlines_def)
qed (simp add: unlines_def)

lemma plain_short: "env_os e = Linux \<Longrightarrow> plain_line e l \<Longrightarrow> length l < 65536"
  by (auto simp: plain_line_def ParseLine_def Let_def maxCharsPerLine_def LineEnding_def split: if_splits option.splits)

lemma scan_plain:
  assumes "env_os e = Linux" and "\<forall>l\<in>set ls. plain_line e l"
  shows "scan_lines (unlines ls) = (ls, True)"
proof -
  have nl: "\<forall>l\<in>set ls. no_newline l" "\<forall>l\<in>set ls. drop_cr l = l" "\<forall>l\<in>set ls. length l < 65536"
    using assms plain_short by (auto simp: plain_line_def)
  have "str_Split (CHR 0x0A) (unlines ls) = ls @ [[]]"
    using Split_lines [of ls "\<lambda>l. l" "[]"] nl(1) by (simp add: unlines_def)
  moreover have "map drop_cr ls = ls" using nl(2) by (simp add: map_idI)
  moreover have tw: "takeWhile (\<lambda>l. length l < 65536) ls = ls" unfolding takeWhile_eq_all_conv using nl(3) .
  ultimately show ?thesis by (simp add: scan_lines_def Let_def tw del: takeWhile_eq_all_conv)
qed

text \<open>
  C25: without a backup, removing the mappings works on the hosts file itself, and gives back a file whose lines are
  plain: blank, comments, text that is no mapping, and mappings as the program prints them.  If mappings were added to such a
  file of a Linux system, the new file is longer and can be read, then restoring in place yields the old file, byte for byte,
  and changes no other file.
\<close>

theorem restoreInPlace_undoes_AddHosts:
  assumes "env_os e = Linux" and "idna_ok e" and "\<forall>(h, ip)\<in>set m. host_read e h \<and> (length ip = 4 \<or> length ip = 16)"
    and "\<forall>l\<in>set ls. plain_line e l" and "disk_files d (hosts_Path e) = Some (unlines ls, t)"
    and "AddHosts_mappings e io m [] [] fl d = (Ret True, d1)"
    and "disk_files d1 (hosts_Path e) = Some (new, t1)" and "length (unlines ls) < length new" and "snd (GetAllLines e new)"
    and "io_fails io' = (\<lambda>_. False)" and "restoreInPlace e io' d1 = (r, d2)"
  shows "r = Ret True \<and> disk_files d2 = (disk_files d1)(hosts_Path e \<mapsto> (unlines ls, io_write_time io'))"
proof -
  obtain missing rest ok where q: "missingIpMappings e m (unlines ls) = ((missing, rest), ok)"
    by (cases "missingIpMappings e m (unlines ls)") auto
  from AddHosts_success [OF assms(6,5) q] assms(5,7,8) have ok: ok and
    "new = new_text e [CHR 0x0A] missing rest @ drop (length (new_text e [CHR 0x0A] missing rest)) (unlines ls)"
    by (auto simp: Let_def LineEnding_def assms(1))
  with assms(8) have new: "new = new_text e [CHR 0x0A] missing rest"
    by (cases "length (new_text e [CHR 0x0A] missing rest) \<le> length (unlines ls)") simp_all
  from restore_missing_lines [OF assms(2,1,4), of m "[]"] obtain rest1 m1 where
    f1: "fold (missing_line e) ls (m, []) = (m1, rest1)" and rl: "restore_lines e (map (\<lambda>x. drop_cr (Line_String e x)) rest1) = Ret ls"
    by auto
  have dec: "Decode e (unlines ls) = Some (unlines ls)" using q ok assms(1)
    by (auto simp: missingIpMappings_def Decode_def decode_bytes_def Let_def split: option.splits if_splits)
  have f: "m1 = missing" "rest1 = rest"
    using q f1 dec scan_plain [OF assms(1,4)] by (auto simp: missingIpMappings_def)
  have own: "\<forall>l\<in>set (map own_line missing). writable e l"
  proof -
    have "host_read e (fst p) \<and> (length (snd p) = 4 \<or> length (snd p) = 16)" if "p \<in> set missing" for p
      using assms(3) missing_lines_subset [OF f1] f that by (cases p) auto
    then show ?thesis by (auto simp: own_line_def writable_def WithOwnMarking_def hasOwnMarking_def)
  qed
  define all where "all = rest @ \<lparr>line_ip = None, line_hosts = [], line_comments = []\<rparr> # map own_line missing"
  have w: "\<forall>l\<in>set all. writable e l"
    using missing_lines_writable [OF f1 assms(2)] assms(1,4) f own by (auto simp: all_def writable_def plain_line_def)
  have nt: "new = unlines (map (Line_String e) all)"
    by (simp add: new new_text_lines all_def unlines_def o_def)
  have dn: "Decode e new = Some new" and sk: "snd (scan_lines new)"
    using assms(1,9) by (auto simp: GetAllLines_def Decode_def decode_bytes_def Let_def split: option.splits if_splits prod.splits)
  have "fst (scan_lines new) = map (\<lambda>l. drop_cr (Line_String e l)) all"
    using scan_written [of all "Line_String e"] w Line_String_no_newline [OF assms(2)] writable_read sk
    by (simp add: nt unlines_def o_def)
  then have sc: "scan_lines new = (map (\<lambda>l. drop_cr (Line_String e l)) all, True)" using sk by (cases "scan_lines new") auto
  have "restore_lines e (map (\<lambda>l. drop_cr (Line_String e l)) all) = Ret (ls @ [[]] @ [])"
    unfolding all_def map_append list.map
    by (intro restore_lines_append) (use rl f restore_own_lines [OF assms(2,1) own] in
      \<open>simp_all add: restore_blank Line_String_def drop_cr_def o_def\<close>)
  then have u: "restoreInPlace_updater e io' (Encoding new) \<lparr>os_data = new, os_pos = length new\<rparr> d1
    = (Ret True, os_Truncate (length (unlines ls)) (WriteString (unlines ls) (Seek_start \<lparr>os_data = new, os_pos = length new\<rparr>)), d1)"
    using sc assms(1,10) by (simp add: restoreInPlace_updater_def decode_bytes_def encode_text_def LineEnding_def Join_unlines)
  have g: "GetEncoding e (Encoding new)" using dn by (auto simp: Decode_def Let_def split: if_splits)
  have "restoreInPlace e io' d1 = (Ret True, (let d2 = put_file (hosts_Path e) (unlines ls) (io_write_time io') d1
      in d2\<lparr>disk_flushes := disk_flushes d2 + 1\<rparr>))"
    using assms(7,10) g u by (simp add: restoreInPlace_def UpdateHosts_def Let_def)
  then have "r = Ret True" "disk_files d2 = (disk_files d1)(hosts_Path e \<mapsto> (unlines ls, io_write_time io'))"
    using assms(11) by (auto simp: Let_def)
  then show ?thesis ..
qed

text \<open>A comment that is only the mark of the program makes the removal panic.\<close>

lemma restore_marking_panics: "restore_line e (commentMarker # marking) = Panic"
  by (simp add: restore_line_def ParseLine_comment Split_marking hasOwnMarking_def OnlyComments_def WithoutOwnMarking_def Uncommented_def)

text \<open>Restoring in place removes an old backup, also when it fails.\<close>

lemma RemoveHosts_drops_backup:
  assumes "disk_files d (hosts_Path e) = Some (c, t)" and "disk_files d (backup_Path e) = Some (b, u)"
    and "\<not> t < u + one_second" and "\<not> io_fails io OpenHosts" and "\<not> io_fails io OpenBackup"
    and "\<not> io_fails io StatBackup" and "\<not> io_fails io StatHosts"
    and "restoreInPlace e io d = (r, d1)" and "RemoveHosts e io d = (r', d2)"
  shows "r' = r \<and> disk_files d2 (backup_Path e) = None"
  using assms by (auto simp: RemoveHosts_def Let_def)

section \<open>Examples\<close>

text \<open>A Linux machine on which no name is converted, and the mappings of two names to one address.\<close>

definition hosts_example :: HostsEnv where
  "hosts_example = \<lparr>env_os = Linux, env_ToUnicode = (\<lambda>h. if h \<noteq> [] \<and> list_all host_char h then Some h else None),
     env_ToASCII = (\<lambda>h. h), env_decode = (\<lambda>_ _. None), env_encode = (\<lambda>_ _. None), env_Hostname = None, env_windir = []\<rparr>"

definition example_mappings :: HostMappings where
  "example_mappings = [(''a.com'', [10, 0, 0, 1]), (''b.com'', [10, 0, 0, 1]), (''c.com'', [10, 0, 0, 1])]"

definition example_hosts :: string where
  "example_hosts = unlines [''# names'', ''10.0.0.1'' @ [CHR 0x09] @ ''a.com'', ''9.9.9.9'' @ [CHR 0x09] @ ''b.com'']"

definition example_disk :: HostsDisk where
  "example_disk = \<lparr>disk_files = [''/etc/hosts'' \<mapsto> (example_hosts, 0)], disk_flushes = 0\<rparr>"

definition example_io :: HostsIO where
  "example_io = \<lparr>io_fails = (\<lambda>_. False), io_partial = 0, io_backup_time = 1, io_write_time = 2\<rparr>"

lemma hosts_example_os [simp]: "env_os hosts_example = Linux"
  by (simp add: hosts_example_def)

lemma hosts_example_ok: "idna_ok hosts_example"
  by (simp add: idna_ok_def hosts_example_def)

definition example_rest :: "Line list" where
  "example_rest = [comment_of '' names'', WithOwnMarking (comment_of (''10.0.0.1'' @ [CHR 0x09] @ ''a.com'')),
     \<lparr>line_ip = Some (v4InV6Prefix @ [9, 9, 9, 9]), line_hosts = [''b.com''], line_comments = []\<rparr>]"

definition example_new :: string where
  "example_new = new_text hosts_example [CHR 0x0A] (tl example_mappings) example_rest"

lemma hosts_example_missing: "missingIpMappings hosts_example example_mappings example_hosts = ((tl example_mappings, example_rest), True)"
  by code_simp

lemma hosts_example_new_readable: "snd (GetAllLines hosts_example example_new)"
  by code_simp

lemma hosts_example_longer: "length example_hosts < length example_new"
  by code_simp

lemma hosts_example_lines:
  "read_lines hosts_example False (fst (scan_lines example_hosts)) =
     [\<lparr>line_ip = Some (v4InV6Prefix @ [10, 0, 0, 1]), line_hosts = [''a.com''], line_comments = []\<rparr>,
      \<lparr>line_ip = Some (v4InV6Prefix @ [9, 9, 9, 9]), line_hosts = [''b.com''], line_comments = []\<rparr>]"
  by code_simp

lemma example_hosts_read: "\<forall>(h, ip)\<in>set example_mappings. host_read hosts_example h \<and> (length ip = 4 \<or> length ip = 16)"
proof -
  have "parseHost hosts_example ''a.com'' = Some ''a.com''" "parseHost hosts_example ''b.com'' = Some ''b.com''"
    "parseHost hosts_example ''c.com'' = Some ''c.com''" by code_simp+
  then show ?thesis by (auto simp: example_mappings_def host_read_def)
qed

lemma hosts_example_paths: "hosts_Path hosts_example = ''/etc/hosts''" "backup_Path hosts_example = ''/etc/hosts.bak''"
  by (simp_all add: hosts_Path_def backup_Path_def)

lemma hosts_example_added:
  "\<exists>d'. AddHosts_mappings hosts_example example_io example_mappings [] [] True example_disk = (Ret True, d')
     \<and> disk_files d' (hosts_Path hosts_example) = Some (example_new, 2)
     \<and> disk_files d' (backup_Path hosts_example) = Some (example_hosts, 1)"
proof -
  have "tl example_mappings \<noteq> []" by (simp add: example_mappings_def)
  from AddHosts_system [OF _ _ _ hosts_example_missing this, of example_io example_disk 0 True] show ?thesis
    using hosts_example_longer
    by (auto simp: example_io_def example_disk_def hosts_example_paths example_new_def LineEnding_def Let_def)
qed


theorem add_then_remove_restores_witness:
  "\<exists>d1 d2. AddHosts_mappings hosts_example example_io example_mappings [] [] True example_disk = (Ret True, d1)
     \<and> disk_files d1 ''/etc/hosts'' = Some (example_new, 2)
     \<and> RemoveHosts hosts_example example_io d1 = (Ret True, d2)
     \<and> map_option fst (disk_files d2 ''/etc/hosts'') = Some example_hosts"
proof -
  obtain d1 where d1: "AddHosts_mappings hosts_example example_io example_mappings [] [] True example_disk = (Ret True, d1)"
    "disk_files d1 (hosts_Path hosts_example) = Some (example_new, 2)"
    "disk_files d1 (backup_Path hosts_example) = Some (example_hosts, 1)" using hosts_example_added by blast
  obtain r d2 where rm: "RemoveHosts hosts_example example_io d1 = (r, d2)" by force
  have "disk_files example_disk (hosts_Path hosts_example) = Some (example_hosts, 0)"
    "disk_files example_disk (backup_Path hosts_example) = None" "disk_files d1 (backup_Path hosts_example) \<noteq> None"
    using d1(3) by (simp_all add: example_disk_def hosts_example_paths)
  from add_then_remove_restores [OF this(1,2) d1(1) this(3) _ _ rm] d1 rm show ?thesis
    by (simp add: example_io_def one_second_def hosts_example_paths)
qed

text \<open>The lines of the example are plain.\<close>

lemma hosts_example_plain:
  "\<forall>l\<in>set [''# names'', ''10.0.0.1'' @ [CHR 0x09] @ ''a.com'', ''9.9.9.9'' @ [CHR 0x09] @ ''b.com'']. plain_line hosts_example l"
  unfolding plain_line_def no_newline_def by code_simp

theorem restoreInPlace_undoes_AddHosts_witness:
  "\<exists>d1 d2. AddHosts_mappings hosts_example example_io example_mappings [] [] True example_disk = (Ret True, d1)
     \<and> disk_files d1 ''/etc/hosts'' = Some (example_new, 2)
     \<and> restoreInPlace hosts_example example_io d1 = (Ret True, d2)
     \<and> disk_files d2 ''/etc/hosts'' = Some (example_hosts, 2)"
proof -
  obtain d1 where d1: "AddHosts_mappings hosts_example example_io example_mappings [] [] True example_disk = (Ret True, d1)"
    "disk_files d1 (hosts_Path hosts_example) = Some (example_new, 2)" using hosts_example_added by blast
  obtain r d2 where rm: "restoreInPlace hosts_example example_io d1 = (r, d2)" by force
  have "disk_files example_disk (hosts_Path hosts_example)
      = Some (unlines [''# names'', ''10.0.0.1'' @ [CHR 0x09] @ ''a.com'', ''9.9.9.9'' @ [CHR 0x09] @ ''b.com''], 0)"
    by (simp add: example_disk_def hosts_example_paths example_hosts_def)
  from restoreInPlace_undoes_AddHosts [OF hosts_example_os hosts_example_ok example_hosts_read hosts_example_plain this d1
      hosts_example_longer [unfolded example_hosts_def] hosts_example_new_readable _ rm]
  show ?thesis using d1 rm by (simp add: example_io_def hosts_example_paths example_hosts_def)
qed

end
