(* ===== verification/UserData.thy ===== *)
theory UserData
  imports Prelude "HOL-Library.Sublist"
begin

text \<open>
  The game data of the user that the launcher sets aside while the game plays on the server
  (\<open>launcher-common/userData\<close>, \<open>launcher-config/internal/userData\<close>): a folder is moved to a name with the suffix
  \<open>.bak\<close>, and the folder with the suffix \<open>.lan\<close> takes its place; restoring does the reverse.
\<close>

section \<open>Folders\<close>

text \<open>
  A path is its components, the root is the empty path.  The disk says what stands at a path; moving a folder moves everything
  below it.  Which operations fail is an argument.
\<close>

type_synonym path = "string list"

datatype entry = EDir | EFile string

type_synonym FS = "path \<Rightarrow> entry option"

datatype fs_op = StatOp path | RenameOp path path | MkdirOp path | MkdirAllOp path | ReadDirOp path

datatype stat_result = Exists | NotExist | StatError

definition os_Stat :: "(fs_op \<Rightarrow> bool) \<Rightarrow> FS \<Rightarrow> path \<Rightarrow> stat_result" where
  "os_Stat bad fs p = (if bad (StatOp p) then StatError else if fs p = None then NotExist else Exists)"

definition path_Dir :: "path \<Rightarrow> path" where
  "path_Dir p = butlast p"

text \<open>\<open>os.Rename\<close> to a path where nothing stands yet, as all the calls here are.\<close>

definition os_Rename :: "(fs_op \<Rightarrow> bool) \<Rightarrow> path \<Rightarrow> path \<Rightarrow> FS \<Rightarrow> FS option" where
  "os_Rename bad old new fs =
     (if bad (RenameOp old new) \<or> fs old = None \<or> fs new \<noteq> None \<or> fs (path_Dir new) \<noteq> Some EDir \<or> prefix old new then None
      else Some (\<lambda>p. if prefix new p then fs (old @ drop (length new) p) else if prefix old p then None else fs p))"

definition os_Mkdir :: "(fs_op \<Rightarrow> bool) \<Rightarrow> path \<Rightarrow> FS \<Rightarrow> FS option" where
  "os_Mkdir bad p fs =
     (if bad (MkdirOp p) \<or> fs p \<noteq> None \<or> fs (path_Dir p) \<noteq> Some EDir then None else Some (fs(p \<mapsto> EDir)))"

definition os_MkdirAll :: "(fs_op \<Rightarrow> bool) \<Rightarrow> path \<Rightarrow> FS \<Rightarrow> FS option" where
  "os_MkdirAll bad p fs =
     (if bad (MkdirAllOp p) \<or> (\<exists>n\<in>set [0..<length p + 1]. fs (take n p) \<noteq> None \<and> fs (take n p) \<noteq> Some EDir) then None
      else Some (\<lambda>q. if prefix q p then Some EDir else fs q))"

section \<open>Names\<close>

definition backupSuffix :: string where "backupSuffix = ''.bak''"
definition serverSuffix :: string where "serverSuffix = ''.lan''"

datatype data_type = TypeActive | TypeServer | TypeBackup

text \<open>\<open>filepath.Ext\<close> of the last component: from its last dot on.\<close>

definition path_Ext :: "string \<Rightarrow> string" where
  "path_Ext name = (if CHR ''.'' \<in> set name then CHR ''.'' # rev (takeWhile (\<lambda>c. c \<noteq> CHR ''.'') (rev name)) else [])"

definition path_typ :: "string \<Rightarrow> data_type \<times> string" where
  "path_typ name = (let ext = path_Ext name in
     (if ext = backupSuffix then TypeBackup else if ext = serverSuffix then TypeServer else TypeActive, ext))"

definition suffix_of :: "data_type \<Rightarrow> string" where
  "suffix_of t = (case t of TypeActive \<Rightarrow> [] | TypeServer \<Rightarrow> serverSuffix | TypeBackup \<Rightarrow> backupSuffix)"

text \<open>\<open>TransformPath\<close> on the last component: the extension is replaced, whatever it is.\<close>

definition TransformPath :: "path \<Rightarrow> data_type \<Rightarrow> data_type \<Rightarrow> path option" where
  "TransformPath p srcType dstType =
     (let (t, ext) = path_typ (last p)
      in if t \<noteq> srcType then None
         else if t = dstType then Some p
         else Some (butlast p @ [take (length (last p) - length ext) (last p) @ suffix_of dstType]))"

text \<open>\<open>Data\<close>: the path of a folder; \<open>None\<close> is the empty path, at which nothing can be made.\<close>

type_synonym Data = "path option"

definition isolatedPath :: "path \<Rightarrow> path" where
  "isolatedPath p = (case TransformPath p TypeActive TypeServer of Some q \<Rightarrow> q | None \<Rightarrow> [])"

definition originalPath :: "path \<Rightarrow> path" where
  "originalPath p = (case TransformPath p TypeActive TypeBackup of Some q \<Rightarrow> q | None \<Rightarrow> [])"

section \<open>Switching two folders\<close>

text \<open>
  Creating the folder when it is missing: the nearest folder above that exists is looked for; the result is whether
  this succeeded.
\<close>

function create_hierarchy :: "(fs_op \<Rightarrow> bool) \<Rightarrow> path \<Rightarrow> path \<Rightarrow> FS \<Rightarrow> FS option" where
  "create_hierarchy bad absolutePath oldParent fs =
     (let newParent = path_Dir oldParent
      in if oldParent = newParent then None
         else case os_Stat bad fs newParent of
           Exists \<Rightarrow> os_MkdirAll bad absolutePath fs
         | NotExist \<Rightarrow> create_hierarchy bad absolutePath newParent fs
         | StatError \<Rightarrow> None)"
  by pat_completeness auto

termination
proof (relation "measure (\<lambda>(bad, a, p, fs). length p)")
  fix bad :: "fs_op \<Rightarrow> bool" and absolutePath oldParent newParent :: path and fs :: FS
  assume "newParent = path_Dir oldParent" and "oldParent \<noteq> newParent"
  then have "length newParent < length oldParent" by (cases oldParent) (auto simp: path_Dir_def)
  then show "((bad, absolutePath, newParent, fs), bad, absolutePath, oldParent, fs) \<in> measure (\<lambda>(bad, a, p, fs). length p)"
    by simp
qed simp

declare create_hierarchy.simps [simp del]

text \<open>The deferred undoing of the first move.\<close>

definition move_back :: "(fs_op \<Rightarrow> bool) \<Rightarrow> path \<Rightarrow> path \<Rightarrow> FS \<Rightarrow> FS" where
  "move_back bad backupPath absolutePath fs = (case os_Rename bad backupPath absolutePath fs of Some fs' \<Rightarrow> fs' | None \<Rightarrow> fs)"

definition switchPaths :: "(fs_op \<Rightarrow> bool) \<Rightarrow> path \<Rightarrow> path \<Rightarrow> path \<Rightarrow> FS \<Rightarrow> bool \<times> FS" where
  "switchPaths bad absolutePath backupPath currentPath fs =
     (if os_Stat bad fs backupPath = Exists then (False, fs)
      else
        let created = (os_Stat bad fs absolutePath = NotExist);
            prepared = (if os_Stat bad fs absolutePath = StatError then None
              else if created then create_hierarchy bad absolutePath absolutePath fs else Some fs)
        in case prepared of
             None \<Rightarrow> (False, fs)
           | Some fs1 \<Rightarrow>
               (case os_Rename bad absolutePath backupPath fs1 of
                  None \<Rightarrow> (False, fs1)
                | Some fs2 \<Rightarrow>
                    (case (case os_Stat bad fs2 currentPath of
                             Exists \<Rightarrow> Some fs2
                           | StatError \<Rightarrow> None
                           | NotExist \<Rightarrow> if \<not> created \<and> os_Stat bad fs2 backupPath \<noteq> Exists then None
                               else os_Mkdir bad currentPath fs2) of
                       None \<Rightarrow> (False, move_back bad backupPath absolutePath fs2)
                     | Some fs3 \<Rightarrow>
                         (case os_Rename bad currentPath absolutePath fs3 of
                            None \<Rightarrow> (False, move_back bad backupPath absolutePath fs3)
                          | Some fs4 \<Rightarrow> (True, fs4)))))"

definition Data_Backup :: "(fs_op \<Rightarrow> bool) \<Rightarrow> Data \<Rightarrow> FS \<Rightarrow> bool \<times> FS" where
  "Data_Backup bad d fs = (case d of None \<Rightarrow> (False, fs) | Some p \<Rightarrow> switchPaths bad p (originalPath p) (isolatedPath p) fs)"

definition Data_Restore :: "(fs_op \<Rightarrow> bool) \<Rightarrow> Data \<Rightarrow> FS \<Rightarrow> bool \<times> FS" where
  "Data_Restore bad d fs = (case d of None \<Rightarrow> (False, fs) | Some p \<Rightarrow> switchPaths bad p (isolatedPath p) (originalPath p) fs)"

section \<open>The folders of a game\<close>

record UserPath =
  up_path :: path
  up_gameId :: string

definition NewPath :: "path \<Rightarrow> string \<Rightarrow> UserPath" where
  "NewPath p gameId =
     (let prefixToUse = (if gameId = AoE4 then ''My Games'' else ''Games'');
          s = (if gameId = AoE1 then [''Age of Empires DE'']
               else if gameId = AoE2 then [''Age of Empires 2 DE'']
               else if gameId = AoE3 then [''Age of Empires 3 DE'']
               else if gameId = AoE4 then [''Age of Empires IV'']
               else if gameId = AoM then [''Age of Mythology Retold''] else [])
      in \<lparr>up_path = p @ [prefixToUse] @ s, up_gameId = gameId\<rparr>)"

definition metadataFolder :: "UserPath \<Rightarrow> path" where
  "metadataFolder u =
     (if up_gameId u = AoE2 then [''metadata'']
      else if up_gameId u = AoE3 then [''Common'', ''RLink'']
      else if up_gameId u = AoE4 then [''network'']
      else if up_gameId u = AoM then [''temp'', ''RLink''] else [])"

text \<open>The folders above, from the nearest on.\<close>

fun parents :: "nat \<Rightarrow> path \<Rightarrow> path list" where
  "parents 0 p = []"
| "parents (Suc n) p = path_Dir p # parents n (path_Dir p)"

text \<open>\<open>Metadatas\<close>: \<open>None\<close> is an error; otherwise the folders found, with the disk, on which the folder was made if it was missing.\<close>

definition Metadatas :: "(fs_op \<Rightarrow> bool) \<Rightarrow> UserPath \<Rightarrow> FS \<Rightarrow> (data_type \<times> path) list option \<times> FS" where
  "Metadatas bad u fs =
     (let p = up_path u @ metadataFolder u;
          made = (if os_Stat bad fs p = NotExist
            then (case List.find (\<lambda>q. os_Stat bad fs q = Exists) (parents (length p) p) of
                None \<Rightarrow> Some fs
              | Some _ \<Rightarrow> os_MkdirAll bad p fs)
            else Some fs)
      in case made of
           None \<Rightarrow> (None, fs)
         | Some fs1 \<Rightarrow>
             (Some (List.map_filter (\<lambda>t. case TransformPath p TypeActive t of
                 None \<Rightarrow> None
               | Some q \<Rightarrow> if os_Stat bad fs1 q = Exists \<and> fs1 q = Some EDir then Some (t, q) else None)
                [TypeBackup, TypeServer, TypeActive]), fs1))"

definition user_Metadata :: "(fs_op \<Rightarrow> bool) \<Rightarrow> UserPath \<Rightarrow> FS \<Rightarrow> Data \<times> FS" where
  "user_Metadata bad u fs =
     (case Metadatas bad u fs of
        (None, fs1) \<Rightarrow> (None, fs1)
      | (Some ms, fs1) \<Rightarrow> (map_of ms TypeActive, fs1))"

definition profileFolder :: "UserPath \<Rightarrow> path" where
  "profileFolder u = (if up_gameId u = AoE1 \<or> up_gameId u = AoE4 then [''Users''] else [])"

text \<open>\<open>strconv.ParseUint(_, 10, 64)\<close> without error.\<close>

definition ParseUint_ok :: "string \<Rightarrow> bool" where
  "ParseUint_ok s \<longleftrightarrow> s \<noteq> [] \<and> list_all (\<lambda>c. 48 \<le> (of_char c :: nat) \<and> (of_char c :: nat) \<le> 57) s
     \<and> foldl (\<lambda>n c. 10 * n + (int (of_char c) - 48)) 0 s < 2 ^ 64"

text \<open>
  \<open>Profiles\<close> and the active ones of them (\<open>setProfileData\<close>).  \<open>names\<close> are the entries of the folder, in the order in which the set of
  profiles is gone through.
\<close>

definition Profiles :: "(fs_op \<Rightarrow> bool) \<Rightarrow> UserPath \<Rightarrow> string list \<Rightarrow> FS \<Rightarrow> (data_type \<times> path) list option" where
  "Profiles bad u names fs =
     (let baseDir = up_path u @ profileFolder u
      in if bad (ReadDirOp baseDir) \<or> fs baseDir \<noteq> Some EDir then None
         else Some (List.map_filter (\<lambda>name.
             if fs (baseDir @ [name]) \<noteq> Some EDir then None
             else if up_gameId u \<noteq> AoE1 \<and> \<not> ParseUint_ok name then None
             else Some (fst (path_typ name), baseDir @ [name])) names))"

definition setProfileData :: "(fs_op \<Rightarrow> bool) \<Rightarrow> UserPath \<Rightarrow> string list \<Rightarrow> FS \<Rightarrow> path list option" where
  "setProfileData bad u names fs =
     map_option (\<lambda>ps. map snd (filter (\<lambda>(t, p). t = TypeActive) ps)) (Profiles bad u names fs)"

text \<open>The loop of \<open>runProfileMethod\<close>; \<open>before\<close> are the profiles it has gone through, the last one first.\<close>

fun profile_loop ::
  "(Data \<Rightarrow> FS \<Rightarrow> bool \<times> FS) \<Rightarrow> (Data \<Rightarrow> FS \<Rightarrow> bool \<times> FS) \<Rightarrow> bool \<Rightarrow> path list \<Rightarrow> path list \<Rightarrow> FS \<Rightarrow> bool \<times> FS" where
  "profile_loop mainMethod cleanMethod stopOnFailed before [] fs = (True, fs)"
| "profile_loop mainMethod cleanMethod stopOnFailed before (p # ps) fs =
     (case mainMethod (Some p) fs of (ok, fs1) \<Rightarrow>
        if ok \<or> \<not> stopOnFailed then profile_loop mainMethod cleanMethod stopOnFailed (p # before) ps fs1
        else (False, fold (\<lambda>q fs. snd (cleanMethod (Some q) fs)) before fs1))"

definition runProfileMethod ::
  "(Data \<Rightarrow> FS \<Rightarrow> bool \<times> FS) \<Rightarrow> (Data \<Rightarrow> FS \<Rightarrow> bool \<times> FS) \<Rightarrow> bool \<Rightarrow> (fs_op \<Rightarrow> bool) \<Rightarrow> UserPath \<Rightarrow> string list \<Rightarrow> FS \<Rightarrow> bool \<times> FS" where
  "runProfileMethod mainMethod cleanMethod stopOnFailed bad u names fs =
     (case setProfileData bad u names fs of
        None \<Rightarrow> (False, fs)
      | Some ps \<Rightarrow> profile_loop mainMethod cleanMethod stopOnFailed [] ps fs)"

definition BackupProfiles :: "(fs_op \<Rightarrow> bool) \<Rightarrow> UserPath \<Rightarrow> string list \<Rightarrow> FS \<Rightarrow> bool \<times> FS" where
  "BackupProfiles bad u names fs = runProfileMethod (Data_Backup bad) (Data_Restore bad) True bad u names fs"

definition RestoreProfiles :: "(fs_op \<Rightarrow> bool) \<Rightarrow> UserPath \<Rightarrow> string list \<Rightarrow> bool \<Rightarrow> FS \<Rightarrow> bool \<times> FS" where
  "RestoreProfiles bad u names reverseFailed fs =
     runProfileMethod (Data_Restore bad) (Data_Backup bad) reverseFailed bad u names fs"

end
