(* ===== verification/UserDataProps.thy ===== *)
theory UserDataProps
  imports UserData
begin

text \<open>
  Properties of setting game data aside: what one switch moves, that setting aside and restoring is the identity on the
  user's data, and that the profiles are set aside all or none.
\<close>

section \<open>Moving folders\<close>

definition below :: "FS \<Rightarrow> path \<Rightarrow> path \<Rightarrow> entry option" where
  "below fs p = (\<lambda>r. fs (p @ r))"

definition apart :: "path \<Rightarrow> path \<Rightarrow> bool" where
  "apart p q \<longleftrightarrow> \<not> prefix p q \<and> \<not> prefix q p"

lemma apart_sym: "apart p q \<longleftrightarrow> apart q p"
  by (auto simp: apart_def)

lemma apart_siblings: "apart (base @ [x]) (base @ [y]) \<longleftrightarrow> x \<noteq> y"
  by (auto simp: apart_def prefix_def)

lemma apart_below: "apart p q \<Longrightarrow> \<not> prefix p (q @ r)"
  by (auto simp: apart_def prefix_append dest: prefix_same_cases intro: prefixI)

lemma Rename_ok:
  "os_Rename bad old new fs \<noteq> None \<longleftrightarrow>
   \<not> bad (RenameOp old new) \<and> fs old \<noteq> None \<and> fs new = None \<and> fs (path_Dir new) = Some EDir \<and> \<not> prefix old new"
  by (auto simp: os_Rename_def)

lemma Rename_below:
  assumes "os_Rename bad old new fs = Some fs'" and "apart old new"
  shows "below fs' new = below fs old" and "below fs' old = (\<lambda>_. None)"
    and "apart p old \<Longrightarrow> apart p new \<Longrightarrow> below fs' p = below fs p"
    and "\<not> prefix old q \<Longrightarrow> \<not> prefix new q \<Longrightarrow> fs' q = fs q"
proof -
  have fs': "fs' = (\<lambda>p. if prefix new p then fs (old @ drop (length new) p) else if prefix old p then None else fs p)"
    using assms(1) by (auto simp: os_Rename_def split: if_splits)
  show "below fs' new = below fs old" by (simp add: below_def fs')
  show "below fs' old = (\<lambda>_. None)" using apart_below [of new old] assms(2) by (auto simp: below_def fs' apart_sym)
  show "apart p old \<Longrightarrow> apart p new \<Longrightarrow> below fs' p = below fs p"
    using apart_below by (auto simp: below_def fs' apart_sym)
  show "\<not> prefix old q \<Longrightarrow> \<not> prefix new q \<Longrightarrow> fs' q = fs q" by (simp add: fs')
qed

section \<open>The three names of a folder\<close>

definition stem :: "string \<Rightarrow> string" where
  "stem n = take (length n - length (path_Ext n)) n"

definition lan_name :: "string \<Rightarrow> string" where "lan_name n = stem n @ serverSuffix"
definition bak_name :: "string \<Rightarrow> string" where "bak_name n = stem n @ backupSuffix"

lemma typ_suffix [simp]:
  "path_typ (x @ serverSuffix) = (TypeServer, serverSuffix)" "path_typ (x @ backupSuffix) = (TypeBackup, backupSuffix)"
  by (simp_all add: path_typ_def path_Ext_def serverSuffix_def backupSuffix_def Let_def)

lemma active_names:
  assumes "fst (path_typ n) = TypeActive"
  shows "lan_name n \<noteq> n" "bak_name n \<noteq> n" "lan_name n \<noteq> bak_name n"
    "fst (path_typ (lan_name n)) \<noteq> TypeActive" "fst (path_typ (bak_name n)) \<noteq> TypeActive"
    "isolatedPath (base @ [n]) = base @ [lan_name n]" "originalPath (base @ [n]) = base @ [bak_name n]"
proof -
  show "fst (path_typ (lan_name n)) \<noteq> TypeActive" "fst (path_typ (bak_name n)) \<noteq> TypeActive"
    by (simp_all add: lan_name_def bak_name_def)
  with assms show "lan_name n \<noteq> n" "bak_name n \<noteq> n" by metis+
  show "lan_name n \<noteq> bak_name n" by (simp add: lan_name_def bak_name_def serverSuffix_def backupSuffix_def)
  show "isolatedPath (base @ [n]) = base @ [lan_name n]" "originalPath (base @ [n]) = base @ [bak_name n]"
    using assms by (auto simp: isolatedPath_def originalPath_def TransformPath_def lan_name_def bak_name_def stem_def
        suffix_of_def path_typ_def Let_def)
qed

section \<open>One switch\<close>

text \<open>
  What a switch of a folder that exists does when it succeeds: the folder is now under the other name, what stood under the third name, or an
  empty folder, takes its place, and nothing else changes.
\<close>

definition switched :: "path \<Rightarrow> string \<Rightarrow> string \<Rightarrow> string \<Rightarrow> FS \<Rightarrow> FS \<Rightarrow> bool" where
  "switched base n to from fs fs' \<longleftrightarrow>
     below fs' (base @ [to]) = below fs (base @ [n])
     \<and> below fs' (base @ [n]) = (if fs (base @ [from]) = None then (\<lambda>r. if r = [] then Some EDir else None) else below fs (base @ [from]))
     \<and> below fs' (base @ [from]) = (\<lambda>_. None)
     \<and> (\<forall>q. \<not> prefix (base @ [n]) q \<and> \<not> prefix (base @ [to]) q \<and> \<not> prefix (base @ [from]) q \<longrightarrow> fs' q = fs q)"

text \<open>A disk on which nothing stands below what does not exist.\<close>

definition fs_wf :: "FS \<Rightarrow> bool" where
  "fs_wf fs \<longleftrightarrow> (\<forall>p n. fs (p @ [n]) \<noteq> None \<longrightarrow> fs p = Some EDir)"

lemma fs_wf_below: "fs_wf fs \<Longrightarrow> fs p = None \<Longrightarrow> below fs p = (\<lambda>_. None)"
proof -
  assume wf: "fs_wf fs" and "fs p = None"
  then have "fs (p @ r) = None" for r
  proof (induction r rule: rev_induct)
    case (snoc x xs)
    with wf show ?case by (metis append_assoc fs_wf_def option.distinct(1))
  qed simp
  then show ?thesis by (simp add: below_def)
qed

lemma below_Nil: "below fs p [] = fs p"
  by (simp add: below_def)

lemma switchPaths_switched:
  assumes "fs_wf fs" and names: "to \<noteq> n" "from \<noteq> n" "to \<noteq> from" and "fs (base @ [n]) \<noteq> None"
    and "\<not> bad (StatOp (base @ [n]))" and "\<not> bad (StatOp (base @ [to]))"
    and "switchPaths bad (base @ [n]) (base @ [to]) (base @ [from]) fs = (True, fs')"
  shows "switched base n to from fs fs' \<and> fs (base @ [to]) = None"
proof -
  have ap: "apart (base @ [n]) (base @ [to])" "apart (base @ [n]) (base @ [from])" "apart (base @ [to]) (base @ [from])"
    "apart (base @ [from]) (base @ [n])" "apart (base @ [from]) (base @ [to])" "apart (base @ [to]) (base @ [n])"
    using names by (auto simp: apart_siblings)
  have to: "fs (base @ [to]) = None" using assms(7,8) by (auto simp: switchPaths_def os_Stat_def split: if_splits)
  obtain fs2 where r: "os_Rename bad (base @ [n]) (base @ [to]) fs = Some fs2"
    using assms(5-8) to by (auto simp: switchPaths_def os_Stat_def Let_def split: if_splits option.splits)
  note b2 = Rename_below [OF r ap(1)]
  have from2: "fs2 (base @ [from]) = fs (base @ [from])" using b2(3) [OF ap(4,5)] by (metis below_Nil)
  obtain fs3 where fs3: "fs3 = (if fs (base @ [from]) = None then fs2(base @ [from] \<mapsto> EDir) else fs2)"
    and r3: "os_Rename bad (base @ [from]) (base @ [n]) fs3 = Some fs'"
    using assms(5-8) to r from2
    by (auto simp: switchPaths_def os_Stat_def os_Mkdir_def Let_def split: if_splits option.splits)
  note b3 = Rename_below [OF r3 ap(4)]
  have below3: "below fs3 p = below fs2 p" if "apart p (base @ [from])" for p
    using that apart_below [of "base @ [from]" p] unfolding fs3 below_def apart_sym [of p] by (auto simp: prefix_def)
  have from3: "below fs3 (base @ [from]) = (if fs (base @ [from]) = None then (\<lambda>r. if r = [] then Some EDir else None) else below fs (base @ [from]))"
  proof (cases "fs (base @ [from]) = None")
    case True
    then have "below fs2 (base @ [from]) = (\<lambda>_. None)" using fs_wf_below [OF assms(1) True] b2(3) [OF ap(4,5)] by simp
    with True show ?thesis by (auto simp: fs3 below_def fun_eq_iff)
  next
    case False
    with b2(3) [OF ap(4,5)] show ?thesis by (simp only: fs3 if_False)
  qed
  have "below fs' (base @ [to]) = below fs (base @ [n])"
    using b3(3) [OF ap(3,6)] below3 [OF ap(3)] b2(1) by simp
  moreover have "fs' q = fs q" if "\<not> prefix (base @ [n]) q" "\<not> prefix (base @ [to]) q" "\<not> prefix (base @ [from]) q" for q
    using b3(4) [of q] b2(4) [of q] that by (auto simp: fs3)
  ultimately show ?thesis using b3(1,2) from3 to by (simp add: switched_def)
qed

text \<open>A switch succeeds if none of its operations fails and the other name is free.\<close>

lemma switchPaths_succeeds:
  assumes bad: "\<not> bad (StatOp (base @ [n]))" "\<not> bad (StatOp (base @ [to]))" "\<not> bad (StatOp (base @ [from]))"
      "\<not> bad (MkdirOp (base @ [from]))" "\<not> bad (RenameOp (base @ [n]) (base @ [to]))" "\<not> bad (RenameOp (base @ [from]) (base @ [n]))"
    and names: "to \<noteq> n" "from \<noteq> n" "to \<noteq> from"
    and "fs (base @ [n]) \<noteq> None" and "fs base = Some EDir" and "fs (base @ [to]) = None"
  shows "\<exists>fs'. switchPaths bad (base @ [n]) (base @ [to]) (base @ [from]) fs = (True, fs')"
proof -
  have ap: "apart (base @ [n]) (base @ [to])" "apart (base @ [from]) (base @ [n])" "apart (base @ [from]) (base @ [to])"
    "\<not> prefix (base @ [n]) base" "\<not> prefix (base @ [to]) base" "\<not> prefix (base @ [from]) base"
    using names by (auto simp: apart_siblings prefix_def)
  have d: "path_Dir (base @ [x]) = base" for x by (simp add: path_Dir_def)
  have "os_Rename bad (base @ [n]) (base @ [to]) fs \<noteq> None"
    unfolding Rename_ok using assms ap d by (simp add: apart_def)
  then obtain fs2 where r: "os_Rename bad (base @ [n]) (base @ [to]) fs = Some fs2" by auto
  note b2 = Rename_below [OF r ap(1)]
  have b: "fs2 base = Some EDir" using b2(4) [OF ap(4,5)] assms by simp
  have n2: "fs2 (base @ [n]) = None" using b2(2) by (metis below_Nil)
  have t2: "fs2 (base @ [to]) \<noteq> None" using b2(1) assms by (metis below_Nil)
  define fs3 where "fs3 = (if fs2 (base @ [from]) = None then fs2(base @ [from] \<mapsto> EDir) else fs2)"
  have "os_Rename bad (base @ [from]) (base @ [n]) fs3 \<noteq> None"
    unfolding Rename_ok using bad ap names b n2 d by (simp add: fs3_def apart_def)
  then obtain fs4 where r4: "os_Rename bad (base @ [from]) (base @ [n]) fs3 = Some fs4" by auto
  show ?thesis using assms r r4 b t2 d
    by (auto simp: switchPaths_def os_Stat_def os_Mkdir_def fs3_def Let_def)
qed

text \<open>
  C26: setting a folder of the user aside and restoring it is the identity, whatever the game does with the folder
  in between.  While it is set aside, the game sees what it left the last time it played on the server, or an empty folder;
  afterwards the user's data are back, what the game left is kept for the next time, and nothing else has
  changed.
\<close>

theorem isolation_roundtrip:
  assumes "fs_wf fs" and "fst (path_typ n) = TypeActive" and "fs (base @ [n]) \<noteq> None"
    and "fs (base @ [bak_name n]) = None"
    and "Data_Backup (\<lambda>_. False) (Some (base @ [n])) fs = (r1, fs1)"
    and "fs_wf fs2" and "fs2 (base @ [n]) \<noteq> None" and "\<forall>q. \<not> prefix (base @ [n]) q \<longrightarrow> fs2 q = fs1 q"
    and "Data_Restore (\<lambda>_. False) (Some (base @ [n])) fs2 = (r2, fs3)"
  shows "r1 \<and> r2
    \<and> below fs1 (base @ [n]) = (if fs (base @ [lan_name n]) = None then (\<lambda>r. if r = [] then Some EDir else None)
        else below fs (base @ [lan_name n]))
    \<and> below fs3 (base @ [n]) = below fs (base @ [n])
    \<and> below fs3 (base @ [lan_name n]) = below fs2 (base @ [n])
    \<and> fs3 (base @ [bak_name n]) = None
    \<and> (\<forall>q. \<not> prefix (base @ [n]) q \<and> \<not> prefix (base @ [bak_name n]) q \<and> \<not> prefix (base @ [lan_name n]) q \<longrightarrow> fs3 q = fs q)"
proof -
  note nm = active_names [OF assms(2)]
  have base: "fs base = Some EDir" using assms(1,3) by (auto simp: fs_wf_def)
  have "\<exists>fs'. Data_Backup (\<lambda>_. False) (Some (base @ [n])) fs = (True, fs')"
    unfolding Data_Backup_def option.case nm(6,7) by (rule switchPaths_succeeds) (use nm assms base in simp_all)
  with assms(5) have r1: r1 and b: "switchPaths (\<lambda>_. False) (base @ [n]) (base @ [bak_name n]) (base @ [lan_name n]) fs = (True, fs1)"
    by (auto simp: Data_Backup_def nm(6,7))
  have s1: "switched base n (bak_name n) (lan_name n) fs fs1"
    using switchPaths_switched [OF assms(1) nm(2,1) nm(3) [symmetric] assms(3) _ _ b] by simp
  have kept: "below fs2 p = below fs1 p" if "apart p (base @ [n])" for p
    using assms(8) apart_below that unfolding below_def apart_sym [of p] by blast
  have ap: "apart (base @ [bak_name n]) (base @ [n])" "apart (base @ [lan_name n]) (base @ [n])"
    using nm by (simp_all add: apart_siblings)
  have bak2: "below fs2 (base @ [bak_name n]) = below fs (base @ [n])" and lan2: "below fs2 (base @ [lan_name n]) = (\<lambda>_. None)"
    using kept [OF ap(1)] kept [OF ap(2)] s1 by (simp_all add: switched_def)
  have f2: "fs2 (base @ [bak_name n]) \<noteq> None" "fs2 (base @ [lan_name n]) = None"
    using bak2 lan2 assms(3) by (metis below_Nil)+
  have base2: "fs2 base = Some EDir" using assms(6,7) by (auto simp: fs_wf_def)
  have "\<exists>fs'. Data_Restore (\<lambda>_. False) (Some (base @ [n])) fs2 = (True, fs')"
    unfolding Data_Restore_def option.case nm(6,7) by (rule switchPaths_succeeds) (use nm assms(7) base2 f2 in simp_all)
  with assms(9) have r2: r2 and c: "switchPaths (\<lambda>_. False) (base @ [n]) (base @ [lan_name n]) (base @ [bak_name n]) fs2 = (True, fs3)"
    by (auto simp: Data_Restore_def nm(6,7))
  have s2: "switched base n (lan_name n) (bak_name n) fs2 fs3"
    using switchPaths_switched [OF assms(6) nm(1,2,3) assms(7) _ _ c] by simp
  have rest: "fs3 q = fs q"
    if "\<not> prefix (base @ [n]) q" "\<not> prefix (base @ [bak_name n]) q" "\<not> prefix (base @ [lan_name n]) q" for q
    using s1 s2 assms(8) that by (simp add: switched_def)
  have "fs3 (base @ [bak_name n]) = None" using s2 by (metis switched_def below_Nil)
  then show ?thesis using r1 r2 s1 s2 bak2 f2(1) rest by (auto simp: switched_def)
qed

text \<open>A folder and two profiles with a file in each.\<close>

definition demo_disk :: FS where
  "demo_disk = (\<lambda>_. None)([] \<mapsto> EDir, [''u''] \<mapsto> EDir, [''u'', ''7''] \<mapsto> EDir, [''u'', ''8''] \<mapsto> EDir,
     [''u'', ''7'', ''f''] \<mapsto> EFile ''x'', [''u'', ''8'', ''g''] \<mapsto> EFile ''y'')"

lemma demo_disk_wf: "fs_wf demo_disk"
  by (auto simp: fs_wf_def demo_disk_def append_eq_Cons_conv)

section \<open>All profiles or none\<close>

lemma Rename_wf: "fs_wf fs \<Longrightarrow> os_Rename bad old new fs = Some fs' \<Longrightarrow> fs_wf fs'"
proof -
  assume wf: "fs_wf fs" and r: "os_Rename bad old new fs = Some fs'"
  then have c: "fs (path_Dir new) = Some EDir" "\<not> prefix old new" "fs old \<noteq> None"
    and fs': "fs' = (\<lambda>p. if prefix new p then fs (old @ drop (length new) p) else if prefix old p then None else fs p)"
    by (auto simp: os_Rename_def split: if_splits)
  show ?thesis unfolding fs_wf_def
  proof (intro allI impI)
    fix p x assume e: "fs' (p @ [x]) \<noteq> None"
    show "fs' p = Some EDir"
    proof (cases "prefix new p")
      case True
      then obtain r where "p = new @ r" by (auto simp: prefix_def)
      with e wf show ?thesis unfolding fs' fs_wf_def by (auto simp: prefix_def) (metis append_assoc option.distinct(1))
    next
      case False
      show ?thesis
      proof (cases "p @ [x] = new")
        case True
        then have "path_Dir new = p" by (auto simp: path_Dir_def)
        moreover have "\<not> prefix old p" using c(2) True by (metis prefix_prefix)
        ultimately show ?thesis using c(1) False by (simp add: fs')
      next
        case f: False
        then have "\<not> prefix new (p @ [x])" using False by (auto simp: prefix_snoc)
        then have "\<not> prefix old (p @ [x])" "fs (p @ [x]) \<noteq> None" using e by (auto simp: fs' split: if_splits)
        moreover have "\<not> prefix old p" using calculation(1) by (metis prefix_prefix)
        moreover have "fs p = Some EDir" using wf calculation(2) unfolding fs_wf_def by blast
        ultimately show ?thesis using False by (simp only: fs' if_False)
      qed
    qed
  qed
qed

lemma Mkdir_wf: "fs_wf fs \<Longrightarrow> fs (base @ [x]) = None \<Longrightarrow> fs base = Some EDir \<Longrightarrow> fs_wf (fs(base @ [x] \<mapsto> EDir))"
  by (auto simp: fs_wf_def)

lemma switchPaths_wf:
  assumes "fs_wf fs" and "fs (base @ [n]) \<noteq> None" and "\<not> bad (StatOp (base @ [n]))"
    and "switchPaths bad (base @ [n]) (base @ [to]) (base @ [from]) fs = (True, fs')"
  shows "fs_wf fs'"
proof -
  obtain fs2 where r: "os_Rename bad (base @ [n]) (base @ [to]) fs = Some fs2"
    using assms(2-4) by (auto simp: switchPaths_def os_Stat_def Let_def split: if_splits option.splits)
  obtain fs3 where r3: "os_Rename bad (base @ [from]) (base @ [n]) fs3 = Some fs'"
    and fs3: "fs3 = fs2 \<or> os_Mkdir bad (base @ [from]) fs2 = Some fs3"
    using assms(2-4) r by (auto simp: switchPaths_def os_Stat_def Let_def split: if_splits option.splits)
  have "fs_wf fs2" by (rule Rename_wf [OF assms(1) r])
  then have "fs_wf fs3" using fs3 Mkdir_wf [of fs2 base "from"] by (auto simp: os_Mkdir_def path_Dir_def split: if_splits)
  then show ?thesis by (rule Rename_wf [OF _ r3])
qed

text \<open>Only setting a folder aside may fail.\<close>

definition only_aside_fails :: "(fs_op \<Rightarrow> bool) \<Rightarrow> bool" where
  "only_aside_fails bad \<longleftrightarrow> (\<forall>opn. bad opn \<longrightarrow> (\<exists>base n. opn = RenameOp (base @ [n]) (base @ [bak_name n])))"

lemma no_fail [simp]: "only_aside_fails (\<lambda>_. False)"
  by (simp add: only_aside_fails_def)

lemma only_aside:
  assumes "only_aside_fails bad" and "fst (path_typ n) = TypeActive"
  shows "\<not> bad (StatOp p)" "\<not> bad (MkdirOp p)" "\<not> bad (RenameOp p (base @ [lan_name n]))" "\<not> bad (RenameOp p (base @ [n]))"
proof -
  have l: "lan_name n \<noteq> bak_name k" "n \<noteq> bak_name k" for k
    using assms(2) typ_suffix [of "stem n"] typ_suffix [of "stem k"] unfolding lan_name_def bak_name_def
    by (metis data_type.distinct(6) fst_conv) (metis assms(2) bak_name_def data_type.distinct(4) fst_conv typ_suffix(2))
  show "\<not> bad (StatOp p)" "\<not> bad (MkdirOp p)" "\<not> bad (RenameOp p (base @ [lan_name n]))" "\<not> bad (RenameOp p (base @ [n]))"
    using assms(1) l by (auto simp: only_aside_fails_def)
qed

lemma Backup_fails:
  assumes "only_aside_fails bad" and "fst (path_typ n) = TypeActive" and "fs (base @ [n]) \<noteq> None" and "fs base = Some EDir"
    and "Data_Backup bad (Some (base @ [n])) fs = (False, fs')"
  shows "fs' = fs"
proof -
  note nm = active_names [OF assms(2)] and ok = only_aside [OF assms(1,2)]
  show ?thesis
  proof (cases "fs (base @ [bak_name n]) = None \<and> \<not> bad (RenameOp (base @ [n]) (base @ [bak_name n]))")
    case True
    have "\<exists>fs'. Data_Backup bad (Some (base @ [n])) fs = (True, fs')"
      unfolding Data_Backup_def option.case nm(6,7) by (rule switchPaths_succeeds) (use nm ok assms True in simp_all)
    with assms(5) show ?thesis by simp
  next
    case False
    with assms(3,5) ok show ?thesis
      by (auto simp: Data_Backup_def nm(6,7) switchPaths_def os_Stat_def os_Rename_def split: if_splits)
  qed
qed

lemma Backup_succeeds:
  assumes "only_aside_fails bad" and "fst (path_typ n) = TypeActive" and "fs (base @ [n]) \<noteq> None" and "fs_wf fs"
    and "Data_Backup bad (Some (base @ [n])) fs = (True, fs')"
  shows "switched base n (bak_name n) (lan_name n) fs fs' \<and> fs (base @ [bak_name n]) = None \<and> fs_wf fs'"
proof -
  note nm = active_names [OF assms(2)] and ok = only_aside [OF assms(1,2)]
  have b: "switchPaths bad (base @ [n]) (base @ [bak_name n]) (base @ [lan_name n]) fs = (True, fs')"
    using assms(5) by (simp add: Data_Backup_def nm(6,7))
  show ?thesis
    using switchPaths_switched [OF assms(4) nm(2,1) nm(3) [symmetric] assms(3) _ _ b] switchPaths_wf [OF assms(4,3) _ b] ok by simp
qed

lemma Restore_succeeds:
  assumes "only_aside_fails bad" and "fst (path_typ n) = TypeActive" and "fs (base @ [n]) \<noteq> None" and "fs_wf fs"
    and "fs (base @ [lan_name n]) = None"
  shows "\<exists>fs'. Data_Restore bad (Some (base @ [n])) fs = (True, fs') \<and> switched base n (lan_name n) (bak_name n) fs fs' \<and> fs_wf fs'"
proof -
  note nm = active_names [OF assms(2)] and ok = only_aside [OF assms(1,2)]
  have base: "fs base = Some EDir" using assms(3,4) by (auto simp: fs_wf_def)
  have "\<exists>fs'. switchPaths bad (base @ [n]) (base @ [lan_name n]) (base @ [bak_name n]) fs = (True, fs')"
    by (rule switchPaths_succeeds) (use nm ok assms base in simp_all)
  then obtain fs' where b: "switchPaths bad (base @ [n]) (base @ [lan_name n]) (base @ [bak_name n]) fs = (True, fs')" ..
  show ?thesis
    using switchPaths_switched [OF assms(4) nm(1,2,3) assms(3) _ _ b] switchPaths_wf [OF assms(4,3) _ b] ok b
    by (simp add: Data_Restore_def nm(6,7))
qed

theorem isolation_roundtrip_witness:
  "below (snd (Data_Restore (\<lambda>_. False) (Some ([''u''] @ [''7''])) (snd (Data_Backup (\<lambda>_. False) (Some ([''u''] @ [''7''])) demo_disk))))
     ([''u''] @ [''7'']) = below demo_disk ([''u''] @ [''7''])"
proof -
  let ?b = "Data_Backup (\<lambda>_. False) (Some ([''u''] @ [''7''])) demo_disk"
  have h: "fst (path_typ ''7'') = TypeActive" "demo_disk ([''u''] @ [''7'']) \<noteq> None" "demo_disk ([''u''] @ [bak_name ''7'']) = None"
    "fst ?b" "snd ?b ([''u''] @ [''7'']) \<noteq> None"
    by code_simp+
  have b: "?b = (True, snd ?b)" using h(4) by (simp add: prod_eq_iff)
  have "only_aside_fails (\<lambda>_. False)" by (simp add: only_aside_fails_def)
  from Backup_succeeds [OF this h(1,2) demo_disk_wf b] have w: "fs_wf (snd ?b)" by simp
  have r: "Data_Restore (\<lambda>_. False) (Some ([''u''] @ [''7''])) (snd ?b) =
    (fst (Data_Restore (\<lambda>_. False) (Some ([''u''] @ [''7''])) (snd ?b)), snd (Data_Restore (\<lambda>_. False) (Some ([''u''] @ [''7''])) (snd ?b)))"
    by simp
  show ?thesis using isolation_roundtrip [OF demo_disk_wf h(1-3) b w h(5) _ r] by simp
qed

lemma switched_other:
  "switched base n to from fs fs' \<Longrightarrow> x \<noteq> n \<Longrightarrow> x \<noteq> to \<Longrightarrow> x \<noteq> from \<Longrightarrow> below fs' (base @ [x]) = below fs (base @ [x])"
  by (auto simp: switched_def below_def prefix_def)

lemma names_differ:
  assumes "fst (path_typ n) = TypeActive" and "fst (path_typ m) = TypeActive"
  shows "m \<noteq> bak_name n" "m \<noteq> lan_name n" "bak_name m \<noteq> lan_name n" "lan_name m \<noteq> bak_name n"
    "lan_name m = lan_name n \<longleftrightarrow> bak_name m = bak_name n"
  using assms active_names(4,5)
  by (metis, metis, auto simp: lan_name_def bak_name_def serverSuffix_def backupSuffix_def)

text \<open>The folders of the profiles \<open>ns\<close> are aside, those of no two profiles under the same name.\<close>

definition aside :: "path \<Rightarrow> FS \<Rightarrow> string list \<Rightarrow> FS \<Rightarrow> bool" where
  "aside base fs0 ns fs \<longleftrightarrow> fs_wf fs \<and> distinct ns \<and> distinct (map bak_name ns)
     \<and> (\<forall>n\<in>set ns. fst (path_typ n) = TypeActive \<and> fs0 (base @ [n]) \<noteq> None \<and> fs (base @ [n]) \<noteq> None
          \<and> below fs (base @ [bak_name n]) = below fs0 (base @ [n]) \<and> fs (base @ [lan_name n]) = None)"

lemma aside_Cons:
  assumes "aside base fs0 ns fs" and "only_aside_fails bad" and "fst (path_typ n) = TypeActive" and "n \<notin> set ns"
    and "fs0 (base @ [n]) \<noteq> None" and "below fs (base @ [n]) = below fs0 (base @ [n])"
    and "Data_Backup bad (Some (base @ [n])) fs = (True, fs')"
  shows "aside base fs0 (n # ns) fs' \<and> (\<forall>m. fst (path_typ m) = TypeActive \<and> m \<noteq> n \<longrightarrow> below fs' (base @ [m]) = below fs (base @ [m]))"
proof -
  have ex: "fs (base @ [n]) \<noteq> None" using assms(5,6) by (metis below_Nil)
  have s: "switched base n (bak_name n) (lan_name n) fs fs'" and free: "fs (base @ [bak_name n]) = None" and wf: "fs_wf fs'"
    using Backup_succeeds [OF assms(2,3) ex _ assms(7)] assms(1) by (auto simp: aside_def)
  have old: "m \<noteq> n" "bak_name m \<noteq> bak_name n" "fst (path_typ m) = TypeActive" if "m \<in> set ns" for m
    using that assms(1,4) free unfolding aside_def by (metis, metis below_Nil, metis)
  have keep: "below fs' (base @ [m]) = below fs (base @ [m])" if "fst (path_typ m) = TypeActive" "m \<noteq> n" for m
    by (rule switched_other [OF s]) (use that names_differ [OF assms(3) that(1)] in simp_all)
  have "below fs' (base @ [x]) = below fs (base @ [x])" if "m \<in> set ns" "x = m \<or> x = bak_name m \<or> x = lan_name m" for m x
    by (rule switched_other [OF s])
      (use that old [OF that(1)] names_differ [OF assms(3) old(3) [OF that(1)]] names_differ [OF old(3) [OF that(1)] assms(3)] in auto)
  then have same: "fs' (base @ [x]) = fs (base @ [x])" "below fs' (base @ [x]) = below fs (base @ [x])"
    if "m \<in> set ns" "x = m \<or> x = bak_name m \<or> x = lan_name m" for m x
    using that by (metis below_Nil)+
  have "below fs' (base @ [n]) [] \<noteq> None" using s below_Nil [of fs "base @ [lan_name n]"]
    by (cases "fs (base @ [lan_name n]) = None") (auto simp: switched_def)
  then have "fs' (base @ [n]) \<noteq> None" by (simp only: below_Nil not_False_eq_True)
  moreover have "fs' (base @ [lan_name n]) = None" using s by (metis below_Nil switched_def)
  moreover have "below fs' (base @ [bak_name n]) = below fs0 (base @ [n])" using s assms(6) by (simp add: switched_def)
  moreover have "bak_name n \<notin> bak_name ` set ns" using old(2) by force
  ultimately have "aside base fs0 (n # ns) fs'"
    using assms(1,3,4,5) wf same unfolding aside_def by auto
  with keep show ?thesis by blast
qed

text \<open>Putting one of them back.\<close>

definition touched :: "path \<Rightarrow> string \<Rightarrow> path \<Rightarrow> bool" where
  "touched base n q \<longleftrightarrow> prefix (base @ [n]) q \<or> prefix (base @ [bak_name n]) q \<or> prefix (base @ [lan_name n]) q"

lemma aside_restore:
  assumes "only_aside_fails bad" and "aside base fs0 (n # ns) fs"
  shows "\<exists>fs'. Data_Restore bad (Some (base @ [n])) fs = (True, fs') \<and> aside base fs0 ns fs'
    \<and> below fs' (base @ [n]) = below fs0 (base @ [n])
    \<and> (\<forall>m. fst (path_typ m) = TypeActive \<and> m \<noteq> n \<longrightarrow> below fs' (base @ [m]) = below fs (base @ [m]))
    \<and> (\<forall>q. \<not> touched base n q \<longrightarrow> fs' q = fs q)"
proof -
  have n: "fst (path_typ n) = TypeActive" "fs (base @ [n]) \<noteq> None" "fs_wf fs" "fs (base @ [lan_name n]) = None"
    "below fs (base @ [bak_name n]) = below fs0 (base @ [n])" "fs0 (base @ [n]) \<noteq> None" "n \<notin> set ns"
    using assms(2) by (simp_all add: aside_def)
  from Restore_succeeds [OF assms(1) n(1,2,3,4)] obtain fs' where r: "Data_Restore bad (Some (base @ [n])) fs = (True, fs')"
    and s: "switched base n (lan_name n) (bak_name n) fs fs'" and wf: "fs_wf fs'" by blast
  have "bak_name n \<notin> bak_name ` set ns" "\<forall>m\<in>set ns. fst (path_typ m) = TypeActive" using assms(2) by (simp_all add: aside_def)
  then have old: "m \<noteq> n" "bak_name m \<noteq> bak_name n" "fst (path_typ m) = TypeActive" if "m \<in> set ns" for m
    using that n(7) by (metis, metis imageI, metis)
  have keep: "below fs' (base @ [m]) = below fs (base @ [m])" if "fst (path_typ m) = TypeActive" "m \<noteq> n" for m
    by (rule switched_other [OF s]) (use that names_differ [OF n(1) that(1)] in simp_all)
  have "below fs' (base @ [x]) = below fs (base @ [x])" if "m \<in> set ns" "x = m \<or> x = bak_name m \<or> x = lan_name m" for m x
    by (rule switched_other [OF s])
      (use that old [OF that(1)] names_differ [OF n(1) old(3) [OF that(1)]] names_differ [OF old(3) [OF that(1)] n(1)] in auto)
  then have same: "fs' (base @ [x]) = fs (base @ [x])" "below fs' (base @ [x]) = below fs (base @ [x])"
    if "m \<in> set ns" "x = m \<or> x = bak_name m \<or> x = lan_name m" for m x
    using that by (metis below_Nil)+
  have "below fs' (base @ [n]) = below fs0 (base @ [n])"
    using s n(5,6) below_Nil [of fs "base @ [bak_name n]"] below_Nil [of fs0 "base @ [n]"] by (auto simp: switched_def)
  moreover have "aside base fs0 ns fs'"
    using assms(2) wf same unfolding aside_def by auto
  moreover have "\<forall>q. \<not> touched base n q \<longrightarrow> fs' q = fs q" using s by (simp add: switched_def touched_def)
  ultimately show ?thesis using r keep by blast
qed

text \<open>Undoing puts them all back.\<close>

lemma undo_aside:
  assumes "only_aside_fails bad" and "aside base fs0 ns fs"
  shows "\<forall>m. fst (path_typ m) = TypeActive \<longrightarrow>
    below (fold (\<lambda>q fs. snd (Data_Restore bad (Some q) fs)) (map (\<lambda>n. base @ [n]) ns) fs) (base @ [m])
      = (if m \<in> set ns then below fs0 (base @ [m]) else below fs (base @ [m]))"
  using assms(2)
proof (induction ns arbitrary: fs)
  case (Cons n ns)
  have "n \<notin> set ns" using Cons.prems by (simp add: aside_def)
  with aside_restore [OF assms(1) Cons.prems] Cons.IH show ?case by fastforce
qed simp

lemma loop_all_or_none:
  assumes "only_aside_fails bad" and "aside base fs0 done fs" and "distinct todo" and "set todo \<inter> set done = {}"
    and "\<forall>n\<in>set todo. fst (path_typ n) = TypeActive \<and> fs0 (base @ [n]) \<noteq> None \<and> below fs (base @ [n]) = below fs0 (base @ [n])"
    and "fs_wf fs0"
    and "profile_loop (Data_Backup bad) (Data_Restore bad) True (map (\<lambda>n. base @ [n]) done) (map (\<lambda>n. base @ [n]) todo) fs = (ok, fs')"
  shows "if ok then (\<forall>n\<in>set done \<union> set todo. below fs' (base @ [bak_name n]) = below fs0 (base @ [n]))
    else (\<forall>n\<in>set done \<union> set todo. below fs' (base @ [n]) = below fs0 (base @ [n]))"
  using assms(2-5,7)
proof (induction todo arbitrary: "done" fs)
  case Nil
  then show ?case by (auto simp: aside_def)
next
  case (Cons n ns)
  obtain ok1 fs1 where b: "Data_Backup bad (Some (base @ [n])) fs = (ok1, fs1)" by (cases "Data_Backup bad (Some (base @ [n])) fs")
  have n: "fst (path_typ n) = TypeActive" "fs0 (base @ [n]) \<noteq> None" "below fs (base @ [n]) = below fs0 (base @ [n])" "n \<notin> set done"
    using Cons.prems(3,4) by auto
  have ex: "fs (base @ [n]) \<noteq> None" using n(2,3) by (metis below_Nil)
  show ?case
  proof (cases ok1)
    case True
    with b have b': "Data_Backup bad (Some (base @ [n])) fs = (True, fs1)" by simp
    note c = aside_Cons [OF Cons.prems(1) assms(1) n(1,4,2,3) b']
    have "\<forall>m\<in>set ns. fst (path_typ m) = TypeActive \<and> fs0 (base @ [m]) \<noteq> None \<and> below fs1 (base @ [m]) = below fs0 (base @ [m])"
      using c Cons.prems(2,4) by auto
    from Cons.IH [of "n # done" fs1, OF _ _ _ this] c Cons.prems(2,3,5) b' show ?thesis by auto
  next
    case False
    have "fs base = Some EDir" using Cons.prems(1) ex unfolding aside_def fs_wf_def by blast
    from Backup_fails [OF assms(1) n(1) ex this] b False have fs1: "fs1 = fs" by simp
    with Cons.prems(5) b False have ok: "\<not> ok"
      and fs': "fs' = fold (\<lambda>q fs. snd (Data_Restore bad (Some q) fs)) (map (\<lambda>n. base @ [n]) done) fs" by simp_all
    have "below fs' (base @ [m]) = below fs0 (base @ [m])" if "m \<in> set done \<union> set (n # ns)" for m
    proof -
      have "fst (path_typ m) = TypeActive" using that Cons.prems(1,4) by (auto simp: aside_def)
      with undo_aside [OF assms(1) Cons.prems(1)] fs' Cons.prems(4) that show ?thesis by auto
    qed
    with ok show ?thesis by simp
  qed
qed

lemma setProfileData_names:
  assumes "setProfileData bad u names fs = Some ps" and "distinct names"
  shows "\<exists>ns. ps = map (\<lambda>n. (up_path u @ profileFolder u) @ [n]) ns \<and> distinct ns
    \<and> (\<forall>n\<in>set ns. fst (path_typ n) = TypeActive \<and> fs ((up_path u @ profileFolder u) @ [n]) = Some EDir)"
proof -
  let ?b = "up_path u @ profileFolder u"
  let ?ns = "filter (\<lambda>n. fst (path_typ n) = TypeActive \<and> fs (?b @ [n]) = Some EDir \<and> (up_gameId u = AoE1 \<or> ParseUint_ok n)) names"
  have "map snd (filter (\<lambda>(t, p). t = TypeActive) (List.map_filter (\<lambda>name.
             if fs (?b @ [name]) \<noteq> Some EDir then None
             else if up_gameId u \<noteq> AoE1 \<and> \<not> ParseUint_ok name then None
             else Some (fst (path_typ name), ?b @ [name])) names)) = map (\<lambda>n. ?b @ [n]) ?ns"
    by (induction names) (auto simp: map_filter_simps)
  with assms(1) have "ps = map (\<lambda>n. ?b @ [n]) ?ns"
    by (auto simp: setProfileData_def Profiles_def Let_def split: if_splits)
  with assms(2) show ?thesis by (intro exI [of _ ?ns]) auto
qed

text \<open>
  The profiles of the user are set aside all or none: whichever of the moves aside fail, when
  \<open>BackupProfiles\<close> reports success every profile is under its \<open>.bak\<close> name unchanged, and when it reports failure every
  profile, those it had already moved included, is back under its own name unchanged.
\<close>

lemma profiles_all_or_none:
  assumes "fs_wf fs" and "only_aside_fails bad" and "distinct names"
    and "setProfileData bad u names fs = Some ps" and "BackupProfiles bad u names fs = (ok, fs')"
  shows "\<forall>p\<in>set ps. below fs' (if ok then originalPath p else p) = below fs p"
proof -
  obtain ns where ps: "ps = map (\<lambda>n. (up_path u @ profileFolder u) @ [n]) ns" and "distinct ns"
    and ns: "\<forall>n\<in>set ns. fst (path_typ n) = TypeActive \<and> fs ((up_path u @ profileFolder u) @ [n]) = Some EDir"
    using setProfileData_names [OF assms(4,3)] by blast
  have "profile_loop (Data_Backup bad) (Data_Restore bad) True (map (\<lambda>n. (up_path u @ profileFolder u) @ [n]) []) ps fs = (ok, fs')"
    using assms(4,5) by (simp add: BackupProfiles_def runProfileMethod_def)
  from loop_all_or_none [OF assms(2) _ \<open>distinct ns\<close> _ _ assms(1) this [unfolded ps]] assms(1) ns
  show ?thesis unfolding ps by (auto simp: aside_def active_names(7) simp del: append_assoc split: if_splits)
qed

end
