(* ===== verification/ConfigAdmin.thy ===== *)
theory ConfigAdmin
  imports HostsFile
begin

text \<open>
  The program that changes the system with administrator rights, on Linux: trusting a certificate
  (\<open>launcher-common/cert/cert_linux.go\<close>), the commands of \<open>launcher-config-admin\<close>, how it is started
  (\<open>launcher-common/executor\<close>), and the agent that starts it for others (\<open>launcher-config-admin-agent\<close>).
  The system is the disk of \<open>HostsFile\<close>.  Signals, logs and the marshalling of arguments and messages are left out.
\<close>

section \<open>Exit codes and results of programs\<close>

definition ErrSuccess :: int where "ErrSuccess = 0"
definition ErrGeneral :: int where "ErrGeneral = 1"
definition ErrSyntax :: int where "ErrSyntax = 2"

definition ErrLocalCertRemove :: int where "ErrLocalCertRemove = 9"
definition ErrIpMapRemove :: int where "ErrIpMapRemove = 10"
definition ErrIpMapRemoveRevert :: int where "ErrIpMapRemoveRevert = 11"
definition ErrLocalCertAdd :: int where "ErrLocalCertAdd = 12"
definition ErrLocalCertAddParse :: int where "ErrLocalCertAddParse = 13"
definition ErrIpMapAdd :: int where "ErrIpMapAdd = 14"
definition ErrIpMapAddRevert :: int where "ErrIpMapAddRevert = 15"

definition ErrDecode :: int where "ErrDecode = 10"
definition ErrNonExistingAction :: int where "ErrNonExistingAction = 11"
definition ErrConnectionClosing :: int where "ErrConnectionClosing = 12"
definition ErrCertAlreadyAdded :: int where "ErrCertAlreadyAdded = 13"
definition ErrIpsAlreadyMapped :: int where "ErrIpsAlreadyMapped = 14"
definition ErrCertInvalid :: int where "ErrCertInvalid = 15"

record Result =
  res_Err :: bool
  res_ExitCode :: int
  res_Pid :: nat

definition Result_Success :: "Result \<Rightarrow> bool" where
  "Result_Success r \<longleftrightarrow> \<not> res_Err r \<and> (res_Pid r \<noteq> 0 \<or> res_ExitCode r = ErrSuccess)"

text \<open>How a run of a program ends: with an exit code, with a Go panic, or not at all.\<close>

datatype proc_end = Exited int | Panicked | Endless

text \<open>What \<open>standardExec\<close> makes of it when it waits for the exit code; a Go program that panics exits with 2.\<close>

definition exec_result :: "proc_end \<Rightarrow> Result option" where
  "exec_result r = (case r of
      Exited c \<Rightarrow> Some \<lparr>res_Err = False, res_ExitCode = c, res_Pid = 0\<rparr>
    | Panicked \<Rightarrow> Some \<lparr>res_Err = False, res_ExitCode = 2, res_Pid = 0\<rparr>
    | Endless \<Rightarrow> None)"

section \<open>Certificates the system trusts\<close>

text \<open>
  A certificate is its bytes.  The PEM form and the parser of \<open>crypto/x509\<close> are fields, as are the folders that exist and the
  operations that fail.
\<close>

datatype cert_op = TempCert | WriteCert | CloseCert | RenameCert | TempCertNear | ReopenCert | CopyCert | CloseCertNear
  | RenameCertNear | ChmodCert | OpenCert | ReadCert | RemoveCert

record CertEnv =
  ce_isDir :: "string \<Rightarrow> bool"
  ce_pem :: "string \<Rightarrow> string"
  ce_pem_Decode :: "string \<Rightarrow> string option"
  ce_parse :: "string \<Rightarrow> bool"
  ce_fails :: "cert_op \<Rightarrow> bool"
  ce_which :: "string list \<Rightarrow> string"
  ce_update :: "string \<Rightarrow> Result"
  ce_time :: int

definition updateStoreBinaries :: "string list" where
  "updateStoreBinaries = [''update-ca-certificates'', ''update-ca-trust'']"

definition certStorePaths :: "string list" where
  "certStorePaths = [''/etc/ca-certificates/trust-source/anchors'', ''/usr/local/share/ca-certificates'',
     ''/etc/pki/ca-trust/source/anchors'', ''/etc/pki/trust/anchors'']"

definition FlushCerts :: "CertEnv \<Rightarrow> Result" where
  "FlushCerts c = (let binary = ce_which c updateStoreBinaries
     in if binary = [] then \<lparr>res_Err = True, res_ExitCode = 0, res_Pid = 0\<rparr> else ce_update c binary)"

definition getCertPath :: "CertEnv \<Rightarrow> string option" where
  "getCertPath c = map_option (\<lambda>dir. dir @ ''/ageLANServer.crt'') (List.find (ce_isDir c) certStorePaths)"

definition BytesToCertificate :: "CertEnv \<Rightarrow> string \<Rightarrow> string option" where
  "BytesToCertificate c raw = (if ce_parse c raw then Some raw else None)"

text \<open>
  Putting one certificate in place: through a temporary file, and through another one next to its place if that is on
  another disk.
\<close>

definition place_cert :: "CertEnv \<Rightarrow> string \<Rightarrow> string \<Rightarrow> HostsDisk \<Rightarrow> bool \<times> HostsDisk" where
  "place_cert c certPath raw d =
     (if ce_fails c TempCert \<or> ce_fails c WriteCert \<or> ce_fails c CloseCert then (False, d)
      else if ce_fails c RenameCert
        \<and> (ce_fails c TempCertNear \<or> ce_fails c ReopenCert \<or> ce_fails c CopyCert \<or> ce_fails c CloseCertNear \<or> ce_fails c RenameCertNear)
        then (False, d)
      else (\<not> ce_fails c ChmodCert, put_file certPath (ce_pem c raw) (ce_time c) d))"

fun place_certs :: "CertEnv \<Rightarrow> string \<Rightarrow> string list \<Rightarrow> HostsDisk \<Rightarrow> bool \<times> HostsDisk" where
  "place_certs c certPath [] d = (True, d)"
| "place_certs c certPath (raw # raws) d =
     (case place_cert c certPath raw d of
        (True, d1) \<Rightarrow> place_certs c certPath raws d1
      | (False, d1) \<Rightarrow> (False, d1))"

text \<open>The first result is whether there was no error.\<close>

definition TrustCertificates :: "CertEnv \<Rightarrow> string list \<Rightarrow> HostsDisk \<Rightarrow> bool \<times> HostsDisk" where
  "TrustCertificates c certs d =
     (case getCertPath c of
        None \<Rightarrow> (False, d)
      | Some certPath \<Rightarrow>
          (case place_certs c certPath certs d of
             (False, d1) \<Rightarrow> (False, d1)
           | (True, d1) \<Rightarrow> (\<not> res_Err (FlushCerts c), d1)))"

text \<open>
  The results are the certificates removed (\<open>None\<close> is nil) and whether there was no error.  The certificate is
  returned when the update failed, not when it succeeded.  Text that is no PEM is dereferenced.
\<close>

definition UntrustCertificates :: "CertEnv \<Rightarrow> HostsDisk \<Rightarrow> (string list option \<times> bool) outcome \<times> HostsDisk" where
  "UntrustCertificates c d =
     (case getCertPath c of
        None \<Rightarrow> (Ret (None, False), d)
      | Some certPath \<Rightarrow>
          (case disk_files d certPath of
             None \<Rightarrow> (Ret (None, False), d)
           | Some (certBytes, _) \<Rightarrow>
               if ce_fails c OpenCert \<or> ce_fails c ReadCert then (Ret (None, False), d)
               else (case ce_pem_Decode c certBytes of
                   None \<Rightarrow> (Panic, d)
                 | Some block \<Rightarrow>
                     (case BytesToCertificate c block of
                        None \<Rightarrow> (Ret (None, False), d)
                      | Some cert \<Rightarrow>
                          if ce_fails c RemoveCert then (Ret (None, False), d)
                          else let d1 = remove_file certPath d; err = res_Err (FlushCerts c)
                            in (Ret (if err then Some [cert] else None, \<not> err), d1)))))"

section \<open>The commands of the program\<close>

record AdminEnv =
  ae_hosts :: HostsEnv
  ae_io :: HostsIO
  ae_resolves :: "string \<Rightarrow> bool"
  ae_cert :: CertEnv

record AdminSetupValues =
  asv_GameId :: string
  asv_MapIp :: IP
  asv_MacOsExclusiveMappings :: bool
  asv_AddLocalCertData :: "string option"

record AdminRevertValues =
  arv_IPs :: bool
  arv_Certs :: bool
  arv_RemoveAll :: bool

text \<open>The length of a byte slice that may be nil.\<close>

definition slice_data :: "string option \<Rightarrow> string" where
  "slice_data b = (case b of None \<Rightarrow> [] | Some s \<Rightarrow> s)"

text \<open>The last step of \<open>runSetUp\<close>: the mappings; a certificate trusted before is untrusted when they cannot be added.\<close>

definition admin_map_hosts :: "AdminEnv \<Rightarrow> AdminSetupValues \<Rightarrow> bool \<Rightarrow> int \<Rightarrow> HostsDisk \<Rightarrow> proc_end \<times> HostsDisk" where
  "admin_map_hosts e v trustedCertificate exitCode d =
     (if asv_MapIp v = [] then (Exited exitCode, d)
      else case AddHosts (ae_hosts e) (ae_io e) (ae_resolves e) [] (Some (asv_MapIp v)) (asv_GameId v) [] []
          (asv_MacOsExclusiveMappings v) True d of
        None \<Rightarrow> (Endless, d)
      | Some (Panic, d1) \<Rightarrow> (Panicked, d1)
      | Some (Ret True, d1) \<Rightarrow> (Exited exitCode, d1)
      | Some (Ret False, d1) \<Rightarrow>
          if \<not> trustedCertificate then (Exited ErrIpMapAdd, d1)
          else (case UntrustCertificates (ae_cert e) d1 of
              (Panic, d2) \<Rightarrow> (Panicked, d2)
            | (Ret (_, ok), d2) \<Rightarrow> (Exited (if ok then ErrIpMapAdd else ErrIpMapAddRevert), d2)))"

text \<open>Arguments that do not parse set the exit code, and the command goes on with what was parsed.\<close>

definition admin_runSetUp :: "AdminEnv \<Rightarrow> bool \<Rightarrow> AdminSetupValues \<Rightarrow> HostsDisk \<Rightarrow> proc_end \<times> HostsDisk" where
  "admin_runSetUp e parsed v d =
     (let exitCode = (if parsed then ErrSuccess else ErrSyntax)
      in if asv_GameId v = [] then (Exited ErrSyntax, d)
         else if slice_data (asv_AddLocalCertData v) = [] then admin_map_hosts e v False exitCode d
         else case BytesToCertificate (ae_cert e) (slice_data (asv_AddLocalCertData v)) of
           None \<Rightarrow> (Exited ErrLocalCertAddParse, d)
         | Some crt \<Rightarrow>
             (case TrustCertificates (ae_cert e) [crt] d of
                (False, d1) \<Rightarrow> (Exited ErrLocalCertAdd, d1)
              | (True, d1) \<Rightarrow> admin_map_hosts e v True exitCode d1))"

definition admin_unmap_hosts ::
  "AdminEnv \<Rightarrow> AdminRevertValues \<Rightarrow> string list option \<Rightarrow> HostsDisk \<Rightarrow> proc_end \<times> HostsDisk" where
  "admin_unmap_hosts e v removedCertificates d =
     (if \<not> (arv_IPs v \<or> arv_RemoveAll v) then (Exited ErrSuccess, d)
      else case RemoveHosts (ae_hosts e) (ae_io e) d of
        (Panic, d1) \<Rightarrow> (Panicked, d1)
      | (Ret True, d1) \<Rightarrow> (Exited ErrSuccess, d1)
      | (Ret False, d1) \<Rightarrow>
          (case removedCertificates of
             Some certs \<Rightarrow>
               if arv_RemoveAll v then (Exited ErrIpMapRemove, d1)
               else (case TrustCertificates (ae_cert e) certs d1 of
                   (ok, d2) \<Rightarrow> (Exited (if ok then ErrIpMapRemove else ErrIpMapRemoveRevert), d2))
           | None \<Rightarrow> (Exited ErrIpMapRemove, d1)))"

definition admin_runRevert :: "AdminEnv \<Rightarrow> bool \<Rightarrow> AdminRevertValues \<Rightarrow> HostsDisk \<Rightarrow> proc_end \<times> HostsDisk" where
  "admin_runRevert e parsed v d =
     (if \<not> parsed then (Exited ErrSyntax, d)
      else if \<not> (arv_Certs v \<or> arv_RemoveAll v) then admin_unmap_hosts e v None d
      else case UntrustCertificates (ae_cert e) d of
        (Panic, d1) \<Rightarrow> (Panicked, d1)
      | (Ret (removed, ok), d1) \<Rightarrow>
          if \<not> ok \<and> \<not> arv_RemoveAll v then (Exited ErrLocalCertRemove, d1)
          else admin_unmap_hosts e v removed d1)"

section \<open>Starting it\<close>

text \<open>
  \<open>started\<close> is \<open>None\<close> if the program runs, and otherwise what executing it returns instead; the result is \<open>None\<close>
  when the program does not end.
\<close>

definition run_program ::
  "Result option \<Rightarrow> (HostsDisk \<Rightarrow> proc_end \<times> HostsDisk) \<Rightarrow> HostsDisk \<Rightarrow> (Result \<times> HostsDisk) option" where
  "run_program started run d =
     (case started of
        Some r \<Rightarrow> Some (r, d)
      | None \<Rightarrow> (case run d of (r, d1) \<Rightarrow> map_option (\<lambda>r. (r, d1)) (exec_result r)))"

definition executor_RunSetUp ::
  "AdminEnv \<Rightarrow> Result option \<Rightarrow> string \<Rightarrow> IP \<Rightarrow> bool \<Rightarrow> string option \<Rightarrow> HostsDisk \<Rightarrow> (Result \<times> HostsDisk) option" where
  "executor_RunSetUp e started gameId ip macOsExclusiveMappings certificate d =
     run_program started
       (admin_runSetUp e True \<lparr>asv_GameId = gameId, asv_MapIp = ip, asv_MacOsExclusiveMappings = macOsExclusiveMappings,
          asv_AddLocalCertData = certificate\<rparr>) d"

definition executor_RunRevert ::
  "AdminEnv \<Rightarrow> Result option \<Rightarrow> bool \<Rightarrow> bool \<Rightarrow> bool \<Rightarrow> HostsDisk \<Rightarrow> (Result \<times> HostsDisk) option" where
  "executor_RunRevert e started ips certificate failfast d =
     run_program started
       (admin_runRevert e True (if failfast then \<lparr>arv_IPs = ips, arv_Certs = certificate, arv_RemoveAll = False\<rparr>
          else \<lparr>arv_IPs = False, arv_Certs = False, arv_RemoveAll = True\<rparr>)) d"

section \<open>The agent\<close>

text \<open>What the agent has done, and the disk it does it to.\<close>

record Agent =
  mappedIps :: bool
  addedCert :: bool

record SetupCommand =
  sc_IP :: IP
  sc_MacOsExclusiveMappings :: bool
  sc_Certificate :: "string option"
  sc_GameId :: string

record RevertCommand =
  rc_IPs :: bool
  rc_Certificate :: bool

text \<open>A command that cannot be decoded is \<open>None\<close>; the result is the exit code sent back.\<close>

definition handleSetUp ::
  "AdminEnv \<Rightarrow> Result option \<Rightarrow> SetupCommand option \<Rightarrow> Agent \<times> HostsDisk \<Rightarrow> (int \<times> Agent \<times> HostsDisk) option" where
  "handleSetUp e started msg = (\<lambda>(a, d).
     (case msg of
        None \<Rightarrow> Some (ErrDecode, a, d)
      | Some m \<Rightarrow>
          if sc_IP m \<noteq> [] \<and> mappedIps a then Some (ErrIpsAlreadyMapped, a, d)
          else if sc_Certificate m \<noteq> None \<and> addedCert a then Some (ErrCertAlreadyAdded, a, d)
          else let cert = Option.bind (sc_Certificate m) (BytesToCertificate (ae_cert e))
            in if sc_Certificate m \<noteq> None \<and> cert = None then Some (ErrCertInvalid, a, d)
               else map_option (\<lambda>(result, d1).
                   (res_ExitCode result,
                    (if Result_Success result
                     then a\<lparr>mappedIps := mappedIps a \<or> sc_IP m \<noteq> [], addedCert := addedCert a \<or> cert \<noteq> None\<rparr> else a),
                    d1))
                 (executor_RunSetUp e started (sc_GameId m) (sc_IP m) (sc_MacOsExclusiveMappings m) cert d)))"

definition handleRevert ::
  "AdminEnv \<Rightarrow> Result option \<Rightarrow> RevertCommand option \<Rightarrow> Agent \<times> HostsDisk \<Rightarrow> (int \<times> Agent \<times> HostsDisk) option" where
  "handleRevert e started msg = (\<lambda>(a, d).
     (case msg of
        None \<Rightarrow> Some (ErrDecode, a, d)
      | Some m \<Rightarrow>
          let revertIps = rc_IPs m \<and> mappedIps a; revertCert = rc_Certificate m \<and> addedCert a
          in if \<not> revertIps \<and> \<not> revertCert then Some (ErrSuccess, a, d)
             else map_option (\<lambda>(result, d1).
                 (res_ExitCode result,
                  (if Result_Success result
                   then a\<lparr>mappedIps := mappedIps a \<and> \<not> revertIps, addedCert := addedCert a \<and> \<not> revertCert\<rparr> else a),
                  d1))
               (executor_RunRevert e started revertIps revertCert True d)))"

text \<open>
  The actions of one connection, each with the environment of the program started for it.  The list ends where the client
  closes the connection or sends something that is no action.  The results are whether to exit and the codes sent back.
\<close>

datatype agent_action = ActRevert "RevertCommand option" | ActSetup "SetupCommand option" | ActExit bool | ActOther

record AgentRequest =
  ar_env :: AdminEnv
  ar_started :: "Result option"
  ar_action :: agent_action

definition handle_action :: "AgentRequest \<Rightarrow> Agent \<times> HostsDisk \<Rightarrow> (bool \<times> int list \<times> Agent \<times> HostsDisk) option" where
  "handle_action r s =
     (case ar_action r of
        ActRevert m \<Rightarrow> map_option (\<lambda>(c, s'). (False, [ErrSuccess, c], s')) (handleRevert (ar_env r) (ar_started r) m s)
      | ActSetup m \<Rightarrow> map_option (\<lambda>(c, s'). (False, [ErrSuccess, c], s')) (handleSetUp (ar_env r) (ar_started r) m s)
      | ActExit closed \<Rightarrow> Some (if closed then (True, [], s) else (False, [ErrConnectionClosing], s))
      | ActOther \<Rightarrow> Some (False, [ErrNonExistingAction], s))"

fun handleClient :: "AgentRequest list \<Rightarrow> Agent \<times> HostsDisk \<Rightarrow> (bool \<times> int list \<times> Agent \<times> HostsDisk) option" where
  "handleClient [] s = Some (False, [], s)"
| "handleClient (r # rs) s =
     (case handle_action r s of
        None \<Rightarrow> None
      | Some (exit, codes, s1) \<Rightarrow>
          if exit then Some (True, codes, s1)
          else map_option (\<lambda>(exit, codes', s2). (exit, codes @ codes', s2)) (handleClient rs s1))"

text \<open>The connections the agent accepts, one after the other, until one asks it to exit.\<close>

fun StartServer :: "AgentRequest list list \<Rightarrow> Agent \<times> HostsDisk \<Rightarrow> (int list list \<times> Agent \<times> HostsDisk) option" where
  "StartServer [] s = Some ([], s)"
| "StartServer (conn # conns) s =
     (case handleClient conn s of
        None \<Rightarrow> None
      | Some (exit, codes, s1) \<Rightarrow>
          if exit then Some ([codes], s1)
          else map_option (\<lambda>(rest, s2). (codes # rest, s2)) (StartServer conns s1))"

end
