(* ===== verification/ConfigAdminProps.thy ===== *)
theory ConfigAdminProps
  imports ConfigAdmin HostsProps
begin

text \<open>
  Properties of the program that changes the system and of its agent: the agent knows what it has changed and undoes
  it; which failures it reports as successes; what a revert that fails half way leaves.
\<close>

section \<open>Certificates\<close>

lemma cert_path_not_hosts:
  assumes "getCertPath c = Some p" and "env_os e = Linux"
  shows "p \<noteq> hosts_Path e" "p \<noteq> backup_Path e" "hosts_Path e \<noteq> p" "backup_Path e \<noteq> p"
proof -
  have "p \<in> (\<lambda>dir. dir @ ''/ageLANServer.crt'') ` set certStorePaths"
    using assms(1) by (auto simp: getCertPath_def find_Some_iff)
  then show "p \<noteq> hosts_Path e" "p \<noteq> backup_Path e" "hosts_Path e \<noteq> p" "backup_Path e \<noteq> p"
    using assms(2) by (auto simp: certStorePaths_def hosts_Path_def backup_Path_def)
qed

text \<open>The PEM form of a certificate that parses reads back, and no bytes are no certificate.\<close>

definition pem_ok :: "CertEnv \<Rightarrow> bool" where
  "pem_ok c \<longleftrightarrow> \<not> ce_parse c [] \<and> (\<forall>raw. ce_parse c raw \<longrightarrow> ce_pem_Decode c (ce_pem c raw) = Some raw)"

text \<open>An environment in which nothing fails, whatever the times of the writes.\<close>

definition works :: "HostsEnv \<Rightarrow> CertEnv \<Rightarrow> AdminEnv \<Rightarrow> bool" where
  "works h c e \<longleftrightarrow> ae_hosts e = h \<and> (\<exists>t. ae_cert e = c\<lparr>ce_time := t\<rparr>)
     \<and> ce_fails c = (\<lambda>_. False) \<and> \<not> res_Err (FlushCerts c)
     \<and> io_fails (ae_io e) = (\<lambda>_. False) \<and> io_write_time (ae_io e) < io_backup_time (ae_io e) + one_second"

lemma cert_time [simp]:
  "getCertPath (c\<lparr>ce_time := t\<rparr>) = getCertPath c" "FlushCerts (c\<lparr>ce_time := t\<rparr>) = FlushCerts c"
  "BytesToCertificate (c\<lparr>ce_time := t\<rparr>) = BytesToCertificate c"
  by (simp_all add: getCertPath_def FlushCerts_def BytesToCertificate_def Let_def fun_eq_iff)

lemma Trust_works:
  assumes "works h c e" and "getCertPath c = Some p"
  shows "\<exists>t. TrustCertificates (ae_cert e) [raw] d = (True, put_file p (ce_pem c raw) t d)"
  using assms by (auto simp: works_def TrustCertificates_def place_cert_def)

lemma Untrust_works:
  assumes "works h c e" and "getCertPath c = Some p" and "pem_ok c" and "ce_parse c raw"
    and "disk_files d p = Some (ce_pem c raw, t)"
  shows "UntrustCertificates (ae_cert e) d = (Ret (None, True), remove_file p d)"
  using assms by (auto simp: works_def UntrustCertificates_def BytesToCertificate_def pem_ok_def Let_def)

section \<open>What the agent knows\<close>

text \<open>A hosts file that misses, for every game and every address, one of the names at least.\<close>

definition names_missing :: "HostsEnv \<Rightarrow> string \<Rightarrow> bool" where
  "names_missing h content \<longleftrightarrow> (\<forall>resolves g ip mac m cache rest.
     Mappings resolves g (Some ip) mac [] = Some (m, cache) \<longrightarrow> missingIpMappings h m content \<noteq> (([], rest), True))"

text \<open>
  The system as the agent left it, from one with the hosts file \<open>content\<close> and without a certificate of the program: what it has not
  done is undone, and what it has done can be undone; nothing else is touched.
\<close>

definition agent_inv ::
  "HostsEnv \<Rightarrow> CertEnv \<Rightarrow> string \<Rightarrow> string \<Rightarrow> HostsDisk \<Rightarrow> Agent \<times> HostsDisk \<Rightarrow> bool" where
  "agent_inv h c p content d0 = (\<lambda>(a, d).
     (if mappedIps a then \<exists>new wt bt. disk_files d (hosts_Path h) = Some (new, wt) \<and> disk_files d (backup_Path h) = Some (content, bt)
          \<and> wt < bt + one_second
      else (\<exists>t. disk_files d (hosts_Path h) = Some (content, t)) \<and> disk_files d (backup_Path h) = None)
     \<and> (if addedCert a then \<exists>raw t. ce_parse c raw \<and> disk_files d p = Some (ce_pem c raw, t) else disk_files d p = None)
     \<and> (\<forall>q. q \<noteq> hosts_Path h \<and> q \<noteq> backup_Path h \<and> q \<noteq> p \<longrightarrow> disk_files d q = disk_files d0 q))"

lemma Mappings_not_Nil: "Mappings resolves g (Some ip) mac cache = Some (m, cache') \<Longrightarrow> m \<noteq> []"
proof -
  assume "Mappings resolves g (Some ip) mac cache = Some (m, cache')"
  then obtain hosts where "m = fold (\<lambda>h m. AList.update h ip m) hosts []" "hosts \<noteq> []"
    by (auto simp: Mappings_def AllHosts_def)
  moreover have "fold (\<lambda>h m. AList.update h ip m) hosts m0 \<noteq> []" if "hosts \<noteq> [] \<or> m0 \<noteq> []" for m0
    using that
  proof (induction hosts arbitrary: m0)
    case (Cons x xs)
    have "AList.update x ip m0 \<noteq> []" by (cases m0) auto
    with Cons show ?case by simp
  qed simp
  ultimately show ?thesis by simp
qed

lemma AddHosts_works:
  assumes "works h c e" and "disk_files d (hosts_Path h) = Some (content, t)" and "disk_files d (backup_Path h) = None"
    and "names_missing h content" and "AddHosts h (ae_io e) (ae_resolves e) [] (Some ip) g [] [] mac True d = Some (r, d1)"
  shows "r = Ret False \<and> d1 = d
    \<or> r = Ret True \<and> (\<exists>new. disk_files d1 = (disk_files d)(backup_Path h \<mapsto> (content, io_backup_time (ae_io e)),
        hosts_Path h \<mapsto> (new, io_write_time (ae_io e))))"
proof -
  from assms(5) obtain m cache where m: "Mappings (ae_resolves e) g (Some ip) mac [] = Some (m, cache)"
    and a: "AddHosts_mappings h (ae_io e) m [] [] True d = (r, d1)" by (auto simp: AddHosts_def)
  obtain missing rest ok where ms: "missingIpMappings h m content = ((missing, rest), ok)" by (metis surj_pair)
  have io: "io_fails (ae_io e) = (\<lambda>_. False)" using assms(1) by (simp add: works_def)
  show ?thesis
  proof (cases ok)
    case True
    with assms(4)[unfolded names_missing_def, rule_format, OF m, of rest] ms have "missing \<noteq> []" by auto
    from AddHosts_system [OF io assms(2,3) _ this] ms True obtain d' where
      d': "AddHosts_mappings h (ae_io e) m [] [] True d = (Ret True, d')" "disk_files d' (backup_Path h) \<noteq> None" by fastforce
    from AddHosts_backed_up [OF d'(1) assms(2,3) d'(2)] d'(1) a show ?thesis by simp
  next
    case False
    with ms a io assms(2) show ?thesis by (auto simp: AddHosts_mappings_def Let_def)
  qed
qed

lemma map_hosts_keeps:
  assumes "works h c e" and "getCertPath c = Some p" and "pem_ok c" and "names_missing h content" and "env_os h = Linux"
    and "agent_inv h c p content d0 (a\<lparr>addedCert := trusted \<or> addedCert a\<rparr>, d)" and "trusted \<longrightarrow> \<not> addedCert a"
    and "asv_MapIp v \<noteq> [] \<longrightarrow> \<not> mappedIps a"
    and "exec_result r = Some res" and "admin_map_hosts e v trusted ErrSuccess d = (r, d1)"
  shows "agent_inv h c p content d0
    (if Result_Success res then a\<lparr>mappedIps := mappedIps a \<or> asv_MapIp v \<noteq> [], addedCert := addedCert a \<or> trusted\<rparr> else a, d1)"
proof (cases "asv_MapIp v = []")
  case True
  with assms(6,9,10) show ?thesis
    by (auto simp: admin_map_hosts_def exec_result_def Result_Success_def ErrSuccess_def disj_commute)
next
  case ip: False
  note np = cert_path_not_hosts [OF assms(2,5)]
  have h: "ae_hosts e = h" and times: "io_write_time (ae_io e) < io_backup_time (ae_io e) + one_second"
    using assms(1) by (auto simp: works_def)
  from assms(6,8) ip obtain t where d: "disk_files d (hosts_Path h) = Some (content, t)" "disk_files d (backup_Path h) = None"
    by (auto simp: agent_inv_def)
  from assms(9,10) ip h obtain ok d2 where
    add: "AddHosts h (ae_io e) (ae_resolves e) [] (Some (asv_MapIp v)) (asv_GameId v) [] [] (asv_MacOsExclusiveMappings v) True d
      = Some (ok, d2)"
    by (auto simp: admin_map_hosts_def exec_result_def split: option.splits)
  from AddHosts_works [OF assms(1) d assms(4) add] show ?thesis
  proof (elim disjE conjE exE)
    assume r: "ok = Ret False" "d2 = d"
    show ?thesis
    proof (cases trusted)
      case False
      with r add ip h assms(6,9,10) show ?thesis
        by (auto simp: admin_map_hosts_def exec_result_def Result_Success_def ErrSuccess_def ErrIpMapAdd_def)
    next
      case True
      with assms(6,7) obtain raw ct where raw: "ce_parse c raw" "disk_files d p = Some (ce_pem c raw, ct)" and na: "\<not> addedCert a"
        by (auto simp: agent_inv_def)
      from Untrust_works [OF assms(1-3) raw] r add ip h True assms(9,10)
      have "d1 = remove_file p d" "\<not> Result_Success res"
        by (auto simp: admin_map_hosts_def exec_result_def Result_Success_def ErrSuccess_def ErrIpMapAdd_def)
      with assms(6) na np True show ?thesis by (auto simp: agent_inv_def split: if_splits)
    qed
  next
    fix new
    assume r: "ok = Ret True" and d2: "disk_files d2 = (disk_files d)(backup_Path h \<mapsto> (content, io_backup_time (ae_io e)),
        hosts_Path h \<mapsto> (new, io_write_time (ae_io e)))"
    from r add ip h assms(9,10) have "d1 = d2" "Result_Success res"
      by (auto simp: admin_map_hosts_def exec_result_def Result_Success_def)
    with d2 assms(6) np times ip show ?thesis by (auto simp: agent_inv_def disj_commute split: if_splits)
  qed
qed

lemma runSetUp_keeps:
  assumes "works h c e" and "getCertPath c = Some p" and "pem_ok c" and "names_missing h content" and "env_os h = Linux"
    and "agent_inv h c p content d0 (a, d)"
    and "asv_MapIp v \<noteq> [] \<longrightarrow> \<not> mappedIps a" and "asv_AddLocalCertData v \<noteq> None \<longrightarrow> \<not> addedCert a"
    and "\<forall>raw. asv_AddLocalCertData v = Some raw \<longrightarrow> ce_parse c raw"
    and "exec_result r = Some res" and "admin_runSetUp e True v d = (r, d1)"
  shows "agent_inv h c p content d0
    (if Result_Success res
     then a\<lparr>mappedIps := mappedIps a \<or> asv_MapIp v \<noteq> [], addedCert := addedCert a \<or> asv_AddLocalCertData v \<noteq> None\<rparr> else a, d1)"
proof (cases "asv_GameId v = []")
  case True
  with assms(6,10,11) show ?thesis by (auto simp: admin_runSetUp_def exec_result_def Result_Success_def ErrSyntax_def ErrSuccess_def)
next
  case g: False
  note keeps = map_hosts_keeps [OF assms(1-5) _ _ assms(7,10)]
  show ?thesis
  proof (cases "asv_AddLocalCertData v")
    case None
    with assms(11) g have "admin_map_hosts e v False ErrSuccess d = (r, d1)" by (simp add: admin_runSetUp_def slice_data_def)
    from keeps [OF _ _ this, of d0] assms(6) None show ?thesis by (simp cong: if_cong)
  next
    case (Some raw)
    with assms(3,8,9) have raw: "ce_parse c raw" "raw \<noteq> []" and na: "\<not> addedCert a" by (auto simp: pem_ok_def)
    from assms(1) have b: "BytesToCertificate (ae_cert e) raw = Some raw" using raw(1) by (auto simp: works_def BytesToCertificate_def)
    from Trust_works [OF assms(1,2)] obtain t where t: "TrustCertificates (ae_cert e) [raw] d = (True, put_file p (ce_pem c raw) t d)"
      by blast
    with assms(11) g Some raw(2) b have m: "admin_map_hosts e v True ErrSuccess (put_file p (ce_pem c raw) t d) = (r, d1)"
      by (simp add: admin_runSetUp_def slice_data_def)
    have "agent_inv h c p content d0 (a\<lparr>addedCert := True \<or> addedCert a\<rparr>, put_file p (ce_pem c raw) t d)"
      using assms(6) raw(1) cert_path_not_hosts [OF assms(2,5)] by (auto simp: agent_inv_def)
    from keeps [OF this _ m] na Some show ?thesis by (simp cong: if_cong)
  qed
qed

lemma handleSetUp_keeps:
  assumes "works h c e" and "getCertPath c = Some p" and "pem_ok c" and "names_missing h content" and "env_os h = Linux"
    and "agent_inv h c p content d0 s" and "handleSetUp e None msg s = Some (code, s')"
  shows "agent_inv h c p content d0 s'"
proof -
  obtain a d where s: "s = (a, d)" by force
  show ?thesis
  proof (cases "s' = s")
    case False
    then obtain m where m: "msg = Some m" using assms(7) by (cases msg) (auto simp: handleSetUp_def)
    define cert where "cert = Option.bind (sc_Certificate m) (BytesToCertificate (ae_cert e))"
    have g: "sc_IP m \<noteq> [] \<longrightarrow> \<not> mappedIps a" "sc_Certificate m \<noteq> None \<longrightarrow> \<not> addedCert a" "sc_Certificate m \<noteq> None \<longrightarrow> cert \<noteq> None"
      using False assms(7) by (auto simp: handleSetUp_def s m cert_def Let_def split: if_splits)
    obtain r d1 where run: "admin_runSetUp e True \<lparr>asv_GameId = sc_GameId m, asv_MapIp = sc_IP m,
        asv_MacOsExclusiveMappings = sc_MacOsExclusiveMappings m, asv_AddLocalCertData = cert\<rparr> d = (r, d1)" by force
    have guards: "\<not> (sc_IP m \<noteq> [] \<and> mappedIps a)" "\<not> (sc_Certificate m \<noteq> None \<and> addedCert a)"
      "\<not> (sc_Certificate m \<noteq> None \<and> cert = None)" using g by blast+
    have "handleSetUp e None msg s = map_option (\<lambda>(result, d1). (res_ExitCode result, (if Result_Success result
          then a\<lparr>mappedIps := mappedIps a \<or> sc_IP m \<noteq> [], addedCert := addedCert a \<or> cert \<noteq> None\<rparr> else a), d1))
        (map_option (\<lambda>r. (r, d1)) (exec_result r))"
      unfolding handleSetUp_def s m prod.case option.case Let_def cert_def [symmetric] if_not_P [OF guards(1)] if_not_P [OF guards(2)]
        if_not_P [OF guards(3)] executor_RunSetUp_def run_program_def run ..
    with assms(7) obtain res where res: "exec_result r = Some res"
      and s': "s' = (if Result_Success res then a\<lparr>mappedIps := mappedIps a \<or> sc_IP m \<noteq> [], addedCert := addedCert a \<or> cert \<noteq> None\<rparr>
        else a, d1)" by auto
    have "cert \<noteq> None \<longrightarrow> sc_Certificate m \<noteq> None" "\<forall>raw. cert = Some raw \<longrightarrow> ce_parse c raw"
      using assms(1) by (auto simp: cert_def works_def BytesToCertificate_def bind_eq_Some_conv split: if_splits)
    with g have "agent_inv h c p content d0 (if Result_Success res
        then a\<lparr>mappedIps := mappedIps a \<or> sc_IP m \<noteq> [], addedCert := addedCert a \<or> cert \<noteq> None\<rparr> else a, d1)"
      using runSetUp_keeps [OF assms(1-5) assms(6)[unfolded s] _ _ _ res run] by (simp cong: if_cong del: not_None_eq)
    then show ?thesis unfolding s' .
  qed (use assms(6) in simp)
qed

lemma handleRevert_keeps:
  assumes "works h c e" and "getCertPath c = Some p" and "pem_ok c" and "env_os h = Linux"
    and "agent_inv h c p content d0 (a, d)"
  shows "\<exists>a' d'. handleRevert e None (Some m) (a, d) = Some (ErrSuccess, a', d')
    \<and> mappedIps a' = (mappedIps a \<and> \<not> rc_IPs m) \<and> addedCert a' = (addedCert a \<and> \<not> rc_Certificate m)
    \<and> agent_inv h c p content d0 (a', d')"
proof -
  note np = cert_path_not_hosts [OF assms(2,4)]
  define ips crt where "ips = (rc_IPs m \<and> mappedIps a)" and "crt = (rc_Certificate m \<and> addedCert a)"
  note defs = ips_def crt_def
  have h: "ae_hosts e = h" "io_fails (ae_io e) = (\<lambda>_. False)" using assms(1) by (auto simp: works_def)
  have un: "\<exists>d1. (if crt then UntrustCertificates (ae_cert e) d else (Ret (None, True), d)) = (Ret (None, True), d1)
      \<and> agent_inv h c p content d0 (a\<lparr>addedCert := addedCert a \<and> \<not> crt\<rparr>, d1)"
  proof (cases crt)
    case True
    with assms(5) obtain raw t where "ce_parse c raw" "disk_files d p = Some (ce_pem c raw, t)" by (auto simp: agent_inv_def crt_def)
    from Untrust_works [OF assms(1-3) this] True assms(5) np show ?thesis by (auto simp: agent_inv_def)
  qed (use assms(5) in simp)
  then obtain d1 where d1: "crt \<Longrightarrow> UntrustCertificates (ae_cert e) d = (Ret (None, True), d1)" "\<not> crt \<Longrightarrow> d1 = d"
    and inv1: "agent_inv h c p content d0 (a\<lparr>addedCert := addedCert a \<and> \<not> crt\<rparr>, d1)" by (auto split: if_splits)
  have "\<exists>d2. admin_unmap_hosts e \<lparr>arv_IPs = ips, arv_Certs = crt, arv_RemoveAll = False\<rparr> None d1 = (Exited ErrSuccess, d2)
      \<and> agent_inv h c p content d0 (a\<lparr>mappedIps := mappedIps a \<and> \<not> ips, addedCert := addedCert a \<and> \<not> crt\<rparr>, d2)"
  proof (cases ips)
    case True
    with inv1 obtain new wt bt where m: "disk_files d1 (hosts_Path h) = Some (new, wt)" "disk_files d1 (backup_Path h) = Some (content, bt)"
      "wt < bt + one_second" by (auto simp: agent_inv_def ips_def)
    from RemoveHosts_backed_up [OF h(2) m(2,1,3)] obtain d2 where "RemoveHosts h (ae_io e) d1 = (Ret True, d2)"
      "disk_files d2 = (disk_files d1)(hosts_Path h \<mapsto> (content, io_write_time (ae_io e)), backup_Path h := None)" by blast
    with True inv1 np h(1) show ?thesis by (auto simp: admin_unmap_hosts_def agent_inv_def split: if_splits)
  qed (use inv1 in \<open>simp add: admin_unmap_hosts_def\<close>)
  then obtain d2 where un: "admin_unmap_hosts e \<lparr>arv_IPs = ips, arv_Certs = crt, arv_RemoveAll = False\<rparr> None d1 = (Exited ErrSuccess, d2)"
    and inv2: "agent_inv h c p content d0 (a\<lparr>mappedIps := mappedIps a \<and> \<not> ips, addedCert := addedCert a \<and> \<not> crt\<rparr>, d2)" by blast
  show ?thesis
  proof (cases "ips \<or> crt")
    case True
    have "admin_runRevert e True \<lparr>arv_IPs = ips, arv_Certs = crt, arv_RemoveAll = False\<rparr> d = (Exited ErrSuccess, d2)"
      using d1 un by (cases crt) (simp_all add: admin_runRevert_def)
    with True inv2 show ?thesis
      by (auto simp: handleRevert_def executor_RunRevert_def run_program_def exec_result_def Result_Success_def ips_def crt_def Let_def)
  next
    case False
    with assms(5) show ?thesis by (auto simp: handleRevert_def ips_def crt_def)
  qed
qed

lemma handle_action_keeps:
  assumes "getCertPath c = Some p" and "pem_ok c" and "names_missing h content" and "env_os h = Linux"
    and "works h c (ar_env r)" and "ar_started r = None"
    and "agent_inv h c p content d0 s" and "handle_action r s = Some (exit, codes, s')"
  shows "agent_inv h c p content d0 s'"
proof (cases "ar_action r")
  case (ActRevert m)
  then show ?thesis
  proof (cases m)
    case None
    with ActRevert assms(7,8) show ?thesis by (auto simp: handle_action_def handleRevert_def split: prod.splits)
  next
    case (Some rm)
    obtain a d where s: "s = (a, d)" by force
    from handleRevert_keeps [OF assms(5,1,2,4) assms(7)[unfolded s], of rm] ActRevert Some s assms(6,8) show ?thesis
      by (auto simp: handle_action_def)
  qed
next
  case (ActSetup m)
  with handleSetUp_keeps [OF assms(5,1-4,7)] assms(6,8) show ?thesis by (auto simp: handle_action_def)
qed (use assms(7,8) in \<open>auto simp: handle_action_def split: if_splits\<close>)

lemma handleClient_keeps:
  assumes "getCertPath c = Some p" and "pem_ok c" and "names_missing h content" and "env_os h = Linux"
  shows "\<forall>r\<in>set rs. works h c (ar_env r) \<and> ar_started r = None \<Longrightarrow> agent_inv h c p content d0 s \<Longrightarrow>
    handleClient rs s = Some (exit, codes, s') \<Longrightarrow> agent_inv h c p content d0 s'"
proof (induction rs arbitrary: s exit codes)
  case (Cons r rs)
  from Cons.prems(3) obtain exit1 codes1 s1 where a: "handle_action r s = Some (exit1, codes1, s1)"
    by (auto split: option.splits)
  have "agent_inv h c p content d0 s1"
    by (rule handle_action_keeps [OF assms _ _ Cons.prems(2) a]) (use Cons.prems(1) in simp_all)
  with Cons.prems a Cons.IH [of s1] show ?case by (cases s1) (auto split: if_splits)
qed simp

lemma StartServer_keeps:
  assumes "getCertPath c = Some p" and "pem_ok c" and "names_missing h content" and "env_os h = Linux"
  shows "\<forall>rs\<in>set conns. \<forall>r\<in>set rs. works h c (ar_env r) \<and> ar_started r = None \<Longrightarrow> agent_inv h c p content d0 s \<Longrightarrow>
    StartServer conns s = Some (codes, s') \<Longrightarrow> agent_inv h c p content d0 s'"
proof (induction conns arbitrary: s codes)
  case (Cons rs conns)
  from Cons.prems(3) obtain exit1 codes1 s1 where a: "handleClient rs s = Some (exit1, codes1, s1)"
    by (auto split: option.splits)
  have "agent_inv h c p content d0 s1"
    by (rule handleClient_keeps [OF assms _ Cons.prems(2) a]) (use Cons.prems(1) in simp)
  with Cons.prems a Cons.IH [of s1] show ?case by (cases s1) (auto split: if_splits)
qed simp

text \<open>
  C33: the agent undoes what it did.  From a system without a certificate of the program and without mappings, whatever
  connections and commands the agent has served, if none of the programs it started met a failure, one more command to revert
  everything succeeds and leaves the hosts file with its old content, no certificate, no backup and every other
  file untouched.
\<close>

theorem agent_undoes_everything:
  assumes "getCertPath c = Some p" and "pem_ok c" and "names_missing h content" and "env_os h = Linux"
    and "disk_files d0 (hosts_Path h) = Some (content, t0)" and "disk_files d0 (backup_Path h) = None" and "disk_files d0 p = None"
    and "\<forall>rs\<in>set conns. \<forall>r\<in>set rs. works h c (ar_env r) \<and> ar_started r = None" and "works h c e"
    and "StartServer conns (\<lparr>mappedIps = False, addedCert = False\<rparr>, d0) = Some (codes, s)"
    and "handleRevert e None (Some \<lparr>rc_IPs = True, rc_Certificate = True\<rparr>) s = Some (code, a, d)"
  shows "code = ErrSuccess \<and> a = \<lparr>mappedIps = False, addedCert = False\<rparr>
    \<and> map_option fst (disk_files d (hosts_Path h)) = Some content
    \<and> (\<forall>q. q \<noteq> hosts_Path h \<longrightarrow> disk_files d q = disk_files d0 q)"
proof -
  obtain a1 d1 where s: "s = (a1, d1)" by force
  have "agent_inv h c p content d0 (\<lparr>mappedIps = False, addedCert = False\<rparr>, d0)"
    using assms(5-7) by (simp add: agent_inv_def)
  from StartServer_keeps [OF assms(1-4,8) this assms(10)] have "agent_inv h c p content d0 (a1, d1)" by (simp add: s)
  from handleRevert_keeps [OF assms(9,1,2,4) this, of "\<lparr>rc_IPs = True, rc_Certificate = True\<rparr>"] assms(11) s
  have "code = ErrSuccess" "\<not> mappedIps a" "\<not> addedCert a" "agent_inv h c p content d0 (a, d)" by auto
  with assms(6,7) show ?thesis by (auto simp: agent_inv_def split: if_splits)
qed

section \<open>What is reported wrongly\<close>

text \<open>
  A program that could not be started has the exit code 0 in its result, and the agent sends only the exit code: the client is
  told that the setup succeeded, though nothing was changed.
\<close>

lemma agent_failed_start:
  assumes "\<not> (sc_IP m \<noteq> [] \<and> mappedIps a)" and "sc_Certificate m = None"
  shows "handleSetUp e (Some \<lparr>res_Err = True, res_ExitCode = 0, res_Pid = 0\<rparr>) (Some m) (a, d) = Some (ErrSuccess, a, d)"
  using assms by (auto simp: handleSetUp_def executor_RunSetUp_def run_program_def Result_Success_def ErrSuccess_def)

text \<open>
  A revert that removes the certificate and then cannot remove the mappings is meant to trust the certificate again.  As
  the removed certificate is only returned when the update of the store failed, it stays removed.
\<close>

lemma failed_revert_loses_certificate:
  assumes "UntrustCertificates (ae_cert e) d = (Ret (removed, True), d1)" and "RemoveHosts (ae_hosts e) (ae_io e) d1 = (Ret False, d2)"
  shows "admin_runRevert e True \<lparr>arv_IPs = True, arv_Certs = True, arv_RemoveAll = False\<rparr> d = (Exited ErrIpMapRemove, d2)"
proof -
  have "removed = None" using assms(1) by (auto simp: UntrustCertificates_def Let_def split: option.splits if_splits)
  with assms show ?thesis by (simp add: admin_runRevert_def admin_unmap_hosts_def)
qed

text \<open>Setting up with arguments that do not parse changes the system and reports a wrong syntax.\<close>

lemma setup_goes_on_after_syntax_error:
  assumes "asv_GameId v \<noteq> []" and "admin_runSetUp e True v d = (Exited ErrSuccess, d1)"
  shows "admin_runSetUp e False v d = (Exited ErrSyntax, d1)"
  using assms
  by (auto simp: admin_runSetUp_def admin_map_hosts_def Let_def ErrSuccess_def ErrLocalCertAdd_def ErrIpMapAdd_def
      ErrLocalCertAddParse_def ErrIpMapAddRevert_def ErrSyntax_def split: if_splits option.splits outcome.splits prod.splits bool.splits)

section \<open>A run of the agent\<close>

definition cert_example :: CertEnv where
  "cert_example = \<lparr>ce_isDir = (\<lambda>p. p = ''/usr/local/share/ca-certificates''), ce_pem = (\<lambda>raw. ''PEM '' @ raw),
     ce_pem_Decode = (\<lambda>t. if take 4 t = ''PEM '' then Some (drop 4 t) else None), ce_parse = (\<lambda>raw. raw = ''cert''),
     ce_fails = (\<lambda>_. False), ce_which = hd, ce_update = (\<lambda>_. \<lparr>res_Err = False, res_ExitCode = 0, res_Pid = 0\<rparr>), ce_time = 5\<rparr>"

definition admin_example :: AdminEnv where
  "admin_example = \<lparr>ae_hosts = hosts_example, ae_io = example_io, ae_resolves = (\<lambda>_. False), ae_cert = cert_example\<rparr>"

definition agent_disk :: HostsDisk where
  "agent_disk = \<lparr>disk_files = [''/etc/hosts'' \<mapsto> (unlines [''# names''], 0)], disk_flushes = 0\<rparr>"

definition agent_requests :: "AgentRequest list list" where
  "agent_requests = [[\<lparr>ar_env = admin_example, ar_started = None, ar_action = ActSetup (Some \<lparr>sc_IP = [10, 0, 0, 1],
       sc_MacOsExclusiveMappings = False, sc_Certificate = Some ''cert'', sc_GameId = AoE1\<rparr>)\<rparr>]]"

lemma agent_example_run:
  "case StartServer agent_requests (\<lparr>mappedIps = False, addedCert = False\<rparr>, agent_disk) of
     Some (codes, a, d) \<Rightarrow> codes = [[0, 0]] \<and> mappedIps a \<and> addedCert a | None \<Rightarrow> False"
  by code_simp

lemma agent_example_names: "names_missing hosts_example (unlines [''# names''])"
proof -
  have d: "Decode hosts_example (unlines [''# names'']) = Some (unlines [''# names''])" by code_simp
  have sc: "scan_lines (unlines [''# names'']) = ([''# names''], True)" by code_simp
  have p: "ParseLine hosts_example ''# names'' False = (True, False, \<lparr>line_ip = None, line_hosts = [], line_comments = ['' names'']\<rparr>)"
    by code_simp
  have "\<exists>rest. missingIpMappings hosts_example m (unlines [''# names'']) = ((m, rest), True)" for m
    using missing_line_comment [OF p, of m "[]"] by (simp add: missingIpMappings_def d sc)
  then show ?thesis using Mappings_not_Nil unfolding names_missing_def by (metis prod.inject)
qed

theorem agent_undoes_everything_witness:
  "\<exists>codes s code a d. StartServer agent_requests (\<lparr>mappedIps = False, addedCert = False\<rparr>, agent_disk) = Some (codes, s)
     \<and> mappedIps (fst s) \<and> addedCert (fst s)
     \<and> handleRevert admin_example None (Some \<lparr>rc_IPs = True, rc_Certificate = True\<rparr>) s = Some (code, a, d)
     \<and> code = ErrSuccess \<and> map_option fst (disk_files d ''/etc/hosts'') = Some (unlines [''# names''])"
proof -
  let ?p = "''/usr/local/share/ca-certificates/ageLANServer.crt''"
  have p: "getCertPath cert_example = Some ?p" by code_simp
  have pem: "pem_ok cert_example" by (simp add: pem_ok_def cert_example_def)
  have w: "works hosts_example cert_example admin_example"
    by (auto simp: works_def admin_example_def cert_example_def example_io_def one_second_def FlushCerts_def updateStoreBinaries_def
        intro!: exI [of _ 5])
  have d: "disk_files agent_disk (hosts_Path hosts_example) = Some (unlines [''# names''], 0)"
    "disk_files agent_disk (backup_Path hosts_example) = None" "disk_files agent_disk ?p = None"
    by (simp_all add: hosts_example_paths agent_disk_def)
  have all: "\<forall>rs\<in>set agent_requests. \<forall>r\<in>set rs. works hosts_example cert_example (ar_env r) \<and> ar_started r = None"
    using w by (simp add: agent_requests_def)
  obtain codes a1 d1 where run: "StartServer agent_requests (\<lparr>mappedIps = False, addedCert = False\<rparr>, agent_disk) = Some (codes, a1, d1)"
    "mappedIps a1" "addedCert a1" using agent_example_run by (auto split: option.splits)
  have "agent_inv hosts_example cert_example ?p (unlines [''# names'']) agent_disk (\<lparr>mappedIps = False, addedCert = False\<rparr>, agent_disk)"
    using d by (simp add: agent_inv_def)
  from StartServer_keeps [OF p pem agent_example_names hosts_example_os all this run(1)]
  have "agent_inv hosts_example cert_example ?p (unlines [''# names'']) agent_disk (a1, d1)" .
  from handleRevert_keeps [OF w p pem hosts_example_os this, of "\<lparr>rc_IPs = True, rc_Certificate = True\<rparr>"] obtain a d where
    r: "handleRevert admin_example None (Some \<lparr>rc_IPs = True, rc_Certificate = True\<rparr>) (a1, d1) = Some (ErrSuccess, a, d)" by blast
  from agent_undoes_everything [OF p pem agent_example_names hosts_example_os d all w run(1) r] run r
  show ?thesis by (auto simp: hosts_example_paths)
qed

end
