(* ===== verification/LauncherConfig.thy ===== *)
theory LauncherConfig
  imports ConfigAdmin UserData
begin

text \<open>
  The program that sets up the machine for a game and reverts it, on Linux (\<open>launcher-config\<close>): the game's certificate store
  (\<open>cacert.go\<close>, \<open>common/game/cert\<close>), the client side of the agent (\<open>internal/admin\<close>), and the commands \<open>setup\<close> and
  \<open>revert\<close> (\<open>internal/cmd\<close>).  The machine is the disk of the user's data, that of the game, that of the system
  and the agent, if it runs.  Every run is a process of its own.  Signals and logs are left out.
\<close>

section \<open>The machine\<close>

record Machine =
  mc_data :: FS
  mc_game :: FS
  mc_system :: HostsDisk
  mc_agent :: "Agent option"

datatype ca_op = CaOpen | CaCreate | CaCopy | CaReadTmp | CaReadOriginal | CaRemoveTmp | CaOpenAppend | CaWrite

datatype ipc_op = IpcDial | IpcAction | IpcAck | IpcCommand | IpcReply | IpcExit | IpcStay | IpcKill

text \<open>
  What a run meets: the failing operations on the two disks, the entries of a folder in the order of the set of profiles, the
  PEM blocks (type and bytes) of a text and the fingerprint of a certificate, what the programs it starts meet, and which
  steps of the talk with the agent fail (\<open>IpcStay\<close>: the agent does not exit, \<open>IpcKill\<close>: it cannot be killed).
\<close>

record ConfigEnv =
  le_bad :: "fs_op \<Rightarrow> bool"
  le_entries :: "path \<Rightarrow> FS \<Rightarrow> string list"
  le_game_bad :: "fs_op \<Rightarrow> bool"
  le_ca :: "ca_op \<Rightarrow> bool"
  le_blocks :: "string \<Rightarrow> (string \<times> string) list"
  le_hash :: "string \<Rightarrow> string"
  le_admin :: AdminEnv
  le_started :: "Result option"
  le_ipc :: "ipc_op \<Rightarrow> bool"
  le_certfile_create :: bool
  le_certfile_write :: bool

text \<open>A path as its components; the empty text is no path.\<close>

definition path_of :: "string \<Rightarrow> path option" where
  "path_of s = (if s = [] then None else Some (filter (\<lambda>c. c \<noteq> []) (str_Split (CHR ''/'') s)))"

definition ErrInvalidGame :: int where "ErrInvalidGame = 8"
definition ErrUserCertRemove :: int where "ErrUserCertRemove = 9"
definition ErrUserCertAdd :: int where "ErrUserCertAdd = 10"
definition ErrUserCertAddParse :: int where "ErrUserCertAddParse = 11"
definition ErrMetadataRestore :: int where "ErrMetadataRestore = 12"
definition ErrProfilesRestore :: int where "ErrProfilesRestore = 13"
definition ErrAdminRevert :: int where "ErrAdminRevert = 14"
definition ErrMetadataBackup :: int where "ErrMetadataBackup = 15"
definition ErrProfilesBackup :: int where "ErrProfilesBackup = 16"
definition ErrAdminSetup :: int where "ErrAdminSetup = 19"
definition ErrRevertStopAgent :: int where "ErrRevertStopAgent = 20"
definition ErrHostsAdd :: int where "ErrHostsAdd = 21"
definition ErrMissingLocalCertData :: int where "ErrMissingLocalCertData = 22"
definition ErrGameCertAddParse :: int where "ErrGameCertAddParse = 23"
definition ErrGameCertAdd :: int where "ErrGameCertAdd = 24"
definition ErrGameCertRestore :: int where "ErrGameCertRestore = 25"
definition ErrGameCertBackup :: int where "ErrGameCertBackup = 26"
definition ErrGamePathMissing :: int where "ErrGamePathMissing = 27"
definition ErrInvalidDataPath :: int where "ErrInvalidDataPath = 28"

section \<open>The certificate store of the game\<close>

definition CACert_file :: string where "CACert_file = ''cacert.pem''"

definition HasCA :: "string \<Rightarrow> bool" where
  "HasCA gameId \<longleftrightarrow> gameId \<noteq> AoE1 \<and> gameId \<noteq> AoE4"

text \<open>The folder of the store; there is none for the games that use the store of the system.\<close>

definition NewCA :: "string \<Rightarrow> path \<Rightarrow> path option" where
  "NewCA gameId gamePath =
     (if \<not> HasCA gameId then None else Some (if gameId = AoE2 then gamePath @ [''certificates''] else gamePath))"

definition OriginalPath :: "path \<Rightarrow> path" where "OriginalPath ca = ca @ [CACert_file]"
definition TmpPath :: "path \<Rightarrow> path" where "TmpPath ca = ca @ [CACert_file @ ''.lan'']"
definition BackupPath :: "path \<Rightarrow> path" where "BackupPath ca = ca @ [CACert_file @ ''.bak'']"

text \<open>\<open>ReadFromData\<close>: fingerprint and bytes of each certificate; \<open>None\<close> if one does not parse.\<close>

fun read_blocks :: "ConfigEnv \<Rightarrow> (string \<times> string) list \<Rightarrow> (string \<times> string) list option" where
  "read_blocks e [] = Some []"
| "read_blocks e ((t, bytes) # bs) =
     (if t \<noteq> ''CERTIFICATE'' then read_blocks e bs
      else case BytesToCertificate (ae_cert (le_admin e)) bytes of
        None \<Rightarrow> None
      | Some cert \<Rightarrow> map_option (\<lambda>r. (le_hash e cert, cert) # r) (read_blocks e bs))"

definition ReadFromData :: "ConfigEnv \<Rightarrow> string \<Rightarrow> (string \<times> string) list option" where
  "ReadFromData e data = read_blocks e (le_blocks e data)"

definition ReadFromFile :: "ConfigEnv \<Rightarrow> ca_op \<Rightarrow> path \<Rightarrow> FS \<Rightarrow> (string \<times> string) list option" where
  "ReadFromFile e opn p fs = (case fs p of
      Some (EFile t) \<Rightarrow> if le_ca e opn then None else ReadFromData e t
    | _ \<Rightarrow> None)"

text \<open>A backup that exists is kept as it is.\<close>

definition CACert_Backup :: "ConfigEnv \<Rightarrow> path \<Rightarrow> FS \<Rightarrow> bool \<times> FS" where
  "CACert_Backup e ca fs =
     (if os_Stat (le_game_bad e) fs (OriginalPath ca) \<noteq> Exists then (False, fs)
      else if os_Stat (le_game_bad e) fs (BackupPath ca) = Exists then (True, fs)
      else if le_ca e CaOpen \<or> le_ca e CaCreate then (False, fs)
      else case fs (OriginalPath ca) of
        Some (EFile t) \<Rightarrow>
          if le_ca e CaCopy then (False, fs(BackupPath ca := None)) else (True, fs(BackupPath ca \<mapsto> EFile t))
      | _ \<Rightarrow> (False, fs(BackupPath ca := None)))"

definition rename_or_stay :: "(fs_op \<Rightarrow> bool) \<Rightarrow> path \<Rightarrow> path \<Rightarrow> FS \<Rightarrow> FS" where
  "rename_or_stay bad old new fs = (case os_Rename bad old new fs of Some fs' \<Rightarrow> fs' | None \<Rightarrow> fs)"

text \<open>The certificates that restoring removed are those of the set-up store that the original has not, in some order.\<close>

definition removed_certs :: "(string \<times> string) list \<Rightarrow> (string \<times> string) list \<Rightarrow> string list" where
  "removed_certs backups originals =
     map (\<lambda>h. the (map_of (rev backups) h)) (filter (\<lambda>h. h \<notin> fst ` set originals) (remdups (map fst backups)))"

definition CACert_Restore :: "ConfigEnv \<Rightarrow> path \<Rightarrow> FS \<Rightarrow> string list option \<times> FS" where
  "CACert_Restore e ca fs =
     (let bad = le_game_bad e;
          revert = (\<lambda>fs. rename_or_stay bad (TmpPath ca) (OriginalPath ca) (rename_or_stay bad (OriginalPath ca) (BackupPath ca) fs))
      in if os_Stat bad fs (OriginalPath ca) \<noteq> Exists \<or> os_Stat bad fs (BackupPath ca) \<noteq> Exists
           \<or> os_Stat bad fs (TmpPath ca) = Exists then (None, fs)
         else case os_Rename bad (OriginalPath ca) (TmpPath ca) fs of
           None \<Rightarrow> (None, fs)
         | Some fs1 \<Rightarrow>
             (case os_Rename bad (BackupPath ca) (OriginalPath ca) fs1 of
                None \<Rightarrow> (None, rename_or_stay bad (TmpPath ca) (OriginalPath ca) fs1)
              | Some fs2 \<Rightarrow>
                  (case ReadFromFile e CaReadTmp (TmpPath ca) fs2 of
                     None \<Rightarrow> (None, revert fs2)
                   | Some backups \<Rightarrow>
                       (case ReadFromFile e CaReadOriginal (OriginalPath ca) fs2 of
                          None \<Rightarrow> (None, revert fs2)
                        | Some originals \<Rightarrow>
                            if le_ca e CaRemoveTmp then (None, revert fs2)
                            else (Some (removed_certs backups originals), fs2(TmpPath ca := None))))))"

definition CACert_Append :: "ConfigEnv \<Rightarrow> string list \<Rightarrow> path \<Rightarrow> FS \<Rightarrow> bool \<times> FS" where
  "CACert_Append e certs ca fs =
     (if os_Stat (le_game_bad e) fs (OriginalPath ca) \<noteq> Exists \<or> le_ca e CaOpenAppend then (False, fs)
      else case fs (OriginalPath ca) of
        Some (EFile t) \<Rightarrow>
          if certs \<noteq> [] \<and> le_ca e CaWrite then (False, fs)
          else (True, fs(OriginalPath ca \<mapsto> EFile (t @ concat (map (ce_pem (ae_cert (le_admin e))) certs))))
      | _ \<Rightarrow> (False, fs))"

section \<open>Talking to the agent\<close>

definition agent_connected :: "ConfigEnv \<Rightarrow> Machine \<Rightarrow> bool" where
  "agent_connected e m \<longleftrightarrow> mc_agent m \<noteq> None \<and> \<not> le_ipc e IpcDial"

text \<open>
  A command to the agent: the action, its acknowledgement, the command and the exit code.  The results are whether there was an error,
  the exit code and the machine; \<open>None\<close>: no answer ever comes.
\<close>

definition ask_agent ::
  "ConfigEnv \<Rightarrow> (Agent \<times> HostsDisk \<Rightarrow> (int \<times> Agent \<times> HostsDisk) option) \<Rightarrow> Machine \<Rightarrow> (bool \<times> int \<times> Machine) option" where
  "ask_agent e serve m =
     (if le_ipc e IpcAction \<or> le_ipc e IpcAck \<or> le_ipc e IpcCommand then Some (True, 0, m)
      else case mc_agent m of
        None \<Rightarrow> Some (True, 0, m)
      | Some a \<Rightarrow> map_option (\<lambda>(code, a', d).
            (le_ipc e IpcReply, if le_ipc e IpcReply then 0 else code, m\<lparr>mc_agent := Some a', mc_system := d\<rparr>))
          (serve (a, mc_system m)))"

definition runSetUpAgent ::
  "ConfigEnv \<Rightarrow> string \<Rightarrow> IP \<Rightarrow> bool \<Rightarrow> string option \<Rightarrow> Machine \<Rightarrow> (bool \<times> int \<times> Machine) option" where
  "runSetUpAgent e gameId mapIp macOsExclusiveMappings certificate m =
     ask_agent e (handleSetUp (le_admin e) (le_started e)
       (Some \<lparr>sc_IP = mapIp, sc_MacOsExclusiveMappings = macOsExclusiveMappings, sc_Certificate = certificate, sc_GameId = gameId\<rparr>)) m"

definition runRevertAgent :: "ConfigEnv \<Rightarrow> bool \<Rightarrow> bool \<Rightarrow> Machine \<Rightarrow> (bool \<times> int \<times> Machine) option" where
  "runRevertAgent e unmapIPs removeCert m =
     ask_agent e (handleRevert (le_admin e) (le_started e) (Some \<lparr>rc_IPs = unmapIPs, rc_Certificate = removeCert\<rparr>)) m"

text \<open>\<open>RunSetUp\<close> and \<open>RunRevert\<close>: the agent if it is connected, and otherwise the program with administrator rights.\<close>

definition admin_RunSetUp ::
  "ConfigEnv \<Rightarrow> string \<Rightarrow> IP \<Rightarrow> bool \<Rightarrow> string option \<Rightarrow> Machine \<Rightarrow> (bool \<times> int \<times> Machine) option" where
  "admin_RunSetUp e gameId ipToMap macOsExclusiveMappings addCertData m =
     (if agent_connected e m then runSetUpAgent e gameId ipToMap macOsExclusiveMappings addCertData m
      else let certificate = Option.bind addCertData (BytesToCertificate (ae_cert (le_admin e)))
        in if addCertData \<noteq> None \<and> certificate = None then Some (False, ErrUserCertAddParse, m)
           else map_option (\<lambda>(r, d). (res_Err r, res_ExitCode r, m\<lparr>mc_system := d\<rparr>))
             (executor_RunSetUp (le_admin e) (le_started e) gameId ipToMap macOsExclusiveMappings certificate (mc_system m)))"

definition admin_RunRevert :: "ConfigEnv \<Rightarrow> bool \<Rightarrow> bool \<Rightarrow> bool \<Rightarrow> Machine \<Rightarrow> (bool \<times> int \<times> Machine) option" where
  "admin_RunRevert e unmapIPs removeCert failfast m =
     (if agent_connected e m then runRevertAgent e unmapIPs removeCert m
      else map_option (\<lambda>(r, d). (res_Err r, res_ExitCode r, m\<lparr>mc_system := d\<rparr>))
        (executor_RunRevert (le_admin e) (le_started e) unmapIPs removeCert failfast (mc_system m)))"

text \<open>An agent that runs but cannot be reached is taken for stopped.\<close>

definition StopAgentIfNeeded :: "ConfigEnv \<Rightarrow> Machine \<Rightarrow> bool \<times> Machine" where
  "StopAgentIfNeeded e m =
     (if mc_agent m = None then (True, m)
      else if \<not> agent_connected e m then (True, m)
      else if \<not> le_ipc e IpcExit \<and> \<not> le_ipc e IpcStay then (True, m\<lparr>mc_agent := None\<rparr>)
      else if le_ipc e IpcKill then (False, m)
      else (True, m\<lparr>mc_agent := None\<rparr>))"

end
