(* ===== verification/FlushCache.thy ===== *)
theory FlushCache
  imports LauncherConfig
begin

text \<open>
  Before a session the caches of the system are flushed, which is also how the agent with administrator rights is started: the
  command \<open>flushCache\<close> of \<open>launcher-config\<close>, that of \<open>launcher-config-admin\<close>, the start of \<open>launcher-config-admin-agent\<close>, and the command
  \<open>stopAgent\<close>.
\<close>

definition ErrStartAgent :: int where "ErrStartAgent = 17"
definition ErrStartAgentVerify :: int where "ErrStartAgentVerify = 18"
definition ErrAgentAlreadyStarted :: int where "ErrAgentAlreadyStarted = 29"
definition admin_ErrFlushCache :: int where "admin_ErrFlushCache = 16"
definition ErrFlushCacheDNS :: int where "ErrFlushCacheDNS = 17"
definition ErrFlushCacheCerts :: int where "ErrFlushCacheCerts = 18"
definition agent_ErrFlushCache :: int where "agent_ErrFlushCache = 16"
definition ErrPidLock :: int where "ErrPidLock = 4"
definition ErrNotAdmin :: int where "ErrNotAdmin = 7"

record FlushCacheValues =
  fv_IPs :: bool
  fv_Certs :: bool

text \<open>
  Whether \<open>resolvectl\<close> is found and what restarting the resolver gives; the result of executing \<open>launcher-config-admin\<close> if it does not
  start; the result of executing the agent, whether it got administrator rights, whether the file of its process cannot be locked,
  and, if it ends at once, whether it was seen running before that.
\<close>

record FlushEnv =
  fe_resolvectl :: bool
  fe_restart :: Result
  fe_started :: "Result option"
  fe_agent :: Result
  fe_agentAdmin :: bool
  fe_agentLocked :: bool
  fe_agentSeen :: bool

definition FlushDns :: "FlushEnv \<Rightarrow> Result" where
  "FlushDns f = (if fe_resolvectl f then fe_restart f else \<lparr>res_Err = False, res_ExitCode = 0, res_Pid = 0\<rparr>)"

text \<open>\<open>launcher-config-admin\<close>; its arguments are \<open>None\<close> if they do not parse.\<close>

definition admin_runFlushCache :: "AdminEnv \<Rightarrow> FlushEnv \<Rightarrow> FlushCacheValues option \<Rightarrow> HostsDisk \<Rightarrow> proc_end \<times> HostsDisk" where
  "admin_runFlushCache a f args d =
     (case args of
        None \<Rightarrow> (Exited ErrSyntax, d)
      | Some v \<Rightarrow>
          let exitCode = (if fv_Certs v \<and> \<not> Result_Success (FlushCerts (ae_cert a)) then ErrFlushCacheCerts else ErrSuccess)
          in if \<not> fv_IPs v then (Exited exitCode, d)
             else (Exited (if Result_Success (FlushDns f) then exitCode
                 else if exitCode = ErrFlushCacheCerts then admin_ErrFlushCache else ErrFlushCacheDNS),
               d\<lparr>disk_flushes := disk_flushes d + 1\<rparr>))"

definition executor_RunFlushCache :: "AdminEnv \<Rightarrow> FlushEnv \<Rightarrow> FlushCacheValues \<Rightarrow> HostsDisk \<Rightarrow> (Result \<times> HostsDisk) option" where
  "executor_RunFlushCache a f v d = run_program (fe_started f) (admin_runFlushCache a f (Some v)) d"

text \<open>The agent ends with an exit code or goes on to serve its clients; only one agent runs at a time.\<close>

definition agent_runRoot :: "AdminEnv \<Rightarrow> FlushEnv \<Rightarrow> FlushCacheValues \<Rightarrow> Machine \<Rightarrow> ((int + Agent) \<times> Machine) option" where
  "agent_runRoot a f v m =
     (let serve = Inr \<lparr>mappedIps = False, addedCert = False\<rparr>
      in if fe_agentLocked f \<or> mc_agent m \<noteq> None then Some (Inl ErrPidLock, m)
         else if \<not> fe_agentAdmin f then Some (Inl ErrNotAdmin, m)
         else if \<not> fv_IPs v \<and> \<not> fv_Certs v then Some (serve, m)
         else map_option (\<lambda>(r, d). (if Result_Success r then serve else Inl agent_ErrFlushCache, m\<lparr>mc_system := d\<rparr>))
           (executor_RunFlushCache a f v (mc_system m)))"

text \<open>Starting it waits until it ends or is seen running.\<close>

definition StartAgent :: "ConfigEnv \<Rightarrow> FlushEnv \<Rightarrow> FlushCacheValues \<Rightarrow> Machine \<Rightarrow> (Result \<times> Machine) option" where
  "StartAgent e f v m =
     (if \<not> Result_Success (fe_agent f) then Some (fe_agent f, m)
      else case agent_runRoot (le_admin e) f v m of
        None \<Rightarrow> None
      | Some (Inr a, m1) \<Rightarrow> Some (fe_agent f, m1\<lparr>mc_agent := Some a\<rparr>)
      | Some (Inl _, m1) \<Rightarrow> Some (if fe_agentSeen f then fe_agent f else (fe_agent f)\<lparr>res_Err := True\<rparr>, m1))"

text \<open>\<open>launcher-config flushCache\<close>; \<open>isAdmin\<close>: it has administrator rights itself.\<close>

definition runFlushCache :: "ConfigEnv \<Rightarrow> FlushEnv \<Rightarrow> bool \<Rightarrow> FlushCacheValues option \<Rightarrow> Machine \<Rightarrow> proc_end \<times> Machine" where
  "runFlushCache e f isAdmin args m =
     (case args of
        None \<Rightarrow> (Exited ErrSyntax, m)
      | Some v \<Rightarrow>
          if \<not> fv_IPs v \<and> \<not> fv_Certs v then (Exited ErrSuccess, m)
          else if isAdmin then
            (case executor_RunFlushCache (le_admin e) f v (mc_system m) of
               None \<Rightarrow> (Endless, m)
             | Some (r, d) \<Rightarrow> (Exited (if \<not> res_Err r \<and> res_ExitCode r = ErrSuccess then ErrSuccess else ErrAdminSetup), m\<lparr>mc_system := d\<rparr>))
          else if agent_connected e m then (Exited ErrAgentAlreadyStarted, m)
          else (case StartAgent e f v m of
              None \<Rightarrow> (Endless, m)
            | Some (r, m1) \<Rightarrow>
                if \<not> Result_Success r then (Exited ErrStartAgent, m1)
                else if agent_connected e m1 then (Exited ErrSuccess, m1)
                else (Exited ErrStartAgentVerify, snd (StopAgentIfNeeded e m1))))"

definition runStopAgent :: "ConfigEnv \<Rightarrow> Machine \<Rightarrow> proc_end \<times> Machine" where
  "runStopAgent e m = (Exited ErrSuccess, snd (StopAgentIfNeeded e m))"

section \<open>What a flush leaves\<close>

lemma FlushCache_keeps:
  assumes "executor_RunFlushCache a f v d = Some (r, d1)"
  shows "disk_files d1 = disk_files d"
  using assms by (auto simp: executor_RunFlushCache_def run_program_def admin_runFlushCache_def Let_def exec_result_def split: option.splits if_splits)

text \<open>A flush that succeeds without administrator rights leaves a new agent that can be reached; the disks are as before.\<close>

lemma runFlushCache_agent:
  assumes "runFlushCache e f False (Some v) m = (Exited ErrSuccess, m1)" and "fv_IPs v \<or> fv_Certs v"
  shows "mc_agent m = None" and "mc_agent m1 = Some \<lparr>mappedIps = False, addedCert = False\<rparr>" and "agent_connected e m1"
    and "mc_data m1 = mc_data m" and "mc_game m1 = mc_game m" and "disk_files (mc_system m1) = disk_files (mc_system m)"
proof -
  have ok: "\<not> agent_connected e m" using assms by (auto simp: runFlushCache_def ErrAgentAlreadyStarted_def ErrSuccess_def)
  from assms ok obtain r where r: "StartAgent e f v m = Some (r, m1)" "Result_Success r" and c: "agent_connected e m1"
    by (auto simp: runFlushCache_def ErrStartAgent_def ErrStartAgentVerify_def ErrSuccess_def split: option.splits if_splits)
  from r have started: "Result_Success (fe_agent f)" by (auto simp: StartAgent_def split: if_splits)
  with r obtain x m2 where x: "agent_runRoot (le_admin e) f v m = Some (x, m2)" by (auto simp: StartAgent_def split: option.splits)
  have disks: "mc_data m2 = mc_data m \<and> mc_game m2 = mc_game m \<and> disk_files (mc_system m2) = disk_files (mc_system m) \<and> mc_agent m2 = mc_agent m"
    using x by (auto simp: agent_runRoot_def Let_def split: if_splits dest!: FlushCache_keeps)
  show "agent_connected e m1" by (rule c)
  have "\<exists>a. x = Inr a"
  proof (rule ccontr)
    assume "\<nexists>a. x = Inr a"
    then obtain code where i: "x = Inl code" by (cases x) auto
    then have "m1 = m2" using r(1) x started by (auto simp: StartAgent_def)
    with c disks ok show False by (simp add: agent_connected_def)
  qed
  then obtain a where a: "x = Inr a" by blast
  then have m1: "m1 = m2\<lparr>mc_agent := Some a\<rparr>" using r(1) x started by (simp add: StartAgent_def)
  show "mc_agent m = None" and "mc_agent m1 = Some \<lparr>mappedIps = False, addedCert = False\<rparr>"
    using x a m1 by (auto simp: agent_runRoot_def Let_def split: if_splits)
  show "mc_data m1 = mc_data m" and "mc_game m1 = mc_game m" and "disk_files (mc_system m1) = disk_files (mc_system m)"
    using disks m1 by auto
qed

end
