(* ===== verification/LauncherSetup.thy ===== *)
theory LauncherSetup
  imports LauncherConfig
begin

text \<open>
  The commands \<open>setup\<close> and \<open>revert\<close> of \<open>launcher-config\<close> (\<open>internal/cmd/setUp.go\<close>, \<open>revert.go\<close>): a sequence of steps, each of which
  may stop the command; what was done before is then undone.
\<close>

section \<open>Steps\<close>

text \<open>A step goes on, stops the command with an exit code after undoing, or ends the process.\<close>

datatype flow = GoOn | StopWith int | Dies proc_end

fun run_steps :: "('s \<Rightarrow> flow \<times> 's) list \<Rightarrow> 's \<Rightarrow> flow \<times> 's" where
  "run_steps [] s = (GoOn, s)"
| "run_steps (f # fs) s = (case f s of (GoOn, s1) \<Rightarrow> run_steps fs s1 | r \<Rightarrow> r)"

record CommonValues =
  cv_GameId :: string
  cv_GamePath :: string
  cv_DataPath :: string
  cv_HostFilePath :: string
  cv_CertFilePath :: string
  cv_Metadata :: bool
  cv_Profiles :: bool

record SetupValues = CommonValues +
  sv_MapIp :: IP
  sv_MacOsExclusiveMappings :: bool
  sv_AddLocalCertData :: "string option"
  sv_AddUserCertData :: "string option"
  sv_AddCACertData :: "string option"

record RevertValues = CommonValues +
  rv_IPs :: bool
  rv_Certs :: bool
  rv_RemoveAll :: bool
  rv_RemoveUserCert :: bool
  rv_RestoreCAStoreCert :: bool

definition SupportedGames :: "string list" where
  "SupportedGames = [AoE1, AoE2, AoE3, AoE4, AoM]"

text \<open>The check before the user's data is touched: the exit code of the failure, or the folders of the game.\<close>

definition data_path :: "ConfigEnv \<Rightarrow> 'a CommonValues_scheme \<Rightarrow> Machine \<Rightarrow> int + UserPath" where
  "data_path e v m =
     (if cv_GameId v \<notin> set SupportedGames then Inl ErrInvalidGame
      else case path_of (cv_DataPath v) of
        None \<Rightarrow> Inl ErrInvalidDataPath
      | Some p \<Rightarrow> if le_bad e (StatOp p) \<or> mc_data m p \<noteq> Some EDir then Inl ErrInvalidDataPath else Inr (NewPath p (cv_GameId v)))"

definition profile_names :: "ConfigEnv \<Rightarrow> UserPath \<Rightarrow> FS \<Rightarrow> string list" where
  "profile_names e u fs = le_entries e (up_path u @ profileFolder u) fs"

definition backup_metadata :: "ConfigEnv \<Rightarrow> UserPath \<Rightarrow> FS \<Rightarrow> bool \<times> FS" where
  "backup_metadata e u fs = (case user_Metadata (le_bad e) u fs of (d, fs1) \<Rightarrow> Data_Backup (le_bad e) d fs1)"

definition restore_metadata :: "ConfigEnv \<Rightarrow> UserPath \<Rightarrow> FS \<Rightarrow> bool \<times> FS" where
  "restore_metadata e u fs = (case user_Metadata (le_bad e) u fs of (d, fs1) \<Rightarrow> Data_Restore (le_bad e) d fs1)"

definition backup_profiles :: "ConfigEnv \<Rightarrow> UserPath \<Rightarrow> FS \<Rightarrow> bool \<times> FS" where
  "backup_profiles e u fs = BackupProfiles (le_bad e) u (profile_names e u fs) fs"

definition restore_profiles :: "ConfigEnv \<Rightarrow> UserPath \<Rightarrow> bool \<Rightarrow> FS \<Rightarrow> bool \<times> FS" where
  "restore_profiles e u reverseFailed fs = RestoreProfiles (le_bad e) u (profile_names e u fs) reverseFailed fs"

text \<open>A step on the user's data.\<close>

definition data_step :: "(FS \<Rightarrow> bool \<times> FS) \<Rightarrow> Machine \<Rightarrow> bool \<times> Machine" where
  "data_step f m = (case f (mc_data m) of (ok, fs) \<Rightarrow> (ok, m\<lparr>mc_data := fs\<rparr>))"

definition game_step :: "(FS \<Rightarrow> 'r \<times> FS) \<Rightarrow> Machine \<Rightarrow> 'r \<times> Machine" where
  "game_step f m = (case f (mc_game m) of (r, fs) \<Rightarrow> (r, m\<lparr>mc_game := fs\<rparr>))"

section \<open>setup\<close>

record SetUpState =
  su_machine :: Machine
  addedUserCert :: bool
  backedUpMetadata :: bool
  backedUpProfiles :: bool
  addedGameCert :: bool

text \<open>On Linux the certificates of the user are not touched.\<close>

definition setup_user_cert :: "ConfigEnv \<Rightarrow> SetupValues \<Rightarrow> SetUpState \<Rightarrow> flow \<times> SetUpState" where
  "setup_user_cert e v s =
     (case sv_AddUserCertData v of
        None \<Rightarrow> (GoOn, s)
      | Some raw \<Rightarrow>
          (case BytesToCertificate (ae_cert (le_admin e)) raw of
             None \<Rightarrow> (StopWith ErrUserCertAddParse, s)
           | Some _ \<Rightarrow> (GoOn, s\<lparr>addedUserCert := True\<rparr>)))"

definition setup_metadata :: "ConfigEnv \<Rightarrow> SetupValues \<Rightarrow> UserPath \<Rightarrow> SetUpState \<Rightarrow> flow \<times> SetUpState" where
  "setup_metadata e v u s =
     (if \<not> cv_Metadata v then (GoOn, s)
      else case data_step (backup_metadata e u) (su_machine s) of
        (True, m) \<Rightarrow> (GoOn, s\<lparr>su_machine := m, backedUpMetadata := True\<rparr>)
      | (False, m) \<Rightarrow> (StopWith ErrMetadataBackup, s\<lparr>su_machine := m\<rparr>))"

definition setup_profiles :: "ConfigEnv \<Rightarrow> SetupValues \<Rightarrow> UserPath \<Rightarrow> SetUpState \<Rightarrow> flow \<times> SetUpState" where
  "setup_profiles e v u s =
     (if \<not> cv_Profiles v then (GoOn, s)
      else case data_step (backup_profiles e u) (su_machine s) of
        (True, m) \<Rightarrow> (GoOn, s\<lparr>su_machine := m, backedUpProfiles := True\<rparr>)
      | (False, m) \<Rightarrow> (StopWith ErrProfilesBackup, s\<lparr>su_machine := m\<rparr>))"

text \<open>A game without a store of its own has no path here; using it would be a nil dereference.\<close>

definition setup_game_cert :: "ConfigEnv \<Rightarrow> SetupValues \<Rightarrow> SetUpState \<Rightarrow> flow \<times> SetUpState" where
  "setup_game_cert e v s =
     (case sv_AddCACertData v of
        None \<Rightarrow> (GoOn, s)
      | Some raw \<Rightarrow>
          (case path_of (cv_GamePath v) of
             None \<Rightarrow> (StopWith ErrGamePathMissing, s)
           | Some gamePath \<Rightarrow>
               (case BytesToCertificate (ae_cert (le_admin e)) raw of
                  None \<Rightarrow> (StopWith ErrGameCertAddParse, s)
                | Some crt \<Rightarrow>
                    (case NewCA (cv_GameId v) gamePath of
                       None \<Rightarrow> (Dies Panicked, s)
                     | Some ca \<Rightarrow>
                         (case game_step (CACert_Backup e ca) (su_machine s) of
                            (False, m) \<Rightarrow> (StopWith ErrGameCertBackup, s\<lparr>su_machine := m\<rparr>)
                          | (True, m) \<Rightarrow>
                              (case game_step (CACert_Append e [crt] ca) m of
                                 (ok, m1) \<Rightarrow> (if ok then GoOn else StopWith ErrGameCertAdd,
                                   s\<lparr>su_machine := m1, addedGameCert := True\<rparr>)))))))"

definition setup_hosts_file :: "ConfigEnv \<Rightarrow> SetupValues \<Rightarrow> SetUpState \<Rightarrow> flow \<times> SetUpState" where
  "setup_hosts_file e v s =
     (if cv_HostFilePath v = [] \<or> sv_MapIp v = [] then (GoOn, s)
      else let a = le_admin e; m = su_machine s
        in case AddHosts (ae_hosts a) (ae_io a) (ae_resolves a) [] (Some (sv_MapIp v)) (cv_GameId v) (cv_HostFilePath v)
            WindowsLineEnding (sv_MacOsExclusiveMappings v) False (mc_system m) of
          None \<Rightarrow> (Dies Endless, s)
        | Some (r, d) \<Rightarrow>
            (case r of Panic \<Rightarrow> Dies Panicked | Ret ok \<Rightarrow> if ok then GoOn else StopWith ErrHostsAdd,
             s\<lparr>su_machine := m\<lparr>mc_system := d\<rparr>\<rparr>))"

definition setup_cert_file :: "ConfigEnv \<Rightarrow> SetupValues \<Rightarrow> SetUpState \<Rightarrow> flow \<times> SetUpState" where
  "setup_cert_file e v s =
     (if cv_CertFilePath v = [] then (GoOn, s)
      else if le_certfile_create e then (StopWith ErrUserCertAdd, s)
      else let c = ae_cert (le_admin e);
          text = (if le_certfile_write e then [] else ce_pem c (slice_data (sv_AddLocalCertData v)));
          m = su_machine s
        in (if le_certfile_write e then StopWith ErrUserCertAdd else GoOn,
            s\<lparr>su_machine := m\<lparr>mc_system := put_file (cv_CertFilePath v) text (ce_time c) (mc_system m)\<rparr>\<rparr>))"

definition undo_if :: "bool \<Rightarrow> ('m \<Rightarrow> 'm) \<Rightarrow> 'm \<Rightarrow> 'm" where
  "undo_if b f m = (if b then f m else m)"

definition remove_named :: "string \<Rightarrow> Machine \<Rightarrow> Machine" where
  "remove_named p m = m\<lparr>mc_system := remove_file p (mc_system m)\<rparr>"

definition restore_game_cert :: "ConfigEnv \<Rightarrow> 'a CommonValues_scheme \<Rightarrow> Machine \<Rightarrow> string list option \<times> Machine" where
  "restore_game_cert e v m =
     (case Option.bind (path_of (cv_GamePath v)) (NewCA (cv_GameId v)) of
        None \<Rightarrow> (None, m)
      | Some ca \<Rightarrow> game_step (CACert_Restore e ca) m)"

definition undoSetUp :: "ConfigEnv \<Rightarrow> SetupValues \<Rightarrow> UserPath \<Rightarrow> SetUpState \<Rightarrow> Machine" where
  "undoSetUp e v u s =
     undo_if (cv_CertFilePath v \<noteq> []) (remove_named (cv_CertFilePath v))
       (undo_if (cv_HostFilePath v \<noteq> []) (remove_named (cv_HostFilePath v))
         (undo_if (addedGameCert s) (\<lambda>m. snd (restore_game_cert e v m))
           (undo_if (backedUpProfiles s) (\<lambda>m. snd (data_step (restore_profiles e u True) m))
             (undo_if (backedUpMetadata s) (\<lambda>m. snd (data_step (restore_metadata e u) m)) (su_machine s)))))"

text \<open>
  The last step, for what needs administrator rights.  When it fails, what was done before is undone only if the agent was
  connected.
\<close>

definition setup_admin :: "ConfigEnv \<Rightarrow> SetupValues \<Rightarrow> UserPath \<Rightarrow> SetUpState \<Rightarrow> proc_end \<times> Machine" where
  "setup_admin e v u s =
     (let addLocalCertData = (if cv_CertFilePath v \<noteq> [] then None else sv_AddLocalCertData v);
          ipToMap = (if cv_HostFilePath v = [] then sv_MapIp v else []);
          m = su_machine s
      in if addLocalCertData = None \<and> ipToMap = [] then (Exited ErrSuccess, m)
         else case admin_RunSetUp e (cv_GameId v) ipToMap (sv_MacOsExclusiveMappings v) addLocalCertData m of
           None \<Rightarrow> (Endless, m)
         | Some (err, exitCode, m1) \<Rightarrow>
             if \<not> err \<and> exitCode = ErrSuccess then (Exited ErrSuccess, m1)
             else (Exited ErrAdminSetup,
               if agent_connected e m then undoSetUp e v u (s\<lparr>su_machine := snd (StopAgentIfNeeded e m1)\<rparr>) else m1))"

text \<open>What the games do not need is switched off.\<close>

definition setup_needed :: "SetupValues \<Rightarrow> SetupValues" where
  "setup_needed v = v\<lparr>cv_Metadata := cv_Metadata v \<and> cv_GameId v \<noteq> AoE1,
     sv_AddCACertData := (if cv_GameId v = AoE1 \<or> cv_GameId v = AoE4 then None else sv_AddCACertData v)\<rparr>"

text \<open>The values are \<open>None\<close> if the arguments do not parse.\<close>

definition runSetUp :: "ConfigEnv \<Rightarrow> SetupValues option \<Rightarrow> Machine \<Rightarrow> proc_end \<times> Machine" where
  "runSetUp e args m =
     (case args of
        None \<Rightarrow> (Exited ErrSyntax, m)
      | Some v0 \<Rightarrow>
          if cv_GameId v0 = [] then (Exited ErrSyntax, m)
          else let v = setup_needed v0;
              path = (if cv_Metadata v \<or> cv_Profiles v then data_path e v m else Inr (NewPath [] (cv_GameId v)))
            in case path of
              Inl code \<Rightarrow> (Exited code, m)
            | Inr u \<Rightarrow>
                if cv_CertFilePath v \<noteq> [] \<and> slice_data (sv_AddLocalCertData v) = [] then (Exited ErrMissingLocalCertData, m)
                else case run_steps [setup_user_cert e v, setup_metadata e v u, setup_profiles e v u, setup_game_cert e v,
                      setup_hosts_file e v, setup_cert_file e v]
                    \<lparr>su_machine = m, addedUserCert = False, backedUpMetadata = False, backedUpProfiles = False, addedGameCert = False\<rparr> of
                  (GoOn, s) \<Rightarrow> setup_admin e v u s
                | (StopWith code, s) \<Rightarrow> (Exited code, undoSetUp e v u s)
                | (Dies r, s) \<Rightarrow> (r, su_machine s))"

section \<open>revert\<close>

record RevertState =
  re_machine :: Machine
  removedCaCerts :: "string list option"
  restoredMetadata :: bool
  restoredProfiles :: bool

text \<open>On Linux there are no removed certificates of the user, and the command takes this for a failure.\<close>

definition revert_user_cert :: "RevertValues \<Rightarrow> RevertState \<Rightarrow> flow \<times> RevertState" where
  "revert_user_cert v s = (if rv_RemoveUserCert v then StopWith ErrUserCertRemove else GoOn, s)"

definition revert_metadata :: "ConfigEnv \<Rightarrow> RevertValues \<Rightarrow> UserPath \<Rightarrow> RevertState \<Rightarrow> flow \<times> RevertState" where
  "revert_metadata e v u s =
     (if \<not> cv_Metadata v then (GoOn, s)
      else case data_step (restore_metadata e u) (re_machine s) of
        (True, m) \<Rightarrow> (GoOn, s\<lparr>re_machine := m, restoredMetadata := True\<rparr>)
      | (False, m) \<Rightarrow> (StopWith ErrMetadataRestore, s\<lparr>re_machine := m\<rparr>))"

definition revert_profiles :: "ConfigEnv \<Rightarrow> RevertValues \<Rightarrow> UserPath \<Rightarrow> RevertState \<Rightarrow> flow \<times> RevertState" where
  "revert_profiles e v u s =
     (if \<not> cv_Profiles v then (GoOn, s)
      else case data_step (restore_profiles e u (\<not> rv_RemoveAll v)) (re_machine s) of
        (True, m) \<Rightarrow> (GoOn, s\<lparr>re_machine := m, restoredProfiles := True\<rparr>)
      | (False, m) \<Rightarrow> (StopWith ErrProfilesRestore, s\<lparr>re_machine := m\<rparr>))"

definition revert_game_cert :: "ConfigEnv \<Rightarrow> RevertValues \<Rightarrow> RevertState \<Rightarrow> flow \<times> RevertState" where
  "revert_game_cert e v s =
     (if \<not> rv_RestoreCAStoreCert v then (GoOn, s)
      else case path_of (cv_GamePath v) of
        None \<Rightarrow> (StopWith ErrGamePathMissing, s)
      | Some gamePath \<Rightarrow>
          (case restore_game_cert e v (re_machine s) of
             (removed, m) \<Rightarrow> (if removed = None then StopWith ErrGameCertRestore else GoOn,
               s\<lparr>re_machine := m, removedCaCerts := removed\<rparr>)))"

definition append_game_cert :: "ConfigEnv \<Rightarrow> 'a CommonValues_scheme \<Rightarrow> string list \<Rightarrow> Machine \<Rightarrow> Machine" where
  "append_game_cert e v certs m =
     (case Option.bind (path_of (cv_GamePath v)) (NewCA (cv_GameId v)) of
        None \<Rightarrow> m
      | Some ca \<Rightarrow> snd (game_step (CACert_Append e certs ca) m))"

definition undoRevert :: "ConfigEnv \<Rightarrow> RevertValues \<Rightarrow> UserPath \<Rightarrow> RevertState \<Rightarrow> Machine" where
  "undoRevert e v u s =
     (if rv_RemoveAll v then re_machine s
      else undo_if (restoredProfiles s) (\<lambda>m. snd (data_step (backup_profiles e u) m))
        (undo_if (restoredMetadata s) (\<lambda>m. snd (data_step (backup_metadata e u) m))
          (case removedCaCerts s of None \<Rightarrow> re_machine s | Some certs \<Rightarrow> append_game_cert e v certs (re_machine s))))"

definition RevertRequiresAdminElevationValues :: "RevertValues \<Rightarrow> bool" where
  "RevertRequiresAdminElevationValues v \<longleftrightarrow>
     rv_Certs v \<and> cv_CertFilePath v = [] \<or> rv_IPs v \<and> cv_HostFilePath v = []"

definition revert_files :: "RevertValues \<Rightarrow> Machine \<Rightarrow> Machine" where
  "revert_files v m =
     undo_if (cv_CertFilePath v \<noteq> []) (remove_named (cv_CertFilePath v))
       (undo_if (cv_HostFilePath v \<noteq> []) (remove_named (cv_HostFilePath v)) m)"

definition revert_admin :: "ConfigEnv \<Rightarrow> RevertValues \<Rightarrow> UserPath \<Rightarrow> RevertState \<Rightarrow> proc_end \<times> Machine" where
  "revert_admin e v u s =
     (let m = re_machine s
      in if \<not> RevertRequiresAdminElevationValues v then (Exited ErrSuccess, revert_files v m)
         else case admin_RunRevert e (rv_IPs v) (rv_Certs v) (\<not> rv_RemoveAll v) m of
           None \<Rightarrow> (Endless, m)
         | Some (err, exitCode, m1) \<Rightarrow>
             if err \<or> exitCode \<noteq> ErrSuccess then (Exited ErrAdminRevert, undoRevert e v u (s\<lparr>re_machine := m1\<rparr>))
             else (case StopAgentIfNeeded e (revert_files v m1) of
                 (stopped, m2) \<Rightarrow> (Exited (if stopped then ErrSuccess else ErrRevertStopAgent), m2)))"

definition revert_needed :: "RevertValues \<Rightarrow> RevertValues" where
  "revert_needed v =
     (let all = rv_RemoveAll v
      in v\<lparr>rv_IPs := rv_IPs v \<or> all, rv_Certs := rv_Certs v \<or> all,
         cv_Metadata := (cv_Metadata v \<or> all) \<and> cv_GameId v \<noteq> AoE1, cv_Profiles := cv_Profiles v \<or> all,
         rv_RestoreCAStoreCert := (rv_RestoreCAStoreCert v \<or> all) \<and> cv_GameId v \<noteq> AoE1 \<and> cv_GameId v \<noteq> AoE4\<rparr>)"

definition runRevert :: "ConfigEnv \<Rightarrow> RevertValues option \<Rightarrow> Machine \<Rightarrow> proc_end \<times> Machine" where
  "runRevert e args m =
     (case args of
        None \<Rightarrow> (Exited ErrSyntax, m)
      | Some v0 \<Rightarrow>
          if cv_GameId v0 = [] then (Exited ErrSyntax, m)
          else let v = revert_needed v0;
              path = (if cv_Metadata v \<or> cv_Profiles v then data_path e v m else Inr (NewPath [] (cv_GameId v)))
            in case path of
              Inl code \<Rightarrow> (Exited code, m)
            | Inr u \<Rightarrow>
                (case run_steps [revert_user_cert v, revert_metadata e v u, revert_profiles e v u, revert_game_cert e v]
                    \<lparr>re_machine = m, removedCaCerts = None, restoredMetadata = False, restoredProfiles = False\<rparr> of
                  (GoOn, s) \<Rightarrow> revert_admin e v u s
                | (StopWith code, s) \<Rightarrow> (Exited code, undoRevert e v u s)
                | (Dies r, s) \<Rightarrow> (r, re_machine s)))"

section \<open>What the launcher asks for\<close>

text \<open>\<open>ConfigRevertFlagOptions\<close>: the values that revert a setup.\<close>

definition ConfigRevertFlagOptions :: "SetupValues \<Rightarrow> RevertValues" where
  "ConfigRevertFlagOptions c =
     \<lparr>cv_GameId = cv_GameId c, cv_GamePath = cv_GamePath c, cv_DataPath = cv_DataPath c, cv_HostFilePath = cv_HostFilePath c,
      cv_CertFilePath = cv_CertFilePath c, cv_Metadata = cv_Metadata c, cv_Profiles = cv_Profiles c,
      rv_IPs = (sv_MapIp c \<noteq> []), rv_Certs = (sv_AddLocalCertData c \<noteq> None), rv_RemoveAll = False,
      rv_RemoveUserCert = (sv_AddUserCertData c \<noteq> None), rv_RestoreCAStoreCert = (sv_AddCACertData c \<noteq> None)\<rparr>"

text \<open>The values of \<open>IsolateUserData\<close>.\<close>

definition isolation_values :: "string \<Rightarrow> bool \<Rightarrow> bool \<Rightarrow> string \<Rightarrow> SetupValues" where
  "isolation_values gameId metadata profiles path =
     \<lparr>cv_GameId = gameId, cv_GamePath = [], cv_DataPath = path, cv_HostFilePath = [], cv_CertFilePath = [],
      cv_Metadata = metadata, cv_Profiles = profiles, sv_MapIp = [], sv_MacOsExclusiveMappings = False,
      sv_AddLocalCertData = None, sv_AddUserCertData = None, sv_AddCACertData = None\<rparr>"

end
