(* ===== verification/LauncherProps.thy ===== *)
theory LauncherProps
  imports LauncherSetup UserDataProps ConfigAdminProps
begin

text \<open>
  Properties of setting up a game and reverting it: what the game leaves of the user's data between the two, what a
  failed setup leaves, and the certificate store of the game.
\<close>

section \<open>Setting all profiles aside and restoring them\<close>

lemma aside_Nil [simp]: "aside base fs0 [] fs \<longleftrightarrow> fs_wf fs"
  by (simp add: aside_def)

lemma aside_wf: "aside base fs0 ns fs \<Longrightarrow> fs_wf fs"
  by (simp add: aside_def)

lemma aside_perm:
  assumes "aside base fs0 ns fs" and "distinct ns'" and "set ns' = set ns"
  shows "aside base fs0 ns' fs"
proof -
  have "inj_on bak_name (set ns)" using assms(1) by (simp add: aside_def distinct_map)
  with assms show ?thesis by (simp add: aside_def distinct_map)
qed

text \<open>Other operations keep what is aside if they touch none of its folders.\<close>

lemma aside_frame:
  assumes "aside base fs0 ns fs" and "fs_wf fs'" and "\<forall>n\<in>set ns. \<forall>q. touched base n q \<longrightarrow> fs' q = fs q"
  shows "aside base fs0 ns fs'"
proof -
  have "fs' (base @ [n]) = fs (base @ [n])" "fs' (base @ [lan_name n]) = fs (base @ [lan_name n])"
    "below fs' (base @ [bak_name n]) = below fs (base @ [bak_name n])" if "n \<in> set ns" for n
    using assms(3) that by (auto simp: touched_def below_def fun_eq_iff)
  with assms(1,2) show ?thesis by (simp add: aside_def)
qed

lemma touched_append: "touched base n p \<Longrightarrow> touched base n (p @ q)"
  by (auto simp: touched_def intro: prefix_prefix)

lemma loop_aside:
  assumes "only_aside_fails bad"
  shows "aside base fs0 done fs \<Longrightarrow> distinct todo \<Longrightarrow> set todo \<inter> set done = {} \<Longrightarrow>
    \<forall>n\<in>set todo. fst (path_typ n) = TypeActive \<and> fs0 (base @ [n]) \<noteq> None \<and> below fs (base @ [n]) = below fs0 (base @ [n]) \<Longrightarrow>
    profile_loop (Data_Backup bad) (Data_Restore bad) True before (map (\<lambda>n. base @ [n]) todo) fs = (True, fs') \<Longrightarrow>
    aside base fs0 (rev todo @ done) fs' \<and> (\<forall>q. (\<forall>n\<in>set todo. \<not> touched base n q) \<longrightarrow> fs' q = fs q)"
proof (induction todo arbitrary: "done" fs before)
  case (Cons n ns)
  from Cons.prems(5) obtain fs1 where b: "Data_Backup bad (Some (base @ [n])) fs = (True, fs1)"
    and l: "profile_loop (Data_Backup bad) (Data_Restore bad) True ((base @ [n]) # before) (map (\<lambda>n. base @ [n]) ns) fs1 = (True, fs')"
    by (auto split: prod.splits if_splits)
  have n: "fst (path_typ n) = TypeActive" "fs0 (base @ [n]) \<noteq> None" "below fs (base @ [n]) = below fs0 (base @ [n])" "n \<notin> set done"
    using Cons.prems(3,4) by auto
  have ex: "fs (base @ [n]) \<noteq> None" using n(2,3) by (metis below_Nil)
  note c = aside_Cons [OF Cons.prems(1) assms n(1,4,2,3) b]
  from Backup_succeeds [OF assms n(1) ex aside_wf [OF Cons.prems(1)] b] have frame: "\<not> touched base n q \<Longrightarrow> fs1 q = fs q" for q
    by (auto simp: switched_def touched_def)
  have "\<forall>m\<in>set ns. fst (path_typ m) = TypeActive \<and> fs0 (base @ [m]) \<noteq> None \<and> below fs1 (base @ [m]) = below fs0 (base @ [m])"
    using c Cons.prems(2,4) by auto
  from Cons.IH [OF _ _ _ this l, of "n # done"] c Cons.prems(2,3) frame show ?case by auto
qed simp

lemma loop_restores:
  assumes "only_aside_fails bad"
  shows "aside base fs0 ns fs \<Longrightarrow>
    \<exists>fs'. profile_loop (Data_Restore bad) clean stop before (map (\<lambda>n. base @ [n]) ns) fs = (True, fs') \<and> fs_wf fs'
      \<and> (\<forall>m. fst (path_typ m) = TypeActive \<longrightarrow>
          below fs' (base @ [m]) = (if m \<in> set ns then below fs0 (base @ [m]) else below fs (base @ [m])))
      \<and> (\<forall>q. (\<forall>n\<in>set ns. \<not> touched base n q) \<longrightarrow> fs' q = fs q)"
proof (induction ns arbitrary: fs before)
  case (Cons n ns)
  from aside_restore [OF assms Cons.prems] obtain fs1 where r: "Data_Restore bad (Some (base @ [n])) fs = (True, fs1)"
    "aside base fs0 ns fs1" "below fs1 (base @ [n]) = below fs0 (base @ [n])"
    "\<forall>m. fst (path_typ m) = TypeActive \<and> m \<noteq> n \<longrightarrow> below fs1 (base @ [m]) = below fs (base @ [m])"
    "\<forall>q. \<not> touched base n q \<longrightarrow> fs1 q = fs q" by blast
  have n: "n \<notin> set ns" using Cons.prems by (simp add: aside_def)
  from Cons.IH [OF r(2), of "(base @ [n]) # before"] obtain fs' where
    "profile_loop (Data_Restore bad) clean stop ((base @ [n]) # before) (map (\<lambda>n. base @ [n]) ns) fs1 = (True, fs')" "fs_wf fs'"
    "\<forall>m. fst (path_typ m) = TypeActive \<longrightarrow>
          below fs' (base @ [m]) = (if m \<in> set ns then below fs0 (base @ [m]) else below fs1 (base @ [m]))"
    "\<forall>q. (\<forall>n\<in>set ns. \<not> touched base n q) \<longrightarrow> fs' q = fs1 q" by blast
  with r n show ?case by auto
qed simp

section \<open>The folders of the metadata and of the profiles\<close>

text \<open>A profile by its name.\<close>

definition profile_name :: "UserPath \<Rightarrow> string \<Rightarrow> bool" where
  "profile_name u n \<longleftrightarrow> fst (path_typ n) = TypeActive \<and> (up_gameId u = AoE1 \<or> ParseUint_ok n)"

definition profile_base :: "UserPath \<Rightarrow> path" where
  "profile_base u = up_path u @ profileFolder u"

definition metadata_path :: "UserPath \<Rightarrow> path" where
  "metadata_path u = up_path u @ metadataFolder u"

lemma aside_bad: "only_aside_fails bad \<Longrightarrow> \<not> bad (StatOp p) \<and> \<not> bad (ReadDirOp p) \<and> \<not> bad (MkdirAllOp p)"
  by (auto simp: only_aside_fails_def)

text \<open>The active profiles among the names the folder is read with.\<close>

lemma active_profiles:
  assumes "distinct names" and "fs (profile_base u) = Some EDir" and "only_aside_fails bad"
  shows "\<exists>ns. setProfileData bad u names fs = Some (map (\<lambda>n. profile_base u @ [n]) ns) \<and> distinct ns
    \<and> set ns = {n \<in> set names. profile_name u n \<and> fs (profile_base u @ [n]) = Some EDir}"
proof -
  let ?b = "up_path u @ profileFolder u"
  let ?ns = "filter (\<lambda>n. profile_name u n \<and> fs (?b @ [n]) = Some EDir) names"
  have "map snd (filter (\<lambda>(t, p). t = TypeActive) (List.map_filter (\<lambda>name.
             if fs (?b @ [name]) \<noteq> Some EDir then None
             else if up_gameId u \<noteq> AoE1 \<and> \<not> ParseUint_ok name then None
             else Some (fst (path_typ name), ?b @ [name])) names)) = map (\<lambda>n. ?b @ [n]) ?ns"
    by (induction names) (auto simp: map_filter_simps profile_name_def)
  with assms(1,2) aside_bad [OF assms(3)] have "setProfileData bad u names fs = Some (map (\<lambda>n. profile_base u @ [n]) ?ns)"
    by (simp add: setProfileData_def Profiles_def Let_def profile_base_def)
  with assms(1) show ?thesis by (intro exI [of _ ?ns]) (auto simp: profile_base_def)
qed

lemma titles_neq:
  "AoE1 \<noteq> AoE2" "AoE1 \<noteq> AoE3" "AoE1 \<noteq> AoE4" "AoE1 \<noteq> AoM" "AoE2 \<noteq> AoE3" "AoE2 \<noteq> AoE4" "AoE2 \<noteq> AoM" "AoE3 \<noteq> AoE4"
  "AoE3 \<noteq> AoM" "AoE4 \<noteq> AoM" "AoE2 \<noteq> AoE1" "AoE3 \<noteq> AoE1" "AoE4 \<noteq> AoE1" "AoM \<noteq> AoE1" "AoE3 \<noteq> AoE2" "AoE4 \<noteq> AoE2"
  "AoM \<noteq> AoE2" "AoE4 \<noteq> AoE3" "AoM \<noteq> AoE3" "AoM \<noteq> AoE4"
  by (simp_all add: AoE1_def AoE2_def AoE3_def AoE4_def AoM_def)

definition digit_headed :: "string \<Rightarrow> bool" where
  "digit_headed s \<longleftrightarrow> s \<noteq> [] \<and> 48 \<le> (of_char (hd s) :: nat) \<and> (of_char (hd s) :: nat) \<le> 57"

lemma profile_digit_headed:
  assumes "ParseUint_ok n"
  shows "digit_headed n" "digit_headed (bak_name n)" "digit_headed (lan_name n)"
proof -
  have n: "n \<noteq> []" "\<forall>c\<in>set n. 48 \<le> (of_char c :: nat) \<and> (of_char c :: nat) \<le> 57"
    using assms by (auto simp: ParseUint_ok_def list_all_iff)
  have "CHR ''.'' \<notin> set n" using n(2) by force
  then have "stem n = n" by (simp add: stem_def path_Ext_def)
  with n show "digit_headed n" "digit_headed (bak_name n)" "digit_headed (lan_name n)"
    by (simp_all add: digit_headed_def bak_name_def lan_name_def hd_append)
qed

lemma metadata_parts:
  assumes "up_gameId u \<in> {AoE2, AoE3, AoE4, AoM}"
  shows "\<exists>mb mn. metadata_path u = mb @ [mn] \<and> fst (path_typ mn) = TypeActive \<and> mn \<in> {''metadata'', ''RLink'', ''network''}
    \<and> (\<forall>x y. digit_headed x \<and> \<not> digit_headed y \<and> y \<noteq> ''Users'' \<longrightarrow> apart (profile_base u @ [x]) (mb @ [y]))"
proof -
  have t: "fst (path_typ ''metadata'') = TypeActive" "fst (path_typ ''RLink'') = TypeActive" "fst (path_typ ''network'') = TypeActive"
    by code_simp+
  have d: "\<not> digit_headed ''Common''" "\<not> digit_headed ''temp''" by code_simp+
  consider "up_gameId u = AoE2" | "up_gameId u = AoE3" | "up_gameId u = AoE4" | "up_gameId u = AoM" using assms by blast
  then show ?thesis
  proof cases
    case 1
    with t show ?thesis
      by (intro exI [of _ "up_path u"] exI [of _ "''metadata''"]) (auto simp: metadata_path_def metadataFolder_def profile_base_def profileFolder_def apart_siblings titles_neq)
  next
    case 2
    with t d show ?thesis
      by (intro exI [of _ "up_path u @ [''Common'']"] exI [of _ "''RLink''"])
        (auto simp: metadata_path_def metadataFolder_def profile_base_def profileFolder_def apart_def prefix_def titles_neq)
  next
    case 3
    with t show ?thesis
      by (intro exI [of _ "up_path u"] exI [of _ "''network''"])
        (auto simp: metadata_path_def metadataFolder_def profile_base_def profileFolder_def apart_def prefix_def titles_neq)
  next
    case 4
    with t d show ?thesis
      by (intro exI [of _ "up_path u @ [''temp'']"] exI [of _ "''RLink''"])
        (auto simp: metadata_path_def metadataFolder_def profile_base_def profileFolder_def apart_def prefix_def titles_neq)
  qed
qed

text \<open>What touches a profile does not touch the metadata, and the other way round.\<close>

lemma metadata_apart:
  assumes "up_gameId u \<in> {AoE2, AoE3, AoE4, AoM}"
  shows "\<exists>mb mn. metadata_path u = mb @ [mn] \<and> fst (path_typ mn) = TypeActive
    \<and> \<not> touched mb mn (profile_base u)
    \<and> (\<forall>n q. profile_name u n \<and> touched (profile_base u) n q \<longrightarrow> \<not> touched mb mn q)"
proof -
  obtain mb mn where m: "metadata_path u = mb @ [mn]" "fst (path_typ mn) = TypeActive" "mn \<in> {''metadata'', ''RLink'', ''network''}"
    "\<And>x y. digit_headed x \<Longrightarrow> \<not> digit_headed y \<Longrightarrow> y \<noteq> ''Users'' \<Longrightarrow> apart (profile_base u @ [x]) (mb @ [y])"
    using metadata_parts [OF assms] by blast
  have y: "\<not> digit_headed y \<and> y \<noteq> ''Users''" if "y \<in> {mn, bak_name mn, lan_name mn}" for y
  proof -
    have "\<forall>mn\<in>set [''metadata'', ''RLink'', ''network'']. \<forall>y\<in>set [mn, bak_name mn, lan_name mn]. \<not> digit_headed y \<and> y \<noteq> ''Users''"
      by code_simp
    with m(3) that show ?thesis by auto
  qed
  have "\<not> touched mb mn q" if n: "profile_name u n" and t: "touched (profile_base u) n q" for n q
  proof
    assume "touched mb mn q"
    then obtain y where y': "y \<in> {mn, bak_name mn, lan_name mn}" "prefix (mb @ [y]) q" by (auto simp: touched_def)
    have "up_gameId u \<noteq> AoE1" using assms by (auto simp: titles_neq)
    with n have "ParseUint_ok n" by (simp add: profile_name_def)
    then obtain x where x: "digit_headed x" "prefix (profile_base u @ [x]) q"
      using t profile_digit_headed [of n] by (auto simp: touched_def)
    from m(4) [OF x(1)] y [OF y'(1)] have "apart (profile_base u @ [x]) (mb @ [y])" by blast
    with prefix_same_cases [OF x(2) y'(2)] show False by (auto simp: apart_def)
  qed
  moreover have "\<not> touched mb mn (profile_base u)"
  proof
    assume "touched mb mn (profile_base u)"
    then obtain y where y': "y \<in> {mn, bak_name mn, lan_name mn}" "prefix (mb @ [y]) (profile_base u)" by (auto simp: touched_def)
    have "digit_headed ''0''" by code_simp
    from m(4) [OF this] y [OF y'(1)] have "apart (profile_base u @ [''0'']) (mb @ [y])" by blast
    with y'(2) show False by (auto simp: apart_def intro: prefix_prefix)
  qed
  ultimately show ?thesis using m(1,2) by blast
qed

section \<open>A session on the server\<close>

text \<open>The names of the entries of a folder are read in the order of a list of names.\<close>

definition reads_dir :: "ConfigEnv \<Rightarrow> string list \<Rightarrow> bool" where
  "reads_dir e names \<longleftrightarrow> le_entries e = (\<lambda>base fs. filter (\<lambda>n. fs (base @ [n]) \<noteq> None) names) \<and> distinct names"

text \<open>The folders a setup isolates.\<close>

definition isolated :: "UserPath \<Rightarrow> bool \<Rightarrow> bool \<Rightarrow> FS \<Rightarrow> path set" where
  "isolated u metadata profiles fs =
     (if metadata \<and> up_gameId u \<noteq> AoE1 then {metadata_path u} else {})
     \<union> (if profiles then {profile_base u @ [n] | n. profile_name u n \<and> fs (profile_base u @ [n]) = Some EDir} else {})"

text \<open>What the game does while it plays: anything below the folders of a set.\<close>

definition played :: "path set \<Rightarrow> FS \<Rightarrow> FS \<Rightarrow> bool" where
  "played A fs fs' \<longleftrightarrow> fs_wf fs' \<and> (\<forall>p\<in>A. fs' p = Some EDir) \<and> (\<forall>q. (\<forall>p\<in>A. \<not> prefix p q) \<longrightarrow> fs' q = fs q)"

lemma user_Metadata_dir:
  assumes "metadata_path u = mb @ [mn]" and "fst (path_typ mn) = TypeActive" and "fs (mb @ [mn]) = Some EDir"
    and "only_aside_fails bad"
  shows "user_Metadata bad u fs = (Some (mb @ [mn]), fs)"
proof -
  have p: "up_path u @ metadataFolder u = mb @ [mn]" using assms(1) by (simp add: metadata_path_def)
  have t: "TransformPath (mb @ [mn]) TypeActive TypeActive = Some (mb @ [mn])"
    using assms(2) by (cases "path_typ mn") (simp add: TransformPath_def)
  have "fst (Metadatas bad u fs) = Some (List.map_filter (\<lambda>t. case TransformPath (mb @ [mn]) TypeActive t of
                 None \<Rightarrow> None
               | Some q \<Rightarrow> if fs q = Some EDir then Some (t, q) else None) [TypeBackup, TypeServer, TypeActive])"
    "snd (Metadatas bad u fs) = fs"
    unfolding Metadatas_def p Let_def using assms(3) aside_bad [OF assms(4)] by (auto simp: os_Stat_def map_filter_simps split: option.splits)
  then show ?thesis unfolding user_Metadata_def using t assms(3)
    by (auto simp: map_filter_simps split: option.splits prod.splits if_splits)
qed

lemma played_aside:
  assumes "aside base fs0 ns fs1" and "played A fs1 fs2" and "\<forall>n\<in>set ns. base @ [n] \<in> A"
    and "\<forall>p\<in>A. \<forall>n\<in>set ns. apart p (base @ [bak_name n]) \<and> apart p (base @ [lan_name n])"
  shows "aside base fs0 ns fs2"
proof -
  have "below fs2 (base @ [x]) = below fs1 (base @ [x])" if "n \<in> set ns" "x = bak_name n \<or> x = lan_name n" for n x
  proof -
    have "\<forall>p\<in>A. \<forall>r. \<not> prefix p ((base @ [x]) @ r)" using that assms(4) apart_below by blast
    with assms(2) show ?thesis unfolding played_def below_def by blast
  qed
  then have "below fs2 (base @ [bak_name n]) = below fs1 (base @ [bak_name n])"
    "fs2 (base @ [lan_name n]) = fs1 (base @ [lan_name n])" if "n \<in> set ns" for n
    using that by (blast, metis below_Nil)
  with assms show ?thesis by (simp add: aside_def played_def)
qed

text \<open>The two commands on the values of an isolation.\<close>

lemma setup_isolation:
  assumes "runSetUp e (Some (isolation_values g md pr path)) m = (Exited ErrSuccess, m1)"
    and "g \<in> set SupportedGames" and "path_of path = Some p" and "only_aside_fails (le_bad e)"
  shows "\<exists>fsm. (md \<or> pr \<longrightarrow> g = AoE1 \<and> \<not> pr \<or> mc_data m p = Some EDir)
    \<and> (if md \<and> g \<noteq> AoE1 then backup_metadata e (NewPath p g) (mc_data m) = (True, fsm) else fsm = mc_data m)
    \<and> (if pr then backup_profiles e (NewPath p g) fsm = (True, mc_data m1) else mc_data m1 = fsm)"
proof -
  have g: "g \<noteq> []" using assms(2) by (auto simp: SupportedGames_def titles)
  show ?thesis
    using assms(1-3) g aside_bad [OF assms(4), of p]
    by (auto simp: runSetUp_def isolation_values_def setup_needed_def data_path_def setup_user_cert_def setup_metadata_def
        setup_profiles_def setup_game_cert_def setup_hosts_file_def setup_cert_file_def setup_admin_def data_step_def Let_def
        slice_data_def ErrInvalidDataPath_def ErrInvalidGame_def ErrSuccess_def ErrMetadataBackup_def ErrProfilesBackup_def
        split: if_splits prod.splits bool.splits option.splits)
qed

lemma revert_isolation:
  assumes "g \<in> set SupportedGames" and "path_of path = Some p" and "only_aside_fails (le_bad e)"
    and "md \<and> g \<noteq> AoE1 \<or> pr \<longrightarrow> mc_data m p = Some EDir"
    and "if md \<and> g \<noteq> AoE1 then restore_metadata e (NewPath p g) (mc_data m) = (True, fsm) else fsm = mc_data m"
    and "if pr then restore_profiles e (NewPath p g) True fsm = (True, fs3) else fs3 = fsm"
  shows "runRevert e (Some (ConfigRevertFlagOptions (isolation_values g md pr path))) m = (Exited ErrSuccess, m\<lparr>mc_data := fs3\<rparr>)"
proof -
  have g: "g \<noteq> []" using assms(1) by (auto simp: SupportedGames_def titles)
  show ?thesis
    using assms g aside_bad [OF assms(3), of p]
    by (auto simp: runRevert_def isolation_values_def ConfigRevertFlagOptions_def revert_needed_def data_path_def revert_user_cert_def
        revert_metadata_def revert_profiles_def revert_game_cert_def revert_admin_def data_step_def Let_def
        RevertRequiresAdminElevationValues_def revert_files_def undo_if_def split: if_splits)
qed

text \<open>One step for each of the two groups of folders.\<close>

lemma backup_metadata_aside:
  assumes "only_aside_fails (le_bad e)" and "metadata_path u = mb @ [mn]" and "fst (path_typ mn) = TypeActive"
    and "fs (mb @ [mn]) = Some EDir" and "fs_wf fs" and "backup_metadata e u fs = (True, fs')"
  shows "aside mb fs [mn] fs' \<and> (\<forall>q. \<not> touched mb mn q \<longrightarrow> fs' q = fs q)"
proof -
  have b: "Data_Backup (le_bad e) (Some (mb @ [mn])) fs = (True, fs')"
    using assms(6) user_Metadata_dir [of u mb mn fs, OF assms(2-4) assms(1)] by (simp add: backup_metadata_def)
  have ex: "fs (mb @ [mn]) \<noteq> None" using assms(4) by simp
  have "aside mb fs [mn] fs' \<and> (\<forall>m. fst (path_typ m) = TypeActive \<and> m \<noteq> mn \<longrightarrow> below fs' (mb @ [m]) = below fs (mb @ [m]))"
    by (rule aside_Cons [OF _ assms(1) assms(3) _ _ _ b]) (use assms(4,5) in simp_all)
  moreover have "\<forall>q. \<not> touched mb mn q \<longrightarrow> fs' q = fs q"
    using Backup_succeeds [OF assms(1) assms(3) ex assms(5) b] by (simp add: switched_def touched_def)
  ultimately show ?thesis by blast
qed

lemma restore_metadata_aside:
  assumes "only_aside_fails (le_bad e)" and "metadata_path u = mb @ [mn]" and "fst (path_typ mn) = TypeActive"
    and "aside mb fs0 [mn] fs" and "fs (mb @ [mn]) = Some EDir"
  shows "\<exists>fs'. restore_metadata e u fs = (True, fs') \<and> fs_wf fs' \<and> below fs' (mb @ [mn]) = below fs0 (mb @ [mn])
    \<and> (\<forall>q. \<not> touched mb mn q \<longrightarrow> fs' q = fs q)"
  using aside_restore [OF assms(1) assms(4)] user_Metadata_dir [of u mb mn fs, OF assms(2,3,5) assms(1)]
  by (auto simp: restore_metadata_def)

lemma backup_profiles_aside:
  assumes "only_aside_fails (le_bad e)" and "reads_dir e names" and "fs_wf fs" and "backup_profiles e u fs = (True, fs')"
  shows "\<exists>ns. distinct ns \<and> set ns = {n \<in> set names. profile_name u n \<and> fs (profile_base u @ [n]) = Some EDir}
    \<and> aside (profile_base u) fs ns fs' \<and> (\<forall>q. (\<forall>n\<in>set ns. \<not> touched (profile_base u) n q) \<longrightarrow> fs' q = fs q)
    \<and> fs (profile_base u) = Some EDir"
proof -
  let ?names = "filter (\<lambda>n. fs (profile_base u @ [n]) \<noteq> None) names"
  have pn: "profile_names e u fs = ?names" "distinct ?names"
    using assms(2) by (simp_all add: profile_names_def reads_dir_def profile_base_def)
  have base: "fs (profile_base u) = Some EDir"
    using assms(4) by (auto simp: backup_profiles_def BackupProfiles_def runProfileMethod_def setProfileData_def Profiles_def
        Let_def profile_base_def split: option.splits if_splits)
  from active_profiles [of ?names fs u, OF pn(2) base assms(1)] obtain ns where
    ns: "setProfileData (le_bad e) u ?names fs = Some (map (\<lambda>n. profile_base u @ [n]) ns)" "distinct ns"
      "set ns = {n \<in> set ?names. profile_name u n \<and> fs (profile_base u @ [n]) = Some EDir}" by blast
  have l: "profile_loop (Data_Backup (le_bad e)) (Data_Restore (le_bad e)) True [] (map (\<lambda>n. profile_base u @ [n]) ns) fs = (True, fs')"
    using assms(4) ns(1) pn(1) by (simp add: backup_profiles_def BackupProfiles_def runProfileMethod_def)
  have "\<forall>n\<in>set ns. fst (path_typ n) = TypeActive \<and> fs (profile_base u @ [n]) \<noteq> None
      \<and> below fs (profile_base u @ [n]) = below fs (profile_base u @ [n])" using ns(3) by (auto simp: profile_name_def)
  from loop_aside [OF assms(1) _ ns(2) _ this l, of "[]"] assms(3) have
    a: "aside (profile_base u) fs (rev ns) fs'" "\<forall>q. (\<forall>n\<in>set ns. \<not> touched (profile_base u) n q) \<longrightarrow> fs' q = fs q" by simp_all
  from aside_perm [OF a(1) ns(2)] a(2) ns(2,3) base show ?thesis by (intro exI [of _ ns]) auto
qed

lemma restore_profiles_aside:
  assumes "only_aside_fails (le_bad e)" and "reads_dir e names" and "aside (profile_base u) fs0 ns fs" and "fs (profile_base u) = Some EDir"
    and "set ns = {n \<in> set names. profile_name u n \<and> fs (profile_base u @ [n]) = Some EDir}"
  shows "\<exists>fs'. restore_profiles e u b fs = (True, fs') \<and> (\<forall>n\<in>set ns. below fs' (profile_base u @ [n]) = below fs0 (profile_base u @ [n]))
    \<and> (\<forall>q. (\<forall>n\<in>set ns. \<not> touched (profile_base u) n q) \<longrightarrow> fs' q = fs q)"
proof -
  let ?names = "filter (\<lambda>n. fs (profile_base u @ [n]) \<noteq> None) names"
  have pn: "profile_names e u fs = ?names" "distinct ?names"
    using assms(2) by (simp_all add: profile_names_def reads_dir_def profile_base_def)
  from active_profiles [of ?names fs u, OF pn(2) assms(4) assms(1)] obtain ns' where
    ns': "setProfileData (le_bad e) u ?names fs = Some (map (\<lambda>n. profile_base u @ [n]) ns')" "distinct ns'"
      "set ns' = {n \<in> set ?names. profile_name u n \<and> fs (profile_base u @ [n]) = Some EDir}" by blast
  have same: "set ns' = set ns" using ns'(3) assms(5) by auto
  from loop_restores [OF assms(1) aside_perm [OF assms(3) ns'(2) same]] obtain fs' where
    "profile_loop (Data_Restore (le_bad e)) (Data_Backup (le_bad e)) b [] (map (\<lambda>n. profile_base u @ [n]) ns') fs = (True, fs')"
    "\<forall>m. fst (path_typ m) = TypeActive \<longrightarrow>
          below fs' (profile_base u @ [m]) = (if m \<in> set ns' then below fs0 (profile_base u @ [m]) else below fs (profile_base u @ [m]))"
    "\<forall>q. (\<forall>n\<in>set ns'. \<not> touched (profile_base u) n q) \<longrightarrow> fs' q = fs q" by blast
  with ns' pn same assms(3) show ?thesis
    by (auto simp: restore_profiles_def RestoreProfiles_def runProfileMethod_def aside_def)
qed

text \<open>The state between setup and revert, from the disk \<open>fs0\<close> before; \<open>ns\<close> are the profiles that are aside.\<close>

definition metadata_base :: "UserPath \<Rightarrow> path" where "metadata_base u = butlast (metadata_path u)"
definition metadata_name :: "UserPath \<Rightarrow> string" where "metadata_name u = last (metadata_path u)"

definition session_state :: "UserPath \<Rightarrow> bool \<Rightarrow> bool \<Rightarrow> FS \<Rightarrow> string list \<Rightarrow> FS \<Rightarrow> bool" where
  "session_state u md pr fs0 ns fs \<longleftrightarrow>
     (if pr then set ns = {n. profile_name u n \<and> fs0 (profile_base u @ [n]) = Some EDir} \<and> fs0 (profile_base u) = Some EDir else ns = [])
     \<and> aside (profile_base u) fs0 ns fs \<and> (md \<longrightarrow> aside (metadata_base u) fs0 [metadata_name u] fs)
     \<and> (\<forall>q. (\<forall>n\<in>set ns. \<not> touched (profile_base u) n q) \<and> (md \<longrightarrow> \<not> touched (metadata_base u) (metadata_name u) q) \<longrightarrow> fs q = fs0 q)"

lemma metadata_folder:
  assumes "up_gameId u \<in> {AoE2, AoE3, AoE4, AoM}"
  shows "metadata_path u = metadata_base u @ [metadata_name u]" "fst (path_typ (metadata_name u)) = TypeActive"
    "\<not> touched (metadata_base u) (metadata_name u) (profile_base u)"
    "profile_name u n \<Longrightarrow> touched (profile_base u) n q \<Longrightarrow> \<not> touched (metadata_base u) (metadata_name u) q"
proof -
  obtain mb mn where m: "metadata_path u = mb @ [mn]" "fst (path_typ mn) = TypeActive" "\<not> touched mb mn (profile_base u)"
    "\<forall>n q. profile_name u n \<and> touched (profile_base u) n q \<longrightarrow> \<not> touched mb mn q" using metadata_apart [OF assms] by blast
  then have "mb = metadata_base u" "mn = metadata_name u" by (simp_all add: metadata_base_def metadata_name_def)
  with m show "metadata_path u = metadata_base u @ [metadata_name u]" "fst (path_typ (metadata_name u)) = TypeActive"
    "\<not> touched (metadata_base u) (metadata_name u) (profile_base u)"
    "profile_name u n \<Longrightarrow> touched (profile_base u) n q \<Longrightarrow> \<not> touched (metadata_base u) (metadata_name u) q" by blast+
qed

lemma touched_self: "prefix (base @ [n]) q \<Longrightarrow> touched base n q"
  by (simp add: touched_def)

lemma aside_start:
  "aside base fs0 ns fs \<Longrightarrow> \<forall>n\<in>set ns. below fs1 (base @ [n]) = below fs0 (base @ [n]) \<Longrightarrow> aside base fs1 ns fs"
  by (simp add: aside_def) (metis below_Nil)

lemma metadata_started:
  assumes "only_aside_fails (le_bad e)" and "fs_wf fs0"
    and "md \<longrightarrow> up_gameId u \<in> {AoE2, AoE3, AoE4, AoM} \<and> fs0 (metadata_path u) = Some EDir"
    and "if md then backup_metadata e u fs0 = (True, fsm) else fsm = fs0"
  shows "(md \<longrightarrow> aside (metadata_base u) fs0 [metadata_name u] fsm) \<and> fs_wf fsm
    \<and> (\<forall>q. (md \<longrightarrow> \<not> touched (metadata_base u) (metadata_name u) q) \<longrightarrow> fsm q = fs0 q)"
proof (cases md)
  case True
  with assms(3) have g: "up_gameId u \<in> {AoE2, AoE3, AoE4, AoM}" and md: "fs0 (metadata_path u) = Some EDir" by blast+
  have ex: "fs0 (metadata_base u @ [metadata_name u]) = Some EDir" using md metadata_folder(1) [OF g] by simp
  from backup_metadata_aside [OF assms(1) metadata_folder(1,2) [OF g] ex assms(2)] assms(4) True show ?thesis
    by (auto dest: aside_wf)
qed (use assms(2,4) in simp)

lemma session_started:
  assumes "only_aside_fails (le_bad e)" and "reads_dir e names" and "fs_wf fs0"
    and "pr \<longrightarrow> (\<forall>n. profile_name u n \<and> fs0 (profile_base u @ [n]) = Some EDir \<longrightarrow> n \<in> set names)"
    and "md \<longrightarrow> up_gameId u \<in> {AoE2, AoE3, AoE4, AoM} \<and> fs0 (metadata_path u) = Some EDir"
    and "if md then backup_metadata e u fs0 = (True, fsm) else fsm = fs0"
    and "if pr then backup_profiles e u fsm = (True, fs1) else fs1 = fsm"
  shows "\<exists>ns. session_state u md pr fs0 ns fs1"
proof -
  let ?mb = "metadata_base u" and ?mn = "metadata_name u" and ?b = "profile_base u"
  have m: "(md \<longrightarrow> aside ?mb fs0 [?mn] fsm) \<and> fs_wf fsm \<and> (\<forall>q. (md \<longrightarrow> \<not> touched ?mb ?mn q) \<longrightarrow> fsm q = fs0 q)"
    by (rule metadata_started [OF assms(1,3,5,6)])
  have same: "fsm q = fs0 q" if "profile_name u n" "touched ?b n q" for n q
    using m metadata_folder(4) [OF _ that] assms(5) by blast
  have sameb: "below fsm (?b @ [n]) = below fs0 (?b @ [n])" "fsm (?b @ [n]) = fs0 (?b @ [n])" if "profile_name u n" for n
    using same [OF that] by (auto simp: below_def touched_def)
  show ?thesis
  proof (cases pr)
    case True
    with backup_profiles_aside [OF assms(1,2)] m assms(7) obtain ns where
      ns: "set ns = {n \<in> set names. profile_name u n \<and> fsm (?b @ [n]) = Some EDir}" "aside ?b fsm ns fs1"
      "\<forall>q. (\<forall>n\<in>set ns. \<not> touched ?b n q) \<longrightarrow> fs1 q = fsm q" "fsm ?b = Some EDir" by fastforce
    have prof: "profile_name u n" if "n \<in> set ns" for n using ns(1) that by simp
    have "set ns = {n. profile_name u n \<and> fs0 (?b @ [n]) = Some EDir}" using ns(1) sameb(2) assms(4) True by auto
    moreover have "fs0 ?b = Some EDir" using ns(4) m metadata_folder(3) assms(5) by auto
    moreover have "aside ?b fs0 ns fs1" by (rule aside_start [OF ns(2)]) (use prof sameb(1) in simp)
    moreover have "aside ?mb fs0 [?mn] fs1" if md
    proof (rule aside_frame)
      show "aside ?mb fs0 [?mn] fsm" using m that by simp
      show "fs_wf fs1" by (rule aside_wf [OF ns(2)])
      show "\<forall>n\<in>set [?mn]. \<forall>q. touched ?mb n q \<longrightarrow> fs1 q = fsm q"
      proof -
        have "up_gameId u \<in> {AoE2, AoE3, AoE4, AoM}" using assms(5) that by blast
        from metadata_folder(4) [OF this prof] have "\<forall>q. touched ?mb ?mn q \<longrightarrow> (\<forall>n\<in>set ns. \<not> touched ?b n q)" by blast
        with ns(3) show ?thesis by simp
      qed
    qed
    ultimately show ?thesis using True ns(3) m by (intro exI [of _ ns]) (simp add: session_state_def)
  next
    case False
    with m assms(7) show ?thesis by (intro exI [of _ "[]"]) (auto simp: session_state_def)
  qed
qed

text \<open>Where the isolated folders stand to each other.\<close>

lemma touched_apart:
  assumes "\<forall>q. touched base n q \<longrightarrow> \<not> touched mb mn q" and "x \<in> {n, bak_name n, lan_name n}" and "y \<in> {mn, bak_name mn, lan_name mn}"
  shows "apart (base @ [x]) (mb @ [y])"
proof -
  have t: "touched base n (base @ [x])" "touched mb mn (mb @ [y])"
    "prefix (base @ [x]) (mb @ [y]) \<Longrightarrow> touched base n (mb @ [y])" "prefix (mb @ [y]) (base @ [x]) \<Longrightarrow> touched mb mn (base @ [x])"
    using assms(2,3) by (auto simp: touched_def)
  with assms(1) show ?thesis unfolding apart_def by blast
qed

lemma isolated_iff:
  assumes "md \<longrightarrow> up_gameId u \<in> {AoE2, AoE3, AoE4, AoM}" and "session_state u md pr fs0 ns fs1"
  shows "isolated u md pr fs0 = (if md then {metadata_base u @ [metadata_name u]} else {}) \<union> (\<lambda>n. profile_base u @ [n]) ` set ns"
  using assms metadata_folder(1) [of u] by (auto simp: isolated_def session_state_def titles_neq)

lemma session_profile: "session_state u md pr fs0 ns fs1 \<Longrightarrow> n \<in> set ns \<Longrightarrow> profile_name u n"
  by (auto simp: session_state_def split: if_splits)

lemma session_played:
  assumes "md \<longrightarrow> up_gameId u \<in> {AoE2, AoE3, AoE4, AoM}" and s: "session_state u md pr fs0 ns fs1"
    and "played (isolated u md pr fs0) fs1 fs2"
  shows "aside (profile_base u) fs0 ns fs2" and "md \<longrightarrow> aside (metadata_base u) fs0 [metadata_name u] fs2"
proof -
  let ?mb = "metadata_base u" and ?mn = "metadata_name u" and ?b = "profile_base u"
  note A = isolated_iff [OF assms(1,2)]
  have act: "fst (path_typ n) = TypeActive" if "n \<in> set ns" for n using session_profile [OF s that] by (simp add: profile_name_def)
  have mact: "fst (path_typ ?mn) = TypeActive" if md using metadata_folder(2) assms(1) that by blast
  have ap: "apart (?b @ [x]) (?mb @ [y])" if md "n \<in> set ns" "x \<in> {n, bak_name n, lan_name n}" "y \<in> {?mn, bak_name ?mn, lan_name ?mn}" for n x y
    by (rule touched_apart [of ?b n ?mb ?mn]) (use that metadata_folder(4) assms(1) session_profile [OF s] in auto)
  show "aside ?b fs0 ns fs2"
  proof (rule played_aside [OF _ assms(3)])
    show "aside ?b fs0 ns fs1" using s by (simp add: session_state_def)
    show "\<forall>n\<in>set ns. ?b @ [n] \<in> isolated u md pr fs0" by (simp add: A)
    show "\<forall>p\<in>isolated u md pr fs0. \<forall>n\<in>set ns. apart p (?b @ [bak_name n]) \<and> apart p (?b @ [lan_name n])"
      using ap act names_differ unfolding A by (auto simp: apart_siblings apart_sym [of "?mb @ [?mn]"] split: if_splits)
  qed
  show "md \<longrightarrow> aside ?mb fs0 [?mn] fs2"
  proof
    assume md
    show "aside ?mb fs0 [?mn] fs2"
    proof (rule played_aside [OF _ assms(3)])
      show "aside ?mb fs0 [?mn] fs1" using s \<open>md\<close> by (simp add: session_state_def)
      show "\<forall>n\<in>set [?mn]. ?mb @ [n] \<in> isolated u md pr fs0" unfolding A using \<open>md\<close> by simp
      show "\<forall>p\<in>isolated u md pr fs0. \<forall>n\<in>set [?mn]. apart p (?mb @ [bak_name n]) \<and> apart p (?mb @ [lan_name n])"
        using ap \<open>md\<close> active_names(1,2) [OF mact [OF \<open>md\<close>]] unfolding A by (auto simp: apart_siblings)
    qed
  qed
qed

text \<open>A folder above the isolated ones is left alone.\<close>

lemma session_above:
  assumes "md \<longrightarrow> up_gameId u \<in> {AoE2, AoE3, AoE4, AoM}" and s: "session_state u md pr fs0 ns fs1"
    and "played (isolated u md pr fs0) fs1 fs2"
    and "\<forall>n\<in>set ns. \<not> touched (profile_base u) n q" and "md \<longrightarrow> \<not> touched (metadata_base u) (metadata_name u) q"
  shows "fs2 q = fs0 q"
proof -
  have "fs1 q = fs0 q" using s assms(4,5) by (simp add: session_state_def)
  moreover have "\<forall>p\<in>isolated u md pr fs0. \<not> prefix p q"
    using assms(4,5) touched_self unfolding isolated_iff [OF assms(1,2)] by (auto split: if_splits)
  ultimately show ?thesis using assms(3) by (simp add: played_def)
qed

lemma session_reverted:
  assumes "only_aside_fails (le_bad e)" and "reads_dir e names" and md: "md \<longrightarrow> up_gameId u \<in> {AoE2, AoE3, AoE4, AoM}"
    and s: "session_state u md pr fs0 ns fs1" and p: "played (isolated u md pr fs0) fs1 fs2"
    and "pr \<longrightarrow> (\<forall>n. profile_name u n \<and> fs0 (profile_base u @ [n]) = Some EDir \<longrightarrow> n \<in> set names)"
  shows "\<exists>fsr fs3. (if md then restore_metadata e u fs2 = (True, fsr) else fsr = fs2)
    \<and> (if pr then restore_profiles e u True fsr = (True, fs3) else fs3 = fsr)
    \<and> (\<forall>q\<in>isolated u md pr fs0. below fs3 q = below fs0 q)"
proof -
  let ?mb = "metadata_base u" and ?mn = "metadata_name u" and ?b = "profile_base u"
  note A = isolated_iff [OF md s] and pl = session_played [OF md s p]
  note prof = session_profile [OF s]
  have away: "\<not> touched ?mb ?mn q" if md "profile_name u n" "touched ?b n q" for n q
    using metadata_folder(4) [OF _ that(2,3)] md that(1) by blast
  obtain fsr where r: "if md then restore_metadata e u fs2 = (True, fsr) else fsr = fs2" "fs_wf fsr"
    "md \<Longrightarrow> below fsr (?mb @ [?mn]) = below fs0 (?mb @ [?mn])" "\<And>q. (md \<Longrightarrow> \<not> touched ?mb ?mn q) \<Longrightarrow> fsr q = fs2 q"
  proof (cases md)
    case True
    with md have g: "up_gameId u \<in> {AoE2, AoE3, AoE4, AoM}" by blast
    have "fs2 (?mb @ [?mn]) = Some EDir" using p True unfolding A played_def by simp
    from restore_metadata_aside [of e u ?mb ?mn fs0 fs2, OF assms(1) metadata_folder(1,2) [OF g] _ this] pl(2) True that show ?thesis by auto
  next
    case False
    with that [of fs2] aside_wf [OF pl(1)] show ?thesis by simp
  qed
  have same: "fsr q = fs2 q" if "profile_name u n" "touched ?b n q" for n q
    by (rule r(4)) (use away that in blast)
  have aside: "aside ?b fs0 ns fsr"
    by (rule aside_frame [OF pl(1) r(2)]) (use same prof in blast)
  show ?thesis
  proof (cases pr)
    case True
    have above: "touched ?b n ?b \<Longrightarrow> False" for n by (auto simp: touched_def)
    have mabove: "md \<longrightarrow> \<not> touched ?mb ?mn ?b" using metadata_folder(3) md by blast
    have "fs2 ?b = fs0 ?b" by (rule session_above [OF md s p _ mabove]) (use above in blast)
    moreover have "fsr ?b = fs2 ?b" by (rule r(4)) (use mabove in blast)
    ultimately have base: "fsr ?b = Some EDir" using s True by (simp add: session_state_def)
    have nset: "set ns = {n. profile_name u n \<and> fs0 (?b @ [n]) = Some EDir}" using s True by (simp add: session_state_def)
    have "set ns = {n \<in> set names. profile_name u n \<and> fsr (?b @ [n]) = Some EDir}"
    proof (intro set_eqI iffI)
      fix n assume n: "n \<in> set ns"
      then have "fs2 (?b @ [n]) = Some EDir" using p unfolding A played_def by blast
      moreover have "fsr (?b @ [n]) = fs2 (?b @ [n])" by (rule same [OF prof [OF n]]) (simp add: touched_def)
      moreover have "n \<in> set names" using nset assms(6) True n by blast
      ultimately show "n \<in> {n \<in> set names. profile_name u n \<and> fsr (?b @ [n]) = Some EDir}" using prof [OF n] by simp
    next
      fix n assume n: "n \<in> {n \<in> set names. profile_name u n \<and> fsr (?b @ [n]) = Some EDir}"
      show "n \<in> set ns"
      proof (rule ccontr)
        assume "n \<notin> set ns"
        have "touched ?b m (?b @ [n]) \<Longrightarrow> n \<in> {m, bak_name m, lan_name m}" for m by (auto simp: touched_def)
        moreover have "n \<noteq> bak_name m" "n \<noteq> lan_name m" if "m \<in> set ns" for m
          using names_differ(1,2) [of m n] prof [OF that] n by (simp_all add: profile_name_def)
        ultimately have "\<forall>m\<in>set ns. \<not> touched ?b m (?b @ [n])" using \<open>n \<notin> set ns\<close> by blast
        moreover have "md \<longrightarrow> \<not> touched ?mb ?mn (?b @ [n])" using away [of n "?b @ [n]"] n by (auto simp: touched_def)
        ultimately have "fs2 (?b @ [n]) = fs0 (?b @ [n])" by (rule session_above [OF md s p])
        moreover have "fsr (?b @ [n]) = fs2 (?b @ [n])" by (rule same [of n]) (use n in \<open>simp_all add: touched_def\<close>)
        ultimately show False using n nset \<open>n \<notin> set ns\<close> by simp
      qed
    qed
    from restore_profiles_aside [OF assms(1,2) aside base this, of True] obtain fs3 where
      f: "restore_profiles e u True fsr = (True, fs3)" "\<forall>n\<in>set ns. below fs3 (?b @ [n]) = below fs0 (?b @ [n])"
      "\<forall>q. (\<forall>n\<in>set ns. \<not> touched ?b n q) \<longrightarrow> fs3 q = fsr q" by blast
    have "below fs3 (?mb @ [?mn]) = below fsr (?mb @ [?mn])" if md
    proof -
      have "\<not> touched ?b n ((?mb @ [?mn]) @ r)" if "n \<in> set ns" for n r
        using away [OF \<open>md\<close> prof [OF that], of "(?mb @ [?mn]) @ r"] touched_append [of ?mb ?mn "?mb @ [?mn]" r] by (auto simp: touched_def)
      with f(3) show ?thesis by (simp add: below_def)
    qed
    with f(1,2) r(1,3) True show ?thesis unfolding A by (intro exI [of _ fsr] exI [of _ fs3]) auto
  next
    case False
    with s have "ns = []" by (simp add: session_state_def)
    with False r(1,3) show ?thesis unfolding A by (intro exI [of _ fsr] exI [of _ fsr]) auto
  qed
qed

lemma touched_length: "touched base n q \<Longrightarrow> length base < length q"
  by (auto simp: touched_def dest!: prefix_length_le)


text \<open>A user with metadata and one profile.\<close>

definition session_env :: ConfigEnv where
  "session_env = \<lparr>le_bad = (\<lambda>_. False), le_entries = (\<lambda>base fs. filter (\<lambda>n. fs (base @ [n]) \<noteq> None) [''7'', ''metadata'']),
     le_game_bad = (\<lambda>_. False), le_ca = (\<lambda>_. False), le_blocks = (\<lambda>_. []), le_hash = (\<lambda>c. c), le_admin = admin_example,
     le_started = None, le_ipc = (\<lambda>_. False), le_certfile_create = False, le_certfile_write = False\<rparr>"

definition session_user :: UserPath where "session_user = NewPath [''u''] AoE2"

definition session_data :: FS where
  "session_data = (\<lambda>_. None)([] \<mapsto> EDir, [''u''] \<mapsto> EDir, [''u'', ''Games''] \<mapsto> EDir, up_path session_user \<mapsto> EDir,
     metadata_path session_user \<mapsto> EDir, metadata_path session_user @ [''f''] \<mapsto> EFile ''x'',
     profile_base session_user @ [''7''] \<mapsto> EDir, profile_base session_user @ [''7'', ''g''] \<mapsto> EFile ''y'')"

definition session_machine :: Machine where
  "session_machine = \<lparr>mc_data = session_data, mc_game = (\<lambda>_. None), mc_system = agent_disk, mc_agent = None\<rparr>"

lemma session_paths:
  "up_path session_user = [''u'', ''Games'', ''Age of Empires 2 DE'']" "profile_base session_user = up_path session_user"
  "metadata_path session_user = up_path session_user @ [''metadata'']"
  by (simp_all add: session_user_def NewPath_def profile_base_def profileFolder_def metadata_path_def metadataFolder_def titles)

lemma session_data_wf: "fs_wf session_data"
  by (auto simp: fs_wf_def session_data_def session_paths append_eq_Cons_conv)

lemma session_setup_runs:
  "case runSetUp session_env (Some (isolation_values AoE2 True True ''/u'')) session_machine of (r, m) \<Rightarrow>
     r = Exited 0 \<and> mc_data m (metadata_path session_user) = Some EDir \<and> mc_data m (profile_base session_user @ [''7'']) = Some EDir
     \<and> mc_data m (metadata_path session_user @ [''f'']) = None"
  by code_simp


section \<open>A setup that fails\<close>

lemma undo_frame:
  assumes "only_aside_fails bad"
  shows "aside base fs0 ns fs \<Longrightarrow>
    fs_wf (fold (\<lambda>q fs. snd (Data_Restore bad (Some q) fs)) (map (\<lambda>n. base @ [n]) ns) fs)
    \<and> (\<forall>q. (\<forall>n\<in>set ns. \<not> touched base n q) \<longrightarrow>
        fold (\<lambda>q fs. snd (Data_Restore bad (Some q) fs)) (map (\<lambda>n. base @ [n]) ns) fs q = fs q)"
proof (induction ns arbitrary: fs)
  case (Cons n ns)
  from aside_restore [OF assms Cons.prems] obtain fs1 where "Data_Restore bad (Some (base @ [n])) fs = (True, fs1)"
    "aside base fs0 ns fs1" "\<forall>q. \<not> touched base n q \<longrightarrow> fs1 q = fs q" by blast
  with Cons.IH [of fs1] show ?case by simp
qed simp

lemma loop_failed:
  assumes "only_aside_fails bad"
  shows "aside base fs0 done fs \<Longrightarrow> distinct todo \<Longrightarrow> set todo \<inter> set done = {} \<Longrightarrow>
    \<forall>n\<in>set todo. fst (path_typ n) = TypeActive \<and> fs0 (base @ [n]) \<noteq> None \<and> below fs (base @ [n]) = below fs0 (base @ [n]) \<Longrightarrow>
    profile_loop (Data_Backup bad) (Data_Restore bad) True (map (\<lambda>n. base @ [n]) done) (map (\<lambda>n. base @ [n]) todo) fs = (False, fs') \<Longrightarrow>
    fs_wf fs' \<and> (\<forall>q. (\<forall>n\<in>set done \<union> set todo. \<not> touched base n q) \<longrightarrow> fs' q = fs q)"
proof (induction todo arbitrary: "done" fs)
  case (Cons n ns)
  obtain ok1 fs1 where b: "Data_Backup bad (Some (base @ [n])) fs = (ok1, fs1)" by force
  have n: "fst (path_typ n) = TypeActive" "fs0 (base @ [n]) \<noteq> None" "below fs (base @ [n]) = below fs0 (base @ [n])" "n \<notin> set done"
    using Cons.prems(3,4) by auto
  have ex: "fs (base @ [n]) \<noteq> None" using n(2,3) by (metis below_Nil)
  show ?case
  proof (cases ok1)
    case True
    with b have b: "Data_Backup bad (Some (base @ [n])) fs = (True, fs1)" by simp
    note c = aside_Cons [OF Cons.prems(1) assms n(1,4,2,3) b]
    from Backup_succeeds [OF assms n(1) ex aside_wf [OF Cons.prems(1)] b] have frame: "\<not> touched base n q \<Longrightarrow> fs1 q = fs q" for q
      by (auto simp: switched_def touched_def)
    have "\<forall>m\<in>set ns. fst (path_typ m) = TypeActive \<and> fs0 (base @ [m]) \<noteq> None \<and> below fs1 (base @ [m]) = below fs0 (base @ [m])"
      using c Cons.prems(2,4) by auto
    from Cons.IH [of "n # done" fs1, OF _ _ _ this] c Cons.prems(2,3,5) b frame show ?thesis by auto
  next
    case False
    have "fs base = Some EDir" using aside_wf [OF Cons.prems(1)] ex unfolding fs_wf_def by blast
    from Backup_fails [OF assms n(1) ex this] b False have "fs1 = fs" by simp
    with Cons.prems(5) b False have
      "fs' = fold (\<lambda>q fs. snd (Data_Restore bad (Some q) fs)) (map (\<lambda>n. base @ [n]) done) fs" by simp
    with undo_frame [OF assms Cons.prems(1)] show ?thesis by auto
  qed
qed simp

lemma backup_profiles_fails:
  assumes "only_aside_fails (le_bad e)" and "reads_dir e names" and "fs_wf fs" and "backup_profiles e u fs = (False, fs')"
  shows "fs_wf fs' \<and> (\<forall>n. profile_name u n \<and> fs (profile_base u @ [n]) = Some EDir \<and> n \<in> set names \<longrightarrow>
      below fs' (profile_base u @ [n]) = below fs (profile_base u @ [n]))
    \<and> (\<forall>q. (\<forall>n. profile_name u n \<longrightarrow> \<not> touched (profile_base u) n q) \<longrightarrow> fs' q = fs q)"
proof (cases "fs (profile_base u) = Some EDir")
  case True
  let ?names = "filter (\<lambda>n. fs (profile_base u @ [n]) \<noteq> None) names"
  have pn: "profile_names e u fs = ?names" "distinct ?names"
    using assms(2) by (simp_all add: profile_names_def reads_dir_def profile_base_def)
  from active_profiles [of ?names fs u, OF pn(2) True assms(1)] obtain ns where
    ns: "setProfileData (le_bad e) u ?names fs = Some (map (\<lambda>n. profile_base u @ [n]) ns)" "distinct ns"
      "set ns = {n \<in> set ?names. profile_name u n \<and> fs (profile_base u @ [n]) = Some EDir}" by blast
  have l: "profile_loop (Data_Backup (le_bad e)) (Data_Restore (le_bad e)) True (map (\<lambda>n. profile_base u @ [n]) [])
      (map (\<lambda>n. profile_base u @ [n]) ns) fs = (False, fs')"
    using assms(4) ns(1) pn(1) by (simp add: backup_profiles_def BackupProfiles_def runProfileMethod_def)
  have act: "\<forall>n\<in>set ns. fst (path_typ n) = TypeActive \<and> fs (profile_base u @ [n]) \<noteq> None
      \<and> below fs (profile_base u @ [n]) = below fs (profile_base u @ [n])" using ns(3) by (auto simp: profile_name_def)
  have start: "aside (profile_base u) fs [] fs" using assms(3) by simp
  from loop_failed [OF assms(1) start ns(2) _ act l] loop_all_or_none [OF assms(1) start ns(2) _ act assms(3) l] ns(3)
  show ?thesis by auto
next
  case False
  with assms(1,3,4) show ?thesis
    by (auto simp: backup_profiles_def BackupProfiles_def runProfileMethod_def setProfileData_def Profiles_def Let_def profile_base_def)
qed

text \<open>How the setup of an isolation ends when it does not succeed.\<close>

lemma setup_isolation_fails:
  assumes "runSetUp e (Some (isolation_values g md pr path)) m = (r, m1)" and "r \<noteq> Exited ErrSuccess"
    and "u = NewPath p g" and "path_of path = Some p" and "g \<in> set SupportedGames"
  shows "mc_data m1 = mc_data m
    \<or> md \<and> g \<noteq> AoE1 \<and> backup_metadata e u (mc_data m) = (False, mc_data m1)
    \<or> (\<exists>fsm fsp. (if md \<and> g \<noteq> AoE1 then backup_metadata e u (mc_data m) = (True, fsm) else fsm = mc_data m)
        \<and> backup_profiles e u fsm = (False, fsp)
        \<and> mc_data m1 = (if md \<and> g \<noteq> AoE1 then snd (restore_metadata e u fsp) else fsp))"
proof -
  have g: "g \<noteq> []" using assms(5) by (auto simp: SupportedGames_def titles)
  show ?thesis
    using assms g
    by (auto simp: runSetUp_def isolation_values_def setup_needed_def data_path_def setup_user_cert_def setup_metadata_def
        setup_profiles_def setup_game_cert_def setup_hosts_file_def setup_cert_file_def setup_admin_def data_step_def Let_def
        slice_data_def undoSetUp_def undo_if_def split: if_splits prod.splits bool.splits option.splits)
qed

lemma undone_metadata:
  assumes bad: "only_aside_fails (le_bad e)" and g: "up_gameId u \<in> {AoE2, AoE3, AoE4, AoM}" and wf: "fs_wf fs0"
    and ex: "fs0 (metadata_path u) = Some EDir"
    and lan: "\<forall>t. fs0 (metadata_base u @ [lan_name (metadata_name u)]) \<noteq> Some (EFile t)"
    and m: "backup_metadata e u fs0 = (True, fsm)" and wfp: "fs_wf fsp"
    and p: "\<forall>q. (\<forall>n. profile_name u n \<longrightarrow> \<not> touched (profile_base u) n q) \<longrightarrow> fsp q = fsm q"
  shows "\<exists>fs'. restore_metadata e u fsp = (True, fs') \<and> below fs' (metadata_path u) = below fs0 (metadata_path u)
    \<and> (\<forall>q. \<not> touched (metadata_base u) (metadata_name u) q \<longrightarrow> fs' q = fsp q)"
proof -
  let ?mb = "metadata_base u" and ?mn = "metadata_name u"
  note mf = metadata_folder [OF g]
  have ex': "fs0 (?mb @ [?mn]) = Some EDir" using ex mf(1) by simp
  from backup_metadata_aside [of e u ?mb ?mn fs0 fsm, OF bad mf(1,2) ex' wf m] have a: "aside ?mb fs0 [?mn] fsm" by blast
  have b: "Data_Backup (le_bad e) (Some (?mb @ [?mn])) fs0 = (True, fsm)"
    using m user_Metadata_dir [of u ?mb ?mn fs0, OF mf(1,2) ex' bad] by (simp add: backup_metadata_def)
  have ne: "fs0 (?mb @ [?mn]) \<noteq> None" using ex' by simp
  have "fsm (?mb @ [?mn]) = Some EDir"
  proof (cases "fs0 (?mb @ [lan_name ?mn])")
    case None
    with Backup_succeeds [OF bad mf(2) ne wf b] below_Nil [of fsm "?mb @ [?mn]"] show ?thesis by (simp add: switched_def)
  next
    case (Some x)
    then have "fs0 (?mb @ [lan_name ?mn]) = Some EDir" using lan by (cases x) auto
    with Backup_succeeds [OF bad mf(2) ne wf b] below_Nil [of fsm "?mb @ [?mn]"] below_Nil [of fs0 "?mb @ [lan_name ?mn]"]
    show ?thesis by (simp add: switched_def)
  qed
  moreover have same: "fsp q = fsm q" if "touched ?mb ?mn q" for q using p mf(4) that by blast
  ultimately have "fsp (?mb @ [?mn]) = Some EDir" using touched_self [of ?mb ?mn "?mb @ [?mn]"] by simp
  moreover have "aside ?mb fs0 [?mn] fsp" by (rule aside_frame [OF a wfp]) (use same in simp)
  ultimately show ?thesis using restore_metadata_aside [of e u ?mb ?mn fs0 fsp, OF bad mf(1,2)] mf(1) by fastforce
qed

lemma failed_metadata_keeps:
  assumes "only_aside_fails (le_bad e)" and g: "up_gameId u \<in> {AoE2, AoE3, AoE4, AoM}" and "fs_wf fs"
    and "fs (metadata_path u) = Some EDir" and "backup_metadata e u fs = (False, fs')"
  shows "fs' = fs"
proof -
  let ?mb = "metadata_base u" and ?mn = "metadata_name u"
  note mf = metadata_folder [OF g]
  have ex: "fs (?mb @ [?mn]) = Some EDir" using assms(4) mf(1) by simp
  moreover from this have "fs ?mb = Some EDir" using assms(3) unfolding fs_wf_def by blast
  moreover have "Data_Backup (le_bad e) (Some (?mb @ [?mn])) fs = (False, fs')"
    using assms(5) user_Metadata_dir [of u ?mb ?mn fs, OF mf(1,2) ex assms(1)] by (simp add: backup_metadata_def)
  ultimately show ?thesis by (intro Backup_fails [OF assms(1) mf(2), where base = ?mb]) simp_all
qed

lemma failed_isolation_undone:
  assumes bad: "only_aside_fails (le_bad e)" and rd: "reads_dir e names" and wf: "fs_wf fs0"
    and pr: "\<forall>n. profile_name u n \<and> fs0 (profile_base u @ [n]) = Some EDir \<longrightarrow> n \<in> set names"
    and md: "md \<longrightarrow> up_gameId u \<in> {AoE2, AoE3, AoE4, AoM} \<and> fs0 (metadata_path u) = Some EDir
      \<and> (\<forall>t. fs0 (metadata_base u @ [lan_name (metadata_name u)]) \<noteq> Some (EFile t))"
    and m: "if md then backup_metadata e u fs0 = (True, fsm) else fsm = fs0"
    and p: "backup_profiles e u fsm = (False, fsp)"
  shows "\<forall>q\<in>isolated u md profiles fs0. below (if md then snd (restore_metadata e u fsp) else fsp) q = below fs0 q"
proof -
  let ?fs = "if md then snd (restore_metadata e u fsp) else fsp"
  have "md \<longrightarrow> up_gameId u \<in> {AoE2, AoE3, AoE4, AoM} \<and> fs0 (metadata_path u) = Some EDir" using md by blast
  from metadata_started [OF bad wf this m] have wfm: "fs_wf fsm"
    and frame: "md \<longrightarrow> \<not> touched (metadata_base u) (metadata_name u) q \<Longrightarrow> fsm q = fs0 q" for q by blast+
  from backup_profiles_fails [OF bad rd wfm p] have fp: "fs_wf fsp"
    "\<forall>n. profile_name u n \<and> fsm (profile_base u @ [n]) = Some EDir \<and> n \<in> set names \<longrightarrow>
      below fsp (profile_base u @ [n]) = below fsm (profile_base u @ [n])"
    "\<forall>q. (\<forall>n. profile_name u n \<longrightarrow> \<not> touched (profile_base u) n q) \<longrightarrow> fsp q = fsm q" by blast+
  have r: "md \<Longrightarrow> below ?fs (metadata_path u) = below fs0 (metadata_path u)"
    "\<And>q. md \<longrightarrow> \<not> touched (metadata_base u) (metadata_name u) q \<Longrightarrow> ?fs q = fsp q"
    using undone_metadata [OF bad _ wf _ _ _ fp(1,3)] md m by fastforce+
  have "below ?fs (profile_base u @ [n]) = below fs0 (profile_base u @ [n])"
    if n: "profile_name u n" "fs0 (profile_base u @ [n]) = Some EDir" for n
  proof -
    have away: "md \<longrightarrow> \<not> touched (metadata_base u) (metadata_name u) ((profile_base u @ [n]) @ r)" for r
      using metadata_folder(4) [OF _ n(1), of "(profile_base u @ [n]) @ r"] md touched_append [OF touched_self, of "profile_base u" n "profile_base u @ [n]" r]
      by blast
    have eq: "below ?fs (profile_base u @ [n]) = below fsp (profile_base u @ [n])" "below fsm (profile_base u @ [n]) = below fs0 (profile_base u @ [n])"
      unfolding below_def by (rule ext, rule r(2) [OF away], rule ext, rule frame [OF away])
    from eq(2) n(2) have "fsm (profile_base u @ [n]) = Some EDir" by (metis below_Nil)
    with fp(2) n pr eq show ?thesis by simp
  qed
  with r(1) show ?thesis by (auto simp: isolated_def split: if_splits)
qed

text \<open>
  C28: isolating the user's data is all or nothing.  Whichever of the moves aside fail, a setup that isolates the
  metadata or the profiles, or both, either succeeds, and every folder is under its \<open>.bak\<close> name unchanged, or fails, and every
  folder is back in its place unchanged.
\<close>

theorem isolation_all_or_nothing:
  assumes "g \<in> set SupportedGames" and "path_of path = Some p" and u: "u = NewPath p g"
    and "only_aside_fails (le_bad e)" and "reads_dir e names" and "fs_wf (mc_data m)"
    and "\<forall>n. profile_name u n \<and> mc_data m (profile_base u @ [n]) = Some EDir \<longrightarrow> n \<in> set names"
    and "metadata \<and> g \<noteq> AoE1 \<longrightarrow> mc_data m (metadata_path u) = Some EDir
      \<and> (\<forall>t. mc_data m (isolatedPath (metadata_path u)) \<noteq> Some (EFile t))"
    and "runSetUp e (Some (isolation_values g metadata profiles path)) m = (r, m1)"
  shows "\<forall>q\<in>isolated u metadata profiles (mc_data m).
    below (mc_data m1) (if r = Exited ErrSuccess then originalPath q else q) = below (mc_data m) q"
proof -
  let ?md = "metadata \<and> g \<noteq> AoE1"
  have gu: "up_gameId u = g" by (simp add: u NewPath_def Let_def)
  have g: "?md \<longrightarrow> up_gameId u \<in> {AoE2, AoE3, AoE4, AoM}" using assms(1) by (auto simp: gu SupportedGames_def)
  have iso: "isolated u metadata profiles (mc_data m) = isolated u ?md profiles (mc_data m)" by (simp add: isolated_def gu)
  have mp: "metadata_path u = metadata_base u @ [metadata_name u]" "fst (path_typ (metadata_name u)) = TypeActive" if ?md
    using metadata_folder(1,2) g that by blast+
  have md: "?md \<longrightarrow> up_gameId u \<in> {AoE2, AoE3, AoE4, AoM} \<and> mc_data m (metadata_path u) = Some EDir
      \<and> (\<forall>t. mc_data m (metadata_base u @ [lan_name (metadata_name u)]) \<noteq> Some (EFile t))"
    using g assms(8) mp active_names(6) by metis
  show ?thesis
  proof (cases "r = Exited ErrSuccess")
    case True
    from setup_isolation [OF assms(9)[unfolded True] assms(1,2,4)] obtain fsm where
      st: "if ?md then backup_metadata e u (mc_data m) = (True, fsm) else fsm = mc_data m"
      "if profiles then backup_profiles e u fsm = (True, mc_data m1) else mc_data m1 = fsm" unfolding u by blast
    from session_started [OF assms(4,5,6) _ _ st] assms(7) md obtain ns where
      s: "session_state u ?md profiles (mc_data m) ns (mc_data m1)" by blast
    have "below (mc_data m1) (originalPath (metadata_path u)) = below (mc_data m) (metadata_path u)" if ?md
      using s that mp active_names(7) [of "metadata_name u" "metadata_base u"] by (simp add: session_state_def aside_def)
    moreover have "below (mc_data m1) (originalPath (profile_base u @ [n])) = below (mc_data m) (profile_base u @ [n])" if "n \<in> set ns" for n
      using s that active_names(7) [of n "profile_base u"] session_profile [OF s that] by (simp add: session_state_def aside_def profile_name_def)
    ultimately show ?thesis using True mp unfolding iso isolated_iff [OF g s] by (auto split: if_splits)
  next
    case False
    from setup_isolation_fails [OF assms(9) False u assms(2,1)] consider "mc_data m1 = mc_data m"
      | "?md" "backup_metadata e u (mc_data m) = (False, mc_data m1)"
      | fsm fsp where "if ?md then backup_metadata e u (mc_data m) = (True, fsm) else fsm = mc_data m"
          "backup_profiles e u fsm = (False, fsp)" "mc_data m1 = (if ?md then snd (restore_metadata e u fsp) else fsp)" by blast
    then show ?thesis
    proof cases
      case 2
      with failed_metadata_keeps [OF assms(4) _ assms(6)] md have "mc_data m1 = mc_data m" by blast
      with False show ?thesis by simp
    next
      case 3
      from failed_isolation_undone [OF assms(4,5,6,7) md 3(1,2)] False iso 3(3) show ?thesis by simp
    qed (use False in simp)
  qed
qed

definition failing_env :: ConfigEnv where
  "failing_env = session_env\<lparr>le_bad := (\<lambda>opn. opn = RenameOp (up_path session_user @ [''7'']) (up_path session_user @ [''7.bak'']))\<rparr>"

lemma failing_setup_runs: "fst (runSetUp failing_env (Some (isolation_values AoE2 True True ''/u'')) session_machine) = Exited ErrProfilesBackup"
  by code_simp

theorem isolation_all_or_nothing_witness:
  "let r = runSetUp failing_env (Some (isolation_values AoE2 True True ''/u'')) session_machine
   in fst r = Exited ErrProfilesBackup \<and> mc_data (snd r) (metadata_path session_user @ [''f'']) = Some (EFile ''x'')"
proof -
  let ?v = "isolation_values AoE2 True True ''/u''"
  obtain m1 where m1: "runSetUp failing_env (Some ?v) session_machine = (Exited ErrProfilesBackup, m1)"
    using failing_setup_runs by (cases "runSetUp failing_env (Some ?v) session_machine") simp
  have "bak_name ''7'' = ''7.bak''" by code_simp
  then have bad: "only_aside_fails (le_bad failing_env)"
    by (auto simp: only_aside_fails_def failing_env_def intro!: exI [of _ "up_path session_user"] exI [of _ "''7''"])
  have pre: "AoE2 \<in> set SupportedGames" "path_of ''/u'' = Some [''u'']" "reads_dir failing_env [''7'', ''metadata'']"
    "fs_wf (mc_data session_machine)"
    by (simp_all add: SupportedGames_def path_of_def failing_env_def session_env_def reads_dir_def session_machine_def session_data_wf)
  have names: "n \<in> set [''7'', ''metadata'']" if "mc_data session_machine (profile_base session_user @ [n]) = Some EDir" for n
    using that by (auto simp: session_machine_def session_data_def session_paths split: if_splits)
  have "mc_data session_machine (metadata_path session_user) = Some EDir"
    "mc_data session_machine (isolatedPath (metadata_path session_user)) = None"
    by code_simp+
  then have md: "True \<and> AoE2 \<noteq> AoE1 \<longrightarrow> mc_data session_machine (metadata_path session_user) = Some EDir
      \<and> (\<forall>t. mc_data session_machine (isolatedPath (metadata_path session_user)) \<noteq> Some (EFile t))" by simp
  from isolation_all_or_nothing [OF pre(1,2) session_user_def bad pre(3,4) _ md m1] names
  have th: "\<forall>q\<in>isolated session_user True True (mc_data session_machine). below (mc_data m1) q = below (mc_data session_machine) q"
    by (simp add: ErrSuccess_def ErrProfilesBackup_def)
  have "metadata_path session_user \<in> isolated session_user True True (mc_data session_machine)"
    by (simp add: isolated_def session_user_def NewPath_def titles_neq)
  with th have "below (mc_data m1) (metadata_path session_user) [''f''] = below (mc_data session_machine) (metadata_path session_user) [''f'']"
    by simp
  then have "mc_data m1 (metadata_path session_user @ [''f'']) = Some (EFile ''x'')"
    by (simp add: below_def session_machine_def session_data_def session_paths)
  with m1 show ?thesis by simp
qed

end
