(* ===== verification/GameCertProps.thy ===== *)
theory GameCertProps
  imports LauncherSetup UserDataProps ConfigAdminProps
begin

text \<open>
  Properties of the game's certificate store, and what reverting cannot do: where \<open>setup\<close> and \<open>revert\<close> leave the
  machine changed.
\<close>

section \<open>The certificate store of the game\<close>

lemma Rename_file:
  assumes "fs_wf fs" and "fs (base @ [a]) = Some (EFile t)" and "fs (base @ [b]) = None" and "a \<noteq> b"
  shows "os_Rename (\<lambda>_. False) (base @ [a]) (base @ [b]) fs = Some (fs(base @ [a] := None, base @ [b] \<mapsto> EFile t))"
proof -
  have base: "fs base = Some EDir" using assms(1,2) unfolding fs_wf_def by blast
  have up: "fs q = Some EDir" if "fs (q @ r) \<noteq> None" "r \<noteq> []" for q r
    using that
  proof (induction r arbitrary: q)
    case (Cons x r)
    have "fs (q @ [x]) \<noteq> None" using Cons by (cases "r = []") (use Cons.IH [of "q @ [x]"] in auto)
    with assms(1) show ?case unfolding fs_wf_def by blast
  qed simp
  have none: "fs ((base @ [x]) @ r) = None" if "x = a \<or> x = b" "r \<noteq> []" for x r
  proof (rule ccontr)
    assume "fs ((base @ [x]) @ r) \<noteq> None"
    from up [OF this that(2)] that(1) assms(2,3) show False by auto
  qed
  have "(\<lambda>p. if prefix (base @ [b]) p then fs ((base @ [a]) @ drop (length (base @ [b])) p) else if prefix (base @ [a]) p then None else fs p)
      = fs(base @ [a] := None, base @ [b] \<mapsto> EFile t)"
  proof
    fix p
    show "(if prefix (base @ [b]) p then fs ((base @ [a]) @ drop (length (base @ [b])) p) else if prefix (base @ [a]) p then None else fs p)
      = (fs(base @ [a] := None, base @ [b] \<mapsto> EFile t)) p"
    proof (cases "prefix (base @ [b]) p")
      case True
      then obtain r where p: "p = (base @ [b]) @ r" by (auto simp: prefix_def)
      with none [of a r] none [of b r] assms(2,4) show ?thesis by (cases "r = []") auto
    next
      case nb: False
      show ?thesis
      proof (cases "prefix (base @ [a]) p")
        case True
        then obtain r where p: "p = (base @ [a]) @ r" by (auto simp: prefix_def)
        with nb none [of a r] assms(4) show ?thesis by (cases "r = []") (auto simp: prefix_def)
      qed (use nb in auto)
    qed
  qed
  with base assms(2-4) show ?thesis by (simp add: os_Rename_def path_Dir_def prefix_def)
qed

lemma file_wf:
  assumes "fs_wf fs" and "fs base = Some EDir" and "fs (base @ [x]) = None \<or> fs (base @ [x]) = Some (EFile t)"
  shows "fs_wf (fs(base @ [x] \<mapsto> EFile t'))" and "fs_wf (fs(base @ [x] := None))"
proof -
  have none: "fs (base @ [x, n]) = None" for n
  proof (rule ccontr)
    assume "fs (base @ [x, n]) \<noteq> None"
    then have "fs ((base @ [x]) @ [n]) \<noteq> None" by simp
    with assms(1) have "fs (base @ [x]) = Some EDir" unfolding fs_wf_def by blast
    with assms(3) show False by simp
  qed
  with assms(1,2) show "fs_wf (fs(base @ [x] \<mapsto> EFile t'))" "fs_wf (fs(base @ [x] := None))"
    unfolding fs_wf_def by auto
qed

lemma ca_names [simp]:
  "CACert_file @ ''.lan'' \<noteq> CACert_file" "CACert_file @ ''.bak'' \<noteq> CACert_file" "CACert_file @ ''.lan'' \<noteq> CACert_file @ ''.bak''"
  "CACert_file \<noteq> CACert_file @ ''.lan''" "CACert_file \<noteq> CACert_file @ ''.bak''" "CACert_file @ ''.bak'' \<noteq> CACert_file @ ''.lan''"
  by (simp_all add: CACert_file_def)

lemma removed_appended:
  assumes "h \<notin> fst ` set os"
  shows "removed_certs (os @ [(h, raw)]) os = [raw]"
proof -
  have "filter (\<lambda>x. x \<notin> fst ` set os) (remdups (map fst os @ [h])) = [h]" using assms
  proof (induction os)
    case (Cons a os)
    have "filter (\<lambda>x. x \<notin> fst ` set (a # os)) (remdups (map fst os @ [h]))
        = filter (\<lambda>x. x \<noteq> fst a) (filter (\<lambda>x. x \<notin> fst ` set os) (remdups (map fst os @ [h])))" by (auto intro: filter_cong)
    with Cons show ?case by auto
  qed simp
  then show ?thesis by (simp add: removed_certs_def)
qed


definition store_env :: ConfigEnv where
  "store_env = \<lparr>le_bad = (\<lambda>_. False), le_entries = (\<lambda>_ _. []), le_game_bad = (\<lambda>_. False), le_ca = (\<lambda>_. False),
     le_blocks = (\<lambda>t. if t = [] then [] else [(''CERTIFICATE'', ''cert'')]), le_hash = (\<lambda>c. c), le_admin = admin_example,
     le_started = None, le_ipc = (\<lambda>_. False), le_certfile_create = False, le_certfile_write = False\<rparr>"

definition store_disk :: FS where
  "store_disk = (\<lambda>_. None)([] \<mapsto> EDir, [''game''] \<mapsto> EDir, [''game'', ''cacert.pem''] \<mapsto> EFile [])"


section \<open>What is not undone\<close>

text \<open>
  When the program with administrator rights fails and the agent is not connected, the setup fails and undoes nothing: the
  folders stay aside and the store of the game changed, while the launcher records no values to revert them.
\<close>

lemma admin_failure_not_undone:
  assumes "\<not> agent_connected e (su_machine s)" and "cv_HostFilePath v = []" and "sv_MapIp v \<noteq> []"
    and "admin_RunSetUp e (cv_GameId v) (sv_MapIp v) (sv_MacOsExclusiveMappings v)
      (if cv_CertFilePath v \<noteq> [] then None else sv_AddLocalCertData v) (su_machine s) = Some (err, code, m1)"
    and "err \<or> code \<noteq> ErrSuccess"
  shows "setup_admin e v u s = (Exited ErrAdminSetup, m1)"
  using assms by (auto simp: setup_admin_def Let_def)

text \<open>
  The values for reverting everything have no path of the user's data, so the command stops before it does anything; they
  are what the launcher falls back to when it cannot read the recorded ones.
\<close>

lemma revert_all_does_nothing:
  assumes "rv_RemoveAll v" and "cv_DataPath v = []" and "cv_GameId v \<in> set SupportedGames"
  shows "runRevert e (Some v) m = (Exited ErrInvalidDataPath, m)"
proof -
  have "cv_GameId v \<noteq> []" using assms(3) by (auto simp: SupportedGames_def titles)
  with assms show ?thesis by (simp add: runRevert_def revert_needed_def data_path_def path_of_def Let_def)
qed

text \<open>
  With the certificate in a file of its own and the names in the hosts file of the system, the revert without agent also asks for the
  certificate of the system to be removed; as there is none it fails, and the names stay mapped.
\<close>

lemma certificate_file_blocks_revert:
  assumes "mc_agent (re_machine s) = None" and "le_started e = None"
    and "rv_IPs v" and "cv_HostFilePath v = []" and "rv_Certs v" and "cv_CertFilePath v \<noteq> []" and "\<not> rv_RemoveAll v"
    and "getCertPath (ae_cert (le_admin e)) = Some p" and "disk_files (mc_system (re_machine s)) p = None"
  shows "revert_admin e v u s = (Exited ErrAdminRevert, undoRevert e v u s)"
proof -
  have "UntrustCertificates (ae_cert (le_admin e)) (mc_system (re_machine s)) = (Ret (None, False), mc_system (re_machine s))"
    using assms(8,9) by (simp add: UntrustCertificates_def)
  then have "admin_RunRevert e True True True (re_machine s) = Some (False, ErrLocalCertRemove, re_machine s)"
    using assms(1,2) by (simp add: admin_RunRevert_def agent_connected_def executor_RunRevert_def run_program_def admin_runRevert_def
        exec_result_def)
  with assms(3-7) show ?thesis
    by (simp add: revert_admin_def RevertRequiresAdminElevationValues_def ErrLocalCertRemove_def ErrSuccess_def Let_def)
qed

text \<open>Undoing a revert appends to the store without a backup, so the next revert fails.\<close>

lemma undone_revert_has_no_backup:
  assumes "CACert_Restore e ca fs = (Some certs, fs1)" and "CACert_Append e certs ca fs1 = (True, fs2)" and "fs_wf fs"
    and "le_game_bad e = (\<lambda>_. False)"
  shows "CACert_Restore e ca fs2 = (None, fs2)"
proof -
  have "fs1 (BackupPath ca) = None"
    using assms(1,4)
    by (auto simp: CACert_Restore_def os_Stat_def os_Rename_def Let_def OriginalPath_def BackupPath_def TmpPath_def
        split: if_splits option.splits)
  moreover have "fs2 (BackupPath ca) = fs1 (BackupPath ca)"
    using assms(2) by (auto simp: CACert_Append_def OriginalPath_def BackupPath_def split: if_splits option.splits entry.splits)
  ultimately show ?thesis using assms(4) by (simp add: CACert_Restore_def os_Stat_def Let_def)
qed

end
