(* ===== verification/Resolve.thy ===== *)
theory Resolve
  imports NetIP
begin

text \<open>
  Names and addresses (\<open>common/resolve.go\<close>, \<open>common/network.go\<close>, \<open>server/internal/ip/ip.go\<close>): the cache of what was resolved,
  the addresses of the machine, and which names and addresses belong together.  The answers of the resolver of the system and of the
  name servers, the interfaces, the time and the order in which a set is read are arguments.
\<close>

section \<open>Interfaces of the machine\<close>

record IPNet =
  in_IP :: IP
  in_Mask :: IP

text \<open>The addresses that are networks; \<open>None\<close> stands for an address of another type, and for interfaces whose addresses cannot be read.\<close>

record Interface =
  if_Running :: bool
  if_Broadcast :: bool
  if_Multicast :: bool
  if_Addrs :: "IPNet option list option"

text \<open>The first interface whose addresses cannot be read ends the list.\<close>

fun interface_ips :: "Interface list \<Rightarrow> string list" where
  "interface_ips [] = []"
| "interface_ips (i # is) =
     (if \<not> if_Running i then interface_ips is
      else case if_Addrs i of
        None \<Rightarrow> []
      | Some addrs \<Rightarrow> map IP_String (List.map_filter (\<lambda>a. Option.bind a (\<lambda>n. To4 (in_IP n))) addrs) @ interface_ips is)"

definition ResolveUnspecifiedIps :: "Interface list option \<Rightarrow> string list" where
  "ResolveUnspecifiedIps interfaces = (case interfaces of None \<Rightarrow> [] | Some is \<Rightarrow> interface_ips is)"

text \<open>Here an interface whose addresses cannot be read is passed over, and one without IPv4 addresses is not listed.\<close>

definition RunningNetworkInterfaces :: "Interface list option \<Rightarrow> (Interface \<times> IPNet list) list option" where
  "RunningNetworkInterfaces interfaces = map_option (\<lambda>is.
     filter (\<lambda>(i, ns). ns \<noteq> []) (map (\<lambda>i. (i, case if_Addrs i of
         None \<Rightarrow> []
       | Some addrs \<Rightarrow> filter (\<lambda>n. To4 (in_IP n) \<noteq> None) (List.map_filter (\<lambda>a. a) addrs))) (filter if_Running is))) interfaces"

text \<open>An address of \<open>netip\<close> made of an IPv4 address; \<open>None\<close> is the zero value, whose four bytes cannot be taken.\<close>

definition NetIPToNetIPAddr :: "IP \<Rightarrow> IP option" where "NetIPToNetIPAddr ip = To4 ip"

definition NetIPAddrToNetIP :: "IP option \<Rightarrow> IP outcome" where
  "NetIPAddrToNetIP addr = (case addr of None \<Rightarrow> Panic | Some ip \<Rightarrow> Ret ip)"

text \<open>Sets are lists without repetition.\<close>

definition NetIPSliceToNetIPSet :: "IP list \<Rightarrow> IP option list" where
  "NetIPSliceToNetIPSet ips = remdups (map NetIPToNetIPAddr ips)"

definition StringSliceToNetIPSlice :: "string list \<Rightarrow> IP list" where
  "StringSliceToNetIPSlice ips = List.map_filter ParseIP ips"

section \<open>The cache\<close>

text \<open>What was resolved, and when resolving failed.\<close>

record DnsCache =
  failedIpToHosts :: "(string \<times> int) list"
  failedHostToIps :: "(string \<times> int) list"
  ipToHosts :: "(string \<times> string list) list"
  hostToIps :: "(string \<times> string list) list"

definition ClearDNSCache :: DnsCache where
  "ClearDNSCache = \<lparr>failedIpToHosts = [], failedHostToIps = [], ipToHosts = [], hostToIps = []\<rparr>"

text \<open>
  The resolver: the addresses of a name and the names of an address (\<open>None\<close>: an error), \<open>strings.ToLower\<close>, the interfaces, the time
  in seconds, and the order in which a set is turned into a slice.
\<close>

record DnsEnv =
  dn_lookup :: "string \<Rightarrow> IP list option"
  dn_reverse :: "string \<Rightarrow> string list option"
  dn_lower :: "string \<Rightarrow> string"
  dn_interfaces :: "Interface list option"
  dn_now :: int
  dn_order :: "string list \<Rightarrow> string list"

definition cacheTime :: int where "cacheTime = 60"

text \<open>Whether the result is known, and the set: \<open>None\<close> is the nil set of a failure that is remembered.\<close>

definition cachedHostToIps :: "DnsEnv \<Rightarrow> string \<Rightarrow> DnsCache \<Rightarrow> bool \<times> string list option" where
  "cachedHostToIps e host c =
     (let h = dn_lower e host
      in case map_of (hostToIps c) h of
           Some ips \<Rightarrow> (True, Some ips)
         | None \<Rightarrow> (case map_of (failedHostToIps c) h of
             Some t \<Rightarrow> (dn_now e - t < cacheTime, None) | None \<Rightarrow> (False, None)))"

definition cachedIpToHosts :: "DnsEnv \<Rightarrow> string \<Rightarrow> DnsCache \<Rightarrow> bool \<times> string list option" where
  "cachedIpToHosts e ip c = (case map_of (ipToHosts c) ip of
      Some hosts \<Rightarrow> (True, Some hosts)
    | None \<Rightarrow> (case map_of (failedIpToHosts c) ip of
        Some t \<Rightarrow> (dn_now e - t < cacheTime, None) | None \<Rightarrow> (False, None)))"

definition cached_set :: "(string \<times> string list) list \<Rightarrow> string \<Rightarrow> string list" where
  "cached_set m k = (case map_of m k of None \<Rightarrow> [] | Some xs \<Rightarrow> xs)"

definition add_to_set :: "string \<Rightarrow> string \<Rightarrow> (string \<times> string list) list \<Rightarrow> (string \<times> string list) list" where
  "add_to_set k x m = AList.update k (List.insert x (cached_set m k)) m"

definition CacheMapping :: "DnsEnv \<Rightarrow> string \<Rightarrow> string \<Rightarrow> DnsCache \<Rightarrow> DnsCache" where
  "CacheMapping e host ip c =
     (let h = dn_lower e host
      in c\<lparr>hostToIps := add_to_set h ip (hostToIps c), ipToHosts := add_to_set ip host (ipToHosts c),
           failedIpToHosts := AList.delete ip (failedIpToHosts c), failedHostToIps := AList.delete h (failedHostToIps c)\<rparr>)"

definition IP_IsUnspecified :: "IP \<Rightarrow> bool" where
  "IP_IsUnspecified ip \<longleftrightarrow> IP_Equal ip (v4InV6Prefix @ [0, 0, 0, 0]) \<or> IP_Equal ip (replicate 16 0)"

definition HostOrIpToIps :: "DnsEnv \<Rightarrow> string \<Rightarrow> DnsCache \<Rightarrow> string list outcome \<times> DnsCache" where
  "HostOrIpToIps e host c =
     (case ParseIP host of
        Some ip \<Rightarrow>
          (Ret (if To4 ip = None then [] else if IP_IsUnspecified ip then ResolveUnspecifiedIps (dn_interfaces e) else [IP_String ip]), c)
      | None \<Rightarrow>
          (case cachedHostToIps e host c of
             (True, Some ips) \<Rightarrow> (Ret (dn_order e ips), c)
           | (True, None) \<Rightarrow> (Panic, c)
           | (False, _) \<Rightarrow>
               (let ips = map IP_String (case dn_lookup e host of None \<Rightarrow> [] | Some ips \<Rightarrow> ips)
                in (Ret ips, fold (CacheMapping e host) ips c))))"

definition HostOrIpToIpsSet :: "DnsEnv \<Rightarrow> string \<Rightarrow> DnsCache \<Rightarrow> string list outcome \<times> DnsCache" where
  "HostOrIpToIpsSet e host c = (case HostOrIpToIps e host c of (r, c1) \<Rightarrow> (map_outcome remdups r, c1))"

definition Matches :: "DnsEnv \<Rightarrow> string \<Rightarrow> string \<Rightarrow> DnsCache \<Rightarrow> bool outcome \<times> DnsCache" where
  "Matches e addr1 addr2 c =
     (case HostOrIpToIpsSet e addr2 c of
        (Panic, c1) \<Rightarrow> (Panic, c1)
      | (Ret ips2, c1) \<Rightarrow>
          (case HostOrIpToIpsSet e addr1 c1 of
             (Panic, c2) \<Rightarrow> (Panic, c2)
           | (Ret ips1, c2) \<Rightarrow> (Ret (filter (\<lambda>ip. ip \<in> set ips1) ips2 \<noteq> []), c2)))"

text \<open>The set of names of an address; \<open>None\<close> is the nil set.\<close>

definition IpToHosts :: "DnsEnv \<Rightarrow> string \<Rightarrow> DnsCache \<Rightarrow> string list option \<times> DnsCache" where
  "IpToHosts e ip c =
     (case cachedIpToHosts e ip c of
        (True, hosts) \<Rightarrow> (hosts, c)
      | (False, _) \<Rightarrow>
          (let hosts = (case dn_reverse e ip of None \<Rightarrow> [] | Some hs \<Rightarrow> hs)
           in (Some (remdups hosts), fold (\<lambda>h. CacheMapping e h ip) hosts c)))"

text \<open>
  \<open>netip.ParseAddr\<close>: \<open>Some (Some ip)\<close> for an IPv4 address, \<open>Some None\<close> for one of version 6, with its zone if it has one.  The
  addresses the server announces itself on are collected; \<open>MustParseAddr\<close> panics on what is no address.
\<close>

definition parse_addr4 :: "string \<Rightarrow> IP option option" where
  "parse_addr4 s =
     (if CHR '':'' \<notin> set s then map_option To4 (ParseIP s)
      else let t = takeWhile (\<lambda>ch. ch \<noteq> CHR ''%'') s; zone = dropWhile (\<lambda>ch. ch \<noteq> CHR ''%'') s
        in if ParseIP t = None \<or> zone = ''%'' then None else Some None)"

fun add_ips :: "string list \<Rightarrow> IP list \<Rightarrow> IP list outcome" where
  "add_ips [] acc = Ret acc"
| "add_ips (s # ss) acc = (case parse_addr4 s of Some (Some ip) \<Rightarrow> add_ips ss (List.insert ip acc) | _ \<Rightarrow> Panic)"

fun ResolveHosts :: "DnsEnv \<Rightarrow> string list \<Rightarrow> IP list \<Rightarrow> DnsCache \<Rightarrow> IP list outcome \<times> DnsCache" where
  "ResolveHosts e [] acc c = (Ret acc, c)"
| "ResolveHosts e (host # hosts) acc c =
     (case parse_addr4 host of
        Some (Some ip) \<Rightarrow> ResolveHosts e hosts (List.insert ip acc) c
      | Some None \<Rightarrow> ResolveHosts e hosts acc c
      | None \<Rightarrow>
          (case HostOrIpToIpsSet e host c of
             (Panic, c1) \<Rightarrow> (Panic, c1)
           | (Ret ips, c1) \<Rightarrow> (case add_ips ips acc of Panic \<Rightarrow> (Panic, c1) | Ret acc1 \<Rightarrow> ResolveHosts e hosts acc1 c1)))"

section \<open>Asking public name servers\<close>

definition dnsServers :: "string list" where
  "dnsServers = [''8.8.8.8'', ''1.1.1.1'', ''208.67.222.222'', ''8.8.4.4'', ''1.0.0.1'', ''208.67.220.220'']"

text \<open>
  \<open>reply\<close>: what a server answers to the question for the addresses of a name: the code and, for each record, the address if it is one;
  \<open>None\<close> if there is no answer.
\<close>

fun ask_servers :: "(string \<Rightarrow> (nat \<times> IP option list) option) \<Rightarrow> string list \<Rightarrow> string option" where
  "ask_servers reply [] = None"
| "ask_servers reply (s # ss) =
     (case reply s of
        None \<Rightarrow> ask_servers reply ss
      | Some (code, answers) \<Rightarrow>
          if code \<noteq> 0 then ask_servers reply ss
          else (case List.map_filter (\<lambda>a. a) answers of [] \<Rightarrow> ask_servers reply ss | ip # _ \<Rightarrow> Some (IP_String ip)))"

definition DirectHostToIP :: "(string \<Rightarrow> (nat \<times> IP option list) option) \<Rightarrow> string option" where
  "DirectHostToIP reply = ask_servers reply dnsServers"

definition DNSConnectivity :: "(string \<Rightarrow> bool) \<Rightarrow> bool" where
  "DNSConnectivity reachable \<longleftrightarrow> (\<exists>s\<in>set dnsServers. reachable s)"

section \<open>The cache is consistent\<close>

text \<open>
  The two maps are inverse to each other up to upper and lower case, no set is empty or has repetitions, and nothing is remembered as failed.
\<close>

definition sets_ok :: "(string \<times> string list) list \<Rightarrow> bool" where
  "sets_ok m \<longleftrightarrow> (\<forall>xs\<in>ran (map_of m). xs \<noteq> [] \<and> distinct xs)"

definition inverse_sets :: "(string \<Rightarrow> string) \<Rightarrow> (string \<times> string list) list \<Rightarrow> (string \<times> string list) list \<Rightarrow> bool" where
  "inverse_sets lower m m' \<longleftrightarrow> (\<forall>h ip. ip \<in> set (cached_set m h) \<longleftrightarrow> h \<in> lower ` set (cached_set m' ip))"

definition cache_wf :: "(string \<Rightarrow> string) \<Rightarrow> DnsCache \<Rightarrow> bool" where
  "cache_wf lower c \<longleftrightarrow> failedIpToHosts c = [] \<and> failedHostToIps c = [] \<and> sets_ok (hostToIps c) \<and> sets_ok (ipToHosts c)
     \<and> inverse_sets lower (hostToIps c) (ipToHosts c)"

lemma add_to_set_map: "map_of (add_to_set k x m) = (map_of m)(k \<mapsto> List.insert x (cached_set m k))"
  by (simp add: add_to_set_def update_conv')

lemma cached_add_to_set: "cached_set (add_to_set k x m) = (cached_set m)(k := List.insert x (cached_set m k))"
  by (rule ext) (simp add: cached_set_def add_to_set_map)

lemma cache_wf_start: "cache_wf lower ClearDNSCache"
  by (simp add: cache_wf_def ClearDNSCache_def cached_set_def sets_ok_def inverse_sets_def)

lemma sets_ok_cached:
  assumes "sets_ok m"
  shows "distinct (cached_set m k)"
proof (cases "map_of m k")
  case (Some xs)
  then have "xs \<in> ran (map_of m)" by (rule ranI)
  with assms Some show ?thesis by (simp add: sets_ok_def cached_set_def)
qed (simp add: cached_set_def)

lemma sets_ok_add:
  assumes "sets_ok m"
  shows "sets_ok (add_to_set k x m)"
  unfolding sets_ok_def
proof
  fix xs
  assume "xs \<in> ran (map_of (add_to_set k x m))"
  then have "xs = List.insert x (cached_set m k) \<or> xs \<in> ran (map_of m)"
    by (auto simp: add_to_set_map ran_def split: if_splits)
  moreover have "List.insert x (cached_set m k) \<noteq> []" by (auto simp: List.insert_def)
  ultimately show "xs \<noteq> [] \<and> distinct xs"
    using assms sets_ok_cached [OF assms, of k] by (auto simp: sets_ok_def)
qed

lemma inverse_add:
  assumes "inverse_sets lower m m'"
  shows "inverse_sets lower (add_to_set (lower host) ip m) (add_to_set ip host m')"
  unfolding inverse_sets_def
proof (intro allI)
  fix h i
  have "i \<in> set (cached_set m h) \<longleftrightarrow> h \<in> lower ` set (cached_set m' i)" using assms by (simp add: inverse_sets_def)
  then show "i \<in> set (cached_set (add_to_set (lower host) ip m) h) \<longleftrightarrow> h \<in> lower ` set (cached_set (add_to_set ip host m') i)"
    by (cases "h = lower host"; cases "i = ip") (auto simp: cached_add_to_set)
qed

lemma cache_wf_CacheMapping: "cache_wf (dn_lower e) c \<Longrightarrow> cache_wf (dn_lower e) (CacheMapping e host ip c)"
  by (simp add: cache_wf_def CacheMapping_def Let_def sets_ok_add inverse_add)

lemma cache_wf_fold: "cache_wf (dn_lower e) c \<Longrightarrow> cache_wf (dn_lower e) (fold (CacheMapping e host) ips c)"
  by (induction ips arbitrary: c) (simp_all add: cache_wf_CacheMapping)

lemma cache_wf_fold_hosts: "cache_wf (dn_lower e) c \<Longrightarrow> cache_wf (dn_lower e) (fold (\<lambda>h. CacheMapping e h ip) hosts c)"
  by (induction hosts arbitrary: c) (simp_all add: cache_wf_CacheMapping)

text \<open>With a consistent cache nothing panics, whatever the resolver answers.\<close>

lemma HostOrIpToIps_wf:
  assumes "cache_wf (dn_lower e) c" and "HostOrIpToIps e host c = (r, c1)"
  shows "cache_wf (dn_lower e) c1 \<and> r \<noteq> Panic"
proof -
  have "failedHostToIps c = []" using assms(1) unfolding cache_wf_def by blast
  with assms cache_wf_fold [OF assms(1)] show ?thesis
    by (auto simp: HostOrIpToIps_def cachedHostToIps_def Let_def simp del: not_None_eq split: option.splits)
qed

lemma HostOrIpToIpsSet_wf:
  assumes "cache_wf (dn_lower e) c" and "HostOrIpToIpsSet e host c = (r, c1)"
  shows "cache_wf (dn_lower e) c1 \<and> (\<exists>ips. r = Ret ips)"
proof -
  obtain r0 where "HostOrIpToIps e host c = (r0, c1)" "r = map_outcome remdups r0"
    using assms(2) by (auto simp: HostOrIpToIpsSet_def split: prod.splits)
  with HostOrIpToIps_wf [OF assms(1)] show ?thesis by (cases r0) auto
qed

lemma IpToHosts_wf:
  assumes "cache_wf (dn_lower e) c" and "IpToHosts e ip c = (r, c1)"
  shows "cache_wf (dn_lower e) c1 \<and> r \<noteq> None"
proof (cases "map_of (ipToHosts c) ip")
  case None
  have "failedIpToHosts c = []" using assms(1) unfolding cache_wf_def by blast
  with None assms(2) cache_wf_fold_hosts [OF assms(1)] show ?thesis
    by (auto simp: IpToHosts_def cachedIpToHosts_def Let_def)
next
  case (Some hosts)
  then have "IpToHosts e ip c = (Some hosts, c)" by (simp add: IpToHosts_def cachedIpToHosts_def)
  with assms show ?thesis by auto
qed

text \<open>What was resolved is answered from the cache from then on, with the addresses of the first answer.\<close>

lemma cached_fold:
  "cached_set (hostToIps (fold (CacheMapping e host) ips c)) (dn_lower e host) = fold List.insert ips (cached_set (hostToIps c) (dn_lower e host))"
  by (induction ips arbitrary: c) (simp_all add: CacheMapping_def cached_add_to_set Let_def)

lemma fold_insert_set: "set (fold List.insert xs ys) = set xs \<union> set ys"
  by (induction xs arbitrary: ys) auto

lemma second_lookup:
  assumes "HostOrIpToIps e host c = (Ret ips, c1)" and "ParseIP host = None" and "ips \<noteq> []"
    and "map_of (hostToIps c) (dn_lower e host) = None" and "dn_lower e' = dn_lower e" and "\<And>xs. set (dn_order e' xs) = set xs"
    and "map_of (failedHostToIps c) (dn_lower e host) = None"
  shows "\<exists>ips'. HostOrIpToIps e' host c1 = (Ret ips', c1) \<and> set ips' = set ips"
proof -
  let ?h = "dn_lower e host"
  have c1: "c1 = fold (CacheMapping e host) ips c"
    using assms(1,2,4,7) by (auto simp: HostOrIpToIps_def cachedHostToIps_def Let_def)
  have "cached_set (hostToIps c) ?h = []" using assms(4) by (simp add: cached_set_def)
  then have "set (cached_set (hostToIps c1) ?h) = set ips" by (simp add: c1 cached_fold fold_insert_set)
  with assms(3) obtain xs where "map_of (hostToIps c1) ?h = Some xs" "set xs = set ips"
    by (cases "map_of (hostToIps c1) ?h") (auto simp: cached_set_def)
  with assms(2,5,6) show ?thesis by (simp add: HostOrIpToIps_def cachedHostToIps_def)
qed

section \<open>Sequences of operations\<close>

datatype dns_op = OpMapping string string | OpIps string | OpHosts string | OpClear

fun dns_run :: "(DnsEnv \<times> dns_op) list \<Rightarrow> DnsCache \<Rightarrow> DnsCache outcome" where
  "dns_run [] c = Ret c"
| "dns_run ((e, OpMapping host ip) # ops) c = dns_run ops (CacheMapping e host ip c)"
| "dns_run ((e, OpIps host) # ops) c = (case HostOrIpToIps e host c of (Panic, _) \<Rightarrow> Panic | (Ret _, c1) \<Rightarrow> dns_run ops c1)"
| "dns_run ((e, OpHosts ip) # ops) c = (case IpToHosts e ip c of (None, _) \<Rightarrow> Panic | (Some _, c1) \<Rightarrow> dns_run ops c1)"
| "dns_run ((e, OpClear) # ops) c = dns_run ops ClearDNSCache"

lemma dns_run_wf:
  "\<forall>(e, oper)\<in>set ops. dn_lower e = lower \<Longrightarrow> cache_wf lower c \<Longrightarrow> \<exists>c1. dns_run ops c = Ret c1 \<and> cache_wf lower c1"
proof (induction ops c rule: dns_run.induct)
  case (2 e host ip ops c)
  then show ?case using cache_wf_CacheMapping [of e c] by simp
next
  case (3 e host ops c)
  obtain r c1 where r: "HostOrIpToIps e host c = (r, c1)" by force
  with 3 HostOrIpToIps_wf [of e c host r c1] show ?case by (cases r) auto
next
  case (4 e ip ops c)
  obtain r c1 where r: "IpToHosts e ip c = (r, c1)" by force
  with 4 IpToHosts_wf [of e c ip r c1] show ?case by (cases r) auto
qed (simp_all add: cache_wf_start)

text \<open>
  C31: whatever is looked up or added, in any order and whatever the resolver answers, the cache of names keeps its form and
  no lookup panics.  The addresses of a name and the names of an address are inverse to each other up to upper and lower case, no set
  is empty or has repetitions, and no failure is ever remembered, although the code looks for remembered failures.
\<close>

theorem dns_cache_consistent:
  assumes "\<forall>(e, oper)\<in>set ops. dn_lower e = lower"
  shows "\<exists>c. dns_run ops ClearDNSCache = Ret c \<and> failedIpToHosts c = [] \<and> failedHostToIps c = []
    \<and> (\<forall>h ip. ip \<in> set (cached_set (hostToIps c) h) \<longleftrightarrow> h \<in> lower ` set (cached_set (ipToHosts c) ip))
    \<and> (\<forall>xs\<in>ran (map_of (hostToIps c)) \<union> ran (map_of (ipToHosts c)). xs \<noteq> [] \<and> distinct xs)"
  using dns_run_wf [OF assms cache_wf_start] by (auto simp: cache_wf_def sets_ok_def inverse_sets_def)

definition dns_example :: DnsEnv where
  "dns_example = \<lparr>dn_lookup = (\<lambda>_. Some [[192, 168, 0, 2]]), dn_reverse = (\<lambda>_. Some [''lan-host'']), dn_lower = (\<lambda>h. h),
     dn_interfaces = None, dn_now = 0, dn_order = (\<lambda>xs. xs)\<rparr>"

theorem dns_cache_consistent_witness:
  "\<exists>c. dns_run [(dns_example, OpIps ''a.com''), (dns_example, OpHosts ''192.168.0.3'')] ClearDNSCache = Ret c
     \<and> hostToIps c = [(''a.com'', [''192.168.0.2'']), (''lan-host'', [''192.168.0.3''])]
     \<and> ''192.168.0.2'' \<in> set (cached_set (hostToIps c) ''a.com'')
     \<and> (''a.com'' \<in> (\<lambda>h. h) ` set (cached_set (ipToHosts c) ''192.168.0.2''))"
proof -
  let ?ops = "[(dns_example, OpIps ''a.com''), (dns_example, OpHosts ''192.168.0.3'')]"
  have "\<forall>(e, oper)\<in>set ?ops. dn_lower e = (\<lambda>h. h)" by (simp add: dns_example_def)
  from dns_cache_consistent [OF this] obtain c where c: "dns_run ?ops ClearDNSCache = Ret c"
    "\<forall>h ip. ip \<in> set (cached_set (hostToIps c) h) \<longleftrightarrow> h \<in> (\<lambda>h. h) ` set (cached_set (ipToHosts c) ip)" by blast
  have "dns_run ?ops ClearDNSCache = Ret \<lparr>failedIpToHosts = [], failedHostToIps = [],
      ipToHosts = [(''192.168.0.2'', [''a.com'']), (''192.168.0.3'', [''lan-host''])],
      hostToIps = [(''a.com'', [''192.168.0.2'']), (''lan-host'', [''192.168.0.3''])]\<rparr>" by code_simp
  with c(1) have h: "hostToIps c = [(''a.com'', [''192.168.0.2'']), (''lan-host'', [''192.168.0.3''])]" by simp
  then have "''192.168.0.2'' \<in> set (cached_set (hostToIps c) ''a.com'')" by (simp add: cached_set_def)
  with c h show ?thesis by blast
qed

end
