(* ===== verification/ArgsStore.thy ===== *)
theory ArgsStore
  imports LauncherSetup Resolve FlushCache
begin

text \<open>
  How the launcher remembers what to revert: the file of arguments (\<open>launcher-common/argsStore.go\<close>), flags as arguments
  (\<open>common/cmd/flags.go\<close>), running the setup and recording its revert (\<open>launcher/internal/executor/config.go\<close>) and reverting
  what is recorded (\<open>launcher-common/configRevert.go\<close>).  Logs and the system certificates of the process are left out.
\<close>

section \<open>Flags as arguments\<close>

text \<open>A flag of a set of \<open>pflag\<close>: its name, the name of its type, the text of its value (base64 for bytes) and of its default.\<close>

record Flag =
  fl_Name :: string
  fl_Type :: string
  fl_String :: string
  fl_DefValue :: string

definition has_suffix :: "string \<Rightarrow> string \<Rightarrow> bool" where
  "has_suffix s suf \<longleftrightarrow> length suf \<le> length s \<and> drop (length s - length suf) s = suf"

text \<open>The text of a list of values without its brackets.\<close>

definition slice_text :: "string \<Rightarrow> string" where
  "slice_text s = (let s = (if s \<noteq> [] \<and> hd s = CHR ''['' then tl s else s)
     in if s \<noteq> [] \<and> last s = CHR '']'' then butlast s else s)"

definition long_arg :: "string \<Rightarrow> string \<Rightarrow> string" where
  "long_arg name t = ''--'' @ name @ ''='' @ t"

definition flag_args :: "Flag \<Rightarrow> string list" where
  "flag_args f =
     (let t = fl_String f; typ = fl_Type f
      in if t = fl_DefValue f then []
         else if typ = ''bool'' then [if t = ''true'' then ''--'' @ fl_Name f else ''--'' @ fl_Name f @ ''=false'']
         else if typ \<in> {''string'', ''int'', ''ip'', ''bytesHex'', ''bytesBase64''} then [long_arg (fl_Name f) t]
         else if typ \<in> {''stringSlice'', ''stringArray''} \<or> has_suffix typ ''Slice'' \<or> has_suffix typ ''Array'' then
           (if slice_text t = [] then [] else map (long_arg (fl_Name f)) (str_Split (CHR '','') (slice_text t)))
         else [long_arg (fl_Name f) t])"

text \<open>The flags are visited in the order of their names; \<open>rest\<close> are the arguments that are no flags.\<close>

definition FlagSetToArgs :: "string \<Rightarrow> Flag list \<Rightarrow> string list \<Rightarrow> bool \<Rightarrow> string list" where
  "FlagSetToArgs name fs rest includeName = (if includeName then [name] else []) @ concat (map flag_args fs) @ rest"

definition bool_flag :: "string \<Rightarrow> bool \<Rightarrow> Flag" where
  "bool_flag n b = \<lparr>fl_Name = n, fl_Type = ''bool'', fl_String = (if b then ''true'' else ''false''), fl_DefValue = ''false''\<rparr>"

definition string_flag :: "string \<Rightarrow> string \<Rightarrow> Flag" where
  "string_flag n t = \<lparr>fl_Name = n, fl_Type = ''string'', fl_String = t, fl_DefValue = []\<rparr>"

definition bytes_flag :: "(string \<Rightarrow> string) \<Rightarrow> string \<Rightarrow> string option \<Rightarrow> Flag" where
  "bytes_flag base64 n b = \<lparr>fl_Name = n, fl_Type = ''bytesBase64'', fl_String = base64 (slice_data b), fl_DefValue = []\<rparr>"

text \<open>The flags of the two commands on Linux, in the order of their names.\<close>

definition SetUpFlagSet :: "(string \<Rightarrow> string) \<Rightarrow> SetupValues \<Rightarrow> Flag list" where
  "SetUpFlagSet base64 v =
     [bytes_flag base64 ''caStoreCert'' (sv_AddCACertData v), string_flag ''certFilePath'' (cv_CertFilePath v),
      string_flag ''dataPath'' (cv_DataPath v), string_flag ''game'' (cv_GameId v), string_flag ''gamePath'' (cv_GamePath v),
      string_flag ''hostFilePath'' (cv_HostFilePath v),
      \<lparr>fl_Name = ''ip'', fl_Type = ''ip'', fl_String = IP_String (sv_MapIp v), fl_DefValue = ''<nil>''\<rparr>,
      bytes_flag base64 ''localCert'' (sv_AddLocalCertData v), bool_flag ''macExclusiveDomain'' (sv_MacOsExclusiveMappings v),
      bool_flag ''metadata'' (cv_Metadata v), bool_flag ''profiles'' (cv_Profiles v)]"

definition RevertFlagSet :: "RevertValues \<Rightarrow> Flag list" where
  "RevertFlagSet v =
     [bool_flag ''all'' (rv_RemoveAll v), bool_flag ''caStoreCert'' (rv_RestoreCAStoreCert v),
      string_flag ''certFilePath'' (cv_CertFilePath v), string_flag ''dataPath'' (cv_DataPath v), string_flag ''game'' (cv_GameId v),
      string_flag ''gamePath'' (cv_GamePath v), string_flag ''hostFilePath'' (cv_HostFilePath v), bool_flag ''ip'' (rv_IPs v),
      bool_flag ''localCert'' (rv_Certs v), bool_flag ''metadata'' (cv_Metadata v), bool_flag ''profiles'' (cv_Profiles v)]"

definition revert_zero :: RevertValues where
  "revert_zero = \<lparr>cv_GameId = [], cv_GamePath = [], cv_DataPath = [], cv_HostFilePath = [], cv_CertFilePath = [], cv_Metadata = False,
     cv_Profiles = False, rv_IPs = False, rv_Certs = False, rv_RemoveAll = False, rv_RemoveUserCert = False,
     rv_RestoreCAStoreCert = False\<rparr>"

text \<open>\<open>Flags\<close>: everything subsumes the rest.\<close>

definition revert_Flags :: "RevertValues \<Rightarrow> string list" where
  "revert_Flags v =
     (let v' = (if rv_RemoveAll v then v\<lparr>rv_IPs := False, rv_RemoveUserCert := False, rv_Certs := False, cv_Metadata := False,
            cv_Profiles := False, rv_RestoreCAStoreCert := False\<rparr> else v)
      in FlagSetToArgs ''revert'' (RevertFlagSet v') [] False)"

definition allRevertFlags :: "string \<Rightarrow> string list" where
  "allRevertFlags gameId = revert_Flags (revert_zero\<lparr>cv_GameId := gameId, rv_RemoveAll := True\<rparr>)"

section \<open>The file of arguments\<close>

datatype store_op = StoreLoad | StoreOpen | StoreRead | StoreSeek | StoreWrite | StoreRemove

text \<open>The operations that fail, and how many bytes a failing write has written.\<close>

record StoreEnv =
  se_bad :: "store_op \<Rightarrow> bool"
  se_written :: nat

definition argsStoreByteToStringSlice :: "string \<Rightarrow> string list" where
  "argsStoreByteToStringSlice s = str_Split (CHR ''|'') s"

text \<open>The content of the file is \<open>None\<close> if there is none; the results are whether there was an error, and the arguments.\<close>

definition ArgsStore_Load :: "StoreEnv \<Rightarrow> string option \<Rightarrow> bool \<times> string list" where
  "ArgsStore_Load se content = (case content of
      None \<Rightarrow> (False, [])
    | Some t \<Rightarrow> if se_bad se StoreLoad then (True, []) else (False, argsStoreByteToStringSlice t))"

definition add_flags :: "string list \<Rightarrow> string list \<Rightarrow> string list" where
  "add_flags existing flags = existing @ filter (\<lambda>f. f \<notin> set existing) flags"

text \<open>Writing from the start of a file of a longer text keeps the end of that text.\<close>

definition overwrite :: "string \<Rightarrow> string \<Rightarrow> string" where
  "overwrite new old = new @ drop (length new) old"

definition ArgsStore_Store :: "StoreEnv \<Rightarrow> string list \<Rightarrow> string option \<Rightarrow> bool \<times> string option" where
  "ArgsStore_Store se flags content =
     (if se_bad se StoreOpen then (True, content)
      else let t = slice_data content;
          text = str_Join (CHR ''|'') (add_flags (argsStoreByteToStringSlice t) flags)
        in if se_bad se StoreRead \<or> se_bad se StoreSeek then (True, Some t)
           else if se_bad se StoreWrite then (True, Some (overwrite (take (se_written se) text) t))
           else (False, Some (overwrite text t)))"

definition ArgsStore_Delete :: "StoreEnv \<Rightarrow> string option \<Rightarrow> bool \<times> string option" where
  "ArgsStore_Delete se content =
     (if content = None then (False, None) else if se_bad se StoreRemove then (True, content) else (False, None))"

section \<open>Running the commands\<close>

text \<open>The machine, the file of the flags that revert it, and the names the process has resolved.\<close>

record Launcher =
  la_machine :: Machine
  la_revert :: "string option"
  la_dns :: DnsCache

text \<open>
  What a run of \<open>launcher-config\<close> meets, also when it flushes caches, the result of executing it if it does not start, the parsers of
  \<open>pflag\<close> for its commands (the values and the arguments that are no flags), the base64 form of bytes, and the file operations.
\<close>

record RunEnv =
  rn_config :: ConfigEnv
  rn_flush :: FlushEnv
  rn_started :: "Result option"
  rn_parse_setup :: "string list \<Rightarrow> SetupValues option"
  rn_parse_revert :: "string list \<Rightarrow> (RevertValues \<times> string list) option"
  rn_parse_flush :: "string list \<Rightarrow> FlushCacheValues option"
  rn_base64 :: "string \<Rightarrow> string"
  rn_store :: StoreEnv
  rn_admin :: bool
  rn_processes :: bool

definition ConfigRevertCmd :: string where "ConfigRevertCmd = ''revert''"

text \<open>The commands of \<open>launcher-config\<close>.\<close>

definition Execute_config :: "RunEnv \<Rightarrow> string list \<Rightarrow> Machine \<Rightarrow> proc_end \<times> Machine" where
  "Execute_config e args m = (case args of
      [] \<Rightarrow> (Exited ErrSuccess, m)
    | name # rest \<Rightarrow>
        if name = ''setup'' then runSetUp (rn_config e) (rn_parse_setup e rest) m
        else if name = ConfigRevertCmd then runRevert (rn_config e) (map_option fst (rn_parse_revert e rest)) m
        else if name = ''flushCache'' then runFlushCache (rn_config e) (rn_flush e) (rn_admin e) (rn_parse_flush e rest) m
        else if name = ''stopAgent'' then runStopAgent (rn_config e) m
        else (Exited ErrSyntax, m))"

text \<open>The result is \<open>None\<close> if the program does not end.\<close>

definition run_config :: "RunEnv \<Rightarrow> string list \<Rightarrow> Launcher \<Rightarrow> (Result \<times> Launcher) option" where
  "run_config e args s = (case rn_started e of
      Some r \<Rightarrow> Some (r, s)
    | None \<Rightarrow> (case Execute_config e args (la_machine s) of
        (r, m) \<Rightarrow> map_option (\<lambda>r. (r, s\<lparr>la_machine := m\<rparr>)) (exec_result r)))"

definition common_RunRevert :: "RunEnv \<Rightarrow> string list \<Rightarrow> Launcher \<Rightarrow> (Result \<times> Launcher) option" where
  "common_RunRevert e flags s = run_config e (ConfigRevertCmd # flags) s"

definition clear_dns :: "bool \<Rightarrow> Launcher \<Rightarrow> Launcher" where
  "clear_dns b s = (if b then s\<lparr>la_dns := ClearDNSCache\<rparr> else s)"

definition executor_Revert :: "RunEnv \<Rightarrow> string list \<Rightarrow> Launcher \<Rightarrow> (Result \<times> Launcher) option" where
  "executor_Revert e flags s =
     (case rn_parse_revert e flags of
        None \<Rightarrow> Some (\<lparr>res_Err = True, res_ExitCode = 0, res_Pid = 0\<rparr>, s)
      | Some (v, _) \<Rightarrow> map_option (\<lambda>(r, s1). (r, clear_dns (rv_RemoveAll v \<or> rv_IPs v) s1)) (common_RunRevert e flags s))"

text \<open>After a setup that succeeds the flags that revert it are recorded; if they cannot be, it is reverted.\<close>

definition executor_SetUp :: "RunEnv \<Rightarrow> SetupValues \<Rightarrow> Launcher \<Rightarrow> (Result \<times> Launcher) option" where
  "executor_SetUp e c s =
     (case run_config e (FlagSetToArgs ''setup'' (SetUpFlagSet (rn_base64 e) c) [] True) s of
        None \<Rightarrow> None
      | Some (r, s0) \<Rightarrow>
          let s1 = clear_dns (sv_MapIp c \<noteq> []) s0
          in if \<not> Result_Success r then Some (r, s1)
          else let revertArgs = revert_Flags (ConfigRevertFlagOptions c)
            in case ArgsStore_Store (rn_store e) revertArgs (la_revert s1) of
                 (False, content) \<Rightarrow> Some (r, s1\<lparr>la_revert := content\<rparr>)
               | (True, content) \<Rightarrow>
                   map_option (\<lambda>(r, s2). (r\<lparr>res_Err := True\<rparr>, s2)) (executor_Revert e revertArgs (s1\<lparr>la_revert := content\<rparr>)))"

section \<open>Reverting what is recorded\<close>

text \<open>\<open>rn_processes\<close>: the processes can be listed.\<close>

definition ConfigAdminAgentRunning :: "RunEnv \<Rightarrow> Launcher \<Rightarrow> bool" where
  "ConfigAdminAgentRunning e s \<longleftrightarrow> rn_processes e \<and> mc_agent (la_machine s) \<noteq> None"

definition RequiresAdminElevation :: "RunEnv \<Rightarrow> Launcher \<Rightarrow> bool" where
  "RequiresAdminElevation e s \<longleftrightarrow> \<not> rn_admin e \<and> \<not> ConfigAdminAgentRunning e s"

definition RevertRequiresAdminElevation :: "RunEnv \<Rightarrow> string list \<Rightarrow> Launcher \<Rightarrow> bool" where
  "RevertRequiresAdminElevation e args s \<longleftrightarrow> RequiresAdminElevation e s
     \<and> (case rn_parse_revert e args of None \<Rightarrow> True | Some (v, _) \<Rightarrow> RevertRequiresAdminElevationValues v)"

text \<open>Each of several reverts runs; success is that of one of them.\<close>

fun run_reverts ::
  "(string list \<Rightarrow> Launcher \<Rightarrow> (Result \<times> Launcher) option) \<Rightarrow> string list list \<Rightarrow> bool \<Rightarrow> Launcher \<Rightarrow> (bool \<times> Launcher) option" where
  "run_reverts run [] success s = Some (success, s)"
| "run_reverts run (flags # fs) success s =
     (case run flags s of None \<Rightarrow> None | Some (r, s1) \<Rightarrow> run_reverts run fs (success \<or> Result_Success r) s1)"

text \<open>\<open>games\<close>: the supported games in the order of the set.\<close>

definition ConfigRevert ::
  "RunEnv \<Rightarrow> string list \<Rightarrow> string \<Rightarrow> bool \<Rightarrow> (string list \<Rightarrow> Launcher \<Rightarrow> (Result \<times> Launcher) option) \<Rightarrow> Launcher
     \<Rightarrow> (bool \<times> Launcher) option" where
  "ConfigRevert e supported gameId headless run s =
     (case ArgsStore_Load (rn_store e) (la_revert s) of
        (err, revertFlags) \<Rightarrow>
          if \<not> err \<and> revertFlags = [] then Some (True, s)
          else let games = (if gameId = [] then supported else [gameId]);
              parsed = (if err then None else rn_parse_revert e revertFlags);
              multipleRevertFlags = (case parsed of
                  None \<Rightarrow> map allRevertFlags games
                | Some (v, rest) \<Rightarrow> [FlagSetToArgs ''revert'' (RevertFlagSet v) rest False])
            in if headless \<and> RevertRequiresAdminElevation e (hd multipleRevertFlags) s then Some (False, s)
               else (case run_reverts run multipleRevertFlags False s of
                   None \<Rightarrow> None
                 | Some (success, s1) \<Rightarrow>
                     Some (success, if success then s1\<lparr>la_revert := snd (ArgsStore_Delete (rn_store e) (la_revert s1))\<rparr> else s1)))"

definition RequiresConfigRevert :: "StoreEnv \<Rightarrow> Launcher \<Rightarrow> bool" where
  "RequiresConfigRevert se s \<longleftrightarrow> (case ArgsStore_Load se (la_revert s) of (err, args) \<Rightarrow> \<not> err \<and> args \<noteq> [])"

end
