(* ===== verification/ArgsStoreProps.thy ===== *)
theory ArgsStoreProps
  imports ArgsStore GameCertProps
begin

text \<open>
  What the file of arguments holds after several setups: the flags of one revert with the union of their values.
\<close>

section \<open>Splitting and joining\<close>

lemma Split_plain: "sep \<notin> set x \<Longrightarrow> str_Split sep x = [x]"
  by (induction x) auto

lemma Split_Join: "xs \<noteq> [] \<Longrightarrow> \<forall>x\<in>set xs. sep \<notin> set x \<Longrightarrow> str_Split sep (str_Join sep xs) = xs"
  by (induction sep xs rule: str_Join.induct) (auto simp: Split_plain Split_append)

lemma Split_parts: "x \<in> set (str_Split sep t) \<Longrightarrow> sep \<notin> set x"
proof (induction t arbitrary: x)
  case (Cons c t)
  obtain y ys where s: "str_Split sep t = y # ys" by (cases "str_Split sep t") auto
  with Cons show ?case by (auto split: if_splits)
qed simp

lemma Join_length: "xs \<noteq> [] \<Longrightarrow> length (str_Join sep xs) \<le> length (str_Join sep (xs @ ys))"
proof (induction ys rule: rev_induct)
  case (snoc y ys)
  then show ?case using Join_append [of "xs @ ys" sep y] by simp
qed simp

section \<open>What is relied on of the parser\<close>

text \<open>
  What the documentation of \<open>pflag\<close> says of the arguments that occur here: an argument that does not start with a dash is no flag,
  \<open>--name=text\<close> sets a flag, \<open>--name\<close> sets a flag of type bool to true, and a later one replaces an earlier one.  Other
  arguments are left open.
\<close>

definition set_revert_flag :: "string \<Rightarrow> string \<Rightarrow> RevertValues \<Rightarrow> RevertValues option" where
  "set_revert_flag n t v =
     (if n = ''certFilePath'' then Some (v\<lparr>cv_CertFilePath := t\<rparr>)
      else if n = ''dataPath'' then Some (v\<lparr>cv_DataPath := t\<rparr>)
      else if n = ''game'' then Some (v\<lparr>cv_GameId := t\<rparr>)
      else if n = ''gamePath'' then Some (v\<lparr>cv_GamePath := t\<rparr>)
      else if n = ''hostFilePath'' then Some (v\<lparr>cv_HostFilePath := t\<rparr>)
      else if t \<noteq> ''true'' then None
      else if n = ''all'' then Some (v\<lparr>rv_RemoveAll := True\<rparr>)
      else if n = ''caStoreCert'' then Some (v\<lparr>rv_RestoreCAStoreCert := True\<rparr>)
      else if n = ''ip'' then Some (v\<lparr>rv_IPs := True\<rparr>)
      else if n = ''localCert'' then Some (v\<lparr>rv_Certs := True\<rparr>)
      else if n = ''metadata'' then Some (v\<lparr>cv_Metadata := True\<rparr>)
      else if n = ''profiles'' then Some (v\<lparr>cv_Profiles := True\<rparr>)
      else None)"

definition bool_names :: "string list" where
  "bool_names = [''all'', ''caStoreCert'', ''ip'', ''localCert'', ''metadata'', ''profiles'']"

definition revert_arg :: "string \<Rightarrow> RevertValues \<Rightarrow> RevertValues option" where
  "revert_arg a v =
     (if take 2 a \<noteq> ''--'' then None
      else case str_SplitN2 (CHR ''='') (drop 2 a) of
        [n] \<Rightarrow> if n \<in> set bool_names then set_revert_flag n ''true'' v else None
      | [n, t] \<Rightarrow> set_revert_flag n t v
      | _ \<Rightarrow> None)"

fun documented_args :: "string list \<Rightarrow> RevertValues \<times> string list \<Rightarrow> (RevertValues \<times> string list) option" where
  "documented_args [] r = Some r"
| "documented_args (a # as) (v, rest) =
     (if a = [] \<or> hd a \<noteq> CHR ''-'' then documented_args as (v, rest @ [a])
      else case revert_arg a v of None \<Rightarrow> None | Some v' \<Rightarrow> documented_args as (v', rest))"

definition pflag_documented :: "(string list \<Rightarrow> (RevertValues \<times> string list) option) \<Rightarrow> bool" where
  "pflag_documented parse \<longleftrightarrow> (\<forall>args r. documented_args args (revert_zero, []) = Some r \<longrightarrow> parse args = Some r)"

lemma documented_append:
  "documented_args (as @ bs) r = Option.bind (documented_args as r) (documented_args bs)"
  by (induction as r rule: documented_args.induct) (auto split: option.splits)

lemma SplitN2_plain: "sep \<notin> set x \<Longrightarrow> str_SplitN2 sep x = [x]"
  by (induction x) auto

lemma SplitN2_sep: "sep \<notin> set x \<Longrightarrow> str_SplitN2 sep (x @ sep # t) = [x, t]"
  by (induction x) auto

lemma revert_arg_bool: "n \<in> set bool_names \<Longrightarrow> revert_arg (''--'' @ n) v = set_revert_flag n ''true'' v"
  by (auto simp: revert_arg_def bool_names_def)

lemma revert_arg_long: "CHR ''='' \<notin> set n \<Longrightarrow> revert_arg (long_arg n t) v = set_revert_flag n t v"
  by (simp add: revert_arg_def long_arg_def SplitN2_sep)

section \<open>The union of the values\<close>

definition later :: "string \<Rightarrow> string \<Rightarrow> string" where
  "later a b = (if b = [] then a else b)"

definition merge_values :: "RevertValues \<Rightarrow> RevertValues \<Rightarrow> RevertValues" where
  "merge_values v w =
     v\<lparr>cv_GameId := later (cv_GameId v) (cv_GameId w), cv_GamePath := later (cv_GamePath v) (cv_GamePath w),
       cv_DataPath := later (cv_DataPath v) (cv_DataPath w), cv_HostFilePath := later (cv_HostFilePath v) (cv_HostFilePath w),
       cv_CertFilePath := later (cv_CertFilePath v) (cv_CertFilePath w), cv_Metadata := cv_Metadata v \<or> cv_Metadata w,
       cv_Profiles := cv_Profiles v \<or> cv_Profiles w, rv_IPs := rv_IPs v \<or> rv_IPs w, rv_Certs := rv_Certs v \<or> rv_Certs w,
       rv_RestoreCAStoreCert := rv_RestoreCAStoreCert v \<or> rv_RestoreCAStoreCert w\<rparr>"

text \<open>The texts of two setups do not contradict each other.\<close>

definition agree :: "string \<Rightarrow> string \<Rightarrow> bool" where
  "agree a b \<longleftrightarrow> a = b \<or> a = [] \<or> b = []"

definition compatible :: "RevertValues \<Rightarrow> RevertValues \<Rightarrow> bool" where
  "compatible v w \<longleftrightarrow> agree (cv_GameId v) (cv_GameId w) \<and> agree (cv_GamePath v) (cv_GamePath w)
     \<and> agree (cv_DataPath v) (cv_DataPath w) \<and> agree (cv_HostFilePath v) (cv_HostFilePath w)
     \<and> agree (cv_CertFilePath v) (cv_CertFilePath w)"

definition storable :: "RevertValues \<Rightarrow> bool" where
  "storable v \<longleftrightarrow> \<not> rv_RemoveAll v \<and>
     (\<forall>t\<in>{cv_GameId v, cv_GamePath v, cv_DataPath v, cv_HostFilePath v, cv_CertFilePath v}. CHR ''|'' \<notin> set t)"

text \<open>Every argument of a list is in effect in the values.\<close>

definition in_effect :: "string list \<Rightarrow> RevertValues \<Rightarrow> bool" where
  "in_effect args v \<longleftrightarrow>
     (\<forall>t. (long_arg ''certFilePath'' t \<in> set args \<longrightarrow> t \<noteq> [] \<and> cv_CertFilePath v = t)
        \<and> (long_arg ''dataPath'' t \<in> set args \<longrightarrow> t \<noteq> [] \<and> cv_DataPath v = t)
        \<and> (long_arg ''game'' t \<in> set args \<longrightarrow> t \<noteq> [] \<and> cv_GameId v = t)
        \<and> (long_arg ''gamePath'' t \<in> set args \<longrightarrow> t \<noteq> [] \<and> cv_GamePath v = t)
        \<and> (long_arg ''hostFilePath'' t \<in> set args \<longrightarrow> t \<noteq> [] \<and> cv_HostFilePath v = t))
     \<and> (''--caStoreCert'' \<in> set args \<longrightarrow> rv_RestoreCAStoreCert v) \<and> (''--ip'' \<in> set args \<longrightarrow> rv_IPs v)
     \<and> (''--localCert'' \<in> set args \<longrightarrow> rv_Certs v) \<and> (''--metadata'' \<in> set args \<longrightarrow> cv_Metadata v)
     \<and> (''--profiles'' \<in> set args \<longrightarrow> cv_Profiles v)"

lemma string_flag_args: "flag_args (string_flag n t) = (if t = [] then [] else [long_arg n t])"
  by (simp add: flag_args_def string_flag_def Let_def)

lemma bool_flag_args: "flag_args (bool_flag n b) = (if b then [''--'' @ n] else [])"
  by (simp add: flag_args_def bool_flag_def Let_def)

lemma revert_Flags_list:
  "\<not> rv_RemoveAll w \<Longrightarrow> revert_Flags w =
     (if rv_RestoreCAStoreCert w then [''--caStoreCert''] else [])
     @ (if cv_CertFilePath w = [] then [] else [long_arg ''certFilePath'' (cv_CertFilePath w)])
     @ (if cv_DataPath w = [] then [] else [long_arg ''dataPath'' (cv_DataPath w)])
     @ (if cv_GameId w = [] then [] else [long_arg ''game'' (cv_GameId w)])
     @ (if cv_GamePath w = [] then [] else [long_arg ''gamePath'' (cv_GamePath w)])
     @ (if cv_HostFilePath w = [] then [] else [long_arg ''hostFilePath'' (cv_HostFilePath w)])
     @ (if rv_IPs w then [''--ip''] else []) @ (if rv_Certs w then [''--localCert''] else [])
     @ (if cv_Metadata w then [''--metadata''] else []) @ (if cv_Profiles w then [''--profiles''] else [])"
  by (simp add: revert_Flags_def FlagSetToArgs_def RevertFlagSet_def string_flag_args bool_flag_args)

text \<open>One flag of the list, with those left out that are in effect already.\<close>

lemma documented_long:
  assumes "CHR ''='' \<notin> set n" and "set_revert_flag n t v = Some v'" and "long_arg n t \<in> set args \<Longrightarrow> v' = v"
  shows "documented_args (filter (\<lambda>a. a \<notin> set args) (if t = [] then [] else [long_arg n t])) (v, rest)
    = Some (if t = [] then v else v', rest)"
proof -
  have "revert_arg (long_arg n t) v = Some v'" by (simp add: revert_arg_long assms(1,2))
  with assms(3) show ?thesis by (auto simp: long_arg_def)
qed

lemma documented_bool:
  assumes "a = ''--'' @ n" and "n \<in> set bool_names" and "set_revert_flag n ''true'' v = Some v'" and "a \<in> set args \<Longrightarrow> v' = v"
  shows "documented_args (filter (\<lambda>a. a \<notin> set args) (if b then [a] else [])) (v, rest) = Some (if b then v' else v, rest)"
proof -
  have "revert_arg a v = Some v'" using revert_arg_bool [OF assms(2), of v] assms(1,3) by simp
  with assms(4) show ?thesis by (auto simp: assms(1))
qed

lemmas set_flag_simps =
  set_revert_flag_def [of "''certFilePath''", simplified]
  set_revert_flag_def [of "''dataPath''", simplified]
  set_revert_flag_def [of "''game''", simplified]
  set_revert_flag_def [of "''gamePath''", simplified]
  set_revert_flag_def [of "''hostFilePath''", simplified]
  set_revert_flag_def [of "''caStoreCert''" "''true''", simplified]
  set_revert_flag_def [of "''ip''" "''true''", simplified]
  set_revert_flag_def [of "''localCert''" "''true''", simplified]
  set_revert_flag_def [of "''metadata''" "''true''", simplified]
  set_revert_flag_def [of "''profiles''" "''true''", simplified]

lemma documented_flags:
  fixes v :: RevertValues and args :: "string list"
  defines "new \<equiv> filter (\<lambda>a. a \<notin> set args)"
  shows
  "(long_arg ''certFilePath'' t \<in> set args \<Longrightarrow> cv_CertFilePath v = t) \<Longrightarrow>
     documented_args (new (if t = [] then [] else [long_arg ''certFilePath'' t])) (v, rest) = Some (v\<lparr>cv_CertFilePath := later (cv_CertFilePath v) t\<rparr>, rest)"
  "(long_arg ''dataPath'' t \<in> set args \<Longrightarrow> cv_DataPath v = t) \<Longrightarrow>
     documented_args (new (if t = [] then [] else [long_arg ''dataPath'' t])) (v, rest) = Some (v\<lparr>cv_DataPath := later (cv_DataPath v) t\<rparr>, rest)"
  "(long_arg ''game'' t \<in> set args \<Longrightarrow> cv_GameId v = t) \<Longrightarrow>
     documented_args (new (if t = [] then [] else [long_arg ''game'' t])) (v, rest) = Some (v\<lparr>cv_GameId := later (cv_GameId v) t\<rparr>, rest)"
  "(long_arg ''gamePath'' t \<in> set args \<Longrightarrow> cv_GamePath v = t) \<Longrightarrow>
     documented_args (new (if t = [] then [] else [long_arg ''gamePath'' t])) (v, rest) = Some (v\<lparr>cv_GamePath := later (cv_GamePath v) t\<rparr>, rest)"
  "(long_arg ''hostFilePath'' t \<in> set args \<Longrightarrow> cv_HostFilePath v = t) \<Longrightarrow>
     documented_args (new (if t = [] then [] else [long_arg ''hostFilePath'' t])) (v, rest) = Some (v\<lparr>cv_HostFilePath := later (cv_HostFilePath v) t\<rparr>, rest)"
  "(''--caStoreCert'' \<in> set args \<Longrightarrow> rv_RestoreCAStoreCert v) \<Longrightarrow>
     documented_args (new (if b then [''--caStoreCert''] else [])) (v, rest) = Some (v\<lparr>rv_RestoreCAStoreCert := rv_RestoreCAStoreCert v \<or> b\<rparr>, rest)"
  "(''--ip'' \<in> set args \<Longrightarrow> rv_IPs v) \<Longrightarrow>
     documented_args (new (if b then [''--ip''] else [])) (v, rest) = Some (v\<lparr>rv_IPs := rv_IPs v \<or> b\<rparr>, rest)"
  "(''--localCert'' \<in> set args \<Longrightarrow> rv_Certs v) \<Longrightarrow>
     documented_args (new (if b then [''--localCert''] else [])) (v, rest) = Some (v\<lparr>rv_Certs := rv_Certs v \<or> b\<rparr>, rest)"
  "(''--metadata'' \<in> set args \<Longrightarrow> cv_Metadata v) \<Longrightarrow>
     documented_args (new (if b then [''--metadata''] else [])) (v, rest) = Some (v\<lparr>cv_Metadata := cv_Metadata v \<or> b\<rparr>, rest)"
  "(''--profiles'' \<in> set args \<Longrightarrow> cv_Profiles v) \<Longrightarrow>
     documented_args (new (if b then [''--profiles''] else [])) (v, rest) = Some (v\<lparr>cv_Profiles := cv_Profiles v \<or> b\<rparr>, rest)"
  unfolding new_def
  by (subst documented_long [OF _ set_flag_simps(1)] documented_long [OF _ set_flag_simps(2)] documented_long [OF _ set_flag_simps(3)]
      documented_long [OF _ set_flag_simps(4)] documented_long [OF _ set_flag_simps(5)]
      documented_bool [where n = "''caStoreCert''", OF _ _ set_flag_simps(6)] documented_bool [where n = "''ip''", OF _ _ set_flag_simps(7)]
      documented_bool [where n = "''localCert''", OF _ _ set_flag_simps(8)] documented_bool [where n = "''metadata''", OF _ _ set_flag_simps(9)]
      documented_bool [where n = "''profiles''", OF _ _ set_flag_simps(10)];
      cases v; auto simp: bool_names_def later_def)+

lemma documented_revert_Flags:
  assumes "\<not> rv_RemoveAll w" and "in_effect args v"
  shows "documented_args (filter (\<lambda>a. a \<notin> set args) (revert_Flags w)) (v, rest) = Some (merge_values v w, rest)"
  using assms(2) unfolding revert_Flags_list [OF assms(1)] in_effect_def merge_values_def filter_append
  by (simp add: documented_append documented_flags)

lemma long_arg_simps [simp]:
  "long_arg n t = long_arg n u \<longleftrightarrow> t = u"
  "long_arg n t \<noteq> []" "[] \<noteq> long_arg n t"
  by (auto simp: long_arg_def)

lemma long_arg_neq:
  "CHR ''='' \<notin> set n \<Longrightarrow> CHR ''='' \<notin> set n' \<Longrightarrow> n \<noteq> n' \<Longrightarrow> long_arg n t \<noteq> long_arg n' u"
proof
  assume "CHR ''='' \<notin> set n" "CHR ''='' \<notin> set n'" "n \<noteq> n'" "long_arg n t = long_arg n' u"
  then have "str_SplitN2 (CHR ''='') (n @ CHR ''='' # t) = str_SplitN2 (CHR ''='') (n' @ CHR ''='' # u)"
    by (simp add: long_arg_def)
  with \<open>CHR ''='' \<notin> set n\<close> \<open>CHR ''='' \<notin> set n'\<close> \<open>n \<noteq> n'\<close> show False by (simp add: SplitN2_sep)
qed

lemma long_arg_bool: "CHR ''='' \<notin> set a \<Longrightarrow> long_arg n t \<noteq> a"
  by (auto simp: long_arg_def)

lemmas arg_neqs = long_arg_neq long_arg_bool long_arg_bool [symmetric]

lemma in_effect_start: "in_effect [[]] v" "in_effect [] v"
  by (simp_all add: in_effect_def)

lemma Flags_long:
  assumes "\<not> rv_RemoveAll w"
  shows "long_arg ''certFilePath'' t \<in> set (revert_Flags w) \<longleftrightarrow> t \<noteq> [] \<and> cv_CertFilePath w = t"
    "long_arg ''dataPath'' t \<in> set (revert_Flags w) \<longleftrightarrow> t \<noteq> [] \<and> cv_DataPath w = t"
    "long_arg ''game'' t \<in> set (revert_Flags w) \<longleftrightarrow> t \<noteq> [] \<and> cv_GameId w = t"
    "long_arg ''gamePath'' t \<in> set (revert_Flags w) \<longleftrightarrow> t \<noteq> [] \<and> cv_GamePath w = t"
    "long_arg ''hostFilePath'' t \<in> set (revert_Flags w) \<longleftrightarrow> t \<noteq> [] \<and> cv_HostFilePath w = t"
  unfolding revert_Flags_list [OF assms] by (simp_all add: arg_neqs) auto

lemma Flags_bool:
  assumes "\<not> rv_RemoveAll w"
  shows "''--caStoreCert'' \<in> set (revert_Flags w) \<longleftrightarrow> rv_RestoreCAStoreCert w" "''--ip'' \<in> set (revert_Flags w) \<longleftrightarrow> rv_IPs w"
    "''--localCert'' \<in> set (revert_Flags w) \<longleftrightarrow> rv_Certs w" "''--metadata'' \<in> set (revert_Flags w) \<longleftrightarrow> cv_Metadata w"
    "''--profiles'' \<in> set (revert_Flags w) \<longleftrightarrow> cv_Profiles w"
  unfolding revert_Flags_list [OF assms] by (simp_all add: arg_neqs)

lemma set_add_flags: "set (add_flags args fs) = set args \<union> set fs"
  by (auto simp: add_flags_def)

lemma later_effect: "(P \<Longrightarrow> t \<noteq> [] \<and> a = t) \<Longrightarrow> agree a b \<Longrightarrow> P \<or> t \<noteq> [] \<and> b = t \<Longrightarrow> t \<noteq> [] \<and> later a b = t"
  by (auto simp: agree_def later_def)

lemma in_effectD:
  assumes "in_effect args v"
  shows "long_arg ''certFilePath'' t \<in> set args \<Longrightarrow> t \<noteq> [] \<and> cv_CertFilePath v = t"
    "long_arg ''dataPath'' t \<in> set args \<Longrightarrow> t \<noteq> [] \<and> cv_DataPath v = t"
    "long_arg ''game'' t \<in> set args \<Longrightarrow> t \<noteq> [] \<and> cv_GameId v = t"
    "long_arg ''gamePath'' t \<in> set args \<Longrightarrow> t \<noteq> [] \<and> cv_GamePath v = t"
    "long_arg ''hostFilePath'' t \<in> set args \<Longrightarrow> t \<noteq> [] \<and> cv_HostFilePath v = t"
    "''--caStoreCert'' \<in> set args \<Longrightarrow> rv_RestoreCAStoreCert v" "''--ip'' \<in> set args \<Longrightarrow> rv_IPs v"
    "''--localCert'' \<in> set args \<Longrightarrow> rv_Certs v" "''--metadata'' \<in> set args \<Longrightarrow> cv_Metadata v"
    "''--profiles'' \<in> set args \<Longrightarrow> cv_Profiles v"
  using assms unfolding in_effect_def by blast+

lemma merge_simps [simp]:
  "cv_GameId (merge_values v w) = later (cv_GameId v) (cv_GameId w)" "cv_GamePath (merge_values v w) = later (cv_GamePath v) (cv_GamePath w)"
  "cv_DataPath (merge_values v w) = later (cv_DataPath v) (cv_DataPath w)" "cv_Metadata (merge_values v w) \<longleftrightarrow> cv_Metadata v \<or> cv_Metadata w"
  "cv_HostFilePath (merge_values v w) = later (cv_HostFilePath v) (cv_HostFilePath w)" "rv_IPs (merge_values v w) \<longleftrightarrow> rv_IPs v \<or> rv_IPs w"
  "cv_CertFilePath (merge_values v w) = later (cv_CertFilePath v) (cv_CertFilePath w)" "rv_Certs (merge_values v w) \<longleftrightarrow> rv_Certs v \<or> rv_Certs w"
  "cv_Profiles (merge_values v w) \<longleftrightarrow> cv_Profiles v \<or> cv_Profiles w" "rv_RemoveAll (merge_values v w) = rv_RemoveAll v"
  "rv_RemoveUserCert (merge_values v w) = rv_RemoveUserCert v"
  "rv_RestoreCAStoreCert (merge_values v w) \<longleftrightarrow> rv_RestoreCAStoreCert v \<or> rv_RestoreCAStoreCert w"
  by (simp_all add: merge_values_def)

lemma in_effect_Flags:
  assumes "in_effect args v" and "compatible v w" and "\<not> rv_RemoveAll w"
  shows "in_effect (add_flags args (revert_Flags w)) (merge_values v w)"
proof -
  note e = in_effectD [OF assms(1)] and c = assms(2) [unfolded compatible_def]
  have "\<And>t. long_arg ''certFilePath'' t \<in> set args \<or> t \<noteq> [] \<and> cv_CertFilePath w = t \<Longrightarrow> t \<noteq> [] \<and> later (cv_CertFilePath v) (cv_CertFilePath w) = t"
    "\<And>t. long_arg ''dataPath'' t \<in> set args \<or> t \<noteq> [] \<and> cv_DataPath w = t \<Longrightarrow> t \<noteq> [] \<and> later (cv_DataPath v) (cv_DataPath w) = t"
    "\<And>t. long_arg ''game'' t \<in> set args \<or> t \<noteq> [] \<and> cv_GameId w = t \<Longrightarrow> t \<noteq> [] \<and> later (cv_GameId v) (cv_GameId w) = t"
    "\<And>t. long_arg ''gamePath'' t \<in> set args \<or> t \<noteq> [] \<and> cv_GamePath w = t \<Longrightarrow> t \<noteq> [] \<and> later (cv_GamePath v) (cv_GamePath w) = t"
    "\<And>t. long_arg ''hostFilePath'' t \<in> set args \<or> t \<noteq> [] \<and> cv_HostFilePath w = t \<Longrightarrow> t \<noteq> [] \<and> later (cv_HostFilePath v) (cv_HostFilePath w) = t"
    by (rule later_effect, erule e, use c in blast, assumption)+
  with e(6-10) show ?thesis
    unfolding in_effect_def set_add_flags Un_iff Flags_long [OF assms(3)] Flags_bool [OF assms(3)] merge_simps by blast
qed

lemma Store_writes:
  assumes "ArgsStore_Store se flags content = (False, content')" and "\<forall>f\<in>set flags. CHR ''|'' \<notin> set f"
  shows "\<exists>t. content' = Some t \<and> str_Split (CHR ''|'') t = add_flags (str_Split (CHR ''|'') (slice_data content)) flags"
proof -
  let ?sep = "CHR ''|''" and ?old = "slice_data content"
  let ?args = "str_Split ?sep ?old"
  let ?new = "str_Join ?sep (add_flags ?args flags)"
  have "length ?old \<le> length ?new"
    using Join_length [of ?args ?sep "filter (\<lambda>f. f \<notin> set ?args) flags"] Join_Split [of ?sep ?old] by (simp add: add_flags_def)
  then have "overwrite ?new ?old = ?new" by (simp add: overwrite_def)
  moreover have "str_Split ?sep ?new = add_flags ?args flags"
    by (rule Split_Join) (use assms(2) in \<open>auto simp: add_flags_def dest: Split_parts\<close>)
  ultimately show ?thesis
    using assms(1) by (auto simp: ArgsStore_Store_def argsStoreByteToStringSlice_def Let_def split: if_splits)
qed

text \<open>The content of the file stands for the values.\<close>

definition recorded :: "RevertValues \<Rightarrow> string option \<Rightarrow> bool" where
  "recorded v content \<longleftrightarrow> (let args = str_Split (CHR ''|'') (slice_data content)
     in documented_args args (revert_zero, []) = Some (v, [[]]) \<and> in_effect args v)"

lemma recorded_start: "recorded revert_zero None"
  by (simp add: recorded_def slice_data_def in_effect_start)

lemma storable_Flags:
  assumes "storable w"
  shows "\<forall>f\<in>set (revert_Flags w). CHR ''|'' \<notin> set f"
proof -
  have "\<not> rv_RemoveAll w" using assms by (simp add: storable_def)
  with assms show ?thesis by (auto simp: revert_Flags_list storable_def long_arg_def)
qed

lemma recorded_step:
  assumes "recorded v content" and "compatible v w" and "storable w"
    and "ArgsStore_Store se (revert_Flags w) content = (False, content')"
  shows "recorded (merge_values v w) content'"
proof -
  let ?args = "str_Split (CHR ''|'') (slice_data content)"
  have all: "\<not> rv_RemoveAll w" using assms(3) by (simp add: storable_def)
  obtain t where t: "content' = Some t" "str_Split (CHR ''|'') t = add_flags ?args (revert_Flags w)"
    using Store_writes [OF assms(4) storable_Flags [OF assms(3)]] by blast
  from assms(1) have "documented_args ?args (revert_zero, []) = Some (v, [[]])" "in_effect ?args v"
    by (simp_all add: recorded_def Let_def)
  with in_effect_Flags [OF _ assms(2) all] documented_revert_Flags [OF all, of ?args v "[[]]"] show ?thesis
    by (simp add: recorded_def t slice_data_def add_flags_def documented_append)
qed

lemma agree_later: "agree a c \<Longrightarrow> agree b c \<Longrightarrow> agree (later a b) c"
  by (simp add: later_def)

lemma compatible_merge: "compatible v x \<Longrightarrow> compatible w x \<Longrightarrow> compatible (merge_values v w) x"
  by (simp add: compatible_def agree_later)

lemma compatible_zero: "compatible revert_zero x"
  by (simp add: compatible_def agree_def revert_zero_def)

definition union_of :: "SetupValues list \<Rightarrow> RevertValues" where
  "union_of cs = foldl merge_values revert_zero (map ConfigRevertFlagOptions cs)"

lemma union_snoc: "union_of (cs @ [c]) = merge_values (union_of cs) (ConfigRevertFlagOptions c)"
  by (simp add: union_of_def)

lemma union_compatible: "\<forall>c\<in>set cs. compatible (ConfigRevertFlagOptions c) x \<Longrightarrow> compatible (union_of cs) x"
  by (induction cs rule: rev_induct) (simp add: union_of_def compatible_zero, simp add: union_snoc compatible_merge)

lemma union_flags: "\<not> rv_RemoveAll (union_of cs)" "\<not> rv_RemoveUserCert (union_of cs)"
  by (induction cs rule: rev_induct) (simp_all add: union_snoc, simp_all add: union_of_def revert_zero_def)

section \<open>Setups, one after the other\<close>

text \<open>Setups that succeed, in this order; between them the machine and the names that are resolved may change in any way.\<close>

inductive setups_done :: "SetupValues list \<Rightarrow> Launcher \<Rightarrow> Launcher \<Rightarrow> bool" where
  none_done: "setups_done [] s s"
| one_more: "setups_done cs s s1 \<Longrightarrow> executor_SetUp e c s1 = Some (r, s2) \<Longrightarrow> Result_Success r \<Longrightarrow> setups_done (cs @ [c]) s s2"
| others: "setups_done cs s s1 \<Longrightarrow> setups_done cs s (s1\<lparr>la_machine := m, la_dns := c\<rparr>)"

lemma clear_dns_simps [simp]: "la_revert (clear_dns b s) = la_revert s" "la_machine (clear_dns b s) = la_machine s"
  by (simp_all add: clear_dns_def)

lemma SetUp_stores:
  assumes "executor_SetUp e c s = Some (r, s1)" and "Result_Success r"
  shows "ArgsStore_Store (rn_store e) (revert_Flags (ConfigRevertFlagOptions c)) (la_revert s) = (False, la_revert s1)"
proof -
  let ?store = "\<lambda>s. ArgsStore_Store (rn_store e) (revert_Flags (ConfigRevertFlagOptions c)) (la_revert s)"
  obtain r0 s0 where run: "run_config e (FlagSetToArgs ''setup'' (SetUpFlagSet (rn_base64 e) c) [] True) s = Some (r0, s0)"
    using assms(1) by (auto simp: executor_SetUp_def split: option.splits)
  then have keep: "la_revert s0 = la_revert s" by (auto simp: run_config_def split: option.splits prod.splits)
  have ok: "Result_Success r0" using assms run by (auto simp: executor_SetUp_def Let_def split: if_splits)
  obtain err content where st: "?store s0 = (err, content)" by force
  show ?thesis
  proof (cases err)
    case True
    with assms run ok st have "Result_Success r \<longrightarrow> \<not> res_Err r" "res_Err r"
      by (auto simp: executor_SetUp_def Result_Success_def Let_def)
    with assms(2) show ?thesis by simp
  next
    case False
    with assms(1) run ok st keep show ?thesis by (auto simp: executor_SetUp_def Let_def)
  qed
qed

lemma setups_recorded:
  assumes "setups_done cs s s1" and "la_revert s = None"
    and "\<forall>c\<in>set cs. storable (ConfigRevertFlagOptions c)"
    and "\<forall>c\<in>set cs. \<forall>d\<in>set cs. compatible (ConfigRevertFlagOptions c) (ConfigRevertFlagOptions d)"
  shows "recorded (union_of cs) (la_revert s1)"
  using assms
proof induction
  case (none_done s)
  then show ?case by (simp add: union_of_def recorded_start)
next
  case (one_more cs s s1 e c r s2)
  then have "recorded (union_of cs) (la_revert s1)" by auto
  from recorded_step [OF this union_compatible _ SetUp_stores [OF one_more(2,3)]] one_more(6,7)
  show ?case by (simp add: union_snoc)
qed simp

lemma setups_stored:
  assumes "setups_done cs s s1" and "cs \<noteq> []"
  shows "la_revert s1 \<noteq> None"
  using assms
proof induction
  case (one_more cs s s1 e c r s2)
  have "\<exists>t. c = Some t" if "ArgsStore_Store se fs d = (False, c)" for se fs d c
    using that by (auto simp: ArgsStore_Store_def Let_def split: if_splits)
  with SetUp_stores [OF one_more(2,3)] show ?case by fastforce
qed simp_all

lemma merge_zero: "\<not> rv_RemoveAll w \<Longrightarrow> \<not> rv_RemoveUserCert w \<Longrightarrow> merge_values revert_zero w = w"
  by (cases w) (auto simp: merge_values_def revert_zero_def later_def)

lemma documented_reread:
  assumes "\<not> rv_RemoveAll w" and "\<not> rv_RemoveUserCert w"
  shows "documented_args (FlagSetToArgs ''revert'' (RevertFlagSet w) [[]] False) (revert_zero, []) = Some (w, [[]])"
proof -
  have "FlagSetToArgs ''revert'' (RevertFlagSet w) [[]] False = revert_Flags w @ [[]]"
    using assms(1) by (simp add: revert_Flags_def FlagSetToArgs_def)
  with documented_revert_Flags [OF assms(1) in_effect_start(2), of revert_zero "[]"] merge_zero [OF assms] show ?thesis
    by (simp add: documented_append)
qed

text \<open>Reverting what stands for given values runs \<open>revert\<close> with these values.\<close>

lemma ConfigRevert_recorded:
  assumes "recorded v (la_revert s)" and "la_revert s = Some t" and "\<not> rv_RemoveAll v" and "\<not> rv_RemoveUserCert v"
    and "pflag_documented (rn_parse_revert e)" and "\<not> se_bad (rn_store e) StoreLoad" and "\<not> se_bad (rn_store e) StoreRemove"
  shows "ConfigRevert e supported g headless run s =
    (if headless \<and> RequiresAdminElevation e s \<and> RevertRequiresAdminElevationValues v then Some (False, s)
     else map_option (\<lambda>(r, s1). (Result_Success r, if Result_Success r then s1\<lparr>la_revert := None\<rparr> else s1))
       (run (FlagSetToArgs ''revert'' (RevertFlagSet v) [[]] False) s))"
proof -
  have stored: "rn_parse_revert e (str_Split (CHR ''|'') t) = Some (v, [[]])"
    using assms(1,5) by (simp add: recorded_def pflag_documented_def assms(2) slice_data_def Let_def)
  have again: "rn_parse_revert e (FlagSetToArgs ''revert'' (RevertFlagSet v) [[]] False) = Some (v, [[]])"
    using documented_reread [OF assms(3,4)] assms(5) by (simp add: pflag_documented_def)
  have del: "snd (ArgsStore_Delete (rn_store e) x) = None" for x using assms(7) by (simp add: ArgsStore_Delete_def)
  have load: "ArgsStore_Load (rn_store e) (la_revert s) = (False, str_Split (CHR ''|'') t)"
    using assms(6) by (simp add: ArgsStore_Load_def assms(2) argsStoreByteToStringSlice_def)
  show ?thesis
    by (simp add: ConfigRevert_def load stored del RevertRequiresAdminElevation_def again Let_def split: option.split)
qed

lemma executor_Revert_values:
  assumes "\<not> rv_RemoveAll v" and "\<not> rv_RemoveUserCert v" and "pflag_documented (rn_parse_revert e)" and "rn_started e = None"
  shows "executor_Revert e (FlagSetToArgs ''revert'' (RevertFlagSet v) [[]] False) s =
      (case runRevert (rn_config e) (Some v) (la_machine s) of (r, m) \<Rightarrow> map_option (\<lambda>r. (r, clear_dns (rv_IPs v) (s\<lparr>la_machine := m\<rparr>))) (exec_result r))"
    and "common_RunRevert e (FlagSetToArgs ''revert'' (RevertFlagSet v) [[]] False) s =
      (case runRevert (rn_config e) (Some v) (la_machine s) of (r, m) \<Rightarrow> map_option (\<lambda>r. (r, s\<lparr>la_machine := m\<rparr>)) (exec_result r))"
proof -
  have again: "rn_parse_revert e (FlagSetToArgs ''revert'' (RevertFlagSet v) [[]] False) = Some (v, [[]])"
    using documented_reread [OF assms(1,2)] assms(3) by (simp add: pflag_documented_def)
  then show run: "common_RunRevert e (FlagSetToArgs ''revert'' (RevertFlagSet v) [[]] False) s =
      (case runRevert (rn_config e) (Some v) (la_machine s) of (r, m) \<Rightarrow> map_option (\<lambda>r. (r, s\<lparr>la_machine := m\<rparr>)) (exec_result r))"
    using assms(4) by (simp add: common_RunRevert_def run_config_def Execute_config_def ConfigRevertCmd_def split: prod.split)
  show "executor_Revert e (FlagSetToArgs ''revert'' (RevertFlagSet v) [[]] False) s =
      (case runRevert (rn_config e) (Some v) (la_machine s) of (r, m) \<Rightarrow> map_option (\<lambda>r. (r, clear_dns (rv_IPs v) (s\<lparr>la_machine := m\<rparr>))) (exec_result r))"
    using assms(1) by (simp add: executor_Revert_def again run option.map_comp comp_def split: prod.split)
qed

text \<open>
  C29: reverting after any number of setups is one revert of all of them.  If the setups succeed one after the other,
  whatever happens to the machine in between, their texts have no bar and do not contradict each other, and the parser of flags does
  what its documentation says, then reverting what is recorded is running the command \<open>revert\<close> once with the union of
  the values of all setups, and the record is removed if and only if that succeeds.
\<close>

theorem revert_of_setups:
  assumes "setups_done cs s s1" and "la_revert s = None" and "cs \<noteq> []"
    and "\<forall>c\<in>set cs. storable (ConfigRevertFlagOptions c)"
    and "\<forall>c\<in>set cs. \<forall>d\<in>set cs. compatible (ConfigRevertFlagOptions c) (ConfigRevertFlagOptions d)"
    and "pflag_documented (rn_parse_revert e)" and "rn_started e = None"
    and "\<not> se_bad (rn_store e) StoreLoad" and "\<not> se_bad (rn_store e) StoreRemove"
  shows "ConfigRevert e supported g False (executor_Revert e) s1 =
    (case runRevert (rn_config e) (Some (union_of cs)) (la_machine s1) of
       (r, m) \<Rightarrow> map_option (\<lambda>r. (Result_Success r,
         s1\<lparr>la_machine := m, la_revert := if Result_Success r then None else la_revert s1,
           la_dns := if rv_IPs (union_of cs) then ClearDNSCache else la_dns s1\<rparr>)) (exec_result r))"
proof -
  obtain t where t: "la_revert s1 = Some t" using setups_stored [OF assms(1,3)] by auto
  have "recorded (union_of cs) (la_revert s1)" by (rule setups_recorded [OF assms(1,2,4,5)])
  note run = ConfigRevert_recorded [OF this t union_flags assms(6,8,9), of supported g False "executor_Revert e"]
  obtain r m where "runRevert (rn_config e) (Some (union_of cs)) (la_machine s1) = (r, m)" by force
  with run executor_Revert_values(1) [OF union_flags assms(6,7)] show ?thesis
    by (cases "exec_result r") (simp_all add: clear_dns_def)
qed

text \<open>The store of a game, set up, recorded and reverted.\<close>

definition recorded_values :: SetupValues where
  "recorded_values = \<lparr>cv_GameId = AoE3, cv_GamePath = ''/game'', cv_DataPath = [], cv_HostFilePath = [], cv_CertFilePath = [],
     cv_Metadata = False, cv_Profiles = False, sv_MapIp = [], sv_MacOsExclusiveMappings = False, sv_AddLocalCertData = None,
     sv_AddUserCertData = None, sv_AddCACertData = Some ''cert''\<rparr>"

definition flush_example :: FlushEnv where
  "flush_example = (let ok = \<lparr>res_Err = False, res_ExitCode = 0, res_Pid = 1\<rparr>
     in \<lparr>fe_resolvectl = False, fe_restart = ok, fe_started = None, fe_agent = ok, fe_agentAdmin = True, fe_agentLocked = False, fe_agentSeen = True\<rparr>)"

definition launcher_env :: RunEnv where
  "launcher_env = \<lparr>rn_config = store_env, rn_flush = flush_example, rn_started = None, rn_parse_setup = (\<lambda>_. Some recorded_values),
     rn_parse_revert = (\<lambda>args. documented_args args (revert_zero, [])), rn_parse_flush = (\<lambda>_. Some \<lparr>fv_IPs = False, fv_Certs = True\<rparr>), rn_base64 = (\<lambda>b. b),
     rn_store = \<lparr>se_bad = (\<lambda>_. False), se_written = 0\<rparr>, rn_admin = False, rn_processes = True\<rparr>"

definition launcher_start :: Launcher where
  "launcher_start = \<lparr>la_machine = \<lparr>mc_data = (\<lambda>_. None), mc_game = store_disk, mc_system = agent_disk, mc_agent = None\<rparr>, la_revert = None,
     la_dns = ClearDNSCache\<rparr>"

lemma launcher_runs:
  "case executor_SetUp launcher_env recorded_values launcher_start of None \<Rightarrow> False | Some (r, s1) \<Rightarrow>
     Result_Success r \<and> la_revert s1 = Some ''|--caStoreCert|--game=age3|--gamePath=/game''
     \<and> fst (runRevert store_env (Some (union_of [recorded_values])) (la_machine s1)) = Exited 0"
  by code_simp

theorem revert_of_setups_witness:
  "\<exists>s1 s2. setups_done [recorded_values] launcher_start s1 \<and> la_revert s1 = Some ''|--caStoreCert|--game=age3|--gamePath=/game''
     \<and> ConfigRevert launcher_env SupportedGames [] False (executor_Revert launcher_env) s1 = Some (True, s2) \<and> la_revert s2 = None"
proof -
  obtain r s1 where r: "executor_SetUp launcher_env recorded_values launcher_start = Some (r, s1)" "Result_Success r"
    "la_revert s1 = Some ''|--caStoreCert|--game=age3|--gamePath=/game''"
    "fst (runRevert store_env (Some (union_of [recorded_values])) (la_machine s1)) = Exited 0"
    using launcher_runs by (auto split: option.splits)
  have d: "setups_done [recorded_values] launcher_start s1"
    using one_more [OF none_done r(1,2)] by simp
  have "storable (ConfigRevertFlagOptions recorded_values)" by code_simp
  then have c: "\<forall>c\<in>set [recorded_values]. storable (ConfigRevertFlagOptions c)"
    "\<forall>c\<in>set [recorded_values]. \<forall>d\<in>set [recorded_values]. compatible (ConfigRevertFlagOptions c) (ConfigRevertFlagOptions d)"
    by (simp_all add: compatible_def agree_def)
  obtain m where m: "runRevert store_env (Some (union_of [recorded_values])) (la_machine s1) = (Exited 0, m)"
    using r(4) by (metis prod.collapse)
  have "\<exists>s2. ConfigRevert launcher_env SupportedGames [] False (executor_Revert launcher_env) s1 = Some (True, s2) \<and> la_revert s2 = None"
    using revert_of_setups [OF d _ _ c, of launcher_env SupportedGames "[]"] m
    by (simp add: launcher_start_def launcher_env_def pflag_documented_def exec_result_def Result_Success_def ErrSuccess_def)
  with d r(3) show ?thesis by blast
qed

section \<open>What the file cannot hold\<close>

text \<open>An argument with a bar is read back as two, so a folder of user data with a bar in its path is not found again.\<close>

lemma bar_splits_argument:
  assumes "CHR ''|'' \<notin> set p" and "CHR ''|'' \<notin> set q"
  shows "str_Split (CHR ''|'') (str_Join (CHR ''|'') [[], long_arg ''dataPath'' (p @ CHR ''|'' # q)]) = [[], long_arg ''dataPath'' p, q]"
proof -
  have "str_Split (CHR ''|'') (long_arg ''dataPath'' (p @ CHR ''|'' # q)) = [long_arg ''dataPath'' p, q]"
    using Split_append [of "CHR ''|''" "long_arg ''dataPath'' p" q] assms by (simp add: long_arg_def Split_plain)
  then show ?thesis by (simp only: str_Join.simps str_Split.simps append_Nil if_True refl)
qed

text \<open>A failing write leaves the beginning of the new text before the end of the old one.\<close>

lemma failed_write_example:
  "ArgsStore_Store \<lparr>se_bad = (\<lambda>oper. oper = StoreWrite), se_written = 2\<rparr> [''--ip''] None = (True, Some ''|-'')"
  by code_simp

text \<open>
  Reverting all games because the record cannot be read does nothing for a game that has user data: its flags have no path, and the
  command stops at the check of the path.
\<close>

lemma revert_of_everything_stops:
  assumes "g \<in> set SupportedGames"
  shows "runRevert e (Some (revert_zero\<lparr>cv_GameId := g, rv_RemoveAll := True\<rparr>)) m = (Exited ErrInvalidDataPath, m)"
proof -
  have "g \<noteq> []" using assms by (auto simp: SupportedGames_def titles)
  with assms show ?thesis by (simp add: runRevert_def revert_needed_def data_path_def path_of_def revert_zero_def Let_def)
qed

end
