(* ===== verification/Discovery.thy ===== *)
theory Discovery
  imports Resolve "HOL-Library.List_Lexorder" "HOL-Library.Char_ord"
begin

text \<open>
  How a launcher finds the servers of the network: the query and the answer of a server (\<open>common/announce.go\<close>,
  \<open>server/internal/ip/announce.go\<close>, \<open>server/internal/routes/test\<close>), asking a server who it is (\<open>common/server/server.go\<close>), and collecting,
  measuring and selecting servers (\<open>launcher/internal/server/server.go\<close>, \<open>launcher/internal/cmdUtils/server.go\<close>).  What arrives on
  the sockets and what web requests answer are arguments.
\<close>

unbundle bit_operations_syntax

section \<open>Announcements\<close>

definition Name :: string where "Name = ''ageLANServer''"
definition AnnounceHeader :: string where "AnnounceHeader = Name"
definition AnnounceIdLength :: nat where "AnnounceIdLength = 16"
definition AnnounceVersionLatest :: int where "AnnounceVersionLatest = 2"

text \<open>The identifier of a server, its 16 bytes.\<close>

type_synonym uuid = string

definition uuid_Nil :: uuid where "uuid_Nil = replicate 16 (CHR 0x00)"

text \<open>The answer of a server to a packet; a longer packet is cut off at the length of the buffer.\<close>

definition announce_reply :: "uuid \<Rightarrow> string \<Rightarrow> string option" where
  "announce_reply ident packet =
     (if length packet < length AnnounceHeader \<or> take (length AnnounceHeader) packet \<noteq> AnnounceHeader then None
      else Some (AnnounceHeader @ ident))"

text \<open>The addresses known of each server.\<close>

type_synonym servers = "(uuid \<times> IP option list) list"

definition receive_announce :: "string \<times> IP \<Rightarrow> servers \<Rightarrow> servers" where
  "receive_announce p servers =
     (let packet = fst p; h = length AnnounceHeader
      in if length packet < h + AnnounceIdLength \<or> take h packet \<noteq> AnnounceHeader then servers
         else let ident = take AnnounceIdLength (drop h packet);
             known = (case map_of servers ident of None \<Rightarrow> [] | Some as \<Rightarrow> as)
           in AList.update ident (List.insert (NetIPToNetIPAddr (snd p)) known) servers)"

text \<open>The mask of an IPv4 address has four bytes.\<close>

definition calculateBroadcastIPv4 :: "IP \<Rightarrow> IP \<Rightarrow> IP" where
  "calculateBroadcastIPv4 ip msk = map2 (\<lambda>b m. b OR NOT m) ip msk"

text \<open>From which address to which addresses and ports the query is sent; the sets of groups and ports are lists.\<close>

definition targets_of :: "IP option list \<Rightarrow> nat list \<Rightarrow> Interface \<Rightarrow> IPNet \<Rightarrow> (IP \<times> nat) list" where
  "targets_of groups ports nic n =
     (if if_Broadcast nic then map (\<lambda>p. (calculateBroadcastIPv4 (the (To4 (in_IP n))) (in_Mask n), p)) ports else [])
     @ (if groups \<noteq> [] \<and> if_Multicast nic then concat (map (\<lambda>g. map (\<lambda>p. (case g of None \<Rightarrow> [] | Some ip \<Rightarrow> ip, p)) ports) groups) else [])"

definition sourceToTargetUDPAddrs :: "Interface list option \<Rightarrow> IP option list \<Rightarrow> nat list \<Rightarrow> (IP \<times> (IP \<times> nat) list) list" where
  "sourceToTargetUDPAddrs interfaces groups ports = (case RunningNetworkInterfaces interfaces of
      None \<Rightarrow> []
    | Some is \<Rightarrow> concat (map (\<lambda>(nic, ns). map (\<lambda>n. (in_IP n, targets_of groups ports nic n)) ns) is))"

text \<open>\<open>listens\<close>: a socket can be opened at an address.  \<open>received\<close>: what arrives on the sockets, in this order, and from where.\<close>

definition QueryServers ::
  "Interface list option \<Rightarrow> (IP \<Rightarrow> bool) \<Rightarrow> (string \<times> IP) list \<Rightarrow> IP option list \<Rightarrow> nat list \<Rightarrow> servers \<Rightarrow> servers" where
  "QueryServers interfaces listens received groups ports servers =
     (if concat (map snd (filter (\<lambda>(source, _). listens source) (sourceToTargetUDPAddrs interfaces groups ports))) = [] then servers
      else fold receive_announce received servers)"

section \<open>Who are you\<close>

record TestReply =
  tr_Status :: int
  tr_Version :: string
  tr_Id :: string
  tr_Body :: "(string \<times> string) option"

text \<open>The answer of the server; \<open>uuid_String\<close> is the text of its identifier.\<close>

definition Test :: "(uuid \<Rightarrow> string) \<Rightarrow> uuid \<Rightarrow> string \<Rightarrow> string \<Rightarrow> TestReply" where
  "Test uuid_String ident title version =
     \<lparr>tr_Status = 200, tr_Version = itoa AnnounceVersionLatest, tr_Id = uuid_String ident, tr_Body = Some (title, version)\<rparr>"

text \<open>
  What the requests to an address answer, under the name of a server, trusting any certificate or those of a pool (\<open>None\<close>: the
  system's): the duration of each of the three \<open>HEAD\<close> requests in nanoseconds, and the reply to \<open>GET\<close>.  \<open>he_ParseUUID\<close> reads an
  identifier.
\<close>

record HttpEnv =
  he_latency :: "IP \<Rightarrow> string \<Rightarrow> nat \<Rightarrow> int option"
  he_test :: "IP \<Rightarrow> string \<Rightarrow> bool \<Rightarrow> string list option \<Rightarrow> TestReply option"
  he_ParseUUID :: "string \<Rightarrow> uuid option"

definition LatencyMeasurementCount :: nat where "LatencyMeasurementCount = 3"

fun sum_latencies :: "int option list \<Rightarrow> int option" where
  "sum_latencies [] = Some 0"
| "sum_latencies (None # _) = None"
| "sum_latencies (Some d # ds) = map_option (\<lambda>s. d + s) (sum_latencies ds)"

text \<open>The data is only used by the callers where the first result is true.\<close>

definition LanServerIP ::
  "HttpEnv \<Rightarrow> uuid \<Rightarrow> string \<Rightarrow> IP \<Rightarrow> string \<Rightarrow> bool \<Rightarrow> string list option \<Rightarrow> bool
    \<Rightarrow> bool \<times> uuid \<times> int \<times> (string \<times> string) option" where
  "LanServerIP e ident gameTitle ip serverName insecure pool ignoreLatency =
     (case (if ignoreLatency then Some 0
            else map_option (\<lambda>s. s div int LatencyMeasurementCount)
              (sum_latencies (map (he_latency e ip serverName) [0..<LatencyMeasurementCount]))) of
        None \<Rightarrow> (False, uuid_Nil, 0, None)
      | Some latency \<Rightarrow>
          (case he_test e ip serverName insecure pool of
             None \<Rightarrow> (False, uuid_Nil, latency, None)
           | Some r \<Rightarrow>
               if tr_Status r \<noteq> 200 \<or> tr_Version r = [] \<or> tr_Id r = [] \<or> fst (Atoi (tr_Version r)) > AnnounceVersionLatest
               then (False, uuid_Nil, latency, None)
               else (case he_ParseUUID e (tr_Id r) of
                   None \<Rightarrow> (False, uuid_Nil, latency, None)
                 | Some serverId \<Rightarrow>
                     if ident \<noteq> uuid_Nil \<and> ident \<noteq> serverId then (False, uuid_Nil, latency, None)
                     else (case tr_Body r of
                         None \<Rightarrow> (False, serverId, latency, None)
                       | Some d \<Rightarrow> if fst d \<noteq> gameTitle then (False, serverId, latency, None) else (True, serverId, latency, Some d)))))"

definition LanServerHost ::
  "HttpEnv \<Rightarrow> DnsEnv \<Rightarrow> uuid \<Rightarrow> string \<Rightarrow> string \<Rightarrow> bool \<Rightarrow> string list option \<Rightarrow> DnsCache \<Rightarrow> bool outcome \<times> DnsCache" where
  "LanServerHost e dns ident gameTitle host insecure pool c =
     (case HostOrIpToIps dns host c of
        (Panic, c1) \<Rightarrow> (Panic, c1)
      | (Ret ips, c1) \<Rightarrow>
          (Ret (ips \<noteq> [] \<and> list_all (\<lambda>s. fst (LanServerIP e ident gameTitle (case ParseIP s of None \<Rightarrow> [] | Some ip \<Rightarrow> ip) host insecure pool True)) ips), c1))"

section \<open>Measuring and selecting\<close>

record MeasuredIpAddress =
  ma_Ip :: IP
  ma_Latency :: int

text \<open>
  The identifier is the one the last request returned.  Subtracting two latencies does not overflow, so the comparison of the code
  is that of the numbers, and its sort is stable.
\<close>

fun filter_ips ::
  "HttpEnv \<Rightarrow> uuid \<Rightarrow> string \<Rightarrow> string \<Rightarrow> IP option list \<Rightarrow> uuid \<times> MeasuredIpAddress list \<times> (string \<times> string) option
    \<Rightarrow> (uuid \<times> MeasuredIpAddress list \<times> (string \<times> string) option) outcome" where
  "filter_ips e ident serverName gameTitle [] acc = Ret acc"
| "filter_ips e ident serverName gameTitle (a # as) (actualId, measured, data) =
     (case NetIPAddrToNetIP a of
        Panic \<Rightarrow> Panic
      | Ret ip \<Rightarrow>
          (case LanServerIP e ident gameTitle ip serverName True None False of
             (ok, actualId1, latency, tmpData) \<Rightarrow>
               filter_ips e ident serverName gameTitle as (actualId1,
                 if ok then measured @ [\<lparr>ma_Ip = ip, ma_Latency = latency\<rparr>] else measured,
                 if ok \<and> data = None then tmpData else data)))"

definition FilterServerIPs ::
  "HttpEnv \<Rightarrow> uuid \<Rightarrow> string \<Rightarrow> string \<Rightarrow> IP option list \<Rightarrow> (uuid \<times> MeasuredIpAddress list \<times> (string \<times> string) option) outcome" where
  "FilterServerIPs e ident serverName gameTitle addrs =
     map_outcome (\<lambda>(actualId, measured, data). (actualId, sort_key ma_Latency measured, data))
       (filter_ips e ident serverName gameTitle addrs (uuid_Nil, [], None))"

record processedServer = MeasuredIpAddress +
  ps_id :: uuid
  ps_description :: string

text \<open>The names of the other addresses that the best one has not.\<close>

fun alternative_hosts :: "DnsEnv \<Rightarrow> string list \<Rightarrow> MeasuredIpAddress list \<Rightarrow> string list \<Rightarrow> DnsCache \<Rightarrow> string list outcome \<times> DnsCache" where
  "alternative_hosts dns best [] acc c = (Ret acc, c)"
| "alternative_hosts dns best (m # ms) acc c =
     (case IpToHosts dns (IP_String (ma_Ip m)) c of
        (None, c1) \<Rightarrow> (Panic, c1)
      | (Some hosts, c1) \<Rightarrow> alternative_hosts dns best ms (remdups (acc @ filter (\<lambda>h. h \<notin> set best) hosts)) c1)"

definition comma_join :: "string list \<Rightarrow> string" where
  "comma_join xs = concat (case xs of [] \<Rightarrow> [] | y # ys \<Rightarrow> y # map (\<lambda>z. '', '' @ z) ys)"

definition server_description :: "MeasuredIpAddress \<Rightarrow> string list \<Rightarrow> string list \<Rightarrow> string list \<Rightarrow> string \<Rightarrow> string" where
  "server_description best alternativeIps bestHosts alternativeHosts version =
     comma_join (IP_String (ma_Ip best) # sort alternativeIps)
     @ (if bestHosts = [] \<and> alternativeHosts = [] then [] else '' ('' @ comma_join (sort bestHosts @ sort alternativeHosts) @ '')'')
     @ '' - '' @ itoa (ma_Latency best div 1000000) @ '' ms'' @ '' ('' @ version @ '')''"

definition process_server ::
  "HttpEnv \<Rightarrow> DnsEnv \<Rightarrow> string \<Rightarrow> uuid \<times> IP option list \<Rightarrow> DnsCache \<Rightarrow> processedServer option outcome \<times> DnsCache" where
  "process_server e dns gameTitle s c =
     (case FilterServerIPs e (fst s) [] gameTitle (snd s) of
        Ret (_, best # rest, Some d) \<Rightarrow>
          (case IpToHosts dns (IP_String (ma_Ip best)) c of
             (None, c1) \<Rightarrow> (Panic, c1)
           | (Some bestHosts, c1) \<Rightarrow>
               (case alternative_hosts dns bestHosts rest [] c1 of
                  (Panic, c2) \<Rightarrow> (Panic, c2)
                | (Ret alternativeHosts, c2) \<Rightarrow>
                    (Ret (Some \<lparr>ma_Ip = ma_Ip best, ma_Latency = ma_Latency best, ps_id = fst s,
                       ps_description = server_description best (map (\<lambda>m. IP_String (ma_Ip m)) rest) bestHosts alternativeHosts (snd d)\<rparr>), c2)))
      | Ret (_, [], Some d) \<Rightarrow> (Panic, c)
      | Ret (_, _, None) \<Rightarrow> (Ret None, c)
      | Panic \<Rightarrow> (Panic, c))"

fun process_servers ::
  "HttpEnv \<Rightarrow> DnsEnv \<Rightarrow> string \<Rightarrow> servers \<Rightarrow> processedServer list \<Rightarrow> DnsCache \<Rightarrow> processedServer list outcome \<times> DnsCache" where
  "process_servers e dns gameTitle [] acc c = (Ret acc, c)"
| "process_servers e dns gameTitle (s # ss) acc c =
     (case process_server e dns gameTitle s c of
        (Panic, c1) \<Rightarrow> (Panic, c1)
      | (Ret p, c1) \<Rightarrow> process_servers e dns gameTitle ss (acc @ (case p of None \<Rightarrow> [] | Some p \<Rightarrow> [p])) c1)"

definition processedServers ::
  "HttpEnv \<Rightarrow> DnsEnv \<Rightarrow> string \<Rightarrow> servers \<Rightarrow> DnsCache \<Rightarrow> processedServer list outcome \<times> DnsCache" where
  "processedServers e dns gameTitle servers c =
     (case process_servers e dns gameTitle servers [] c of (r, c1) \<Rightarrow> (map_outcome (sort_key ma_Latency) r, c1))"

text \<open>The numbers the user enters, \<open>None\<close> for what is no number; with no valid one the program waits for ever.\<close>

fun choose_server :: "'a list \<Rightarrow> int option list \<Rightarrow> 'a option" where
  "choose_server procs [] = None"
| "choose_server procs (i # is) = (case i of
      Some n \<Rightarrow> if 1 \<le> n \<and> n \<le> int (length procs) then Some (procs ! nat (n - 1)) else choose_server procs is
    | None \<Rightarrow> choose_server procs is)"

text \<open>The result is \<open>None\<close> while the user has not chosen.\<close>

definition DiscoverServersAndSelectBestIpAddr ::
  "HttpEnv \<Rightarrow> DnsEnv \<Rightarrow> (IP \<Rightarrow> bool) \<Rightarrow> (string \<times> IP) list \<Rightarrow> int option list \<Rightarrow> string \<Rightarrow> bool \<Rightarrow> IP option list \<Rightarrow> nat list \<Rightarrow> DnsCache
    \<Rightarrow> (uuid \<times> IP) option outcome \<times> DnsCache" where
  "DiscoverServersAndSelectBestIpAddr e dns listens received inputs gameTitle singleAutoSelect groups ports c =
     (case processedServers e dns gameTitle (QueryServers (dn_interfaces dns) listens received groups ports []) c of
        (Panic, c1) \<Rightarrow> (Panic, c1)
      | (Ret procs, c1) \<Rightarrow>
          (Ret (if procs = [] then Some (uuid_Nil, [])
             else map_option (\<lambda>s. (ps_id s, ma_Ip s))
               (if singleAutoSelect \<and> length procs = 1 then Some (hd procs) else choose_server procs inputs)), c1))"

end
