(* ===== verification/DiscoveryProps.thy ===== *)
theory DiscoveryProps
  imports Discovery
begin

text \<open>
  The servers a launcher lists are exactly those of its game that answered, each with its fastest address.
\<close>

section \<open>Announcements\<close>

text \<open>A packet from an address announces a server.\<close>

definition heard :: "(string \<times> IP) list \<Rightarrow> uuid \<Rightarrow> IP option \<Rightarrow> bool" where
  "heard received ident a \<longleftrightarrow> (\<exists>(packet, ad)\<in>set received. length AnnounceHeader + AnnounceIdLength \<le> length packet
     \<and> take (length AnnounceHeader) packet = AnnounceHeader
     \<and> take AnnounceIdLength (drop (length AnnounceHeader) packet) = ident \<and> NetIPToNetIPAddr ad = a)"

lemma heard_snoc: "heard (ps @ [p]) ident a \<longleftrightarrow> heard ps ident a \<or> heard [p] ident a"
  by (auto simp: heard_def)

definition known :: "servers \<Rightarrow> uuid \<Rightarrow> IP option list" where
  "known servers ident = (case map_of servers ident of None \<Rightarrow> [] | Some as \<Rightarrow> as)"

lemma receive_known: "set (known (receive_announce p servers) ident) = set (known servers ident) \<union> {a. heard [p] ident a}"
proof (cases p)
  case (Pair packet ad)
  let ?h = "length AnnounceHeader"
  show ?thesis
  proof (cases "length packet < ?h + AnnounceIdLength \<or> take ?h packet \<noteq> AnnounceHeader")
    case True
    then have "\<not> heard [p] ident a" for a by (auto simp: heard_def Pair)
    with True show ?thesis by (simp add: receive_announce_def Pair Let_def)
  next
    case False
    then have "heard [p] ident a \<longleftrightarrow> ident = take AnnounceIdLength (drop ?h packet) \<and> a = NetIPToNetIPAddr ad" for a
      by (auto simp: heard_def Pair)
    with False show ?thesis by (auto simp: receive_announce_def Pair Let_def known_def update_conv' split: option.splits)
  qed
qed

lemma servers_heard: "set (known (fold receive_announce received []) ident) = {a. heard received ident a}"
proof (induction received rule: rev_induct)
  case (snoc p ps)
  then show ?case by (auto simp: receive_known heard_snoc)
qed (simp add: known_def heard_def)

lemma receive_distinct: "distinct (map fst servers) \<Longrightarrow> distinct (map fst (receive_announce p servers))"
  by (auto simp: receive_announce_def Let_def distinct_update)

lemma servers_distinct: "distinct (map fst (fold receive_announce received []))"
  by (induction received rule: rev_induct) (simp_all add: receive_distinct)

lemma server_addresses:
  assumes "(ident, as) \<in> set (fold receive_announce received [])"
  shows "set as = {a. heard received ident a}"
  using servers_heard [of received ident] map_of_is_SomeI [OF servers_distinct assms] by (simp add: known_def)

text \<open>The reply of a server announces it, whatever follows the header in the query.\<close>

lemma reply_heard:
  assumes "length ident = AnnounceIdLength" and "announce_reply ident packet = Some reply" and "(reply, ad) \<in> set received"
  shows "heard received ident (To4 ad)"
proof -
  have "reply = AnnounceHeader @ ident" using assms(2) by (auto simp: announce_reply_def split: if_splits)
  with assms(1,3) show ?thesis
    unfolding heard_def by (intro bexI [of _ "(reply, ad)"]) (auto simp: NetIPToNetIPAddr_def)
qed

section \<open>Asking a server\<close>

lemma LanServerIP_ok:
  assumes "LanServerIP e ident gameTitle ip n insecure pool ignore = (True, i, lat, d)"
  shows "(\<exists>v. d = Some (gameTitle, v)) \<and> (ident = uuid_Nil \<or> i = ident)"
  using assms by (auto simp: LanServerIP_def split: option.splits if_splits) metis+

text \<open>A server is recognised exactly by the title of its game and its identifier.\<close>

lemma server_recognised:
  assumes "he_test e ip n insecure pool = Some (Test str ident' title' v)" and "he_ParseUUID e (str ident') = Some ident'"
    and "str ident' \<noteq> []"
  shows "fst (LanServerIP e ident title ip n insecure pool True) \<longleftrightarrow> title = title' \<and> (ident = uuid_Nil \<or> ident = ident')"
proof -
  have "fst (Atoi (itoa AnnounceVersionLatest)) = AnnounceVersionLatest" "itoa AnnounceVersionLatest \<noteq> []" by code_simp+
  with assms show ?thesis by (auto simp: LanServerIP_def Test_def)
qed

text \<open>An address is that of a server of the game, with this latency.\<close>

definition answers :: "HttpEnv \<Rightarrow> string \<Rightarrow> uuid \<Rightarrow> string \<Rightarrow> IP \<Rightarrow> int \<Rightarrow> bool" where
  "answers e n ident gameTitle ip lat \<longleftrightarrow> (\<exists>i d. LanServerIP e ident gameTitle ip n True None False = (True, i, lat, d))"

lemma filter_ips_result:
  assumes "filter_ips e ident n title as (i, ms, d) = Ret (i', ms', d')"
  shows "set ms' = set ms \<union> {\<lparr>ma_Ip = ip, ma_Latency = lat\<rparr> |ip lat. Some ip \<in> set as \<and> answers e n ident title ip lat}
    \<and> (d' = None \<longleftrightarrow> d = None \<and> length ms' = length ms)  \<and> length ms \<le> length ms'"
  using assms
proof (induction as arbitrary: i ms d)
  case (Cons a as)
  obtain ip where a: "a = Some ip" using Cons.prems by (cases a) (auto simp: NetIPAddrToNetIP_def)
  obtain ok j lat t where l: "LanServerIP e ident title ip n True None False = (ok, j, lat, t)" by (metis prod_cases4)
  show ?case
  proof (cases ok)
    case True
    have ans: "answers e n ident title ip lat' \<longleftrightarrow> lat' = lat" for lat' using l True by (auto simp: answers_def)
    obtain v where "t = Some (title, v)" using LanServerIP_ok [of e ident title ip n True None False j lat t] l True by auto
    then have "filter_ips e ident n title as (j, ms @ [\<lparr>ma_Ip = ip, ma_Latency = lat\<rparr>], if d = None then t else d) = Ret (i', ms', d')"
      "(if d = None then t else d) \<noteq> None"
      using Cons.prems l True by (auto simp: a NetIPAddrToNetIP_def)
    with Cons.IH show ?thesis by (fastforce simp: a ans)
  next
    case False
    have ans: "\<not> answers e n ident title ip lat'" for lat' using l False by (simp add: answers_def)
    from Cons.prems l False Cons.IH [of j ms d] show ?thesis by (auto simp: a NetIPAddrToNetIP_def ans)
  qed
qed simp

lemma filter_ips_returns: "None \<notin> set as \<Longrightarrow> filter_ips e ident n title as acc \<noteq> Panic"
proof (induction as arbitrary: acc)
  case (Cons a as)
  then obtain ip where a: "a = Some ip" by (cases a) auto
  obtain i ms d where acc: "acc = (i, ms, d)" by (rule prod_cases3)
  from Cons.IH Cons.prems show ?case by (auto simp: a acc NetIPAddrToNetIP_def split: prod.splits)
qed simp

lemma FilterServerIPs_result:
  assumes "FilterServerIPs e ident n title as = Ret (i, ms, d)"
  shows "set ms = {\<lparr>ma_Ip = ip, ma_Latency = lat\<rparr> |ip lat. Some ip \<in> set as \<and> answers e n ident title ip lat}"
    and "sorted (map ma_Latency ms)" and "d = None \<longleftrightarrow> ms = []"
proof -
  obtain ms0 where m: "filter_ips e ident n title as (uuid_Nil, [], None) = Ret (i, ms0, d)" "ms = sort_key ma_Latency ms0"
    using assms by (cases "filter_ips e ident n title as (uuid_Nil, [], None)") (auto simp: FilterServerIPs_def)
  from filter_ips_result [OF m(1)] show "set ms = {\<lparr>ma_Ip = ip, ma_Latency = lat\<rparr> |ip lat. Some ip \<in> set as \<and> answers e n ident title ip lat}"
    by (auto simp: m(2))
  have "ms = [] \<longleftrightarrow> ms0 = []" unfolding m(2) by (metis length_0_conv length_sort)
  with filter_ips_result [OF m(1)] show "d = None \<longleftrightarrow> ms = []" by auto
  show "sorted (map ma_Latency ms)" by (simp add: m(2))
qed

lemma FilterServerIPs_returns: "None \<notin> set as \<Longrightarrow> FilterServerIPs e ident n title as \<noteq> Panic"
  using filter_ips_returns [of as e ident n title "(uuid_Nil, [], None)"]
  by (cases "filter_ips e ident n title as (uuid_Nil, [], None)") (simp_all add: FilterServerIPs_def)

section \<open>The list of servers\<close>

lemma alternative_hosts_returns:
  "cache_wf (dn_lower dns) c \<Longrightarrow> \<exists>hs c1. alternative_hosts dns best ms acc c = (Ret hs, c1) \<and> cache_wf (dn_lower dns) c1"
proof (induction ms arbitrary: acc c)
  case (Cons m ms)
  obtain r c1 where r: "IpToHosts dns (IP_String (ma_Ip m)) c = (r, c1)" by force
  with IpToHosts_wf [OF Cons.prems r] Cons.IH show ?case by auto
qed simp

text \<open>What is listed of one server: nothing if no address answers, and otherwise its fastest address.\<close>

definition best_of :: "HttpEnv \<Rightarrow> string \<Rightarrow> uuid \<times> IP option list \<Rightarrow> processedServer option \<Rightarrow> bool" where
  "best_of e title s p \<longleftrightarrow> (case p of
      None \<Rightarrow> \<nexists>ip lat. Some ip \<in> set (snd s) \<and> answers e [] (fst s) title ip lat
    | Some p \<Rightarrow> ps_id p = fst s \<and> Some (ma_Ip p) \<in> set (snd s) \<and> answers e [] (fst s) title (ma_Ip p) (ma_Latency p)
        \<and> (\<forall>ip lat. Some ip \<in> set (snd s) \<and> answers e [] (fst s) title ip lat \<longrightarrow> ma_Latency p \<le> lat))"

lemma process_server_best:
  assumes "cache_wf (dn_lower dns) c" and "None \<notin> set (snd s)"
  shows "\<exists>p c1. process_server e dns title s c = (Ret p, c1) \<and> cache_wf (dn_lower dns) c1 \<and> best_of e title s p"
proof -
  obtain i ms d where f: "FilterServerIPs e (fst s) [] title (snd s) = Ret (i, ms, d)"
    using FilterServerIPs_returns [OF assms(2)] by (metis outcome.exhaust prod_cases3)
  note res = FilterServerIPs_result [OF f]
  show ?thesis
  proof (cases ms)
    case Nil
    with res f assms(1) show ?thesis by (auto simp: process_server_def best_of_def)
  next
    case (Cons best rest)
    then obtain d' where d: "d = Some d'" using res(3) by auto
    obtain r c1 where r: "IpToHosts dns (IP_String (ma_Ip best)) c = (r, c1)" by force
    with IpToHosts_wf [OF assms(1) r] obtain hs where hs: "r = Some hs" "cache_wf (dn_lower dns) c1" by auto
    from alternative_hosts_returns [OF hs(2)] obtain alts c2
      where alts: "alternative_hosts dns hs rest [] c1 = (Ret alts, c2)" "cache_wf (dn_lower dns) c2" by blast
    have "best \<in> {\<lparr>ma_Ip = ip, ma_Latency = lat\<rparr> |ip lat. Some ip \<in> set (snd s) \<and> answers e [] (fst s) title ip lat}"
      using res(1) Cons by (metis list.set_intros(1))
    then have best: "Some (ma_Ip best) \<in> set (snd s)" "answers e [] (fst s) title (ma_Ip best) (ma_Latency best)"
      by auto
    have least: "ma_Latency best \<le> lat" if "Some ip \<in> set (snd s)" "answers e [] (fst s) title ip lat" for ip lat
    proof -
      have "\<lparr>ma_Ip = ip, ma_Latency = lat\<rparr> \<in> set ms" using res(1) that by blast
      then show ?thesis using res(2) by (auto simp: Cons)
    qed
    show ?thesis
      by (simp add: process_server_def f Cons d r hs(1) alts best_of_def best) (use least in blast)
  qed
qed

lemma process_servers_best:
  assumes "cache_wf (dn_lower dns) c" and "\<forall>s\<in>set ss. None \<notin> set (snd s)"
  shows "\<exists>ps c1. process_servers e dns title ss acc c = (Ret (acc @ List.map_filter (\<lambda>p. p) ps), c1)
    \<and> list_all2 (best_of e title) ss ps"
  using assms
proof (induction ss arbitrary: acc c)
  case (Cons s ss)
  have "None \<notin> set (snd s)" using Cons.prems(2) by simp
  from process_server_best [OF Cons.prems(1) this] obtain p c1
    where p: "process_server e dns title s c = (Ret p, c1)" "cache_wf (dn_lower dns) c1" "best_of e title s p" by blast
  have "\<forall>s\<in>set ss. None \<notin> set (snd s)" using Cons.prems(2) by simp
  from Cons.IH [OF p(2) this] obtain ps c2 where ps:
    "process_servers e dns title ss (acc @ (case p of None \<Rightarrow> [] | Some p \<Rightarrow> [p])) c1
      = (Ret ((acc @ (case p of None \<Rightarrow> [] | Some p \<Rightarrow> [p])) @ List.map_filter (\<lambda>p. p) ps), c2)" "list_all2 (best_of e title) ss ps"
    by blast
  have "process_servers e dns title (s # ss) acc c = (Ret (acc @ List.map_filter (\<lambda>p. p) (p # ps)), c2)"
    using p(1) ps(1) by (cases p) (simp_all add: List.map_filter_simps)
  with p(3) ps(2) show ?case by (intro exI conjI) (assumption, simp)
qed (auto simp: List.map_filter_simps)

lemma map_filter_some_set: "set (List.map_filter (\<lambda>p. p) ps) = {p. Some p \<in> set ps}"
  by (induction ps) (auto simp: List.map_filter_simps split: option.splits)

lemma best_of_ids:
  "list_all2 (best_of e title) ss ps \<Longrightarrow> distinct (map fst ss) \<Longrightarrow>
    distinct (map ps_id (List.map_filter (\<lambda>p. p) ps)) \<and> ps_id ` set (List.map_filter (\<lambda>p. p) ps) \<subseteq> fst ` set ss"
proof (induction rule: list_all2_induct)
  case (Cons s ss p ps)
  then show ?case by (auto simp: List.map_filter_simps best_of_def image_subset_iff split: option.splits)
qed (simp add: List.map_filter_simps)

text \<open>
  C30: a launcher lists exactly the servers of its game that answered.  Each is listed once, under an address it was heard from
  and that answers as this server for this game, with the smallest latency of all its addresses; every server with such an
  address is listed; and the list is in the order of the latencies.  Nothing panics, whatever the names of the addresses are.
\<close>

theorem servers_listed:
  assumes "cache_wf (dn_lower dns) c" and "\<forall>(packet, ad)\<in>set received. To4 ad \<noteq> None"
  shows "\<exists>procs c1. processedServers e dns title (fold receive_announce received []) c = (Ret procs, c1)
    \<and> distinct (map ps_id procs) \<and> sorted (map ma_Latency procs)
    \<and> (\<forall>p\<in>set procs. heard received (ps_id p) (Some (ma_Ip p)) \<and> answers e [] (ps_id p) title (ma_Ip p) (ma_Latency p))
    \<and> (\<forall>ident ip lat. heard received ident (Some ip) \<and> answers e [] ident title ip lat
         \<longrightarrow> (\<exists>p\<in>set procs. ps_id p = ident \<and> ma_Latency p \<le> lat))"
proof -
  let ?servers = "fold receive_announce received []"
  have addrs: "set (snd s) = {a. heard received (fst s) a}" if "s \<in> set ?servers" for s
    using server_addresses [of "fst s" "snd s" received] that by simp
  have "None \<notin> {a. heard received ident a}" for ident
    using assms(2) by (auto simp: heard_def NetIPToNetIPAddr_def)
  with addrs have "\<forall>s\<in>set ?servers. None \<notin> set (snd s)" by blast
  from process_servers_best [OF assms(1) this, of e title "[]"] obtain ps c1 where
    ps: "process_servers e dns title ?servers [] c = (Ret (List.map_filter (\<lambda>p. p) ps), c1)" "list_all2 (best_of e title) ?servers ps"
    by auto
  let ?procs = "sort_key ma_Latency (List.map_filter (\<lambda>p. p) ps)"
  have procs: "processedServers e dns title ?servers c = (Ret ?procs, c1)" by (simp add: processedServers_def ps(1))
  have from_server: "\<exists>s\<in>set ?servers. best_of e title s p" if "p \<in> set ps" for p
    using ps(2) that by (metis in_set_conv_nth list_all2_conv_all_nth)
  have listed: "heard received (ps_id p) (Some (ma_Ip p)) \<and> answers e [] (ps_id p) title (ma_Ip p) (ma_Latency p)" if "p \<in> set ?procs" for p
  proof -
    have "Some p \<in> set ps" using that by (simp add: map_filter_some_set)
    from from_server [OF this] addrs show ?thesis by (auto simp: best_of_def)
  qed
  have complete: "\<exists>p\<in>set ?procs. ps_id p = ident \<and> ma_Latency p \<le> lat"
    if "heard received ident (Some ip)" "answers e [] ident title ip lat" for ident ip lat
  proof -
    have "Some ip \<in> set (known ?servers ident)" using that(1) by (simp add: servers_heard)
    then obtain as where "(ident, as) \<in> set ?servers" by (cases "map_of ?servers ident") (auto simp: known_def dest: map_of_SomeD)
    then obtain i where i: "i < length ?servers" "?servers ! i = (ident, as)" by (metis in_set_conv_nth)
    with ps(2) have b: "best_of e title (ident, as) (ps ! i)" "i < length ps" by (auto simp: list_all2_conv_all_nth)
    have "set as = {a. heard received ident a}" using addrs [of "(ident, as)"] i by (metis fst_conv nth_mem snd_conv)
    with b(1) that obtain p where p: "ps ! i = Some p" "ps_id p = ident" "ma_Latency p \<le> lat"
      by (cases "ps ! i") (auto simp: best_of_def)
    then have "p \<in> set ?procs" using b(2) by (simp add: map_filter_some_set) (metis nth_mem)
    with p show ?thesis by blast
  qed
  have "distinct (map ps_id (List.map_filter (\<lambda>p. p) ps))" using best_of_ids [OF ps(2) servers_distinct] by blast
  then have "distinct (map ps_id ?procs)" by (simp add: distinct_map inj_on_def)
  with procs listed complete show ?thesis by (intro exI conjI ballI allI impI) (assumption | simp | blast)+
qed

text \<open>A server heard from two addresses, of which the second is faster.\<close>

definition found_id :: uuid where "found_id = replicate 16 (CHR ''s'')"

definition http_example :: HttpEnv where
  "http_example = \<lparr>he_latency = (\<lambda>ip _ _. Some (if ip = [10, 0, 0, 1] then 9000000 else 3000000)),
     he_test = (\<lambda>_ _ _ _. Some (Test (\<lambda>i. i) found_id AoE2 ''1.2'')), he_ParseUUID = Some\<rparr>"

definition received_example :: "(string \<times> IP) list" where
  "received_example = [(AnnounceHeader @ found_id, [10, 0, 0, 1]), (''noise'', [10, 0, 0, 3]), (AnnounceHeader @ found_id, [10, 0, 0, 2])]"

lemma found_example:
  "fst (processedServers http_example dns_example AoE2 (fold receive_announce received_example []) ClearDNSCache)
    = Ret [\<lparr>ma_Ip = [10, 0, 0, 2], ma_Latency = 3000000, ps_id = found_id, ps_description = ''10.0.0.2, 10.0.0.1 (lan-host) - 3 ms (1.2)''\<rparr>]"
  by code_simp

theorem servers_listed_witness:
  "\<exists>p c1. processedServers http_example dns_example AoE2 (fold receive_announce received_example []) ClearDNSCache = (Ret [p], c1)
     \<and> ma_Ip p = [10, 0, 0, 2] \<and> answers http_example [] (ps_id p) AoE2 (ma_Ip p) (ma_Latency p)"
proof -
  have "\<forall>(packet, ad)\<in>set received_example. To4 ad \<noteq> None" by (simp add: received_example_def To4_def)
  from servers_listed [OF cache_wf_start this, where dns = dns_example and e = http_example and title = AoE2] obtain procs c1 where
    r: "processedServers http_example dns_example AoE2 (fold receive_announce received_example []) ClearDNSCache = (Ret procs, c1)"
    "\<forall>p\<in>set procs. answers http_example [] (ps_id p) AoE2 (ma_Ip p) (ma_Latency p)" by blast
  with found_example obtain p where "procs = [p]" "ma_Ip p = [10, 0, 0, 2]" by simp
  with r show ?thesis by auto
qed

section \<open>The identifier of a server found by name\<close>

text \<open>
  The identifier returned is that of the address asked last, also if it did not answer: with two addresses for a name, of which the
  second does not answer, the first is used, but without its identifier, so that it is not checked later on.
\<close>

lemma identifier_of_last_address:
  assumes "answers e n uuid_Nil title ip lat" and "\<not> (\<exists>l. answers e n uuid_Nil title ip' l)" and "he_test e ip' n True None = None"
  shows "\<exists>d. FilterServerIPs e uuid_Nil n title [Some ip, Some ip'] = Ret (uuid_Nil, [\<lparr>ma_Ip = ip, ma_Latency = lat\<rparr>], Some d)"
proof -
  obtain i d where l: "LanServerIP e uuid_Nil title ip n True None False = (True, i, lat, d)" using assms(1) by (auto simp: answers_def)
  obtain v where "d = Some (title, v)" using LanServerIP_ok [OF l] by auto
  moreover have "\<exists>lat. LanServerIP e uuid_Nil title ip' n True None False = (False, uuid_Nil, lat, None)"
    using assms(3) by (auto simp: LanServerIP_def split: option.splits)
  ultimately show ?thesis using l by (auto simp: FilterServerIPs_def NetIPAddrToNetIP_def)
qed

end
