(* ===== verification/LauncherTrust.thy ===== *)
theory LauncherTrust
  imports ArgsStore Discovery
begin

text \<open>
  How the launcher makes the game reach the server it has chosen: the names in the hosts file (\<open>cmdUtils/hosts.go\<close>), the certificate
  in the store of the system (\<open>cert.go\<close>) and of the game (\<open>caCert.go\<close>), and the user's data (\<open>isolateUserData.go\<close>), with the connections
  it checks (\<open>common/server/server.go\<close>, \<open>launcher/internal/server/ssl.go\<close>).  Every change is a run of \<open>setup\<close>.
\<close>

section \<open>Exit codes\<close>

definition ErrInvalidCanTrustCertificate :: int where "ErrInvalidCanTrustCertificate = 9"
definition ErrInvalidServerStart :: int where "ErrInvalidServerStart = 11"
definition ErrInvalidServerStop :: int where "ErrInvalidServerStop = 12"
definition ErrInvalidServerHost :: int where "ErrInvalidServerHost = 13"
definition ErrGameAlreadyRunning :: int where "ErrGameAlreadyRunning = 14"
definition ErrGameLauncherNotFound :: int where "ErrGameLauncherNotFound = 15"
definition ErrGameLauncherStart :: int where "ErrGameLauncherStart = 16"
definition ErrServerExecutable :: int where "ErrServerExecutable = 17"
definition ErrServerConnectSecure :: int where "ErrServerConnectSecure = 18"
definition ErrServerUnreachable :: int where "ErrServerUnreachable = 19"
definition ErrServerCertMissingExpired :: int where "ErrServerCertMissingExpired = 20"
definition ErrServerCertDirectory :: int where "ErrServerCertDirectory = 21"
definition ErrServerCertCreate :: int where "ErrServerCertCreate = 22"
definition ErrServerStart :: int where "ErrServerStart = 23"
definition ErrConfigIpMap :: int where "ErrConfigIpMap = 24"
definition ErrGameUnsupportedLauncherCombo :: int where "ErrGameUnsupportedLauncherCombo = 25"
definition ErrConfigIpMapAdd :: int where "ErrConfigIpMapAdd = 26"
definition ErrConfigCertAdd :: int where "ErrConfigCertAdd = 27"
definition ErrConfigCACertAdd :: int where "ErrConfigCACertAdd = 28"
definition ErrConfigCert :: int where "ErrConfigCert = 29"
definition ErrReadCert :: int where "ErrReadCert = 30"
definition ErrTrustCert :: int where "ErrTrustCert = 31"
definition ErrMetadataProfilesSetup :: int where "ErrMetadataProfilesSetup = 32"
definition ErrAgentStart :: int where "ErrAgentStart = 33"
definition ErrInvalidClientPath :: int where "ErrInvalidClientPath = 34"
definition ErrInvalidServerArgs :: int where "ErrInvalidServerArgs = 35"
definition ErrInvalidServerPath :: int where "ErrInvalidServerPath = 36"
definition ErrInvalidClientArgs :: int where "ErrInvalidClientArgs = 37"
definition ErrInvalidSetupCommand :: int where "ErrInvalidSetupCommand = 38"
definition ErrInvalidRevertCommand :: int where "ErrInvalidRevertCommand = 39"
definition ErrInvalidIsolationPath :: int where "ErrInvalidIsolationPath = 40"
definition ErrSetupCommand :: int where "ErrSetupCommand = 41"
definition ErrAnnouncementMulticastGroup :: int where "ErrAnnouncementMulticastGroup = 42"
definition ErrCertMismatch :: int where "ErrCertMismatch = 43"
definition ErrInvalidServerBattleServerManagerRun :: int where "ErrInvalidServerBattleServerManagerRun = 44"
definition ErrInvalidServerBattleServerManagerArgs :: int where "ErrInvalidServerBattleServerManagerArgs = 45"
definition ErrBattleServerManagerRun :: int where "ErrBattleServerManagerRun = 46"
definition ErrInvalidIsolateMetadata :: int where "ErrInvalidIsolateMetadata = 47"
definition ErrInvalidIsolateProfiles :: int where "ErrInvalidIsolateProfiles = 48"
definition ErrRequiredIsolation :: int where "ErrRequiredIsolation = 49"
definition ErrFlushCache :: int where "ErrFlushCache = 51"

section \<open>The launcher\<close>

text \<open>
  The fields of \<open>cmdUtils.Config\<close> and what the launcher changes around it: the machine and its records, the file of the revert
  command, the arguments of its agent while that runs, and whether a server and the game run; \<open>ss_battle\<close> are the regions of the
  battle servers that run.
\<close>

record AgentValues =
  av_GameId :: string
  av_LogRoot :: string
  av_ServerExecutable :: string
  av_ProcessNames :: "string list"
  av_BattleServerLANRebroadcast :: bool
  av_BattleServerManagerExecutable :: string
  av_BattleServerRegion :: string
  av_BaseDataPath :: string

record Session =
  ss_launcher :: Launcher
  ss_domains :: DomainsCache
  ss_gameId :: string
  ss_serverExe :: string
  ss_setupCommandRan :: bool
  ss_hostFilePath :: string
  ss_certFilePath :: string
  ss_battleServerRegion :: string
  ss_battleServerExe :: string
  ss_configAdminAgentStarted :: bool
  ss_command :: "string option"
  ss_agent :: "AgentValues option"
  ss_server :: bool
  ss_battle :: "string list"
  ss_game :: bool

text \<open>
  The network at some time: resolver, releases of the service, whether a connection with a name is accepted by an address (trusting
  anything, or a pool of certificates, by default those of the system), and what an address answers to the request for its
  certificate, status and PEM block; and the temporary files for names and certificate, \<open>None\<close> if they cannot be made.
\<close>

record NetEnv = HttpEnv +
  ne_dns :: DnsEnv
  ne_resolves :: "string \<Rightarrow> bool"
  ne_connects :: "string \<Rightarrow> string \<Rightarrow> bool \<Rightarrow> string list option \<Rightarrow> bool"
  ne_cacert :: "string \<Rightarrow> string \<Rightarrow> (int \<times> (string \<times> string) option) option"
  ne_hostsTemp :: "string option"
  ne_hostsUnlock :: bool
  ne_certTemp :: "string option"
  ne_certClose :: bool

definition with_dns :: "(DnsCache \<Rightarrow> 'a outcome \<times> DnsCache) \<Rightarrow> Session \<Rightarrow> 'a outcome \<times> Session" where
  "with_dns f s = (case f (la_dns (ss_launcher s)) of
      (r, c) \<Rightarrow> (r, s\<lparr>ss_launcher := (ss_launcher s)\<lparr>la_dns := c\<rparr>\<rparr>))"

definition bind_dns :: "'a outcome \<times> DnsCache \<Rightarrow> ('a \<Rightarrow> DnsCache \<Rightarrow> 'b outcome \<times> DnsCache) \<Rightarrow> 'b outcome \<times> DnsCache" where
  "bind_dns r f = (case r of (Panic, c) \<Rightarrow> (Panic, c) | (Ret x, c) \<Rightarrow> f x c)"

definition first_ip :: "string \<Rightarrow> string list \<Rightarrow> string" where
  "first_ip host ips = (case ips of [] \<Rightarrow> host | ip # _ \<Rightarrow> ip)"

text \<open>True if there was no error.\<close>

definition CheckConnectionFromServer :: "NetEnv \<Rightarrow> string \<Rightarrow> bool \<Rightarrow> string list option \<Rightarrow> DnsCache \<Rightarrow> bool outcome \<times> DnsCache" where
  "CheckConnectionFromServer n host insecure pool c =
     bind_dns (HostOrIpToIps (ne_dns n) host c) (\<lambda>ips c. (Ret (ne_connects n (first_ip host ips) host insecure pool), c))"

definition ReadCACertificateFromServer :: "NetEnv \<Rightarrow> CertEnv \<Rightarrow> string \<Rightarrow> DnsCache \<Rightarrow> string option outcome \<times> DnsCache" where
  "ReadCACertificateFromServer n cert host c =
     bind_dns (HostOrIpToIps (ne_dns n) host c) (\<lambda>ips c.
       (Ret (case ne_cacert n (first_ip host ips) host of
           None \<Rightarrow> None
         | Some (status, block) \<Rightarrow>
             if status \<noteq> 200 then None
             else (case block of None \<Rightarrow> None
               | Some (t, bytes) \<Rightarrow> if t \<noteq> ''CERTIFICATE'' then None else BytesToCertificate cert bytes)), c))"

text \<open>A run of \<open>setup\<close>.\<close>

definition session_SetUp :: "RunEnv \<Rightarrow> SetupValues \<Rightarrow> Session \<Rightarrow> (Result \<times> Session) option" where
  "session_SetUp e v s = map_option (\<lambda>(r, l). (r, s\<lparr>ss_launcher := l\<rparr>)) (executor_SetUp e v (ss_launcher s))"

definition no_setup :: "string \<Rightarrow> SetupValues" where "no_setup gameId = isolation_values gameId False False []"

definition setup_flow :: "int \<Rightarrow> (Result \<times> Session) option \<Rightarrow> Session \<Rightarrow> flow \<times> Session" where
  "setup_flow code r s = (case r of
      None \<Rightarrow> (Dies Endless, s)
    | Some (res, s1) \<Rightarrow> (if Result_Success res then GoOn else StopWith code, s1))"

section \<open>The hosts file\<close>

text \<open>Which names are mapped to the server already; the left result is the exit code of a failure.\<close>

fun hosts_to_map :: "NetEnv \<Rightarrow> string \<Rightarrow> bool \<Rightarrow> string list \<Rightarrow> bool \<Rightarrow> DnsCache \<Rightarrow> (int + bool) outcome \<times> DnsCache" where
  "hosts_to_map n ip canMap [] mapIP c = (Ret (Inr mapIP), c)"
| "hosts_to_map n ip canMap (d # ds) mapIP c =
     bind_dns (Matches (ne_dns n) ip d c) (\<lambda>matches c.
       if \<not> matches then (if \<not> canMap then (Ret (Inl ErrConfigIpMap), c) else hosts_to_map n ip canMap ds True c)
       else bind_dns (CheckConnectionFromServer n d True None c) (\<lambda>ok c.
         if \<not> ok then (Ret (Inl ErrServerUnreachable), c) else hosts_to_map n ip canMap ds mapIP c))"

definition cache_mappings :: "DnsEnv \<Rightarrow> (string \<times> IP) list \<Rightarrow> DnsCache \<Rightarrow> DnsCache" where
  "cache_mappings dns mappings c = fold (\<lambda>(host, ip). CacheMapping dns host (IP_String ip)) mappings c"

definition map_hosts :: "NetEnv \<Rightarrow> RunEnv \<Rightarrow> string \<Rightarrow> string \<Rightarrow> bool \<Rightarrow> bool \<Rightarrow> Session \<Rightarrow> flow \<times> Session" where
  "map_hosts n e gameId ip macOsExclusiveMappings customHostFile s =
     (case setup_flow ErrConfigIpMapAdd
         (session_SetUp e ((no_setup gameId)\<lparr>sv_MapIp := (case ParseIP ip of None \<Rightarrow> [] | Some a \<Rightarrow> a),
            sv_MacOsExclusiveMappings := macOsExclusiveMappings, cv_HostFilePath := ss_hostFilePath s\<rparr>) s) s of
        (GoOn, s1) \<Rightarrow>
          if \<not> customHostFile then (GoOn, s1)
          else (case ParseIP ip of
              None \<Rightarrow> (StopWith ErrConfigIpMapAdd, s1)
            | Some a \<Rightarrow>
                (case Mappings (ne_resolves n) gameId (Some a) macOsExclusiveMappings (ss_domains s1) of
                   None \<Rightarrow> (Dies Endless, s1)
                 | Some (mappings, domains) \<Rightarrow>
                     (GoOn, snd (with_dns (\<lambda>c. (Ret (), cache_mappings (ne_dns n) mappings c)) (s1\<lparr>ss_domains := domains\<rparr>)))))
      | r \<Rightarrow> r)"

definition MapHosts :: "NetEnv \<Rightarrow> RunEnv \<Rightarrow> string \<Rightarrow> string \<Rightarrow> bool \<Rightarrow> bool \<Rightarrow> bool \<Rightarrow> Session \<Rightarrow> flow \<times> Session" where
  "MapHosts n e gameId ip macOsExclusiveMappings canMap customHostFile s =
     (if customHostFile then
        (case ne_hostsTemp n of
           None \<Rightarrow> (StopWith ErrConfigIpMapAdd, s)
         | Some tmp \<Rightarrow>
             (let s1 = s\<lparr>ss_hostFilePath := tmp\<rparr>
              in if ne_hostsUnlock n then (StopWith ErrConfigIpMapAdd, s1)
                 else map_hosts n e gameId ip macOsExclusiveMappings True s1))
      else case AllHosts (ne_resolves n) gameId macOsExclusiveMappings (ss_domains s) of
        None \<Rightarrow> (Dies Endless, s)
      | Some (domains, cache) \<Rightarrow>
          (case with_dns (hosts_to_map n ip canMap domains False) (s\<lparr>ss_domains := cache\<rparr>) of
             (Panic, s1) \<Rightarrow> (Dies Panicked, s1)
           | (Ret (Inl code), s1) \<Rightarrow> (StopWith code, s1)
           | (Ret (Inr mapIP), s1) \<Rightarrow> if mapIP then map_hosts n e gameId ip macOsExclusiveMappings False s1 else (GoOn, s1)))"

section \<open>Certificates\<close>

text \<open>Whether the certificate must be added for one of the hosts, and the exit code.\<close>

fun checkCertMatch ::
  "NetEnv \<Rightarrow> CertEnv \<Rightarrow> uuid \<Rightarrow> string \<Rightarrow> string \<Rightarrow> string list \<Rightarrow> string list option \<Rightarrow> bool \<Rightarrow> bool \<Rightarrow> DnsCache
    \<Rightarrow> (bool \<times> int) outcome \<times> DnsCache" where
  "checkCertMatch n cert serverId gameId serverCertificate [] rootCAs fixable requiresFixing c = (Ret (requiresFixing, ErrSuccess), c)"
| "checkCertMatch n cert serverId gameId serverCertificate (host # hosts) rootCAs fixable requiresFixing c =
     bind_dns (CheckConnectionFromServer n host False rootCAs c) (\<lambda>ok c.
       if \<not> ok then
         (if \<not> fixable then (Ret (requiresFixing, ErrConfigCert), c)
          else bind_dns (ReadCACertificateFromServer n cert host c) (\<lambda>crt c. case crt of
              None \<Rightarrow> (Ret (requiresFixing, ErrReadCert), c)
            | Some raw \<Rightarrow>
                if raw \<noteq> serverCertificate then (Ret (requiresFixing, ErrCertMismatch), c)
                else checkCertMatch n cert serverId gameId serverCertificate hosts rootCAs fixable True c))
       else bind_dns (ReadCACertificateFromServer n cert host c) (\<lambda>crt c.
         if crt \<noteq> Some serverCertificate then (Ret (requiresFixing, ErrCertMismatch), c)
         else bind_dns (LanServerHost (HttpEnv.truncate n) (ne_dns n) serverId gameId host False rootCAs c) (\<lambda>lan c.
           if \<not> lan then (Ret (requiresFixing, ErrServerConnectSecure), c)
           else checkCertMatch n cert serverId gameId serverCertificate hosts rootCAs fixable requiresFixing c)))"

text \<open>After the certificate was added every host must be reached with it.\<close>

fun hosts_trusted :: "NetEnv \<Rightarrow> uuid \<Rightarrow> string \<Rightarrow> string list \<Rightarrow> DnsCache \<Rightarrow> int outcome \<times> DnsCache" where
  "hosts_trusted n serverId gameId [] c = (Ret ErrSuccess, c)"
| "hosts_trusted n serverId gameId (host # hosts) c =
     bind_dns (CheckConnectionFromServer n host False None c) (\<lambda>ok c.
       if \<not> ok then (Ret ErrServerConnectSecure, c)
       else bind_dns (LanServerHost (HttpEnv.truncate n) (ne_dns n) serverId gameId host False None c) (\<lambda>lan c.
         if \<not> lan then (Ret ErrTrustCert, c) else hosts_trusted n serverId gameId hosts c))"

definition code_flow :: "int outcome \<times> Session \<Rightarrow> flow \<times> Session" where
  "code_flow r = (case r of
      (Panic, s) \<Rightarrow> (Dies Panicked, s)
    | (Ret code, s) \<Rightarrow> (if code = ErrSuccess then GoOn else StopWith code, s))"

text \<open>\<open>n\<close> is the network before the certificate is added and \<open>n'\<close> the network after that.\<close>

definition add_cert :: "NetEnv \<Rightarrow> RunEnv \<Rightarrow> string \<Rightarrow> uuid \<Rightarrow> string \<Rightarrow> string \<Rightarrow> string list \<Rightarrow> Session \<Rightarrow> flow \<times> Session" where
  "add_cert n' e gameId serverId serverCertificate canAdd hosts s =
     (case setup_flow ErrConfigCertAdd
         (session_SetUp e ((no_setup gameId)\<lparr>sv_AddLocalCertData := (if canAdd = ''local'' then Some serverCertificate else None),
            sv_AddUserCertData := (if canAdd = ''local'' then None else Some serverCertificate), cv_CertFilePath := ss_certFilePath s\<rparr>) s) s of
        (GoOn, s1) \<Rightarrow> code_flow (with_dns (hosts_trusted n' serverId gameId hosts) s1)
      | r \<Rightarrow> r)"

definition AddCert ::
  "NetEnv \<Rightarrow> NetEnv \<Rightarrow> RunEnv \<Rightarrow> string \<Rightarrow> uuid \<Rightarrow> string \<Rightarrow> string \<Rightarrow> bool \<Rightarrow> bool \<Rightarrow> Session \<Rightarrow> flow \<times> Session" where
  "AddCert n n' e gameId serverId serverCertificate canAdd customCertFile macOsExclusiveMappings s =
     (case AllHosts (ne_resolves n) gameId macOsExclusiveMappings (ss_domains s) of
        None \<Rightarrow> (Dies Endless, s)
      | Some (hosts, cache) \<Rightarrow>
          let s = s\<lparr>ss_domains := cache\<rparr>; cert = ae_cert (le_admin (rn_config e))
          in if customCertFile then
               (case ne_certTemp n of
                  None \<Rightarrow> (StopWith ErrConfigCertAdd, s)
                | Some tmp \<Rightarrow>
                    if ne_certClose n then (StopWith ErrConfigCertAdd, s)
                    else let s1 = s\<lparr>ss_certFilePath := tmp\<rparr>
                      in setup_flow ErrConfigCertAdd
                        (session_SetUp e ((no_setup gameId)\<lparr>sv_AddLocalCertData := Some serverCertificate, cv_CertFilePath := tmp\<rparr>) s1) s1)
             else (case with_dns (checkCertMatch n cert serverId gameId serverCertificate hosts None (canAdd \<noteq> ''false'') False) s of
                 (Panic, s1) \<Rightarrow> (Dies Panicked, s1)
               | (Ret (addCert, code), s1) \<Rightarrow>
                   if code \<noteq> ErrSuccess then (StopWith code, s1)
                   else if \<not> addCert then (GoOn, s1)
                   else add_cert n' e gameId serverId serverCertificate canAdd hosts s1))"

text \<open>The certificates the game trusts; \<open>ca\<close> is the folder of its store.\<close>

definition ReadCertsPool :: "ConfigEnv \<Rightarrow> path \<Rightarrow> FS \<Rightarrow> string list option" where
  "ReadCertsPool e p fs = map_option (map snd) (ReadFromFile e CaOpen p fs)"

definition AddCACertToGame ::
  "NetEnv \<Rightarrow> RunEnv \<Rightarrow> string \<Rightarrow> uuid \<Rightarrow> string \<Rightarrow> string \<Rightarrow> path \<Rightarrow> bool \<Rightarrow> bool \<Rightarrow> Session \<Rightarrow> flow \<times> Session" where
  "AddCACertToGame n e gameId serverId serverCertificate gamePath caCertPath canAddCert macOsExclusiveMappings s =
     (let cert = ae_cert (le_admin (rn_config e))
      in case ReadCertsPool (rn_config e) caCertPath (mc_game (la_machine (ss_launcher s))) of
           None \<Rightarrow> (StopWith ErrConfigCACertAdd, s)
         | Some pool \<Rightarrow>
             (case AllHosts (ne_resolves n) gameId macOsExclusiveMappings (ss_domains s) of
                None \<Rightarrow> (Dies Endless, s)
              | Some (hosts, cache) \<Rightarrow>
                  (case with_dns (checkCertMatch n cert serverId gameId serverCertificate hosts (Some pool) canAddCert False)
                      (s\<lparr>ss_domains := cache\<rparr>) of
                     (Panic, s1) \<Rightarrow> (Dies Panicked, s1)
                   | (Ret (addCert, code), s1) \<Rightarrow>
                       if code \<noteq> ErrSuccess then (StopWith code, s1)
                       else if \<not> addCert then (GoOn, s1)
                       else setup_flow ErrConfigCACertAdd
                         (session_SetUp e ((no_setup gameId)\<lparr>cv_GamePath := gamePath, sv_AddCACertData := Some serverCertificate\<rparr>) s1) s1)))"

section \<open>The user's data\<close>

definition ResolveIsolateValue :: "string \<Rightarrow> bool \<Rightarrow> bool" where
  "ResolveIsolateValue v officialLauncher \<longleftrightarrow> v = ''true'' \<or> v = ''required'' \<and> officialLauncher"

definition IsolateUserData :: "RunEnv \<Rightarrow> bool \<Rightarrow> bool \<Rightarrow> string \<Rightarrow> Session \<Rightarrow> flow \<times> Session" where
  "IsolateUserData e metadata profiles path s =
     (if metadata \<or> profiles then
        setup_flow ErrMetadataProfilesSetup (session_SetUp e (isolation_values (ss_gameId s) metadata profiles path) s) s
      else (GoOn, s))"

end
