(* ===== verification/LauncherAgent.thy ===== *)
theory LauncherAgent
  imports LauncherTrust
begin

text \<open>
  What undoes a session: the command of the user that is run at the end (\<open>launcher-common/commandRevert.go\<close>), the agent that waits for
  the end of the game (\<open>launcher-agent\<close>), and the launcher itself when it fails (\<open>cmdUtils/root.go\<close>); and the start of the agent and
  of the game (\<open>cmdUtils/game.go\<close>).  On Linux.
\<close>

section \<open>Other programs\<close>

text \<open>
  A command of the user, on the machine; the result of executing \<open>battle-server-manager\<close> to remove a server; whether the server
  cannot be killed; and, when the launcher interrupts the agent, how many of the four things the agent does then are done before
  it is killed, and whether it cannot be killed.  The supported games are in the order of the set.
\<close>

record ProcEnv =
  pe_command :: "string \<Rightarrow> string list \<Rightarrow> Machine \<Rightarrow> Result \<times> Machine"
  pe_battle :: Result
  pe_serverStays :: bool
  pe_agentSteps :: nat
  pe_agentStays :: bool
  pe_games :: "string list"

text \<open>Without a file nothing is executed.\<close>

definition exec_command :: "ProcEnv \<Rightarrow> string list \<Rightarrow> Machine \<Rightarrow> Result \<times> Machine" where
  "exec_command p cmd m =
     (if hd cmd = [] then (\<lparr>res_Err = True, res_ExitCode = 0, res_Pid = 0\<rparr>, m) else pe_command p (hd cmd) (tl cmd) m)"

definition update_launcher :: "(Launcher \<Rightarrow> Launcher) \<Rightarrow> Session \<Rightarrow> Session" where
  "update_launcher f s = s\<lparr>ss_launcher := f (ss_launcher s)\<rparr>"

text \<open>True if there was an error.\<close>

definition common_RunRevertCommand :: "RunEnv \<Rightarrow> ProcEnv \<Rightarrow> Session \<Rightarrow> bool \<times> Session" where
  "common_RunRevertCommand e p s =
     (case ArgsStore_Load (rn_store e) (ss_command s) of
        (err, cmd) \<Rightarrow>
          if err \<or> cmd = [] then (err, s)
          else (case exec_command p cmd (la_machine (ss_launcher s)) of
              (r, m) \<Rightarrow> (res_Err r, (update_launcher (\<lambda>l. l\<lparr>la_machine := m\<rparr>) s)
                \<lparr>ss_command := snd (ArgsStore_Delete (rn_store e) (ss_command s))\<rparr>)))"

definition executor_RunRevertCommand :: "RunEnv \<Rightarrow> ProcEnv \<Rightarrow> Session \<Rightarrow> bool \<times> Session" where
  "executor_RunRevertCommand e p s = (case common_RunRevertCommand e p s of (err, s1) \<Rightarrow> (err, update_launcher (clear_dns True) s1))"

definition kill_server :: "ProcEnv \<Rightarrow> Session \<Rightarrow> bool \<times> Session" where
  "kill_server p s = (if ss_server s \<and> pe_serverStays p then (False, s) else (True, s\<lparr>ss_server := False\<rparr>))"

definition RemoveBattleServerRegion :: "ProcEnv \<Rightarrow> string \<Rightarrow> string \<Rightarrow> Session \<Rightarrow> Result \<times> Session" where
  "RemoveBattleServerRegion p exe region s =
     (if exe = [] then (\<lparr>res_Err = True, res_ExitCode = 0, res_Pid = 0\<rparr>, s)
      else (pe_battle p, if Result_Success (pe_battle p) then s\<lparr>ss_battle := removeAll region (ss_battle s)\<rparr> else s))"

section \<open>The agent\<close>

text \<open>Reverting what is recorded, without asking for administrator rights; \<open>None\<close> if that does not end.\<close>

definition agent_revert :: "RunEnv \<Rightarrow> ProcEnv \<Rightarrow> AgentValues \<Rightarrow> Session \<Rightarrow> Session option" where
  "agent_revert e p v s = map_option (\<lambda>(_, l). s\<lparr>ss_launcher := l\<rparr>)
     (ConfigRevert e (pe_games p) (av_GameId v) True (common_RunRevert e) (ss_launcher s))"

definition ErrGameTimeoutStart :: int where "ErrGameTimeoutStart = 9"
definition ErrFailedStopServer :: int where "ErrFailedStopServer = 11"
definition ErrFailedWaitForProcess :: int where "ErrFailedWaitForProcess = 12"

text \<open>\<open>appears\<close>: a process of the game is found within a minute; \<open>waits\<close>: its end could be waited for.\<close>

definition Watch :: "RunEnv \<Rightarrow> ProcEnv \<Rightarrow> bool \<Rightarrow> bool \<Rightarrow> AgentValues \<Rightarrow> Session \<Rightarrow> (int \<times> Session) option" where
  "Watch e p appears waits v s =
     (let exitCode = (if \<not> appears then ErrGameTimeoutStart else if \<not> waits then ErrFailedWaitForProcess else ErrSuccess)
      in case agent_revert e p v s of
        None \<Rightarrow> None
      | Some s1 \<Rightarrow>
          let s2 = snd (common_RunRevertCommand e p s1)
          in Some (if av_ServerExecutable v = [] then (exitCode, s2)
            else case kill_server p s2 of
              (ok, s3) \<Rightarrow>
                let exitCode = (if \<not> ok \<and> exitCode = ErrSuccess then ErrFailedStopServer else exitCode)
                in if av_BattleServerManagerExecutable v = [] \<or> av_BattleServerRegion v = [] then (exitCode, s3)
                   else case RemoveBattleServerRegion p (av_BattleServerManagerExecutable v) (av_BattleServerRegion v) s3 of
                     (r, s4) \<Rightarrow> (if exitCode = ErrSuccess then res_ExitCode r else exitCode, s4)))"

text \<open>
  What the agent does when it is interrupted, one thing after the other.  Afterwards it goes on waiting, until it is killed.  The
  executable and the region are compared with a dash and not with the empty text.
\<close>

definition agent_signal :: "RunEnv \<Rightarrow> ProcEnv \<Rightarrow> AgentValues \<Rightarrow> (Session \<Rightarrow> Session) list" where
  "agent_signal e p v =
     [\<lambda>s. case agent_revert e p v s of None \<Rightarrow> s | Some s1 \<Rightarrow> s1,
      \<lambda>s. snd (common_RunRevertCommand e p s),
      \<lambda>s. if av_ServerExecutable v = [] then s else snd (kill_server p s),
      \<lambda>s. if av_ServerExecutable v \<noteq> [] \<and> av_BattleServerManagerExecutable v \<noteq> ''-'' \<and> av_BattleServerRegion v \<noteq> ''-''
        then snd (RemoveBattleServerRegion p (av_BattleServerManagerExecutable v) (av_BattleServerRegion v) s) else s]"

definition KillAgent :: "RunEnv \<Rightarrow> ProcEnv \<Rightarrow> Session \<Rightarrow> Session" where
  "KillAgent e p s = (case ss_agent s of
      None \<Rightarrow> s
    | Some v \<Rightarrow> (fold (\<lambda>f. f) (take (pe_agentSteps p) (agent_signal e p v)) s)\<lparr>ss_agent := if pe_agentStays p then Some v else None\<rparr>)"

section \<open>The launcher's own reverting\<close>

definition revertCommand :: "RunEnv \<Rightarrow> Session \<Rightarrow> string list" where
  "revertCommand e s = (case ArgsStore_Load (rn_store e) (ss_command s) of (err, args) \<Rightarrow> if err then [] else args)"

definition RequiresRunningRevertCommand :: "RunEnv \<Rightarrow> Session \<Rightarrow> bool" where
  "RequiresRunningRevertCommand e s \<longleftrightarrow> ss_setupCommandRan s \<and> revertCommand e s \<noteq> []"

definition RevertCommand :: "RunEnv \<Rightarrow> Session \<Rightarrow> string list" where
  "RevertCommand e s = (if ss_setupCommandRan s then revertCommand e s else [])"

definition RunStopAgent :: "RunEnv \<Rightarrow> Session \<Rightarrow> (Result \<times> Session) option" where
  "RunStopAgent e s = map_option (\<lambda>(r, l). (r, s\<lparr>ss_launcher := l\<rparr>)) (run_config e (FlagSetToArgs ''stopAgent'' [] [] True) (ss_launcher s))"

text \<open>The part of it that reverts what is recorded.\<close>

definition revert_recorded :: "RunEnv \<Rightarrow> ProcEnv \<Rightarrow> Session \<Rightarrow> Session option" where
  "revert_recorded e p s =
     (if RequiresConfigRevert (rn_store e) (ss_launcher s) then
        map_option (\<lambda>(_, l). s\<lparr>ss_launcher := l\<rparr>) (ConfigRevert e (pe_games p) (ss_gameId s) False (executor_Revert e) (ss_launcher s))
      else if ss_configAdminAgentStarted s then map_option snd (RunStopAgent e s)
      else Some s)"

definition Revert :: "RunEnv \<Rightarrow> ProcEnv \<Rightarrow> Session \<Rightarrow> Session option" where
  "Revert e p s =
     (let s1 = KillAgent e p s;
          s2 = (if ss_serverExe s1 = [] then s1 else snd (kill_server p s1));
          s3 = (if ss_battleServerRegion s2 = [] \<or> ss_battleServerExe s2 = [] then s2
                else snd (RemoveBattleServerRegion p (ss_battleServerExe s2) (ss_battleServerRegion s2) s2))
      in case revert_recorded e p s3 of
        None \<Rightarrow> None
      | Some s4 \<Rightarrow> Some (if RequiresRunningRevertCommand e s4 then snd (executor_RunRevertCommand e p s4) else s4))"

section \<open>Starting the agent and the game\<close>

text \<open>The game as it was found: through Steam, through Wine or CrossOver, both with its folder, or a program of the user.\<close>

datatype Executer = SteamExec string | WineExec string | CustomExec string

text \<open>
  \<open>NewExec\<close> of the three packages gives the folder of the game if it is found.  The set of processes to wait for has one element.
\<close>

record GameEnv =
  ge_steam :: "string \<Rightarrow> string option"
  ge_crossover :: "string \<Rightarrow> string option"
  ge_wine :: "string \<Rightarrow> string option"
  ge_Fields :: "string \<Rightarrow> string list option"
  ge_startAgent :: Result
  ge_Do :: "Executer \<Rightarrow> string list \<Rightarrow> Result"
  ge_DoElevated :: "string \<Rightarrow> string list \<Rightarrow> Result"
  ge_IsPermission :: "Result \<Rightarrow> bool"

definition MakeExec :: "GameEnv \<Rightarrow> string \<Rightarrow> string \<Rightarrow> Executer option" where
  "MakeExec g gameId executable =
     (if executable \<noteq> ''auto'' then
        (if executable = ''steam'' then map_option SteamExec (ge_steam g gameId)
         else if executable = ''steam_crossover'' then map_option WineExec (ge_crossover g gameId)
         else if executable = ''steam_wine'' then map_option WineExec (ge_wine g gameId)
         else Some (CustomExec executable))
      else case ge_steam g gameId of
        Some path \<Rightarrow> Some (SteamExec path)
      | None \<Rightarrow> (case ge_crossover g gameId of
          Some path \<Rightarrow> Some (WineExec path)
        | None \<Rightarrow> map_option WineExec (ge_wine g gameId)))"

definition gameToSteamProcess :: "(string \<times> string) list" where
  "gameToSteamProcess = [(AoE1, ''AoEDE_s.exe''), (AoE2, ''AoE2DE_s.exe''), (AoE3, ''AoE3DE_s.exe''), (AoE4, ''RelicCardinal.exe''),
     (AoM, ''AoMRT_s.exe'')]"

definition steamProcess :: "string \<Rightarrow> string" where
  "steamProcess gameId = (case map_of gameToSteamProcess gameId of None \<Rightarrow> [] | Some n \<Rightarrow> n)"

definition Processes :: "string \<Rightarrow> bool \<Rightarrow> string list" where
  "Processes gameId steam = (if steam then [steamProcess gameId] else [])"

text \<open>Replacing every occurrence of a text that is not empty; the number is that of characters still to be left out.\<close>

primrec replace_skip :: "string \<Rightarrow> string \<Rightarrow> nat \<Rightarrow> string \<Rightarrow> string" where
  "replace_skip old new k [] = []"
| "replace_skip old new k (c # t) =
     (if 0 < k then replace_skip old new (k - 1) t
      else if take (length old) (c # t) = old then new @ replace_skip old new (length old - 1) t
      else c # replace_skip old new 0 t)"

definition str_ReplaceAll :: "string \<Rightarrow> string \<Rightarrow> string \<Rightarrow> string" where
  "str_ReplaceAll s old new = replace_skip old new 0 s"

text \<open>\<open>values\<close> is in the order of the map; the fields of the text are found by a shell parser.\<close>

definition ParseCommandArgsFromSlice :: "GameEnv \<Rightarrow> string list \<Rightarrow> (string \<times> string) list \<Rightarrow> bool \<Rightarrow> string list option" where
  "ParseCommandArgsFromSlice g args values separateFields =
     (let cmdArgs = fold (\<lambda>(key, val) t. str_ReplaceAll t (''{'' @ key @ ''}'') val) values (str_Join (CHR '' '') args)
      in if separateFields then ge_Fields g cmdArgs else Some [cmdArgs])"

definition ParseCommandArgs :: "GameEnv \<Rightarrow> string list \<Rightarrow> (string \<times> string) list \<Rightarrow> string list option" where
  "ParseCommandArgs g cmdSlice values = ParseCommandArgsFromSlice g cmdSlice values True"

definition executor_StartAgent :: "GameEnv \<Rightarrow> AgentValues \<Rightarrow> Session \<Rightarrow> Result \<times> Session" where
  "executor_StartAgent g v s =
     (let v' = (if av_LogRoot v = [] \<or> av_BaseDataPath v = [] then v\<lparr>av_LogRoot := [], av_BaseDataPath := []\<rparr> else v)
      in (ge_startAgent g, if Result_Success (ge_startAgent g) then s\<lparr>ss_agent := Some v'\<rparr> else s))"

text \<open>Nothing is broadcast on Linux.\<close>

definition BattleServerBroadcast_Required :: bool where "BattleServerBroadcast_Required = False"

definition agent_needed :: "RunEnv \<Rightarrow> string \<Rightarrow> bool \<Rightarrow> Session \<Rightarrow> bool" where
  "agent_needed e loggerPath broadcast s \<longleftrightarrow> loggerPath \<noteq> [] \<or> RevertCommand e s \<noteq> [] \<or> broadcast \<or> ss_serverExe s \<noteq> []
     \<or> RequiresConfigRevert (rn_store e) (ss_launcher s)"

definition start_agent :: "RunEnv \<Rightarrow> GameEnv \<Rightarrow> string \<Rightarrow> bool \<Rightarrow> string \<Rightarrow> Session \<Rightarrow> bool \<times> Session" where
  "start_agent e g loggerPath broadcast basePath s =
     (if \<not> agent_needed e loggerPath broadcast s then (True, s)
      else case executor_StartAgent g
          \<lparr>av_GameId = ss_gameId s, av_LogRoot = loggerPath, av_ServerExecutable = ss_serverExe s,
           av_ProcessNames = Processes (ss_gameId s) True, av_BattleServerLANRebroadcast = broadcast,
           av_BattleServerManagerExecutable = ss_battleServerExe s, av_BattleServerRegion = ss_battleServerRegion s,
           av_BaseDataPath = basePath\<rparr> s of
        (r, s1) \<Rightarrow> (Result_Success r, s1))"

definition file_values :: "Session \<Rightarrow> (string \<times> string) list" where
  "file_values s = (if ss_hostFilePath s \<noteq> [] then [(''HostFilePath'', ss_hostFilePath s)] else [])
     @ (if ss_certFilePath s \<noteq> [] then [(''CertFilePath'', ss_certFilePath s)] else [])"

definition start_game :: "GameEnv \<Rightarrow> Executer \<Rightarrow> string list \<Rightarrow> Result" where
  "start_game g executer args =
     (let r = ge_Do g executer args
      in case executer of
           CustomExec path \<Rightarrow> if \<not> Result_Success r \<and> res_Err r \<and> path \<noteq> [] \<and> ge_IsPermission g r then ge_DoElevated g path args else r
         | _ \<Rightarrow> r)"

definition LaunchAgentAndGame ::
  "RunEnv \<Rightarrow> ProcEnv \<Rightarrow> GameEnv \<Rightarrow> Executer \<Rightarrow> string list \<Rightarrow> string \<Rightarrow> string \<Rightarrow> string \<Rightarrow> Session \<Rightarrow> flow \<times> Session" where
  "LaunchAgentAndGame e p g executer clientExecutableArgs canBroadcastBattleServer loggerPath basePath s =
     (case start_agent e g loggerPath (canBroadcastBattleServer \<noteq> ''false'' \<and> BattleServerBroadcast_Required) basePath s of
        (False, s1) \<Rightarrow> (StopWith ErrAgentStart, s1)
      | (True, s1) \<Rightarrow>
          (case ParseCommandArgs g clientExecutableArgs (file_values s1) of
             None \<Rightarrow> (StopWith ErrInvalidClientArgs, s1)
           | Some args \<Rightarrow>
               if Result_Success (start_game g executer args) then (GoOn, s1\<lparr>ss_game := True\<rparr>)
               else (StopWith ErrGameLauncherStart, KillAgent e p s1)))"

end
