(* ===== verification/LauncherServer.thy ===== *)
theory LauncherServer
  imports LauncherAgent
begin

text \<open>
  How the launcher starts a server of its own: its certificates (\<open>launcher/internal/server\<close>, \<open>common/cert.go\<close>), a battle server next to
  it (\<open>cmdUtils/battleServerManager.go\<close>, \<open>common/battleServer\<close>), and waiting until it answers (\<open>cmdUtils/server.go\<close>).
\<close>

section \<open>Paths as texts\<close>

text \<open>\<open>filepath.Dir\<close> and \<open>filepath.Join\<close> on clean paths, and the name without its extension.\<close>

definition text_Dir :: "string \<Rightarrow> string" where
  "text_Dir p =
     (if CHR ''/'' \<notin> set p then ''.''
      else let d = butlast (rev (dropWhile (\<lambda>c. c \<noteq> CHR ''/'') (rev p))) in if d = [] then ''/'' else d)"

definition text_Join :: "string \<Rightarrow> string \<Rightarrow> string" where
  "text_Join dir name = (if dir = ''.'' \<or> dir = [] then name else if dir = ''/'' then dir @ name else dir @ ''/'' @ name)"

definition BaseNameNoExt :: "string \<Rightarrow> string" where
  "BaseNameNoExt name =
     (let r = rev name; e = takeWhile (\<lambda>c. c \<noteq> CHR ''.'' \<and> c \<noteq> CHR ''/'') r; rest = drop (length e) r
      in if rest \<noteq> [] \<and> hd rest = CHR ''.'' then rev (tl rest) else name)"

definition ResourcesDir :: string where "ResourcesDir = ''resources''"

section \<open>Certificates of the server\<close>

text \<open>
  What \<open>os.Stat\<close> says of a path, whether a folder can be made, the end of the validity of the certificate in a file (\<open>None\<close> if it
  cannot be read) and the time, both in seconds, and the result of the program that makes certificates.
\<close>

record CertFiles =
  cf_Stat :: "string \<Rightarrow> stat_result"
  cf_Mkdir :: "string \<Rightarrow> bool"
  cf_NotAfter :: "string \<Rightarrow> int option"
  cf_now :: int
  cf_genCert :: Result

definition CertificatePairFolder :: "CertFiles \<Rightarrow> string \<Rightarrow> string" where
  "CertificatePairFolder c executablePath =
     (if executablePath = [] then []
      else let folder = text_Join (text_Join (text_Dir executablePath) ResourcesDir) ''certificates''
        in if cf_Stat c folder = NotExist \<and> \<not> cf_Mkdir c folder then [] else folder)"

text \<open>Whether all files are there, and the paths of the three certificates as far as they were looked for.\<close>

definition CertificatePairs :: "CertFiles \<Rightarrow> string \<Rightarrow> bool \<times> string \<times> string \<times> string" where
  "CertificatePairs c parentDir =
     (if parentDir = [] then (False, [], [], [])
      else let cert = text_Join parentDir ''cert.pem''; caCert = text_Join parentDir ''cacert.pem'';
          selfSignedCert = text_Join parentDir ''selfsigned_cert.pem'';
          missing = (\<lambda>name. cf_Stat c (text_Join parentDir name) = NotExist)
        in if missing ''cert.pem'' \<or> missing ''key.pem'' then (False, cert, [], [])
           else if missing ''cacert.pem'' then (False, cert, caCert, [])
           else (\<not> missing ''selfsigned_cert.pem'' \<and> \<not> missing ''selfsigned_key.pem'', cert, caCert, selfSignedCert))"

definition CertificateSoonExpired :: "CertFiles \<Rightarrow> string \<Rightarrow> bool" where
  "CertificateSoonExpired c cert \<longleftrightarrow> cert = [] \<or> (case cf_NotAfter c cert of None \<Rightarrow> True | Some t \<Rightarrow> cf_now c + 24 * 3600 > t)"

definition GenerateCertificatePair :: "CertFiles \<Rightarrow> string \<Rightarrow> Result option" where
  "GenerateCertificatePair c certificateFolder =
     (let exePath = text_Join (text_Join (text_Dir (text_Dir certificateFolder)) ''bin'') ''genCert''
      in if cf_Stat c exePath \<noteq> Exists then None else Some (cf_genCert c))"

definition GenerateServerCertificates :: "CertFiles \<Rightarrow> string \<Rightarrow> bool \<Rightarrow> int" where
  "GenerateServerCertificates c serverExecutablePath canTrustCertificate =
     (let certificateFolder = CertificatePairFolder c serverExecutablePath
      in case CertificatePairs c certificateFolder of
        (found, cert, caCert, selfSignedCert) \<Rightarrow>
          if found \<and> \<not> CertificateSoonExpired c cert \<and> \<not> CertificateSoonExpired c caCert \<and> \<not> CertificateSoonExpired c selfSignedCert
          then ErrSuccess
          else if \<not> canTrustCertificate then ErrServerCertMissingExpired
          else if certificateFolder = [] then ErrServerCertDirectory
          else (case GenerateCertificatePair c certificateFolder of
              None \<Rightarrow> ErrServerCertCreate
            | Some r \<Rightarrow> if Result_Success r then ErrSuccess else ErrServerCertCreate))"

section \<open>Battle servers\<close>

record BattleConfig =
  bc_Region :: string
  bc_Name :: string
  bc_IPv4 :: string
  bc_BsPort :: int
  bc_WebSocketPort :: int
  bc_OutOfBandPort :: int
  bc_PID :: nat
  bc_index :: int

text \<open>The processes that run, and the ports that accept connections.\<close>

record BattleEnv =
  be_process :: "nat \<Rightarrow> bool"
  be_connects :: "string \<Rightarrow> int \<Rightarrow> bool"

definition BattleConfig_Validate :: "BattleEnv \<Rightarrow> BattleConfig \<Rightarrow> bool" where
  "BattleConfig_Validate b c \<longleftrightarrow>
     \<not> (bc_Region c = [] \<or> bc_PID c = 0 \<or> bc_IPv4 c = [] \<or> bc_BsPort c = 0 \<or> bc_WebSocketPort c = 0)
     \<and> be_process b (bc_PID c)
     \<and> (\<forall>port\<in>set ([bc_BsPort c, bc_WebSocketPort c] @ (if bc_OutOfBandPort c \<noteq> 0 then [bc_OutOfBandPort c] else [])).
          be_connects b (if bc_IPv4 c = ''auto'' then ''0.0.0.0'' else bc_IPv4 c) port)"

definition ParseFileName :: "string \<Rightarrow> int option" where
  "ParseFileName fileName = (case Atoi (BaseNameNoExt fileName) of (n, ok) \<Rightarrow> if ok then Some n else None)"

text \<open>
  The files of a folder: name, whether it is a folder, and the configuration if it can be read and parsed.  A file whose name is no
  number is passed over, but its error is returned if it is the last one.
\<close>

type_synonym battle_files = "(string \<times> bool \<times> BattleConfig option) list"

fun read_configs :: "BattleEnv \<Rightarrow> bool \<Rightarrow> battle_files \<Rightarrow> bool \<Rightarrow> BattleConfig list \<Rightarrow> bool \<times> BattleConfig list" where
  "read_configs b onlyValid [] err configs = (err, configs)"
| "read_configs b onlyValid ((name, isDir, config) # es) err configs =
     (if isDir then read_configs b onlyValid es err configs
      else case ParseFileName name of
        None \<Rightarrow> read_configs b onlyValid es True configs
      | Some index \<Rightarrow>
          (case config of
             None \<Rightarrow> (True, configs)
           | Some c \<Rightarrow> read_configs b onlyValid es False
               (if \<not> onlyValid \<or> BattleConfig_Validate b c then configs @ [c\<lparr>bc_index := index\<rparr>] else configs)))"

text \<open>The folder is \<open>None\<close> if it does not exist, and \<open>Some None\<close> if it cannot be read.\<close>

definition Configs :: "BattleEnv \<Rightarrow> battle_files option option \<Rightarrow> bool \<Rightarrow> bool \<times> BattleConfig list" where
  "Configs b folder onlyValid = (case folder of
      None \<Rightarrow> (False, [])
    | Some None \<Rightarrow> (True, [])
    | Some (Some es) \<Rightarrow> read_configs b onlyValid es False [])"

record BsStartValues =
  bv_GameId :: string
  bv_LogRoot :: string
  bv_GameCfgFile :: string
  bv_HideWindow :: bool
  bv_Force :: bool
  bv_NoErrExisting :: bool

text \<open>
  Where an executable is found, the result of running the manager with its values, the folder of configurations before and
  after, and the absolute path of an executable.
\<close>

record StartEnv =
  st_FindPath :: "string \<Rightarrow> string"
  st_certs :: CertFiles
  st_battle :: BattleEnv
  st_manager :: "string \<Rightarrow> BsStartValues \<Rightarrow> Result"
  st_before :: "battle_files option option"
  st_after :: "battle_files option option"
  st_Abs :: "string \<Rightarrow> string option"

definition run_manager :: "StartEnv \<Rightarrow> string \<Rightarrow> BsStartValues \<Rightarrow> bool \<Rightarrow> string \<Rightarrow> Session \<Rightarrow> int \<times> Session" where
  "run_manager e executable v stop logRoot s =
     (let before = Configs (st_battle e) (st_before e) True;
          v' = v\<lparr>bv_LogRoot := if logRoot \<noteq> [] then logRoot else bv_LogRoot v, bv_HideWindow := bv_HideWindow v \<or> stop, bv_GameId := ss_gameId s\<rparr>;
          after = Configs (st_battle e) (st_after e) True
      in if stop \<and> fst before then (ErrBattleServerManagerRun, s)
         else if \<not> Result_Success (st_manager e executable v') then (ErrBattleServerManagerRun, s)
         else let s1 = s\<lparr>ss_battle := map bc_Region (snd after)\<rparr>;
             added = remdups (filter (\<lambda>c. c \<notin> set (snd before)) (snd after));
             removed = filter (\<lambda>c. c \<notin> set (snd after)) (snd before)
           in (ErrSuccess,
               if stop \<and> \<not> fst after \<and> snd after \<noteq> [] \<and> length added = 1 \<and> removed = [] \<and> st_Abs e executable \<noteq> None
               then s1\<lparr>ss_battleServerRegion := bc_Region (hd added), ss_battleServerExe := the (st_Abs e executable)\<rparr>
               else s1))"

definition RunBattleServerManager :: "StartEnv \<Rightarrow> string \<Rightarrow> BsStartValues \<Rightarrow> bool \<Rightarrow> string \<Rightarrow> Session \<Rightarrow> int \<times> Session" where
  "RunBattleServerManager e executable v stop logRoot s =
     (let exe = (if executable = ''auto'' then st_FindPath e ''battle-server-manager'' else executable)
      in if executable = ''auto'' \<and> exe = [] then (ErrBattleServerManagerRun, s) else run_manager e exe v stop logRoot s)"

definition BattleServerRequired :: "Session \<Rightarrow> bool" where
  "BattleServerRequired s \<longleftrightarrow> ss_gameId s = AoM \<or> ss_gameId s = AoE4"

section \<open>The server\<close>

record ServerValues =
  sr_LogRoot :: string
  sr_GameIds :: "string list"
  sr_Id :: string
  sr_CfgFile :: string
  sr_Flatlog :: bool
  sr_Deterministic :: bool
  sr_Log :: bool
  sr_GeneratePlatformUserId :: bool
  sr_Announce :: string
  sr_AnnouncePort :: int
  sr_AnnounceMulticast :: string
  sr_AnnounceMulticastGroup :: string

text \<open>
  The result of executing the server, and what is met each time it is asked whether it answers until the time is up, with
  whether its process still runs after that.
\<close>

record ServerEnv = StartEnv +
  st_server :: "string \<Rightarrow> ServerValues \<Rightarrow> Result"
  st_polls :: "(HttpEnv \<times> bool) list"

definition GetExecutablePath :: "StartEnv \<Rightarrow> string \<Rightarrow> string" where
  "GetExecutablePath e executable = (if executable = ''auto'' then st_FindPath e ''server'' else executable)"

text \<open>The address at which the server answers, if it does, and whether it still runs.\<close>

fun wait_server :: "uuid \<Rightarrow> string \<Rightarrow> IP option list \<Rightarrow> (HttpEnv \<times> bool) list \<Rightarrow> (string option \<times> bool) outcome" where
  "wait_server ident gameTitle localIPs [] = Ret (None, True)"
| "wait_server ident gameTitle localIPs ((h, alive) # ps) =
     (case FilterServerIPs h ident [] gameTitle localIPs of
        Ret (_, best # _, Some _) \<Rightarrow> Ret (Some (IP_String (ma_Ip best)), True)
      | Ret (_, [], Some _) \<Rightarrow> Panic
      | Ret (_, _, None) \<Rightarrow> if alive then wait_server ident gameTitle localIPs ps else Ret (None, False)
      | Panic \<Rightarrow> Panic)"

text \<open>
  The exit code, which is \<open>ErrServerStart\<close> if there is no result or it is no success, and the address.  The server is killed if it does
  not answer in time.
\<close>

definition server_StartServer ::
  "ServerEnv \<Rightarrow> NetEnv \<Rightarrow> ProcEnv \<Rightarrow> string \<Rightarrow> ServerValues \<Rightarrow> string \<Rightarrow> uuid \<Rightarrow> Session \<Rightarrow> (int \<times> string) outcome \<times> Session" where
  "server_StartServer e n p gameTitle v executablePath ident s =
     (if executablePath = [] \<or> \<not> Result_Success (st_server e executablePath v) then (Ret (ErrServerStart, []), s)
      else let s1 = s\<lparr>ss_server := True\<rparr>
        in case with_dns (HostOrIpToIps (ne_dns n) ''0.0.0.0'') s1 of
          (Panic, s2) \<Rightarrow> (Panic, s2)
        | (Ret ips, s2) \<Rightarrow>
            (case wait_server ident gameTitle (NetIPSliceToNetIPSet (StringSliceToNetIPSlice ips)) (st_polls e) of
               Panic \<Rightarrow> (Panic, s2)
             | Ret (Some ip, _) \<Rightarrow> (Ret (ErrSuccess, ip), s2)
             | Ret (None, alive) \<Rightarrow> (Ret (ErrServerStart, []), if alive then snd (kill_server p s2) else s2\<lparr>ss_server := False\<rparr>)))"

text \<open>The executable is remembered if the server is to be stopped.\<close>

definition session_StartServer ::
  "ServerEnv \<Rightarrow> NetEnv \<Rightarrow> ProcEnv \<Rightarrow> string \<Rightarrow> ServerValues \<Rightarrow> uuid \<Rightarrow> bool \<Rightarrow> Session \<Rightarrow> (int \<times> string) outcome \<times> Session" where
  "session_StartServer e n p executable v ident stop s =
     (let path = GetExecutablePath (StartEnv.truncate e) executable
      in case server_StartServer e n p (ss_gameId s) v path ident s of
        (Ret (code, ip), s1) \<Rightarrow> (Ret (code, ip), if code = ErrSuccess \<and> stop then s1\<lparr>ss_serverExe := path\<rparr> else s1)
      | r \<Rightarrow> r)"

section \<open>What these leave\<close>

lemma RunBattleServerManager_keeps:
  "RunBattleServerManager e x v stop logRoot s = (code, s1) \<Longrightarrow>
    ss_launcher s1 = ss_launcher s \<and> ss_command s1 = ss_command s \<and> ss_agent s1 = ss_agent s \<and> ss_gameId s1 = ss_gameId s"
  by (auto simp: RunBattleServerManager_def run_manager_def Let_def split: if_splits)

text \<open>A stray file in the folder of battle servers whose name is no number makes the launcher stop, if it is the last one.\<close>

lemma stray_file_blocks:
  assumes "ParseFileName name = None"
  shows "fst (Configs b (Some (Some (es @ [(name, False, c)]))) onlyValid)"
proof -
  have "fst (read_configs b onlyValid (es @ [(name, False, c)]) err cs)" for err cs
    by (induction b onlyValid es err cs rule: read_configs.induct) (auto simp: assms split: option.splits)
  then show ?thesis by (simp add: Configs_def)
qed

end
