(* ===== verification/LauncherRun.thy ===== *)
theory LauncherRun
  imports LauncherServer
begin

text \<open>
  A run of the launcher on Linux (\<open>launcher/internal/cmd/root.go\<close>): checking the configuration, cleaning up after an earlier run,
  choosing or starting a server, and the steps that make the game use it; when one fails everything is reverted.  Signals and the
  texts that are printed are left out, and writing the log does not fail.
\<close>

section \<open>Configuration\<close>

definition ErrFileLog :: int where "ErrFileLog = 5"
definition ErrConfigParse :: int where "ErrConfigParse = 6"

record Executable =
  ex_Path :: string
  ex_Args :: "string list"

record ClientIsolation =
  ci_Metadata :: string
  ci_Profiles :: string
  ci_Path :: string

record ConfigCertificate =
  cc_CanTrustInPc :: string
  cc_CanTrustInGame :: bool

record MainConfig =
  lc_CanAddHost :: bool
  lc_CanBroadcastBattleServer :: string
  lc_Log :: bool
  lc_SetupCommand :: "string list"
  lc_RevertCommand :: "string list"
  lc_Certificate :: ConfigCertificate

record BattleServerManager =
  bm_Executable :: Executable
  bm_Run :: string

record ServerConfig =
  sf_Executable :: Executable
  sf_Start :: string
  sf_Host :: string
  sf_Stop :: string
  sf_SingleAutoSelect :: bool
  sf_StartWithoutConfirmation :: bool
  sf_AnnouncePorts :: "int list"
  sf_AnnounceMulticastGroups :: "string list"
  sf_BattleServerManager :: BattleServerManager

record ClientConfig =
  cl_Executable :: Executable
  cl_Path :: string
  cl_Isolation :: ClientIsolation

record Configuration =
  cn_Config :: MainConfig
  cn_Server :: ServerConfig
  cn_Client :: ClientConfig

text \<open>
  What a run meets: the environments of its parts; the folder of the log; whether it has administrator rights; whether a folder or file is
  at a path, with the absolute path; the parser of the server's flags and that of the battle server's; a new identifier, its parser
  and its text; the isolation path found for a game; how an agent that still runs ends within a minute, if it does, and
  whether that with administrator rights ends; whether
  a game is seen running, each second; what is read from the user; and the network at each stage.
\<close>

record LaunchEnv =
  lv_run :: RunEnv
  lv_proc :: ProcEnv
  lv_game :: GameEnv
  lv_server :: ServerEnv
  lv_locked :: bool
  lv_logOpens :: bool
  lv_logFolder :: string
  lv_Stat :: "string \<Rightarrow> (bool \<times> string) option"
  lv_server_flags :: "string list \<Rightarrow> ServerValues option"
  lv_bs_flags :: "string list \<Rightarrow> BsStartValues option"
  lv_newUUID :: string
  lv_ParseUUID :: "string \<Rightarrow> uuid option"
  lv_uuid_String :: "uuid \<Rightarrow> string"
  lv_IsolationPath :: "Executer \<Rightarrow> string \<Rightarrow> string"
  lv_agentEnds :: "(bool \<times> bool) option"
  lv_adminAgentEnds :: bool
  lv_gameRuns :: "bool list"
  lv_listens :: "IP \<Rightarrow> bool"
  lv_received :: "(string \<times> IP) list"
  lv_inputs :: "int option list"
  lv_net_select :: NetEnv
  lv_net_read :: NetEnv
  lv_net_hosts :: NetEnv
  lv_net_cert :: NetEnv
  lv_net_added :: NetEnv
  lv_net_game :: NetEnv

section \<open>Checking the configuration\<close>

text \<open>What the checks leave: the values used later.\<close>

record Plan =
  pl_canTrustCertificate :: string
  pl_serverStart :: string
  pl_serverStop :: string
  pl_battleServerManagerRun :: string
  pl_serverValues :: ServerValues
  pl_battleServerManagerArgs :: "string list"
  pl_setupCommand :: "string list"
  pl_revertCommand :: "string list"
  pl_isolateMetadata :: bool
  pl_isolateProfiles :: bool
  pl_isolationPath :: string
  pl_serverExecutable :: string
  pl_battleServerManagerExecutable :: string
  pl_executer :: Executer
  pl_gamePath :: string

definition ParsePath :: "LaunchEnv \<Rightarrow> string \<Rightarrow> (bool \<times> string) option" where
  "ParsePath e t = (case ParseCommandArgsFromSlice (lv_game e) [t] [] False of Some [x] \<Rightarrow> lv_Stat e x | _ \<Rightarrow> None)"

text \<open>A path to a file if it is not to be found automatically.\<close>

definition parse_executable :: "LaunchEnv \<Rightarrow> string \<Rightarrow> string option" where
  "parse_executable e t =
     (if t = ''auto'' then Some t else case ParsePath e t of Some (False, path) \<Rightarrow> Some path | _ \<Rightarrow> None)"

text \<open>The options that have few values: the exit code of the first that is wrong.\<close>

definition check_options :: "bool \<Rightarrow> Configuration \<Rightarrow> string \<Rightarrow> int" where
  "check_options isAdmin c gameId =
     (let requiredTrueFalse = [''true'', ''false'', ''required'']
      in if cc_CanTrustInPc (lc_Certificate (cn_Config c)) \<notin> {''auto'', ''false'', ''local''} then ErrInvalidCanTrustCertificate
         else if sf_Start (cn_Server c) \<notin> {''auto'', ''true'', ''false''} then ErrInvalidServerStart
         else if sf_Stop (cn_Server c) \<notin> (if isAdmin then {''auto'', ''true''} else {''auto'', ''true'', ''false''}) then ErrInvalidServerStop
         else if bm_Run (sf_BattleServerManager (cn_Server c)) \<notin> set requiredTrueFalse then ErrInvalidServerBattleServerManagerRun
         else if ci_Metadata (cl_Isolation (cn_Client c)) \<notin> set requiredTrueFalse then ErrInvalidIsolateMetadata
         else if ci_Profiles (cl_Isolation (cn_Client c)) \<notin> set requiredTrueFalse then ErrInvalidIsolateProfiles
         else if gameId \<notin> set SupportedGames then ErrInvalidGame
         else ErrSuccess)"

definition parse_server_args :: "LaunchEnv \<Rightarrow> Configuration \<Rightarrow> (string \<times> string) list \<Rightarrow> ServerValues option" where
  "parse_server_args e c vals =
     (case Option.bind (ParseCommandArgs (lv_game e) (ex_Args (sf_Executable (cn_Server c))) vals) (lv_server_flags e) of
        None \<Rightarrow> None
      | Some v \<Rightarrow> if lv_ParseUUID e (sr_Id v) = None then None else Some v)"

definition official :: "string \<Rightarrow> bool" where
  "official clientExecutable \<longleftrightarrow> clientExecutable \<in> {''auto'', ''steam'', ''steam_wine'', ''steam_crossover''}"

text \<open>The path of isolated data that is configured; the empty path if it is found later.\<close>

definition configured_isolation :: "LaunchEnv \<Rightarrow> Configuration \<Rightarrow> bool \<Rightarrow> string option" where
  "configured_isolation e c isolation =
     (let t = ci_Path (cl_Isolation (cn_Client c))
      in if \<not> isolation then Some []
         else if t \<noteq> ''auto'' then (case ParsePath e t of Some (True, path) \<Rightarrow> Some path | _ \<Rightarrow> None)
         else if \<not> official (ex_Path (cl_Executable (cn_Client c))) then None
         else Some [])"

definition client_executable :: "LaunchEnv \<Rightarrow> Configuration \<Rightarrow> string \<Rightarrow> bool \<Rightarrow> bool \<Rightarrow> int + string" where
  "client_executable e c gameId isolateMetadata isolateProfiles =
     (let t = ex_Path (cl_Executable (cn_Client c))
      in if \<not> official t then (case ParsePath e t of Some (False, path) \<Rightarrow> Inr path | _ \<Rightarrow> Inl ErrInvalidClientPath)
         else if \<not> isolateProfiles \<or> gameId \<noteq> AoE1 \<and> \<not> isolateMetadata then Inl ErrRequiredIsolation
         else Inr t)"

text \<open>The game, and its folder if it has a store of certificates of its own.\<close>

definition find_game :: "LaunchEnv \<Rightarrow> Configuration \<Rightarrow> string \<Rightarrow> Plan \<Rightarrow> string \<Rightarrow> int + Plan" where
  "find_game e c gameId p clientExecutable =
     (let isolation = (pl_isolateMetadata p \<or> pl_isolateProfiles p)
      in if clientExecutable = ''msstore'' \<and> gameId = AoM then Inl ErrGameUnsupportedLauncherCombo
         else case MakeExec (lv_game e) gameId clientExecutable of
           None \<Rightarrow> Inl ErrGameLauncherNotFound
         | Some executer \<Rightarrow>
             (let path = (if isolation \<and> pl_isolationPath p = [] then lv_IsolationPath e executer gameId else pl_isolationPath p)
              in if isolation \<and> path = [] then Inl ErrInvalidIsolationPath
                 else let p1 = p\<lparr>pl_executer := executer, pl_isolationPath := path\<rparr>
                   in if \<not> HasCA gameId then Inr p1
                      else case executer of
                        CustomExec _ \<Rightarrow> (case ParsePath e (cl_Path (cn_Client c)) of
                            Some (True, clientPath) \<Rightarrow> Inr (p1\<lparr>pl_gamePath := clientPath\<rparr>) | _ \<Rightarrow> Inl ErrInvalidClientPath)
                      | SteamExec folder \<Rightarrow> Inr (p1\<lparr>pl_gamePath := folder\<rparr>)
                      | WineExec folder \<Rightarrow> Inr (p1\<lparr>pl_gamePath := folder\<rparr>)))"

text \<open>The checks in their order.  A failure has its exit code, and whether the game was known at that point.\<close>

definition check_game :: "LaunchEnv \<Rightarrow> Configuration \<Rightarrow> string \<Rightarrow> int + Plan" where
  "check_game e c gameId =
     (let g = lv_game e; s = cn_Server c; vals = [(''Game'', gameId), (''Id'', lv_newUUID e)];
          iso = cl_Isolation (cn_Client c); known = official (ex_Path (cl_Executable (cn_Client c)));
          isolateMetadata = (gameId \<noteq> AoE1 \<and> ResolveIsolateValue (ci_Metadata iso) known);
          isolateProfiles = ResolveIsolateValue (ci_Profiles iso) known
      in case parse_server_args e c vals of
        None \<Rightarrow> Inl ErrInvalidServerArgs
      | Some serverValues \<Rightarrow>
      (case ParseCommandArgs g (ex_Args (bm_Executable (sf_BattleServerManager s))) vals of
         None \<Rightarrow> Inl ErrInvalidServerBattleServerManagerArgs
       | Some battleServerManagerArgs \<Rightarrow>
      (case ParseCommandArgs g (lc_SetupCommand (cn_Config c)) [] of
         None \<Rightarrow> Inl ErrInvalidSetupCommand
       | Some setupCommand \<Rightarrow>
      (case ParseCommandArgs g (lc_RevertCommand (cn_Config c)) [] of
         None \<Rightarrow> Inl ErrInvalidRevertCommand
       | Some revertCmd \<Rightarrow>
      (case configured_isolation e c (isolateMetadata \<or> isolateProfiles) of
         None \<Rightarrow> Inl ErrInvalidIsolationPath
       | Some isolationPath \<Rightarrow>
      (case parse_executable e (ex_Path (sf_Executable s)) of
         None \<Rightarrow> Inl ErrInvalidServerPath
       | Some serverExecutable \<Rightarrow>
      (case parse_executable e (ex_Path (bm_Executable (sf_BattleServerManager s))) of
         None \<Rightarrow> Inl ErrInvalidClientPath
       | Some battleServerManagerExecutable \<Rightarrow>
      (case client_executable e c gameId isolateMetadata isolateProfiles of
         Inl code \<Rightarrow> Inl code
       | Inr clientExecutable \<Rightarrow>
           find_game e c gameId
             \<lparr>pl_canTrustCertificate = cc_CanTrustInPc (lc_Certificate (cn_Config c)), pl_serverStart = sf_Start s,
              pl_serverStop = sf_Stop s, pl_battleServerManagerRun = bm_Run (sf_BattleServerManager s), pl_serverValues = serverValues,
              pl_battleServerManagerArgs = battleServerManagerArgs, pl_setupCommand = setupCommand, pl_revertCommand = revertCmd,
              pl_isolateMetadata = isolateMetadata, pl_isolateProfiles = isolateProfiles, pl_isolationPath = isolationPath,
              pl_serverExecutable = serverExecutable, pl_battleServerManagerExecutable = battleServerManagerExecutable,
              pl_executer = CustomExec clientExecutable, pl_gamePath = []\<rparr> clientExecutable))))))))"

definition check_config :: "LaunchEnv \<Rightarrow> Configuration \<Rightarrow> string \<Rightarrow> (int \<times> bool) + Plan" where
  "check_config e c gameId =
     (let code = check_options (rn_admin (lv_run e)) c gameId
      in if code \<noteq> ErrSuccess then Inl (code, False)
         else case check_game e c gameId of Inl code \<Rightarrow> Inl (code, True) | Inr p \<Rightarrow> Inr p)"

section \<open>Cleaning up\<close>

text \<open>\<open>seen\<close>: whether a game is found, at the start and then each second of a minute.\<close>

definition GameRunning :: "bool list \<Rightarrow> bool" where
  "GameRunning seen \<longleftrightarrow> seen \<noteq> [] \<and> list_all (\<lambda>b. b) seen"

text \<open>An agent that ends by itself does what it does at the end of a game.\<close>

definition wait_agents :: "LaunchEnv \<Rightarrow> Session \<Rightarrow> Session" where
  "wait_agents e s =
     (let s1 = (case (lv_agentEnds e, ss_agent s) of
          (Some (appears, waits), Some v) \<Rightarrow>
            (case Watch (lv_run e) (lv_proc e) appears waits v s of None \<Rightarrow> s | Some (_, s1) \<Rightarrow> s1\<lparr>ss_agent := None\<rparr>)
        | _ \<Rightarrow> s)
      in if lv_adminAgentEnds e then update_launcher (\<lambda>l. l\<lparr>la_machine := (la_machine l)\<lparr>mc_agent := None\<rparr>\<rparr>) s1 else s1)"

definition NewConfigFlushCacheOptions :: "bool \<Rightarrow> string \<Rightarrow> bool \<Rightarrow> bool \<Rightarrow> FlushCacheValues option" where
  "NewConfigFlushCacheOptions canAddHost canTrustCertificate customHostFile customCertFile =
     (let ips = (\<not> customHostFile \<and> canAddHost); certs = (\<not> customCertFile \<and> canTrustCertificate \<noteq> ''false'')
      in if \<not> ips \<and> \<not> certs then None else Some \<lparr>fv_IPs = ips, fv_Certs = certs\<rparr>)"

definition RunFlushCache :: "RunEnv \<Rightarrow> FlushCacheValues \<Rightarrow> Session \<Rightarrow> (Result \<times> Session) option" where
  "RunFlushCache e v s = map_option (\<lambda>(r, l). (r, update_launcher (clear_dns (fv_IPs v)) (s\<lparr>ss_launcher := l\<rparr>)))
     (run_config e (FlagSetToArgs ''flushCache'' [bool_flag ''flushCertsCache'' (fv_Certs v), bool_flag ''flushIpCache'' (fv_IPs v)] [] True)
       (ss_launcher s))"

definition flush_caches :: "RunEnv \<Rightarrow> FlushCacheValues option \<Rightarrow> Session \<Rightarrow> flow \<times> Session" where
  "flush_caches e v s = (case v of
      None \<Rightarrow> (GoOn, s)
    | Some v \<Rightarrow> (case RunFlushCache e v s of
        None \<Rightarrow> (Dies Endless, s)
      | Some (r, s1) \<Rightarrow> if Result_Success r then (GoOn, s1\<lparr>ss_configAdminAgentStarted := True\<rparr>) else (StopWith ErrFlushCache, s1)))"

definition revert_earlier :: "LaunchEnv \<Rightarrow> Session \<Rightarrow> flow \<times> Session" where
  "revert_earlier e s =
     (let s1 = KillAgent (lv_run e) (lv_proc e) s
      in case ConfigRevert (lv_run e) (pe_games (lv_proc e)) [] False (executor_Revert (lv_run e)) (ss_launcher s1) of
           None \<Rightarrow> (Dies Endless, s1)
         | Some (_, l) \<Rightarrow> (GoOn, s1\<lparr>ss_launcher := l\<rparr>))"

definition store_command :: "RunEnv \<Rightarrow> string list \<Rightarrow> Session \<Rightarrow> flow \<times> Session" where
  "store_command e cmd s =
     (if cmd = [] then (GoOn, s)
      else case ArgsStore_Store (rn_store e) cmd (ss_command s) of
        (err, content) \<Rightarrow> (if err then StopWith ErrInvalidRevertCommand else GoOn, s\<lparr>ss_command := content\<rparr>))"

text \<open>The names that were resolved are forgotten after the command.\<close>

definition RunSetupCommand :: "ProcEnv \<Rightarrow> string list \<Rightarrow> Session \<Rightarrow> Result \<times> Session" where
  "RunSetupCommand p cmd s = (case exec_command p cmd (la_machine (ss_launcher s)) of
      (r, m) \<Rightarrow> (r, update_launcher (\<lambda>l. clear_dns True (l\<lparr>la_machine := m\<rparr>)) s))"

definition setup_command :: "ProcEnv \<Rightarrow> string list \<Rightarrow> Session \<Rightarrow> flow \<times> Session" where
  "setup_command p cmd s =
     (if cmd = [] then (GoOn, s)
      else case RunSetupCommand p cmd s of (r, s1) \<Rightarrow> (if Result_Success r then GoOn else StopWith ErrSetupCommand, s1))"

text \<open>\<open>slices.ContainsFunc\<close> with \<open>strings.Contains\<close>.\<close>

definition mentions :: "string \<Rightarrow> string list \<Rightarrow> bool" where
  "mentions t args \<longleftrightarrow> (\<exists>a\<in>set args. \<exists>i\<in>set [0..<length a + 1]. take (length t) (drop i a) = t)"

definition can_trust :: "Plan \<Rightarrow> string" where
  "can_trust p = (if pl_canTrustCertificate p = ''auto'' then ''local'' else pl_canTrustCertificate p)"

definition clean_up :: "LaunchEnv \<Rightarrow> Configuration \<Rightarrow> Plan \<Rightarrow> Session \<Rightarrow> flow \<times> Session" where
  "clean_up e c p s =
     (let args = ex_Args (cl_Executable (cn_Client c)); r = lv_run e; s1 = wait_agents e s
      in if GameRunning (lv_gameRuns e) then (StopWith ErrGameAlreadyRunning, s1)
         else run_steps
           [revert_earlier e,
            flush_caches r (NewConfigFlushCacheOptions (lc_CanAddHost (cn_Config c)) (can_trust p) (mentions ''{HostFilePath}'' args)
              (mentions ''{CertFilePath}'' args)),
            \<lambda>s. (GoOn, snd (executor_RunRevertCommand r (lv_proc e) s)),
            store_command r (pl_revertCommand p),
            setup_command (lv_proc e) (pl_setupCommand p)] s1)"

section \<open>The server\<close>

record Choice =
  ch_start :: string
  ch_stop :: string
  ch_ip :: string
  ch_values :: ServerValues

fun multicast_groups :: "string list \<Rightarrow> IP option list \<Rightarrow> IP option list option" where
  "multicast_groups [] acc = Some acc"
| "multicast_groups (t # ts) acc = (case parse_addr4 t of
      Some (Some ip) \<Rightarrow> if hd ip AND 0xF0 = 0xE0 then multicast_groups ts (List.insert (Some ip) acc) else None
    | _ \<Rightarrow> None)"

text \<open>Looking for a server of the network; the left result is the exit code.  Ports are cut off to 16 bits.\<close>

definition discover :: "LaunchEnv \<Rightarrow> Configuration \<Rightarrow> string \<Rightarrow> Choice \<Rightarrow> Session \<Rightarrow> (flow + Choice) \<times> Session" where
  "discover e c gameId ch s =
     (let n = lv_net_select e
      in case multicast_groups (sf_AnnounceMulticastGroups (cn_Server c)) [] of
        None \<Rightarrow> (Inl (StopWith ErrAnnouncementMulticastGroup), s)
      | Some groups \<Rightarrow>
          (case with_dns (DiscoverServersAndSelectBestIpAddr (HttpEnv.truncate n) (ne_dns n) (lv_listens e) (lv_received e) (lv_inputs e) gameId
              (sf_SingleAutoSelect (cn_Server c)) groups (remdups (map (\<lambda>i. nat (i mod 65536)) (sf_AnnouncePorts (cn_Server c))))) s of
             (Panic, s1) \<Rightarrow> (Inl (Dies Panicked), s1)
           | (Ret None, s1) \<Rightarrow> (Inl (Dies Endless), s1)
           | (Ret (Some (serverId, ip)), s1) \<Rightarrow>
               (Inr (if serverId \<noteq> uuid_Nil then
                   ch\<lparr>ch_start := ''false'', ch_ip := IP_String ip, ch_values := (ch_values ch)\<lparr>sr_Id := lv_uuid_String e serverId\<rparr>,
                     ch_stop := if ch_stop ch = ''auto'' \<and> \<not> rn_admin (lv_run e) then ''false'' else ch_stop ch\<rparr>
                 else ch\<lparr>ch_start := ''true'', ch_stop := if ch_stop ch = ''auto'' then ''true'' else ch_stop ch\<rparr>), s1)))"

definition find_host :: "LaunchEnv \<Rightarrow> Configuration \<Rightarrow> string \<Rightarrow> Choice \<Rightarrow> Session \<Rightarrow> (flow + Choice) \<times> Session" where
  "find_host e c gameId ch s =
     (let n = lv_net_select e; host = sf_Host (cn_Server c)
      in if host = [] \<or> parse_addr4 host = Some None then (Inl (StopWith ErrInvalidServerHost), s)
         else case with_dns (HostOrIpToIps (ne_dns n) host) s of
           (Panic, s1) \<Rightarrow> (Inl (Dies Panicked), s1)
         | (Ret ips, s1) \<Rightarrow>
             (case FilterServerIPs (HttpEnv.truncate n) uuid_Nil host gameId (NetIPSliceToNetIPSet (StringSliceToNetIPSlice ips)) of
                Ret (ident, best # _, Some _) \<Rightarrow>
                  (Inr (ch\<lparr>ch_ip := IP_String (ma_Ip best), ch_values := (ch_values ch)\<lparr>sr_Id := lv_uuid_String e ident\<rparr>\<rparr>), s1)
              | Ret (_, _, None) \<Rightarrow> (Inl (StopWith ErrInvalidServerHost), s1)
              | _ \<Rightarrow> (Inl (Dies Panicked), s1)))"

text \<open>Starting one, with a battle server if it is needed.\<close>

definition start_battle :: "LaunchEnv \<Rightarrow> Plan \<Rightarrow> string \<Rightarrow> Session \<Rightarrow> int \<times> Session" where
  "start_battle e p serverStop s =
     (let required = pl_battleServerManagerRun p
      in if required = ''true'' \<or> required = ''required'' \<and> BattleServerRequired s then
           (case lv_bs_flags e (pl_battleServerManagerArgs p) of
              None \<Rightarrow> (ErrInvalidServerBattleServerManagerArgs, s)
            | Some v \<Rightarrow> RunBattleServerManager (StartEnv.truncate (lv_server e)) (pl_battleServerManagerExecutable p) v (serverStop = ''true'')
                (lv_logFolder e) s)
         else (ErrSuccess, s))"

definition start_own_server :: "LaunchEnv \<Rightarrow> Plan \<Rightarrow> Choice \<Rightarrow> Session \<Rightarrow> (flow + Choice) \<times> Session" where
  "start_own_server e p ch s =
     (let v = (if lv_logFolder e \<noteq> [] then (ch_values ch)\<lparr>sr_Log := True, sr_LogRoot := lv_logFolder e, sr_Flatlog := True, sr_Deterministic := True\<rparr>
          else ch_values ch);
          st = StartEnv.truncate (lv_server e); path = GetExecutablePath st (pl_serverExecutable p)
      in if path = [] then (Inl (StopWith ErrServerExecutable), s)
         else let code = GenerateServerCertificates (st_certs st) path (can_trust p \<noteq> ''false'')
           in if code \<noteq> ErrSuccess then (Inl (StopWith code), s)
              else case start_battle e p (ch_stop ch) s of
                (code, s1) \<Rightarrow>
                  if code \<noteq> ErrSuccess then (Inl (StopWith code), s1)
                  else (case lv_ParseUUID e (sr_Id v) of
                      None \<Rightarrow> (Inl (Dies Panicked), s1)
                    | Some ident \<Rightarrow>
                        (case session_StartServer (lv_server e) (lv_net_select e) (lv_proc e) path v ident (ch_stop ch = ''true'') s1 of
                           (Panic, s2) \<Rightarrow> (Inl (Dies Panicked), s2)
                         | (Ret (code, ip), s2) \<Rightarrow>
                             (if code \<noteq> ErrSuccess then Inl (StopWith code) else Inr (ch\<lparr>ch_ip := ip, ch_values := v\<rparr>), s2))))"

definition select_server :: "LaunchEnv \<Rightarrow> Configuration \<Rightarrow> string \<Rightarrow> Plan \<Rightarrow> Session \<Rightarrow> (flow + Choice) \<times> Session" where
  "select_server e c gameId p s =
     (let ch = \<lparr>ch_start = pl_serverStart p, ch_stop = pl_serverStop p, ch_ip = [], ch_values = pl_serverValues p\<rparr>
      in case (if ch_start ch = ''auto'' then discover e c gameId ch s else (Inr ch, s)) of
        (Inl f, s1) \<Rightarrow> (Inl f, s1)
      | (Inr ch, s1) \<Rightarrow>
          if ch_start ch = ''false'' then (if ch_ip ch = [] then find_host e c gameId ch s1 else (Inr ch, s1))
          else start_own_server e p ch s1)"

section \<open>The run\<close>

definition game_store :: "string \<Rightarrow> string \<Rightarrow> path" where
  "game_store gameId gamePath = (case Option.bind (path_of gamePath) (NewCA gameId) of None \<Rightarrow> [] | Some ca \<Rightarrow> OriginalPath ca)"

text \<open>The steps after the server is known; \<open>crt\<close> is its certificate.\<close>

definition setup_steps :: "LaunchEnv \<Rightarrow> Configuration \<Rightarrow> string \<Rightarrow> Plan \<Rightarrow> string \<Rightarrow> uuid \<Rightarrow> string \<Rightarrow> (Session \<Rightarrow> flow \<times> Session) list" where
  "setup_steps e c gameId p ip ident crt =
     (let r = lv_run e; args = ex_Args (cl_Executable (cn_Client c))
      in [MapHosts (lv_net_hosts e) r gameId ip False (lc_CanAddHost (cn_Config c)) (mentions ''{HostFilePath}'' args),
          AddCert (lv_net_cert e) (lv_net_added e) r gameId ident crt (can_trust p) (mentions ''{CertFilePath}'' args) False,
          IsolateUserData r (pl_isolateMetadata p) (pl_isolateProfiles p) (pl_isolationPath p),
          \<lambda>s. if pl_gamePath p = [] then (GoOn, s)
            else AddCACertToGame (lv_net_game e) r gameId ident crt (pl_gamePath p) (game_store gameId (pl_gamePath p))
              (cc_CanTrustInGame (lc_Certificate (cn_Config c))) False s])"

definition use_server :: "LaunchEnv \<Rightarrow> Configuration \<Rightarrow> string \<Rightarrow> Plan \<Rightarrow> Choice \<Rightarrow> Session \<Rightarrow> flow \<times> Session" where
  "use_server e c gameId p ch s =
     (case with_dns (ReadCACertificateFromServer (lv_net_read e) (ae_cert (le_admin (rn_config (lv_run e)))) (ch_ip ch)) s of
        (Panic, s1) \<Rightarrow> (Dies Panicked, s1)
      | (Ret None, s1) \<Rightarrow> (StopWith ErrReadCert, s1)
      | (Ret (Some crt), s1) \<Rightarrow>
          (case lv_ParseUUID e (sr_Id (ch_values ch)) of
             None \<Rightarrow> (Dies Panicked, s1)
           | Some ident \<Rightarrow>
               (case run_steps (setup_steps e c gameId p (ch_ip ch) ident crt) s1 of
                  (GoOn, s2) \<Rightarrow> LaunchAgentAndGame (lv_run e) (lv_proc e) (lv_game e) (pl_executer p) (ex_Args (cl_Executable (cn_Client c)))
                    ''false'' (lv_logFolder e) (pl_isolationPath p) s2
                | f \<Rightarrow> f)))"

definition run_plan :: "LaunchEnv \<Rightarrow> Configuration \<Rightarrow> string \<Rightarrow> Plan \<Rightarrow> Session \<Rightarrow> flow \<times> Session" where
  "run_plan e c gameId p s =
     (case clean_up e c p s of
        (GoOn, s1) \<Rightarrow>
          (case select_server e c gameId p s1 of
             (Inl f, s2) \<Rightarrow> (f, s2)
           | (Inr ch, s2) \<Rightarrow> use_server e c gameId p ch s2)
      | f \<Rightarrow> f)"

text \<open>The deferred function: a failure reverts everything.  A panic is a failure.\<close>

definition finish_run :: "LaunchEnv \<Rightarrow> flow \<times> Session \<Rightarrow> proc_end \<times> Session" where
  "finish_run e r =
     (let failed = (\<lambda>code s. case Revert (lv_run e) (lv_proc e) s of None \<Rightarrow> (Endless, s) | Some s1 \<Rightarrow> (Exited code, s1))
      in case r of
        (GoOn, s) \<Rightarrow> (Exited ErrSuccess, s)
      | (StopWith code, s) \<Rightarrow> if code = ErrSuccess then (Exited ErrSuccess, s) else failed code s
      | (Dies Panicked, s) \<Rightarrow> failed ErrGeneral s
      | (Dies f, s) \<Rightarrow> (f, s))"

text \<open>The configuration is \<open>None\<close> if it cannot be loaded.\<close>

definition runRoot :: "LaunchEnv \<Rightarrow> Configuration option \<Rightarrow> string \<Rightarrow> Session \<Rightarrow> proc_end \<times> Session" where
  "runRoot e config gameId s =
     (if gameId = [] then (Exited ErrSyntax, s)
      else if lv_locked e then (Exited ErrPidLock, s)
      else case config of
        None \<Rightarrow> (Exited ErrConfigParse, s)
      | Some c \<Rightarrow>
          if \<not> lv_logOpens e then (Exited ErrFileLog, s)
          else finish_run e (case check_config e c gameId of
              Inl (code, known) \<Rightarrow> (StopWith code, if known then s\<lparr>ss_gameId := gameId\<rparr> else s)
            | Inr p \<Rightarrow> run_plan e c gameId p (s\<lparr>ss_gameId := gameId\<rparr>)))"

end
