(* ===== verification/Spec2Isabelle.thy ===== *)
theory Spec2Isabelle
  imports SafeMaps OrderedMaps KeyMutex Sessions Persist Rng Stats Items Users BattleServers Lobby LobbyLaws
    World AdvRoutes Examples AdvProps PartyRoutes InviteRoutes ChatRoutes LoginRoutes LoginProps Wss WssProps AuthRoutes AuthProps AccountRoutes ItemRoutes ItemProps CloudRoutes CommunityEvents AthensData Gauntlet GauntletProps GauntletPaths Playfab CloudScript PlayfabProps NetIP Domains Hosts HostsFile HostsProps
    UserData UserDataProps ConfigAdmin ConfigAdminProps LauncherConfig FlushCache LauncherSetup LauncherProps GameCertProps ArgsStore ArgsStoreProps
    Resolve Discovery DiscoveryProps LauncherTrust LauncherAgent LauncherServer LauncherRun
begin

text \<open>
  A model of ageLANServer: the game server (\<open>src/server\<close>), a LAN replacement of the online
  services of the Age of Empires games and Age of Mythology, and the parts of the launcher that direct a
  game to it (\<open>src/common\<close>, \<open>src/launcher-config\<close>, \<open>src/launcher-config-admin\<close>).  The server keeps users, sessions, lobbies
  (advertisements), chat channels and per-user data in memory, some of it backed by JSON files, and
  changes them in HTTP handlers; it tells other clients by messages over a web socket or a queue.

  The parts, in the order of the theories.

  \<^item> \<open>Prelude\<close>: shared lemmas on association lists and results, \<open>BoolInt\<close> of \<open>boolInt.go\<close>.
  \<^item> \<open>SafeMaps\<close>, \<open>OrderedMaps\<close> (\<open>internal/Map.go\<close>): the containers every store is built from.  A Go map is
    an association list.  Locales state what their clients rely on and are interpreted on the code's
    operations.
  \<^item> \<open>KeyMutex\<close> (\<open>internal/keyRWMutex.go\<close>): the lock per lobby, with every acquisition a step of its own.
  \<^item> \<open>Sessions\<close> (\<open>models/baseSession.go\<close>, \<open>models/session.go\<close>): session store, expiry and sweeper, message
    queue and long poll.
  \<^item> \<open>Persist\<close> (\<open>models/persistentJsonData.go\<close>): files of JSON values, transactions, failures, restart.
  \<^item> \<open>Rng\<close>, \<open>Stats\<close>, \<open>Items\<close>, \<open>Users\<close> (\<open>models/user.go\<close>, \<open>avatarStats.go\<close>, \<open>leaderboard.go\<close>,
    \<open>item.go\<close>, \<open>itemLoadout.go\<close>, \<open>presence.go\<close>, \<open>profileMetadata.go\<close>): users and what they own.
  \<^item> \<open>BattleServers\<close>, \<open>Lobby\<close>, \<open>LobbyLaws\<close> (\<open>models/battleServer.go\<close>, \<open>advertisement.go\<close>, \<open>peer.go\<close>,
    \<open>message.go\<close>): the lobby store, its invariant \<open>lobbies_wf\<close> and the laws of its operations as a locale.
  \<^item> \<open>World\<close> (\<open>models/game.go\<close>, \<open>chatChannel.go\<close>, \<open>routes/wss/wss.go\<close>): the record \<open>World\<close> of all stores of one
    game, the results of handlers and message delivery.
  \<^item> \<open>AdvRoutes\<close>, \<open>PartyRoutes\<close>, \<open>InviteRoutes\<close>, \<open>ChatRoutes\<close>, \<open>LoginRoutes\<close> (\<open>routes/game/...\<close>): one definition per
    handler, from a decoded request to a result and a new world.
  \<^item> \<open>Wss\<close>, \<open>WssProps\<close> (\<open>routes/wss/wss.go\<close>): the handler of a web-socket connection and the senders as interleaved
    steps, with the locks of each connection; what is reachable.
  \<^item> \<open>AuthRoutes\<close>, \<open>AuthProps\<close> (\<open>routes/router\<close>): the middleware in front of the handlers: sessions, creation of
    users, authentication with the official servers, whose replies are arguments.
  \<^item> \<open>AccountRoutes\<close>, \<open>ItemRoutes\<close>, \<open>ItemProps\<close> (\<open>routes/game/account\<close>, \<open>leaderboard\<close>, \<open>item\<close> and the handlers with fixed
    answers); \<open>CloudRoutes\<close> (\<open>routes/game/cloud\<close>, \<open>routes/cloudfiles\<close>, \<open>models/cloudfiles.go\<close>, \<open>credentials.go\<close>,
    \<open>resources.go\<close>): files that are served to the holder of a credential.
  \<^item> \<open>CommunityEvents\<close>, \<open>AthensData\<close>, \<open>Gauntlet\<close>, \<open>GauntletProps\<close>, \<open>GauntletPaths\<close> (\<open>models/athens\<close>): events, stored data and the
    random labyrinths of Age of Mythology.
  \<^item> \<open>Playfab\<close>, \<open>CloudScript\<close>, \<open>PlayfabProps\<close> (\<open>models/playfab\<close>, \<open>routes/playfab\<close>): sessions, tickets, cloud functions and
    handlers of a second service, on a record of its own that contains the world.
  \<^item> \<open>GoText\<close>, \<open>NetIP\<close>: what is used of Go's text and address functions; every address reads back from its text.
  \<^item> \<open>Domains\<close>, \<open>Hosts\<close>, \<open>HostsFile\<close>, \<open>HostsProps\<close> (\<open>common/domain.go\<close>, \<open>common/hosts\<close>,
    \<open>launcher-config-admin/internal/hosts\<close>): the names of the services, the lines of the hosts file, adding mappings to it and
    removing them, on a disk that is a map from paths to texts; any of its operations may fail.
  \<^item> \<open>UserData\<close>, \<open>UserDataProps\<close> (\<open>launcher-common/userData\<close>, \<open>launcher-config/internal/userData\<close>): the folders of game data the
    launcher sets aside while the game plays on the server, on a disk that is a map from paths to entries.
  \<^item> \<open>ConfigAdmin\<close>, \<open>ConfigAdminProps\<close> (\<open>launcher-common/cert\<close>, \<open>launcher-config-admin\<close>, \<open>launcher-config-admin-agent\<close>): the
    program that trusts certificates and maps names with administrator rights, on Linux, and the agent that starts it.
  \<^item> \<open>LauncherConfig\<close>, \<open>FlushCache\<close>, \<open>LauncherSetup\<close> (\<open>launcher-config\<close>): the game's certificate store, the client of the agent, how
    it is started and stopped, and the commands \<open>setup\<close> and \<open>revert\<close>, each a list of steps that is undone when one fails; \<open>LauncherProps\<close>, \<open>GameCertProps\<close>: a
    setup followed by its revert, with anything the game does in between, and what a failure leaves.
  \<^item> \<open>ArgsStore\<close>, \<open>ArgsStoreProps\<close> (\<open>launcher-common/argsStore.go\<close>, \<open>configRevert.go\<close>, \<open>launcher/internal/executor\<close>): flags as
    arguments, the file in which the launcher records what to revert, and reverting it.
  \<^item> \<open>Resolve\<close> (\<open>common/resolve.go\<close>, \<open>network.go\<close>): the cache of names and addresses.  \<open>Discovery\<close>, \<open>DiscoveryProps\<close>
    (\<open>server/internal/ip/announce.go\<close>, \<open>common/server\<close>, \<open>launcher/internal/server\<close>): how a launcher finds, measures and lists
    the servers of the network.
  \<^item> \<open>LauncherTrust\<close> (\<open>launcher/internal/cmdUtils\<close>): the steps by which the launcher makes the game reach a server.
  \<^item> \<open>Examples\<close>: a concrete world for the witnesses; \<open>AdvProps\<close>, \<open>LoginProps\<close>: properties of handlers across
    components.

  Conventions.  A handler has the type \<open>... \<Rightarrow> World \<Rightarrow> exit * World\<close>: \<open>HReturn\<close>, \<open>HPanic\<close> (a Go panic, with the
  world as it was left) or \<open>HHang\<close> (a loop that does not end).  The responses are the list \<open>w_out\<close> of the
  world, so an answer written twice is visible.  A pointer to a stored object is its key in the store.  Time, random draws, the
  order in which Go iterates over a map, the outcome of a file write and the replies of other machines
  are arguments.  A request that does not decode is \<open>None\<close>.  Integers the code narrows are words; counters
  that cannot overflow are \<open>int\<close> or \<open>nat\<close>.  Loops that draw until something is free take the draws as a
  function and return \<open>None\<close> when no draw succeeds; properties say when they return.

  What the properties show.  Stores: read your writes, refinement of an ordered list of pairs, exclusion by
  the keyed locks and the race at a key's first use.  Sessions: freshness, exact expiry, order of messages.
  Persistence: refinement of plain values and survival of a restart, and what a failure leaves.  Lobbies: a user is
  in at most one, the host is the first to have joined, a lobby with no user is deleted, searches return
  exactly the matching lobbies, invitations end once.  Login: one session per user, and nothing of a user
  is left after logout.  Connections: what is registered, which interleavings deadlock or crash.  Labyrinths: every
  generated one can be played and the generator does not panic, with six missions a pool and twelve blessings a level (no
  column has more than six nodes, no level more than two columns).  Credentials open one file; a mission is
  rewarded once; pages of an inventory are complete.  Hosts file: removing what was added gives the file back, with
  the backup or without; which address a name has in between.  Game data:
  what is set aside comes back unchanged; a session on the server, from setup to revert, leaves the user's
  folders as they were, and a setup that fails leaves nothing aside; what several
  setups record is one revert of all of them; the agent undoes all it did.  Several properties show where the code does not do what it means to; the
  findings of the manifest name them.

  Not modelled: the start of the server, reading of configuration and resource files, sockets, TLS and the
  web-socket library; the decoding of requests and JSON text (third-party packages and the standard library);
  the rest of the launcher, of the configuration tools and of the battle server manager, which call the operating system.
\<close>

end
